(* ===== verification/NSW_Prelude.thy ===== *)
theory NSW_Prelude
  imports Complex_Main "HOL-Library.List_Lexorder" "HOL-Library.Char_ord"
begin

text \<open>
  What the component theories share: the named collections their proofs are fed from, the
  Go string functions the source uses (\<open>strings.TrimSpace\<close>, \<open>Split\<close>, \<open>Join\<close>,
  \<open>TrimSuffix\<close> and their kin) on byte strings, finite Go maps as association lists, and
  a few lemmas on lists and results.

  A Go string is a \<open>string\<close>: the list of its bytes. Go compares strings bytewise, which is
  the order that List_Lexorder and Char_ord give on \<open>string\<close>, so \<open>sort\<close> is
  \<open>sort.Strings\<close>. A fallible function returns a sum, \<open>Inl\<close> the error. A Go map that is
  iterated is an association list read with \<open>map_of\<close>.
\<close>

named_theorems authz_defs "definitions of the task authorization functions"
named_theorems flow_defs "definitions of the case flow operations"
named_theorems row_simps "row-level facts of the stores"
named_theorems svc_defs "definitions of the callback services"

subsection \<open>Results\<close>

definition is_ok :: "'e + 'a \<Rightarrow> bool" where
  "is_ok r = (case r of Inl _ \<Rightarrow> False | Inr _ \<Rightarrow> True)"

lemma is_ok_simps [simp]: "\<not> is_ok (Inl e)" "is_ok (Inr x)"
  by (simp_all add: is_ok_def)

lemma is_ok_iff: "is_ok r \<longleftrightarrow> (\<exists>x. r = Inr x)"
  by (cases r) simp_all

text \<open>Running one fallible step after another.\<close>

lemma bind_ok: "(case r of Inl e \<Rightarrow> Inl e | Inr x \<Rightarrow> k x) = Inr y \<longleftrightarrow> (\<exists>x. r = Inr x \<and> k x = Inr y)"
  by (cases r) auto

subsection \<open>Lists\<close>

lemma find_SomeD: "List.find p xs = Some x \<Longrightarrow> x \<in> set xs \<and> p x"
  by (auto simp: find_Some_iff)

lemma find_None_filter: "List.find p xs = None \<longleftrightarrow> filter p xs = []"
  by (auto simp: find_None_iff filter_empty_conv)

lemma find_cong_on: "(\<And>x. x \<in> set xs \<Longrightarrow> p x = q x) \<Longrightarrow> List.find p xs = List.find q xs"
  by (induction xs) auto

text \<open>The first element a list holds that satisfies a predicate, with what stands before it.\<close>

lemma find_Some_split:
  "List.find p xs = Some x \<longleftrightarrow> (\<exists>us vs. xs = us @ x # vs \<and> p x \<and> (\<forall>y \<in> set us. \<not> p y))"
proof
  assume "List.find p xs = Some x"
  then show "\<exists>us vs. xs = us @ x # vs \<and> p x \<and> (\<forall>y \<in> set us. \<not> p y)"
  proof (induction xs)
    case (Cons y ys)
    show ?case
    proof (cases "p y")
      case True
      with Cons.prems have "y # ys = [] @ x # ys \<and> p x" by simp
      then show ?thesis by fastforce
    next
      case False
      with Cons obtain us vs where "ys = us @ x # vs" "p x" "\<forall>y \<in> set us. \<not> p y" by auto
      with False have "y # ys = (y # us) @ x # vs \<and> p x \<and> (\<forall>z \<in> set (y # us). \<not> p z)" by simp
      then show ?thesis by blast
    qed
  qed simp
next
  assume "\<exists>us vs. xs = us @ x # vs \<and> p x \<and> (\<forall>y \<in> set us. \<not> p y)"
  then obtain us vs where "xs = us @ x # vs" "p x" "\<forall>y \<in> set us. \<not> p y" by blast
  then show "List.find p xs = Some x" by (induction us arbitrary: xs) auto
qed

subsection \<open>Go strings\<close>

text \<open>
  The byte sequences of the runes \<open>unicode.IsSpace\<close> holds for: the ASCII spaces, then
  U+0085, U+00A0, U+1680, U+2000 to U+200A, U+2028, U+2029, U+202F, U+205F and U+3000 in
  UTF-8.
\<close>

definition go_spaces :: "string list" where
  "go_spaces =
     [[CHR 0x09], [CHR 0x0A], [CHR 0x0B], [CHR 0x0C], [CHR 0x0D], [CHR 0x20],
      [CHR 0xC2, CHR 0x85], [CHR 0xC2, CHR 0xA0], [CHR 0xE1, CHR 0x9A, CHR 0x80],
      [CHR 0xE2, CHR 0x80, CHR 0x80], [CHR 0xE2, CHR 0x80, CHR 0x81], [CHR 0xE2, CHR 0x80, CHR 0x82],
      [CHR 0xE2, CHR 0x80, CHR 0x83], [CHR 0xE2, CHR 0x80, CHR 0x84], [CHR 0xE2, CHR 0x80, CHR 0x85],
      [CHR 0xE2, CHR 0x80, CHR 0x86], [CHR 0xE2, CHR 0x80, CHR 0x87], [CHR 0xE2, CHR 0x80, CHR 0x88],
      [CHR 0xE2, CHR 0x80, CHR 0x89], [CHR 0xE2, CHR 0x80, CHR 0x8A], [CHR 0xE2, CHR 0x80, CHR 0xA8],
      [CHR 0xE2, CHR 0x80, CHR 0xA9], [CHR 0xE2, CHR 0x80, CHR 0xAF], [CHR 0xE2, CHR 0x81, CHR 0x9F],
      [CHR 0xE3, CHR 0x80, CHR 0x80]]"

fun has_prefix :: "string \<Rightarrow> string \<Rightarrow> bool" where
  "has_prefix [] s = True"
| "has_prefix (p # ps) [] = False"
| "has_prefix (p # ps) (c # cs) = (p = c \<and> has_prefix ps cs)"

definition has_suffix :: "string \<Rightarrow> string \<Rightarrow> bool" where
  "has_suffix p s = has_prefix (rev p) (rev s)"

lemma has_prefix_iff: "has_prefix p s \<longleftrightarrow> (\<exists>t. s = p @ t)"
  by (induction p s rule: has_prefix.induct) auto

lemma has_suffix_iff: "has_suffix p s \<longleftrightarrow> (\<exists>t. s = t @ p)"
proof -
  have "has_prefix (rev p) (rev s) \<longleftrightarrow> (\<exists>t. rev s = rev p @ t)"
    by (rule has_prefix_iff)
  also have "\<dots> \<longleftrightarrow> (\<exists>t. s = t @ p)"
    by (metis rev_append rev_rev_ident)
  finally show ?thesis by (simp add: has_suffix_def)
qed

text \<open>Drops, from the front, every leading sequence of \<open>seqs\<close>; fuel is the string's length.\<close>

fun strip_front :: "nat \<Rightarrow> string list \<Rightarrow> string \<Rightarrow> string" where
  "strip_front 0 seqs s = s"
| "strip_front (Suc n) seqs s =
     (case List.find (\<lambda>p. has_prefix p s) seqs of
        None \<Rightarrow> s
      | Some p \<Rightarrow> strip_front n seqs (drop (length p) s))"

definition trim_left :: "string \<Rightarrow> string" where
  "trim_left s = strip_front (length s) go_spaces s"

definition trim_right :: "string \<Rightarrow> string" where
  "trim_right s = rev (strip_front (length s) (map rev go_spaces) (rev s))"

definition trim_space :: "string \<Rightarrow> string" where
  "trim_space s = trim_right (trim_left s)"

lemma strip_front_Nil [simp]: "strip_front n seqs [] = []"
  by (induction n) (auto split: option.splits)

lemma trim_space_Nil [simp]: "trim_space [] = []"
  by (simp add: trim_space_def trim_left_def trim_right_def)

text \<open>The fuel is enough: what is left starts with no space.\<close>

lemma strip_front_done:
  assumes "\<forall>p \<in> set seqs. p \<noteq> []" and "length s \<le> n"
  shows "\<forall>p \<in> set seqs. \<not> has_prefix p (strip_front n seqs s)"
  using assms
proof (induction n arbitrary: s)
  case 0
  then have "s = []" by simp
  with 0 show ?case by (auto simp: has_prefix_iff)
next
  case (Suc n)
  show ?case
  proof (cases "List.find (\<lambda>p. has_prefix p s) seqs")
    case None
    then have "\<forall>p \<in> set seqs. \<not> has_prefix p s" by (auto simp: find_None_iff)
    with None show ?thesis by simp
  next
    case (Some p)
    then have p: "p \<in> set seqs" "has_prefix p s" by (auto dest: find_SomeD)
    with Suc.prems have "p \<noteq> []" by blast
    with Suc.prems(2) have "length (drop (length p) s) \<le> n" by (cases p) simp_all
    with Suc.IH Suc.prems(1) Some show ?thesis by auto
  qed
qed

definition blank :: "string \<Rightarrow> bool" where
  "blank s = (trim_space s = [])"

lemma blank_Nil [simp]: "blank []"
  by (simp add: blank_def)

text \<open>\<open>strings.Split\<close> and \<open>strings.Join\<close> with a one-byte separator.\<close>

fun split_on :: "char \<Rightarrow> string \<Rightarrow> string list" where
  "split_on c [] = [[]]"
| "split_on c (x # xs) =
     (if x = c then [] # split_on c xs
      else (case split_on c xs of [] \<Rightarrow> [[x]] | p # ps \<Rightarrow> (x # p) # ps))"

fun join_with :: "string \<Rightarrow> string list \<Rightarrow> string" where
  "join_with sep [] = []"
| "join_with sep [p] = p"
| "join_with sep (p # q # ps) = p @ sep @ join_with sep (q # ps)"

lemma split_on_not_Nil [simp]: "split_on c s \<noteq> []"
  by (induction s) (auto split: list.splits)

lemma split_on_parts: "p \<in> set (split_on c s) \<Longrightarrow> c \<notin> set p"
  by (induction s arbitrary: p) (fastforce split: if_splits list.splits)+

lemma join_split: "join_with [c] (split_on c s) = s"
proof (induction s)
  case (Cons x xs)
  then show ?case
    by (cases "split_on c xs"; cases "tl (split_on c xs)") auto
qed simp

lemma split_on_no_sep: "c \<notin> set p \<Longrightarrow> split_on c p = [p]"
  by (induction p) auto

lemma split_on_append: "c \<notin> set p \<Longrightarrow> split_on c (p @ c # s) = p # split_on c s"
  by (induction p) auto

lemma split_join:
  assumes "ps \<noteq> []" and "\<forall>p \<in> set ps. c \<notin> set p"
  shows "split_on c (join_with [c] ps) = ps"
  using assms by (induction "[c]" ps rule: join_with.induct) (auto simp: split_on_no_sep split_on_append)

text \<open>\<open>utf8.RuneCountInString\<close> of a valid UTF-8 string: its bytes but the continuation bytes.\<close>

definition rune_count :: "string \<Rightarrow> nat" where
  "rune_count s = length (filter (\<lambda>c. of_char c div (64::nat) \<noteq> 2) s)"

lemma rune_count_le: "rune_count s \<le> length s"
  by (simp add: rune_count_def)

text \<open>Decimal digits of a natural number, as \<open>%d\<close> prints it.\<close>

definition digit_char :: "nat \<Rightarrow> char" where
  "digit_char d = char_of (48 + d mod 10)"

fun show_nat :: "nat \<Rightarrow> string" where
  "show_nat n = (if n < 10 then [digit_char n] else show_nat (n div 10) @ [digit_char (n mod 10)])"

declare show_nat.simps [simp del]

definition show_int :: "int \<Rightarrow> string" where
  "show_int i = (if i < 0 then CHR ''-'' # show_nat (nat (- i)) else show_nat (nat i))"

lemma digit_char_inj: "d < 10 \<Longrightarrow> e < 10 \<Longrightarrow> digit_char d = digit_char e \<Longrightarrow> d = e"
proof -
  assume "d < 10" "e < 10" "digit_char d = digit_char e"
  then have "of_char (char_of (48 + d) :: char) = (of_char (char_of (48 + e) :: char) :: nat)"
    by (simp add: digit_char_def)
  with \<open>d < 10\<close> \<open>e < 10\<close> show "d = e" by simp
qed

lemma digit_char_range: "of_char (digit_char d) \<in> {48..(57::nat)}"
proof -
  have m: "d mod 10 < 10" by simp
  then have "(48 + d mod 10) mod 256 = 48 + d mod 10" by (intro mod_less) linarith
  with m show ?thesis by (simp add: digit_char_def)
qed

lemma show_nat_digits: "c \<in> set (show_nat n) \<Longrightarrow> of_char c \<in> {48..(57::nat)}"
proof (induction n rule: show_nat.induct)
  case (1 n)
  then show ?case
    using digit_char_range [of n] digit_char_range [of "n mod 10"]
    by (subst (asm) (2) show_nat.simps) (auto split: if_splits)
qed

lemma show_nat_not_Nil [simp]: "show_nat n \<noteq> []"
  by (subst show_nat.simps) simp

lemma show_nat_Nil_iff [simp]: "[] \<noteq> show_nat n"
  using show_nat_not_Nil [of n] by metis

lemma show_nat_inj: "show_nat m = show_nat n \<Longrightarrow> m = n"
proof (induction m arbitrary: n rule: show_nat.induct)
  case (1 m)
  have split: "show_nat k = (if k < 10 then [digit_char k] else show_nat (k div 10) @ [digit_char (k mod 10)])" for k
    by (rule show_nat.simps)
  show ?case
  proof (cases "m < 10")
    case True
    with "1.prems" have "n < 10"
      by (simp add: split [of m] split [of n] split: if_splits)
    with True "1.prems" show ?thesis
      by (simp add: split [of m] split [of n] digit_char_inj)
  next
    case False
    with "1.prems" have n: "\<not> n < 10"
      by (auto simp: split [of m] split [of n] split: if_splits)
    with False "1.prems" have "show_nat (m div 10) = show_nat (n div 10)" "digit_char (m mod 10) = digit_char (n mod 10)"
      by (simp_all add: split [of m] split [of n])
    with "1.IH" [OF False] have "m div 10 = n div 10" "m mod 10 = n mod 10"
      by (auto intro: digit_char_inj)
    then show ?thesis by (metis div_mult_mod_eq)
  qed
qed

text \<open>\<open>strconv.Atoi\<close>: an optional sign and decimal digits, in the range of \<open>int\<close>.\<close>

fun digits_value :: "nat \<Rightarrow> string \<Rightarrow> nat option" where
  "digits_value n [] = Some n"
| "digits_value n (c # cs) =
     (let d = of_char c :: nat in if 48 \<le> d \<and> d \<le> 57 then digits_value (10 * n + (d - 48)) cs else None)"

definition atoi :: "string \<Rightarrow> int option" where
  "atoi s =
     (let (neg, ds) = (case s of c # cs \<Rightarrow> if c = CHR ''-'' then (True, cs) else if c = CHR ''+'' then (False, cs) else (False, s)
                       | [] \<Rightarrow> (False, s))
      in if ds = [] then None
         else case digits_value 0 ds of
           None \<Rightarrow> None
         | Some n \<Rightarrow>
             (let i = (if neg then - int n else int n) in
              if - (2 ^ 63) \<le> i \<and> i < 2 ^ 63 then Some i else None))"

lemma digits_value_append: "digits_value n (xs @ [c]) = (case digits_value n xs of None \<Rightarrow> None
    | Some m \<Rightarrow> (let d = of_char c :: nat in if 48 \<le> d \<and> d \<le> 57 then Some (10 * m + (d - 48)) else None))"
  by (induction xs arbitrary: n) (auto simp: Let_def)

lemma digit_char_value: "(of_char (digit_char d) :: nat) = 48 + d mod 10"
proof -
  have "(48 + d mod 10) mod 256 = 48 + d mod 10" by (intro mod_less) (use pos_mod_bound [of 10 d] in simp)
  then show ?thesis by (simp add: digit_char_def)
qed

lemma digits_value_show: "digits_value 0 (show_nat n) = Some n"
proof (induction n rule: show_nat.induct)
  case (1 n)
  show ?case
  proof (cases "n < 10")
    case True
    then show ?thesis by (subst show_nat.simps) (simp add: digit_char_value)
  next
    case False
    then have "digits_value 0 (show_nat n) = Some (10 * (n div 10) + n mod 10)"
      by (subst show_nat.simps) (simp add: 1 digits_value_append digit_char_value)
    then show ?thesis by simp
  qed
qed

lemma show_nat_head: "show_nat n = c # cs \<Longrightarrow> c \<noteq> CHR ''-'' \<and> c \<noteq> CHR ''+''"
proof -
  assume "show_nat n = c # cs"
  then have "of_char c \<in> {48..(57::nat)}" using show_nat_digits [of c n] by simp
  then show ?thesis by auto
qed

lemma atoi_show: "int n < 2 ^ 63 \<Longrightarrow> atoi (show_nat n) = Some (int n)"
  using show_nat_head [of n] digits_value_show [of n]
  by (cases "show_nat n") (auto simp: atoi_def)

end
