(* ===== verification/Go_Json.thy ===== *)
theory Go_Json
  imports NSW_Prelude
begin

text \<open>
  JSON as the source sees it through \<open>encoding/json\<close>. A value decoded into \<open>any\<close> is
  a \<open>json\<close>: an object is a \<open>map[string]any\<close>, here its members in document order with
  distinct names (a repeated name keeps the last value), a number is the rational its float64
  is. A \<open>json.RawMessage\<close> is a \<open>raw_message\<close>: no bytes, bytes that are not JSON, or a
  document. Decoding into a struct matches a member's name exactly or under simple case
  folding, the later member winning; \<open>null\<close> leaves a string empty and a slice or map nil.
\<close>

datatype json =
    JNull
  | JBool bool
  | JNum rat
  | JStr string
  | JArr "json list"
  | JObj "(string \<times> json) list"

datatype raw_message = NoBytes | NotJson string | Doc json

subsection \<open>Objects\<close>

definition obj_get :: "(string \<times> json) list \<Rightarrow> string \<Rightarrow> json option" where
  "obj_get kvs k = map_of kvs k"

fun obj_put :: "string \<Rightarrow> json \<Rightarrow> (string \<times> json) list \<Rightarrow> (string \<times> json) list" where
  "obj_put k v [] = [(k, v)]"
| "obj_put k v ((k', v') # kvs) = (if k = k' then (k, v) # kvs else (k', v') # obj_put k v kvs)"

lemma map_of_obj_put [simp]: "map_of (obj_put k v kvs) = (map_of kvs)(k \<mapsto> v)"
  by (induction k v kvs rule: obj_put.induct) (auto simp: fun_eq_iff)

lemma obj_get_put: "obj_get (obj_put k v kvs) k' = (if k' = k then Some v else obj_get kvs k')"
  by (simp add: obj_get_def)

lemma dom_obj_put: "map_of kvs k = Some w \<Longrightarrow> map fst (obj_put k v kvs) = map fst kvs"
  by (induction k v kvs rule: obj_put.induct) auto

lemma obj_put_same: "map_of kvs k = Some v \<Longrightarrow> obj_put k v kvs = kvs"
  by (induction k v kvs rule: obj_put.induct) (auto split: if_splits)

lemma obj_get_size: "obj_get kvs k = Some v \<Longrightarrow> size v < size (JObj kvs)"
proof -
  assume "obj_get kvs k = Some v"
  then have "(k, v) \<in> set kvs" by (simp add: obj_get_def map_of_SomeD)
  then have "size_prod (\<lambda>x. 0) size (k, v) \<le> size_list (size_prod (\<lambda>x. 0) size) kvs"
    by (rule size_list_estimation') simp
  then show ?thesis by simp
qed

subsection \<open>Struct fields\<close>

text \<open>
  \<open>encoding/json\<close>'s name folding: ASCII letters to lower case, and the two runes outside
  ASCII that fold to one, U+017F to s and U+212A to k.
\<close>

definition lower_ascii :: "char \<Rightarrow> char" where
  "lower_ascii c = (let n = of_char c in if 65 \<le> n \<and> n \<le> (90::nat) then char_of (n + 32) else c)"

fun fold_name :: "string \<Rightarrow> string" where
  "fold_name (a # b # c # s) =
     (if a = CHR 0xE2 \<and> b = CHR 0x84 \<and> c = CHR 0xAA then CHR ''k'' # fold_name s
      else if a = CHR 0xC5 \<and> b = CHR 0xBF then CHR ''s'' # fold_name (c # s)
      else lower_ascii a # fold_name (b # c # s))"
| "fold_name [a, b] = (if a = CHR 0xC5 \<and> b = CHR 0xBF then ''s'' else [lower_ascii a, lower_ascii b])"
| "fold_name [a] = [lower_ascii a]"
| "fold_name [] = []"

definition field_get :: "(string \<times> json) list \<Rightarrow> string \<Rightarrow> json option" where
  "field_get kvs name = map_option snd (List.find (\<lambda>(k, _). fold_name k = fold_name name) (rev kvs))"

subsection \<open>Typed decoding\<close>

text \<open>\<open>string\<close>: null leaves it empty.\<close>

fun decode_string :: "json \<Rightarrow> string option" where
  "decode_string JNull = Some []"
| "decode_string (JStr s) = Some s"
| "decode_string _ = None"

text \<open>\<open>[]string\<close>: null is nil.\<close>

fun decode_strings :: "json \<Rightarrow> string list option" where
  "decode_strings JNull = Some []"
| "decode_strings (JArr js) = those (map decode_string js)"
| "decode_strings _ = None"

text \<open>\<open>int64\<close>: an integer in range, null leaving it zero.\<close>

definition int64_ok :: "int \<Rightarrow> bool" where
  "int64_ok i = (- (2 ^ 63) \<le> i \<and> i < 2 ^ 63)"

fun decode_int64 :: "json \<Rightarrow> int option" where
  "decode_int64 JNull = Some 0"
| "decode_int64 (JNum r) =
     (let (n, d) = quotient_of r in if d = 1 \<and> int64_ok n then Some n else None)"
| "decode_int64 _ = None"

lemma decode_int64_of_int [simp]: "decode_int64 (JNum (of_int i)) = (if int64_ok i then Some i else None)"
  by (simp add: quotient_of_int)

fun decode_members :: "(json \<Rightarrow> 'a option) \<Rightarrow> (string \<times> json) list \<Rightarrow> (string \<times> 'a) list option" where
  "decode_members d [] = Some []"
| "decode_members d ((k, v) # kvs) =
     (case d v of None \<Rightarrow> None
      | Some x \<Rightarrow> (case decode_members d kvs of None \<Rightarrow> None | Some xs \<Rightarrow> Some ((k, x) # xs)))"

text \<open>A map from names to values decoded by \<open>d\<close>: null is the nil map.\<close>

fun decode_map :: "(json \<Rightarrow> 'a option) \<Rightarrow> json \<Rightarrow> (string \<times> 'a) list option" where
  "decode_map d JNull = Some []"
| "decode_map d (JObj kvs) = decode_members d kvs"
| "decode_map d _ = None"

subsection \<open>Members\<close>

text \<open>An absent member leaves a field as null does, except a raw message's.\<close>

definition member :: "(string \<times> json) list \<Rightarrow> string \<Rightarrow> json" where
  "member kvs name = (case field_get kvs name of None \<Rightarrow> JNull | Some v \<Rightarrow> v)"

definition raw_member :: "(string \<times> json) list \<Rightarrow> string \<Rightarrow> raw_message" where
  "raw_member kvs name = (case field_get kvs name of None \<Rightarrow> NoBytes | Some v \<Rightarrow> Doc v)"

fun decode_struct :: "((string \<times> json) list \<Rightarrow> 'a option) \<Rightarrow> json \<Rightarrow> 'a option" where
  "decode_struct d JNull = d []"
| "decode_struct d (JObj kvs) = d kvs"
| "decode_struct d _ = None"

fun decode_float :: "json \<Rightarrow> rat option" where
  "decode_float JNull = Some 0"
| "decode_float (JNum r) = Some r"
| "decode_float _ = None"

fun decode_bool :: "json \<Rightarrow> bool option" where
  "decode_bool JNull = Some False"
| "decode_bool (JBool b) = Some b"
| "decode_bool _ = None"

definition decode_pointer :: "(json \<Rightarrow> 'a option) \<Rightarrow> json \<Rightarrow> 'a option option" where
  "decode_pointer d v = (if v = JNull then Some None else map_option Some (d v))"

fun decode_slice :: "(json \<Rightarrow> 'a option) \<Rightarrow> json \<Rightarrow> 'a list option option" where
  "decode_slice d JNull = Some None"
| "decode_slice d (JArr vs) = map_option Some (those (map d vs))"
| "decode_slice d _ = None"

end
