(* ===== verification/Plugin_Steps.thy ===== *)
theory Plugin_Steps
  imports Go_Json
begin

text \<open>
  \<open>internal/tasks/plugins/common.go\<close> and what a plugin sees of core's task flow: the step's
  inputs, its output namespace and the task record it may change, and how a step ends. A plugin
  advances at once, parks its step for a callback, or fails; a permanent failure parks the step
  for an admin, any other is retried by the engine. The record is \<open>None\<close> when the context has
  none, a nil data map is the empty one. What core makes of a remote service's error is a
  parameter wherever a plugin asks it.
\<close>

datatype error_type = ErrorTypeConfig | ErrorTypeInput | ErrorTypeNamed string

datatype 'e plugin_error = Permanent error_type 'e | Retryable 'e

definition configError :: "'e \<Rightarrow> 'e plugin_error" where
  "configError e = Permanent ErrorTypeConfig e"

definition inputError :: "'e \<Rightarrow> 'e plugin_error" where
  "inputError e = Permanent ErrorTypeInput e"

fun error_of :: "'e plugin_error \<Rightarrow> 'e" where
  "error_of (Permanent t e) = e"
| "error_of (Retryable e) = e"

fun permanent :: "'e plugin_error \<Rightarrow> bool" where
  "permanent (Permanent t e) = True"
| "permanent (Retryable e) = False"

lemma marked_errors [simp]:
  "permanent (configError e)" "permanent (inputError e)" "error_of (configError e) = e" "error_of (inputError e) = e"
  "configError e \<noteq> inputError e'" "inputError e' \<noteq> configError e"
  "configError e = configError e' \<longleftrightarrow> e = e'" "inputError e = inputError e' \<longleftrightarrow> e = e'"
  by (auto simp: configError_def inputError_def)

record plug_record =
  pl_task :: string
  pl_case :: string
  pl_parent :: string
  pl_state :: string
  pl_data :: "(string \<times> json) list"

record plugin_context =
  px_inputs :: "(string \<times> json) list"
  px_namespace :: string
  px_record :: "plug_record option"

datatype 'e step_end = Advanced | Suspended | Failed "'e plugin_error"

text \<open>\<open>ctx.Inputs[name]\<close> as a string, empty when it is none.\<close>

definition input_string :: "plugin_context \<Rightarrow> string \<Rightarrow> string" where
  "input_string ctx name = (case obj_get (px_inputs ctx) name of Some (JStr s) \<Rightarrow> s | _ \<Rightarrow> [])"

definition put_data :: "string \<Rightarrow> json \<Rightarrow> plug_record \<Rightarrow> plug_record" where
  "put_data name v rec = rec\<lparr>pl_data := obj_put name v (pl_data rec)\<rparr>"

lemma put_data_sel [simp]:
  "pl_task (put_data n v r) = pl_task r" "pl_case (put_data n v r) = pl_case r" "pl_state (put_data n v r) = pl_state r"
  "pl_parent (put_data n v r) = pl_parent r"
  "obj_get (pl_data (put_data n v r)) k = (if k = n then Some v else obj_get (pl_data r) k)"
  by (simp_all add: put_data_def obj_get_put)

end
