(* ===== verification/Edge_Documents.thy ===== *)
theory Edge_Documents
  imports Go_Json
begin

text \<open>
  What the two ASYCUDA callback services share (\<open>external-integration/customs/asycuda\<close>):
  the registered reference of a document (\<open>document\<close>), the table rows
  \<open>CusdecDeclaration\<close> and \<open>DispatchNote\<close> with their repositories, and the search for the
  task a callback answers (\<open>parkedtask\<close>). The rows differ only in their status type, so the
  tables are one polymorphic model. The locale \<open>document_table\<close> is the contract the services
  rely on.
\<close>

subsection \<open>References\<close>

record doc_ref =
  dr_year :: string
  dr_office :: string
  dr_serial :: string
  dr_number :: int

definition IsValid :: "doc_ref \<Rightarrow> bool" where
  "IsValid r = (dr_year r \<noteq> [] \<and> dr_office r \<noteq> [] \<and> dr_serial r \<noteq> [] \<and> dr_number r > 0)"

definition ref_String :: "doc_ref \<Rightarrow> string" where
  "ref_String r = join_with ''/'' [dr_office r, dr_year r, dr_serial r, show_int (dr_number r)]"

datatype ref_error = NotFourParts | NoNumber | IncompleteRef

definition ParseReference :: "string \<Rightarrow> ref_error + doc_ref" where
  "ParseReference s =
     (case split_on CHR ''/'' (trim_space s) of
        [office, year, serial, num] \<Rightarrow>
          (case atoi (trim_space num) of
             None \<Rightarrow> Inl NoNumber
           | Some number \<Rightarrow>
               (let ref = \<lparr>dr_year = trim_space year, dr_office = trim_space office, dr_serial = trim_space serial, dr_number = number\<rparr> in
                if \<not> IsValid ref then Inl IncompleteRef else Inr ref))
      | _ \<Rightarrow> Inl NotFourParts)"

subsection \<open>Tables\<close>

record 's doc_row =
  d_id :: string
  d_edge_id :: string
  d_status :: 's
  d_ref :: doc_ref
  d_errors :: raw_message
  d_case_id :: string
  d_workflow_id :: string
  d_created :: nat

definition no_ref :: doc_ref where
  "no_ref = \<lparr>dr_year = [], dr_office = [], dr_serial = [], dr_number = 0\<rparr>"

text \<open>gorm's \<open>First\<close>: the matching row with the least primary key.\<close>

definition first_row :: "('s doc_row \<Rightarrow> bool) \<Rightarrow> 's doc_row list \<Rightarrow> 's doc_row option" where
  "first_row p rows = List.find (\<lambda>r. p r \<and> (\<forall>r' \<in> set rows. p r' \<longrightarrow> d_id r \<le> d_id r')) rows"

definition GetByEdgeID :: "string \<Rightarrow> 's doc_row list \<Rightarrow> 's doc_row option" where
  "GetByEdgeID edgeID rows = first_row (\<lambda>d. d_edge_id d = edgeID) rows"

definition GetByRef :: "doc_ref \<Rightarrow> 's doc_row list \<Rightarrow> 's doc_row option" where
  "GetByRef ref rows = first_row (\<lambda>d. d_ref d = ref) rows"

definition GetRegisteredByCase :: "string \<Rightarrow> 's doc_row list \<Rightarrow> 's doc_row option" where
  "GetRegisteredByCase caseID rows =
     (case sort_key (\<lambda>d. - int (d_created d)) (filter (\<lambda>d. d_case_id d = caseID \<and> dr_number (d_ref d) > 0) rows) of
        [] \<Rightarrow> None | r # _ \<Rightarrow> Some r)"

definition RecordSubmitted :: "'s \<Rightarrow> string \<Rightarrow> nat \<Rightarrow> string \<Rightarrow> string \<Rightarrow> string \<Rightarrow> 's doc_row list \<Rightarrow> 's doc_row list" where
  "RecordSubmitted submitted uuid now edgeID caseID workflowID rows =
     (if list_ex (\<lambda>d. d_edge_id d = edgeID) rows then rows
      else rows @ [\<lparr>d_id = uuid, d_edge_id = edgeID, d_status = submitted, d_ref = no_ref, d_errors = NoBytes,
                    d_case_id = caseID, d_workflow_id = workflowID, d_created = now\<rparr>])"

text \<open>\<open>Update\<close> writes the status, the reference and the errors of the row with the same id.\<close>

definition Update_doc :: "'s doc_row \<Rightarrow> 's doc_row list \<Rightarrow> 's doc_row list" where
  "Update_doc d rows =
     map (\<lambda>r. if d_id r = d_id d then r\<lparr>d_status := d_status d, d_ref := d_ref d, d_errors := d_errors d\<rparr> else r) rows"

definition table_ok :: "'s doc_row list \<Rightarrow> bool" where
  "table_ok rows = (distinct (map d_id rows) \<and> distinct (map d_edge_id rows))"

subsection \<open>The contract of a document table\<close>

locale document_table =
  fixes by_edge :: "string \<Rightarrow> 'db \<Rightarrow> 's doc_row option"
    and by_ref :: "doc_ref \<Rightarrow> 'db \<Rightarrow> 's doc_row option"
    and upd :: "'s doc_row \<Rightarrow> 'db \<Rightarrow> 'db"
    and db_ok :: "'db \<Rightarrow> bool"
  assumes upd_ok: "db_ok db \<Longrightarrow> db_ok (upd d db)"
    and upd_same: "db_ok db \<Longrightarrow> by_edge e db = Some r \<Longrightarrow>
        by_edge e (upd (r\<lparr>d_status := s, d_ref := f, d_errors := m\<rparr>) db) = Some (r\<lparr>d_status := s, d_ref := f, d_errors := m\<rparr>)"
    and upd_other: "db_ok db \<Longrightarrow> by_edge e db = Some r \<Longrightarrow> e' \<noteq> e \<Longrightarrow>
        by_edge e' (upd (r\<lparr>d_status := s, d_ref := f, d_errors := m\<rparr>) db) = by_edge e' db"
    and ref_edge: "db_ok db \<Longrightarrow> by_ref f db = Some r \<Longrightarrow> by_edge (d_edge_id r) db = Some r \<and> d_ref r = f"
    and ref_keep: "db_ok db \<Longrightarrow> by_ref f db = Some r \<Longrightarrow>
        by_ref f (upd (r\<lparr>d_status := s\<rparr>) db) = Some (r\<lparr>d_status := s\<rparr>)"
begin

lemma upd_status_edge:
  assumes "db_ok db" and "by_ref f db = Some r"
  shows "by_edge (d_edge_id r) (upd (r\<lparr>d_status := s\<rparr>) db) = Some (r\<lparr>d_status := s\<rparr>)"
proof -
  have "by_edge (d_edge_id r) db = Some r" using ref_edge [OF assms] by simp
  from upd_same [OF assms(1) this, where s = s and f = "d_ref r" and m = "d_errors r"] show ?thesis by simp
qed

lemma upd_status_other:
  assumes "db_ok db" and "by_ref f db = Some r" and "e \<noteq> d_edge_id r"
  shows "by_edge e (upd (r\<lparr>d_status := s\<rparr>) db) = by_edge e db"
proof -
  have "by_edge (d_edge_id r) db = Some r" using ref_edge [OF assms(1,2)] by simp
  from upd_other [OF assms(1) this assms(3), where s = s and f = "d_ref r" and m = "d_errors r"] show ?thesis by simp
qed

end

subsection \<open>The tables keep it\<close>

lemma first_row_iff:
  assumes "distinct (map d_id rows)"
  shows "first_row p rows = Some r \<longleftrightarrow> r \<in> set rows \<and> p r \<and> (\<forall>r' \<in> set rows. p r' \<longrightarrow> d_id r \<le> d_id r')"
proof
  assume "first_row p rows = Some r"
  then show "r \<in> set rows \<and> p r \<and> (\<forall>r' \<in> set rows. p r' \<longrightarrow> d_id r \<le> d_id r')"
    unfolding first_row_def by (auto dest!: find_SomeD)
next
  assume r: "r \<in> set rows \<and> p r \<and> (\<forall>r' \<in> set rows. p r' \<longrightarrow> d_id r \<le> d_id r')"
  have "first_row p rows \<noteq> None"
    using r unfolding first_row_def find_None_iff by blast
  then obtain q where q: "first_row p rows = Some q" by blast
  then have "q \<in> set rows" "p q" "d_id q \<le> d_id r" using r unfolding first_row_def by (auto dest!: find_SomeD)
  with r have "d_id q = d_id r" by (meson order_antisym)
  with assms r \<open>q \<in> set rows\<close> have "q = r" by (metis distinct_map inj_onD)
  with q show "first_row p rows = Some r" by simp
qed

lemma first_row_SomeD: "first_row p rows = Some r \<Longrightarrow> r \<in> set rows \<and> p r"
  unfolding first_row_def by (auto dest!: find_SomeD)

lemma GetByEdgeID_iff: "table_ok rows \<Longrightarrow> GetByEdgeID e rows = Some r \<longleftrightarrow> r \<in> set rows \<and> d_edge_id r = e"
  unfolding GetByEdgeID_def by (subst first_row_iff) (auto simp: table_ok_def distinct_map inj_on_def)

lemma GetByEdgeID_None: "GetByEdgeID e rows = None \<longleftrightarrow> e \<notin> d_edge_id ` set rows" if "table_ok rows"
  using GetByEdgeID_iff [OF that, of e] by (cases "GetByEdgeID e rows") fastforce+

lemma Update_doc_keys [simp]:
  "map d_id (Update_doc d rows) = map d_id rows" "map d_edge_id (Update_doc d rows) = map d_edge_id rows"
  by (auto simp: Update_doc_def)

lemma Update_doc_table_ok: "table_ok rows \<Longrightarrow> table_ok (Update_doc d rows)"
  by (simp add: table_ok_def)

text \<open>What \<open>Update\<close> leaves, given a changed copy of a row of the table.\<close>

lemma in_Update_doc:
  assumes "table_ok rows" and "r \<in> set rows"
  shows "x \<in> set (Update_doc (r\<lparr>d_status := s, d_ref := f, d_errors := m\<rparr>) rows) \<longleftrightarrow>
    x = r\<lparr>d_status := s, d_ref := f, d_errors := m\<rparr> \<or> x \<in> set rows \<and> d_id x \<noteq> d_id r"
proof -
  have "y = r" if "y \<in> set rows" "d_id y = d_id r" for y
    using assms that by (auto simp: table_ok_def distinct_map inj_on_def)
  then have e: "Update_doc (r\<lparr>d_status := s, d_ref := f, d_errors := m\<rparr>) rows =
      map (\<lambda>y. if d_id y = d_id r then r\<lparr>d_status := s, d_ref := f, d_errors := m\<rparr> else y) rows"
    by (auto simp: Update_doc_def)
  show ?thesis
    unfolding e set_map image_iff using assms(2) by (auto intro: bexI [of _ r])
qed

lemma Update_doc_status_copy: "r\<lparr>d_status := s\<rparr> = r\<lparr>d_status := s, d_ref := d_ref r, d_errors := d_errors r\<rparr>"
  by simp

lemma document_table_tables: "document_table GetByEdgeID GetByRef Update_doc table_ok"
proof
  fix db :: "'s doc_row list" and d e r s f m e'
  assume ok: "table_ok db"
  have ids: "distinct (map d_id db)" using ok by (simp add: table_ok_def)
  show "table_ok (Update_doc d db)" using ok by (rule Update_doc_table_ok)
  show "GetByEdgeID e (Update_doc (r\<lparr>d_status := s, d_ref := f, d_errors := m\<rparr>) db) = Some (r\<lparr>d_status := s, d_ref := f, d_errors := m\<rparr>)"
    if "GetByEdgeID e db = Some r"
    using that ok by (simp add: GetByEdgeID_iff Update_doc_table_ok in_Update_doc)
  show "GetByEdgeID e' (Update_doc (r\<lparr>d_status := s, d_ref := f, d_errors := m\<rparr>) db) = GetByEdgeID e' db"
    if "GetByEdgeID e db = Some r" "e' \<noteq> e"
  proof -
    have r: "r \<in> set db" "d_edge_id r = e" using that(1) ok by (simp_all add: GetByEdgeID_iff)
    have "d_id x \<noteq> d_id r" if "x \<in> set db" "d_edge_id x = e'" for x
      using ids r \<open>e' \<noteq> e\<close> that by (auto simp: distinct_map inj_on_def)
    then have "GetByEdgeID e' (Update_doc (r\<lparr>d_status := s, d_ref := f, d_errors := m\<rparr>) db) = Some x \<longleftrightarrow> GetByEdgeID e' db = Some x" for x
      using ok r that(2) by (auto simp: GetByEdgeID_iff Update_doc_table_ok in_Update_doc)
    then show ?thesis by (metis not_None_eq)
  qed
  show "GetByEdgeID (d_edge_id r) db = Some r \<and> d_ref r = f" if "GetByRef f db = Some r"
    using first_row_SomeD [of "\<lambda>d. d_ref d = f" db r] that ok by (simp add: GetByEdgeID_iff GetByRef_def)
  show "GetByRef f (Update_doc (r\<lparr>d_status := s\<rparr>) db) = Some (r\<lparr>d_status := s\<rparr>)" if "GetByRef f db = Some r"
  proof -
    have r: "r \<in> set db" "d_ref r = f" "\<forall>r' \<in> set db. d_ref r' = f \<longrightarrow> d_id r \<le> d_id r'"
      using that ids by (simp_all add: GetByRef_def first_row_iff)
    have up: "x \<in> set (Update_doc (r\<lparr>d_status := s\<rparr>) db) \<longleftrightarrow> x = r\<lparr>d_status := s\<rparr> \<or> x \<in> set db \<and> d_id x \<noteq> d_id r" for x
      using in_Update_doc [OF ok r(1), where x = x and s = s and f = "d_ref r" and m = "d_errors r"] by simp
    have "distinct (map d_id (Update_doc (r\<lparr>d_status := s\<rparr>) db))" using ids by simp
    then show ?thesis unfolding GetByRef_def using r by (subst first_row_iff) (auto simp: up)
  qed
qed

interpretation doc: document_table GetByEdgeID GetByRef Update_doc table_ok
  by (rule document_table_tables)

lemma RecordSubmitted_ok:
  "table_ok rows \<Longrightarrow> uuid \<notin> d_id ` set rows \<Longrightarrow> table_ok (RecordSubmitted s uuid now e c w rows)"
  by (auto simp: table_ok_def RecordSubmitted_def list_ex_iff)

subsection \<open>How the rows move\<close>

text \<open>Every row of \<open>ds\<close> is still in \<open>es\<close>, of the same case and workflow, and moved by \<open>R\<close>.\<close>

definition rows_move :: "('s doc_row \<Rightarrow> 's doc_row \<Rightarrow> bool) \<Rightarrow> 's doc_row list \<Rightarrow> 's doc_row list \<Rightarrow> bool" where
  "rows_move R ds es \<longleftrightarrow> (\<forall>e d. GetByEdgeID e ds = Some d \<longrightarrow> (\<exists>d'. GetByEdgeID e es = Some d' \<and>
     d_case_id d' = d_case_id d \<and> d_workflow_id d' = d_workflow_id d \<and> R d d'))"

lemma rows_move_refl: "(\<And>d. R d d) \<Longrightarrow> rows_move R ds ds"
  by (simp add: rows_move_def)

lemma rows_move_update:
  assumes ok: "table_ok ds" and d: "GetByEdgeID e ds = Some d" and refl: "\<And>d. R d d"
    and m: "R d (d\<lparr>d_status := s, d_ref := f, d_errors := r\<rparr>)"
  shows "rows_move R ds (Update_doc (d\<lparr>d_status := s, d_ref := f, d_errors := r\<rparr>) ds)"
  unfolding rows_move_def
proof (intro allI impI)
  fix e' x
  assume x: "GetByEdgeID e' ds = Some x"
  show "\<exists>d'. GetByEdgeID e' (Update_doc (d\<lparr>d_status := s, d_ref := f, d_errors := r\<rparr>) ds) = Some d' \<and>
     d_case_id d' = d_case_id x \<and> d_workflow_id d' = d_workflow_id x \<and> R x d'"
  proof (cases "e' = e")
    case True
    then show ?thesis using doc.upd_same [OF ok d] x d m by simp
  next
    case False
    then show ?thesis using doc.upd_other [OF ok d False] x refl by simp
  qed
qed

lemma rows_move_submitted:
  assumes "table_ok ds" and "uuid \<notin> d_id ` set ds" and "\<And>d. R d d"
  shows "rows_move R ds (RecordSubmitted s uuid now e c w ds)"
proof -
  have "GetByEdgeID e' (RecordSubmitted s uuid now e c w ds) = Some d" if "GetByEdgeID e' ds = Some d" for e' d
  proof -
    from that have d: "d \<in> set ds" "d_edge_id d = e'" using assms(1) by (simp_all add: GetByEdgeID_iff)
    then have "d \<in> set (RecordSubmitted s uuid now e c w ds)" by (simp add: RecordSubmitted_def)
    with d show ?thesis by (simp add: GetByEdgeID_iff [OF RecordSubmitted_ok [OF assms(1,2)]])
  qed
  then show ?thesis using assms(3) by (simp add: rows_move_def)
qed

lemma rows_moveD:
  "rows_move R ds es \<Longrightarrow> GetByEdgeID e ds = Some d \<Longrightarrow> \<exists>d'. GetByEdgeID e es = Some d' \<and>
     d_case_id d' = d_case_id d \<and> d_workflow_id d' = d_workflow_id d \<and> R d d'"
  by (simp add: rows_move_def)

lemma rows_move_trans:
  assumes "rows_move R\<^sup>*\<^sup>* ds es" and "rows_move R es fs"
  shows "rows_move R\<^sup>*\<^sup>* ds fs"
  unfolding rows_move_def
proof (intro allI impI)
  fix e d
  assume "GetByEdgeID e ds = Some d"
  then obtain d' where d': "GetByEdgeID e es = Some d'" "d_case_id d' = d_case_id d" "d_workflow_id d' = d_workflow_id d" "R\<^sup>*\<^sup>* d d'"
    using rows_moveD [OF assms(1)] by blast
  moreover from rows_moveD [OF assms(2) d'(1)] obtain d'' where "GetByEdgeID e fs = Some d''" "d_case_id d'' = d_case_id d'"
    "d_workflow_id d'' = d_workflow_id d'" "R d' d''" by blast
  ultimately show "\<exists>d'. GetByEdgeID e fs = Some d' \<and> d_case_id d' = d_case_id d \<and> d_workflow_id d' = d_workflow_id d \<and> R\<^sup>*\<^sup>* d d'"
    by (auto intro: rtranclp.rtrancl_into_rtrancl)
qed

lemma rows_move_steps:
  assumes "step\<^sup>*\<^sup>* st st'" and "table_ok (docs st)"
    and s: "\<And>a b. step a b \<Longrightarrow> table_ok (docs a) \<Longrightarrow> table_ok (docs b) \<and> rows_move R (docs a) (docs b)"
  shows "table_ok (docs st') \<and> rows_move R\<^sup>*\<^sup>* (docs st) (docs st')"
  using assms(1)
proof (induction rule: rtranclp_induct)
  case base
  then show ?case using assms(2) by (simp add: rows_move_refl)
next
  case (step y z)
  have "table_ok (docs z)" "rows_move R (docs y) (docs z)" using s [OF step.hyps(2)] step.IH by auto
  moreover from step.IH have "rows_move R\<^sup>*\<^sup>* (docs st) (docs y)" by simp
  ultimately show ?case using rows_move_trans by blast
qed

subsection \<open>Parked tasks\<close>

record task_record =
  tr_task_id :: string
  tr_step_id :: string
  tr_parent_workflow_id :: string
  tr_template_id :: string
  tr_state :: string

abbreviation StateQueuedExternally :: string where "StateQueuedExternally \<equiv> ''QUEUED_EXTERNALLY''"

type_synonym tasks_of_case = "string \<Rightarrow> string + task_record list"

definition find_parked :: "tasks_of_case \<Rightarrow> string \<Rightarrow> (task_record \<Rightarrow> bool) \<Rightarrow> string + (string \<times> string) option" where
  "find_parked tasks caseID matches =
     (if caseID = [] then Inr None
      else case tasks caseID of
        Inl e \<Rightarrow> Inl e
      | Inr records \<Rightarrow>
          (case List.find (\<lambda>rec. tr_state rec = StateQueuedExternally \<and> matches rec) records of
             None \<Rightarrow> Inr None
           | Some rec \<Rightarrow> Inr (Some (tr_task_id rec, tr_step_id rec))))"

definition Find_parked :: "tasks_of_case \<Rightarrow> string \<Rightarrow> string \<Rightarrow> string \<Rightarrow> string + (string \<times> string) option" where
  "Find_parked tasks caseID workflowID templateID =
     (if workflowID = [] then Inr None
      else find_parked tasks caseID (\<lambda>rec. tr_parent_workflow_id rec = workflowID \<and> tr_template_id rec = templateID))"

definition FindInCase :: "tasks_of_case \<Rightarrow> string \<Rightarrow> string \<Rightarrow> string + (string \<times> string) option" where
  "FindInCase tasks caseID templateID = find_parked tasks caseID (\<lambda>rec. tr_template_id rec = templateID)"

text \<open>A found task is one of the case's, waiting on the template in the workflow.\<close>

lemma Find_parked_sound:
  "Find_parked tasks caseID workflowID templateID = Inr (Some (t, s)) \<Longrightarrow>
   \<exists>records rec. tasks caseID = Inr records \<and> rec \<in> set records \<and> tr_task_id rec = t \<and> tr_step_id rec = s \<and>
     tr_state rec = StateQueuedExternally \<and> tr_parent_workflow_id rec = workflowID \<and> tr_template_id rec = templateID"
  by (auto simp: Find_parked_def find_parked_def dest!: find_SomeD split: if_splits sum.splits option.splits)

lemma FindInCase_sound:
  "FindInCase tasks caseID templateID = Inr (Some (t, s)) \<Longrightarrow>
   \<exists>records rec. tasks caseID = Inr records \<and> rec \<in> set records \<and> tr_task_id rec = t \<and> tr_step_id rec = s \<and>
     tr_state rec = StateQueuedExternally \<and> tr_template_id rec = templateID"
  by (auto simp: FindInCase_def find_parked_def dest!: find_SomeD split: if_splits sum.splits option.splits)

end
