(* ===== verification/Edge_Text.thy ===== *)
theory Edge_Text
  imports Edge_Documents
begin

text \<open>
  The texts the ASYCUDA services write: the rendering of the segment-keyed errors object for the
  trader (\<open>cusdec/integration_result.go\<close>, \<open>cdn/errors_render.go\<close>), the duties breakdown as
  the task stores it, workflow IDs of notices, and RFC 3339 times. Three formatting functions of
  the Go library are parameters (\<open>go_text\<close>): a float64 without exponent, \<open>%v\<close> of a decoded
  value, and the bytes a raw message holds. \<open>digest\<close> is the hex of the first eight bytes of a
  SHA-256 sum.
\<close>

record go_text =
  gt_float :: "rat \<Rightarrow> string"
  gt_value :: "json \<Rightarrow> string"
  gt_raw :: "raw_message \<Rightarrow> string"

abbreviation newline :: string where "newline \<equiv> [CHR 0x0A]"

subsection \<open>Segments\<close>

definition segment_less :: "string \<Rightarrow> string \<Rightarrow> bool" where
  "segment_less a b =
     (case (atoi a, atoi b) of (Some i, Some j) \<Rightarrow> i < j | _ \<Rightarrow> a < b)"

text \<open>
  Numbers and other names together are not ordered: the comparison runs in a circle, and what
  \<open>sort.Slice\<close> makes of such keys depends on the order it meets them in. \<open>sort_slice\<close> sorts by
  insertion, which is the sorted list wherever the comparison is an order.
\<close>

lemma segment_less_cyclic: "segment_less ''2'' ''10'' \<and> segment_less ''10'' ''1a'' \<and> segment_less ''1a'' ''2''"
  by code_simp

fun insert_by :: "('a \<Rightarrow> 'a \<Rightarrow> bool) \<Rightarrow> 'a \<Rightarrow> 'a list \<Rightarrow> 'a list" where
  "insert_by lt x [] = [x]"
| "insert_by lt x (y # ys) = (if lt y x then y # insert_by lt x ys else x # y # ys)"

definition sort_slice :: "('a \<Rightarrow> 'a \<Rightarrow> bool) \<Rightarrow> 'a list \<Rightarrow> 'a list" where
  "sort_slice lt xs = foldr (insert_by lt) xs []"

lemma set_insert_by [simp]: "set (insert_by lt x ys) = insert x (set ys)"
  by (induction ys) auto

lemma set_sort_slice [simp]: "set (sort_slice lt xs) = set xs"
  by (induction xs) (auto simp: sort_slice_def)

lemma length_sort_slice [simp]: "length (sort_slice lt xs) = length xs"
proof -
  have "length (insert_by lt x ys) = Suc (length ys)" for x :: 'a and ys by (induction ys) auto
  then show ?thesis by (induction xs) (auto simp: sort_slice_def)
qed

subsection \<open>Declarations\<close>

record error_entry =
  ee_code :: json
  ee_description :: string

definition decode_entry :: "json \<Rightarrow> error_entry option" where
  "decode_entry v =
     (case v of
        JNull \<Rightarrow> Some \<lparr>ee_code = JNull, ee_description = []\<rparr>
      | JObj kvs \<Rightarrow>
          (case decode_string (case field_get kvs ''description'' of None \<Rightarrow> JNull | Some d \<Rightarrow> d) of
             None \<Rightarrow> None
           | Some d \<Rightarrow> Some \<lparr>ee_code = (case field_get kvs ''code'' of None \<Rightarrow> JNull | Some c \<Rightarrow> c), ee_description = d\<rparr>)
      | _ \<Rightarrow> None)"

definition decode_entries :: "json \<Rightarrow> error_entry list option" where
  "decode_entries v = (case v of JNull \<Rightarrow> Some [] | JArr vs \<Rightarrow> those (map decode_entry vs) | _ \<Rightarrow> None)"

definition formatCode :: "go_text \<Rightarrow> json \<Rightarrow> string" where
  "formatCode gt v =
     (case v of JNum r \<Rightarrow> gt_float gt r | JStr s \<Rightarrow> trim_space s | JNull \<Rightarrow> [] | _ \<Rightarrow> gt_value gt v)"

definition entry_line :: "go_text \<Rightarrow> error_entry \<Rightarrow> string" where
  "entry_line gt e =
     (let msg = (if blank (ee_description e) then ''Rejected without a description.'' else trim_space (ee_description e));
          code = formatCode gt (ee_code e)
      in ''- '' @ (if code \<noteq> [] then msg @ '' _(code '' @ code @ '')_'' else msg) @ newline)"

fun write_segments :: "go_text \<Rightarrow> (string \<times> error_entry list) list \<Rightarrow> string \<Rightarrow> string" where
  "write_segments gt [] b = b"
| "write_segments gt ((key, entries) # segs) b =
     (if entries = [] then write_segments gt segs b
      else write_segments gt segs
        (b @ (if b \<noteq> [] then newline else []) @
         (if key = ''0'' then ''**Declaration**'' @ newline else ''**Item '' @ key @ ''**'' @ newline) @
         concat (map (entry_line gt) entries)))"

definition describeErrors_cusdec :: "go_text \<Rightarrow> raw_message \<Rightarrow> string" where
  "describeErrors_cusdec gt raw =
     (if raw = NoBytes then ''Sri Lanka Customs rejected the declaration without giving a reason.''
      else
        case (case raw of Doc v \<Rightarrow> decode_map decode_entries v | _ \<Rightarrow> None) of
          None \<Rightarrow> trim_space (gt_raw gt raw)
        | Some segments \<Rightarrow>
            if segments = [] then trim_space (gt_raw gt raw)
            else
              let b = write_segments gt (sort_slice (\<lambda>x y. segment_less (fst x) (fst y)) segments) []
              in if b = [] then trim_space (gt_raw gt raw) else trim_space b)"

subsection \<open>Dispatch notes\<close>

definition stringField :: "go_text \<Rightarrow> (string \<times> json) list \<Rightarrow> string \<Rightarrow> string" where
  "stringField gt m key =
     (case obj_get m key of Some (JStr s) \<Rightarrow> trim_space s | Some (JNum r) \<Rightarrow> gt_float gt r | _ \<Rightarrow> [])"

definition entryBullet :: "go_text \<Rightarrow> string \<Rightarrow> json \<Rightarrow> string list" where
  "entryBullet gt prefix e =
     (case e of
        JObj m \<Rightarrow>
          (let msg = (if stringField gt m ''description'' \<noteq> [] then stringField gt m ''description''
                      else if stringField gt m ''message'' \<noteq> [] then stringField gt m ''message''
                      else stringField gt m ''code'');
               field = stringField gt m ''fieldRef'';
               msg' = (if field \<noteq> [] \<and> msg \<noteq> [] then msg @ '' _('' @ field @ '')_'' else msg)
           in if msg' \<noteq> [] then [''- '' @ prefix @ msg'] else [])
      | _ \<Rightarrow> [''- '' @ prefix @ gt_value gt e])"

definition entryBullets :: "go_text \<Rightarrow> json list \<Rightarrow> string \<Rightarrow> string list" where
  "entryBullets gt entries prefix = concat (map (entryBullet gt prefix) entries)"

definition validationBullets :: "go_text \<Rightarrow> json option \<Rightarrow> string list" where
  "validationBullets gt errs =
     (case errs of
        Some (JArr es) \<Rightarrow> entryBullets gt es []
      | Some (JObj m) \<Rightarrow>
          concat (map (\<lambda>key. case obj_get m key of
              Some (JArr entries) \<Rightarrow> entryBullets gt entries (if key \<noteq> ''0'' then ''Item '' @ key @ '': '' else [])
            | _ \<Rightarrow> []) (sort_slice segment_less (map fst m)))
      | _ \<Rightarrow> [])"

definition describeErrors_cdn :: "go_text \<Rightarrow> raw_message \<Rightarrow> string" where
  "describeErrors_cdn gt raw =
     (case raw of
        NoBytes \<Rightarrow> ''Sri Lanka Customs rejected the cargo dispatch note without giving a reason.''
      | NotJson _ \<Rightarrow> trim_space (gt_raw gt raw)
      | Doc parsed \<Rightarrow>
          (let bullets = validationBullets gt (Some parsed) in
           if bullets = [] then trim_space (gt_raw gt raw)
           else ''Sri Lanka Customs could not integrate your cargo dispatch note:'' @ newline @ newline @
                join_with newline bullets @ newline @ newline @ ''Please correct the highlighted fields and resubmit.''))"

text \<open>A reason is never blank while the raw text is not.\<close>

lemma describeErrors_cdn_nonempty:
  "\<not> blank (gt_raw gt raw) \<Longrightarrow> describeErrors_cdn gt raw \<noteq> []"
  by (auto simp: describeErrors_cdn_def blank_def Let_def split: raw_message.splits)

subsection \<open>Duties\<close>

record duty_line =
  dl_type_code :: string
  dl_base :: rat
  dl_rate :: rat
  dl_assessed :: rat
  dl_method :: string

record duties =
  du_global :: "duty_line list option"
  du_items :: "(int \<times> duty_line list option) list option"

definition slice_json :: "('a \<Rightarrow> json) \<Rightarrow> 'a list option \<Rightarrow> json" where
  "slice_json f xs = (case xs of None \<Rightarrow> JNull | Some ys \<Rightarrow> JArr (map f ys))"

definition duty_line_json :: "duty_line \<Rightarrow> json" where
  "duty_line_json l = JObj [(''typeCode'', JStr (dl_type_code l)), (''taxBaseAmount'', JNum (dl_base l)),
     (''taxRateNumeric'', JNum (dl_rate l)), (''taxAssessedAmount'', JNum (dl_assessed l)), (''paymentMethodCode'', JStr (dl_method l))]"

definition is_empty_slice :: "'a list option \<Rightarrow> bool" where
  "is_empty_slice xs = (case xs of None \<Rightarrow> True | Some ys \<Rightarrow> ys = [])"

definition dutiesForTask :: "duties \<Rightarrow> json option" where
  "dutiesForTask d =
     (if is_empty_slice (du_global d) \<and> is_empty_slice (du_items d) then None
      else Some (JObj [(''globalDuties'', slice_json duty_line_json (du_global d)),
        (''itemDutiesList'', slice_json (\<lambda>(n, fees). JObj [(''itemSequenceNumeric'', JNum (of_int n)),
            (''dutyTaxFees'', slice_json duty_line_json fees)]) (du_items d))]))"

subsection \<open>Times and names\<close>

text \<open>The date of a number of days since 1970-01-01, in the proleptic Gregorian calendar.\<close>

definition civil_from_days :: "int \<Rightarrow> int \<times> int \<times> int" where
  "civil_from_days z0 =
     (let z = z0 + 719468;
          era = z div 146097;
          doe = z mod 146097;
          yoe = (doe - doe div 1460 + doe div 36524 - doe div 146096) div 365;
          doy = doe - (365 * yoe + yoe div 4 - yoe div 100);
          mp = (5 * doy + 2) div 153;
          d = doy - (153 * mp + 2) div 5 + 1;
          m = (if mp < 10 then mp + 3 else mp - 9);
          y = yoe + era * 400
      in (if m \<le> 2 then y + 1 else y, m, d))"

definition pad :: "nat \<Rightarrow> int \<Rightarrow> string" where
  "pad n i = (let s = show_int i in replicate (n - length s) CHR ''0'' @ s)"

text \<open>\<open>t.UTC().Format(time.RFC3339)\<close> of a time in seconds since the epoch.\<close>

definition rfc3339 :: "int \<Rightarrow> string" where
  "rfc3339 t =
     (let (y, m, d) = civil_from_days (t div 86400); s = t mod 86400 in
      pad 4 y @ ''-'' @ pad 2 m @ ''-'' @ pad 2 d @ ''T'' @ pad 2 (s div 3600) @ '':'' @ pad 2 (s div 60 mod 60) @ '':'' @ pad 2 (s mod 60) @ ''Z'')"

definition notice_workflow_id :: "(string \<Rightarrow> string) \<Rightarrow> string \<Rightarrow> string \<Rightarrow> string \<Rightarrow> string" where
  "notice_workflow_id digest caseID templateID named = caseID @ '':'' @ templateID @ '':'' @ digest named"

end
