(* ===== verification/Edge_Forms.thy ===== *)
theory Edge_Forms
  imports Edge_Documents Edge_Text
begin

text \<open>
  Reading the trader's forms: the accessors of \<open>asycuda/document/document.go\<close> and of the payload
  builders over decoded JSON, the date of a supporting document, and the identifier of a
  submission, \<open>asycuda/nswid/nswid.go\<close>. A JSON number is a rational, as everywhere here. The text
  \<open>json.Marshal\<close> makes of a payload, SHA-256 and the parsing of a float are parameters.
\<close>

subsection \<open>Accessors\<close>

definition Nested :: "(string \<times> json) list \<Rightarrow> string \<Rightarrow> (string \<times> json) list" where
  "Nested m key = (case obj_get m key of Some (JObj kvs) \<Rightarrow> kvs | _ \<Rightarrow> [])"

definition Str :: "(string \<times> json) list \<Rightarrow> string \<Rightarrow> string" where
  "Str m key = (case obj_get m key of Some (JStr s) \<Rightarrow> trim_space s | _ \<Rightarrow> [])"

text \<open>\<open>Number\<close> is a decoded number, zero for anything else; \<open>int(f)\<close> cuts the fraction off.\<close>

definition form_number :: "(string \<times> json) list \<Rightarrow> string \<Rightarrow> rat" where
  "form_number m key = (case obj_get m key of Some (JNum r) \<Rightarrow> r | _ \<Rightarrow> 0)"

definition go_int :: "rat \<Rightarrow> int" where
  "go_int r = (if 0 \<le> r then \<lfloor>r\<rfloor> else \<lceil>r\<rceil>)"

definition form_integer :: "(string \<times> json) list \<Rightarrow> string \<Rightarrow> int" where
  "form_integer m key = go_int (form_number m key)"

definition form_boolean :: "(string \<times> json) list \<Rightarrow> string \<Rightarrow> bool" where
  "form_boolean m key = (case obj_get m key of Some (JBool b) \<Rightarrow> b | _ \<Rightarrow> False)"

text \<open>The dispatch note's forms hold some numbers as text.\<close>

definition note_number :: "(string \<Rightarrow> rat option) \<Rightarrow> (string \<times> json) list \<Rightarrow> string \<Rightarrow> rat" where
  "note_number parse m key =
     (case obj_get m key of
        Some (JNum r) \<Rightarrow> r
      | Some (JStr s) \<Rightarrow> (case parse (trim_space s) of Some r \<Rightarrow> r | None \<Rightarrow> 0)
      | _ \<Rightarrow> 0)"

definition note_integer :: "(string \<Rightarrow> rat option) \<Rightarrow> (string \<times> json) list \<Rightarrow> string \<Rightarrow> int" where
  "note_integer parse m key = go_int (note_number parse m key)"

subsection \<open>Registered references as text\<close>

text \<open>No white space at either end.\<close>

definition trimmed :: "string \<Rightarrow> bool" where
  "trimmed s = list_all (\<lambda>p. \<not> has_prefix p s \<and> \<not> has_prefix (rev p) (rev s)) go_spaces"

lemma strip_front_none: "list_all (\<lambda>p. \<not> has_prefix p s) seqs \<Longrightarrow> strip_front n seqs s = s"
proof -
  assume "list_all (\<lambda>p. \<not> has_prefix p s) seqs"
  then have "List.find (\<lambda>p. has_prefix p s) seqs = None" by (simp add: find_None_iff list_all_iff)
  then show ?thesis by (cases n) simp_all
qed

lemma trim_trimmed: "trimmed s \<Longrightarrow> trim_space s = s"
  by (simp add: trimmed_def trim_space_def trim_left_def trim_right_def strip_front_none list_all_iff)

text \<open>A separator that no white space holds keeps it out of either end.\<close>

lemma prefix_before:
  assumes "has_prefix p (a @ c # x)" and "c \<notin> set p"
  shows "has_prefix p a"
proof -
  obtain t where t: "a @ c # x = p @ t" using assms(1) by (auto simp: has_prefix_iff)
  have "(\<exists>u. a = p @ u) \<or> (\<exists>u. p = a @ u \<and> c # x = u @ t)"
    using t by (auto simp: append_eq_append_conv2)
  then show ?thesis
  proof (elim disjE exE conjE)
    fix u assume u: "p = a @ u" "c # x = u @ t"
    have "u = []" using u assms(2) by (cases u) auto
    then show ?thesis using u(1) by (simp add: has_prefix_iff)
  qed (simp add: has_prefix_iff)
qed

lemma slash_no_space: "p \<in> set go_spaces \<Longrightarrow> CHR ''/'' \<notin> set p \<and> p \<noteq> []"
proof -
  have "list_all (\<lambda>p. CHR ''/'' \<notin> set p \<and> p \<noteq> []) go_spaces" by code_simp
  then show "p \<in> set go_spaces \<Longrightarrow> CHR ''/'' \<notin> set p \<and> p \<noteq> []" unfolding list_all_iff by blast
qed

lemma trimmed_between: "trimmed a \<Longrightarrow> trimmed b \<Longrightarrow> trimmed (a @ CHR ''/'' # x @ CHR ''/'' # b)"
  unfolding trimmed_def list_all_iff
proof (intro ballI conjI notI)
  fix p
  assume ab: "\<forall>p \<in> set go_spaces. \<not> has_prefix p a \<and> \<not> has_prefix (rev p) (rev a)" "\<forall>p \<in> set go_spaces. \<not> has_prefix p b \<and> \<not> has_prefix (rev p) (rev b)"
    and p: "p \<in> set go_spaces"
  then show "has_prefix p (a @ CHR ''/'' # x @ CHR ''/'' # b) \<Longrightarrow> False"
    using prefix_before [of p a "CHR ''/''"] slash_no_space by blast
  have "rev (a @ CHR ''/'' # x @ CHR ''/'' # b) = rev b @ CHR ''/'' # (rev x @ CHR ''/'' # rev a)" by simp
  then show "has_prefix (rev p) (rev (a @ CHR ''/'' # x @ CHR ''/'' # b)) \<Longrightarrow> False"
    using ab p prefix_before [of "rev p" "rev b" "CHR ''/''"] slash_no_space by (metis set_rev)
qed

lemma trimmed_digits: "trimmed (show_nat n)"
  unfolding trimmed_def list_all_iff
proof
  fix p assume p: "p \<in> set go_spaces"
  have "list_all (\<lambda>p. list_all (\<lambda>c. (of_char c :: nat) < 48 \<or> 57 < (of_char c :: nat)) [hd p, last p] \<and> p \<noteq> []) go_spaces" by code_simp
  then have h: "(of_char (hd p) :: nat) \<notin> {48..57}" "(of_char (last p) :: nat) \<notin> {48..57}" "p \<noteq> []"
    using p unfolding list_all_iff by fastforce+
  have d: "c \<in> set (show_nat n) \<Longrightarrow> of_char c \<in> {48..(57::nat)}" for c by (rule show_nat_digits)
  have "hd p \<notin> set (show_nat n)" "last p \<notin> set (show_nat n)" using d h by blast+
  moreover have "has_prefix p s \<Longrightarrow> hd p \<in> set s" for s using h(3) by (cases p) (auto simp: has_prefix_iff)
  moreover have "has_prefix (rev p) (rev s) \<Longrightarrow> last p \<in> set s" for s
  proof -
    assume "has_prefix (rev p) (rev s)"
    then obtain t where "rev s = rev p @ t" by (auto simp: has_prefix_iff)
    then have "s = rev t @ p" by (metis rev_append rev_rev_ident)
    then show ?thesis using h(3) by simp
  qed
  ultimately show "\<not> has_prefix p (show_nat n) \<and> \<not> has_prefix (rev p) (rev (show_nat n))" by blast
qed

definition clean_ref :: "doc_ref \<Rightarrow> bool" where
  "clean_ref r = (IsValid r \<and> dr_number r < 2 ^ 63 \<and> list_all (\<lambda>p. trimmed p \<and> CHR ''/'' \<notin> set p) [dr_office r, dr_year r, dr_serial r])"

lemma ref_text_reads_back:
  assumes "clean_ref r"
  shows "ParseReference (ref_String r) = Inr r" and "trim_space (ref_String r) = ref_String r" and "ref_String r \<noteq> []"
proof -
  have n: "show_int (dr_number r) = show_nat (nat (dr_number r))" "0 < dr_number r" "dr_number r < 2 ^ 63"
    using assms by (simp_all add: clean_ref_def IsValid_def show_int_def)
  have s: "CHR ''/'' \<notin> set (show_nat m)" for m using show_nat_digits [of "CHR ''/''" m] by auto
  have "ref_String r = dr_office r @ CHR ''/'' # (dr_year r @ CHR ''/'' # dr_serial r) @ CHR ''/'' # show_nat (nat (dr_number r))"
    by (simp add: ref_String_def n(1))
  moreover have "trimmed (dr_office r @ CHR ''/'' # (dr_year r @ CHR ''/'' # dr_serial r) @ CHR ''/'' # show_nat (nat (dr_number r)))"
    using assms by (intro trimmed_between trimmed_digits) (simp add: clean_ref_def)
  ultimately show t: "trim_space (ref_String r) = ref_String r" by (simp only: trim_trimmed)
  have "split_on CHR ''/'' (ref_String r) = [dr_office r, dr_year r, dr_serial r, show_nat (nat (dr_number r))]"
    using assms s by (simp add: ref_String_def n(1) clean_ref_def split_on_append split_on_no_sep)
  moreover have "trim_space (dr_office r) = dr_office r" "trim_space (dr_year r) = dr_year r" "trim_space (dr_serial r) = dr_serial r"
    "trim_space (show_nat (nat (dr_number r))) = show_nat (nat (dr_number r))"
    using assms trimmed_digits by (simp_all add: clean_ref_def trim_trimmed)
  moreover have "atoi (show_nat (nat (dr_number r))) = Some (dr_number r)" using atoi_show [of "nat (dr_number r)"] n(2,3) by simp
  moreover have "IsValid \<lparr>dr_year = dr_year r, dr_office = dr_office r, dr_serial = dr_serial r, dr_number = dr_number r\<rparr>"
    using assms by (simp add: clean_ref_def IsValid_def)
  ultimately show "ParseReference (ref_String r) = Inr r"
    by (simp add: ParseReference_def t Let_def)
  show "ref_String r \<noteq> []" by (simp add: ref_String_def)
qed

subsection \<open>Dates\<close>

definition days_in :: "int \<Rightarrow> int \<Rightarrow> int" where
  "days_in year month =
     (if month = 2 then (if year mod 4 = 0 \<and> (year mod 100 \<noteq> 0 \<or> year mod 400 = 0) then 29 else 28)
      else if month \<in> {4, 6, 9, 11} then 30 else 31)"

definition all_digits :: "string \<Rightarrow> bool" where
  "all_digits s = list_all (\<lambda>c. CHR ''0'' \<le> c \<and> c \<le> CHR ''9'') s"

text \<open>\<open>time.Parse("2006-01-02", v)\<close>: year, month and day.\<close>

definition parse_date :: "string \<Rightarrow> (int \<times> int \<times> int) option" where
  "parse_date v =
     (if length v = 10 \<and> v ! 4 = CHR ''-'' \<and> v ! 7 = CHR ''-'' \<and> all_digits (take 4 v @ take 2 (drop 5 v) @ drop 8 v)
      then (case (digits_value 0 (take 4 v), digits_value 0 (take 2 (drop 5 v)), digits_value 0 (drop 8 v)) of
          (Some y, Some m, Some d) \<Rightarrow>
            if 1 \<le> m \<and> m \<le> 12 \<and> 1 \<le> d \<and> int d \<le> days_in (int y) (int m) then Some (int y, int m, int d) else None
        | _ \<Rightarrow> None)
      else None)"

definition formatDMY :: "string \<Rightarrow> string" where
  "formatDMY v =
     (if trim_space v = [] then []
      else case parse_date (trim_space v) of
        None \<Rightarrow> []
      | Some (y, m, d) \<Rightarrow> pad 2 d @ ''/'' @ pad 2 m @ ''/'' @ pad 4 y)"

subsection \<open>The identifier of a submission\<close>

definition lower_hex :: "nat \<Rightarrow> char" where
  "lower_hex d = (if d < 10 then char_of (48 + d) else char_of (87 + d))"

definition hex_of :: "string \<Rightarrow> string" where
  "hex_of s = concat (map (\<lambda>c. [lower_hex (of_char c div 16), lower_hex (of_char c mod 16)]) s)"

definition nswid_For :: "('p \<Rightarrow> string option) \<Rightarrow> (string \<Rightarrow> string) \<Rightarrow> 'p \<Rightarrow> string \<Rightarrow> string" where
  "nswid_For marshal_json sha256 sub previousEdgeID =
     (case marshal_json sub of
        None \<Rightarrow> []
      | Some encoded \<Rightarrow> hex_of (sha256 (encoded @ [CHR 0x00] @ previousEdgeID)))"

lemma lower_hex_inj: "a < 16 \<Longrightarrow> b < 16 \<Longrightarrow> lower_hex a = lower_hex b \<longleftrightarrow> a = b"
proof -
  have v: "(of_char (lower_hex d) :: nat) = (if d < 10 then 48 + d else 87 + d)" if "d < 16" for d :: nat
  proof -
    have "48 + d < 256" "87 + d < 256" using that by simp_all
    then show ?thesis by (simp only: lower_hex_def if_distrib [of of_char] of_char_of mod_less cong: if_cong)
  qed
  assume "a < 16" "b < 16"
  then have "(of_char (lower_hex a) :: nat) = of_char (lower_hex b) \<Longrightarrow> a = b" using v [of a] v [of b] by (simp split: if_splits)
  then show "lower_hex a = lower_hex b \<longleftrightarrow> a = b" by metis
qed

lemma hex_of_inj: "hex_of s = hex_of t \<Longrightarrow> s = t"
proof (induction s arbitrary: t)
  case Nil
  then show ?case by (cases t) (auto simp: hex_of_def)
next
  case (Cons c s)
  then obtain d t' where t: "t = d # t'" by (cases t) (auto simp: hex_of_def)
  have "of_char c div 16 < (16 :: nat)" "of_char d div 16 < (16 :: nat)"
    by (simp_all add: less_mult_imp_div_less)
  with Cons.prems t have "(of_char c :: nat) div 16 = of_char d div 16" "(of_char c :: nat) mod 16 = of_char d mod 16" "hex_of s = hex_of t'"
    by (auto simp: hex_of_def lower_hex_inj)
  then have "(of_char c :: nat) = of_char d" by (metis div_mult_mod_eq)
  with Cons.IH [of t'] \<open>hex_of s = hex_of t'\<close> t show ?case by simp
qed

lemma split_first: "x \<notin> set a \<Longrightarrow> x \<notin> set b \<Longrightarrow> a @ x # p = b @ x # q \<longleftrightarrow> a = b \<and> p = q"
proof (induction a arbitrary: b)
  case (Cons c a)
  then show ?case by (cases b) auto
qed (auto simp: Cons_eq_append_conv)

text \<open>
  Retries of one submission carry one identifier and everything else another, where the encoding
  tells payloads apart and holds no zero byte, and SHA-256 does not collide on the two.
\<close>

lemma nswid_For_eq:
  assumes "marshal_json p = Some x" and "marshal_json q = Some y" and "x = y \<longrightarrow> p = q"
    and "CHR 0x00 \<notin> set x" and "CHR 0x00 \<notin> set y"
    and "sha256 (x @ [CHR 0x00] @ e) = sha256 (y @ [CHR 0x00] @ e') \<longrightarrow> x @ [CHR 0x00] @ e = y @ [CHR 0x00] @ e'"
  shows "nswid_For marshal_json sha256 p e = nswid_For marshal_json sha256 q e' \<longleftrightarrow> p = q \<and> e = e'"
  using assms split_first [OF assms(4,5), of e e'] by (auto simp: nswid_For_def dest: hex_of_inj)

end
