(* ===== verification/Boat_Notes.thy ===== *)
theory Boat_Notes
  imports Plugin_Steps Edge_Forms "HOL-Library.Monad_Syntax"
begin

text \<open>
  What is read back from SLC Edge for the boat note: the declaration retrieve of
  \<open>asycuda/document/document.go\<close> and \<open>cusdec/retrieve_interpreter.go\<close>, the results of the dispatch
  notes (\<open>plugins/cdn_results.go\<close>), and the prefill, \<open>asycuda/boatnote/prefill.go\<close> with its step
  \<open>plugins/boat_note_prefill.go\<close>. \<open>parse\<close> is \<open>strconv.ParseFloat\<close>, and the call of a service a
  parameter over a world \<open>'w\<close>; a missing map is \<open>None\<close>. Logging is left out.
\<close>

type_synonym obj = "(string \<times> json) list"

subsection \<open>Decoded answers\<close>

definition FormatNumber :: "go_text \<Rightarrow> rat \<Rightarrow> string" where
  "FormatNumber gt r = (if r = of_int \<lfloor>r\<rfloor> then show_int \<lfloor>r\<rfloor> else gt_float gt r)"

definition form_text :: "go_text \<Rightarrow> obj \<Rightarrow> string \<Rightarrow> string" where
  "form_text gt m key =
     (case obj_get m key of Some (JStr s) \<Rightarrow> trim_space s | Some (JNum r) \<Rightarrow> FormatNumber gt r | _ \<Rightarrow> [])"

definition form_float :: "(string \<Rightarrow> rat option) \<Rightarrow> json option \<Rightarrow> rat option" where
  "form_float parse v = (case v of Some (JNum r) \<Rightarrow> Some r | Some (JStr s) \<Rightarrow> parse (trim_space s) | _ \<Rightarrow> None)"

definition objects_in :: "json list \<Rightarrow> obj list" where
  "objects_in vs = concat (map (\<lambda>v. case v of JObj m \<Rightarrow> [m] | _ \<Rightarrow> []) vs)"

definition Objects :: "json option \<Rightarrow> obj list" where
  "Objects v = (case v of Some (JArr vs) \<Rightarrow> objects_in vs | _ \<Rightarrow> [])"

definition WholeNumber :: "json option \<Rightarrow> int option" where
  "WholeNumber v =
     (case v of
        Some (JNum r) \<Rightarrow> if r = of_int \<lfloor>r\<rfloor> \<and> - (2 ^ 63) \<le> r \<and> r < 2 ^ 63 then Some \<lfloor>r\<rfloor> else None
      | Some (JStr s) \<Rightarrow> atoi (trim_space s)
      | _ \<Rightarrow> None)"

definition object_at :: "obj \<Rightarrow> string \<Rightarrow> obj option" where
  "object_at m key = (case obj_get m key of Some (JObj o') \<Rightarrow> if o' = [] then None else Some o' | _ \<Rightarrow> None)"

definition firstObject :: "obj \<Rightarrow> string list \<Rightarrow> obj option" where
  "firstObject resp keys =
     (case List.find (\<lambda>o'. o' \<noteq> None) (map (object_at (Nested resp ''payload'')) keys @ map (object_at resp) keys) of
        Some found \<Rightarrow> found | None \<Rightarrow> None)"

subsection \<open>The declaration retrieve\<close>

definition TraderCodes :: "obj \<Rightarrow> string \<times> string" where
  "TraderCodes form =
     (let traders = Nested form ''traders'' in (Str (Nested traders ''declarant'') ''code'', Str (Nested traders ''exporter'') ''code''))"

definition reference_json :: "doc_ref \<Rightarrow> json" where
  "reference_json r = JObj [(''year'', JStr (dr_year r)), (''office'', JStr (dr_office r)), (''serial'', JStr (dr_serial r)),
     (''number'', JNum (of_int (dr_number r)))]"

definition NewDeclarationRetrieve :: "string \<Rightarrow> obj \<Rightarrow> json" where
  "NewDeclarationRetrieve cusdecRef form =
     (let ref = (case ParseReference cusdecRef of Inl _ \<Rightarrow> no_ref | Inr r \<Rightarrow> r); (declarant, company) = TraderCodes form in
      JObj [(''cusDecRef'', reference_json ref), (''declarantCode'', JStr declarant), (''companyCode'', JStr company)])"

definition RetrievedDeclaration :: "obj \<Rightarrow> obj option" where
  "RetrievedDeclaration resp = firstObject resp [''cusdec'', ''cusDec'']"

definition RetrievedCDNRefs :: "obj \<Rightarrow> obj list" where
  "RetrievedCDNRefs resp =
     Objects (case obj_get (Nested resp ''payload'') ''cdnRefs'' of Some v \<Rightarrow> Some v | None \<Rightarrow> obj_get resp ''cdnRefs'')"

text \<open>\<open>strings.EqualFold\<close> with a text of ASCII letters.\<close>

definition EqualFold :: "string \<Rightarrow> string \<Rightarrow> bool" where
  "EqualFold s t = (fold_name s = fold_name t)"

definition ref_of_note :: "go_text \<Rightarrow> obj \<Rightarrow> doc_ref list" where
  "ref_of_note gt r =
     (if EqualFold (Str r ''status'') ''Cancelled'' then []
      else case WholeNumber (obj_get r ''number'') of
        None \<Rightarrow> []
      | Some n \<Rightarrow>
          let ref = \<lparr>dr_year = form_text gt r ''year'', dr_office = form_text gt r ''office'', dr_serial = form_text gt r ''serial'', dr_number = n\<rparr> in
          if IsValid ref then [ref] else [])"

definition ActiveCDNRefs :: "go_text \<Rightarrow> obj list \<Rightarrow> doc_ref list" where
  "ActiveCDNRefs gt cdnRefs = concat (map (ref_of_note gt) cdnRefs)"

definition containerCount :: "obj \<Rightarrow> int option" where
  "containerCount decl =
     (case WholeNumber (obj_get (Nested decl ''generalSegment'') ''numberOfContainers'') of
        Some count \<Rightarrow> if count < 1 then None else Some count
      | None \<Rightarrow> None)"

definition input_object :: "obj \<Rightarrow> string \<Rightarrow> obj" where
  "input_object inputs key = (case obj_get inputs key of Some (JObj m) \<Rightarrow> m | _ \<Rightarrow> [])"

definition retrieve_BuildRequest :: "obj \<Rightarrow> json" where
  "retrieve_BuildRequest inputs =
     NewDeclarationRetrieve (case obj_get inputs ''cusdec_ref'' of Some (JStr s) \<Rightarrow> s | _ \<Rightarrow> []) (input_object inputs ''userform'')"

text \<open>The answer with the error of a call that failed.\<close>

definition retrieve_Interpret :: "go_text \<Rightarrow> string option \<Rightarrow> obj \<Rightarrow> bool \<times> obj" where
  "retrieve_Interpret gt callErr resp =
     (case callErr of
        Some e \<Rightarrow> (False, [(''error'', JStr (''the declaration could not be retrieved: '' @ e))])
      | None \<Rightarrow> (case RetrievedDeclaration resp of
          None \<Rightarrow> (False, [(''error'', JStr ''the retrieve answer carries no declaration'')])
        | Some decl \<Rightarrow>
            let cdnRefs = RetrievedCDNRefs resp; cdns = length (ActiveCDNRefs gt cdnRefs) in
            (True, [(''declaration'', JObj decl), (''cdn_refs'', JArr (map JObj cdnRefs)), (''cdn_count'', JNum (of_nat cdns))] @
               (case containerCount decl of
                  None \<Rightarrow> []
                | Some count \<Rightarrow> [(''container_count'', JNum (of_int count)), (''missing_cdn_count'', JNum (of_int (max (count - int cdns) 0)))]))))"

subsection \<open>The results of the dispatch notes\<close>

datatype results_error = NoResults | ResultsNotArray | ResultNotObject nat | NoRecordToCollect

fun branches_from :: "nat \<Rightarrow> json list \<Rightarrow> results_error + obj list" where
  "branches_from i [] = Inr []"
| "branches_from i (JObj m # entries) = (case branches_from (Suc i) entries of Inl e \<Rightarrow> Inl e | Inr ms \<Rightarrow> Inr (m # ms))"
| "branches_from i (_ # entries) = Inl (ResultNotObject i)"

definition branchResults :: "obj \<Rightarrow> results_error + obj list" where
  "branchResults inputs =
     (case obj_get inputs ''cdn_results'' of
        None \<Rightarrow> Inl NoResults
      | Some (JArr entries) \<Rightarrow> branches_from 0 entries
      | Some _ \<Rightarrow> Inl ResultsNotArray)"

definition branch_form :: "obj \<Rightarrow> obj option" where
  "branch_form branch = (case obj_get branch ''userform'' of Some (JObj m) \<Rightarrow> Some m | _ \<Rightarrow> None)"

definition form_of_branch :: "obj \<Rightarrow> obj" where
  "form_of_branch branch = (case branch_form branch of Some m \<Rightarrow> m | None \<Rightarrow> [])"

definition cancelledBranch :: "obj \<Rightarrow> bool" where
  "cancelledBranch branch =
     (obj_get branch ''ack_status'' = Some (JStr ''CANCELLED'') \<or> obj_get (form_of_branch branch) ''cancel_cdn'' = Some (JBool True))"

definition registered_number :: "obj \<Rightarrow> json list" where
  "registered_number branch =
     (case obj_get (form_of_branch branch) ''registeredCdnNumber'' of
        None \<Rightarrow> [] | Some JNull \<Rightarrow> [] | Some v \<Rightarrow> if v = JStr [] then [] else [v])"

definition accepted_branch :: "obj \<Rightarrow> bool" where
  "accepted_branch branch = (obj_get (input_object branch ''cig_cdn'') ''accepted'' = Some (JBool True))"

definition first_form :: "obj list \<Rightarrow> obj option" where
  "first_form branches =
     (case List.find (\<lambda>f. f \<noteq> None) (map branch_form branches) of Some f \<Rightarrow> f | None \<Rightarrow> None)"

text \<open>A slice that was never appended to, and a map that was never made, are null.\<close>

definition CDNResultsCollectorFunc :: "plugin_context \<Rightarrow> results_error + plug_record" where
  "CDNResultsCollectorFunc ctx =
     (case branchResults (px_inputs ctx) of
        Inl e \<Rightarrow> Inl e
      | Inr branches \<Rightarrow>
          let live = filter (\<lambda>b. \<not> cancelledBranch b) branches;
              numbers = concat (map registered_number live);
              firstOK = (case first_form (filter accepted_branch live) of
                  Some f \<Rightarrow> Some f
                | None \<Rightarrow> (case first_form live of
                    Some f \<Rightarrow> Some f
                  | None \<Rightarrow> if branches = [] then None else Some []))
          in case px_record ctx of
            None \<Rightarrow> Inl NoRecordToCollect
          | Some rec \<Rightarrow> Inr
              (put_data ''cdn_number'' (case numbers of [] \<Rightarrow> JStr [] | n # _ \<Rightarrow> n)
                (put_data ''cdn_userform'' (case firstOK of None \<Rightarrow> JNull | Some f \<Rightarrow> JObj f)
                  (put_data ''containers'' (JArr (map (\<lambda>n. JObj [(''cdn_number'', n)]) numbers))
                    (put_data ''cdn_numbers'' (if numbers = [] then JNull else JArr numbers) rec)))))"

subsection \<open>Dates of a voyage\<close>

definition digit :: "char \<Rightarrow> bool" where
  "digit c = (CHR ''0'' \<le> c \<and> c \<le> CHR ''9'')"

text \<open>\<open>getnum\<close>: two digits, or one where the layout does not fix them, and the rest.\<close>

definition getnum :: "bool \<Rightarrow> string \<Rightarrow> (nat \<times> string) option" where
  "getnum fixed s =
     (case s of
        a # b # rest \<Rightarrow>
          if digit a \<and> digit b then map_option (\<lambda>n. (n, rest)) (digits_value 0 [a, b])
          else if digit a \<and> \<not> fixed then map_option (\<lambda>n. (n, b # rest)) (digits_value 0 [a]) else None
      | [a] \<Rightarrow> if digit a \<and> \<not> fixed then map_option (\<lambda>n. (n, [])) (digits_value 0 [a]) else None
      | [] \<Rightarrow> None)"

definition after_char :: "char \<Rightarrow> string \<Rightarrow> string option" where
  "after_char c s = (case s of [] \<Rightarrow> None | d # rest \<Rightarrow> if d = c then Some rest else None)"

text \<open>A fraction of a second is read where it stands, whatever the layout says.\<close>

definition after_fraction :: "string \<Rightarrow> string" where
  "after_fraction s =
     (case s of a # b # rest \<Rightarrow> if (a = CHR ''.'' \<or> a = CHR '','') \<and> digit b then dropWhile digit rest else s | _ \<Rightarrow> s)"

text \<open>The rest after \<open>15:04:05\<close>.\<close>

definition after_clock :: "string \<Rightarrow> string option" where
  "after_clock s = do {
     (h, s1) \<leftarrow> getnum False s;
     s2 \<leftarrow> after_char CHR '':'' s1;
     (m, s3) \<leftarrow> getnum True s2;
     s4 \<leftarrow> after_char CHR '':'' s3;
     (sec, s5) \<leftarrow> getnum True s4;
     if h < 24 \<and> m < 60 \<and> sec < 60 then Some (after_fraction s5) else None
   }"

definition after_zone :: "string \<Rightarrow> string option" where
  "after_zone s =
     (if take 1 s = ''Z'' then Some (drop 1 s)
      else if length s < 6 \<or> s ! 3 \<noteq> CHR '':'' \<or> s ! 0 \<notin> {CHR ''+'', CHR ''-''} then None
      else case (getnum True (take 2 (drop 1 s)), getnum True (take 2 (drop 4 s))) of
        (Some (h, _), Some (m, _)) \<Rightarrow> if h \<le> 24 \<and> m \<le> 60 then Some (drop 6 s) else None
      | _ \<Rightarrow> None)"

definition timestamp_date :: "(string \<Rightarrow> string option) \<Rightarrow> string \<Rightarrow> (int \<times> int \<times> int) option" where
  "timestamp_date zone v = do {
     date \<leftarrow> parse_date (take 10 v);
     s1 \<leftarrow> after_char CHR ''T'' (drop 10 v);
     s2 \<leftarrow> after_clock s1;
     s3 \<leftarrow> zone s2;
     if s3 = [] then Some date else None
   }"

definition slashed_date :: "string \<Rightarrow> (int \<times> int \<times> int) option" where
  "slashed_date v =
     (if length v = 10 \<and> v ! 2 = CHR ''/'' \<and> v ! 5 = CHR ''/''
      then parse_date (drop 6 v @ ''-'' @ take 2 (drop 3 v) @ ''-'' @ take 2 v) else None)"

definition isoDate :: "string \<Rightarrow> string" where
  "isoDate v =
     (let s = trim_space v in
      case List.find (\<lambda>d. d \<noteq> None) [parse_date s, slashed_date s, timestamp_date after_zone s, timestamp_date Some s] of
        Some (Some (y, m, d)) \<Rightarrow> pad 4 y @ ''-'' @ pad 2 m @ ''-'' @ pad 2 d
      | _ \<Rightarrow> [])"

subsection \<open>The prefill\<close>

definition setString :: "string \<Rightarrow> string \<Rightarrow> obj \<Rightarrow> obj" where
  "setString key v m = (if v \<noteq> [] then obj_put key (JStr v) m else m)"

definition setIfAbsent :: "string \<Rightarrow> string \<Rightarrow> obj \<Rightarrow> obj" where
  "setIfAbsent key v m = (if obj_get m key = None then setString key v m else m)"

definition appendUnique :: "string list \<Rightarrow> string \<Rightarrow> string list" where
  "appendUnique l v = (if v = [] \<or> v \<in> set l then l else l @ [v])"

definition firstNonEmpty :: "string list \<Rightarrow> string" where
  "firstNonEmpty vs = (case filter (\<lambda>v. v \<noteq> []) vs of [] \<Rightarrow> [] | v # _ \<Rightarrow> v)"

definition party_text :: "go_text \<Rightarrow> obj \<Rightarrow> string" where
  "party_text gt p = join_with '', '' (filter (\<lambda>v. v \<noteq> []) [form_text gt p ''name'', form_text gt p ''address''])"

text \<open>The sum of the values that can be read, absent when none can.\<close>

definition sum_read :: "rat option list \<Rightarrow> rat option" where
  "sum_read vs = (if list_all (\<lambda>v. v = None) vs then None else Some (sum_list (map (\<lambda>v. case v of Some r \<Rightarrow> r | None \<Rightarrow> 0) vs)))"

definition setNumber :: "string \<Rightarrow> rat option \<Rightarrow> obj \<Rightarrow> obj" where
  "setNumber key v m = (case v of Some r \<Rightarrow> obj_put key (JNum r) m | None \<Rightarrow> m)"

definition mass_of :: "(string \<Rightarrow> rat option) \<Rightarrow> string \<Rightarrow> obj \<Rightarrow> rat option" where
  "mass_of parse kind item = form_float parse (obj_get (Nested (Nested (Nested item ''commodity'') ''goodsMeasure'') kind) ''value'')"

definition declarationFields :: "go_text \<Rightarrow> (string \<Rightarrow> rat option) \<Rightarrow> obj \<Rightarrow> obj" where
  "declarationFields gt parse decl =
     (let base = Nested decl ''baseGeneralSegment''; general = Nested decl ''generalSegment'';
          exporter = Nested base ''exporter''; importer = Nested base ''importer'';
          items = Objects (obj_get decl ''goodsShipments'');
          texts = (\<lambda>key. foldl appendUnique [] (map (\<lambda>item. form_text gt (Nested item ''commodity'') key) items));
          form1 = setString ''voyage_no'' (form_text gt general ''transportVoyageName'')
            (setString ''vessel'' (form_text gt general ''transportVesselName'')
              (setString ''exporters_registration_no'' (form_text gt exporter ''id'')
                (setString ''consignee'' (party_text gt importer)
                  (setString ''shipper'' (party_text gt exporter) []))));
          form2 = (case form_float parse (obj_get general ''numberOfPackages'') of
              Some n \<Rightarrow> obj_put ''number_of_packages'' (JStr (FormatNumber gt n)) form1 | None \<Rightarrow> form1);
          form3 = setString ''cccn_no'' (join_with ''; '' (texts ''classification''))
            (setString ''description_of_goods'' (join_with ''; '' (texts ''commercialDescription'')) form2)
      in setNumber ''net_mass'' (sum_read (map (mass_of parse ''netWeightMeasure'') items))
           (setNumber ''gross_mass'' (sum_read (map (mass_of parse ''grossMassMeasure'') items)) form3))"

text \<open>One note: whether one gave the voyage, and the form.\<close>

definition dispatch_note :: "go_text \<Rightarrow> bool \<times> obj \<Rightarrow> obj \<Rightarrow> bool \<times> obj" where
  "dispatch_note gt acc n =
     (let (voyageFromNote, form) = acc;
          number = form_text gt n ''voyageNumber''; date = form_text gt n ''voyageDateAsString'';
          takes = ((number \<noteq> [] \<or> date \<noteq> []) \<and> \<not> voyageFromNote);
          form1 = (if takes then setString ''voyage_date'' (isoDate date) (setString ''voyage_no'' number form) else form)
      in (voyageFromNote \<or> takes,
          setIfAbsent ''sn_bl_no'' (form_text gt n ''bol'')
            (setIfAbsent ''cont_op_code'' (form_text gt n ''contOpCode'')
              (setIfAbsent ''vessel_op_code'' (form_text gt n ''vesselOpCode'')
                (setIfAbsent ''vessel'' (form_text gt n ''vessel'') form1)))))"

definition dispatchFields :: "go_text \<Rightarrow> (string \<Rightarrow> rat option) \<Rightarrow> obj \<Rightarrow> obj option list \<Rightarrow> obj" where
  "dispatchFields gt parse form notes =
     (let ns = concat (map (\<lambda>n. case n of None \<Rightarrow> [] | Some m \<Rightarrow> [m]) notes);
          marks = foldl appendUnique [] (map (\<lambda>n. firstNonEmpty [form_text gt n ''containerMark'', form_text gt n ''containerNumber'']) ns)
      in setNumber ''cube_m3'' (sum_read (map (\<lambda>n. form_float parse (obj_get n ''volume'')) ns))
           (setString ''marks_nos_container_no'' (join_with '', '' marks) (snd (foldl (dispatch_note gt) (False, form) ns))))"

definition containerRow :: "go_text \<Rightarrow> string \<Rightarrow> obj option \<Rightarrow> obj" where
  "containerRow gt number n =
     (let m = (case n of None \<Rightarrow> [] | Some m \<Rightarrow> m) in
      setString ''customs_seal_no'' (form_text gt m ''sealNo'')
        (setString ''container_number'' (form_text gt m ''containerNumber'') [(''cdn_number'', JStr number)]))"

type_synonym 'w poster = "'w \<Rightarrow> string \<Rightarrow> string \<Rightarrow> json \<Rightarrow> (string option \<times> obj) \<times> 'w"

record prefill_input =
  pf_declaration :: "obj option"
  pf_refs :: "obj list"
  pf_declarant :: string
  pf_company :: string
  pf_fallback :: "obj list"

definition CDNRetrievePath :: string where "CDNRetrievePath = ''/api/cdn/v1/retrieve''"

definition retrieveCDN :: "'w poster \<Rightarrow> string \<Rightarrow> prefill_input \<Rightarrow> doc_ref \<Rightarrow> 'w \<Rightarrow> obj option \<times> 'w" where
  "retrieveCDN post service arg ref w =
     (case post w service CDNRetrievePath (JObj [(''cdnRef'', reference_json ref), (''declarantCode'', JStr (pf_declarant arg)),
         (''companyCode'', JStr (pf_company arg))]) of
        ((Some e, resp), w') \<Rightarrow> (None, w')
      | ((None, resp), w') \<Rightarrow> (firstObject resp [''cdn''], w'))"

fun retrieve_all :: "'w poster \<Rightarrow> string \<Rightarrow> prefill_input \<Rightarrow> doc_ref list \<Rightarrow> 'w \<Rightarrow> obj option list \<times> 'w" where
  "retrieve_all post service arg [] w = ([], w)"
| "retrieve_all post service arg (ref # refs) w =
     (let (n, w1) = retrieveCDN post service arg ref w; (ns, w2) = retrieve_all post service arg refs w1 in (n # ns, w2))"

definition Prefill :: "go_text \<Rightarrow> (string \<Rightarrow> rat option) \<Rightarrow> 'w poster \<Rightarrow> string \<Rightarrow> prefill_input \<Rightarrow> 'w \<Rightarrow> (obj \<times> bool) \<times> 'w" where
  "Prefill gt parse post service arg w =
     (let fallback = JArr (map JObj (pf_fallback arg)) in
      case pf_declaration arg of
        None \<Rightarrow> (([(''containers'', fallback)], False), w)
      | Some decl \<Rightarrow>
          let form = declarationFields gt parse decl; refs = ActiveCDNRefs gt (pf_refs arg) in
          if refs = [] then ((obj_put ''containers'' fallback form, True), w)
          else
            let (notes, w') = retrieve_all post service arg refs w;
                rows = JArr (map2 (\<lambda>r n. JObj (containerRow gt (ref_String r) n)) refs notes)
            in ((dispatchFields gt parse (obj_put ''containers'' rows form) notes, list_ex (\<lambda>n. n \<noteq> None) notes), w'))"

subsection \<open>The step\<close>

datatype prefill_error = InvalidPrefillConfig | ServiceRequired | PrefillNoRecord | NamespaceRequired

definition decodePrefillConfig :: "raw_message \<Rightarrow> string option" where
  "decodePrefillConfig config =
     (case config of Doc v \<Rightarrow> decode_struct (\<lambda>kvs. decode_string (member kvs ''service_id'')) v | _ \<Rightarrow> None)"

definition Prefill_Execute ::
    "go_text \<Rightarrow> (string \<Rightarrow> rat option) \<Rightarrow> 'w poster \<Rightarrow> plugin_context \<Rightarrow> raw_message \<Rightarrow> 'w \<Rightarrow>
     prefill_error step_end \<times> plug_record option \<times> 'w" where
  "Prefill_Execute gt parse post ctx config w =
     (case decodePrefillConfig config of
        None \<Rightarrow> (Failed (configError InvalidPrefillConfig), px_record ctx, w)
      | Some service \<Rightarrow>
          if service = [] then (Failed (configError ServiceRequired), px_record ctx, w)
          else case px_record ctx of
            None \<Rightarrow> (Failed (inputError PrefillNoRecord), None, w)
          | Some rec \<Rightarrow>
              if px_namespace ctx = [] then (Failed (configError NamespaceRequired), Some rec, w)
              else
                let (declarant, company) = TraderCodes (input_object (px_inputs ctx) ''userform'');
                    arg = \<lparr>pf_declaration = (case obj_get (px_inputs ctx) ''declaration'' of Some (JObj d) \<Rightarrow> Some d | _ \<Rightarrow> None),
                      pf_refs = Objects (obj_get (px_inputs ctx) ''cdn_refs''), pf_declarant = declarant, pf_company = company,
                      pf_fallback = Objects (obj_get (px_inputs ctx) ''containers'')\<rparr>;
                    ((form, retrieved), w') = Prefill gt parse post service arg w
                in (Advanced, Some (put_data (px_namespace ctx) (JObj [(''userform'', JObj form), (''retrieved'', JBool retrieved)]) rec), w'))"

subsection \<open>The rows of the form\<close>

lemma set_keeps [simp]:
  "key \<noteq> k \<Longrightarrow> obj_get (setString key v m) k = obj_get m k" "key \<noteq> k \<Longrightarrow> obj_get (setIfAbsent key v m) k = obj_get m k"
  "key \<noteq> k \<Longrightarrow> obj_get (setNumber key x m) k = obj_get m k"
  by (simp_all add: setString_def setIfAbsent_def setNumber_def obj_get_put split: option.split)

lemma dispatch_note_keeps: "obj_get (snd (dispatch_note gt acc n)) ''containers'' = obj_get (snd acc) ''containers''"
  by (simp add: dispatch_note_def Let_def split: prod.split)

lemma dispatchFields_keeps: "obj_get (dispatchFields gt parse form notes) ''containers'' = obj_get form ''containers''"
proof -
  have "obj_get (snd (foldl (dispatch_note gt) acc ns)) ''containers'' = obj_get (snd acc) ''containers''" for acc ns
    by (induction ns arbitrary: acc) (simp_all add: dispatch_note_keeps)
  then show ?thesis by (simp add: dispatchFields_def Let_def)
qed

lemma retrieve_all_length: "length (fst (retrieve_all post service arg refs w)) = length refs"
  by (induction refs arbitrary: w) (simp_all split: prod.split, metis fst_conv)

lemma row_number: "obj_get (containerRow gt number n) ''cdn_number'' = Some (JStr number)"
  by (simp add: containerRow_def Let_def) (simp add: obj_get_def)

lemma rows_numbered:
  "length got = length refs \<Longrightarrow> list_all clean_ref refs \<Longrightarrow>
     list_all2 (\<lambda>row r. case row of JObj m \<Rightarrow> ParseReference (Str m ''cdn_number'') = Inr r | _ \<Rightarrow> False)
       (map2 (\<lambda>r n. JObj (containerRow gt (ref_String r) n)) refs got) refs"
proof (induction refs arbitrary: got)
  case (Cons r refs)
  then obtain n rest where "got = n # rest" "length rest = length refs" by (cases got) auto
  with Cons show ?case by (simp add: Str_def row_number ref_text_reads_back)
qed simp

subsection \<open>Collected results\<close>

lemma first_form_Some: "first_form bs = Some f \<Longrightarrow> \<exists>b \<in> set bs. branch_form b = Some f"
  by (induction bs) (auto simp: first_form_def split: if_splits option.splits)

lemma first_form_None: "first_form bs = None \<Longrightarrow> \<forall>b \<in> set bs. branch_form b = None"
  by (induction bs) (auto simp: first_form_def split: if_splits)

subsection \<open>Properties\<close>



text \<open>A retrieved declaration says what is missing: a rejected answer keeps nothing but the reason, and an
  accepted one with a usable container count says how many containers no active dispatch note
  covers, between none and all, and none exactly when there are as many notes as containers.\<close>

theorem retrieve_answer_counts:
  "case retrieve_Interpret gt callErr resp of
     (False, out) \<Rightarrow> map fst out = [''error'']
   | (True, out) \<Rightarrow> (case RetrievedDeclaration resp of
       None \<Rightarrow> False
     | Some decl \<Rightarrow> obj_get out ''declaration'' = Some (JObj decl) \<and>
         (case containerCount decl of
            None \<Rightarrow> obj_get out ''missing_cdn_count'' = None
          | Some count \<Rightarrow> (\<exists>missing. obj_get out ''missing_cdn_count'' = Some (JNum (of_int missing)) \<and> 1 \<le> count \<and> 0 \<le> missing \<and> missing \<le> count \<and>
              (missing = 0) = (count \<le> int (length (ActiveCDNRefs gt (RetrievedCDNRefs resp)))))))"
proof (cases "callErr = None \<and> RetrievedDeclaration resp \<noteq> None")
  case False
  then show ?thesis by (cases callErr) (simp_all add: retrieve_Interpret_def)
next
  case True
  then obtain decl where d: "RetrievedDeclaration resp = Some decl" by auto
  have c: "containerCount decl = Some count \<Longrightarrow> 1 \<le> count" for count by (auto simp: containerCount_def split: option.splits if_splits)
  show ?thesis
  proof (cases "containerCount decl")
    case (Some count)
    have m: "max (count - int k) 0 \<le> count \<and> (max (count - int k) 0 = 0) = (count \<le> int k)" for k using c [OF Some] by auto
    show ?thesis
      using True c [OF Some] m [of "length (ActiveCDNRefs gt (RetrievedCDNRefs resp))"]
      by (simp add: retrieve_Interpret_def d Some Let_def obj_get_def)
  qed (use True in \<open>simp add: retrieve_Interpret_def d Let_def obj_get_def\<close>)
qed

subsection \<open>Witnesses\<close>

definition demo_listed :: obj where
  "demo_listed = [(''status'', JStr ''registered''), (''office'', JStr ''CBC''), (''year'', JNum 2026), (''serial'', JStr ''D''), (''number'', JNum 7)]"

definition demo_gt :: go_text where
  "demo_gt = \<lparr>gt_float = (\<lambda>_. ''1''), gt_value = (\<lambda>_. ''?''), gt_raw = (\<lambda>_. ''raw'')\<rparr>"

definition demo_prefill :: prefill_input where
  "demo_prefill = \<lparr>pf_declaration = Some [], pf_refs = [demo_listed, [(''status'', JStr ''CANCELLED'')]], pf_declarant = [], pf_company = [], pf_fallback = []\<rparr>"



end
