(* ===== verification/Principals.thy ===== *)
theory Principals
  imports Go_Json
begin

text \<open>
  \<open>internal/authn\<close>: the application's view of the authenticated caller. A \<open>principal\<close>
  is built from the context the shared JWT library attaches (\<open>auth_context\<close>, of which the
  fields the code reads are kept); its claims are JSON values by name.
\<close>

datatype kind = KindUser | KindClient | KindOther string

type_synonym claims = "(string \<times> json) list"

record principal =
  pr_kind :: kind
  pr_user_id :: string
  pr_idp_user_id :: string
  pr_client_id :: string
  pr_roles :: "string list"
  pr_scopes :: "string list"
  pr_email :: string
  pr_phone :: string
  pr_ou_id :: string
  pr_ou_handle :: string
  pr_extra_claims :: "claims option"

definition empty_principal :: principal where
  "empty_principal = \<lparr>pr_kind = KindOther [], pr_user_id = [], pr_idp_user_id = [], pr_client_id = [],
     pr_roles = [], pr_scopes = [], pr_email = [], pr_phone = [], pr_ou_id = [], pr_ou_handle = [],
     pr_extra_claims = None\<rparr>"

subsection \<open>Claims\<close>

definition claims_String :: "claims \<Rightarrow> string \<Rightarrow> string" where
  "claims_String c name = (case obj_get c name of Some (JStr s) \<Rightarrow> s | _ \<Rightarrow> [])"

fun all_strings :: "json list \<Rightarrow> string list option" where
  "all_strings [] = Some []"
| "all_strings (JStr s # js) = map_option ((#) s) (all_strings js)"
| "all_strings (_ # js) = None"

definition claims_Strings :: "claims \<Rightarrow> string \<Rightarrow> string list option" where
  "claims_Strings c name = (case obj_get c name of Some (JArr js) \<Rightarrow> all_strings js | _ \<Rightarrow> None)"

definition builtinUserClaimNames :: "string list" where
  "builtinUserClaimNames = [''email'', ''ouId'', ''ouHandle'', ''phone_number'']"

definition extraClaims :: "claims \<Rightarrow> string list \<Rightarrow> claims option" where
  "extraClaims src builtin =
     (let out = filter (\<lambda>(name, _). name \<notin> set builtin) src
      in if out = [] then None else Some out)"

subsection \<open>From the library's context\<close>

record user_context =
  uc_id :: string
  uc_idp_user_id :: string
  uc_roles :: "string list"
  uc_scopes :: "string list"
  uc_claims :: claims

record client_context =
  cc_client_id :: string
  cc_roles :: "string list"
  cc_scopes :: "string list"
  cc_claims :: claims

record auth_context =
  ac_user :: "user_context option"
  ac_client :: "client_context option"

definition principalFromAuthContext :: "auth_context option \<Rightarrow> principal option" where
  "principalFromAuthContext ac =
     (case ac of
        None \<Rightarrow> None
      | Some a \<Rightarrow>
          (case ac_user a of
             Some u \<Rightarrow> Some (empty_principal\<lparr>
               pr_kind := KindUser,
               pr_user_id := uc_id u,
               pr_idp_user_id := uc_idp_user_id u,
               pr_roles := uc_roles u,
               pr_scopes := uc_scopes u,
               pr_email := claims_String (uc_claims u) ''email'',
               pr_phone := claims_String (uc_claims u) ''phone_number'',
               pr_ou_id := claims_String (uc_claims u) ''ouId'',
               pr_ou_handle := claims_String (uc_claims u) ''ouHandle'',
               pr_extra_claims := extraClaims (uc_claims u) builtinUserClaimNames\<rparr>)
           | None \<Rightarrow>
               (case ac_client a of
                  Some c \<Rightarrow> Some (empty_principal\<lparr>
                    pr_kind := KindClient,
                    pr_client_id := cc_client_id c,
                    pr_roles := cc_roles c,
                    pr_scopes := cc_scopes c,
                    pr_extra_claims := extraClaims (cc_claims c) []\<rparr>)
                | None \<Rightarrow> None)))"

text \<open>The kind decides which identity fields a principal carries.\<close>

lemma principal_of_user:
  "principalFromAuthContext (Some a) = Some p \<Longrightarrow> pr_kind p = KindUser \<Longrightarrow>
   pr_client_id p = [] \<and> (\<exists>u. ac_user a = Some u \<and> pr_idp_user_id p = uc_idp_user_id u)"
  by (auto simp: principalFromAuthContext_def empty_principal_def split: option.splits)

lemma principal_of_client:
  "principalFromAuthContext (Some a) = Some p \<Longrightarrow> pr_kind p = KindClient \<Longrightarrow>
   pr_ou_handle p = [] \<and> pr_user_id p = [] \<and> pr_idp_user_id p = [] \<and> ac_user a = None"
  by (auto simp: principalFromAuthContext_def empty_principal_def split: option.splits)

lemma principal_kinds:
  "principalFromAuthContext ac = Some p \<Longrightarrow> pr_kind p = KindUser \<or> pr_kind p = KindClient"
  by (auto simp: principalFromAuthContext_def split: option.splits)

definition Subject :: "principal option \<Rightarrow> string" where
  "Subject p =
     (case p of
        None \<Rightarrow> []
      | Some p \<Rightarrow>
          (case pr_kind p of
             KindUser \<Rightarrow> if pr_user_id p \<noteq> [] then pr_user_id p else pr_idp_user_id p
           | KindClient \<Rightarrow> pr_client_id p
           | KindOther _ \<Rightarrow> []))"

end
