(* ===== verification/File_Access.thy ===== *)
theory File_Access
  imports Principals
begin

text \<open>
  \<open>internal/storage/filetoken\<close> (\<open>ParseKeyset\<close>, \<open>Seal\<close>, \<open>Open\<close>) and
  \<open>internal/storage/fileaccess\<close> (\<open>Issue\<close>, \<open>IssueForClient\<close>, \<open>Resolve\<close>): the tokens
  callers hold in place of stored files. The JWE library is the parameter \<open>jose\<close>:
  encrypting, parsing a compact token's header, decrypting. Base64 is the standard library's.
  A time is a number of nanoseconds since the epoch.
\<close>

subsection \<open>Keysets\<close>

type_synonym bytes = "nat list"

record keyset =
  ks_current :: string
  ks_keys :: "(string \<times> bytes) list"

datatype keyset_error =
    KeysetEmpty
  | WantKidKey nat
  | BadKid nat string
  | DuplicateKid nat string
  | BadBase64 nat string
  | BadKeySize nat string nat

definition kidPattern :: "string \<Rightarrow> bool" where
  "kidPattern s = (1 \<le> length s \<and> length s \<le> 32 \<and>
     list_all (\<lambda>c. let n = of_char c :: nat in (97 \<le> n \<and> n \<le> 122) \<or> (48 \<le> n \<and> n \<le> 57) \<or> c = CHR ''_'' \<or> c = CHR ''-'') s)"

fun cut_at :: "char \<Rightarrow> string \<Rightarrow> (string \<times> string) option" where
  "cut_at c [] = None"
| "cut_at c (x # xs) = (if x = c then Some ([], xs) else map_option (\<lambda>(a, b). (x # a, b)) (cut_at c xs))"

definition b64_value :: "char \<Rightarrow> nat option" where
  "b64_value c = (let n = of_char c :: nat in
     if 65 \<le> n \<and> n \<le> 90 then Some (n - 65)
     else if 97 \<le> n \<and> n \<le> 122 then Some (n - 71)
     else if 48 \<le> n \<and> n \<le> 57 then Some (n + 4)
     else if c = CHR ''+'' then Some 62
     else if c = CHR ''/'' then Some 63 else None)"

fun b64_quads :: "string \<Rightarrow> bytes option" where
  "b64_quads [] = Some []"
| "b64_quads (a # b # c # d # rest) =
     (case (b64_value a, b64_value b) of
        (Some x, Some y) \<Rightarrow>
          (case (b64_value c, b64_value d) of
             (Some z, Some w) \<Rightarrow>
               map_option ((@) [x * 4 + y div 16, (y mod 16) * 16 + z div 4, (z mod 4) * 64 + w]) (b64_quads rest)
           | (Some z, None) \<Rightarrow>
               if d = CHR ''='' \<and> rest = [] then Some [x * 4 + y div 16, (y mod 16) * 16 + z div 4] else None
           | (None, _) \<Rightarrow>
               if c = CHR ''='' \<and> d = CHR ''='' \<and> rest = [] then Some [x * 4 + y div 16] else None)
      | _ \<Rightarrow> None)"
| "b64_quads _ = None"

definition DecodeString :: "string \<Rightarrow> bytes option" where
  "DecodeString s = b64_quads (filter (\<lambda>c. c \<noteq> CHR 0x0D \<and> c \<noteq> CHR 0x0A) s)"

definition keySize :: nat where "keySize = 32"

fun parse_entries :: "nat \<Rightarrow> string list \<Rightarrow> keyset \<Rightarrow> keyset_error + keyset" where
  "parse_entries i [] ks = Inr ks"
| "parse_entries i (entry # entries) ks =
     (case cut_at CHR '':'' (trim_space entry) of
        None \<Rightarrow> Inl (WantKidKey (i + 1))
      | Some (kid, encoded) \<Rightarrow>
          if \<not> kidPattern kid then Inl (BadKid (i + 1) kid)
          else if map_of (ks_keys ks) kid \<noteq> None then Inl (DuplicateKid (i + 1) kid)
          else case DecodeString encoded of
            None \<Rightarrow> Inl (BadBase64 (i + 1) kid)
          | Some key \<Rightarrow>
              if length key \<noteq> keySize then Inl (BadKeySize (i + 1) kid (length key))
              else parse_entries (i + 1) entries
                (ks\<lparr>ks_current := (if i = 0 then kid else ks_current ks), ks_keys := ks_keys ks @ [(kid, key)]\<rparr>))"

definition ParseKeyset :: "string \<Rightarrow> keyset_error + keyset" where
  "ParseKeyset v = (if blank v then Inl KeysetEmpty
     else parse_entries 0 (split_on CHR '','' v) \<lparr>ks_current = [], ks_keys = []\<rparr>)"

text \<open>A keyset that parses has a current key, and every key is a full one.\<close>

definition keyset_ok :: "keyset \<Rightarrow> bool" where
  "keyset_ok ks \<longleftrightarrow> ks_current ks \<noteq> [] \<and> (\<exists>key. map_of (ks_keys ks) (ks_current ks) = Some key) \<and>
     (\<forall>(kid, key) \<in> set (ks_keys ks). length key = keySize) \<and> distinct (map fst (ks_keys ks))"

lemma parse_entries_ok:
  assumes "parse_entries i entries ks = Inr ks'" and "if i = 0 then ks = \<lparr>ks_current = [], ks_keys = []\<rparr> \<and> entries \<noteq> [] else keyset_ok ks"
  shows "keyset_ok ks'"
  using assms
proof (induction entries arbitrary: i ks)
  case (Cons entry entries)
  from Cons.prems(1) obtain kid encoded key where e: "kidPattern kid" "map_of (ks_keys ks) kid = None" "length key = keySize"
    "parse_entries (i + 1) entries (ks\<lparr>ks_current := (if i = 0 then kid else ks_current ks), ks_keys := ks_keys ks @ [(kid, key)]\<rparr>) = Inr ks'"
    by (auto split: option.splits if_splits)
  have "keyset_ok (ks\<lparr>ks_current := (if i = 0 then kid else ks_current ks), ks_keys := ks_keys ks @ [(kid, key)]\<rparr>)"
    using Cons.prems(2) e(1-3) by (auto simp: keyset_ok_def kidPattern_def map_add_def map_of_eq_None_iff split: if_splits)
  then show ?case by (intro Cons.IH [OF e(4)]) simp
qed (auto split: if_splits)

lemma ParseKeyset_ok: "ParseKeyset v = Inr ks \<Longrightarrow> keyset_ok ks"
  unfolding ParseKeyset_def by (auto split: if_splits intro: parse_entries_ok)

subsection \<open>Tokens\<close>

record 'c jwe =
  jh_type :: "string option"
  jh_kid :: string
  jh_box :: 'c

record 'c jose =
  jo_encrypt :: "nat \<Rightarrow> bytes \<Rightarrow> string \<Rightarrow> string \<Rightarrow> raw_message \<Rightarrow> string + string"
  jo_parse :: "string \<Rightarrow> 'c jwe option"
  jo_decrypt :: "'c \<Rightarrow> bytes \<Rightarrow> raw_message option"

record grant =
  g_resource :: string
  g_holder :: string
  g_scopes :: "string list"

record tclaims =
  t_grant :: grant
  t_issued :: int
  t_expires :: "int option"

record 'c codec =
  cd_jose :: "'c jose"
  cd_keys :: keyset

datatype seal_error = ResourceHolderRequired | ScopesRequired | NegativeLifetime | EncryptFailed string | ResourceTooLong nat

datatype open_result = Opened tclaims | OpenExpired tclaims | OpenInvalid

definition typ_header :: string where "typ_header = ''nsw-file+jwe''"
definition maxTokenLength :: nat where "maxTokenLength = 2048"

definition NewCodec :: "'c jose \<Rightarrow> keyset option \<Rightarrow> 'c codec option" where
  "NewCodec J keys = (case keys of None \<Rightarrow> None | Some ks \<Rightarrow> if ks_current ks = [] then None else Some \<lparr>cd_jose = J, cd_keys = ks\<rparr>)"

definition validScopes :: "string list \<Rightarrow> bool" where
  "validScopes scopes = (scopes \<noteq> [] \<and> [] \<notin> set scopes)"

definition unix :: "int \<Rightarrow> int" where "unix t = t div 1000000000"

definition payload :: "grant \<Rightarrow> int \<Rightarrow> int \<Rightarrow> json" where
  "payload g iat ex =
     JObj ([(''res'', JStr (g_resource g)), (''h'', JStr (g_holder g)), (''scope'', JArr (map JStr (g_scopes g))),
            (''iat'', JNum (of_int iat))] @ (if ex = 0 then [] else [(''exp'', JNum (of_int ex))]))"

definition Seal :: "'c codec \<Rightarrow> int \<Rightarrow> nat \<Rightarrow> grant \<Rightarrow> int \<Rightarrow> seal_error + string" where
  "Seal c now nonce g lifetime =
     (if g_resource g = [] \<or> g_holder g = [] then Inl ResourceHolderRequired
      else if \<not> validScopes (g_scopes g) then Inl ScopesRequired
      else if lifetime < 0 then Inl NegativeLifetime
      else
        let ex = (if lifetime > 0 then unix (now + lifetime) else 0);
            key = (case map_of (ks_keys (cd_keys c)) (ks_current (cd_keys c)) of None \<Rightarrow> [] | Some k \<Rightarrow> k)
        in case jo_encrypt (cd_jose c) nonce key (ks_current (cd_keys c)) typ_header (Doc (payload g (unix now) ex)) of
             Inl e \<Rightarrow> Inl (EncryptFailed e)
           | Inr token \<Rightarrow> if length token > maxTokenLength then Inl (ResourceTooLong (length token)) else Inr token)"

record payload_fields =
  pl_resource :: string
  pl_holder :: string
  pl_scopes :: "string list"
  pl_issued :: int
  pl_expires :: int

definition decodePayload :: "raw_message \<Rightarrow> payload_fields option" where
  "decodePayload raw =
     (let field = (\<lambda>kvs name. case field_get kvs name of None \<Rightarrow> JNull | Some v \<Rightarrow> v) in
      case raw of
        Doc (JObj kvs) \<Rightarrow>
          (case (decode_string (field kvs ''res''), decode_string (field kvs ''h''), decode_strings (field kvs ''scope''),
                 decode_int64 (field kvs ''iat''), decode_int64 (field kvs ''exp'')) of
             (Some r, Some h, Some s, Some i, Some e) \<Rightarrow>
               Some \<lparr>pl_resource = r, pl_holder = h, pl_scopes = s, pl_issued = i, pl_expires = e\<rparr>
           | _ \<Rightarrow> None)
      | Doc JNull \<Rightarrow> Some \<lparr>pl_resource = [], pl_holder = [], pl_scopes = [], pl_issued = 0, pl_expires = 0\<rparr>
      | _ \<Rightarrow> None)"

definition Open :: "'c codec \<Rightarrow> int \<Rightarrow> string \<Rightarrow> open_result" where
  "Open c now token =
     (if length token > maxTokenLength then OpenInvalid
      else case jo_parse (cd_jose c) token of
        None \<Rightarrow> OpenInvalid
      | Some obj \<Rightarrow>
          if jh_type obj \<noteq> Some typ_header then OpenInvalid
          else case map_of (ks_keys (cd_keys c)) (jh_kid obj) of
            None \<Rightarrow> OpenInvalid
          | Some key \<Rightarrow>
              (case jo_decrypt (cd_jose c) (jh_box obj) key of
                 None \<Rightarrow> OpenInvalid
               | Some plaintext \<Rightarrow>
                   (case decodePayload plaintext of
                      None \<Rightarrow> OpenInvalid
                    | Some p \<Rightarrow>
                        if pl_resource p = [] \<or> pl_holder p = [] \<or> [] \<in> set (pl_scopes p) then OpenInvalid
                        else
                          let claims = \<lparr>t_grant = \<lparr>g_resource = pl_resource p, g_holder = pl_holder p, g_scopes = pl_scopes p\<rparr>,
                                t_issued = pl_issued p * 1000000000,
                                t_expires = (if pl_expires p \<noteq> 0 then Some (pl_expires p * 1000000000) else None)\<rparr>
                          in if pl_expires p \<noteq> 0 \<and> \<not> now < pl_expires p * 1000000000 then OpenExpired claims else Opened claims)))"

subsection \<open>Access\<close>

abbreviation ScopeRead :: string where "ScopeRead \<equiv> ''read''"
abbreviation ScopeSubmit :: string where "ScopeSubmit \<equiv> ''submit''"

datatype access_error = AccessInvalid | NotYours | ScopeDenied | AccessExpired

datatype issue_error = NoHolder | ClientIdRequired | NoScope | SealFailed seal_error

record 'c access =
  ac_codec :: "'c codec"
  ac_user_ttl :: int

definition UploadScopes :: "principal option \<Rightarrow> string list" where
  "UploadScopes p = (case p of
       Some q \<Rightarrow> if pr_kind q = KindUser then [ScopeSubmit] else [ScopeRead, ScopeSubmit]
     | None \<Rightarrow> [ScopeRead, ScopeSubmit])"

definition userHolder :: "string \<Rightarrow> string" where "userHolder sub = ''u:'' @ sub"
definition clientHolder :: "string \<Rightarrow> string" where "clientHolder clientID = ''c:'' @ clientID"

definition holderOf :: "principal option \<Rightarrow> string" where
  "holderOf p =
     (case p of
        None \<Rightarrow> []
      | Some p \<Rightarrow>
          (case pr_kind p of
             KindUser \<Rightarrow> if pr_idp_user_id p \<noteq> [] then userHolder (pr_idp_user_id p) else []
           | KindClient \<Rightarrow> if pr_client_id p \<noteq> [] then clientHolder (pr_client_id p) else []
           | KindOther _ \<Rightarrow> []))"

text \<open>\<open>path.Ext\<close>: what follows, with its dot, the last dot of the last element.\<close>

definition path_Ext :: "string \<Rightarrow> string" where
  "path_Ext s =
     (let back = takeWhile (\<lambda>c. c \<noteq> CHR ''/'' \<and> c \<noteq> CHR ''.'') (rev s) in
      case drop (length back) (rev s) of
        c # _ \<Rightarrow> if c = CHR ''.'' then CHR ''.'' # rev back else []
      | [] \<Rightarrow> [])"

definition fileExtension :: "string \<Rightarrow> bool" where
  "fileExtension s = (case s of [] \<Rightarrow> False | c # cs \<Rightarrow> c = CHR ''.'' \<and> cs \<noteq> [] \<and>
     list_all (\<lambda>c. let n = of_char c :: nat in (65 \<le> n \<and> n \<le> 90) \<or> (97 \<le> n \<and> n \<le> 122) \<or> (48 \<le> n \<and> n \<le> 57)) cs)"

definition extension :: "string \<Rightarrow> string" where
  "extension resource = (if fileExtension (path_Ext resource) then path_Ext resource else [])"

definition issue :: "'c access \<Rightarrow> int \<Rightarrow> nat \<Rightarrow> string \<Rightarrow> bool \<Rightarrow> string \<Rightarrow> string list \<Rightarrow> issue_error + string" where
  "issue a now nonce holder user resource scopes =
     (if scopes = [] then Inl NoScope
      else
        let lifetime = (if user \<and> ScopeRead \<in> set scopes then ac_user_ttl a else 0)
        in case Seal (ac_codec a) now nonce \<lparr>g_resource = resource, g_holder = holder, g_scopes = scopes\<rparr> lifetime of
             Inl e \<Rightarrow> Inl (SealFailed e)
           | Inr token \<Rightarrow> Inr (token @ extension resource))"

definition Issue :: "'c access \<Rightarrow> int \<Rightarrow> nat \<Rightarrow> principal option \<Rightarrow> string \<Rightarrow> string list \<Rightarrow> issue_error + string" where
  "Issue a now nonce p resource scopes =
     (if holderOf p = [] then Inl NoHolder
      else issue a now nonce (holderOf p) (case p of None \<Rightarrow> False | Some q \<Rightarrow> pr_kind q = KindUser) resource scopes)"

definition IssueForClient :: "'c access \<Rightarrow> int \<Rightarrow> nat \<Rightarrow> string \<Rightarrow> string \<Rightarrow> string list \<Rightarrow> issue_error + string" where
  "IssueForClient a now nonce clientID resource scopes =
     (if clientID = [] then Inl ClientIdRequired
      else issue a now nonce (clientHolder clientID) False resource scopes)"

definition split_ref :: "string \<Rightarrow> string \<times> string" where
  "split_ref ref =
     (if length (filter (\<lambda>c. c = CHR ''.'') ref) = 5
      then (let n = length (takeWhile (\<lambda>c. c \<noteq> CHR ''.'') (rev ref)) + 1 in
            (take (length ref - n) ref, drop (length ref - n) ref))
      else (ref, []))"

definition Resolve_file :: "'c access \<Rightarrow> int \<Rightarrow> principal option \<Rightarrow> string \<Rightarrow> string \<Rightarrow> access_error + string" where
  "Resolve_file a now p ref need =
     (let (sealed, ext) = split_ref ref;
          check = (\<lambda>claims expired.
            if ext \<noteq> extension (g_resource (t_grant claims)) then Inl AccessInvalid
            else if holderOf p = [] \<or> g_holder (t_grant claims) \<noteq> holderOf p then Inl NotYours
            else if need \<notin> set (g_scopes (t_grant claims)) then Inl ScopeDenied
            else if expired then Inl AccessExpired
            else Inr (g_resource (t_grant claims)))
      in case Open (ac_codec a) now sealed of
           OpenInvalid \<Rightarrow> Inl AccessInvalid
         | Opened claims \<Rightarrow> check claims False
         | OpenExpired claims \<Rightarrow> check claims True)"

subsection \<open>The library's contract\<close>

definition dots :: "string \<Rightarrow> nat" where
  "dots s = length (filter (\<lambda>c. c = CHR ''.'') s)"

text \<open>
  What RFC 7516 promises of the library: an encrypted token has five parts, and parses and
  decrypts, under its key, to the header and the plaintext it was made of.
\<close>

definition jose_ok :: "'c jose \<Rightarrow> bool" where
  "jose_ok J \<longleftrightarrow> (\<forall>nonce key kid ty m t. length key = keySize \<longrightarrow> jo_encrypt J nonce key kid ty m = Inr t \<longrightarrow>
     dots t = 4 \<and> (\<exists>w. jo_parse J t = Some w \<and> jh_type w = Some ty \<and> jh_kid w = kid \<and> jo_decrypt J (jh_box w) key = Some m))"

lemma decode_strings_map [simp]: "decode_strings (JArr (map JStr xs)) = Some xs"
  by (simp add: comp_def, induction xs) auto

lemma field_names:
  "fold_name ''res'' = ''res''" "fold_name ''h'' = ''h''" "fold_name ''scope'' = ''scope''" "fold_name ''iat'' = ''iat''" "fold_name ''exp'' = ''exp''"
  by code_simp+

lemma decode_payload:
  "int64_ok iat \<Longrightarrow> int64_ok ex \<Longrightarrow> decodePayload (Doc (payload g iat ex)) =
     Some \<lparr>pl_resource = g_resource g, pl_holder = g_holder g, pl_scopes = g_scopes g, pl_issued = iat, pl_expires = ex\<rparr>"
  by (simp add: decodePayload_def payload_def field_get_def field_names del: decode_strings.simps fold_name.simps)

definition expiry :: "int \<Rightarrow> int \<Rightarrow> int" where
  "expiry now lifetime = (if lifetime > 0 then unix (now + lifetime) else 0)"

text \<open>The clock and a lifetime are int64 nanoseconds, and the clock is past the first second.\<close>

definition clock_ok :: "int \<Rightarrow> int \<Rightarrow> bool" where
  "clock_ok now lifetime = (1000000000 \<le> now \<and> now < 2 ^ 63 \<and> lifetime < 2 ^ 63)"

lemma unix_int64: "0 \<le> t \<Longrightarrow> t < 2 ^ 64 \<Longrightarrow> int64_ok (unix t)"
  by (simp add: unix_def int64_ok_def) linarith

lemma seal_open:
  assumes J: "jose_ok (cd_jose c)" and ks: "keyset_ok (cd_keys c)" and clk: "clock_ok now lifetime"
    and s: "Seal c now nonce g lifetime = Inr token"
  shows "dots token = 4"
    and "Open c now' token =
      (let claims = \<lparr>t_grant = g, t_issued = unix now * 1000000000,
                     t_expires = (if lifetime > 0 then Some (expiry now lifetime * 1000000000) else None)\<rparr>
       in if lifetime > 0 \<and> expiry now lifetime * 1000000000 \<le> now' then OpenExpired claims else Opened claims)"
proof -
  obtain key where key: "map_of (ks_keys (cd_keys c)) (ks_current (cd_keys c)) = Some key" "length key = keySize"
    using ks by (auto simp: keyset_ok_def dest!: map_of_SomeD)
  have g: "g_resource g \<noteq> []" "g_holder g \<noteq> []" "[] \<notin> set (g_scopes g)" "0 \<le> lifetime"
    using s by (auto simp: Seal_def validScopes_def split: if_splits)
  have e: "jo_encrypt (cd_jose c) nonce key (ks_current (cd_keys c)) typ_header (Doc (payload g (unix now) (expiry now lifetime))) = Inr token"
    and len: "length token \<le> maxTokenLength"
    using s key by (auto simp: Seal_def expiry_def Let_def split: if_splits sum.splits)
  from J key(2) e show "dots token = 4" unfolding jose_ok_def by blast
  from J key(2) e obtain w where w: "jo_parse (cd_jose c) token = Some w" "jh_type w = Some typ_header"
    "jh_kid w = ks_current (cd_keys c)" "jo_decrypt (cd_jose c) (jh_box w) key = Some (Doc (payload g (unix now) (expiry now lifetime)))"
    unfolding jose_ok_def by blast
  have r: "int64_ok (unix now)" "int64_ok (expiry now lifetime)"
    using clk g(4) unix_int64 [of now] unix_int64 [of "now + lifetime"] by (auto simp: clock_ok_def expiry_def int64_ok_def)
  have nz: "expiry now lifetime = 0 \<longleftrightarrow> \<not> lifetime > 0"
    using clk by (auto simp: clock_ok_def expiry_def unix_def)
  show "Open c now' token =
      (let claims = \<lparr>t_grant = g, t_issued = unix now * 1000000000,
                     t_expires = (if lifetime > 0 then Some (expiry now lifetime * 1000000000) else None)\<rparr>
       in if lifetime > 0 \<and> expiry now lifetime * 1000000000 \<le> now' then OpenExpired claims else Opened claims)"
    using w key g len nz by (auto simp: Open_def Let_def decode_payload [OF r] not_less)
qed

subsection \<open>Extensions\<close>

lemma extension_shape: "extension r = [] \<or> (\<exists>e. extension r = CHR ''.'' # e \<and> CHR ''.'' \<notin> set e)"
  by (auto simp: extension_def fileExtension_def list_all_iff Let_def split: list.splits)

lemma split_ref_extension:
  assumes "dots token = 4"
  shows "split_ref (token @ extension r) = (token, extension r)"
proof (cases "extension r = []")
  case True
  with assms show ?thesis by (simp add: split_ref_def dots_def)
next
  case False
  then obtain e where e: "extension r = CHR ''.'' # e" "CHR ''.'' \<notin> set e" using extension_shape by blast
  have "filter (\<lambda>c. c = CHR ''.'') e = []" using e(2) by (auto simp: filter_empty_conv)
  then have five: "length (filter (\<lambda>c. c = CHR ''.'') (token @ extension r)) = 5" using assms e(1) by (simp add: dots_def)
  have "takeWhile (\<lambda>c. c \<noteq> CHR ''.'') (rev (token @ extension r)) = rev e"
  proof -
    have "\<And>x. x \<in> set (rev e) \<Longrightarrow> x \<noteq> CHR ''.''" using e(2) by auto
    then have "takeWhile (\<lambda>c. c \<noteq> CHR ''.'') (rev e @ CHR ''.'' # rev token) = rev e @ takeWhile (\<lambda>c. c \<noteq> CHR ''.'') (CHR ''.'' # rev token)"
      by (rule takeWhile_append2)
    then show ?thesis by (simp add: e(1))
  qed
  then show ?thesis using five e(1) by (simp add: split_ref_def)
qed

lemma holder_eq:
  "holderOf (Some p) \<noteq> [] \<Longrightarrow> holderOf (Some p) = holderOf (Some q) \<Longrightarrow>
   (pr_kind p = KindUser \<and> pr_kind q = KindUser \<and> pr_idp_user_id p = pr_idp_user_id q) \<or>
   (pr_kind p = KindClient \<and> pr_kind q = KindClient \<and> pr_client_id p = pr_client_id q)"
  by (auto simp: holderOf_def userHolder_def clientHolder_def split: kind.splits if_splits)

definition read_expiry :: "'c access \<Rightarrow> int \<Rightarrow> bool \<Rightarrow> string list \<Rightarrow> int option" where
  "read_expiry a now user scopes =
     (if user \<and> ScopeRead \<in> set scopes then Some (unix (now + ac_user_ttl a) * 1000000000) else None)"

definition access_ok :: "'c access \<Rightarrow> int \<Rightarrow> bool" where
  "access_ok a now = (jose_ok (cd_jose (ac_codec a)) \<and> keyset_ok (cd_keys (ac_codec a)) \<and> 0 < ac_user_ttl a \<and> clock_ok now (ac_user_ttl a))"

lemma issue_resolve:
  assumes ok: "access_ok a now" and i: "issue a now nonce holder user resource scopes = Inr ref"
  shows "Resolve_file a now' q ref need =
    (if holderOf q = [] \<or> holder \<noteq> holderOf q then Inl NotYours
     else if need \<notin> set scopes then Inl ScopeDenied
     else if \<exists>e. read_expiry a now user scopes = Some e \<and> e \<le> now' then Inl AccessExpired
     else Inr resource)"
proof -
  define lifetime where "lifetime = (if user \<and> ScopeRead \<in> set scopes then ac_user_ttl a else 0)"
  obtain token where t: "Seal (ac_codec a) now nonce \<lparr>g_resource = resource, g_holder = holder, g_scopes = scopes\<rparr> lifetime = Inr token"
    "ref = token @ extension resource"
    using i by (auto simp: issue_def lifetime_def Let_def split: if_splits sum.splits)
  have clk: "clock_ok now lifetime" using ok by (auto simp: access_ok_def lifetime_def clock_ok_def)
  have J: "jose_ok (cd_jose (ac_codec a))" and ks: "keyset_ok (cd_keys (ac_codec a))" and ttl: "0 < ac_user_ttl a"
    using ok by (simp_all add: access_ok_def)
  note so = seal_open [OF J ks clk t(1)]
  have "split_ref ref = (token, extension resource)" using so(1) t(2) by (simp add: split_ref_extension)
  moreover have "(\<exists>e. read_expiry a now user scopes = Some e \<and> e \<le> now') \<longleftrightarrow> lifetime > 0 \<and> expiry now lifetime * 1000000000 \<le> now'"
    using ttl by (auto simp: read_expiry_def lifetime_def expiry_def)
  ultimately show ?thesis by (simp add: Resolve_file_def so(2) Let_def)
qed

subsection \<open>A concrete library\<close>

text \<open>One key and one token: enough of a library to keep its contract and seal one grant.\<close>

definition demo_key :: bytes where "demo_key = replicate 32 7"

definition demo_grant_doc :: "string list \<Rightarrow> int \<Rightarrow> json" where
  "demo_grant_doc scopes ex = payload \<lparr>g_resource = ''k/invoice.pdf'', g_holder = ''u:alice'', g_scopes = scopes\<rparr> 5 ex"

definition demo_jose :: "json \<Rightarrow> unit jose" where
  "demo_jose doc = \<lparr>jo_encrypt = (\<lambda>nonce key kid ty m. if key = demo_key \<and> kid = ''k1'' \<and> ty = typ_header \<and> m = Doc doc then Inr ''h.k.i.c.t'' else Inl ''unsupported''),
     jo_parse = (\<lambda>t. if t = ''h.k.i.c.t'' then Some \<lparr>jh_type = Some typ_header, jh_kid = ''k1'', jh_box = ()\<rparr> else None),
     jo_decrypt = (\<lambda>_ key. if key = demo_key then Some (Doc doc) else None)\<rparr>"

definition demo_access :: "json \<Rightarrow> unit access" where
  "demo_access doc = \<lparr>ac_codec = \<lparr>cd_jose = demo_jose doc, cd_keys = \<lparr>ks_current = ''k1'', ks_keys = [(''k1'', demo_key)]\<rparr>\<rparr>, ac_user_ttl = 10000000000\<rparr>"

definition demo_alice :: principal where
  "demo_alice = empty_principal\<lparr>pr_kind := KindUser, pr_idp_user_id := ''alice''\<rparr>"

lemma demo_access_ok: "access_ok (demo_access doc) 5000000000"
proof -
  have "dots ''h.k.i.c.t'' = 4" by (simp add: dots_def)
  then have "jose_ok (demo_jose doc)" by (simp add: jose_ok_def demo_jose_def)
  moreover have "keyset_ok \<lparr>ks_current = ''k1'', ks_keys = [(''k1'', demo_key)]\<rparr>"
    by (simp add: keyset_ok_def keySize_def demo_key_def)
  ultimately show ?thesis by (simp add: access_ok_def demo_access_def clock_ok_def)
qed

lemma demo_issued:
  "Issue (demo_access (demo_grant_doc [''read''] 15)) 5000000000 0 (Some demo_alice) ''k/invoice.pdf'' [''read''] = Inr ''h.k.i.c.t.pdf''"
  by code_simp

subsection \<open>Properties\<close>

text \<open>
  what a token issued to a caller is worth, for good: presented by anyone else it is not
  theirs; by its holder it allows only the scopes it was issued with, and, if it is a user's
  that can read, only before its lifetime ends; then it stands for exactly the resource it was
  issued for.
\<close>
theorem issued_token_resolves:
  assumes "access_ok a now" and "Issue a now nonce (Some p) resource scopes = Inr ref"
  shows "Resolve_file a now' q ref need =
    (if holderOf q \<noteq> holderOf (Some p) then Inl NotYours
     else if need \<notin> set scopes then Inl ScopeDenied
     else if pr_kind p = KindUser \<and> ScopeRead \<in> set scopes \<and> (now + ac_user_ttl a) div 1000000000 * 1000000000 \<le> now'
     then Inl AccessExpired else Inr resource)"
proof -
  have ne: "holderOf (Some p) \<noteq> []" and i: "issue a now nonce (holderOf (Some p)) (pr_kind p = KindUser) resource scopes = Inr ref"
    using assms(2) by (auto simp: Issue_def split: if_splits)
  show ?thesis using issue_resolve [OF assms(1) i] ne by (auto simp: read_expiry_def unix_def)
qed

theorem issued_token_resolves_witness:
  "Resolve_file (demo_access (demo_grant_doc [''read''] 15)) 14000000000 (Some demo_alice) ''h.k.i.c.t.pdf'' ''read'' = Inr ''k/invoice.pdf'' \<and>
   Resolve_file (demo_access (demo_grant_doc [''read''] 15)) 15000000000 (Some demo_alice) ''h.k.i.c.t.pdf'' ''read'' = Inl AccessExpired \<and>
   Resolve_file (demo_access (demo_grant_doc [''read''] 15)) 14000000000 None ''h.k.i.c.t.pdf'' ''read'' = Inl NotYours"
  using issued_token_resolves [OF demo_access_ok demo_issued]
  by (simp add: demo_access_def demo_alice_def holderOf_def userHolder_def)

text \<open>
  a token handed to a machine client that is not the caller never expires, and opens for
  no user and no other client.
\<close>
theorem client_token_resolves:
  assumes "access_ok a now" and "IssueForClient a now nonce clientID resource scopes = Inr ref"
  shows "Resolve_file a now' (Some q) ref need =
    (if \<not> (pr_kind q = KindClient \<and> pr_client_id q = clientID) then Inl NotYours
     else if need \<notin> set scopes then Inl ScopeDenied else Inr resource)"
proof -
  have ne: "clientID \<noteq> []" and i: "issue a now nonce (clientHolder clientID) False resource scopes = Inr ref"
    using assms(2) by (auto simp: IssueForClient_def split: if_splits)
  have "(holderOf (Some q) = [] \<or> clientHolder clientID \<noteq> holderOf (Some q)) \<longleftrightarrow> \<not> (pr_kind q = KindClient \<and> pr_client_id q = clientID)"
    using ne by (auto simp: holderOf_def clientHolder_def userHolder_def split: kind.splits)
  then show ?thesis using issue_resolve [OF assms(1) i] by (simp add: read_expiry_def)
qed

theorem client_token_resolves_witness:
  "Resolve_file (demo_access (payload \<lparr>g_resource = ''k'', g_holder = ''c:fcau'', g_scopes = [''read'']\<rparr> 5 0)) (10 ^ 20)
     (Some (empty_principal\<lparr>pr_kind := KindClient, pr_client_id := ''fcau''\<rparr>)) ''h.k.i.c.t'' ''read'' = Inr ''k''"
proof -
  have "IssueForClient (demo_access (payload \<lparr>g_resource = ''k'', g_holder = ''c:fcau'', g_scopes = [''read'']\<rparr> 5 0)) 5000000000 0 ''fcau'' ''k'' [''read''] = Inr ''h.k.i.c.t''"
    by code_simp
  from client_token_resolves [OF demo_access_ok this] show ?thesis by simp
qed

text \<open>
  C8: a keyset that parses can seal and open: its current key is there and has 32 bytes, no
  key ID is listed twice, and a codec can be made of it.
\<close>
theorem keyset_parsed:
  assumes "ParseKeyset v = Inr ks"
  shows "(\<exists>key. map_of (ks_keys ks) (ks_current ks) = Some key \<and> length key = 32) \<and> distinct (map fst (ks_keys ks)) \<and>
    NewCodec J (Some ks) \<noteq> None"
proof -
  have ok: "keyset_ok ks" using assms by (rule ParseKeyset_ok)
  then obtain key where "map_of (ks_keys ks) (ks_current ks) = Some key" by (auto simp: keyset_ok_def)
  moreover from this have "length key = 32" using ok map_of_SomeD by (fastforce simp: keyset_ok_def keySize_def)
  ultimately show ?thesis using ok by (auto simp: keyset_ok_def NewCodec_def)
qed

theorem keyset_parsed_witness:
  "\<exists>ks. ParseKeyset '' k2:AAAAAAAAAAAAAAAAAAAAAAAAAAAAAAAAAAAAAAAAAAA=,k1:AQEBAQEBAQEBAQEBAQEBAQEBAQEBAQEBAQEBAQEBAQE='' = Inr ks \<and>
     ks_current ks = ''k2'' \<and> distinct (map fst (ks_keys ks))"
proof -
  let ?v = "'' k2:AAAAAAAAAAAAAAAAAAAAAAAAAAAAAAAAAAAAAAAAAAA=,k1:AQEBAQEBAQEBAQEBAQEBAQEBAQEBAQEBAQEBAQEBAQE=''"
  have c: "(case ParseKeyset ?v of Inl _ \<Rightarrow> [] | Inr ks \<Rightarrow> ks_current ks) = ''k2''" by code_simp
  then obtain ks where ks: "ParseKeyset ?v = Inr ks" by (cases "ParseKeyset ?v") auto
  with keyset_parsed [OF ks, of "demo_jose JNull"] c show ?thesis by simp
qed

end
