(* ===== verification/Case_Parties.thy ===== *)
theory Case_Parties
  imports NSW_Prelude
begin

text \<open>
  \<open>internal/caseparty\<close>: who holds which logical role on a case (the table
  \<open>case_parties\<close>, one party per case and role). \<open>Assign\<close> makes a party the holder of
  a role, replacing an earlier one; \<open>RolesOf\<close> reads the roles any of some parties holds.
  The store's \<open>party_fault\<close> is the error the next statement fails with, if any, and the
  row timestamps are not kept. The locale \<open>role_book\<close> states the contract the gate and the
  case flows rely on.
\<close>

record party =
  p_case :: string
  p_role :: string
  p_type :: string
  p_id :: string
  p_assigned_by :: "string option"

record party_ref =
  ref_type :: string
  ref_id :: string

record party_store =
  parties :: "party list"
  party_fault :: "string option"

datatype party_error = PartyIncomplete | PartyDb string

abbreviation TypeOU :: string where "TypeOU \<equiv> ''ou''"
abbreviation TypeUser :: string where "TypeUser \<equiv> ''user''"

definition OU :: "string \<Rightarrow> party_ref" where
  "OU handle = \<lparr>ref_type = TypeOU, ref_id = handle\<rparr>"

definition party_key :: "party \<Rightarrow> string \<times> string" where
  "party_key p = (p_case p, p_role p)"

text \<open>
  \<open>INSERT \<dots> ON CONFLICT (case_id, role) DO UPDATE\<close>: the type, the id and who assigned it
  are the new row's.
\<close>

definition upsert_party :: "party \<Rightarrow> party list \<Rightarrow> party list" where
  "upsert_party p rows =
     (if list_ex (\<lambda>r. party_key r = party_key p) rows
      then map (\<lambda>r. if party_key r = party_key p
                     then r\<lparr>p_type := p_type p, p_id := p_id p, p_assigned_by := p_assigned_by p\<rparr>
                     else r) rows
      else rows @ [p])"

definition Assign :: "party \<Rightarrow> party_store \<Rightarrow> (party_error + unit) \<times> party_store" where
  "Assign p db =
     (if p_case p = [] \<or> p_role p = [] \<or> p_type p = [] \<or> p_id p = [] then (Inl PartyIncomplete, db)
      else case party_fault db of
        Some e \<Rightarrow> (Inl (PartyDb e), db)
      | None \<Rightarrow> (Inr (), db\<lparr>parties := upsert_party p (parties db)\<rparr>))"

definition ref_matches :: "party \<Rightarrow> party_ref \<Rightarrow> bool" where
  "ref_matches r q = (p_type r = ref_type q \<and> p_id r = ref_id q)"

definition RolesOf :: "party_store \<Rightarrow> string \<Rightarrow> party_ref list \<Rightarrow> string + (string \<Rightarrow> bool)" where
  "RolesOf db caseID refs =
     (if caseID = [] \<or> refs = [] then Inr (\<lambda>_. False)
      else case party_fault db of
        Some e \<Rightarrow> Inl e
      | None \<Rightarrow>
          (let held = map p_role (filter (\<lambda>r. p_case r = caseID \<and> list_ex (ref_matches r) refs) (parties db))
           in Inr (\<lambda>role. role \<in> set held)))"

subsection \<open>The contract of a role book\<close>

text \<open>
  A book of role holders: giving a role of a case to a party makes that party, and no other,
  its holder, and changes no other role or case.
\<close>

locale role_book =
  fixes give :: "string \<Rightarrow> string \<Rightarrow> party_ref \<Rightarrow> 'db \<Rightarrow> 'db"
    and holder :: "'db \<Rightarrow> string \<Rightarrow> string \<Rightarrow> party_ref \<Rightarrow> bool"
    and book_ok :: "'db \<Rightarrow> bool"
  assumes give_ok: "book_ok db \<Longrightarrow> book_ok (give c r p db)"
    and give_holder: "book_ok db \<Longrightarrow> holder (give c r p db) c r q \<longleftrightarrow> q = p"
    and give_other: "book_ok db \<Longrightarrow> (c', r') \<noteq> (c, r) \<Longrightarrow> holder (give c r p db) c' r' q = holder db c' r' q"
begin

lemma give_unique: "book_ok db \<Longrightarrow> holder (give c r p db) c r q \<Longrightarrow> holder (give c r p db) c r q' \<Longrightarrow> q = q'"
  by (simp add: give_holder)

lemma gives_ok: "book_ok db \<Longrightarrow> book_ok (fold (\<lambda>(c, r, p). give c r p) gs db)"
  by (induction gs arbitrary: db) (auto simp: give_ok)

text \<open>After any sequence of gifts, the last one for a role decides its holder.\<close>

lemma gives_last:
  assumes "book_ok db" and "\<forall>(c', r', p') \<in> set later. (c', r') \<noteq> (c, r)"
  shows "holder (fold (\<lambda>(c, r, p). give c r p) (earlier @ (c, r, p) # later) db) c r q \<longleftrightarrow> q = p"
proof -
  have "book_ok db' \<Longrightarrow> \<forall>(c', r', p') \<in> set gs. (c', r') \<noteq> (c, r) \<Longrightarrow>
      holder (fold (\<lambda>(c, r, p). give c r p) gs db') c r q = holder db' c r q" for gs db'
    by (induction gs arbitrary: db') (auto simp: give_ok give_other)
  with assms show ?thesis by (simp add: gives_ok give_ok give_holder)
qed

end

subsection \<open>The table keeps the contract\<close>

definition parties_ok :: "party list \<Rightarrow> bool" where
  "parties_ok rows = distinct (map party_key rows)"

definition party_at :: "party list \<Rightarrow> string \<Rightarrow> string \<Rightarrow> party_ref \<Rightarrow> bool" where
  "party_at rows c r q = list_ex (\<lambda>row. party_key row = (c, r) \<and> ref_matches row q) rows"

definition new_party :: "string \<Rightarrow> string \<Rightarrow> party_ref \<Rightarrow> party" where
  "new_party c r q = \<lparr>p_case = c, p_role = r, p_type = ref_type q, p_id = ref_id q, p_assigned_by = None\<rparr>"

lemma key_upsert [simp]:
  "map party_key (upsert_party p rows) =
     (if party_key p \<in> party_key ` set rows then map party_key rows else map party_key rows @ [party_key p])"
  by (auto simp: upsert_party_def party_key_def list_ex_iff image_iff) (metis)+

lemma parties_ok_upsert: "parties_ok rows \<Longrightarrow> parties_ok (upsert_party p rows)"
  by (auto simp: parties_ok_def)

lemma party_at_upsert_same:
  "party_at (upsert_party p rows) (p_case p) (p_role p) q \<longleftrightarrow> ref_matches p q"
proof (cases "list_ex (\<lambda>r. party_key r = party_key p) rows")
  case True
  then obtain r where "r \<in> set rows" "party_key r = party_key p" by (auto simp: list_ex_iff)
  with True show ?thesis
    by (auto simp: party_at_def upsert_party_def party_key_def ref_matches_def list_ex_iff
        simp del: if_image_distrib intro!: bexI [of _ r])
next
  case False
  then show ?thesis
    by (auto simp: party_at_def upsert_party_def party_key_def ref_matches_def list_ex_iff)
qed

lemma party_at_upsert_other:
  "(c, r) \<noteq> party_key p \<Longrightarrow> party_at (upsert_party p rows) c r q = party_at rows c r q"
  by (auto simp: party_at_def upsert_party_def party_key_def ref_matches_def list_ex_iff)

interpretation book: role_book "\<lambda>c r q. upsert_party (new_party c r q)" party_at parties_ok
proof unfold_locales
  fix db c r p q
  assume ok: "parties_ok db"
  show "parties_ok (upsert_party (new_party c r p) db)" using ok by (rule parties_ok_upsert)
  have "party_at (upsert_party (new_party c r p) db) c r q \<longleftrightarrow> ref_matches (new_party c r p) q"
    using party_at_upsert_same [of "new_party c r p" db q] by (simp add: new_party_def)
  then show "party_at (upsert_party (new_party c r p) db) c r q \<longleftrightarrow> q = p"
    by (auto simp: ref_matches_def new_party_def)
  fix c' r'
  assume "(c', r') \<noteq> (c, r)"
  then show "party_at (upsert_party (new_party c r p) db) c' r' q = party_at db c' r' q"
    by (intro party_at_upsert_other) (simp add: party_key_def new_party_def)
qed

lemma RolesOf_party_at:
  "caseID \<noteq> [] \<Longrightarrow> refs \<noteq> [] \<Longrightarrow> party_fault db = None \<Longrightarrow>
   RolesOf db caseID refs = Inr (\<lambda>role. \<exists>q \<in> set refs. party_at (parties db) caseID role q)"
  by (auto simp: RolesOf_def party_at_def party_key_def list_ex_iff fun_eq_iff Let_def)

text \<open>
  Assigning a role hands it over: whoever asks afterwards with another OU does not hold it,
  the assigned OU does, and every other role reads as before.
\<close>

lemma Assign_RolesOf:
  assumes "Assign p db = (Inr (), db')" and "parties_ok (parties db)" and "p_type p = TypeOU"
  shows "RolesOf db' (p_case p) [OU h] =
           Inr (\<lambda>role. if role = p_role p then h = p_id p else party_at (parties db) (p_case p) role (OU h))"
proof -
  from assms(1) have db': "db' = db\<lparr>parties := upsert_party p (parties db)\<rparr>"
    and ne: "p_case p \<noteq> []" and nf: "party_fault db = None"
    by (auto simp: Assign_def split: if_splits option.splits)
  have "RolesOf db' (p_case p) [OU h] = Inr (\<lambda>role. party_at (upsert_party p (parties db)) (p_case p) role (OU h))"
    using ne nf by (simp add: RolesOf_party_at db')
  moreover have "party_at (upsert_party p (parties db)) (p_case p) (p_role p) (OU h) \<longleftrightarrow> h = p_id p"
    using party_at_upsert_same [of p] assms(3) by (auto simp: ref_matches_def OU_def)
  moreover have "party_at (upsert_party p (parties db)) (p_case p) role (OU h) = party_at (parties db) (p_case p) role (OU h)"
    if "role \<noteq> p_role p" for role
    using that by (intro party_at_upsert_other) (simp add: party_key_def)
  ultimately show ?thesis by (auto simp: fun_eq_iff)
qed

end
