(* ===== verification/Task_Authz.thy ===== *)
theory Task_Authz
  imports Principals Case_Parties
begin

text \<open>
  Task authorization: the shared eligibility rule (\<open>internal/tasks/taskauthz\<close>), the write
  policy (\<open>internal/tasks/extensions/authz\<close>), the read policy
  (\<open>internal/tasks/readauthz\<close>) and the gate that attaches a caller's identity
  (\<open>internal/tasks/authzgate\<close>).

  The catalog is two association lists with distinct names. The lazy ownership resolver is a
  function that may fail; \<open>None\<close> is the nil resolver. A context either carries an
  \<open>authz_input\<close> or does not, so \<open>InputFromContext\<close> is an option. The extension's
  properties are a raw JSON message. Log lines are left out.
\<close>

subsection \<open>Vocabulary\<close>

datatype principal_kind = PKUser | PKClient | PKSystem | PKOther string

abbreviation SystemPrincipal :: string where "SystemPrincipal \<equiv> ''system''"

record catalog =
  cat_roles :: "(string \<times> string) list"
  cat_clients :: "(string \<times> string) list"

definition catalog_ok :: "catalog \<Rightarrow> bool" where
  "catalog_ok c = (distinct (map fst (cat_roles c)) \<and> distinct (map fst (cat_clients c)))"

type_synonym owned_roles_func = "string \<Rightarrow> string + (string \<Rightarrow> bool)"

record authz_input =
  in_kind :: principal_kind
  in_roles :: "string list"
  in_client_id :: string
  in_owned_roles :: "owned_roles_func option"
  in_user_id :: string

definition empty_input :: authz_input where
  "empty_input = \<lparr>in_kind = PKOther [], in_roles = [], in_client_id = [], in_owned_roles = None, in_user_id = []\<rparr>"

text \<open>\<open>WithSystem\<close> attaches this input, for in-process callers.\<close>

definition system_input :: authz_input where
  "system_input = empty_input\<lparr>in_kind := PKSystem\<rparr>"

subsection \<open>Eligibility\<close>

record eligibility =
  held :: "string \<Rightarrow> bool"
  owned :: "string \<Rightarrow> bool"

definition HoldsAny :: "eligibility \<Rightarrow> string list \<Rightarrow> bool" where [authz_defs]:
  "HoldsAny e names = list_ex (held e) names"

definition Allows :: "eligibility \<Rightarrow> string \<Rightarrow> bool" where [authz_defs]:
  "Allows e name = (held e name \<and> owned e name)"

definition AnyAllowed :: "eligibility \<Rightarrow> string list \<Rightarrow> bool" where [authz_defs]:
  "AnyAllowed e names = list_ex (Allows e) names"

definition no_eligibility :: eligibility where [authz_defs]:
  "no_eligibility = \<lparr>held = (\<lambda>_. False), owned = (\<lambda>_. False)\<rparr>"

definition holds_role :: "catalog \<Rightarrow> authz_input \<Rightarrow> string \<Rightarrow> bool" where
  "holds_role c i name = (case map_of (cat_roles c) name of None \<Rightarrow> False | Some role \<Rightarrow> role \<in> set (in_roles i))"

definition Eligible :: "catalog \<Rightarrow> authz_input \<Rightarrow> string \<Rightarrow> string list \<Rightarrow> string + eligibility" where
  "Eligible c i caseID names =
     (if in_kind i \<noteq> PKUser then Inr no_eligibility
      else
        let e = no_eligibility\<lparr>held := (\<lambda>name. name \<in> set names \<and> holds_role c i name)\<rparr>
        in if \<not> HoldsAny e names then Inr e
           else case in_owned_roles i of
             None \<Rightarrow> Inr e
           | Some resolver \<Rightarrow>
               (case resolver caseID of
                  Inl err \<Rightarrow> Inl err
                | Inr o' \<Rightarrow> Inr (e\<lparr>owned := o'\<rparr>)))"

definition RoleNames :: "catalog \<Rightarrow> string list" where
  "RoleNames c = sort (map fst (cat_roles c))"

lemma set_RoleNames [simp]: "set (RoleNames c) = fst ` set (cat_roles c)"
  by (simp add: RoleNames_def)

lemma holds_role_catalog: "holds_role c i name \<Longrightarrow> name \<in> fst ` set (cat_roles c)"
  by (auto simp: holds_role_def split: option.splits dest!: map_of_SomeD intro: rev_image_eqI)

text \<open>
  What eligibility means for a user: the token role, and the company's ownership of the case
  in that same role.
\<close>

definition owns_in :: "authz_input \<Rightarrow> string \<Rightarrow> string \<Rightarrow> bool" where
  "owns_in i caseID name =
     (case in_owned_roles i of None \<Rightarrow> False
      | Some resolver \<Rightarrow> (case resolver caseID of Inl _ \<Rightarrow> False | Inr o' \<Rightarrow> o' name))"

definition may_act_as :: "catalog \<Rightarrow> authz_input \<Rightarrow> string \<Rightarrow> string \<Rightarrow> bool" where
  "may_act_as c i caseID name = (in_kind i = PKUser \<and> holds_role c i name \<and> owns_in i caseID name)"

lemma Eligible_Allows:
  "Eligible c i caseID names = Inr e \<Longrightarrow> name \<in> set names \<Longrightarrow> Allows e name = may_act_as c i caseID name"
  by (auto simp: Eligible_def may_act_as_def owns_in_def authz_defs Let_def list_ex_iff
      split: if_splits option.splits sum.splits)

lemma Eligible_Allows_outside:
  "Eligible c i caseID names = Inr e \<Longrightarrow> Allows e name \<Longrightarrow> name \<in> set names"
  by (auto simp: Eligible_def authz_defs Let_def split: if_splits option.splits sum.splits)

lemma Eligible_AnyAllowed:
  "Eligible c i caseID names = Inr e \<Longrightarrow> AnyAllowed e names \<longleftrightarrow> (\<exists>name \<in> set names. may_act_as c i caseID name)"
  by (auto simp: AnyAllowed_def list_ex_iff Eligible_Allows)

lemma Eligible_HoldsAny:
  "Eligible c i caseID names = Inr e \<Longrightarrow>
   HoldsAny e names \<longleftrightarrow> in_kind i = PKUser \<and> (\<exists>name \<in> set names. holds_role c i name)"
  by (auto simp: Eligible_def authz_defs Let_def list_ex_iff split: if_splits option.splits sum.splits)

lemma Eligible_Inl:
  "Eligible c i caseID names = Inl err \<longleftrightarrow>
   in_kind i = PKUser \<and> (\<exists>name \<in> set names. holds_role c i name) \<and>
   (\<exists>resolver. in_owned_roles i = Some resolver \<and> resolver caseID = Inl err)"
  by (auto simp: Eligible_def authz_defs Let_def list_ex_iff split: if_splits option.splits sum.splits)

subsection \<open>The read policy\<close>

datatype read_error = ErrDenied | ReadFailed string

definition ClaimKey :: "string \<Rightarrow> string" where
  "ClaimKey role = ''role:'' @ role"

lemma inj_ClaimKey: "ClaimKey r = ClaimKey r' \<longleftrightarrow> r = r'"
  by (simp add: ClaimKey_def)

definition allowedRoles :: "catalog \<Rightarrow> string list \<Rightarrow> string list \<times> bool" where
  "allowedRoles c readRoles =
     (if readRoles = [] then (RoleNames c, False)
      else (filter (\<lambda>name. map_of (cat_roles c) name \<noteq> None) readRoles, True))"

definition no_claims :: "catalog \<Rightarrow> string \<Rightarrow> bool option" where
  "no_claims c = fold (\<lambda>name m. m(ClaimKey name \<mapsto> False)) (RoleNames c) Map.empty"

definition Resolve_read :: "catalog \<Rightarrow> authz_input \<Rightarrow> string list \<Rightarrow> string \<Rightarrow> read_error + (string \<Rightarrow> bool option)" where
  "Resolve_read c i readRoles caseID =
     (let (allowed, declared) = allowedRoles c readRoles in
      case Eligible c i caseID allowed of
        Inl err \<Rightarrow> Inl (ReadFailed err)
      | Inr e \<Rightarrow>
          if \<not> declared then
            (let acting = filter (Allows e) allowed
             in if acting = [] then Inl ErrDenied
                else Inr (fold (\<lambda>name m. m(ClaimKey name \<mapsto> True)) acting (no_claims c)))
          else
            (case List.find (Allows e) allowed of
               None \<Rightarrow> Inl ErrDenied
             | Some name \<Rightarrow> Inr ((no_claims c)(ClaimKey name \<mapsto> True))))"

lemma fold_claims:
  "fold (\<lambda>name m. m(ClaimKey name \<mapsto> b)) names m k =
     (if k \<in> ClaimKey ` set names then Some b else m k)"
  by (induction names arbitrary: m) auto

lemma no_claims_apply: "no_claims c k = (if k \<in> ClaimKey ` fst ` set (cat_roles c) then Some False else None)"
  by (simp add: no_claims_def fold_claims)

lemma allowedRoles_set:
  "set (fst (allowedRoles c readRoles)) =
     {r \<in> fst ` set (cat_roles c). readRoles = [] \<or> r \<in> set readRoles}"
  by (auto simp: allowedRoles_def map_of_eq_None_iff domIff split: if_splits)

lemma allowedRoles_catalog:
  "allowedRoles c readRoles = (allowed, d) \<Longrightarrow> set allowed \<subseteq> fst ` set (cat_roles c)"
  using allowedRoles_set [of c readRoles] by auto

text \<open>The claims a read yields, both ways a template can be written.\<close>

definition acting_as :: "catalog \<Rightarrow> authz_input \<Rightarrow> string list \<Rightarrow> string \<Rightarrow> (string \<Rightarrow> bool option) \<Rightarrow> string list \<Rightarrow> bool" where
  "acting_as c i readRoles caseID cl acting \<longleftrightarrow>
     acting \<noteq> [] \<and>
     cl = (\<lambda>k. if k \<in> ClaimKey ` set acting then Some True else no_claims c k) \<and>
     (\<forall>r. r \<in> set acting \<longrightarrow> r \<in> set (fst (allowedRoles c readRoles)) \<and> may_act_as c i caseID r) \<and>
     (readRoles \<noteq> [] \<longrightarrow> List.find (may_act_as c i caseID) (fst (allowedRoles c readRoles)) = Some (hd acting) \<and> tl acting = [])"

lemma Resolve_read_Inr:
  assumes "Resolve_read c i readRoles caseID = Inr cl"
  shows "\<exists>acting. acting_as c i readRoles caseID cl acting"
proof (cases "readRoles = []")
  case True
  then have ar: "allowedRoles c readRoles = (RoleNames c, False)" by (simp add: allowedRoles_def)
  with assms obtain e where e: "Eligible c i caseID (RoleNames c) = Inr e"
    and ne: "filter (Allows e) (RoleNames c) \<noteq> []"
    and cl: "cl = fold (\<lambda>name m. m(ClaimKey name \<mapsto> True)) (filter (Allows e) (RoleNames c)) (no_claims c)"
    by (auto simp: Resolve_read_def Let_def split: sum.splits if_splits)
  have al: "Allows e r = may_act_as c i caseID r" if "r \<in> fst ` set (cat_roles c)" for r
    using Eligible_Allows [OF e] that by simp
  show ?thesis
    by (rule exI [of _ "filter (Allows e) (RoleNames c)"])
      (use ne ar True al in \<open>auto simp: acting_as_def cl fold_claims fun_eq_iff\<close>)
next
  case False
  let ?al = "fst (allowedRoles c readRoles)"
  from False have ar: "allowedRoles c readRoles = (?al, True)" by (simp add: allowedRoles_def)
  with assms obtain e r where e: "Eligible c i caseID ?al = Inr e" and f: "List.find (Allows e) ?al = Some r"
    and cl: "cl = (no_claims c)(ClaimKey r \<mapsto> True)"
    by (auto simp: Resolve_read_def Let_def split: sum.splits option.splits prod.splits)
  have "List.find (may_act_as c i caseID) ?al = Some r"
    using f find_cong_on [of ?al "Allows e" "may_act_as c i caseID"] Eligible_Allows [OF e] by simp
  moreover from this have "r \<in> set ?al \<and> may_act_as c i caseID r" by (rule find_SomeD)
  ultimately show ?thesis
    by (intro exI [of _ "[r]"]) (use False in \<open>auto simp: acting_as_def cl fun_eq_iff\<close>)
qed

text \<open>Denied is exactly: the caller may act in none of the roles the template admits.\<close>

lemma Resolve_read_denied:
  "Resolve_read c i readRoles caseID = Inl ErrDenied \<longleftrightarrow>
   (\<exists>e. Eligible c i caseID (fst (allowedRoles c readRoles)) = Inr e) \<and>
   (\<forall>r \<in> set (fst (allowedRoles c readRoles)). \<not> may_act_as c i caseID r)"
  by (auto simp: Resolve_read_def Let_def filter_empty_conv find_None_iff Eligible_Allows
      split: sum.splits option.splits prod.splits if_splits)
    (auto dest!: find_SomeD simp: Eligible_Allows)

subsection \<open>The write policy\<close>

datatype forbidden_reason =
    NoRulesConfigured
  | CommandNotPermitted
  | HoldsNoAllowedRole
  | OwnershipUnresolved
  | NotOwnedInRole
  | ClientNotPermitted
  | SystemNotAllowed

datatype authz_error = ErrUnauthenticated | ErrForbidden forbidden_reason | AuthzFailed string

type_synonym rules = "(string \<times> (string \<times> string list) list) list"

record authz_record =
  rec_task_id :: string
  rec_state :: string
  rec_case_id :: string

definition rules_command :: "rules \<Rightarrow> string \<Rightarrow> string \<Rightarrow> string list" where
  "rules_command r state command =
     (case map_of r state of None \<Rightarrow> []
      | Some cmds \<Rightarrow> (case map_of cmds command of None \<Rightarrow> [] | Some names \<Rightarrow> names))"

definition rules_state :: "rules \<Rightarrow> string \<Rightarrow> string list" where
  "rules_state r state = (case map_of r state of None \<Rightarrow> [] | Some cmds \<Rightarrow> concat (map snd cmds))"

definition parseRules :: "raw_message \<Rightarrow> authz_error + rules" where
  "parseRules props =
     (case props of
        Doc j \<Rightarrow> (case decode_map (decode_map decode_strings) j of
            None \<Rightarrow> Inl (AuthzFailed ''invalid properties'')
          | Some r \<Rightarrow> Inr r)
      | _ \<Rightarrow> Inl (AuthzFailed ''invalid properties''))"

definition authorizeSystem :: "string list \<Rightarrow> authz_error + unit" where
  "authorizeSystem allowed =
     (if SystemPrincipal \<in> set allowed then Inr () else Inl (ErrForbidden SystemNotAllowed))"

definition authorizeUser :: "catalog \<Rightarrow> authz_record \<Rightarrow> authz_input \<Rightarrow> string list \<Rightarrow> authz_error + unit" where
  "authorizeUser c rec i allowed =
     (case Eligible c i (rec_case_id rec) allowed of
        Inl err \<Rightarrow> Inl (AuthzFailed err)
      | Inr e \<Rightarrow>
          if \<not> HoldsAny e allowed then Inl (ErrForbidden HoldsNoAllowedRole)
          else if in_owned_roles i = None then Inl (ErrForbidden OwnershipUnresolved)
          else if AnyAllowed e allowed then Inr ()
          else Inl (ErrForbidden NotOwnedInRole))"

definition authorizeClient :: "catalog \<Rightarrow> authz_input \<Rightarrow> string list \<Rightarrow> authz_error + unit" where
  "authorizeClient c i allowed =
     (if list_ex (\<lambda>name. case map_of (cat_clients c) name of None \<Rightarrow> False
                         | Some want \<Rightarrow> want \<noteq> [] \<and> want = in_client_id i) allowed
      then Inr () else Inl (ErrForbidden ClientNotPermitted))"

definition authorize :: "catalog \<Rightarrow> authz_record \<Rightarrow> authz_input \<Rightarrow> string list \<Rightarrow> authz_error + unit" where
  "authorize c rec i allowed =
     (case in_kind i of
        PKUser \<Rightarrow> authorizeUser c rec i allowed
      | PKClient \<Rightarrow> authorizeClient c i allowed
      | PKSystem \<Rightarrow> authorizeSystem allowed
      | PKOther _ \<Rightarrow> Inl ErrUnauthenticated)"

text \<open>
  \<open>Execute\<close>: the context's input is an option, the payload's \<open>__command\<close> is read as a
  string and is empty when it is not one.
\<close>

definition Execute_authz ::
  "catalog \<Rightarrow> authz_input option \<Rightarrow> authz_record \<Rightarrow> (string \<times> json) list \<Rightarrow> raw_message \<Rightarrow> authz_error + unit" where
  "Execute_authz c ctx rec payload props =
     (if props = NoBytes then Inl (ErrForbidden NoRulesConfigured)
      else case parseRules props of
        Inl err \<Rightarrow> Inl err
      | Inr r \<Rightarrow>
          (let command = (case obj_get payload ''__command'' of Some (JStr s) \<Rightarrow> s | _ \<Rightarrow> []);
               allowed = rules_command r (rec_state rec) command
           in if allowed = [] then Inl (ErrForbidden CommandNotPermitted)
              else case ctx of
                None \<Rightarrow> Inl ErrUnauthenticated
              | Some i \<Rightarrow> authorize c rec i allowed))"

definition MayAct :: "catalog \<Rightarrow> authz_record \<Rightarrow> authz_input \<Rightarrow> raw_message \<Rightarrow> authz_error + bool" where
  "MayAct c rec i props =
     (if props = NoBytes then Inr False
      else case parseRules props of
        Inl err \<Rightarrow> Inl err
      | Inr r \<Rightarrow>
          (let allowed = rules_state r (rec_state rec)
           in if allowed = [] then Inr False
              else case authorize c rec i allowed of
                Inr _ \<Rightarrow> Inr True
              | Inl (ErrForbidden _) \<Rightarrow> Inr False
              | Inl ErrUnauthenticated \<Rightarrow> Inr False
              | Inl (AuthzFailed m) \<Rightarrow> Inl (AuthzFailed m)))"

text \<open>A step's extensions, as core runs them; \<open>PhaseOther\<close> is any phase but PRE_RESUME.\<close>

datatype ext_phase = PhasePreResume | PhaseOther string

record step_extension =
  ext_id :: string
  ext_phase :: ext_phase
  ext_properties :: raw_message

abbreviation ExtAuthz :: string where "ExtAuthz \<equiv> ''authz''"

fun MayActOnStep_loop :: "catalog \<Rightarrow> authz_record \<Rightarrow> authz_input \<Rightarrow> bool \<Rightarrow> step_extension list \<Rightarrow> authz_error + bool" where
  "MayActOnStep_loop c rec i declared [] = Inr declared"
| "MayActOnStep_loop c rec i declared (x # xs) =
     (if ext_id x \<noteq> ExtAuthz \<or> ext_phase x \<noteq> PhasePreResume then MayActOnStep_loop c rec i declared xs
      else case MayAct c rec i (ext_properties x) of
        Inl err \<Rightarrow> Inl err
      | Inr False \<Rightarrow> Inr False
      | Inr True \<Rightarrow> MayActOnStep_loop c rec i True xs)"

definition MayActOnStep :: "catalog \<Rightarrow> authz_record \<Rightarrow> authz_input \<Rightarrow> step_extension list \<Rightarrow> authz_error + bool" where
  "MayActOnStep c rec i exts = MayActOnStep_loop c rec i False exts"

text \<open>\<open>Register\<close>'s checks of the catalog, before the extension is registered.\<close>

datatype register_error = NoRegistry | EmptyCatalog | ReservedRole | ReservedClient

definition Register_authz :: "bool \<Rightarrow> catalog \<Rightarrow> register_error + unit" where
  "Register_authz has_registry c =
     (if \<not> has_registry then Inl NoRegistry
      else if cat_roles c = [] \<and> cat_clients c = [] then Inl EmptyCatalog
      else if map_of (cat_roles c) SystemPrincipal \<noteq> None then Inl ReservedRole
      else if map_of (cat_clients c) SystemPrincipal \<noteq> None then Inl ReservedClient
      else Inr ())"

subsection \<open>What the policies guarantee\<close>

text \<open>
  The rule a name of an allowed list stands for: a user acts in a catalog role, a client is the
  catalog's client, in-process code is the reserved name.
\<close>

definition principal_matches :: "catalog \<Rightarrow> authz_input \<Rightarrow> string \<Rightarrow> string \<Rightarrow> bool" where
  "principal_matches c i caseID name =
     (case in_kind i of
        PKUser \<Rightarrow> may_act_as c i caseID name
      | PKClient \<Rightarrow> in_client_id i \<noteq> [] \<and> map_of (cat_clients c) name = Some (in_client_id i)
      | PKSystem \<Rightarrow> name = SystemPrincipal
      | PKOther _ \<Rightarrow> False)"

lemma authorizeUser_ok:
  assumes "in_kind i = PKUser"
  shows "authorizeUser c rec i allowed = Inr () \<longleftrightarrow> (\<exists>name \<in> set allowed. may_act_as c i (rec_case_id rec) name)"
proof (cases "Eligible c i (rec_case_id rec) allowed")
  case (Inl err)
  then have "\<not> may_act_as c i (rec_case_id rec) name" for name
    by (auto simp: Eligible_Inl may_act_as_def owns_in_def)
  with Inl show ?thesis by (simp add: authorizeUser_def)
next
  case (Inr e)
  have "may_act_as c i (rec_case_id rec) name \<Longrightarrow> in_owned_roles i \<noteq> None \<and> holds_role c i name" for name
    by (auto simp: may_act_as_def owns_in_def split: option.splits)
  then show ?thesis
    using assms by (auto simp: authorizeUser_def Inr Eligible_HoldsAny [OF Inr] Eligible_AnyAllowed [OF Inr])
qed

lemma authorizeClient_ok:
  "in_kind i = PKClient \<Longrightarrow>
   authorizeClient c i allowed = Inr () \<longleftrightarrow> (\<exists>name \<in> set allowed. principal_matches c i caseID name)"
  by (auto simp: authorizeClient_def principal_matches_def list_ex_iff split: option.splits)

lemma authorize_ok:
  "authorize c rec i allowed = Inr () \<longleftrightarrow> (\<exists>name \<in> set allowed. principal_matches c i (rec_case_id rec) name)"
proof (cases "in_kind i")
  case PKClient
  with authorizeClient_ok [OF this, of c allowed "rec_case_id rec"] show ?thesis
    by (simp add: authorize_def)
qed (auto simp: authorize_def authorizeUser_ok authorizeSystem_def principal_matches_def)

text \<open>A decoded document's objects have distinct member names.\<close>

fun json_ok :: "json \<Rightarrow> bool" where
  "json_ok (JArr js) = list_all json_ok js"
| "json_ok (JObj kvs) = (distinct (map fst kvs) \<and> list_all (\<lambda>(_, v). json_ok v) kvs)"
| "json_ok _ = True"

definition raw_ok :: "raw_message \<Rightarrow> bool" where
  "raw_ok m = (case m of Doc j \<Rightarrow> json_ok j | _ \<Rightarrow> True)"

lemma decode_members_keys: "decode_members d kvs = Some xs \<Longrightarrow> map fst xs = map fst kvs"
  by (induction kvs arbitrary: xs) (auto split: option.splits)

lemma decode_members_values:
  "decode_members d kvs = Some xs \<Longrightarrow> (k, x) \<in> set xs \<Longrightarrow> \<exists>v. (k, v) \<in> set kvs \<and> d v = Some x"
  by (induction kvs arbitrary: xs) (fastforce split: option.splits)+

lemma decode_map_keys:
  "decode_map d j = Some xs \<Longrightarrow> json_ok j \<Longrightarrow> distinct (map fst xs)"
  by (cases j) (auto dest: decode_members_keys)

lemma parseRules_ok:
  assumes "parseRules props = Inr r" and "raw_ok props" and "(s, cmds) \<in> set r"
  shows "distinct (map fst cmds)"
proof -
  from assms(1,2) obtain j where j: "decode_map (decode_map decode_strings) j = Some r" and ok: "json_ok j"
    by (auto simp: parseRules_def raw_ok_def split: raw_message.splits option.splits)
  then obtain kvs where kvs: "j = JObj kvs" using assms(3) by (cases j) auto
  with j assms(3) obtain v where "(s, v) \<in> set kvs" "decode_map decode_strings v = Some cmds"
    by (auto dest: decode_members_values)
  moreover from this ok kvs have "json_ok v" by (auto simp: list_all_iff)
  ultimately show ?thesis by (simp add: decode_map_keys)
qed

lemma rules_state_commands:
  assumes "parseRules props = Inr r" and "raw_ok props"
  shows "set (rules_state r state) = (\<Union>command. set (rules_command r state command))"
proof (cases "map_of r state")
  case (Some cmds)
  then have "(state, cmds) \<in> set r" by (rule map_of_SomeD)
  with assms have "distinct (map fst cmds)" by (rule parseRules_ok)
  then have "(k, ns) \<in> set cmds \<longleftrightarrow> map_of cmds k = Some ns" for k ns by (auto simp: map_of_eq_Some_iff)
  moreover have "set (rules_state r state) = {n. \<exists>k ns. (k, ns) \<in> set cmds \<and> n \<in> set ns}"
    using Some by (force simp: rules_state_def)
  moreover have "n \<in> set (rules_command r state k) \<longleftrightarrow> (\<exists>ns. map_of cmds k = Some ns \<and> n \<in> set ns)" for n k
    by (cases "map_of cmds k") (simp_all add: rules_command_def Some)
  then have "(\<Union>command. set (rules_command r state command)) = {n. \<exists>k ns. map_of cmds k = Some ns \<and> n \<in> set ns}"
    by auto
  ultimately show ?thesis by simp
qed (simp add: rules_state_def rules_command_def)

text \<open>
  C1: The claims of an admitted read are total and sound: there is one for every catalog role
  and for nothing else, a claim is true only for a role the template admits in which the caller
  holds the token role and their company owns the case, and where the template declares
  read.roles exactly one claim is true, so two role sections can never both be shown.
\<close>
theorem read_claims_sound:
  assumes "Resolve_read c i readRoles caseID = Inr cl"
  shows "dom cl = ClaimKey ` fst ` set (cat_roles c) \<and>
    (\<forall>r. cl (ClaimKey r) = Some True \<longrightarrow>
       may_act_as c i caseID r \<and> r \<in> fst ` set (cat_roles c) \<and> (readRoles = [] \<or> r \<in> set readRoles)) \<and>
    (readRoles \<noteq> [] \<longrightarrow> (\<exists>!r. cl (ClaimKey r) = Some True))"
proof -
  obtain acting where a: "acting_as c i readRoles caseID cl acting"
    using Resolve_read_Inr [OF assms] by blast
  then have ne: "acting \<noteq> []"
    and cl: "cl = (\<lambda>k. if k \<in> ClaimKey ` set acting then Some True else no_claims c k)"
    and act: "\<And>r. r \<in> set acting \<Longrightarrow> r \<in> set (fst (allowedRoles c readRoles)) \<and> may_act_as c i caseID r"
    and one: "readRoles \<noteq> [] \<Longrightarrow> tl acting = []"
    by (simp_all add: acting_as_def)
  have true: "cl (ClaimKey r) = Some True \<longleftrightarrow> r \<in> set acting" for r
    by (auto simp: cl no_claims_apply inj_ClaimKey image_iff)
  have cat: "r \<in> set acting \<Longrightarrow> r \<in> fst ` set (cat_roles c) \<and> (readRoles = [] \<or> r \<in> set readRoles)" for r
    using act [of r] by (simp add: allowedRoles_set)
  have "dom cl = ClaimKey ` fst ` set (cat_roles c)"
    using cat by (auto simp: dom_def cl no_claims_apply split: if_splits)
  moreover have "\<exists>!r. r \<in> set acting" if "readRoles \<noteq> []"
    using one [OF that] ne by (cases acting) auto
  ultimately show ?thesis using act cat by (simp add: true)
qed

definition demo_catalog :: catalog where
  "demo_catalog = \<lparr>cat_roles = [(''trader'', ''Trader''), (''cha'', ''CHA'')],
                    cat_clients = [(''npqs'', ''npqs-client'')]\<rparr>"

definition demo_user :: authz_input where
  "demo_user = empty_input\<lparr>in_kind := PKUser, in_roles := [''Trader'', ''CHA''], in_user_id := ''u-1'',
     in_owned_roles := Some (\<lambda>caseID. Inr (\<lambda>role. caseID = ''case-1''))\<rparr>"

lemmas demo_authz_defs = demo_catalog_def demo_user_def empty_input_def

theorem read_claims_sound_witness:
  "\<exists>cl. Resolve_read demo_catalog demo_user [''cha'', ''trader''] ''case-1'' = Inr cl \<and>
        (\<exists>!r. cl (ClaimKey r) = Some True)"
proof -
  let ?r = "Resolve_read demo_catalog demo_user [''cha'', ''trader''] ''case-1''"
  have "is_ok ?r" by code_simp
  then obtain cl where cl: "?r = Inr cl" by (auto simp: is_ok_iff)
  with read_claims_sound [OF this] show ?thesis by simp
qed

text \<open>
  read.roles is a precedence order. A caller acts as a role exactly when it is the first
  role of the declared list (names the catalog does not define dropped) in which they may act.
\<close>
theorem read_precedence:
  assumes "readRoles \<noteq> []"
  shows "(\<exists>cl. Resolve_read c i readRoles caseID = Inr cl \<and> cl (ClaimKey r) = Some True) \<longleftrightarrow>
    (\<exists>before after. readRoles = before @ r # after \<and> may_act_as c i caseID r \<and>
       (\<forall>r' \<in> set before. \<not> may_act_as c i caseID r'))"
  (is "?L \<longleftrightarrow> ?R")
proof -
  let ?al = "fst (allowedRoles c readRoles)"
  have al: "?al = filter (\<lambda>name. map_of (cat_roles c) name \<noteq> None) readRoles"
    using assms by (simp add: allowedRoles_def)
  have dead: "map_of (cat_roles c) r' = None \<Longrightarrow> \<not> may_act_as c i caseID r'" for r'
    by (auto simp: may_act_as_def holds_role_def)
  have ex: "\<exists>e. Eligible c i caseID ?al = Inr e" if "may_act_as c i caseID r'" for r'
    using that by (cases "Eligible c i caseID ?al") (auto simp: Eligible_Inl may_act_as_def owns_in_def)
  have "?L \<longleftrightarrow> List.find (may_act_as c i caseID) ?al = Some r"
  proof
    assume ?L
    then obtain cl where cl: "Resolve_read c i readRoles caseID = Inr cl" "cl (ClaimKey r) = Some True" by blast
    then obtain acting where a: "acting_as c i readRoles caseID cl acting"
      using Resolve_read_Inr by blast
    then have ne: "acting \<noteq> []"
      and k: "cl = (\<lambda>k. if k \<in> ClaimKey ` set acting then Some True else no_claims c k)"
      and one: "List.find (may_act_as c i caseID) ?al = Some (hd acting) \<and> tl acting = []"
      using assms by (simp_all add: acting_as_def)
    from cl(2) have "r \<in> set acting" by (auto simp: k no_claims_apply inj_ClaimKey split: if_splits)
    with one ne show "List.find (may_act_as c i caseID) ?al = Some r" by (cases acting) auto
  next
    assume f: "List.find (may_act_as c i caseID) ?al = Some r"
    with ex obtain e where e: "Eligible c i caseID ?al = Inr e" by (blast dest: find_SomeD)
    have "List.find (Allows e) ?al = Some r"
      using f find_cong_on [of ?al "Allows e" "may_act_as c i caseID"] Eligible_Allows [OF e] by simp
    with e assms have "Resolve_read c i readRoles caseID = Inr ((no_claims c)(ClaimKey r \<mapsto> True))"
      by (auto simp: Resolve_read_def allowedRoles_def)
    then show ?L by simp
  qed
  also have "\<dots> \<longleftrightarrow> List.find (may_act_as c i caseID) readRoles = Some r"
    unfolding al by (induction readRoles) (auto simp: dead)
  also have "\<dots> \<longleftrightarrow> ?R" by (auto simp: find_Some_split)
  finally show ?thesis .
qed

theorem read_precedence_witness:
  "\<exists>cl. Resolve_read demo_catalog demo_user [''officer'', ''cha'', ''trader''] ''case-1'' = Inr cl \<and>
        cl (ClaimKey ''cha'') = Some True"
proof -
  have "\<exists>before after. [''officer'', ''cha'', ''trader''] = before @ ''cha'' # after \<and>
      may_act_as demo_catalog demo_user ''case-1'' ''cha'' \<and>
      (\<forall>r' \<in> set before. \<not> may_act_as demo_catalog demo_user ''case-1'' r')"
    by (rule exI [of _ "[''officer'']"], rule exI [of _ "[''trader'']"])
      (simp add: may_act_as_def holds_role_def owns_in_def demo_authz_defs)
  then show ?thesis
    by (subst read_precedence) simp_all
qed

text \<open>
  A read is denied, rather than failed, exactly when ownership could be resolved (or needed
  no resolving) and the caller may act in none of the roles the template admits: a catalog role,
  listed in read.roles where there is one.
\<close>
theorem read_denied_iff:
  "Resolve_read c i readRoles caseID = Inl ErrDenied \<longleftrightarrow>
   (\<forall>err. Eligible c i caseID (fst (allowedRoles c readRoles)) \<noteq> Inl err) \<and>
   \<not> (\<exists>r \<in> fst ` set (cat_roles c). (readRoles = [] \<or> r \<in> set readRoles) \<and> may_act_as c i caseID r)"
proof -
  have "(\<exists>e. x = Inr e) \<longleftrightarrow> (\<forall>err. x \<noteq> Inl err)" for x :: "string + eligibility"
    by (cases x) auto
  then show ?thesis
    unfolding Resolve_read_denied by (auto simp: allowedRoles_set)
qed

text \<open>
  C2: The write gate is deny by default and exact: a command is let through only when the step's
  rules parse, list names for the task's state and that command, the request carries an identity,
  and one of those names matches it, as a user who holds the role and owns the case in it, as the
  catalog's client, or as in-process code under the reserved name.
\<close>
theorem execute_authorized_iff:
  "Execute_authz c ctx rec payload props = Inr () \<longleftrightarrow>
   (\<exists>r i name. props \<noteq> NoBytes \<and> parseRules props = Inr r \<and> ctx = Some i \<and>
      name \<in> set (rules_command r (rec_state rec)
                   (case obj_get payload ''__command'' of Some (JStr s) \<Rightarrow> s | _ \<Rightarrow> [])) \<and>
      principal_matches c i (rec_case_id rec) name)"
  by (auto simp: Execute_authz_def Let_def authorize_ok split: sum.splits option.splits)

text \<open>
  \<open>MayAct\<close> is \<open>Execute\<close> asked of all commands: it answers yes exactly when
  some command of the task's current state would be let through for the caller.
\<close>
theorem MayAct_some_command:
  assumes "raw_ok props"
  shows "MayAct c rec i props = Inr True \<longleftrightarrow>
    (\<exists>command. Execute_authz c (Some i) rec [(''__command'', JStr command)] props = Inr ())"
proof -
  have M: "MayAct c rec i props = Inr True \<longleftrightarrow>
    (\<exists>r. props \<noteq> NoBytes \<and> parseRules props = Inr r \<and> authorize c rec i (rules_state r (rec_state rec)) = Inr ())"
    using authorize_ok [of c rec i "[]"]
    by (auto simp: MayAct_def Let_def split: sum.splits authz_error.splits)
  have "authorize c rec i (rules_state r (rec_state rec)) = Inr () \<longleftrightarrow>
      (\<exists>command. authorize c rec i (rules_command r (rec_state rec) command) = Inr ())"
    if "parseRules props = Inr r" for r
    using rules_state_commands [OF that assms] by (auto simp: authorize_ok)
  then show ?thesis
    unfolding M by (auto simp: execute_authorized_iff authorize_ok obj_get_def) blast+
qed

definition demo_rules :: raw_message where
  "demo_rules = Doc (JObj [(''OPEN'', JObj [(''submit'', JArr [JStr ''trader'']), (''close'', JArr [JStr ''system''])])])"

theorem MayAct_some_command_witness:
  "\<exists>command. Execute_authz demo_catalog (Some demo_user)
     \<lparr>rec_task_id = ''t'', rec_state = ''OPEN'', rec_case_id = ''case-1''\<rparr>
     [(''__command'', JStr command)] demo_rules = Inr ()"
proof -
  have ok: "raw_ok demo_rules" by code_simp
  have "MayAct demo_catalog \<lparr>rec_task_id = ''t'', rec_state = ''OPEN'', rec_case_id = ''case-1''\<rparr> demo_user demo_rules = Inr True"
    by code_simp
  then show ?thesis by (simp only: MayAct_some_command [OF ok])
qed

text \<open>
  A registered catalog cannot shadow the reserved name: a rule that names only
  \<open>system\<close> lets in-process code through and nobody a request can stand for.
\<close>
theorem system_rule_internal:
  assumes "Register_authz True c = Inr ()"
  shows "authorize c rec i [SystemPrincipal] = Inr () \<longleftrightarrow> in_kind i = PKSystem"
  using assms
  by (auto simp: authorize_ok principal_matches_def may_act_as_def holds_role_def Register_authz_def
      split: if_splits principal_kind.splits)

theorem system_rule_internal_witness:
  "authorize demo_catalog \<lparr>rec_task_id = ''t'', rec_state = ''OPEN'', rec_case_id = ''c''\<rparr> system_input [SystemPrincipal] = Inr ()"
proof -
  have "Register_authz True demo_catalog = Inr ()" by code_simp
  from system_rule_internal [OF this] show ?thesis by (simp add: system_input_def)
qed

text \<open>
  The common denial needs no database: a caller who holds none of the names is answered the
  same whatever the resolver would say.
\<close>

lemma holds_role_resolver [simp]: "holds_role c (i\<lparr>in_owned_roles := f\<rparr>) name = holds_role c i name"
  by (simp add: holds_role_def split: option.split)

lemma Eligible_resolver_irrelevant:
  "\<not> (\<exists>name \<in> set names. holds_role c i name) \<Longrightarrow>
   Eligible c (i\<lparr>in_owned_roles := f\<rparr>) caseID names = Eligible c (i\<lparr>in_owned_roles := g\<rparr>) caseID names"
  by (auto simp: Eligible_def authz_defs list_ex_iff Let_def)

end
