(* ===== verification/Task_Gate.thy ===== *)
theory Task_Gate
  imports Task_Authz
begin

text \<open>
  \<open>internal/tasks/authzgate\<close>: the middleware that turns the authenticated principal into
  the \<open>authz_input\<close> both policies judge, with an ownership resolver bound to the caller's OU
  and reading \<open>case_parties\<close>. The end-to-end facts join the gate, the party table and the two
  policies.
\<close>

definition ownedRolesFor :: "party_store \<Rightarrow> string \<Rightarrow> owned_roles_func" where
  "ownedRolesFor db ouHandle =
     (\<lambda>caseID. if caseID = [] \<or> ouHandle = [] then Inr (\<lambda>_. False) else RolesOf db caseID [OU ouHandle])"

definition gate_resolve :: "party_store \<Rightarrow> principal option \<Rightarrow> authz_input option" where
  "gate_resolve db ctx =
     (case ctx of
        None \<Rightarrow> None
      | Some p \<Rightarrow>
          (case pr_kind p of
             KindClient \<Rightarrow> Some (empty_input\<lparr>in_kind := PKClient, in_client_id := pr_client_id p\<rparr>)
           | KindUser \<Rightarrow> Some (empty_input\<lparr>
               in_kind := PKUser,
               in_roles := pr_roles p,
               in_owned_roles := Some (ownedRolesFor db (pr_ou_handle p)),
               in_user_id := pr_user_id p\<rparr>)
           | KindOther _ \<Rightarrow> None))"

text \<open>\<open>Handler\<close>: the next handler sees the input the gate resolved, or none.\<close>

definition gate_Handler :: "party_store \<Rightarrow> (principal option \<Rightarrow> authz_input option \<Rightarrow> 'r) \<Rightarrow> principal option \<Rightarrow> 'r" where
  "gate_Handler db serve ctx = serve ctx (gate_resolve db ctx)"

lemma gate_never_system: "gate_resolve db ctx = Some i \<Longrightarrow> in_kind i = PKUser \<or> in_kind i = PKClient"
  by (auto simp: gate_resolve_def split: option.splits kind.splits)

lemma gate_user:
  "gate_resolve db (Some p) = Some i \<Longrightarrow> pr_kind p = KindUser \<Longrightarrow>
   in_kind i = PKUser \<and> in_roles i = pr_roles p \<and> in_owned_roles i = Some (ownedRolesFor db (pr_ou_handle p))"
  by (auto simp: gate_resolve_def)

text \<open>
  What a gated user may act as: a catalog role their token carries, in which the party table
  names their OU on the case.
\<close>

lemma gate_may_act_as:
  assumes "gate_resolve db (Some p) = Some i" and "pr_kind p = KindUser" and "party_fault db = None"
  shows "may_act_as c i caseID name \<longleftrightarrow>
    caseID \<noteq> [] \<and> pr_ou_handle p \<noteq> [] \<and>
    (\<exists>role. map_of (cat_roles c) name = Some role \<and> role \<in> set (pr_roles p)) \<and>
    party_at (parties db) caseID name (OU (pr_ou_handle p))"
  using gate_user [OF assms(1,2)] assms(3)
  by (auto simp: may_act_as_def holds_role_def owns_in_def ownedRolesFor_def RolesOf_party_at
      split: option.splits)

text \<open>
  C3: The whole write path for a person: after a role of a case is assigned to an OU, a user of
  the gate who names it in a rule is let through exactly when their OU is the one assigned and
  their token carries the role, so handing the role to another OU shuts the earlier holder out.
\<close>
theorem assigned_ou_may_act:
  assumes "Assign pty db = (Inr (), db')" and "p_type pty = TypeOU"
    and "gate_resolve db' (Some p) = Some i" and "pr_kind p = KindUser"
    and "rec_case_id rec = p_case pty"
  shows "authorize c rec i [p_role pty] = Inr () \<longleftrightarrow>
    pr_ou_handle p = p_id pty \<and> (\<exists>role. map_of (cat_roles c) (p_role pty) = Some role \<and> role \<in> set (pr_roles p))"
proof -
  from assms(1) have db': "parties db' = upsert_party pty (parties db)" "party_fault db' = None"
    and ne: "p_case pty \<noteq> []" "p_id pty \<noteq> []"
    by (auto simp: Assign_def split: if_splits option.splits)
  have "party_at (parties db') (p_case pty) (p_role pty) (OU (pr_ou_handle p)) \<longleftrightarrow> pr_ou_handle p = p_id pty"
    using party_at_upsert_same [of pty "parties db" "OU (pr_ou_handle p)"] assms(2)
    by (auto simp: db' ref_matches_def OU_def)
  moreover have "in_kind i = PKUser" using gate_user [OF assms(3,4)] by simp
  ultimately show ?thesis
    using ne by (auto simp: authorize_ok principal_matches_def assms(5) gate_may_act_as [OF assms(3,4) db'(2)])
qed

definition demo_principal :: principal where
  "demo_principal = empty_principal\<lparr>pr_kind := KindUser, pr_user_id := ''u-1'', pr_idp_user_id := ''sub-1'',
     pr_roles := [''Trader''], pr_ou_handle := ''acme''\<rparr>"

definition demo_party :: party where
  "demo_party = \<lparr>p_case = ''case-1'', p_role = ''trader'', p_type = TypeOU, p_id = ''acme'', p_assigned_by = None\<rparr>"

theorem assigned_ou_may_act_witness:
  "\<exists>db i. authorize demo_catalog \<lparr>rec_task_id = ''t'', rec_state = ''OPEN'', rec_case_id = ''case-1''\<rparr> i [''trader''] = Inr () \<and>
          gate_resolve db (Some demo_principal) = Some i"
proof -
  let ?rec = "\<lparr>rec_task_id = ''t'', rec_state = ''OPEN'', rec_case_id = ''case-1''\<rparr>"
  let ?db = "\<lparr>parties = [], party_fault = None\<rparr>"
  let ?db' = "\<lparr>parties = [demo_party], party_fault = None\<rparr>"
  have a: "Assign demo_party ?db = (Inr (), ?db')"
    by (simp add: Assign_def demo_party_def upsert_party_def)
  obtain i where g: "gate_resolve ?db' (Some demo_principal) = Some i"
    by (simp add: gate_resolve_def demo_principal_def)
  have "authorize demo_catalog ?rec i [p_role demo_party] = Inr ()"
    by (subst assigned_ou_may_act [OF a _ g])
      (simp_all add: demo_party_def demo_principal_def demo_catalog_def)
  with g show ?thesis by (auto simp: demo_party_def)
qed

end
