(* ===== verification/Task_Claims.thy ===== *)
theory Task_Claims
  imports Task_Gate
begin

text \<open>
  \<open>internal/tasks/claim_handler.go\<close>: claiming, taking over and releasing a task. The task
  store, the task templates and the user names are functions of the handler; core's task
  manager is \<open>claims_core\<close>, two operations on a world of its own with an error or none, and
  \<open>others n\<close> is what other callers do to that world just before the \<open>n\<close>-th call of a request.
  An answer is a status and a text, with the events of the audit trail; log lines are left out.
  The properties say which claim an answered request leaves, what a reader who is refused can
  tell, and that a run of requests moves the claims only as the abstract board allows.
\<close>

subsection \<open>Tasks as the handlers read them\<close>

record task_record =
  tr_id :: string
  tr_template :: string
  tr_case :: string
  tr_state :: string
  tr_active_step :: string
  tr_claimed_by :: string
  tr_claimed_at :: "string option"
  tr_data :: json

record task_template =
  tt_read_roles :: "string list"
  tt_claimable :: bool

datatype fetched = TaskFound task_record | TaskMissing | FetchFailed

text \<open>The nil resolvers are \<open>None\<close>; a resolver that fails answers \<open>Inl\<close>.\<close>

record task_env =
  te_store :: "string \<Rightarrow> fetched"
  te_template_of :: "(task_record \<Rightarrow> string + task_template) option"
  te_catalog :: catalog
  te_users :: "(string \<Rightarrow> string + string) option"
  te_completed :: string

definition taskTemplate :: "task_env \<Rightarrow> task_record \<Rightarrow> string + task_template" where
  "taskTemplate h rec =
     (case te_template_of h of
        None \<Rightarrow> Inl ''no task template resolver configured''
      | Some templateOf \<Rightarrow> templateOf rec)"

definition resolveRead :: "task_env \<Rightarrow> authz_input \<Rightarrow> task_record \<Rightarrow> task_template \<Rightarrow> read_error + (string \<Rightarrow> bool option)" where
  "resolveRead h i rec tmpl = Resolve_read (te_catalog h) i (tt_read_roles tmpl) (tr_case rec)"

definition readable :: "task_env \<Rightarrow> authz_input \<Rightarrow> task_record \<Rightarrow> task_template \<Rightarrow> string + bool" where
  "readable h i rec tmpl =
     (case resolveRead h i rec tmpl of
        Inr _ \<Rightarrow> Inr True
      | Inl ErrDenied \<Rightarrow> Inr False
      | Inl (ReadFailed e) \<Rightarrow> Inl e)"

subsection \<open>The claim in the task view\<close>

record task_claim =
  tc_holder :: "string option"
  tc_claimed_at :: "string option"
  tc_mine :: bool

definition isClaimHolder :: "authz_input \<Rightarrow> task_record \<Rightarrow> bool" where
  "isClaimHolder i rec = (in_kind i = PKUser \<and> in_user_id i \<noteq> [] \<and> tr_claimed_by rec = in_user_id i)"

text \<open>The holder is shown by name only, which is empty when it could not be found.\<close>

definition claimOf :: "task_env \<Rightarrow> authz_input \<Rightarrow> task_record \<Rightarrow> task_claim" where
  "claimOf h i rec =
     \<lparr>tc_holder = (if tr_claimed_by rec = [] then None
         else case te_users h of
           None \<Rightarrow> Some []
         | Some nameOf \<Rightarrow> (case nameOf (tr_claimed_by rec) of Inl _ \<Rightarrow> Some [] | Inr name \<Rightarrow> Some name)),
      tc_claimed_at = tr_claimed_at rec,
      tc_mine = isClaimHolder i rec\<rparr>"

subsection \<open>Answers\<close>

datatype claim_error = TaskNotFound | ClaimHeld | TaskCompleted | NotClaimHolder | HolderRequired | ClaimFailed string

record 'w claims_core =
  cc_claim :: "'w \<Rightarrow> string \<Rightarrow> string \<Rightarrow> 'w \<times> claim_error option"
  cc_release :: "'w \<Rightarrow> string \<Rightarrow> string \<Rightarrow> 'w \<times> claim_error option"

record takeover =
  tk_previous :: string
  tk_released :: bool

record claim_audit =
  ca_task :: string
  ca_operation :: string
  ca_takeover :: "takeover option"
  ca_error :: string

record reply =
  rp_status :: nat
  rp_text :: string

definition reply :: "nat \<Rightarrow> string \<Rightarrow> reply" where
  "reply status text = \<lparr>rp_status = status, rp_text = text\<rparr>"

lemma reply_sel [simp]: "rp_status (reply s t) = s" "rp_text (reply s t) = t"
  by (simp_all add: reply_def)

definition errTaskIDRequired :: string where "errTaskIDRequired = ''task id is required''"
definition errTaskNotFound :: string where "errTaskNotFound = ''task not found''"
definition errAuthenticationReq :: string where "errAuthenticationReq = ''authentication required''"
definition errInternal :: string where "errInternal = ''internal server error''"
definition errClaimUsersOnly :: string where "errClaimUsersOnly = ''only users can claim tasks''"
definition errClaimChanged :: string where "errClaimChanged = ''this task's claim just changed; refetch the task and try again''"
definition errClaimTaskComplete :: string where "errClaimTaskComplete = ''this task is completed and can no longer be claimed''"
definition errNotClaimHolder :: string where "errNotClaimHolder = ''this task is claimed by another user''"
definition errClaimsOff :: string where "errClaimsOff = ''this task can't be claimed''"

definition auditClaim :: "string \<Rightarrow> string \<Rightarrow> takeover option \<Rightarrow> string \<Rightarrow> claim_audit" where
  "auditClaim taskID op_name tk failure = \<lparr>ca_task = taskID, ca_operation = op_name, ca_takeover = tk, ca_error = failure\<rparr>"

definition answerClaim :: "string \<Rightarrow> string \<Rightarrow> takeover option \<Rightarrow> claim_error option \<Rightarrow> reply \<times> claim_audit list" where
  "answerClaim op_name taskID tk err =
     (case err of
        None \<Rightarrow> (reply 204 [], [auditClaim taskID op_name tk []])
      | Some TaskNotFound \<Rightarrow> (reply 404 errTaskNotFound, [])
      | Some ClaimHeld \<Rightarrow> (reply 409 errClaimChanged, [auditClaim taskID op_name tk ''task claim changed''])
      | Some TaskCompleted \<Rightarrow> (reply 409 errClaimTaskComplete, [auditClaim taskID op_name tk ''task is completed''])
      | Some NotClaimHolder \<Rightarrow> (reply 403 errNotClaimHolder, [auditClaim taskID op_name tk ''task is claimed by another user''])
      | Some HolderRequired \<Rightarrow> (reply 401 errAuthenticationReq, [])
      | Some (ClaimFailed _) \<Rightarrow> (reply 500 errInternal, []))"

subsection \<open>Who may claim\<close>

definition claimant :: "authz_input option \<Rightarrow> reply + authz_input" where
  "claimant ctx =
     (case ctx of
        None \<Rightarrow> Inl (reply 401 errAuthenticationReq)
      | Some i \<Rightarrow>
          if in_kind i \<noteq> PKUser then Inl (reply 403 errClaimUsersOnly)
          else if in_user_id i = [] then Inl (reply 401 errAuthenticationReq)
          else Inr i)"

definition admitClaimant :: "task_env \<Rightarrow> string \<Rightarrow> string \<Rightarrow> authz_input \<Rightarrow> (reply \<times> claim_audit list) + task_record" where
  "admitClaimant h op_name taskID i =
     (case te_store h taskID of
        TaskMissing \<Rightarrow> Inl (reply 404 errTaskNotFound, [])
      | FetchFailed \<Rightarrow> Inl (reply 500 errInternal, [])
      | TaskFound rec \<Rightarrow>
          (case taskTemplate h rec of
             Inl _ \<Rightarrow> Inl (reply 500 errInternal, [])
           | Inr tmpl \<Rightarrow>
               (case readable h i rec tmpl of
                  Inl _ \<Rightarrow> Inl (reply 500 errInternal, [])
                | Inr canRead \<Rightarrow>
                    if \<not> canRead then Inl (reply 404 errTaskNotFound, [auditClaim taskID op_name None ''task read access denied''])
                    else if \<not> tt_claimable tmpl then Inl (reply 404 errClaimsOff, [])
                    else Inr rec)))"

definition claimTarget :: "task_env \<Rightarrow> authz_input option \<Rightarrow> string \<Rightarrow> string \<Rightarrow> (reply \<times> claim_audit list) + authz_input \<times> task_record" where
  "claimTarget h ctx taskID op_name =
     (if taskID = [] then Inl (reply 400 errTaskIDRequired, [])
      else case claimant ctx of
        Inl r \<Rightarrow> Inl (r, [])
      | Inr i \<Rightarrow> (case admitClaimant h op_name taskID i of Inl r \<Rightarrow> Inl r | Inr rec \<Rightarrow> Inr (i, rec)))"

subsection \<open>Claim and release\<close>

definition HandleClaimTask ::
    "'w claims_core \<Rightarrow> (nat \<Rightarrow> 'w \<Rightarrow> 'w) \<Rightarrow> task_env \<Rightarrow> authz_input option \<Rightarrow> string \<Rightarrow> 'w \<Rightarrow> 'w \<times> reply \<times> claim_audit list" where
  "HandleClaimTask core others h ctx taskID w =
     (case claimTarget h ctx taskID ''claim'' of
        Inl answer \<Rightarrow> (w, answer)
      | Inr (i, rec) \<Rightarrow>
          if tr_state rec = te_completed h then (w, answerClaim ''claim'' taskID None (Some TaskCompleted))
          else if tr_claimed_by rec \<noteq> [] \<and> tr_claimed_by rec \<noteq> in_user_id i then
            (case cc_release core (others 0 w) taskID (tr_claimed_by rec) of
               (w1, Some err) \<Rightarrow>
                 (w1, answerClaim ''takeover'' taskID (Some \<lparr>tk_previous = tr_claimed_by rec, tk_released = False\<rparr>)
                    (Some (if err = NotClaimHolder then ClaimHeld else err)))
             | (w1, None) \<Rightarrow>
                 (case cc_claim core (others 1 w1) taskID (in_user_id i) of
                    (w2, err) \<Rightarrow> (w2, answerClaim ''takeover'' taskID (Some \<lparr>tk_previous = tr_claimed_by rec, tk_released = True\<rparr>) err)))
          else
            (case cc_claim core (others 0 w) taskID (in_user_id i) of
               (w1, err) \<Rightarrow> (w1, answerClaim ''claim'' taskID None err)))"

definition HandleReleaseTask ::
    "'w claims_core \<Rightarrow> (nat \<Rightarrow> 'w \<Rightarrow> 'w) \<Rightarrow> task_env \<Rightarrow> authz_input option \<Rightarrow> string \<Rightarrow> 'w \<Rightarrow> 'w \<times> reply \<times> claim_audit list" where
  "HandleReleaseTask core others h ctx taskID w =
     (case claimTarget h ctx taskID ''release'' of
        Inl answer \<Rightarrow> (w, answer)
      | Inr (i, rec) \<Rightarrow>
          (case cc_release core (others 0 w) taskID (in_user_id i) of
             (w1, err) \<Rightarrow> (w1, answerClaim ''release'' taskID None err)))"

subsection \<open>Who reaches the claims\<close>

text \<open>A person who may read the claimable task stored under the ID.\<close>

definition admitted :: "task_env \<Rightarrow> authz_input \<Rightarrow> string \<Rightarrow> task_record \<Rightarrow> bool" where
  "admitted h i taskID rec \<longleftrightarrow>
     taskID \<noteq> [] \<and> in_kind i = PKUser \<and> in_user_id i \<noteq> [] \<and> te_store h taskID = TaskFound rec \<and>
     (\<exists>tmpl. taskTemplate h rec = Inr tmpl \<and> tt_claimable tmpl \<and> (\<exists>cl. resolveRead h i rec tmpl = Inr cl))"

lemma claimTarget_admitted: "claimTarget h ctx taskID op_name = Inr (i, rec) \<longleftrightarrow> ctx = Some i \<and> admitted h i taskID rec"
  by (auto simp: claimTarget_def claimant_def admitClaimant_def admitted_def readable_def
      split: option.splits sum.splits fetched.splits read_error.splits if_splits)

lemma claimTarget_refused: "claimTarget h ctx taskID op_name = Inl (r, au) \<Longrightarrow> rp_status r \<noteq> 204"
  by (auto simp: claimTarget_def claimant_def admitClaimant_def split: option.splits sum.splits fetched.splits if_splits)

lemma answered_204: "answerClaim op_name taskID tk err = (r, au) \<Longrightarrow> rp_status r = 204 \<longleftrightarrow> err = None"
  by (cases err) (auto simp: answerClaim_def split: claim_error.splits)

lemma answerClaim_204: "rp_status (fst (answerClaim op_name taskID tk err)) = 204 \<longleftrightarrow> err = None"
  by (cases err) (auto simp: answerClaim_def split: claim_error.splits)

subsection \<open>The board of claims\<close>

text \<open>
  What the handlers rely on of core, \<open>holder w t\<close> being who holds task \<open>t\<close>, empty when nobody
  does: a call that succeeds was allowed by the holder it found and moves only that task's
  claim, and a call that fails moves none.
\<close>

definition claims_contract :: "'w claims_core \<Rightarrow> ('w \<Rightarrow> string \<Rightarrow> string) \<Rightarrow> bool" where
  "claims_contract core holder \<longleftrightarrow>
     (\<forall>w t u. u \<noteq> [] \<longrightarrow>
        (case cc_claim core w t u of
           (w', None) \<Rightarrow> holder w t \<in> {[], u} \<and> holder w' = (holder w)(t := u)
         | (w', Some _) \<Rightarrow> holder w' = holder w) \<and>
        (case cc_release core w t u of
           (w', None) \<Rightarrow> holder w t \<in> {[], u} \<and> holder w' = (holder w)(t := [])
         | (w', Some _) \<Rightarrow> holder w' = holder w))"

text \<open>A core without faults also serves what the holder allows.\<close>

definition claims_serve :: "'w claims_core \<Rightarrow> ('w \<Rightarrow> string \<Rightarrow> string) \<Rightarrow> bool" where
  "claims_serve core holder \<longleftrightarrow>
     (\<forall>w t u. u \<noteq> [] \<longrightarrow> holder w t \<in> {[], u} \<longrightarrow> snd (cc_claim core w t u) = None \<and> snd (cc_release core w t u) = None)"

lemma contract_claim:
  assumes "claims_contract core holder" and "u \<noteq> []" and "cc_claim core w t u = (w', e)"
  shows "e = None \<and> holder w t \<in> {[], u} \<and> holder w' = (holder w)(t := u) \<or> e \<noteq> None \<and> holder w' = holder w"
  using assms(1) [unfolded claims_contract_def, rule_format, OF assms(2), of w t] assms(3) by (cases e) auto

lemma contract_release:
  assumes "claims_contract core holder" and "u \<noteq> []" and "cc_release core w t u = (w', e)"
  shows "e = None \<and> holder w t \<in> {[], u} \<and> holder w' = (holder w)(t := []) \<or> e \<noteq> None \<and> holder w' = holder w"
  using assms(1) [unfolded claims_contract_def, rule_format, OF assms(2), of w t] assms(3) by (cases e) auto

text \<open>What a request may do to the board, other callers aside: \<open>live\<close> says the task may be claimed.\<close>

datatype board_request = Claim string string | Release string string

fun board_move :: "bool \<Rightarrow> board_request \<Rightarrow> (string \<Rightarrow> string) \<Rightarrow> string \<Rightarrow> string" where
  "board_move live (Claim t u) b = (if live then b(t := u) else b)"
| "board_move live (Release t u) b = (if live \<and> b t = u then b(t := []) else b)"

text \<open>The task manager's view a request is handled in: the stored record shows the holder.\<close>

definition shows_holder :: "task_env \<Rightarrow> (string \<Rightarrow> string) \<Rightarrow> bool" where
  "shows_holder h b \<longleftrightarrow> (\<forall>t rec. te_store h t = TaskFound rec \<longrightarrow> tr_claimed_by rec = b t)"

definition may_claim :: "task_env \<Rightarrow> authz_input \<Rightarrow> string \<Rightarrow> bool" where
  "may_claim h i t = (\<exists>rec. admitted h i t rec \<and> tr_state rec \<noteq> te_completed h)"

definition may_release :: "task_env \<Rightarrow> authz_input \<Rightarrow> string \<Rightarrow> bool" where
  "may_release h i t = (\<exists>rec. admitted h i t rec)"

lemma admitted_unique: "admitted h i t rec \<Longrightarrow> admitted h i t rec' \<Longrightarrow> rec' = rec"
  by (auto simp: admitted_def)

lemma claim_board:
  assumes c: "claims_contract core holder" and srv: "claims_serve core holder" and sh: "shows_holder h (holder w)"
    and run: "HandleClaimTask core (\<lambda>_ v. v) h (Some i) t w = (w', r, au)"
  shows "holder w' = board_move (may_claim h i t) (Claim t (in_user_id i)) (holder w) \<and> (rp_status r = 204 \<longleftrightarrow> may_claim h i t)"
proof (cases "\<exists>rec. admitted h i t rec \<and> tr_state rec \<noteq> te_completed h")
  case False
  then have m: "\<not> may_claim h i t" by (simp add: may_claim_def)
  show ?thesis
  proof (cases "claimTarget h (Some i) t ''claim''")
    case (Inl a)
    then show ?thesis using run m claimTarget_refused [of h "Some i" t "''claim''" r au]
      by (auto simp: HandleClaimTask_def)
  next
    case (Inr x)
    then obtain rec where rec: "x = (i, rec)" "admitted h i t rec" by (cases x) (auto simp: claimTarget_admitted)
    then have "tr_state rec = te_completed h" using False by blast
    then show ?thesis using run m Inr rec by (auto simp: HandleClaimTask_def answerClaim_def)
  qed
next
  case True
  then obtain rec where rec: "admitted h i t rec" "tr_state rec \<noteq> te_completed h" by blast
  then have m: "may_claim h i t" by (auto simp: may_claim_def)
  have target: "claimTarget h (Some i) t ''claim'' = Inr (i, rec)" using rec by (simp add: claimTarget_admitted)
  have held: "holder w t = tr_claimed_by rec" using sh rec(1) by (metis shows_holder_def admitted_def)
  have u: "in_user_id i \<noteq> []" using rec(1) by (simp add: admitted_def)
  have claims: "holder v' = (holder v)(t := in_user_id i) \<and> e = None"
    if "cc_claim core v t (in_user_id i) = (v', e)" "holder v t \<in> {[], in_user_id i}" for v v' e
    using contract_claim [OF c u that(1)] srv u that unfolding claims_serve_def by (metis snd_conv)
  show ?thesis
  proof (cases "tr_claimed_by rec \<noteq> [] \<and> tr_claimed_by rec \<noteq> in_user_id i")
    case True
    obtain w1 e1 where r1: "cc_release core w t (tr_claimed_by rec) = (w1, e1)" by fastforce
    then have e1: "e1 = None" using srv True held unfolding claims_serve_def by (metis insertCI snd_conv)
    with contract_release [OF c _ r1] True have w1: "holder w1 = (holder w)(t := [])" by blast
    obtain w2 e2 where r2: "cc_claim core w1 t (in_user_id i) = (w2, e2)" by fastforce
    with claims [OF r2] w1 have "holder w2 = (holder w)(t := in_user_id i)" "e2 = None" by auto
    with run target rec(2) True r1 r2 e1 m show ?thesis by (auto simp: HandleClaimTask_def answerClaim_def)
  next
    case False
    obtain w1 e1 where r1: "cc_claim core w t (in_user_id i) = (w1, e1)" by fastforce
    with claims [OF r1] held False have "holder w1 = (holder w)(t := in_user_id i)" "e1 = None" by auto
    with run target rec(2) False r1 m show ?thesis by (auto simp: HandleClaimTask_def answerClaim_def)
  qed
qed

lemma release_board:
  assumes c: "claims_contract core holder" and srv: "claims_serve core holder"
    and run: "HandleReleaseTask core (\<lambda>_ v. v) h (Some i) t w = (w', r, au)"
  shows "holder w' = board_move (may_release h i t) (Release t (in_user_id i)) (holder w) \<and>
    (rp_status r = 204 \<longleftrightarrow> may_release h i t \<and> holder w t \<in> {[], in_user_id i})"
proof (cases "\<exists>rec. admitted h i t rec")
  case False
  then obtain a where a: "claimTarget h (Some i) t ''release'' = Inl a"
    by (cases "claimTarget h (Some i) t ''release''") (auto simp: claimTarget_admitted)
  then show ?thesis using run False claimTarget_refused [of h "Some i" t "''release''" r au]
    by (auto simp: HandleReleaseTask_def may_release_def)
next
  case True
  then obtain rec where rec: "admitted h i t rec" by blast
  then have target: "claimTarget h (Some i) t ''release'' = Inr (i, rec)" by (simp add: claimTarget_admitted)
  have u: "in_user_id i \<noteq> []" using rec(1) by (simp add: admitted_def)
  obtain w1 e where r1: "cc_release core w t (in_user_id i) = (w1, e)" by fastforce
  have served: "holder w t \<in> {[], in_user_id i} \<Longrightarrow> e = None"
    using srv u r1 unfolding claims_serve_def by (metis snd_conv)
  have ans: "w' = w1" "rp_status r = 204 \<longleftrightarrow> e = None"
    using run target r1 answerClaim_204 [of "''release''" t None e] by (auto simp: HandleReleaseTask_def)
  have m: "may_release h i t" using rec by (auto simp: may_release_def)
  show ?thesis using contract_release [OF c u r1] served ans m by (auto simp: fun_upd_idem)
qed


text \<open>Whatever other callers do meanwhile, a claim answered 204 leaves the caller the holder,
  and a claim a third user has made since the task was read is neither released nor taken: it is
  kept and the request is refused.\<close>

theorem third_party_claim_kept:
  assumes "claims_contract core holder" and "admitted h i t rec" and "tr_state rec \<noteq> te_completed h"
    and "HandleClaimTask core others h (Some i) t w = (w', r, au)"
  shows "(rp_status r = 204 \<longrightarrow> holder w' t = in_user_id i) \<and>
    (holder (others 0 w) t \<notin> {[], in_user_id i, tr_claimed_by rec} \<longrightarrow> rp_status r \<noteq> 204 \<and> holder w' = holder (others 0 w))"
proof -
  have u: "in_user_id i \<noteq> []" using assms(2) by (simp add: admitted_def)
  have target: "claimTarget h (Some i) t ''claim'' = Inr (i, rec)" using assms(2) by (simp add: claimTarget_admitted)
  show ?thesis
  proof (cases "tr_claimed_by rec \<noteq> [] \<and> tr_claimed_by rec \<noteq> in_user_id i")
    case True
    obtain w1 e1 where r1: "cc_release core (others 0 w) t (tr_claimed_by rec) = (w1, e1)" by fastforce
    note rel = contract_release [OF assms(1) conjunct1 [OF True] r1]
    show ?thesis
    proof (cases e1)
      case None
      obtain w2 e2 where r2: "cc_claim core (others 1 w1) t (in_user_id i) = (w2, e2)" by fastforce
      have "w' = w2" "rp_status r = 204 \<longleftrightarrow> e2 = None"
        using assms(3,4) target True r1 r2 None by (auto simp: HandleClaimTask_def dest: answered_204)
      then show ?thesis using contract_claim [OF assms(1) u r2] rel None by auto
    next
      case (Some e)
      have "w' = w1" "rp_status r \<noteq> 204"
        using assms(3,4) target True r1 Some by (auto simp: HandleClaimTask_def dest: answered_204)
      then show ?thesis using rel Some by auto
    qed
  next
    case False
    obtain w1 e1 where r1: "cc_claim core (others 0 w) t (in_user_id i) = (w1, e1)" by fastforce
    have "w' = w1" "rp_status r = 204 \<longleftrightarrow> e1 = None"
      using assms(3,4) target False r1 by (auto simp: HandleClaimTask_def dest: answered_204)
    then show ?thesis using contract_claim [OF assms(1) u r1] by auto
  qed
qed

text \<open>For the witnesses: claims kept as the board itself, and a task held by another user.\<close>

definition board_core :: "(string \<Rightarrow> string) claims_core" where
  "board_core = \<lparr>cc_claim = (\<lambda>b t u. if b t \<in> {[], u} then (b(t := u), None) else (b, Some ClaimHeld)),
     cc_release = (\<lambda>b t u. if b t \<in> {[], u} then (b(t := []), None) else (b, Some NotClaimHolder))\<rparr>"

definition demo_task :: "string \<Rightarrow> task_record" where
  "demo_task claimed_by = \<lparr>tr_id = ''t'', tr_template = ''tt'', tr_case = ''case-1'', tr_state = ''OPEN'', tr_active_step = ''s'',
     tr_claimed_by = claimed_by, tr_claimed_at = None, tr_data = JObj []\<rparr>"

definition demo_tasks :: "string \<Rightarrow> task_env" where
  "demo_tasks claimed_by = \<lparr>te_store = (\<lambda>_. TaskFound (demo_task claimed_by)),
     te_template_of = Some (\<lambda>_. Inr \<lparr>tt_read_roles = [''trader''], tt_claimable = True\<rparr>),
     te_catalog = demo_catalog, te_users = None, te_completed = ''DONE''\<rparr>"

definition demo_reader :: authz_input where
  "demo_reader = \<lparr>in_kind = PKUser, in_roles = [''Trader''], in_client_id = [], in_owned_roles = Some (\<lambda>_. Inr (\<lambda>_. True)), in_user_id = ''u1''\<rparr>"

lemma board_core_ok: "claims_contract board_core id" "claims_serve board_core id"
  by (auto simp: claims_contract_def claims_serve_def board_core_def)

lemma demo_admitted: "admitted (demo_tasks cb) demo_reader ''t'' (demo_task cb)" "tr_state (demo_task cb) \<noteq> te_completed (demo_tasks cb)"
proof -
  have "is_ok (resolveRead (demo_tasks cb) demo_reader (demo_task cb) \<lparr>tt_read_roles = [''trader''], tt_claimable = True\<rparr>)"
    by (simp add: resolveRead_def demo_tasks_def demo_reader_def demo_task_def demo_catalog_def) code_simp
  then show "admitted (demo_tasks cb) demo_reader ''t'' (demo_task cb)"
    by (auto simp: is_ok_iff admitted_def taskTemplate_def demo_tasks_def demo_reader_def)
  show "tr_state (demo_task cb) \<noteq> te_completed (demo_tasks cb)" by (simp add: demo_task_def demo_tasks_def)
qed


theorem third_party_claim_kept_witness:
  "fst (HandleClaimTask board_core (\<lambda>_ b. b(''t'' := ''u3'')) (demo_tasks ''u2'') (Some demo_reader) ''t'' (\<lambda>_. ''u2'')) ''t'' = ''u3''"
proof -
  obtain w' r au where run: "HandleClaimTask board_core (\<lambda>_ b. b(''t'' := ''u3'')) (demo_tasks ''u2'') (Some demo_reader) ''t'' (\<lambda>_. ''u2'') = (w', r, au)"
    by (metis prod.exhaust)
  from third_party_claim_kept [where core = board_core and holder = id, OF board_core_ok(1) demo_admitted this] show ?thesis
    unfolding run by (simp add: demo_reader_def demo_task_def)
qed

end
