(* ===== verification/File_Routes.thy ===== *)
theory File_Routes
  imports File_Access Task_Claims
begin

text \<open>
  \<open>internal/storage\<close>: the storage routes in both modes. A service holds the files, core's own
  over a backend or \<open>ProxyService\<close>, which forwards every operation to the service that owns them;
  \<open>FileHandler\<close> hands callers file references in place of stored values. Core's storage service,
  the outbound call to the owning service with its decoded answer, the client that follows
  presigned URLs, \<open>mime.ParseMediaType\<close> and whether a text is an absolute URL are parameters;
  the first three act on a world \<open>'w\<close>; so is the
  quoting of a text in a message, which \<open>ExtensionMismatch\<close> holds done. The signing of references is \<open>File_Access\<close>. Log lines
  and the size cap of a request's body are left out.
\<close>

subsection \<open>Services\<close>

record file_meta =
  fm_key :: string
  fm_name :: string
  fm_upload_url :: string
  fm_size :: int
  fm_mime :: string

record file_download =
  fd_url :: string
  fd_expires :: int
  fd_extension :: string
  fd_mime :: string
  fd_disposition :: string

record core_download =
  dw_url :: string
  dw_expires :: int
  dw_type :: string
  dw_disposition :: string

datatype service_error =
    ErrInvalidKey
  | ErrFileNotFound
  | ErrInvalidSize
  | FileTooLarge int
  | ContentTypeNotAllowed string
  | ExtensionMismatch string string
  | RemoteRejection nat string
  | UpstreamFailure string
  | StorageFailed string

type_synonym 'w uploader = "'w \<Rightarrow> string \<Rightarrow> int \<Rightarrow> string \<Rightarrow> (service_error + file_meta) \<times> 'w"

text \<open>\<open>sv_describe\<close> is there when the service describes its files itself, as the proxy does.\<close>

record 'w file_service =
  sv_upload :: "'w uploader"
  sv_url :: "'w \<Rightarrow> string \<Rightarrow> (service_error + core_download) \<times> 'w"
  sv_describe :: "('w \<Rightarrow> string \<Rightarrow> (service_error + file_download) \<times> 'w) option"

subsection \<open>The proxy\<close>

record remote_request =
  rm_method :: string
  rm_path :: string
  rm_body :: "json option"

datatype remote_error = RemoteStatus nat string | RemoteOther string

record remote_answer =
  ra_meta :: file_meta
  ra_download :: file_download
  ra_error :: string

record put_request =
  pq_url :: string
  pq_type :: string
  pq_length :: int
  pq_body :: string

datatype fetched_file = FetchError string | FetchAnswer nat string string

record proxy_config =
  pc_service :: string
  pc_upload_path :: string
  pc_internal_upload_path :: string
  pc_download_path :: string
  pc_delete_path :: string
  pc_allowed_types :: "string list"

record 'w proxy_service =
  ps_call :: "'w \<Rightarrow> remote_request \<Rightarrow> (remote_error option \<times> remote_answer) \<times> 'w"
  ps_put :: "'w \<Rightarrow> put_request \<Rightarrow> fetched_file \<times> 'w"
  ps_get :: "'w \<Rightarrow> string \<Rightarrow> fetched_file \<times> 'w"
  ps_absolute :: "string \<Rightarrow> bool"
  ps_quote :: "string \<Rightarrow> string"
  ps_cfg :: proxy_config

definition remote_text :: "remote_error \<Rightarrow> string" where
  "remote_text e = (case e of RemoteStatus s m \<Rightarrow> m | RemoteOther m \<Rightarrow> m)"

definition remoteFailure :: "string \<Rightarrow> remote_error \<Rightarrow> string \<Rightarrow> service_error" where
  "remoteFailure op_name err message =
     (case err of
        RemoteStatus s m \<Rightarrow>
          if s < 400 \<or> 499 < s then UpstreamFailure (''storage proxy: '' @ op_name @ '': '' @ m)
          else if s = 401 \<or> s = 403 then UpstreamFailure (''storage proxy: '' @ op_name @ '': '' @ m)
          else RemoteRejection s message
      | RemoteOther m \<Rightarrow> UpstreamFailure (''storage proxy: '' @ op_name @ '': '' @ m))"

text \<open>\<open>strings.ReplaceAll\<close> of a non-empty text: \<open>skip\<close> bytes of a match are still to be passed over.\<close>

fun replace_from :: "string \<Rightarrow> string \<Rightarrow> nat \<Rightarrow> string \<Rightarrow> string" where
  "replace_from old new skip [] = []"
| "replace_from old new (Suc n) (c # cs) = replace_from old new n cs"
| "replace_from old new 0 (c # cs) =
     (if has_prefix old (c # cs) then new @ replace_from old new (length old - 1) cs else c # replace_from old new 0 cs)"

definition replace_all :: "string \<Rightarrow> string \<Rightarrow> string \<Rightarrow> string" where
  "replace_all old new s = replace_from old new 0 s"

text \<open>\<open>url.PathEscape\<close>: the bytes a path segment keeps, the others as two upper-case hex digits.\<close>

definition segment_byte :: "char \<Rightarrow> bool" where
  "segment_byte c = (let n = of_char c :: nat in
     (65 \<le> n \<and> n \<le> 90) \<or> (97 \<le> n \<and> n \<le> 122) \<or> (48 \<le> n \<and> n \<le> 57) \<or> c \<in> set ''-_.~$&+:=@'')"

definition hex_digit :: "nat \<Rightarrow> char" where
  "hex_digit d = (if d < 10 then char_of (48 + d) else char_of (55 + d))"

definition PathEscape :: "string \<Rightarrow> string" where
  "PathEscape s = concat (map (\<lambda>c. if segment_byte c then [c] else [CHR ''%'', hex_digit (of_char c div 16), hex_digit (of_char c mod 16)]) s)"

definition keyPath :: "string \<Rightarrow> string \<Rightarrow> string" where
  "keyPath template key = replace_all ''{key}'' (PathEscape key) template"

definition not_absolute :: "'w proxy_service \<Rightarrow> string \<Rightarrow> string \<Rightarrow> service_error" where
  "not_absolute p op_name raw = UpstreamFailure (''storage proxy: '' @ op_name @ '': storage proxy: owning service returned non-absolute URL '' @ ps_quote p raw @
       ''; its storage public URL must be absolute'')"

definition reserve :: "'w proxy_service \<Rightarrow> string \<Rightarrow> 'w uploader" where
  "reserve p path w filename nbytes mime =
     (case ps_call p w \<lparr>rm_method = ''POST'', rm_path = path,
          rm_body = Some (JObj [(''filename'', JStr filename), (''mime_type'', JStr mime), (''size'', JNum (of_int nbytes))])\<rparr> of
        ((Some err, resp), w1) \<Rightarrow> (Inl (remoteFailure ''upload'' err (ra_error resp)), w1)
      | ((None, resp), w1) \<Rightarrow>
          let m = ra_meta resp in
          if fm_key m = [] \<or> fm_upload_url m = [] then (Inl (UpstreamFailure ''storage proxy: upload: response missing key or upload_url''), w1)
          else if \<not> ps_absolute p (fm_upload_url m) then (Inl (not_absolute p ''validate upload URL'' (fm_upload_url m)), w1)
          else (Inr m, w1))"

definition proxy_Upload :: "'w proxy_service \<Rightarrow> 'w uploader" where
  "proxy_Upload p = reserve p (pc_upload_path (ps_cfg p))"

definition proxy_Save :: "'w proxy_service \<Rightarrow> 'w \<Rightarrow> string \<Rightarrow> string \<Rightarrow> string \<Rightarrow> int \<Rightarrow> (service_error + file_meta) \<times> 'w" where
  "proxy_Save p w filename mime body nbytes =
     (case reserve p (pc_internal_upload_path (ps_cfg p)) w filename nbytes mime of
        (Inl e, w1) \<Rightarrow> (Inl e, w1)
      | (Inr m0, w1) \<Rightarrow>
          let m = (if fm_mime m0 = [] then m0\<lparr>fm_mime := mime\<rparr> else m0) in
          (case ps_put p w1 \<lparr>pq_url = fm_upload_url m, pq_type = fm_mime m, pq_length = nbytes, pq_body = body\<rparr> of
             (FetchError e, w2) \<Rightarrow> (Inl (StorageFailed (''storage proxy: upload '' @ fm_key m @ '': '' @ e)), w2)
           | (FetchAnswer status ctype text, w2) \<Rightarrow>
               if status < 200 \<or> 299 < status
               then (Inl (StorageFailed (''storage proxy: upload '' @ fm_key m @ '': owning service returned '' @ show_nat status @ '': '' @
                       trim_space (take 4096 text))), w2)
               else (Inr (m\<lparr>fm_upload_url := []\<rparr>), w2)))"

definition proxy_fileDownload :: "'w proxy_service \<Rightarrow> 'w \<Rightarrow> string \<Rightarrow> (service_error + file_download) \<times> 'w" where
  "proxy_fileDownload p w key =
     (case ps_call p w \<lparr>rm_method = ''GET'', rm_path = keyPath (pc_download_path (ps_cfg p)) key, rm_body = None\<rparr> of
        ((Some err, resp), w1) \<Rightarrow> (Inl (remoteFailure ''get download URL'' err (ra_error resp)), w1)
      | ((None, resp), w1) \<Rightarrow>
          let d = ra_download resp in
          if fd_url d = [] then (Inl (UpstreamFailure ''storage proxy: get download URL: response missing download_url''), w1)
          else if \<not> ps_absolute p (fd_url d) then (Inl (not_absolute p ''validate download URL'' (fd_url d)), w1)
          else (Inr d, w1))"

definition proxy_DownloadURL :: "'w proxy_service \<Rightarrow> 'w \<Rightarrow> string \<Rightarrow> (service_error + core_download) \<times> 'w" where
  "proxy_DownloadURL p w key =
     (case proxy_fileDownload p w key of
        (Inl e, w1) \<Rightarrow> (Inl e, w1)
      | (Inr d, w1) \<Rightarrow> (Inr \<lparr>dw_url = fd_url d, dw_expires = fd_expires d, dw_type = fd_mime d, dw_disposition = fd_disposition d\<rparr>, w1))"

text \<open>The body and its type; what the owning service answers with a wrong status is in the error.\<close>

definition proxy_Download :: "'w proxy_service \<Rightarrow> 'w \<Rightarrow> string \<Rightarrow> (service_error + string \<times> string) \<times> 'w" where
  "proxy_Download p w key =
     (case proxy_DownloadURL p w key of
        (Inl e, w1) \<Rightarrow> (Inl e, w1)
      | (Inr d, w1) \<Rightarrow>
          (case ps_get p w1 (dw_url d) of
             (FetchError e, w2) \<Rightarrow> (Inl (UpstreamFailure (''storage proxy: download '' @ key @ '': '' @ e)), w2)
           | (FetchAnswer status ctype text, w2) \<Rightarrow>
               if status \<noteq> 200
               then (Inl (UpstreamFailure (''storage proxy: download '' @ key @ '': owning service returned '' @ show_nat status @ '': '' @
                       trim_space (take 4096 text))), w2)
               else (Inr (text, if ctype = [] then ''application/octet-stream'' else ctype), w2)))"

definition proxy_Delete :: "'w proxy_service \<Rightarrow> 'w \<Rightarrow> string \<Rightarrow> service_error option \<times> 'w" where
  "proxy_Delete p w key =
     (case ps_call p w \<lparr>rm_method = ''DELETE'', rm_path = keyPath (pc_delete_path (ps_cfg p)) key, rm_body = None\<rparr> of
        ((Some err, resp), w1) \<Rightarrow> (Some (remoteFailure ''delete'' err (ra_error resp)), w1)
      | ((None, resp), w1) \<Rightarrow> (None, w1))"

definition served_by_proxy :: "'w proxy_service \<Rightarrow> 'w file_service" where
  "served_by_proxy p = \<lparr>sv_upload = proxy_Upload p, sv_url = proxy_DownloadURL p, sv_describe = Some (proxy_fileDownload p)\<rparr>"

subsection \<open>Who may upload what\<close>

type_synonym type_policy = "principal option \<Rightarrow> string \<Rightarrow> bool"

definition anyCaller :: "string list \<Rightarrow> type_policy" where
  "anyCaller types p mimeType = (mimeType \<in> set types)"

text \<open>\<open>media\<close> is the media type a Content-Type value names, without parameters and case.\<close>

definition machineClient :: "(string \<Rightarrow> string option) \<Rightarrow> string list \<Rightarrow> (string \<times> string list) list \<Rightarrow> type_policy" where
  "machineClient media base extra p mimeType =
     (case media mimeType of
        None \<Rightarrow> False
      | Some mt \<Rightarrow>
          if mt \<in> set base then True
          else case p of
            None \<Rightarrow> False
          | Some q \<Rightarrow> pr_client_id q \<noteq> [] \<and> (case map_of extra (pr_client_id q) of None \<Rightarrow> False | Some types \<Rightarrow> mt \<in> set types))"

definition limitTypes :: "principal option \<Rightarrow> 'w uploader \<Rightarrow> type_policy \<Rightarrow> 'w uploader" where
  "limitTypes p up allows w filename nbytes mimeType =
     (if \<not> allows p mimeType then (Inl (ContentTypeNotAllowed mimeType), w) else up w filename nbytes mimeType)"

text \<open>What the internal route uploads with: core's service without an allowlist, limited here.\<close>

definition newMachineUploads ::
    "(string \<Rightarrow> string option) \<Rightarrow> string list \<Rightarrow> (string \<times> string list) list \<Rightarrow> 'w uploader \<Rightarrow> principal option \<Rightarrow> 'w uploader" where
  "newMachineUploads media base extra unlimited p = limitTypes p unlimited (machineClient media base extra)"


subsection \<open>Answers\<close>

datatype 'a served = Refused reply | Served 'a

definition formatSize :: "int \<Rightarrow> string" where
  "formatSize n = (if n mod 2 ^ 20 = 0 then show_int (n div 2 ^ 20) @ ''MB'' else show_int n @ '' bytes'')"

definition isUpstreamFailure :: "service_error \<Rightarrow> bool" where
  "isUpstreamFailure e = (case e of RemoteRejection s m \<Rightarrow> True | UpstreamFailure m \<Rightarrow> True | _ \<Rightarrow> False)"

definition writeProxyError :: "service_error \<Rightarrow> string \<Rightarrow> reply" where
  "writeProxyError e fallback =
     (case e of
        RemoteRejection status message \<Rightarrow> reply status (if message = [] then fallback else message)
      | _ \<Rightarrow> reply 502 fallback)"

definition writeServiceError :: "service_error \<Rightarrow> string \<Rightarrow> string \<Rightarrow> reply" where
  "writeServiceError e fallback mimeType =
     (case e of
        ErrInvalidKey \<Rightarrow> reply 400 ''invalid key format''
      | ErrFileNotFound \<Rightarrow> reply 404 ''file not found''
      | ErrInvalidSize \<Rightarrow> reply 400 ''size must be greater than 0''
      | FileTooLarge cap \<Rightarrow> reply 400 (''file size exceeds '' @ formatSize cap @ '' limit'')
      | ContentTypeNotAllowed _ \<Rightarrow> reply 415 (''invalid or prohibited file type'' @ (if mimeType \<noteq> [] then '': '' @ mimeType else []))
      | ExtensionMismatch ext media \<Rightarrow>
          reply 400 (''the file name's extension ('' @ ext @ '') does not match its type ('' @ media @ '')'')
      | _ \<Rightarrow> if isUpstreamFailure e then writeProxyError e fallback else reply 500 errInternal)"

subsection \<open>The routes of file references\<close>

record upload_request =
  ur_filename :: string
  ur_mime :: string
  ur_size :: int

record upload_response =
  up_key :: string
  up_name :: string
  up_upload_url :: string
  up_size :: int
  up_mime :: string

definition decodeUpload :: "raw_message \<Rightarrow> upload_request option" where
  "decodeUpload b =
     (case b of
        Doc v \<Rightarrow>
          decode_struct (\<lambda>kvs.
            case (decode_string (member kvs ''filename''), decode_string (member kvs ''mime_type''), decode_int64 (member kvs ''size'')) of
              (Some f, Some m, Some n) \<Rightarrow> Some \<lparr>ur_filename = f, ur_mime = m, ur_size = n\<rparr>
            | _ \<Rightarrow> None) v
      | _ \<Rightarrow> None)"

text \<open>What an upload is checked for before the service sees it; only the proxy's route checks the size.\<close>

definition read_upload_request :: "raw_message \<Rightarrow> reply + upload_request" where
  "read_upload_request b =
     (case decodeUpload b of
        None \<Rightarrow> Inl (reply 400 ''invalid request body'')
      | Some req \<Rightarrow>
          if ur_filename req = [] then Inl (reply 400 ''filename is required'')
          else if ur_mime req = [] then Inl (reply 400 ''mime_type is required'')
          else Inr req)"

definition serveUpload ::
    "'c access \<Rightarrow> int \<Rightarrow> nat \<Rightarrow> (principal \<Rightarrow> 'w uploader) \<Rightarrow> principal option \<Rightarrow> raw_message \<Rightarrow> 'w \<Rightarrow> upload_response served \<times> 'w" where
  "serveUpload a now nonce up caller b w =
     (case caller of
        None \<Rightarrow> (Refused (reply 401 errAuthenticationReq), w)
      | Some p \<Rightarrow>
     (case read_upload_request b of
        Inl r \<Rightarrow> (Refused r, w)
      | Inr req \<Rightarrow>
     (case up p w (ur_filename req) (ur_size req) (ur_mime req) of
        (Inl e, w1) \<Rightarrow> (Refused (writeServiceError e ''failed to prepare upload'' (ur_mime req)), w1)
      | (Inr m, w1) \<Rightarrow>
     (case Issue a now nonce (Some p) (fm_key m) (UploadScopes (Some p)) of
        Inl _ \<Rightarrow> (Refused (reply 500 errInternal), w1)
      | Inr ref \<Rightarrow>
          (Served \<lparr>up_key = ref, up_name = fm_name m, up_upload_url = fm_upload_url m, up_size = fm_size m, up_mime = fm_mime m\<rparr>, w1)))))"

text \<open>The two upload routes: a user's uploads the service takes, limited or not, and a machine client's.\<close>

record 'w file_handler =
  fh_svc :: "'w file_service"
  fh_uploads :: "principal \<Rightarrow> 'w uploader"
  fh_machine :: "principal \<Rightarrow> 'w uploader"

definition Upload :: "'c access \<Rightarrow> int \<Rightarrow> nat \<Rightarrow> 'w file_handler \<Rightarrow> principal option \<Rightarrow> raw_message \<Rightarrow> 'w \<Rightarrow> upload_response served \<times> 'w" where
  "Upload a now nonce h = serveUpload a now nonce (fh_uploads h)"

definition InternalUpload ::
    "'c access \<Rightarrow> int \<Rightarrow> nat \<Rightarrow> 'w file_handler \<Rightarrow> principal option \<Rightarrow> raw_message \<Rightarrow> 'w \<Rightarrow> upload_response served \<times> 'w" where
  "InternalUpload a now nonce h = serveUpload a now nonce (fh_machine h)"

definition downloadOf :: "'w file_service \<Rightarrow> 'w \<Rightarrow> string \<Rightarrow> (service_error + file_download) \<times> 'w" where
  "downloadOf svc w resource =
     (case sv_describe svc of
        Some describe \<Rightarrow> describe w resource
      | None \<Rightarrow>
          (case sv_url svc w resource of
             (Inl e, w1) \<Rightarrow> (Inl e, w1)
           | (Inr d, w1) \<Rightarrow>
               (Inr \<lparr>fd_url = dw_url d, fd_expires = dw_expires d, fd_extension = path_Ext resource, fd_mime = dw_type d,
                  fd_disposition = dw_disposition d\<rparr>, w1)))"

definition refused_reference :: "access_error \<Rightarrow> reply" where
  "refused_reference e =
     (case e of
        AccessInvalid \<Rightarrow> reply 403 ''this is not a file reference issued to you''
      | NotYours \<Rightarrow> reply 403 ''this is not a file reference issued to you''
      | ScopeDenied \<Rightarrow> reply 403 ''this file reference can't be used to open the file; save the form to view it''
      | AccessExpired \<Rightarrow> reply 410 ''this file reference has expired; reload to get a new one'')"

definition Download :: "'c access \<Rightarrow> int \<Rightarrow> 'w file_handler \<Rightarrow> principal option \<Rightarrow> string \<Rightarrow> 'w \<Rightarrow> file_download served \<times> 'w" where
  "Download a now h caller ref w =
     (if ref = [] then (Refused (reply 400 ''key is required''), w)
      else case caller of
        None \<Rightarrow> (Refused (reply 401 errAuthenticationReq), w)
      | Some p \<Rightarrow>
          (case Resolve_file a now (Some p) ref ScopeRead of
             Inl e \<Rightarrow> (Refused (refused_reference e), w)
           | Inr resource \<Rightarrow>
               (case downloadOf (fh_svc h) w resource of
                  (Inl e, w1) \<Rightarrow> (Refused (writeServiceError e ''failed to generate access'' []), w1)
                | (Inr d, w1) \<Rightarrow> (Served d, w1))))"

subsection \<open>The proxy's own routes\<close>

definition ProxyHandler_Upload :: "'w proxy_service \<Rightarrow> raw_message \<Rightarrow> 'w \<Rightarrow> file_meta served \<times> 'w" where
  "ProxyHandler_Upload p b w =
     (case read_upload_request b of
        Inl r \<Rightarrow> (Refused r, w)
      | Inr req \<Rightarrow>
          if ur_size req \<le> 0 then (Refused (reply 400 ''size must be greater than 0''), w)
          else case proxy_Upload p w (ur_filename req) (ur_size req) (ur_mime req) of
            (Inl e, w1) \<Rightarrow> (Refused (writeProxyError e ''failed to prepare upload''), w1)
          | (Inr m, w1) \<Rightarrow> (Served m, w1))"

definition ProxyHandler_Download :: "'w proxy_service \<Rightarrow> string \<Rightarrow> 'w \<Rightarrow> ((string \<times> json) list) served \<times> 'w" where
  "ProxyHandler_Download p key w =
     (if key = [] then (Refused (reply 400 ''key is required''), w)
      else case proxy_DownloadURL p w key of
        (Inl e, w1) \<Rightarrow> (Refused (writeProxyError e ''failed to generate access''), w1)
      | (Inr d, w1) \<Rightarrow>
          (Served ([(''download_url'', JStr (dw_url d)), (''expires_at'', JNum (of_int (dw_expires d))), (''mime_type'', JStr (dw_type d))] @
             (if dw_disposition d \<noteq> [] then [(''disposition'', JStr (dw_disposition d))] else [])), w1))"

definition ProxyHandler_Delete :: "'w proxy_service \<Rightarrow> string \<Rightarrow> 'w \<Rightarrow> reply \<times> 'w" where
  "ProxyHandler_Delete p key w =
     (if key = [] then (reply 400 ''key is required'', w)
      else case proxy_Delete p w key of
        (Some e, w1) \<Rightarrow> (writeProxyError e ''failed to delete file'', w1)
      | (None, w1) \<Rightarrow> (reply 204 [], w1))"

subsection \<open>What an uploaded file's reference is good for\<close>

lemma issued_reference:
  assumes "access_ok a now" and "Issue a now nonce (Some p) resource scopes = Inr ref"
  shows "Resolve_file a now' q ref need =
    (if holderOf q \<noteq> holderOf (Some p) then Inl NotYours
     else if need \<notin> set scopes then Inl ScopeDenied
     else if \<exists>e. read_expiry a now (pr_kind p = KindUser) scopes = Some e \<and> e \<le> now' then Inl AccessExpired
     else Inr resource)"
proof -
  have ne: "holderOf (Some p) \<noteq> []" and i: "issue a now nonce (holderOf (Some p)) (pr_kind p = KindUser) resource scopes = Inr ref"
    using assms(2) by (auto simp: Issue_def split: if_splits)
  show ?thesis using issue_resolve [OF assms(1) i] ne by auto
qed

lemma issued_upload:
  assumes "access_ok a now" and "Issue a now nonce (Some p) key (UploadScopes (Some p)) = Inr ref"
  shows "Resolve_file a now' q ref need =
    (if holderOf q \<noteq> holderOf (Some p) then Inl NotYours
     else if need = ScopeSubmit \<or> need = ScopeRead \<and> pr_kind p \<noteq> KindUser then Inr key else Inl ScopeDenied)"
  using issued_reference [OF assms] by (auto simp: read_expiry_def UploadScopes_def)

lemma issued_not_empty:
  assumes "access_ok a now" and "Issue a now nonce p key scopes = Inr ref"
  shows "ref \<noteq> []"
proof
  assume e: "ref = []"
  from assms(2) obtain user where ne: "holderOf p \<noteq> []" and i: "issue a now nonce (holderOf p) user key scopes = Inr ref"
    by (auto simp: Issue_def split: if_splits)
  obtain lifetime token where t: "Seal (ac_codec a) now nonce \<lparr>g_resource = key, g_holder = holderOf p, g_scopes = scopes\<rparr> lifetime = Inr token"
    and ref: "ref = token @ extension key" and l: "lifetime = ac_user_ttl a \<or> lifetime = 0"
    using i by (auto simp: issue_def Let_def split: if_splits sum.splits)
  have "clock_ok now lifetime" using assms(1) l by (auto simp: access_ok_def clock_ok_def)
  then have "dots token = 4" using seal_open(1) [OF _ _ _ t] assms(1) by (simp add: access_ok_def)
  with e ref show False by (simp add: dots_def)
qed

lemma serveUpload_Served:
  assumes "serveUpload a now nonce up (Some p) b w = (Served resp, w')"
  obtains req m where "read_upload_request b = Inr req" "up p w (ur_filename req) (ur_size req) (ur_mime req) = (Inr m, w')"
    "Issue a now nonce (Some p) (fm_key m) (UploadScopes (Some p)) = Inr (up_key resp)" "up_upload_url resp = fm_upload_url m"
proof -
  from assms obtain req where req: "read_upload_request b = Inr req" by (auto simp: serveUpload_def split: sum.splits)
  obtain r v where r: "up p w (ur_filename req) (ur_size req) (ur_mime req) = (r, v)"
    by (cases "up p w (ur_filename req) (ur_size req) (ur_mime req)")
  with assms req obtain m where "r = Inr m" "v = w'" "Issue a now nonce (Some p) (fm_key m) (UploadScopes (Some p)) = Inr (up_key resp)"
    "up_upload_url resp = fm_upload_url m"
    by (cases r) (auto simp: serveUpload_def split: sum.splits)
  with req r that show ?thesis by blast
qed

text \<open>An upload answers with a reference in place of the stored key. Whatever later presents it, a
  user's can only be submitted, by that user, and then stands for the key the service reserved; a
  machine client's opens the file too, for that client alone, through the service; and nobody
  else's download of it says more than that it is not theirs, nor reaches the service.\<close>

theorem uploaded_file_reference:
  assumes "access_ok a now" and "serveUpload a now nonce up (Some p) b w = (Served resp, w')"
  shows "\<exists>req m. read_upload_request b = Inr req \<and> up p w (ur_filename req) (ur_size req) (ur_mime req) = (Inr m, w') \<and>
    up_upload_url resp = fm_upload_url m \<and>
    (\<forall>now' q. Resolve_file a now' q (up_key resp) ScopeSubmit =
       (if holderOf q = holderOf (Some p) then Inr (fm_key m) else Inl NotYours)) \<and>
    (\<forall>now' h q v. Download a now' h q (up_key resp) v =
       (case q of None \<Rightarrow> (Refused (reply 401 errAuthenticationReq), v)
        | Some c \<Rightarrow>
            if holderOf q \<noteq> holderOf (Some p) then (Refused (refused_reference AccessInvalid), v)
            else if pr_kind p = KindUser then (Refused (refused_reference ScopeDenied), v)
            else (case downloadOf (fh_svc h) v (fm_key m) of
                    (Inl e, v') \<Rightarrow> (Refused (writeServiceError e ''failed to generate access'' []), v')
                  | (Inr d, v') \<Rightarrow> (Served d, v'))))"
proof -
  obtain req m where req: "read_upload_request b = Inr req" and m: "up p w (ur_filename req) (ur_size req) (ur_mime req) = (Inr m, w')"
    and ref: "Issue a now nonce (Some p) (fm_key m) (UploadScopes (Some p)) = Inr (up_key resp)" and url: "up_upload_url resp = fm_upload_url m"
    by (rule serveUpload_Served [OF assms(2)]) blast
  note good = issued_upload [OF assms(1) ref]
  have "up_key resp \<noteq> []" using issued_not_empty [OF assms(1) ref] .
  then have dl: "Download a now' h q (up_key resp) v =
       (case q of None \<Rightarrow> (Refused (reply 401 errAuthenticationReq), v)
        | Some c \<Rightarrow>
            if holderOf q \<noteq> holderOf (Some p) then (Refused (refused_reference AccessInvalid), v)
            else if pr_kind p = KindUser then (Refused (refused_reference ScopeDenied), v)
            else (case downloadOf (fh_svc h) v (fm_key m) of
                    (Inl e, v') \<Rightarrow> (Refused (writeServiceError e ''failed to generate access'' []), v')
                  | (Inr d, v') \<Rightarrow> (Served d, v')))" for now' h q v
    by (auto simp: Download_def good refused_reference_def split: option.splits)
  show ?thesis by (intro exI [of _ req] exI [of _ m] conjI allI req m url dl) (simp add: good)
qed


subsection \<open>Two deployments\<close>

text \<open>
  An agency's proxy whose owning service is another deployment's \<open>FileHandler\<close>: the owner's
  routes, called as the machine client \<open>c\<close>, answer the agency's outbound calls. A served answer
  is decoded into the fields it was written from, a refusal becomes the call's error.
\<close>

definition no_meta :: file_meta where
  "no_meta = \<lparr>fm_key = [], fm_name = [], fm_upload_url = [], fm_size = 0, fm_mime = []\<rparr>"

definition no_download :: file_download where
  "no_download = \<lparr>fd_url = [], fd_expires = 0, fd_extension = [], fd_mime = [], fd_disposition = []\<rparr>"

fun remote_upload :: "upload_response served \<times> 'w \<Rightarrow> (remote_error option \<times> remote_answer) \<times> 'w" where
  "remote_upload (Served u, w) =
     ((None, \<lparr>ra_meta = \<lparr>fm_key = up_key u, fm_name = up_name u, fm_upload_url = up_upload_url u, fm_size = up_size u, fm_mime = up_mime u\<rparr>,
        ra_download = no_download, ra_error = []\<rparr>), w)"
| "remote_upload (Refused r, w) =
     ((Some (RemoteStatus (rp_status r) (rp_text r)), \<lparr>ra_meta = no_meta, ra_download = no_download, ra_error = rp_text r\<rparr>), w)"

fun remote_download :: "file_download served \<times> 'w \<Rightarrow> (remote_error option \<times> remote_answer) \<times> 'w" where
  "remote_download (Served d, w) = ((None, \<lparr>ra_meta = no_meta, ra_download = d, ra_error = []\<rparr>), w)"
| "remote_download (Refused r, w) =
     ((Some (RemoteStatus (rp_status r) (rp_text r)), \<lparr>ra_meta = no_meta, ra_download = no_download, ra_error = rp_text r\<rparr>), w)"

definition served_by_owner :: "'w proxy_service \<Rightarrow> 'c access \<Rightarrow> int \<Rightarrow> nat \<Rightarrow> 'w file_handler \<Rightarrow> principal \<Rightarrow> bool" where
  "served_by_owner p owner now nonce h c \<longleftrightarrow>
     (\<forall>w b. ps_call p w \<lparr>rm_method = ''POST'', rm_path = pc_upload_path (ps_cfg p), rm_body = Some b\<rparr> =
        remote_upload (Upload owner now nonce h (Some c) (Doc b) w)) \<and>
     (\<forall>w ref. \<exists>t. ps_call p w \<lparr>rm_method = ''GET'', rm_path = keyPath (pc_download_path (ps_cfg p)) ref, rm_body = None\<rparr> =
        remote_download (Download owner t h (Some c) ref w))"

lemma owner_reserves:
  assumes "served_by_owner p owner now nonce h c" and "proxy_Upload p w filename nbytes mime = (Inr m, w')"
  obtains b u where "serveUpload owner now nonce (fh_uploads h) (Some c) b w = (Served u, w')" "fm_key m = up_key u" "fm_upload_url m = up_upload_url u"
proof -
  let ?b = "JObj [(''filename'', JStr filename), (''mime_type'', JStr mime), (''size'', JNum (of_int nbytes))]"
  obtain s v where s: "Upload owner now nonce h (Some c) (Doc ?b) w = (s, v)"
    by (cases "Upload owner now nonce h (Some c) (Doc ?b) w")
  have "ps_call p w \<lparr>rm_method = ''POST'', rm_path = pc_upload_path (ps_cfg p), rm_body = Some ?b\<rparr> = remote_upload (s, v)"
    using assms(1) s by (simp add: served_by_owner_def)
  with assms(2) obtain u where "s = Served u" "v = w'" "fm_key m = up_key u" "fm_upload_url m = up_upload_url u"
    by (cases s) (auto simp: proxy_Upload_def reserve_def Let_def split: if_splits)
  with s that [of "Doc ?b" u] show ?thesis by (simp add: Upload_def)
qed

text \<open>A file a user uploads through an agency reaches a reader of the agency and nobody else. What
  the agency stores once the user submits the reference is the owner's reference, which at the
  owner only the agency's client can use; a reference the agency issues for it downloads, for its
  holder alone, with read scope and within its lifetime, exactly what the owner's service gives
  for the key reserved for that upload.\<close>

theorem proxied_file_reaches_reader:
  assumes "access_ok agency now" and "access_ok owner nowo" and "served_by_owner p owner nowo nonceo h c"
    and "pr_kind c \<noteq> KindUser" and "fh_svc ha = served_by_proxy p"
    and "serveUpload agency now nonce (\<lambda>q. limitTypes (Some q) (proxy_Upload p) (anyCaller types)) (Some u) b w = (Served resp, w')"
  shows "\<exists>stored (m :: file_meta). up_upload_url resp = fm_upload_url m \<and>
    (\<forall>t. Resolve_file agency t (Some u) (up_key resp) ScopeSubmit = Inr stored) \<and>
    (\<forall>t q. Resolve_file owner t q stored ScopeRead = (if holderOf q = holderOf (Some c) then Inr (fm_key m) else Inl NotYours)) \<and>
    (\<forall>now2 nonce2 r scopes ref t q v d v'. access_ok agency now2 \<longrightarrow> Issue agency now2 nonce2 (Some r) stored scopes = Inr ref \<longrightarrow>
       (Download agency t ha q ref v = (Served d, v') \<longleftrightarrow>
          q \<noteq> None \<and> holderOf q = holderOf (Some r) \<and> ScopeRead \<in> set scopes \<and>
          \<not> (\<exists>e. read_expiry agency now2 (pr_kind r = KindUser) scopes = Some e \<and> e \<le> t) \<and>
          downloadOf (fh_svc h) v (fm_key m) = (Inr d, v') \<and> fd_url d \<noteq> [] \<and> ps_absolute p (fd_url d)))"
proof -
  obtain req :: upload_request and m1 where up: "limitTypes (Some u) (proxy_Upload p) (anyCaller types) w (ur_filename req) (ur_size req) (ur_mime req) = (Inr m1, w')"
    and ref: "Issue agency now nonce (Some u) (fm_key m1) (UploadScopes (Some u)) = Inr (up_key resp)" and url: "up_upload_url resp = fm_upload_url m1"
    by (rule serveUpload_Served [OF assms(6)]) blast
  from up have "proxy_Upload p w (ur_filename req) (ur_size req) (ur_mime req) = (Inr m1, w')"
    by (auto simp: limitTypes_def split: if_splits)
  then obtain b' uo where uo: "serveUpload owner nowo nonceo (fh_uploads h) (Some c) b' w = (Served uo, w')" "fm_key m1 = up_key uo" "fm_upload_url m1 = up_upload_url uo"
    by (rule owner_reserves [OF assms(3)])
  obtain m :: file_meta where m: "Issue owner nowo nonceo (Some c) (fm_key m) (UploadScopes (Some c)) = Inr (up_key uo)" "up_upload_url uo = fm_upload_url m"
    by (rule serveUpload_Served [OF uo(1)]) blast
  note at_owner = issued_upload [OF assms(2) m(1)]
  have stored: "up_key uo \<noteq> []" using issued_not_empty [OF assms(2) m(1)] .
  have via: "proxy_fileDownload p v (up_key uo) = (Inr d, v') \<longleftrightarrow>
      downloadOf (fh_svc h) v (fm_key m) = (Inr d, v') \<and> fd_url d \<noteq> [] \<and> ps_absolute p (fd_url d)" for v d v'
  proof -
    obtain t where t: "ps_call p v \<lparr>rm_method = ''GET'', rm_path = keyPath (pc_download_path (ps_cfg p)) (up_key uo), rm_body = None\<rparr> =
        remote_download (Download owner t h (Some c) (up_key uo) v)"
      using assms(3) unfolding served_by_owner_def by blast
    obtain r v1 where r: "downloadOf (fh_svc h) v (fm_key m) = (r, v1)" by (cases "downloadOf (fh_svc h) v (fm_key m)")
    then have "Download owner t h (Some c) (up_key uo) v =
        (case r of Inl e \<Rightarrow> (Refused (writeServiceError e ''failed to generate access'' []), v1) | Inr d \<Rightarrow> (Served d, v1))"
      using assms(4) stored by (simp add: Download_def at_owner split: sum.splits)
    with t r show ?thesis by (cases r) (auto simp: proxy_fileDownload_def Let_def)
  qed
  have reader: "Download agency t ha q rf v = (Served d, v') \<longleftrightarrow>
          q \<noteq> None \<and> holderOf q = holderOf (Some r) \<and> ScopeRead \<in> set scopes \<and>
          \<not> (\<exists>e. read_expiry agency now2 (pr_kind r = KindUser) scopes = Some e \<and> e \<le> t) \<and>
          downloadOf (fh_svc h) v (fm_key m) = (Inr d, v') \<and> fd_url d \<noteq> [] \<and> ps_absolute p (fd_url d)"
    if "access_ok agency now2" "Issue agency now2 nonce2 (Some r) (up_key uo) scopes = Inr rf" for now2 nonce2 r scopes rf t q v d v'
  proof -
    have "rf \<noteq> []" using issued_not_empty [OF that] .
    moreover have "downloadOf (fh_svc ha) v (up_key uo) = proxy_fileDownload p v (up_key uo)"
      by (simp add: downloadOf_def assms(5) served_by_proxy_def)
    moreover obtain r1 v1 where "proxy_fileDownload p v (up_key uo) = (r1, v1)" by (cases "proxy_fileDownload p v (up_key uo)")
    ultimately show ?thesis using via [of v d v']
      by (cases r1) (auto simp: Download_def issued_reference [OF that] split: option.splits)
  qed
  have submits: "Resolve_file agency t (Some u) (up_key resp) ScopeSubmit = Inr (up_key uo)" for t
    by (simp add: issued_upload [OF assms(1) ref] uo(2))
  have owners: "Resolve_file owner t q (up_key uo) ScopeRead = (if holderOf q = holderOf (Some c) then Inr (fm_key m) else Inl NotYours)" for t q
    using assms(4) by (simp add: at_owner)
  have url_same: "up_upload_url resp = fm_upload_url m" using url uo(3) m(2) by simp
  show ?thesis
    by (intro exI [of _ "up_key uo"] exI [of _ m] conjI allI impI) (rule url_same submits owners | erule (1) reader)+
qed

subsection \<open>A concrete pair of deployments\<close>

text \<open>\<open>url.PathUnescape\<close>, with which the owner's router reads the key back.\<close>

definition hex_value :: "char \<Rightarrow> nat" where
  "hex_value c = (let n = of_char c in if n < 58 then n - 48 else n - 55)"

fun PathUnescape :: "string \<Rightarrow> string" where
  "PathUnescape (a # b # c # s) =
     (if a = CHR ''%'' then char_of (16 * hex_value b + hex_value c) # PathUnescape s else a # PathUnescape (b # c # s))"
| "PathUnescape s = s"

lemma PathUnescape_byte: "a \<noteq> CHR ''%'' \<Longrightarrow> PathUnescape (a # s) = a # PathUnescape s"
  by (cases "a # s" rule: PathUnescape.cases) auto

lemma hex_value_digit: "d < 16 \<Longrightarrow> hex_value (hex_digit d) = d"
  by (auto simp: hex_value_def hex_digit_def Let_def)

lemma PathUnescape_PathEscape: "PathUnescape (PathEscape s) = s"
proof (induction s)
  case (Cons c s)
  have b: "(of_char c :: nat) < 256" by simp
  then have "of_char c div 16 < (16 :: nat)" by (simp add: less_mult_imp_div_less)
  moreover have "16 * (of_char c div 16) + of_char c mod 16 = (of_char c :: nat)" by simp
  moreover have "segment_byte c \<Longrightarrow> c \<noteq> CHR ''%''" by (auto simp: segment_byte_def Let_def)
  ultimately show ?case using Cons
    by (cases "segment_byte c") (simp_all add: PathEscape_def PathUnescape_byte hex_value_digit)
qed (simp add: PathEscape_def)

definition demo_client :: principal where
  "demo_client = empty_principal\<lparr>pr_kind := KindClient, pr_client_id := ''fcau''\<rparr>"

definition demo_up :: "unit uploader" where
  "demo_up w filename nbytes mime =
     (Inr \<lparr>fm_key = ''k/invoice.pdf'', fm_name = filename, fm_upload_url = ''https://s3/put'', fm_size = nbytes, fm_mime = mime\<rparr>, w)"

definition demo_svc :: "unit file_service" where
  "demo_svc = \<lparr>sv_upload = demo_up,
     sv_url = (\<lambda>w key. (Inr \<lparr>dw_url = ''https://s3/'' @ key, dw_expires = 900, dw_type = ''application/pdf'', dw_disposition = []\<rparr>, w)),
     sv_describe = None\<rparr>"

definition demo_handler :: "unit file_handler" where
  "demo_handler = \<lparr>fh_svc = demo_svc, fh_uploads = (\<lambda>_. demo_up), fh_machine = (\<lambda>_. demo_up)\<rparr>"

definition demo_owner :: "unit access" where
  "demo_owner = demo_access (payload \<lparr>g_resource = ''k/invoice.pdf'', g_holder = ''c:fcau'', g_scopes = [ScopeRead, ScopeSubmit]\<rparr> 5 0)"

definition demo_proxy :: "unit proxy_service" where
  "demo_proxy = \<lparr>
     ps_call = (\<lambda>w r. case rm_body r of
        Some b \<Rightarrow> remote_upload (Upload demo_owner 5000000000 0 demo_handler (Some demo_client) (Doc b) w)
      | None \<Rightarrow> remote_download (Download demo_owner 6000000000 demo_handler (Some demo_client) (PathUnescape (drop 9 (rm_path r))) w)),
     ps_put = (\<lambda>w r. (FetchAnswer 200 [] [], w)),
     ps_get = (\<lambda>w u. (FetchAnswer 200 [] ''pdf'', w)),
     ps_absolute = has_prefix ''https://'', ps_quote = id,
     ps_cfg = \<lparr>pc_service = ''nsw'', pc_upload_path = ''/storage'', pc_internal_upload_path = ''/internal/storage'',
       pc_download_path = ''/storage/{key}'', pc_delete_path = ''/storage/{key}'', pc_allowed_types = [''application/pdf'']\<rparr>\<rparr>"

lemma demo_proxy_served: "served_by_owner demo_proxy demo_owner 5000000000 0 demo_handler demo_client"
proof -
  have "keyPath ''/storage/{key}'' k = ''/storage/'' @ PathEscape k" for k by (simp add: keyPath_def replace_all_def)
  then show ?thesis
    by (auto simp: served_by_owner_def demo_proxy_def PathUnescape_PathEscape)
qed

definition demo_body :: raw_message where
  "demo_body = Doc (JObj [(''filename'', JStr ''invoice.pdf''), (''mime_type'', JStr ''application/pdf''), (''size'', JNum 12)])"

lemma demo_uploaded:
  "serveUpload (demo_access (demo_grant_doc [ScopeSubmit] 0)) 5000000000 0 (\<lambda>_. demo_up) (Some demo_alice) demo_body () =
     (Served \<lparr>up_key = ''h.k.i.c.t.pdf'', up_name = ''invoice.pdf'', up_upload_url = ''https://s3/put'', up_size = 12, up_mime = ''application/pdf''\<rparr>, ())"
  by code_simp

lemma demo_parsed: "read_upload_request demo_body = Inr \<lparr>ur_filename = ''invoice.pdf'', ur_mime = ''application/pdf'', ur_size = 12\<rparr>"
  by code_simp

theorem uploaded_file_reference_witness:
  "Resolve_file (demo_access (demo_grant_doc [ScopeSubmit] 0)) 7000000000 (Some demo_alice) ''h.k.i.c.t.pdf'' ScopeSubmit = Inr ''k/invoice.pdf'' \<and>
   Download (demo_access (demo_grant_doc [ScopeSubmit] 0)) 7000000000 demo_handler (Some demo_alice) ''h.k.i.c.t.pdf'' () =
     (Refused (refused_reference ScopeDenied), ())"
proof -
  have k: "pr_kind demo_alice = KindUser" by (simp add: demo_alice_def)
  obtain req :: upload_request and m :: file_meta where req: "read_upload_request demo_body = Inr req"
    and m: "demo_up () (ur_filename req) (ur_size req) (ur_mime req) = (Inr m, ())"
    and r: "\<forall>now' q. Resolve_file (demo_access (demo_grant_doc [ScopeSubmit] 0)) now' q ''h.k.i.c.t.pdf'' ScopeSubmit =
       (if holderOf q = holderOf (Some demo_alice) then Inr (fm_key m) else Inl NotYours)"
    and d: "\<forall>now' (h :: unit file_handler) q v. Download (demo_access (demo_grant_doc [ScopeSubmit] 0)) now' h q ''h.k.i.c.t.pdf'' v =
       (case q of None \<Rightarrow> (Refused (reply 401 errAuthenticationReq), v)
        | Some c \<Rightarrow>
            if holderOf q \<noteq> holderOf (Some demo_alice) then (Refused (refused_reference AccessInvalid), v)
            else if pr_kind demo_alice = KindUser then (Refused (refused_reference ScopeDenied), v)
            else (case downloadOf (fh_svc h) v (fm_key m) of
                    (Inl e, v') \<Rightarrow> (Refused (writeServiceError e ''failed to generate access'' []), v')
                  | (Inr d, v') \<Rightarrow> (Served d, v')))"
    using uploaded_file_reference [OF demo_access_ok demo_uploaded] unfolding upload_response.simps
    by (elim exE conjE) (rule that)
  have "fm_key m = ''k/invoice.pdf''" using m by (auto simp: demo_up_def)
  then show ?thesis using r spec [OF spec [OF spec [OF spec [OF d]]], of 7000000000 demo_handler "Some demo_alice" "()"] k by simp
qed

definition demo_agency :: "unit access" where
  "demo_agency = demo_access (payload \<lparr>g_resource = ''h.k.i.c.t.pdf'', g_holder = ''u:alice'', g_scopes = [ScopeSubmit]\<rparr> 5 0)"

lemma demo_agency_uploaded:
  "serveUpload demo_agency 5000000000 0 (\<lambda>q. limitTypes (Some q) (proxy_Upload demo_proxy) (anyCaller [''application/pdf''])) (Some demo_alice) demo_body () =
     (Served \<lparr>up_key = ''h.k.i.c.t.pdf'', up_name = ''invoice.pdf'', up_upload_url = ''https://s3/put'', up_size = 12, up_mime = ''application/pdf''\<rparr>, ())"
  by code_simp

theorem proxied_file_reaches_reader_witness:
  "\<exists>stored (m :: file_meta). (\<forall>t. Resolve_file demo_agency t (Some demo_alice) ''h.k.i.c.t.pdf'' ScopeSubmit = Inr stored) \<and>
     Resolve_file demo_owner 7000000000 (Some demo_client) stored ScopeRead = Inr (fm_key m) \<and>
     Resolve_file demo_owner 7000000000 (Some demo_alice) stored ScopeRead = Inl NotYours"
proof -
  have ok: "access_ok demo_agency 5000000000" "access_ok demo_owner 5000000000"
    by (simp_all only: demo_agency_def demo_owner_def demo_access_ok)
  have c: "pr_kind demo_client \<noteq> KindUser" and h: "holderOf (Some demo_alice) \<noteq> holderOf (Some demo_client)" by code_simp+
  have "fh_svc \<lparr>fh_svc = served_by_proxy demo_proxy, fh_uploads = (\<lambda>_. demo_up), fh_machine = (\<lambda>_. demo_up)\<rparr> = served_by_proxy demo_proxy" by simp
  note p = proxied_file_reaches_reader [OF ok demo_proxy_served c this demo_agency_uploaded]
  show ?thesis
    by (rule exE [OF p], elim exE conjE, intro exI conjI) (assumption | simp add: h)+
qed

end
