(* ===== verification/Api_Calls.thy ===== *)
theory Api_Calls
  imports Plugin_Steps File_Routes
begin

text \<open>
  \<open>internal/tasks/plugins/api_call.go\<close>: the step that calls a service and records the outcome. What
  is sent and what the answer means is an interpreter's, here a record of its functions; the
  interfaces it may also implement are optional members. The call itself, the text \<open>fmt.Sprint\<close>
  makes of a value and the end of a step's context are parameters, and both the call and the
  recording of a dispatch act on a world \<open>'w\<close>. A header or query parameter list stands for its
  map. The record's data map is made by then, as the step relies on.
\<close>

subsection \<open>Interpreters\<close>

record part =
  pt_name :: string
  pt_file_name :: string
  pt_type :: string
  pt_content :: string

datatype call_body = NoBody | JsonBody json | Multipart "part list"

record api_request =
  aq_method :: string
  aq_path :: string
  aq_query :: "(string \<times> string list) list"
  aq_body :: call_body
  aq_headers :: "(string \<times> string) list"

text \<open>A body that could not be assembled, or a call that failed.\<close>

datatype call_error = BuildError string | CallError string

fun call_text :: "call_error \<Rightarrow> string" where
  "call_text (BuildError m) = m"
| "call_text (CallError m) = m"

type_synonym inputs = "(string \<times> json) list"

record 'w interpreter =
  ai_request :: "inputs \<Rightarrow> call_body"
  ai_parts :: "(inputs \<Rightarrow> string + part list) option"
  ai_headers :: "(inputs \<Rightarrow> (string \<times> string) list) option"
  ai_query :: "(inputs \<Rightarrow> (string \<times> string list) list) option"
  ai_interpret :: "call_error option \<Rightarrow> inputs option \<Rightarrow> bool \<times> (string \<times> json) list"
  ai_record :: "(string \<Rightarrow> string \<Rightarrow> string \<Rightarrow> (string \<times> json) list \<Rightarrow> 'w \<Rightarrow> bool \<times> 'w) option"

definition headersFor :: "'w interpreter \<Rightarrow> inputs \<Rightarrow> (string \<times> string) list" where
  "headersFor I inputs = (case ai_headers I of None \<Rightarrow> [] | Some build \<Rightarrow> build inputs)"

definition queryFor :: "'w interpreter \<Rightarrow> inputs \<Rightarrow> (string \<times> string list) list" where
  "queryFor I inputs = (case ai_query I of None \<Rightarrow> [] | Some build \<Rightarrow> build inputs)"

definition passthrough_request :: "inputs \<Rightarrow> call_body" where
  "passthrough_request inputs = JsonBody (case obj_get inputs ''payload'' of Some v \<Rightarrow> v | None \<Rightarrow> JObj inputs)"

definition passthrough_interpret :: "call_error option \<Rightarrow> inputs option \<Rightarrow> bool \<times> (string \<times> json) list" where
  "passthrough_interpret callErr resp =
     (case callErr of
        Some e \<Rightarrow> (False, [(''error'', JStr (call_text e))])
      | None \<Rightarrow> (True, case resp of Some r \<Rightarrow> [(''response'', JObj r)] | None \<Rightarrow> []))"

definition passthroughInterpreter :: "'w interpreter" where
  "passthroughInterpreter = \<lparr>ai_request = passthrough_request, ai_parts = None, ai_headers = None, ai_query = None,
     ai_interpret = passthrough_interpret, ai_record = None\<rparr>"

subsection \<open>Paths\<close>

definition sprint_input :: "(json \<Rightarrow> string) \<Rightarrow> inputs \<Rightarrow> string \<Rightarrow> string" where
  "sprint_input sprint inputs name =
     (case obj_get inputs name of None \<Rightarrow> [] | Some JNull \<Rightarrow> [] | Some (JStr s) \<Rightarrow> s | Some v \<Rightarrow> sprint v)"

text \<open>The filled path with the names that have no input.\<close>

function expand_from :: "(json \<Rightarrow> string) \<Rightarrow> inputs \<Rightarrow> string \<Rightarrow> string \<times> string list" where
  "expand_from sprint inputs rest =
     (let open_at = dropWhile (\<lambda>c. c \<noteq> CHR ''{'') rest; close_at = dropWhile (\<lambda>c. c \<noteq> CHR ''}'') open_at in
      if open_at = [] \<or> close_at = [] then (rest, [])
      else
        let name = tl (takeWhile (\<lambda>c. c \<noteq> CHR ''}'') open_at);
            value = sprint_input sprint inputs name;
            (more, missing) = expand_from sprint inputs (tl close_at)
        in (takeWhile (\<lambda>c. c \<noteq> CHR ''{'') rest @ (if value = [] then [] else PathEscape value) @ more,
            (if value = [] then [name] else []) @ missing))"
  by auto
termination
proof (relation "measure (\<lambda>(sprint, inputs, rest). length rest)", simp, goal_cases)
  case (1 sprint inputs rest)
  define a where "a = dropWhile (\<lambda>c. c \<noteq> CHR ''{'') rest"
  define b where "b = dropWhile (\<lambda>c. c \<noteq> CHR ''}'') a"
  have "length a \<le> length rest" "length b \<le> length a" by (simp_all add: a_def b_def length_dropWhile_le)
  moreover have "b \<noteq> []" using 1 by (simp add: a_def b_def)
  ultimately have "length (tl b) < length rest" by (cases b) auto
  then show ?case using 1 by (simp add: a_def b_def)
qed

declare expand_from.simps [simp del]

definition expandPath :: "(json \<Rightarrow> string) \<Rightarrow> string \<Rightarrow> inputs \<Rightarrow> string list + string" where
  "expandPath sprint path inputs =
     (let (filled, missing) = expand_from sprint inputs path in if missing \<noteq> [] then Inl missing else Inr filled)"

subsection \<open>Recording an accepted call\<close>

text \<open>
  The first write and one more after each delay, until one succeeds or the step is cancelled;
  \<open>cancelled i\<close> is whether it is while the \<open>i\<close>-th delay runs. The result is whether it is recorded.
\<close>

fun record_retries :: "('w \<Rightarrow> bool \<times> 'w) \<Rightarrow> (nat \<Rightarrow> bool) \<Rightarrow> nat \<Rightarrow> nat \<Rightarrow> 'w \<Rightarrow> bool \<times> 'w" where
  "record_retries write cancelled i 0 w = (False, w)"
| "record_retries write cancelled i (Suc n) w =
     (if cancelled i then (False, w)
      else case write w of (True, w') \<Rightarrow> (True, w') | (False, w') \<Rightarrow> record_retries write cancelled (Suc i) n w')"

definition recordDispatch :: "('w \<Rightarrow> bool \<times> 'w) \<Rightarrow> (nat \<Rightarrow> bool) \<Rightarrow> nat \<Rightarrow> 'w \<Rightarrow> bool \<times> 'w" where
  "recordDispatch write cancelled backoff w =
     (case write w of (True, w') \<Rightarrow> (True, w') | (False, w') \<Rightarrow> record_retries write cancelled 0 backoff w')"

definition recordDispatchBackoff :: "int list" where
  "recordDispatchBackoff = [200000000, 1000000000, 3000000000]"

subsection \<open>The step\<close>

record apiCallConfig =
  pc_service_id :: string
  pc_path :: string
  pc_method :: string
  pc_result_field :: string
  pc_retain_state :: bool

definition decodeApiConfig :: "raw_message \<Rightarrow> apiCallConfig option" where
  "decodeApiConfig config =
     (case config of
        Doc v \<Rightarrow> decode_struct (\<lambda>kvs.
          case (decode_string (member kvs ''service_id''), decode_string (member kvs ''path''), decode_string (member kvs ''method''),
                decode_string (member kvs ''result_field''), decode_bool (member kvs ''retain_state'')) of
            (Some s, Some p, Some m, Some r, Some k) \<Rightarrow>
              Some \<lparr>pc_service_id = s, pc_path = p, pc_method = m, pc_result_field = r, pc_retain_state = k\<rparr>
          | _ \<Rightarrow> None) v
      | _ \<Rightarrow> None)"

record 'w api_env =
  av_interpreter :: "'w interpreter"
  av_call :: "'w \<Rightarrow> string \<Rightarrow> api_request \<Rightarrow> (string option \<times> inputs option) \<times> 'w"
  av_sprint :: "json \<Rightarrow> string"
  av_upper :: "string \<Rightarrow> string"
  av_cancelled :: "nat \<Rightarrow> bool"

datatype api_error = InvalidApiConfig | ServiceAndPathRequired | PathHasNoInput string "string list"

text \<open>The service's answer, or why there is none.\<close>

definition call_service ::
    "'w api_env \<Rightarrow> apiCallConfig \<Rightarrow> string \<Rightarrow> inputs \<Rightarrow> 'w \<Rightarrow> call_error option \<times> inputs option \<times> 'w" where
  "call_service E cfg path inputs w =
     (let I = av_interpreter E;
          make = (\<lambda>m query body. \<lparr>aq_method = m, aq_path = path, aq_query = query, aq_body = body, aq_headers = headersFor I inputs\<rparr>);
          call = (\<lambda>req. case av_call E w (pc_service_id cfg) req of ((err, resp), w') \<Rightarrow> (map_option CallError err, resp, w'))
      in case ai_parts I of
        Some build \<Rightarrow> (case build inputs of Inl m \<Rightarrow> (Some (BuildError m), None, w) | Inr parts \<Rightarrow> call (make ''POST'' [] (Multipart parts)))
      | None \<Rightarrow>
          let asked = av_upper E (trim_space (pc_method cfg)) in
          call (make (if asked = [] then ''POST'' else asked) (queryFor I inputs) (ai_request I inputs)))"

definition api_outcome :: "apiCallConfig \<Rightarrow> bool \<times> (string \<times> json) list \<Rightarrow> (string \<times> json) list" where
  "api_outcome cfg answer = (if pc_result_field cfg \<noteq> [] then obj_put (pc_result_field cfg) (JBool (fst answer)) (snd answer) else snd answer)"

definition Api_Execute ::
    "'w api_env \<Rightarrow> inputs \<Rightarrow> string \<Rightarrow> raw_message \<Rightarrow> plug_record \<Rightarrow> 'w \<Rightarrow> api_error step_end \<times> plug_record \<times> 'w" where
  "Api_Execute E inputs ns config rec w =
     (case decodeApiConfig config of
        None \<Rightarrow> (Failed (configError InvalidApiConfig), rec, w)
      | Some cfg \<Rightarrow>
          if pc_service_id cfg = [] \<or> pc_path cfg = [] then (Failed (configError ServiceAndPathRequired), rec, w)
          else case expandPath (av_sprint E) (pc_path cfg) inputs of
            Inl missing \<Rightarrow> (Failed (inputError (PathHasNoInput (pc_path cfg) missing)), rec, w)
          | Inr path \<Rightarrow>
              let rec1 = (if pc_retain_state cfg then rec else rec\<lparr>pl_state := ''QUEUED_EXTERNALLY''\<rparr>);
                  (callErr, resp, w1) = call_service E cfg path inputs w;
                  answer = ai_interpret (av_interpreter E) callErr resp;
                  out = api_outcome cfg answer;
                  rec2 = (if ns \<noteq> [] then put_data ns (JObj out) rec1 else rec1)
              in (Advanced, rec2,
                  if fst answer then (case ai_record (av_interpreter E) of
                      None \<Rightarrow> w1
                    | Some record_call \<Rightarrow>
                        snd (recordDispatch (record_call (pl_task rec) (pl_case rec) (pl_parent rec) out) (av_cancelled E) (length recordDispatchBackoff) w1))
                  else w1))"

subsection \<open>Paths keep their shape\<close>

lemma escaped_plain:
  assumes "c \<in> set ''/?#''"
  shows "c \<notin> set (PathEscape s)"
proof
  assume "c \<in> set (PathEscape s)"
  then obtain x where x: "segment_byte x \<and> c = x \<or> \<not> segment_byte x \<and> c \<in> {CHR ''%'', hex_digit (of_char x div 16), hex_digit (of_char x mod 16)}"
    by (auto simp: PathEscape_def split: if_splits)
  have "\<forall>c \<in> set ''/?#''. \<not> segment_byte c \<and> c \<noteq> CHR ''%''" by code_simp
  moreover have "\<forall>d \<in> set [0..<16]. \<forall>c \<in> set ''/?#''. hex_digit d \<noteq> c" by code_simp
  moreover have "(of_char x :: nat) div 16 < 16" "(of_char x :: nat) mod 16 < 16" by (simp_all add: less_mult_imp_div_less)
  ultimately show False using x assms by auto
qed

lemma count_escaped: "c \<in> set ''/?#'' \<Longrightarrow> count_list (PathEscape s) c = 0"
  using escaped_plain by (simp add: count_list_0_iff)

lemma count_split: "count_list rest c = count_list (takeWhile P rest) c + count_list (dropWhile P rest) c"
  by (metis count_list_append takeWhile_dropWhile_id)

lemma expand_from_count:
  assumes "c \<in> set ''/?#''"
  shows "count_list (fst (expand_from sprint inputs rest)) c \<le> count_list rest c"
proof (induction sprint inputs rest rule: expand_from.induct)
  case (1 sprint inputs rest)
  define a where "a = dropWhile (\<lambda>c. c \<noteq> CHR ''{'') rest"
  define b where "b = dropWhile (\<lambda>c. c \<noteq> CHR ''}'') a"
  show ?case
  proof (cases "a = [] \<or> b = []")
    case True
    then show ?thesis by (subst expand_from.simps) (simp add: a_def b_def Let_def)
  next
    case False
    define v where "v = sprint_input sprint inputs (tl (takeWhile (\<lambda>c. c \<noteq> CHR ''}'') a))"
    have ih: "count_list (fst (expand_from sprint inputs (tl b))) c \<le> count_list (tl b) c"
      using 1 False by (simp add: a_def b_def)
    have "fst (expand_from sprint inputs rest) =
        takeWhile (\<lambda>c. c \<noteq> CHR ''{'') rest @ (if v = [] then [] else PathEscape v) @ fst (expand_from sprint inputs (tl b))"
      unfolding expand_from.simps [of sprint inputs rest] Let_def a_def [symmetric] b_def [symmetric] v_def [symmetric]
      using False by (simp only: if_False split: prod.split) simp
    moreover have "count_list (tl b) c \<le> count_list b c" by (cases b) auto
    moreover have "count_list rest c = count_list (takeWhile (\<lambda>c. c \<noteq> CHR ''{'') rest) c + count_list a c"
      unfolding a_def by (rule count_split)
    moreover have "count_list b c \<le> count_list a c" unfolding b_def using count_split [of a c "\<lambda>c. c \<noteq> CHR ''}''"] by linarith
    ultimately show ?thesis using ih count_escaped [OF assms, of v] by simp
  qed
qed

subsection \<open>Recording\<close>

text \<open>What the writes do: each has an outcome, the first that succeeds is the last.\<close>

lemma record_retries_counts:
  "record_retries (\<lambda>n. (ok n, Suc n)) cancelled i b m = (r, n) \<Longrightarrow>
     m \<le> n \<and> n \<le> m + b \<and> (\<forall>k. m \<le> k \<and> k < n - 1 \<longrightarrow> \<not> ok k) \<and> (r \<longleftrightarrow> m < n \<and> ok (n - 1)) \<and>
     ((\<forall>j. \<not> cancelled j) \<longrightarrow> r \<or> n = m + b)"
proof (induction b arbitrary: i m)
  case (Suc b)
  show ?case
  proof (cases "cancelled i")
    case False
    show ?thesis
    proof (cases "ok m")
      case True
      with Suc.prems False show ?thesis by auto
    next
      case no: False
      with Suc.prems False have "record_retries (\<lambda>n. (ok n, Suc n)) cancelled (Suc i) b (Suc m) = (r, n)" by simp
      note ih = Suc.IH [OF this]
      have "\<not> ok k" if "m \<le> k" "k < n - 1" for k using ih no that by (cases "k = m") auto
      then show ?thesis using ih no by (cases "n = Suc m") auto
    qed
  qed (use Suc.prems in auto)
qed auto

subsection \<open>Properties\<close>

text \<open>An accepted call is recorded as soon as one of at most four writes succeeds: no write follows one
  that succeeded, the call counts as recorded exactly when the last did, and unless the step is
  cancelled it is given up only after all four failed.\<close>

theorem dispatch_recording_attempts:
  assumes "recordDispatch (\<lambda>n. (works n, Suc n)) cancelled (length recordDispatchBackoff) 0 = (recorded, n)"
  shows "1 \<le> n \<and> n \<le> 4 \<and> recorded = works (n - 1) \<and> \<not> list_ex works [0..<n - 1] \<and> (recorded \<or> n = 4 \<or> (\<exists>i. cancelled i))"
proof (cases "works 0")
  case True
  then show ?thesis using assms by (auto simp: recordDispatch_def)
next
  case False
  then have r: "record_retries (\<lambda>n. (works n, Suc n)) cancelled 0 3 1 = (recorded, n)"
    using assms by (simp add: recordDispatch_def recordDispatchBackoff_def eval_nat_numeral del: record_retries.simps)
  note c = record_retries_counts [OF r]
  have "\<not> works k" if "k < n - 1" for k using c False that by (cases k) auto
  then show ?thesis using c False by (cases "n = 1") (auto simp: list_ex_iff)
qed

text \<open>A value filled into a path stays in its segment: the path that is called has no more separators
  than the configured one.\<close>

theorem filled_path_keeps_segments:
  assumes "expandPath sprint path inputs = Inr filled"
  shows "list_all (\<lambda>c. count_list filled c \<le> count_list path c) ''/?#''"
  using expand_from_count [of _ sprint inputs path] assms
  by (auto simp: expandPath_def split: prod.splits if_splits)

text \<open>A call step fails only before it calls, and then for good with nothing changed; once it has
  called it advances, whatever came of the call, with the outcome in its namespace.\<close>

theorem call_step_advances:
  "(case Api_Execute E inputs ns config rec w of
      (Failed e, rec', w') \<Rightarrow> permanent e \<and> rec' = rec \<and> w' = w
    | (Suspended, _, _) \<Rightarrow> False
    | (Advanced, rec', w') \<Rightarrow>
        (case decodeApiConfig config of
           None \<Rightarrow> False
         | Some cfg \<Rightarrow> (case expandPath (av_sprint E) (pc_path cfg) inputs of
             Inl _ \<Rightarrow> False
           | Inr path \<Rightarrow> (case call_service E cfg path inputs w of (callErr, resp, w1) \<Rightarrow>
               let answer = ai_interpret (av_interpreter E) callErr resp in
               (ns = [] \<or> obj_get (pl_data rec') ns = Some (JObj (api_outcome cfg answer))) \<and>
               (fst answer \<or> w' = w1) \<and> pl_task rec' = pl_task rec))))"
  by (auto simp: Api_Execute_def Let_def split: option.split sum.split prod.split)

subsection \<open>Witnesses\<close>

theorem dispatch_recording_attempts_witness:
  "\<exists>n. recordDispatch (\<lambda>n. (n = 2, Suc n)) (\<lambda>_. False) (length recordDispatchBackoff) 0 = (True, n) \<and> n \<le> 4"
proof -
  have "recordDispatch (\<lambda>n. (n = 2, Suc n)) (\<lambda>_. False) (length recordDispatchBackoff) 0 = (True, 3)" by code_simp
  with dispatch_recording_attempts [OF this] show ?thesis by blast
qed

theorem filled_path_keeps_segments_witness:
  "\<exists>filled. expandPath (\<lambda>_. []) ''/orders/{slug}/gate-pass'' [(''slug'', JStr ''a/b?c'')] = Inr filled \<and> count_list filled CHR ''/'' \<le> 3"
proof -
  have f: "expandPath (\<lambda>_. []) ''/orders/{slug}/gate-pass'' [(''slug'', JStr ''a/b?c'')] = Inr ''/orders/a%2Fb%3Fc/gate-pass''" by code_simp
  with filled_path_keeps_segments [OF f] show ?thesis by simp
qed

end
