(* ===== verification/Cusdec_Payload.thy ===== *)
theory Cusdec_Payload
  imports Edge_Forms
begin

text \<open>
  \<open>asycuda/cusdec/submission_payload.go\<close>: the declaration the trader's form becomes, its items,
  costs, remittances and supporting documents, for a submission or for the verify that only asks
  Customs about it.
\<close>

subsection \<open>The declaration\<close>

record amount =
  am_value :: rat
  am_currency :: string

record measure =
  me_value :: rat
  me_unit :: string

record valuation =
  va_charge :: amount
  va_external_freight :: amount
  va_internal_freight :: amount
  va_insurance :: amount
  va_other :: amount
  va_deductions :: amount

record decl_party =
  dp_id :: string
  dp_name :: string
  dp_address :: string
  dp_country :: string

record base_segment =
  bs_type :: string
  bs_procedure :: string
  bs_mode :: string
  bs_office :: string
  bs_manifest :: string
  bs_importer :: decl_party
  bs_exporter :: decl_party
  bs_declarant :: string

record general_segment =
  gs_items :: nat
  gs_packages :: int
  gs_export_country :: string
  gs_destination :: string
  gs_first_destination :: string
  gs_vessel :: string
  gs_vessel_nationality :: string
  gs_voyage :: string
  gs_voyage_nationality :: string
  gs_delivery_terms :: string
  gs_delivery_place :: string
  gs_transport_mode :: string
  gs_discharge :: string
  gs_border_office :: string
  gs_valuation :: valuation
  gs_containerized :: bool
  gs_containers :: int
  gs_warehouse :: string
  gs_warehouse_delay :: int
  gs_deferred_payment :: string

record commodity =
  co_commercial :: string
  co_commercial1 :: string
  co_description :: string
  co_classification :: string
  co_gross :: measure
  co_net :: measure
  co_tariff :: measure

record goods_item =
  gi_sequence :: nat
  gi_value :: valuation
  gi_commodity :: commodity
  gi_extended :: string
  gi_national :: string
  gi_origin :: string
  gi_preference :: string
  gi_package :: measure
  gi_bol :: string
  gi_bol_split :: string
  gi_marks :: string

record remittance =
  re_bank :: string
  re_reference :: string
  re_terms :: string
  re_value :: amount

text \<open>\<open>sd_key\<close> is the storage key, which never reaches the wire.\<close>

record support_doc =
  sd_sequence :: nat
  sd_code :: string
  sd_base64 :: string
  sd_file_name :: string
  sd_item :: string
  sd_document :: string
  sd_date :: string
  sd_key :: string

record customs_declaration =
  de_submitter :: string
  de_nswid :: string
  de_base :: base_segment
  de_general :: general_segment
  de_items :: "goods_item list"
  de_remittances :: "remittance list"
  de_documents :: "support_doc list"

definition HasFile :: "support_doc \<Rightarrow> bool" where
  "HasFile d = (sd_key d \<noteq> [])"

datatype form_problem =
    EmptyForm
  | NoItems
  | ItemNotObject nat
  | DocumentsNotArray string
  | ScannedNotObject nat
  | ScannedIncomplete nat
  | MetaNotObject nat
  | MetaIncomplete nat

definition submitterChannel :: string where "submitterChannel = ''1''"
definition declarationModeElectronic :: string where "declarationModeElectronic = ''E''"
definition massUnit :: string where "massUnit = ''KG''"

subsection \<open>Costs\<close>

definition no_amount :: amount where "no_amount = \<lparr>am_value = 0, am_currency = []\<rparr>"

definition cost_section :: "(string \<times> json) list \<Rightarrow> string \<Rightarrow> amount" where
  "cost_section v key =
     (let s = Nested v key; val = form_number s ''amount'' in
      if val = 0 then no_amount else \<lparr>am_value = val, am_currency = Str s ''currencyCode''\<rparr>)"

definition invoiced :: "(string \<times> json) list \<Rightarrow> amount" where
  "invoiced invoice = \<lparr>am_value = form_number invoice ''amount'', am_currency = Str invoice ''currencyCode''\<rparr>"

definition buildDeclarationValuation :: "(string \<times> json) list \<Rightarrow> valuation" where
  "buildDeclarationValuation v =
     \<lparr>va_charge = invoiced (Nested v ''totalAmountInvoiced''), va_external_freight = cost_section v ''externalFreight'',
      va_internal_freight = cost_section v ''internalFreight'', va_insurance = cost_section v ''insurance'',
      va_other = cost_section v ''otherCosts'', va_deductions = cost_section v ''deductions''\<rparr>"

definition buildItemValuation :: "(string \<times> json) list \<Rightarrow> valuation" where
  "buildItemValuation v =
     \<lparr>va_charge = invoiced (Nested v ''invoiceAmount''), va_external_freight = no_amount, va_internal_freight = no_amount,
      va_insurance = no_amount, va_other = no_amount, va_deductions = no_amount\<rparr>"

definition buildRemittances :: "(string \<times> json) list \<Rightarrow> remittance list" where
  "buildRemittances financial =
     (let amount = form_number financial ''remittanceAmount'';
          r = \<lparr>re_bank = Str financial ''bankCode'', re_reference = Str financial ''bankReference'', re_terms = Str financial ''paymentTermsCode'',
               re_value = (if amount \<noteq> 0 then \<lparr>am_value = amount, am_currency = Str financial ''remittanceCurrencyCode''\<rparr> else no_amount)\<rparr>
      in if re_bank r = [] \<and> re_reference r = [] \<and> re_terms r = [] \<and> am_value (re_value r) = 0 then [] else [r])"

subsection \<open>Items\<close>

definition goods_item_of :: "nat \<Rightarrow> (string \<times> json) list \<Rightarrow> goods_item" where
  "goods_item_of n m =
     (let tarif = Nested m ''tarification''; goods = Nested m ''goodsDescription''; val = Nested m ''valuation'';
          pkg = Nested m ''packages''; supp = Nested tarif ''supplementaryUnit'' in
      \<lparr>gi_sequence = n, gi_value = buildItemValuation val,
       gi_commodity = \<lparr>co_commercial = Str goods ''commercialDescription'', co_commercial1 = Str goods ''commercialDescription1'',
         co_description = Str goods ''description'', co_classification = Str tarif ''hsCode'',
         co_gross = \<lparr>me_value = form_number val ''grossWeight'', me_unit = massUnit\<rparr>,
         co_net = \<lparr>me_value = form_number val ''netWeight'', me_unit = massUnit\<rparr>,
         co_tariff = \<lparr>me_value = form_number supp ''quantity'', me_unit = Str supp ''code''\<rparr>\<rparr>,
       gi_extended = Str tarif ''extendedProcedureCode'', gi_national = Str tarif ''nationalProcedureCode'',
       gi_origin = Str goods ''originCountryCode'', gi_preference = Str tarif ''preferenceCode'',
       gi_package = \<lparr>me_value = of_int (form_integer pkg ''quantity''), me_unit = Str pkg ''kindCode''\<rparr>,
       gi_bol = Str m ''bol'', gi_bol_split = Str m ''bolSplit'', gi_marks = Str m ''marksAndNumbers''\<rparr>)"

fun items_from :: "nat \<Rightarrow> json list \<Rightarrow> form_problem + goods_item list" where
  "items_from n [] = Inr []"
| "items_from n (JObj m # raw) = (case items_from (Suc n) raw of Inl e \<Rightarrow> Inl e | Inr items \<Rightarrow> Inr (goods_item_of n m # items))"
| "items_from n (_ # raw) = Inl (ItemNotObject n)"

definition buildItems :: "(string \<times> json) list \<Rightarrow> form_problem + goods_item list" where
  "buildItems form =
     (case obj_get form ''items'' of
        Some (JArr raw) \<Rightarrow> if raw = [] then Inl NoItems else items_from 1 raw
      | _ \<Rightarrow> Inl NoItems)"

subsection \<open>Supporting documents\<close>

definition supportDocList :: "(string \<times> json) list \<Rightarrow> string \<Rightarrow> form_problem + json list" where
  "supportDocList grp key =
     (case obj_get grp key of
        None \<Rightarrow> Inr []
      | Some (JArr entries) \<Rightarrow> Inr entries
      | Some _ \<Rightarrow> Inl (DocumentsNotArray key))"

text \<open>\<open>None\<close> is an entry to skip.\<close>

definition buildScannedDoc :: "bool \<Rightarrow> nat \<Rightarrow> json \<Rightarrow> form_problem + support_doc option" where
  "buildScannedDoc forVerify i entry =
     (case entry of
        JObj m \<Rightarrow>
          (let key = trim_space (Str m ''fileBase64''); code = Str m ''documentCode'' in
           if forVerify then Inr (Some \<lparr>sd_sequence = 0, sd_code = code, sd_base64 = [], sd_file_name = [], sd_item = [], sd_document = [], sd_date = [], sd_key = []\<rparr>)
           else if key = [] \<or> code = [] then Inl (ScannedIncomplete (i + 1))
           else Inr (Some \<lparr>sd_sequence = 0, sd_code = code, sd_base64 = key, sd_file_name = key, sd_item = [], sd_document = [], sd_date = [], sd_key = key\<rparr>))
      | _ \<Rightarrow> if forVerify then Inr None else Inl (ScannedNotObject (i + 1)))"

definition buildMetaDoc :: "bool \<Rightarrow> nat \<Rightarrow> json \<Rightarrow> form_problem + support_doc option" where
  "buildMetaDoc forVerify i entry =
     (case entry of
        JObj m \<Rightarrow>
          (let doc = \<lparr>sd_sequence = i + 1, sd_code = Str m ''documentCode'', sd_base64 = [], sd_file_name = [], sd_item = Str m ''itemSequence'',
                 sd_document = trim_space (Str m ''documentId''), sd_date = formatDMY (Str m ''dateAsString''), sd_key = []\<rparr> in
           if \<not> forVerify \<and> (sd_code doc = [] \<or> sd_item doc = [] \<or> sd_document doc = [] \<or> sd_date doc = []) then Inl (MetaIncomplete (i + 1))
           else Inr (Some doc))
      | _ \<Rightarrow> if forVerify then Inr None else Inl (MetaNotObject (i + 1)))"

fun docs_from :: "(nat \<Rightarrow> json \<Rightarrow> form_problem + support_doc option) \<Rightarrow> nat \<Rightarrow> json list \<Rightarrow> form_problem + support_doc list" where
  "docs_from build i [] = Inr []"
| "docs_from build i (entry # entries) =
     (case build i entry of
        Inl e \<Rightarrow> Inl e
      | Inr doc \<Rightarrow> (case docs_from build (Suc i) entries of
          Inl e \<Rightarrow> Inl e
        | Inr docs \<Rightarrow> Inr ((case doc of None \<Rightarrow> [] | Some d \<Rightarrow> [d]) @ docs)))"

text \<open>A list that cannot be read is empty for a verify.\<close>

definition listed :: "bool \<Rightarrow> form_problem + json list \<Rightarrow> form_problem + json list" where
  "listed forVerify entries = (case entries of Inl e \<Rightarrow> if forVerify then Inr [] else Inl e | Inr l \<Rightarrow> Inr l)"

definition buildSupportDocs :: "(string \<times> json) list \<Rightarrow> bool \<Rightarrow> form_problem + support_doc list" where
  "buildSupportDocs form forVerify =
     (let grp = Nested form ''supportingDocuments'' in
      if grp = [] then Inr []
      else case listed forVerify (supportDocList grp ''scannedDocuments'') of
        Inl e \<Rightarrow> Inl e
      | Inr scanned \<Rightarrow>
     (case listed forVerify (supportDocList grp ''metaDocuments'') of
        Inl e \<Rightarrow> Inl e
      | Inr meta \<Rightarrow>
     (case docs_from (buildScannedDoc forVerify) 0 scanned of
        Inl e \<Rightarrow> Inl e
      | Inr files \<Rightarrow>
     (case docs_from (buildMetaDoc forVerify) 0 meta of
        Inl e \<Rightarrow> Inl e
      | Inr refs \<Rightarrow> Inr (files @ refs)))))"

subsection \<open>The form\<close>

definition decl_party_of :: "(string \<times> json) list \<Rightarrow> decl_party" where
  "decl_party_of m = \<lparr>dp_id = Str m ''code'', dp_name = Str m ''name'', dp_address = Str m ''address'', dp_country = Str m ''countryCode''\<rparr>"

definition base_of :: "(string \<times> json) list \<Rightarrow> base_segment" where
  "base_of form =
     (let ident = Nested form ''identification''; traders = Nested form ''traders'' in
      \<lparr>bs_type = Str ident ''declarationType'', bs_procedure = Str ident ''generalProcedureCode'', bs_mode = declarationModeElectronic,
       bs_office = Str ident ''officeCode'', bs_manifest = Str ident ''manifestRegNumber'',
       bs_importer = decl_party_of (Nested traders ''consignee''), bs_exporter = decl_party_of (Nested traders ''exporter''),
       bs_declarant = Str (Nested traders ''declarant'') ''code''\<rparr>)"

definition general_of :: "(string \<times> json) list \<Rightarrow> nat \<Rightarrow> general_segment" where
  "general_of form items =
     (let general = Nested form ''generalInfo''; transport = Nested form ''transport'' in
      \<lparr>gs_items = items, gs_packages = form_integer (Nested form ''packages'') ''totalPackages'',
       gs_export_country = Str general ''exportCountryCode'', gs_destination = Str general ''destinationCountryCode'',
       gs_first_destination = Str general ''countryOfFirstDestination'', gs_vessel = Str transport ''vesselName'',
       gs_vessel_nationality = Str transport ''transportNationality'', gs_voyage = Str transport ''voyageNo'',
       gs_voyage_nationality = Str transport ''voyageNationality'', gs_delivery_terms = Str transport ''deliveryTermsCode'',
       gs_delivery_place = Str transport ''deliveryTermsPlace'', gs_transport_mode = Str transport ''modeOfTransport'',
       gs_discharge = Str transport ''placeOfDischargeCode'', gs_border_office = Str transport ''borderOfficeCode'',
       gs_valuation = buildDeclarationValuation (Nested form ''valuation''), gs_containerized = form_boolean transport ''containerized'',
       gs_containers = form_integer form ''containerCount'', gs_warehouse = Str transport ''warehouseCode'',
       gs_warehouse_delay = form_integer transport ''warehouseDelay'', gs_deferred_payment = Str (Nested form ''financial'') ''deferredPayment''\<rparr>)"

text \<open>\<open>identify\<close> is \<open>nswid.For\<close> on a declaration whose identifier is empty. A form is the object itself, empty when there is none.\<close>

definition buildDeclaration :: "(customs_declaration \<Rightarrow> string \<Rightarrow> string) \<Rightarrow> (string \<times> json) list \<Rightarrow> string \<Rightarrow> bool \<Rightarrow> form_problem + customs_declaration" where
  "buildDeclaration identify form previousEdgeID forVerify =
     (if form = [] then Inl EmptyForm
      else case buildItems form of
        Inl e \<Rightarrow> Inl e
      | Inr items \<Rightarrow>
     (case buildSupportDocs form forVerify of
        Inl e \<Rightarrow> Inl e
      | Inr docs \<Rightarrow>
          let sub = \<lparr>de_submitter = submitterChannel, de_nswid = [], de_base = base_of form, de_general = general_of form (length items),
                de_items = items, de_remittances = buildRemittances (Nested form ''financial''), de_documents = docs\<rparr> in
          Inr (sub\<lparr>de_nswid := identify sub previousEdgeID\<rparr>)))"

definition BuildPayload :: "(customs_declaration \<Rightarrow> string \<Rightarrow> string) \<Rightarrow> (string \<times> json) list \<Rightarrow> string \<Rightarrow> form_problem + customs_declaration" where
  "BuildPayload identify form previousEdgeID = buildDeclaration identify form previousEdgeID False"

subsection \<open>On the wire\<close>

definition text_fields :: "(string \<times> string) list \<Rightarrow> (string \<times> json) list" where
  "text_fields fs = map (\<lambda>(n, s). (n, JStr s)) fs"

definition filled_fields :: "(string \<times> string) list \<Rightarrow> (string \<times> json) list" where
  "filled_fields fs = text_fields (filter (\<lambda>(n, s). s \<noteq> []) fs)"

definition amount_json :: "amount \<Rightarrow> json" where
  "amount_json a = JObj ((''value'', JNum (am_value a)) # filled_fields [(''currencyID'', am_currency a)])"

definition measure_json :: "measure \<Rightarrow> json" where
  "measure_json m = JObj ((''value'', JNum (me_value m)) # filled_fields [(''unitCode'', me_unit m)])"

definition valuation_json :: "valuation \<Rightarrow> json" where
  "valuation_json v = JObj [(''chargeAmount'', amount_json (va_charge v)), (''externalFreight'', amount_json (va_external_freight v)),
     (''internalFreight'', amount_json (va_internal_freight v)), (''insurance'', amount_json (va_insurance v)),
     (''otherCost'', amount_json (va_other v)), (''deductions'', amount_json (va_deductions v))]"

definition party_json :: "decl_party \<Rightarrow> json" where
  "party_json p = JObj (text_fields [(''id'', dp_id p), (''name'', dp_name p), (''address'', dp_address p), (''countryCode'', dp_country p)])"

definition base_json :: "base_segment \<Rightarrow> json" where
  "base_json b = JObj (text_fields [(''declarationType'', bs_type b), (''declarationProcedure'', bs_procedure b), (''declarationMode'', bs_mode b),
       (''officeCode'', bs_office b), (''manifestRegNumber'', bs_manifest b)] @
     [(''importer'', party_json (bs_importer b)), (''exporter'', party_json (bs_exporter b)), (''declarantCode'', JStr (bs_declarant b))])"

definition general_json :: "general_segment \<Rightarrow> json" where
  "general_json g = JObj ([(''numberOfItems'', JNum (of_nat (gs_items g))), (''numberOfPackages'', JNum (of_int (gs_packages g)))] @
     text_fields [(''countryOfExportCode'', gs_export_country g), (''countryOfDestination'', gs_destination g),
       (''countryFirstDestination'', gs_first_destination g), (''transportVesselName'', gs_vessel g),
       (''transportVesselNameNationality'', gs_vessel_nationality g), (''transportVoyageName'', gs_voyage g),
       (''transportVoyageNameNationality'', gs_voyage_nationality g), (''deliveryTerms'', gs_delivery_terms g),
       (''deliveryTermsPlace'', gs_delivery_place g), (''modeOfTransportAtBorder'', gs_transport_mode g),
       (''placeOfDischarge'', gs_discharge g), (''borderOffice'', gs_border_office g)] @
     [(''totalCustomsValuation'', valuation_json (gs_valuation g)), (''containerFlag'', JBool (gs_containerized g)),
      (''numberOfContainers'', JNum (of_int (gs_containers g))), (''warehouseCode'', JStr (gs_warehouse g)),
      (''warehouseDelay'', JNum (of_int (gs_warehouse_delay g))), (''deferredPayment'', JStr (gs_deferred_payment g))])"

definition commodity_json :: "commodity \<Rightarrow> json" where
  "commodity_json c = JObj (text_fields [(''commercialDescription'', co_commercial c), (''commercialDescription1'', co_commercial1 c),
       (''commodityDescription'', co_description c), (''classification'', co_classification c)] @
     [(''goodsMeasure'', JObj [(''grossMassMeasure'', measure_json (co_gross c)), (''netWeightMeasure'', measure_json (co_net c)),
        (''tariffQuantity'', measure_json (co_tariff c))])])"

definition item_json :: "goods_item \<Rightarrow> json" where
  "item_json g = JObj ([(''sequenceNumeric'', JNum (of_nat (gi_sequence g))), (''customsValue'', valuation_json (gi_value g)),
      (''commodity'', commodity_json (gi_commodity g)),
      (''governmentProcedure'', JObj (text_fields [(''extendedProcedure'', gi_extended g), (''nationalProcedure'', gi_national g)])),
      (''countryOfOriginCode'', JStr (gi_origin g)), (''goodsPreference'', JStr (gi_preference g)), (''itemPackage'', measure_json (gi_package g))] @
     text_fields [(''bol'', gi_bol g), (''bolSplit'', gi_bol_split g), (''marksAndNumbers'', gi_marks g)])"

definition remittance_json :: "remittance \<Rightarrow> json" where
  "remittance_json r = JObj (text_fields [(''bankCode'', re_bank r), (''reference'', re_reference r), (''termsOfPayment'', re_terms r)] @
     [(''remittanceValue'', amount_json (re_value r))])"

definition doc_json :: "support_doc \<Rightarrow> json" where
  "doc_json d = JObj ([(''sequenceNumber'', JNum (of_nat (sd_sequence d))), (''documentCode'', JStr (sd_code d))] @
     filled_fields [(''fileBase64'', sd_base64 d), (''fileName'', sd_file_name d), (''itemSequence'', sd_item d),
       (''documentId'', sd_document d), (''dateAsString'', sd_date d)])"

text \<open>A nil slice is null; the documents are left out when there are none.\<close>

definition slice_of :: "('a \<Rightarrow> json) \<Rightarrow> 'a list \<Rightarrow> json" where
  "slice_of f xs = (if xs = [] then JNull else JArr (map f xs))"

definition declaration_json :: "customs_declaration \<Rightarrow> json" where
  "declaration_json d = JObj ([(''properties'', JObj (text_fields [(''submitter'', de_submitter d), (''nswId'', de_nswid d)])),
      (''baseGeneralSegment'', base_json (de_base d)), (''generalSegment'', general_json (de_general d)),
      (''goodsShipments'', slice_of item_json (de_items d)), (''remittances'', slice_of remittance_json (de_remittances d))] @
     (if de_documents d = [] then [] else [(''supportingDocuments'', JArr (map doc_json (de_documents d)))]))"

text \<open>The zero value of a declaration.\<close>

definition no_valuation :: valuation where
  "no_valuation = \<lparr>va_charge = no_amount, va_external_freight = no_amount, va_internal_freight = no_amount, va_insurance = no_amount,
     va_other = no_amount, va_deductions = no_amount\<rparr>"

definition no_declaration :: customs_declaration where
  "no_declaration =
     (let nobody = \<lparr>dp_id = [], dp_name = [], dp_address = [], dp_country = []\<rparr> in
      \<lparr>de_submitter = [], de_nswid = [],
       de_base = \<lparr>bs_type = [], bs_procedure = [], bs_mode = [], bs_office = [], bs_manifest = [], bs_importer = nobody, bs_exporter = nobody,
         bs_declarant = []\<rparr>,
       de_general = \<lparr>gs_items = 0, gs_packages = 0, gs_export_country = [], gs_destination = [], gs_first_destination = [], gs_vessel = [],
         gs_vessel_nationality = [], gs_voyage = [], gs_voyage_nationality = [], gs_delivery_terms = [], gs_delivery_place = [],
         gs_transport_mode = [], gs_discharge = [], gs_border_office = [], gs_valuation = no_valuation, gs_containerized = False,
         gs_containers = 0, gs_warehouse = [], gs_warehouse_delay = 0, gs_deferred_payment = []\<rparr>,
       de_items = [], de_remittances = [], de_documents = []\<rparr>)"

subsection \<open>Numbering\<close>

lemma upt_from: "[n..<n + Suc k] = n # [Suc n..<Suc n + k]"
  by (simp add: upt_conv_Cons del: upt_Suc)

lemma listed_simps [simp]: "listed False e = e" "listed v (Inr l) = Inr l"
  by (simp_all add: listed_def split: sum.split)

lemma items_from_numbered: "items_from n raw = Inr items \<Longrightarrow> length items = length raw \<and> map gi_sequence items = [n..<n + length raw]"
proof (induction n raw arbitrary: items rule: items_from.induct)
  case (2 n m raw)
  then obtain rest where "items_from (Suc n) raw = Inr rest" "items = goods_item_of n m # rest" by (auto split: sum.splits)
  with 2 show ?case using upt_from [of n "length raw"] by (simp add: goods_item_of_def Let_def del: upt_Suc)
qed auto

lemma buildItems_numbered: "buildItems form = Inr items \<Longrightarrow> items \<noteq> [] \<and> map gi_sequence items = [1..<Suc (length items)]"
  using items_from_numbered [of 1] by (fastforce simp: buildItems_def split: option.splits json.splits if_splits)

definition attached :: "support_doc \<Rightarrow> bool" where
  "attached d = (sd_sequence d = 0 \<and> sd_key d \<noteq> [] \<and> sd_base64 d = sd_key d \<and> sd_file_name d = sd_key d)"

lemma scanned_docs:
  "docs_from (buildScannedDoc False) i entries = Inr docs \<Longrightarrow> length docs = length entries \<and> list_all attached docs"
proof (induction entries arbitrary: i docs)
  case (Cons entry entries)
  then show ?case by (cases entry) (auto simp: buildScannedDoc_def attached_def Let_def split: sum.splits if_splits)
qed auto

lemma built_meta_doc: "buildMetaDoc False i entry = Inr doc \<Longrightarrow> \<exists>d. doc = Some d \<and> sd_sequence d = Suc i \<and> sd_key d = []"
  by (cases entry) (auto simp: buildMetaDoc_def Let_def split: if_splits)

lemma meta_docs:
  "docs_from (buildMetaDoc False) i entries = Inr docs \<Longrightarrow>
     length docs = length entries \<and> map sd_sequence docs = [Suc i..<Suc i + length entries] \<and> list_all (\<lambda>d. \<not> HasFile d) docs"
proof (induction entries arbitrary: i docs)
  case (Cons entry entries)
  then obtain doc ds where d: "buildMetaDoc False i entry = Inr doc" "docs_from (buildMetaDoc False) (Suc i) entries = Inr ds"
      "docs = (case doc of None \<Rightarrow> [] | Some d \<Rightarrow> [d]) @ ds"
    by (auto split: sum.splits)
  obtain d where "doc = Some d" "sd_sequence d = Suc i" "sd_key d = []" using built_meta_doc [OF d(1)] by blast
  with d show ?case using Cons.IH [of "Suc i" ds] upt_from [of "Suc i" "length entries"] by (simp add: HasFile_def del: upt_Suc)
qed auto

lemma support_docs_built:
  assumes "buildSupportDocs form v = Inr docs" and "Nested form ''supportingDocuments'' \<noteq> []"
  obtains scanned met files refs where "listed v (supportDocList (Nested form ''supportingDocuments'') ''scannedDocuments'') = Inr scanned"
    "listed v (supportDocList (Nested form ''supportingDocuments'') ''metaDocuments'') = Inr met"
    "docs_from (buildScannedDoc v) 0 scanned = Inr files" "docs_from (buildMetaDoc v) 0 met = Inr refs" "docs = files @ refs"
proof -
  define a where "a = listed v (supportDocList (Nested form ''supportingDocuments'') ''scannedDocuments'')"
  define b where "b = listed v (supportDocList (Nested form ''supportingDocuments'') ''metaDocuments'')"
  show thesis using assms that unfolding a_def [symmetric] b_def [symmetric] buildSupportDocs_def Let_def
    by (cases a; cases b) (auto split: sum.splits)
qed

lemma submitted_docs:
  assumes "buildSupportDocs form False = Inr docs"
  obtains files refs where "docs = files @ refs" "list_all attached files" "list_all (\<lambda>d. \<not> HasFile d) refs" "map sd_sequence refs = [1..<Suc (length refs)]"
proof (cases "Nested form ''supportingDocuments'' = []")
  case True
  then show thesis using that [of "[]" "[]"] assms by (auto simp: buildSupportDocs_def Let_def)
next
  case False
  with assms obtain scanned met files refs where "docs_from (buildScannedDoc False) 0 scanned = Inr files"
    "docs_from (buildMetaDoc False) 0 met = Inr refs" "docs = files @ refs"
    by (elim support_docs_built)
  then show thesis using that [of files refs] scanned_docs meta_docs [of 0 met refs] by auto
qed

subsection \<open>Verifying\<close>

definition without_file :: "support_doc \<Rightarrow> support_doc" where
  "without_file d = d\<lparr>sd_base64 := [], sd_file_name := [], sd_key := []\<rparr>"

lemma scanned_verify: "buildScannedDoc False i entry = Inr d \<Longrightarrow> buildScannedDoc True i entry = Inr (map_option without_file d)"
  by (auto simp: buildScannedDoc_def without_file_def Let_def split: json.splits if_splits)

lemma meta_verify: "buildMetaDoc False i entry = Inr d \<Longrightarrow> buildMetaDoc True i entry = Inr (map_option without_file d)"
  by (auto simp: buildMetaDoc_def without_file_def Let_def split: json.splits if_splits)

lemma docs_verify:
  assumes "\<And>i entry d. build i entry = Inr d \<Longrightarrow> build' i entry = Inr (map_option without_file d)"
  shows "docs_from build i entries = Inr docs \<Longrightarrow> docs_from build' i entries = Inr (map without_file docs)"
  by (induction entries arbitrary: i docs) (auto dest!: assms split: sum.splits option.splits)

lemma docs_from_total: "(\<And>i entry. \<exists>d. build i entry = Inr d) \<Longrightarrow> \<exists>docs. docs_from build i entries = Inr docs"
proof (induction entries arbitrary: i)
  case (Cons entry entries)
  obtain d ds where "build i entry = Inr d" "docs_from build (Suc i) entries = Inr ds" using Cons by meson
  then show ?case by simp
qed auto

lemma verify_docs_total: "\<exists>docs. buildSupportDocs form True = Inr docs"
proof -
  have s: "\<exists>d. buildScannedDoc True i entry = Inr d" and m: "\<exists>d. buildMetaDoc True i entry = Inr d" for i entry
    by (cases entry; simp add: buildScannedDoc_def buildMetaDoc_def Let_def)+
  have "\<exists>l. listed True e = Inr l" for e by (cases e) (simp_all add: listed_def)
  then obtain scanned met where "listed True (supportDocList (Nested form ''supportingDocuments'') ''scannedDocuments'') = Inr scanned"
    "listed True (supportDocList (Nested form ''supportingDocuments'') ''metaDocuments'') = Inr met" by metis
  moreover obtain files where "docs_from (buildScannedDoc True) 0 scanned = Inr files"
    using docs_from_total [of "buildScannedDoc True", OF s] by blast
  moreover obtain refs where "docs_from (buildMetaDoc True) 0 met = Inr refs"
    using docs_from_total [of "buildMetaDoc True", OF m] by blast
  ultimately show ?thesis by (simp add: buildSupportDocs_def Let_def)
qed

lemma support_docs_verify:
  assumes "buildSupportDocs form False = Inr docs"
  shows "buildSupportDocs form True = Inr (map without_file docs)"
proof (cases "Nested form ''supportingDocuments'' = []")
  case False
  from assms False obtain scanned met files refs where d:
    "supportDocList (Nested form ''supportingDocuments'') ''scannedDocuments'' = Inr scanned"
    "supportDocList (Nested form ''supportingDocuments'') ''metaDocuments'' = Inr met"
    "docs_from (buildScannedDoc False) 0 scanned = Inr files" "docs_from (buildMetaDoc False) 0 met = Inr refs" "docs = files @ refs"
    by (rule support_docs_built) (simp only: listed_simps)
  have "docs_from (buildScannedDoc True) 0 scanned = Inr (map without_file files)" by (rule docs_verify [OF _ d(3)]) (rule scanned_verify)
  moreover have "docs_from (buildMetaDoc True) 0 met = Inr (map without_file refs)" by (rule docs_verify [OF _ d(4)]) (rule meta_verify)
  ultimately show ?thesis using d(1,2,5) False by (simp add: buildSupportDocs_def Let_def)
qed (use assms in \<open>auto simp: buildSupportDocs_def Let_def\<close>)

subsection \<open>Properties\<close>

text \<open>A declaration counts what it holds: its items are numbered from 1 in the form's order, as many
  as its general segment says; of its documents those with a file come first, each numbered 0 and
  named by its storage key, and the others follow numbered from 1.\<close>

theorem declaration_numbered:
  assumes "BuildPayload identify form previous = Inr sub"
  shows "gs_items (de_general sub) = length (de_items sub) \<and> de_items sub \<noteq> [] \<and>
    map gi_sequence (de_items sub) = [1..<Suc (length (de_items sub))] \<and>
    (let files = filter HasFile (de_documents sub); refs = filter (\<lambda>d. \<not> HasFile d) (de_documents sub) in
       de_documents sub = files @ refs \<and> list_all attached files \<and> map sd_sequence refs = [1..<Suc (length refs)])"
proof -
  obtain items docs where b: "buildItems form = Inr items" "buildSupportDocs form False = Inr docs"
    "de_items sub = items" "de_documents sub = docs" "gs_items (de_general sub) = length items"
    using assms by (auto simp: BuildPayload_def buildDeclaration_def general_of_def Let_def split: if_splits sum.splits)
  obtain files refs where d: "docs = files @ refs" "list_all attached files" "list_all (\<lambda>d. \<not> HasFile d) refs" "map sd_sequence refs = [1..<Suc (length refs)]"
    using b(2) by (rule submitted_docs)
  have "\<forall>x \<in> set files. HasFile x" using d(2) by (simp add: list_all_iff attached_def HasFile_def)
  then have f: "filter HasFile files = files" "filter (\<lambda>d. \<not> HasFile d) files = []" by simp_all
  have "filter HasFile refs = []" "filter (\<lambda>d. \<not> HasFile d) refs = refs" using d(3) by (simp_all add: list_all_iff)
  then show ?thesis using b buildItems_numbered [OF b(1)] d f by (simp add: Let_def)
qed

text \<open>C29: A verify asks about the declaration a submission would send: the same but for its identifier
  and the files of its documents; and when there is nothing to submit, only an empty form or
  unreadable items keep it from asking about the rest.\<close>

theorem verify_asks_what_is_sent:
  "(case BuildPayload identify form previous of
      Inr sub \<Rightarrow> (case buildDeclaration identify form previous True of
        Inr asked \<Rightarrow> de_documents asked = map without_file (de_documents sub) \<and>
          asked\<lparr>de_nswid := [], de_documents := []\<rparr> = sub\<lparr>de_nswid := [], de_documents := []\<rparr> \<and> \<not> list_ex HasFile (de_documents asked)
      | Inl e \<Rightarrow> False)
    | Inl e \<Rightarrow> is_ok (buildDeclaration identify form previous True) = (form \<noteq> [] \<and> is_ok (buildItems form)))"
proof (cases "BuildPayload identify form previous")
  case (Inl e)
  obtain docs where "buildSupportDocs form True = Inr docs" using verify_docs_total by blast
  then have "is_ok (buildDeclaration identify form previous True) = (form \<noteq> [] \<and> is_ok (buildItems form))"
    by (auto simp: buildDeclaration_def is_ok_def Let_def split: sum.split)
  with Inl show ?thesis by simp
next
  case (Inr sub)
  then obtain items docs where b: "form \<noteq> []" "buildItems form = Inr items" "buildSupportDocs form False = Inr docs" "de_documents sub = docs"
    by (auto simp: BuildPayload_def buildDeclaration_def Let_def split: if_splits sum.splits)
  have "\<not> list_ex HasFile (map without_file docs)" by (induction docs) (simp_all add: HasFile_def without_file_def)
  with Inr b support_docs_verify [OF b(3)] show ?thesis
    by (auto simp: BuildPayload_def buildDeclaration_def Let_def)
qed

text \<open>C30: Two declarations carry one identifier exactly when they are the same submission: the same
  content, after the same previous attempt.\<close>

theorem resent_declaration_same_id:
  assumes "BuildPayload (nswid_For marshal_json sha256) form previous = Inr a"
    and "BuildPayload (nswid_For marshal_json sha256) form' previous' = Inr b"
    and "marshal_json (a\<lparr>de_nswid := []\<rparr>) = Some x" and "marshal_json (b\<lparr>de_nswid := []\<rparr>) = Some y"
    and "x = y \<longrightarrow> a\<lparr>de_nswid := []\<rparr> = b\<lparr>de_nswid := []\<rparr>" and "CHR 0x00 \<notin> set x" and "CHR 0x00 \<notin> set y"
    and "sha256 (x @ [CHR 0x00] @ previous) = sha256 (y @ [CHR 0x00] @ previous') \<longrightarrow> x @ [CHR 0x00] @ previous = y @ [CHR 0x00] @ previous'"
  shows "de_nswid a = de_nswid b \<longleftrightarrow> a\<lparr>de_nswid := []\<rparr> = b\<lparr>de_nswid := []\<rparr> \<and> previous = previous'"
proof -
  have id: "de_nswid s = nswid_For marshal_json sha256 (s\<lparr>de_nswid := []\<rparr>) p"
    if "BuildPayload (nswid_For marshal_json sha256) f p = Inr s" for f p s
    using that by (auto simp: BuildPayload_def buildDeclaration_def Let_def split: if_splits sum.splits)
  show ?thesis unfolding id [OF assms(1)] id [OF assms(2)] using assms(3-8) by (rule nswid_For_eq)
qed

subsection \<open>Witnesses\<close>

definition demo_form :: "(string \<times> json) list" where
  "demo_form =
     [(''identification'', JObj [(''officeCode'', JStr '' CBEX1 '')]),
      (''items'', JArr [JObj [(''bol'', JStr ''B1'')], JObj []]),
      (''supportingDocuments'', JObj
        [(''scannedDocuments'', JArr [JObj [(''fileBase64'', JStr ''k/inv.pdf''), (''documentCode'', JStr ''INV'')]]),
         (''metaDocuments'', JArr [JObj [(''itemSequence'', JStr ''1''), (''documentCode'', JStr ''CO''), (''documentId'', JStr ''77''),
            (''dateAsString'', JStr ''2026-02-03'')]])])]"

definition demo_declaration :: "(customs_declaration \<Rightarrow> string \<Rightarrow> string) \<Rightarrow> string \<Rightarrow> form_problem + customs_declaration" where
  "demo_declaration identify previous = BuildPayload identify demo_form previous"

definition demo_marshal :: "customs_declaration \<Rightarrow> string option" where
  "demo_marshal d = Some (bs_office (de_base d))"

lemma demo_declared: "\<exists>sub. BuildPayload (nswid_For demo_marshal id) demo_form previous = Inr sub \<and> demo_marshal sub = Some ''CBEX1''"
proof -
  have "is_ok (buildItems demo_form)" "is_ok (buildSupportDocs demo_form False)" by code_simp+
  then obtain items docs where "buildItems demo_form = Inr items" "buildSupportDocs demo_form False = Inr docs" by (auto simp: is_ok_iff)
  moreover have "bs_office (base_of demo_form) = ''CBEX1''" by code_simp
  ultimately show ?thesis by (simp add: BuildPayload_def buildDeclaration_def demo_marshal_def Let_def demo_form_def)
qed

theorem declaration_numbered_witness:
  "\<exists>sub. BuildPayload (nswid_For demo_marshal id) demo_form [] = Inr sub \<and> gs_items (de_general sub) = length (de_items sub) \<and>
     map gi_sequence (de_items sub) = [1..<Suc (length (de_items sub))]"
proof -
  obtain sub where s: "BuildPayload (nswid_For demo_marshal id) demo_form [] = Inr sub" using demo_declared by blast
  with declaration_numbered [OF s] show ?thesis by blast
qed

theorem resent_declaration_same_id_witness:
  "\<exists>a b. BuildPayload (nswid_For demo_marshal id) demo_form [] = Inr a \<and> BuildPayload (nswid_For demo_marshal id) demo_form ''e1'' = Inr b \<and>
     de_nswid a \<noteq> de_nswid b"
proof -
  obtain a b where ab: "BuildPayload (nswid_For demo_marshal id) demo_form [] = Inr a" "BuildPayload (nswid_For demo_marshal id) demo_form ''e1'' = Inr b"
    "demo_marshal a = Some ''CBEX1''" "demo_marshal b = Some ''CBEX1''"
    using demo_declared by metis
  then have same: "a\<lparr>de_nswid := []\<rparr> = b\<lparr>de_nswid := []\<rparr>"
    by (auto simp: BuildPayload_def buildDeclaration_def Let_def split: if_splits sum.splits)
  have m: "demo_marshal (a\<lparr>de_nswid := []\<rparr>) = Some ''CBEX1''" "demo_marshal (b\<lparr>de_nswid := []\<rparr>) = Some ''CBEX1''"
    using ab by (simp_all add: demo_marshal_def)
  show ?thesis
    using ab resent_declaration_same_id [OF ab(1,2) m] same by (simp add: id_def)
qed

end
