(* ===== verification/Cdn_Payload.thy ===== *)
theory Cdn_Payload
  imports Edge_Forms
begin

text \<open>
  \<open>asycuda/cdn/submission_payload.go\<close>: the dispatch note the trader's form becomes, with the
  registered declarations it dispatches against, and its JSON. The parsing of a float is a
  parameter.
\<close>

record note_party =
  np_id :: string
  np_name :: string
  np_address :: string
  np_country :: string

record note_form =
  nf_submitter :: string
  nf_nswid :: string
  nf_office :: string
  nf_shipper :: note_party
  nf_consignee :: note_party
  nf_voyage :: string
  nf_voyage_date :: string
  nf_vessel :: string
  nf_vessel_op :: string
  nf_cont_op :: string
  nf_driver :: string
  nf_lorry :: string
  nf_trailer :: string
  nf_location :: string
  nf_loading :: string
  nf_discharge :: string
  nf_goods :: string
  nf_packages :: int
  nf_package_type :: string
  nf_gross_weight :: rat
  nf_volume :: rat
  nf_bol :: string
  nf_temperature :: rat
  nf_container :: string
  nf_container_type :: string
  nf_seal :: string
  nf_mark :: string
  nf_refs :: "doc_ref list"

datatype note_problem =
    NoteFormUnreadable
  | NoteNotLinked
  | NoteRefUnreadable
  | NoteRefInvalid string ref_error

text \<open>The message the trader reads; \<open>%q\<close> of a reference is a parameter.\<close>

definition ref_problem :: "(string \<Rightarrow> string) \<Rightarrow> string \<Rightarrow> ref_error \<Rightarrow> string" where
  "ref_problem quote s e =
     ''customs declaration reference '' @ quote s @
     (case e of NotFourParts \<Rightarrow> '' is not in the expected office/year/serial/number form''
      | NoNumber \<Rightarrow> '' does not end in a declaration number''
      | IncompleteRef \<Rightarrow> '' is incomplete'')"

definition note_problem_text :: "(string \<Rightarrow> string) \<Rightarrow> note_problem \<Rightarrow> string" where
  "note_problem_text quote p =
     (case p of
        NoteFormUnreadable \<Rightarrow> ''The dispatch note form could not be read.''
      | NoteNotLinked \<Rightarrow> ''This dispatch note is not linked to a registered customs declaration.''
      | NoteRefUnreadable \<Rightarrow> ''A customs declaration reference on this dispatch note could not be read.''
      | NoteRefInvalid s e \<Rightarrow> ''The '' @ ref_problem quote s e @ ''.'')"

definition ParseDocumentReference :: "string \<Rightarrow> note_problem + doc_ref" where
  "ParseDocumentReference s = (case ParseReference s of Inl e \<Rightarrow> Inl (NoteRefInvalid s e) | Inr r \<Rightarrow> Inr r)"

fun refs_of :: "(string \<Rightarrow> rat option) \<Rightarrow> json list \<Rightarrow> note_problem + doc_ref list" where
  "refs_of parse [] = Inr []"
| "refs_of parse (JStr s # entries) =
     (case ParseDocumentReference s of
        Inl e \<Rightarrow> Inl e
      | Inr r \<Rightarrow> (case refs_of parse entries of Inl e \<Rightarrow> Inl e | Inr rs \<Rightarrow> Inr (r # rs)))"
| "refs_of parse (JObj v # entries) =
     (case refs_of parse entries of
        Inl e \<Rightarrow> Inl e
      | Inr rs \<Rightarrow> Inr (\<lparr>dr_year = Str v ''year'', dr_office = Str v ''office'', dr_serial = Str v ''serial'',
          dr_number = note_integer parse v ''number''\<rparr> # rs))"
| "refs_of parse (_ # entries) = Inl NoteRefUnreadable"

definition buildCusDecRefs :: "(string \<Rightarrow> rat option) \<Rightarrow> (string \<times> json) list \<Rightarrow> note_problem + doc_ref list" where
  "buildCusDecRefs parse form =
     (let single = (if Str form ''cusdecRef'' \<noteq> []
          then (case ParseDocumentReference (Str form ''cusdecRef'') of Inl e \<Rightarrow> Inl e | Inr r \<Rightarrow> Inr [r])
          else Inl NoteNotLinked)
      in case obj_get form ''cusDecRefs'' of
        None \<Rightarrow> single
      | Some JNull \<Rightarrow> single
      | Some (JArr entries) \<Rightarrow> if entries = [] then Inl NoteNotLinked else refs_of parse entries
      | Some _ \<Rightarrow> Inl NoteNotLinked)"

definition note_party_of :: "(string \<times> json) list \<Rightarrow> note_party" where
  "note_party_of m = \<lparr>np_id = Str m ''id'', np_name = Str m ''name'', np_address = Str m ''address'', np_country = Str m ''countryCode''\<rparr>"

definition noteSubmitter :: string where "noteSubmitter = ''1''"

definition BuildPayload_note ::
    "(string \<Rightarrow> rat option) \<Rightarrow> (note_form \<Rightarrow> string \<Rightarrow> string) \<Rightarrow> (string \<times> json) list \<Rightarrow> string \<Rightarrow> note_problem + note_form" where
  "BuildPayload_note parse identify form previousEdgeID =
     (if form = [] then Inl NoteFormUnreadable
      else case buildCusDecRefs parse form of
        Inl e \<Rightarrow> Inl e
      | Inr refs \<Rightarrow>
          let transport = Nested form ''transport''; goods = Nested form ''goods''; container = Nested form ''container'';
              sub = \<lparr>nf_submitter = noteSubmitter, nf_nswid = [], nf_office = Str form ''officeCode'',
                nf_shipper = note_party_of (Nested form ''shipper''), nf_consignee = note_party_of (Nested form ''consignee''),
                nf_voyage = Str transport ''voyageNumber'', nf_voyage_date = Str transport ''voyageDate'', nf_vessel = Str transport ''vessel'',
                nf_vessel_op = Str transport ''vesselOpCode'', nf_cont_op = Str transport ''contOpCode'', nf_driver = Str transport ''driverName'',
                nf_lorry = Str transport ''lorryRegNo'', nf_trailer = Str transport ''trailerRegNo'', nf_location = Str transport ''locationOfGoods'',
                nf_loading = Str transport ''placeOfLoading'', nf_discharge = Str transport ''placeOfDischarge'',
                nf_goods = Str goods ''description'', nf_packages = note_integer parse goods ''packageNumber'',
                nf_package_type = Str goods ''packageType'', nf_gross_weight = note_number parse goods ''grossWeight'',
                nf_volume = note_number parse goods ''volume'', nf_bol = Str goods ''bol'', nf_temperature = note_number parse goods ''tempRequired'',
                nf_container = Str container ''number'', nf_container_type = Str container ''type'', nf_seal = Str container ''sealNo'',
                nf_mark = Str container ''mark'', nf_refs = refs\<rparr>
          in Inr (sub\<lparr>nf_nswid := identify sub previousEdgeID\<rparr>))"

subsection \<open>On the wire\<close>

definition strings_json :: "(string \<times> string) list \<Rightarrow> (string \<times> json) list" where
  "strings_json fs = map (\<lambda>(n, s). (n, JStr s)) fs"

definition note_party_json :: "note_party \<Rightarrow> json" where
  "note_party_json p = JObj (strings_json [(''id'', np_id p), (''name'', np_name p), (''address'', np_address p), (''countryCode'', np_country p)])"

definition ref_json :: "doc_ref \<Rightarrow> json" where
  "ref_json r = JObj (strings_json [(''year'', dr_year r), (''office'', dr_office r), (''serial'', dr_serial r)] @ [(''number'', JNum (of_int (dr_number r)))])"

definition nonzero_field :: "string \<Rightarrow> rat \<Rightarrow> (string \<times> json) list" where
  "nonzero_field n r = (if r = 0 then [] else [(n, JNum r)])"

definition note_json :: "note_form \<Rightarrow> json" where
  "note_json n = JObj ([(''properties'', JObj (strings_json [(''submitter'', nf_submitter n), (''nswId'', nf_nswid n)])), (''officeCode'', JStr (nf_office n)),
      (''shipper'', note_party_json (nf_shipper n)), (''consignee'', note_party_json (nf_consignee n))] @
     strings_json [(''voyageNumber'', nf_voyage n), (''voyageDateAsString'', nf_voyage_date n), (''vessel'', nf_vessel n),
       (''vesselOpCode'', nf_vessel_op n), (''contOpCode'', nf_cont_op n), (''driverName'', nf_driver n), (''lorryRegNo'', nf_lorry n),
       (''trailerRegNo'', nf_trailer n), (''locationOfGoods'', nf_location n), (''placeOfLoading'', nf_loading n),
       (''placeOfDischarge'', nf_discharge n), (''goodsDescription'', nf_goods n)] @
     [(''packageNumber'', JNum (of_int (nf_packages n))), (''packageType'', JStr (nf_package_type n)), (''grossWeight'', JNum (nf_gross_weight n))] @
     nonzero_field ''volume'' (nf_volume n) @ (if nf_bol n = [] then [] else [(''bol'', JStr (nf_bol n))]) @
     nonzero_field ''tempRequired'' (nf_temperature n) @
     strings_json [(''containerNumber'', nf_container n), (''containerType'', nf_container_type n), (''sealNo'', nf_seal n), (''containerMark'', nf_mark n)] @
     [(''cusDecRefs'', JArr (map ref_json (nf_refs n)))])"

subsection \<open>Properties\<close>

lemma refs_read_back: "list_all clean_ref rs \<Longrightarrow> refs_of parse (map (\<lambda>r. JStr (ref_String r)) rs) = Inr rs"
  by (induction rs) (simp_all add: ParseDocumentReference_def ref_text_reads_back(1))

text \<open>A dispatch note names the declarations it was made for: references in the form the integration
  result shows them, one or several, reach Customs as the registered references they stand for.\<close>

theorem note_names_its_declarations:
  assumes "list_all clean_ref rs" and "rs \<noteq> []" and "buildCusDecRefs parse form = refs"
    and "obj_get form ''cusDecRefs'' = Some (JArr (map (\<lambda>r. JStr (ref_String r)) rs)) \<or>
      obj_get form ''cusDecRefs'' = None \<and> tl rs = [] \<and> obj_get form ''cusdecRef'' = Some (JStr (ref_String (hd rs)))"
  shows "refs = Inr rs"
proof -
  obtain r rest where rs: "rs = r # rest" using assms(2) by (cases rs) auto
  show ?thesis using assms(4)
  proof
    assume "obj_get form ''cusDecRefs'' = Some (JArr (map (\<lambda>r. JStr (ref_String r)) rs))"
    then show ?thesis using assms(1-3) refs_read_back [of rs parse] by (auto simp: buildCusDecRefs_def Let_def)
  next
    assume "obj_get form ''cusDecRefs'' = None \<and> tl rs = [] \<and> obj_get form ''cusdecRef'' = Some (JStr (ref_String (hd rs)))"
    then show ?thesis
      using assms(1,3) rs ref_text_reads_back [of r] by (auto simp: buildCusDecRefs_def Let_def Str_def ParseDocumentReference_def)
  qed
qed

definition demo_registered :: doc_ref where
  "demo_registered = \<lparr>dr_year = ''2026'', dr_office = ''CBEX1'', dr_serial = ''E'', dr_number = 1047\<rparr>"

theorem note_names_its_declarations_witness:
  "buildCusDecRefs (\<lambda>_. None) [(''cusdecRef'', JStr (ref_String demo_registered))] = Inr [demo_registered]"
proof -
  have "clean_ref demo_registered" by code_simp
  then show ?thesis using note_names_its_declarations [of "[demo_registered]" "\<lambda>_. None"] by (simp add: obj_get_def)
qed

end
