(* ===== verification/Cusdec_Service.thy ===== *)
theory Cusdec_Service
  imports Edge_Text
begin

text \<open>
  \<open>external-integration/customs/asycuda/cusdec\<close>: the callbacks about a customs declaration.
  A service call reads the declaration once, may complete one task step, may start one flow and
  may write the declaration once. \<open>edge_env\<close> is what the outside answers during the call: the
  database's errors, the case's tasks, the engine's and the flow starter's errors. The state is
  the table, with the traces of the steps completed and of the flows started.
\<close>

subsection \<open>State and environment\<close>

record completion =
  cp_task :: string
  cp_step :: string
  cp_payload :: "(string \<times> json) list"

record flow_start =
  fs_case :: string
  fs_template :: string
  fs_workflow :: string
  fs_vars :: "(string \<times> json) list"

record 's edge_state =
  es_docs :: "'s doc_row list"
  es_completed :: "completion list"
  es_started :: "flow_start list"

record edge_env =
  ev_get :: "string option"
  ev_update :: "string option"
  ev_tasks :: tasks_of_case
  ev_complete :: "completion \<Rightarrow> string option"
  ev_wired :: bool
  ev_start :: "(flow_start \<Rightarrow> string option) option"
  ev_text :: go_text
  ev_digest :: "string \<Rightarrow> string"

text \<open>The engine completes a step, or fails: the trace holds the steps completed.\<close>

definition complete_step :: "edge_env \<Rightarrow> string \<Rightarrow> string \<Rightarrow> (string \<times> json) list \<Rightarrow> 's edge_state \<Rightarrow> (string + unit) \<times> 's edge_state" where
  "complete_step ev taskID stepID payload st =
     (let c = \<lparr>cp_task = taskID, cp_step = stepID, cp_payload = payload\<rparr> in
      case ev_complete ev c of
        Some e \<Rightarrow> (Inl e, st)
      | None \<Rightarrow> (Inr (), st\<lparr>es_completed := es_completed st @ [c]\<rparr>))"

definition update_doc :: "edge_env \<Rightarrow> 's doc_row \<Rightarrow> 's edge_state \<Rightarrow> (string + unit) \<times> 's edge_state" where
  "update_doc ev d st =
     (case ev_update ev of
        Some e \<Rightarrow> (Inl e, st)
      | None \<Rightarrow> (Inr (), st\<lparr>es_docs := Update_doc d (es_docs st)\<rparr>))"

definition start_case_flow :: "(flow_start \<Rightarrow> string option) \<Rightarrow> flow_start \<Rightarrow> 's edge_state \<Rightarrow> (string + unit) \<times> 's edge_state" where
  "start_case_flow starter f st =
     (case starter f of
        Some e \<Rightarrow> (Inl e, st)
      | None \<Rightarrow> (Inr (), st\<lparr>es_started := es_started st @ [f]\<rparr>))"

subsection \<open>Statuses\<close>

datatype cusdec_status = CusSubmitted | CusIntegrated | CusFailed | CusPaid | CusWarranted | CusReleased

fun eventStatusOrder :: "cusdec_status \<Rightarrow> nat" where
  "eventStatusOrder CusSubmitted = 1"
| "eventStatusOrder CusIntegrated = 2"
| "eventStatusOrder CusPaid = 3"
| "eventStatusOrder CusWarranted = 4"
| "eventStatusOrder CusReleased = 5"
| "eventStatusOrder CusFailed = 0"

definition hasReached :: "cusdec_status \<Rightarrow> cusdec_status \<Rightarrow> bool" where
  "hasReached s target = (eventStatusOrder s \<ge> eventStatusOrder target)"

datatype cusdec_error =
    GetDeclFailed string
  | ErrDeclarationNotRecorded
  | ErrDuplicateIntegrationResult
  | ErrWorkflowNotFoundByEdgeID
  | LocateFailed string
  | ErrTaskNotParked
  | CompleteStepFailed string string
  | UpdateDeclFailed string
  | ErrCusdecNotFoundByRef
  | UnsupportedEvent string
  | ErrDuplicateEvent
  | ErrCaseNotRecorded
  | NoCaseFlows
  | DecodeAmendedFailed
  | StartFlowFailed string

subsection \<open>Requests\<close>

record result_payload =
  rp_ref :: doc_ref
  rp_alt_ref :: doc_ref
  rp_edge_id :: string
  rp_integrated :: "bool option"
  rp_total :: "rat option"
  rp_paid :: "rat option"
  rp_payable :: "rat option"
  rp_duties :: duties
  rp_errors :: raw_message

text \<open>What \<open>encoding/json\<close> fills in the auxiliary struct of \<open>UnmarshalJSON\<close>; a zero time is \<open>None\<close>.\<close>

record 'p envelope =
  en_event :: string
  en_event_type :: string
  en_process_at :: "int option"
  en_processed_at :: "int option"
  en_payload :: 'p

record integration_request =
  ir_edge_id :: string
  ir_integrated :: bool
  ir_event :: string
  ir_process_at :: "int option"
  ir_payload :: result_payload
  ir_errors :: raw_message

definition merged_event :: "'p envelope \<Rightarrow> string" where
  "merged_event aux = (if en_event aux = [] \<and> en_event_type aux \<noteq> [] then en_event_type aux else en_event aux)"

definition merged_time :: "'p envelope \<Rightarrow> int option" where
  "merged_time aux = (if en_process_at aux = None \<and> en_processed_at aux \<noteq> None then en_processed_at aux else en_process_at aux)"

definition merged_ref :: "doc_ref \<Rightarrow> doc_ref \<Rightarrow> doc_ref" where
  "merged_ref ref alt = (if \<not> IsValid ref \<and> IsValid alt then alt else ref)"

definition unmarshal_result :: "result_payload envelope \<Rightarrow> integration_request" where
  "unmarshal_result aux =
     (let p = (en_payload aux)\<lparr>rp_ref := merged_ref (rp_ref (en_payload aux)) (rp_alt_ref (en_payload aux))\<rparr> in
      \<lparr>ir_edge_id = rp_edge_id p, ir_integrated = (case rp_integrated p of None \<Rightarrow> False | Some b \<Rightarrow> b),
       ir_event = merged_event aux, ir_process_at = merged_time aux, ir_payload = p, ir_errors = rp_errors p\<rparr>)"

datatype invalid = EdgeIdRequired | EventRequired | ProcessAtRequired | RefRequired | PayableRequired | TotalRequired | WrongEventType | DocumentRequired | OperationTimeRequired

definition Validate_result :: "integration_request \<Rightarrow> invalid + unit" where
  "Validate_result r =
     (if ir_edge_id r = [] then Inl EdgeIdRequired
      else if ir_event r = [] then Inl EventRequired
      else if ir_process_at r = None then Inl ProcessAtRequired
      else if ir_integrated r \<and> \<not> IsValid (rp_ref (ir_payload r)) then Inl RefRequired
      else if ir_integrated r \<and> rp_payable (ir_payload r) = None then Inl PayableRequired
      else if ir_integrated r \<and> rp_total (ir_payload r) = None then Inl TotalRequired
      else Inr ())"

record event_payload =
  ep_ref :: doc_ref
  ep_alt_ref :: doc_ref
  ep_amount_paid :: rat
  ep_currency :: string
  ep_bank_reference :: string
  ep_release_order_no :: string
  ep_examination_required :: bool
  ep_vessel_name :: string
  ep_voyage_no :: string
  ep_port_of_loading :: string

record event_request =
  er_event :: string
  er_process_at :: "int option"
  er_payload :: event_payload

definition unmarshal_event :: "event_payload envelope \<Rightarrow> event_request" where
  "unmarshal_event aux =
     \<lparr>er_event = merged_event aux, er_process_at = merged_time aux,
      er_payload = (en_payload aux)\<lparr>ep_ref := merged_ref (ep_ref (en_payload aux)) (ep_alt_ref (en_payload aux))\<rparr>\<rparr>"

definition Validate_event :: "event_request \<Rightarrow> invalid + unit" where
  "Validate_event r =
     (if er_event r = [] then Inl EventRequired
      else if er_process_at r = None then Inl ProcessAtRequired
      else if \<not> IsValid (ep_ref (er_payload r)) then Inl RefRequired
      else Inr ())"

record amended_request =
  am_event_type :: string
  am_processed_at :: "int option"
  am_ref :: doc_ref
  am_document :: raw_message
  am_duties :: duties
  am_operation_time :: string

abbreviation EventCusdecAmended :: string where "EventCusdecAmended \<equiv> ''CUSDEC_AMENDED''"
abbreviation EventCusdecCancelled :: string where "EventCusdecCancelled \<equiv> ''CUSDEC_CANCELLED''"

text \<open>\<open>c[0] == '{'\<close> of the trimmed document: it is an object.\<close>

definition is_object :: "raw_message \<Rightarrow> bool" where
  "is_object raw = (case raw of Doc (JObj _) \<Rightarrow> True | NotJson s \<Rightarrow> has_prefix ''{'' (trim_space s) | _ \<Rightarrow> False)"

definition Validate_amended :: "string \<Rightarrow> amended_request \<Rightarrow> invalid + unit" where
  "Validate_amended event r =
     (if am_event_type r \<noteq> event then Inl WrongEventType
      else if \<not> IsValid (am_ref r) then Inl RefRequired
      else if \<not> is_object (am_document r) then Inl DocumentRequired
      else if blank (am_operation_time r) then Inl OperationTimeRequired
      else Inr ())"

record cancelled_request =
  ca_event_type :: string
  ca_processed_at :: "int option"
  ca_ref :: doc_ref

definition Validate_cancelled :: "string \<Rightarrow> cancelled_request \<Rightarrow> invalid + unit" where
  "Validate_cancelled event r =
     (if ca_event_type r \<noteq> event then Inl WrongEventType
      else if ca_processed_at r = None then Inl ProcessAtRequired
      else if \<not> IsValid (ca_ref r) then Inl RefRequired
      else Inr ())"

subsection \<open>The integration result\<close>

abbreviation reviewTemplateID :: string where "reviewTemplateID \<equiv> ''customs-cusdec--external-review''"

definition amountToPay :: "result_payload \<Rightarrow> rat" where
  "amountToPay p = (case rp_payable p of None \<Rightarrow> 0 | Some a \<Rightarrow> a)"

definition reviewPayload :: "go_text \<Rightarrow> integration_request \<Rightarrow> (string \<times> json) list" where
  "reviewPayload gt req =
     (if ir_integrated req then
        [(''__command'', JStr ''submit''), (''review_outcome'', JStr ''approve''),
         (''cusdec_number'', JStr (ref_String (rp_ref (ir_payload req)))),
         (''amount_to_pay'', JNum (amountToPay (ir_payload req)))] @
        (case rp_total (ir_payload req) of None \<Rightarrow> [] | Some v \<Rightarrow> [(''total_assessed_amount'', JNum v)]) @
        (case rp_paid (ir_payload req) of None \<Rightarrow> [] | Some v \<Rightarrow> [(''amount_paid'', JNum v)]) @
        (case dutiesForTask (rp_duties (ir_payload req)) of None \<Rightarrow> [] | Some d \<Rightarrow> [(''duties'', d)])
      else
        [(''__command'', JStr ''submit''), (''review_outcome'', JStr ''needs_more_info''),
         (''rejection_reason'', JStr (describeErrors_cusdec gt (ir_errors req)))])"

definition findReviewTask :: "edge_env \<Rightarrow> cusdec_status doc_row \<Rightarrow> cusdec_error + (string \<times> string)" where
  "findReviewTask ev decl =
     (if d_workflow_id decl = [] then Inl ErrWorkflowNotFoundByEdgeID
      else case Find_parked (ev_tasks ev) (d_case_id decl) (d_workflow_id decl) reviewTemplateID of
        Inl e \<Rightarrow> Inl (LocateFailed e)
      | Inr None \<Rightarrow> Inl ErrTaskNotParked
      | Inr (Some task) \<Rightarrow> Inr task)"

definition recordIntegrationResult :: "edge_env \<Rightarrow> cusdec_status doc_row \<Rightarrow> integration_request \<Rightarrow> cusdec_status edge_state \<Rightarrow>
    (cusdec_error + unit) \<times> cusdec_status edge_state" where
  "recordIntegrationResult ev decl req st =
     (let decl' = (if ir_integrated req
          then decl\<lparr>d_status := CusIntegrated, d_ref := rp_ref (ir_payload req), d_errors := NoBytes\<rparr>
          else decl\<lparr>d_status := CusFailed, d_errors := ir_errors req\<rparr>)
      in case update_doc ev decl' st of
           (Inl e, st1) \<Rightarrow> (Inl (UpdateDeclFailed e), st1)
         | (Inr _, st1) \<Rightarrow> (Inr (), st1))"

definition ProcessIntegrationResult :: "edge_env \<Rightarrow> integration_request \<Rightarrow> cusdec_status edge_state \<Rightarrow>
    (cusdec_error + unit) \<times> cusdec_status edge_state" where
  "ProcessIntegrationResult ev req st =
     (case ev_get ev of Some e \<Rightarrow> (Inl (GetDeclFailed e), st)
      | None \<Rightarrow>
     (case GetByEdgeID (ir_edge_id req) (es_docs st) of
        None \<Rightarrow> (Inl ErrDeclarationNotRecorded, st)
      | Some decl \<Rightarrow>
          if d_status decl \<noteq> CusSubmitted then (Inl ErrDuplicateIntegrationResult, st)
          else case findReviewTask ev decl of
            Inl e \<Rightarrow> (Inl e, st)
          | Inr (taskID, stepID) \<Rightarrow>
              (case complete_step ev taskID stepID (reviewPayload (ev_text ev) req) st of
                 (Inl e, st1) \<Rightarrow> (Inl (CompleteStepFailed taskID e), st1)
               | (Inr _, st1) \<Rightarrow> recordIntegrationResult ev decl req st1)))"

subsection \<open>Events\<close>

definition event_plan :: "event_request \<Rightarrow> (string \<times> cusdec_status \<times> (string \<times> json) list) option" where
  "event_plan req =
     (let p = er_payload req in
      if er_event req = ''PAYMENT_CONFIRMED'' then Some (''customs-wait-payment'', CusPaid,
        [(''__command'', JStr ''submit''), (''payment_status'', JStr ''PAID''), (''amount_paid'', JNum (ep_amount_paid p)),
         (''currency'', JStr (ep_currency p)), (''bank_reference'', JStr (ep_bank_reference p))])
      else if er_event req = ''WARRANTING_COMPLETED'' then Some (''customs-wait-warranting'', CusWarranted,
        [(''__command'', JStr ''submit''), (''warranting_status'', JStr ''WARRANTED''), (''release_order_no'', JStr (ep_release_order_no p))])
      else if er_event req = ''EXPORT_RELEASED'' then Some (''customs-wait-export-release'', CusReleased,
        [(''__command'', JStr ''submit''), (''release_status'', JStr ''RELEASED''), (''vessel_name'', JStr (ep_vessel_name p)),
         (''voyage_no'', JStr (ep_voyage_no p)), (''port_of_loading'', JStr (ep_port_of_loading p))])
      else None)"

definition completeEventTaskAndMetadata :: "edge_env \<Rightarrow> cusdec_status doc_row \<Rightarrow> string \<Rightarrow> cusdec_status \<Rightarrow> (string \<times> json) list \<Rightarrow>
    cusdec_status edge_state \<Rightarrow> (cusdec_error + unit) \<times> cusdec_status edge_state" where
  "completeEventTaskAndMetadata ev decl templateID targetStatus payload st =
     (case FindInCase (ev_tasks ev) (d_case_id decl) templateID of
        Inl e \<Rightarrow> (Inl (LocateFailed e), st)
      | Inr None \<Rightarrow>
          if d_status decl = targetStatus then (Inr (), st)
          else (case update_doc ev (decl\<lparr>d_status := targetStatus\<rparr>) st of
                  (Inl e, st1) \<Rightarrow> (Inl (UpdateDeclFailed e), st1)
                | (Inr _, st1) \<Rightarrow> (Inr (), st1))
      | Inr (Some (taskID, stepID)) \<Rightarrow>
          (case complete_step ev taskID stepID payload st of
             (Inl e, st1) \<Rightarrow> (Inl (CompleteStepFailed taskID e), st1)
           | (Inr _, st1) \<Rightarrow>
               (case update_doc ev (decl\<lparr>d_status := targetStatus\<rparr>) st1 of
                  (Inl e, st2) \<Rightarrow> (Inl (UpdateDeclFailed e), st2)
                | (Inr _, st2) \<Rightarrow> (Inr (), st2))))"

definition ProcessEvent :: "edge_env \<Rightarrow> event_request \<Rightarrow> cusdec_status edge_state \<Rightarrow> (cusdec_error + unit) \<times> cusdec_status edge_state" where
  "ProcessEvent ev req st =
     (case ev_get ev of Some e \<Rightarrow> (Inl (GetDeclFailed e), st)
      | None \<Rightarrow>
     (case GetByRef (ep_ref (er_payload req)) (es_docs st) of
        None \<Rightarrow> (Inl ErrCusdecNotFoundByRef, st)
      | Some decl \<Rightarrow>
          (case event_plan req of
             None \<Rightarrow> (Inl (UnsupportedEvent (er_event req)), st)
           | Some (templateID, targetStatus, payload) \<Rightarrow>
               if hasReached (d_status decl) targetStatus then (Inl ErrDuplicateEvent, st)
               else completeEventTaskAndMetadata ev decl templateID targetStatus payload st)))"

subsection \<open>Amendment and cancellation\<close>

abbreviation AmendedFlowTemplateID :: string where "AmendedFlowTemplateID \<equiv> ''customs-cusdec-amended''"
abbreviation CancelledFlowTemplateID :: string where "CancelledFlowTemplateID \<equiv> ''customs-cusdec-cancelled''"

definition amendmentWorkflowID :: "(string \<Rightarrow> string) \<Rightarrow> string \<Rightarrow> doc_ref \<Rightarrow> string \<Rightarrow> string" where
  "amendmentWorkflowID digest caseID ref operationTime =
     notice_workflow_id digest caseID AmendedFlowTemplateID (ref_String ref @ [CHR 0x00] @ operationTime)"

definition cancellationWorkflowID :: "(string \<Rightarrow> string) \<Rightarrow> string \<Rightarrow> doc_ref \<Rightarrow> string" where
  "cancellationWorkflowID digest caseID ref = notice_workflow_id digest caseID CancelledFlowTemplateID (ref_String ref)"

text \<open>The document decoded into a \<open>map[string]any\<close>: null is the nil map.\<close>

definition decode_document :: "raw_message \<Rightarrow> json option" where
  "decode_document raw = (case raw of Doc (JObj kvs) \<Rightarrow> Some (JObj kvs) | Doc JNull \<Rightarrow> Some JNull | _ \<Rightarrow> None)"

definition ProcessAmendment :: "edge_env \<Rightarrow> amended_request \<Rightarrow> cusdec_status edge_state \<Rightarrow> (cusdec_error + unit) \<times> cusdec_status edge_state" where
  "ProcessAmendment ev req st =
     (case ev_get ev of Some e \<Rightarrow> (Inl (GetDeclFailed e), st)
      | None \<Rightarrow>
     (case GetByRef (am_ref req) (es_docs st) of
        None \<Rightarrow> (Inl ErrCusdecNotFoundByRef, st)
      | Some decl \<Rightarrow>
          if d_case_id decl = [] then (Inl ErrCaseNotRecorded, st)
          else case ev_start ev of
            None \<Rightarrow> (Inl NoCaseFlows, st)
          | Some starter \<Rightarrow>
              (case decode_document (am_document req) of
                 None \<Rightarrow> (Inl DecodeAmendedFailed, st)
               | Some doc \<Rightarrow>
                   (let operationTime = trim_space (am_operation_time req);
                        vars = [(''consignmentId'', JStr (d_case_id decl)), (''cusdec_number'', JStr (ref_String (am_ref req))),
                                (''amended_at'', JStr operationTime), (''cusdec'', doc)] @
                               (case dutiesForTask (am_duties req) of None \<Rightarrow> [] | Some d \<Rightarrow> [(''duties'', d)]);
                        f = \<lparr>fs_case = d_case_id decl, fs_template = AmendedFlowTemplateID,
                             fs_workflow = amendmentWorkflowID (ev_digest ev) (d_case_id decl) (am_ref req) operationTime, fs_vars = vars\<rparr>
                    in case start_case_flow starter f st of
                         (Inl e, st1) \<Rightarrow> (Inl (StartFlowFailed e), st1)
                       | (Inr _, st1) \<Rightarrow> (Inr (), st1)))))"

definition ProcessCancellation :: "edge_env \<Rightarrow> cancelled_request \<Rightarrow> cusdec_status edge_state \<Rightarrow> (cusdec_error + unit) \<times> cusdec_status edge_state" where
  "ProcessCancellation ev req st =
     (case ev_get ev of Some e \<Rightarrow> (Inl (GetDeclFailed e), st)
      | None \<Rightarrow>
     (case GetByRef (ca_ref req) (es_docs st) of
        None \<Rightarrow> (Inl ErrCusdecNotFoundByRef, st)
      | Some decl \<Rightarrow>
          if d_case_id decl = [] then (Inl ErrCaseNotRecorded, st)
          else case ev_start ev of
            None \<Rightarrow> (Inl NoCaseFlows, st)
          | Some starter \<Rightarrow>
              (let f = \<lparr>fs_case = d_case_id decl, fs_template = CancelledFlowTemplateID,
                        fs_workflow = cancellationWorkflowID (ev_digest ev) (d_case_id decl) (ca_ref req),
                        fs_vars = [(''consignmentId'', JStr (d_case_id decl)), (''cusdec_number'', JStr (ref_String (ca_ref req))),
                          (''cancelled_at'', JStr (case ca_processed_at req of None \<Rightarrow> ''0001-01-01T00:00:00Z'' | Some t \<Rightarrow> rfc3339 t))]\<rparr>
               in case start_case_flow starter f st of
                    (Inl e, st1) \<Rightarrow> (Inl (StartFlowFailed e), st1)
                  | (Inr _, st1) \<Rightarrow> (Inr (), st1))))"

subsection \<open>What a callback does to the table\<close>

lemmas [svc_defs] = ProcessIntegrationResult_def recordIntegrationResult_def ProcessEvent_def completeEventTaskAndMetadata_def
  ProcessAmendment_def ProcessCancellation_def complete_step_def update_doc_def start_case_flow_def

text \<open>
  A declaration moves by integration from SUBMITTED to INTEGRATED or FAILED, and by an event
  to a status of higher rank, never otherwise.
\<close>

definition status_moves :: "cusdec_status \<Rightarrow> cusdec_status \<Rightarrow> bool" where
  "status_moves s t \<longleftrightarrow> t = s \<or> s = CusSubmitted \<and> t \<in> {CusIntegrated, CusFailed} \<or>
     t \<in> {CusPaid, CusWarranted, CusReleased} \<and> eventStatusOrder s < eventStatusOrder t"

lemma status_moves_refl [simp]: "status_moves s s"
  by (simp add: status_moves_def)

abbreviation declaration_moves :: "cusdec_status doc_row \<Rightarrow> cusdec_status doc_row \<Rightarrow> bool" where
  "declaration_moves d d' \<equiv> status_moves (d_status d) (d_status d')"

lemma event_plan_target: "event_plan req = Some (t, s, p) \<Longrightarrow> s \<in> {CusPaid, CusWarranted, CusReleased}"
  by (auto simp: event_plan_def Let_def split: if_splits)

text \<open>The integration result, case by case.\<close>

lemma integration_effect:
  assumes ok: "table_ok (es_docs st)" and r: "ProcessIntegrationResult ev req st = (res, st')"
  shows "es_started st' = es_started st \<and>
    (case res of
       Inl e \<Rightarrow> es_docs st' = es_docs st \<and> (es_completed st' = es_completed st \<or> (\<exists>m c. e = UpdateDeclFailed m \<and> es_completed st' = es_completed st @ [c]))
     | Inr _ \<Rightarrow> (\<exists>decl task step. GetByEdgeID (ir_edge_id req) (es_docs st) = Some decl \<and> d_status decl = CusSubmitted \<and>
         Find_parked (ev_tasks ev) (d_case_id decl) (d_workflow_id decl) reviewTemplateID = Inr (Some (task, step)) \<and>
         es_completed st' = es_completed st @ [\<lparr>cp_task = task, cp_step = step, cp_payload = reviewPayload (ev_text ev) req\<rparr>] \<and>
         es_docs st' = Update_doc (decl\<lparr>d_status := (if ir_integrated req then CusIntegrated else CusFailed),
            d_ref := (if ir_integrated req then rp_ref (ir_payload req) else d_ref decl),
            d_errors := (if ir_integrated req then NoBytes else ir_errors req)\<rparr>) (es_docs st)))"
  using r
  by (auto simp: ProcessIntegrationResult_def recordIntegrationResult_def findReviewTask_def complete_step_def update_doc_def Let_def
      split: option.splits if_splits sum.splits prod.splits)

text \<open>The completion an event makes: of the parked task it finds in the case, or none.\<close>

definition event_completion :: "edge_env \<Rightarrow> string \<Rightarrow> string \<Rightarrow> (string \<times> json) list \<Rightarrow> completion list" where
  "event_completion ev caseID t p =
     (case FindInCase (ev_tasks ev) caseID t of
        Inr (Some (task, step)) \<Rightarrow> [\<lparr>cp_task = task, cp_step = step, cp_payload = p\<rparr>] | _ \<Rightarrow> [])"

lemma event_completion_simps [simp]:
  "FindInCase (ev_tasks ev) caseID t = Inr None \<Longrightarrow> event_completion ev caseID t p = []"
  "FindInCase (ev_tasks ev) caseID t = Inr (Some (task, step)) \<Longrightarrow>
     event_completion ev caseID t p = [\<lparr>cp_task = task, cp_step = step, cp_payload = p\<rparr>]"
  by (simp_all add: event_completion_def)

lemma event_effect:
  assumes r: "ProcessEvent ev req st = (res, st')"
  shows "es_started st' = es_started st \<and>
    (case res of
       Inl e \<Rightarrow> es_docs st' = es_docs st \<and> (es_completed st' = es_completed st \<or> (\<exists>m c. e = UpdateDeclFailed m \<and> es_completed st' = es_completed st @ [c]))
     | Inr _ \<Rightarrow> (\<exists>decl t s p. GetByRef (ep_ref (er_payload req)) (es_docs st) = Some decl \<and> event_plan req = Some (t, s, p) \<and>
         eventStatusOrder (d_status decl) < eventStatusOrder s \<and>
         es_docs st' = Update_doc (decl\<lparr>d_status := s\<rparr>) (es_docs st) \<and>
         es_completed st' = es_completed st @ event_completion ev (d_case_id decl) t p))"
  using r
  by (auto simp: ProcessEvent_def completeEventTaskAndMetadata_def complete_step_def update_doc_def hasReached_def Let_def
      split: option.splits if_splits sum.splits prod.splits)

lemma notices_effect:
  "ProcessAmendment ev areq st = (res, st') \<Longrightarrow> es_docs st' = es_docs st \<and> es_completed st' = es_completed st"
  "ProcessCancellation ev creq st = (res, st') \<Longrightarrow> es_docs st' = es_docs st \<and> es_completed st' = es_completed st"
  by (auto simp: ProcessAmendment_def ProcessCancellation_def start_case_flow_def Let_def
      split: option.splits if_splits sum.splits prod.splits)

subsection \<open>Histories\<close>

text \<open>
  Any callbacks in any order, each in its own environment, and submissions recorded by the
  dispatch step between them.
\<close>

inductive cusdec_step :: "cusdec_status edge_state \<Rightarrow> cusdec_status edge_state \<Rightarrow> bool" where
  cus_result: "ProcessIntegrationResult ev req st = (res, st') \<Longrightarrow> cusdec_step st st'"
| cus_event: "ProcessEvent ev ereq st = (res, st') \<Longrightarrow> cusdec_step st st'"
| cus_amended: "ProcessAmendment ev areq st = (res, st') \<Longrightarrow> cusdec_step st st'"
| cus_cancelled: "ProcessCancellation ev creq st = (res, st') \<Longrightarrow> cusdec_step st st'"
| cus_submitted: "uuid \<notin> d_id ` set (es_docs st) \<Longrightarrow>
    cusdec_step st (st\<lparr>es_docs := RecordSubmitted CusSubmitted uuid now edge c w (es_docs st)\<rparr>)"

definition status_path :: "cusdec_status \<Rightarrow> cusdec_status \<Rightarrow> bool" where
  "status_path s t = (status_moves s t \<or> s = CusSubmitted)"

lemma status_path_trans: "status_moves s t \<Longrightarrow> status_path t u \<Longrightarrow> status_path s u"
  by (cases s; cases t; cases u) (simp_all add: status_path_def status_moves_def)

lemma status_path_steps: "declaration_moves\<^sup>*\<^sup>* d d' \<Longrightarrow> status_path (d_status d) (d_status d')"
proof (induction rule: converse_rtranclp_induct)
  case base
  then show ?case by (simp add: status_path_def)
next
  case (step y z)
  then show ?case using status_path_trans by blast
qed

lemma event_moves:
  assumes ok: "table_ok (es_docs st)" and r: "ProcessEvent ev req st = (res, st')"
  shows "table_ok (es_docs st') \<and> rows_move declaration_moves (es_docs st) (es_docs st')"
proof (cases res)
  case (Inl e)
  then show ?thesis using event_effect [OF r] ok by (simp add: rows_move_refl)
next
  case (Inr u)
  then obtain decl t s p where d: "GetByRef (ep_ref (er_payload req)) (es_docs st) = Some decl" "event_plan req = Some (t, s, p)"
    "eventStatusOrder (d_status decl) < eventStatusOrder s" "es_docs st' = Update_doc (decl\<lparr>d_status := s\<rparr>) (es_docs st)"
    using event_effect [OF r] by auto
  have e: "GetByEdgeID (d_edge_id decl) (es_docs st) = Some decl" using doc.ref_edge [OF ok d(1)] by simp
  have "status_moves (d_status decl) s" using d(3) event_plan_target [OF d(2)] by (simp add: status_moves_def)
  with rows_move_update [OF ok e, where f = "d_ref decl" and r = "d_errors decl" and s = s and R = declaration_moves] show ?thesis
    using d(4) ok by (simp add: Update_doc_table_ok)
qed

lemma integration_moves:
  assumes ok: "table_ok (es_docs st)" and r: "ProcessIntegrationResult ev req st = (res, st')"
  shows "table_ok (es_docs st') \<and> rows_move declaration_moves (es_docs st) (es_docs st')"
proof (cases res)
  case (Inl e)
  then show ?thesis using integration_effect [OF ok r] ok by (simp add: rows_move_refl)
next
  case (Inr u)
  let ?s = "if ir_integrated req then CusIntegrated else CusFailed"
  let ?f = "\<lambda>decl. if ir_integrated req then rp_ref (ir_payload req) else d_ref decl"
  let ?m = "if ir_integrated req then NoBytes else ir_errors req"
  obtain decl where d: "GetByEdgeID (ir_edge_id req) (es_docs st) = Some decl" "d_status decl = CusSubmitted"
    "es_docs st' = Update_doc (decl\<lparr>d_status := ?s, d_ref := ?f decl, d_errors := ?m\<rparr>) (es_docs st)"
    using integration_effect [OF ok r] Inr by auto
  have "status_moves (d_status decl) ?s" using d(2) by (simp add: status_moves_def)
  with rows_move_update [OF ok d(1), where s = ?s and f = "?f decl" and r = ?m and R = declaration_moves] show ?thesis
    using d(3) ok by (simp add: Update_doc_table_ok)
qed

lemma cusdec_step_moves:
  assumes "cusdec_step st st'" and "table_ok (es_docs st)"
  shows "table_ok (es_docs st') \<and> rows_move declaration_moves (es_docs st) (es_docs st')"
  using assms
  by (cases rule: cusdec_step.cases)
    (auto dest: event_moves integration_moves notices_effect simp: rows_move_refl RecordSubmitted_ok rows_move_submitted)

lemma cusdec_steps_move:
  assumes "cusdec_step\<^sup>*\<^sup>* st st'" and "table_ok (es_docs st)" and "GetByEdgeID e (es_docs st) = Some d"
  shows "table_ok (es_docs st') \<and> (\<exists>d'. GetByEdgeID e (es_docs st') = Some d' \<and> d_case_id d' = d_case_id d \<and>
    d_workflow_id d' = d_workflow_id d \<and> status_path (d_status d) (d_status d'))"
proof -
  have m: "table_ok (es_docs st') \<and> rows_move declaration_moves\<^sup>*\<^sup>* (es_docs st) (es_docs st')"
    by (rule rows_move_steps [where step = cusdec_step and docs = es_docs, OF assms(1,2) cusdec_step_moves])
  then show ?thesis using rows_moveD [OF _ assms(3)] status_path_steps by blast
qed

subsection \<open>Properties\<close>

text \<open>
  C9: an integration result is applied once: applying it completes exactly the step of the
  review task its workflow parked and moves the declaration from SUBMITTED, and every later
  delivery of a result for the same edge ID, whatever it says and whatever the tasks are then,
  is a duplicate that changes nothing.
\<close>
theorem integration_result_once:
  assumes "table_ok (es_docs st)" and "ProcessIntegrationResult ev req st = (Inr (), st')"
    and "ir_edge_id req2 = ir_edge_id req" and "ev_get ev2 = None"
  shows "(\<exists>decl task step. GetByEdgeID (ir_edge_id req) (es_docs st) = Some decl \<and> d_status decl = CusSubmitted \<and>
      Find_parked (ev_tasks ev) (d_case_id decl) (d_workflow_id decl) reviewTemplateID = Inr (Some (task, step)) \<and>
      es_completed st' = es_completed st @ [\<lparr>cp_task = task, cp_step = step, cp_payload = reviewPayload (ev_text ev) req\<rparr>]) \<and>
    ProcessIntegrationResult ev2 req2 st' = (Inl ErrDuplicateIntegrationResult, st')"
proof -
  obtain decl task step where d: "GetByEdgeID (ir_edge_id req) (es_docs st) = Some decl" "d_status decl = CusSubmitted"
    "Find_parked (ev_tasks ev) (d_case_id decl) (d_workflow_id decl) reviewTemplateID = Inr (Some (task, step))"
    "es_completed st' = es_completed st @ [\<lparr>cp_task = task, cp_step = step, cp_payload = reviewPayload (ev_text ev) req\<rparr>]"
    "es_docs st' = Update_doc (decl\<lparr>d_status := (if ir_integrated req then CusIntegrated else CusFailed),
            d_ref := (if ir_integrated req then rp_ref (ir_payload req) else d_ref decl),
            d_errors := (if ir_integrated req then NoBytes else ir_errors req)\<rparr>) (es_docs st)"
    using integration_effect [OF assms(1,2)] by auto
  have "GetByEdgeID (ir_edge_id req2) (es_docs st') = Some (decl\<lparr>d_status := (if ir_integrated req then CusIntegrated else CusFailed),
            d_ref := (if ir_integrated req then rp_ref (ir_payload req) else d_ref decl),
            d_errors := (if ir_integrated req then NoBytes else ir_errors req)\<rparr>)"
    unfolding d(5) assms(3) using doc.upd_same [OF assms(1) d(1)] by blast
  then have "ProcessIntegrationResult ev2 req2 st' = (Inl ErrDuplicateIntegrationResult, st')"
    using assms(4) by (simp add: ProcessIntegrationResult_def)
  with d show ?thesis by blast
qed

text \<open>
  a failed delivery can be retried: whatever error an integration result or an event ends
  in, the table is as it was, and no step was completed unless it is the write after the
  completion that failed.
\<close>
theorem failed_callback_keeps_declarations:
  assumes "table_ok (es_docs st)"
    and "ProcessIntegrationResult ev req st = (Inl e, st') \<or> ProcessEvent ev ereq st = (Inl e, st')"
  shows "es_docs st' = es_docs st \<and> es_started st' = es_started st \<and>
    (es_completed st' = es_completed st \<or> (\<exists>m c. e = UpdateDeclFailed m \<and> es_completed st' = es_completed st @ [c]))"
  using assms(2)
proof
  assume "ProcessIntegrationResult ev req st = (Inl e, st')"
  from integration_effect [OF assms(1) this] show ?thesis by simp
next
  assume "ProcessEvent ev ereq st = (Inl e, st')"
  from event_effect [OF this] show ?thesis by simp
qed

text \<open>
  C10: over any history of submissions and callbacks a declaration keeps its case and workflow, and its status
  only moves on: from RELEASED it never leaves, from PAID or WARRANTED it only goes to a later
  event's status, and once past SUBMITTED it never comes back.
\<close>
theorem declaration_history:
  assumes "cusdec_step\<^sup>*\<^sup>* st st'" and "table_ok (es_docs st)" and "GetByEdgeID e (es_docs st) = Some d"
  shows "\<exists>d'. GetByEdgeID e (es_docs st') = Some d' \<and> d_case_id d' = d_case_id d \<and> d_workflow_id d' = d_workflow_id d \<and>
    (d_status d = CusReleased \<longrightarrow> d_status d' = CusReleased) \<and>
    (d_status d \<notin> {CusSubmitted, CusFailed} \<longrightarrow> eventStatusOrder (d_status d) \<le> eventStatusOrder (d_status d')) \<and>
    (d_status d \<noteq> CusSubmitted \<longrightarrow> d_status d' \<noteq> CusSubmitted \<and> (d_status d' = CusIntegrated \<longrightarrow> d_status d = CusIntegrated))"
proof -
  obtain d' where d': "GetByEdgeID e (es_docs st') = Some d'" "d_case_id d' = d_case_id d" "d_workflow_id d' = d_workflow_id d"
    "status_path (d_status d) (d_status d')"
    using cusdec_steps_move [OF assms] by blast
  show ?thesis
    using d' by (intro exI [of _ d']) (cases "d_status d"; cases "d_status d'"; simp add: status_path_def status_moves_def)
qed

text \<open>
  C11: an event that arrives before its step has parked is lost to the workflow: it succeeds
  without completing anything, and every later delivery of it is a duplicate, so the step that
  parks afterwards is never completed by it.
\<close>
theorem early_event_never_completes:
  assumes "table_ok (es_docs st)" and "ProcessEvent ev req st = (Inr (), st')"
    and "GetByRef (ep_ref (er_payload req)) (es_docs st) = Some decl" and "event_plan req = Some (t, s, p)"
    and "FindInCase (ev_tasks ev) (d_case_id decl) t = Inr None" and "ev_get ev2 = None"
  shows "es_completed st' = es_completed st \<and> ProcessEvent ev2 req st' = (Inl ErrDuplicateEvent, st')"
proof -
  have e: "es_docs st' = Update_doc (decl\<lparr>d_status := s\<rparr>) (es_docs st)" "es_completed st' = es_completed st @ event_completion ev (d_case_id decl) t p"
    using event_effect [OF assms(2)] assms(3,4) by auto
  have "GetByRef (ep_ref (er_payload req)) (es_docs st') = Some (decl\<lparr>d_status := s\<rparr>)"
    unfolding e(1) using doc.ref_keep [OF assms(1,3)] by blast
  then show ?thesis using e(2) assms(4-6) by (simp add: ProcessEvent_def hasReached_def)
qed

subsection \<open>Witnesses\<close>

definition demo_text :: go_text where
  "demo_text = \<lparr>gt_float = (\<lambda>_. ''1''), gt_value = (\<lambda>_. ''?''), gt_raw = (\<lambda>_. ''raw'')\<rparr>"

definition demo_env :: "task_record list \<Rightarrow> edge_env" where
  "demo_env tasks = \<lparr>ev_get = None, ev_update = None, ev_tasks = (\<lambda>c. Inr (if c = ''c1'' then tasks else [])),
     ev_complete = (\<lambda>_. None), ev_wired = True, ev_start = Some (\<lambda>_. None), ev_text = demo_text, ev_digest = (\<lambda>s. ''d'' @ s)\<rparr>"

definition demo_task :: "string \<Rightarrow> task_record" where
  "demo_task template = \<lparr>tr_task_id = ''t1'', tr_step_id = ''s1'', tr_parent_workflow_id = ''w1'', tr_template_id = template,
     tr_state = StateQueuedExternally\<rparr>"

definition demo_ref :: doc_ref where
  "demo_ref = \<lparr>dr_year = ''2026'', dr_office = ''CBC'', dr_serial = ''E'', dr_number = 12\<rparr>"

definition demo_decl :: "cusdec_status \<Rightarrow> doc_ref \<Rightarrow> cusdec_status doc_row" where
  "demo_decl s ref = \<lparr>d_id = ''id1'', d_edge_id = ''e1'', d_status = s, d_ref = ref, d_errors = NoBytes, d_case_id = ''c1'',
     d_workflow_id = ''w1'', d_created = 0\<rparr>"

definition demo_edge :: "cusdec_status \<Rightarrow> doc_ref \<Rightarrow> cusdec_status edge_state" where
  "demo_edge s ref = \<lparr>es_docs = [demo_decl s ref], es_completed = [], es_started = []\<rparr>"

definition demo_result :: integration_request where
  "demo_result = \<lparr>ir_edge_id = ''e1'', ir_integrated = True, ir_event = ''CUSDEC_INTEGRATED'', ir_process_at = Some 5,
     ir_payload = \<lparr>rp_ref = demo_ref, rp_alt_ref = no_ref, rp_edge_id = ''e1'', rp_integrated = Some True, rp_total = Some 10, rp_paid = None,
       rp_payable = Some 10, rp_duties = \<lparr>du_global = None, du_items = None\<rparr>, rp_errors = NoBytes\<rparr>, ir_errors = NoBytes\<rparr>"

definition demo_event :: event_request where
  "demo_event = \<lparr>er_event = ''PAYMENT_CONFIRMED'', er_process_at = Some 6, er_payload = \<lparr>ep_ref = demo_ref, ep_alt_ref = no_ref, ep_amount_paid = 10,
     ep_currency = ''LKR'', ep_bank_reference = ''b'', ep_release_order_no = [], ep_examination_required = False, ep_vessel_name = [],
     ep_voyage_no = [], ep_port_of_loading = []\<rparr>\<rparr>"

lemma demo_edge_ok: "table_ok (es_docs (demo_edge s ref))"
  by (simp add: table_ok_def demo_edge_def)

theorem integration_result_once_witness:
  "\<exists>st'. ProcessIntegrationResult (demo_env [demo_task reviewTemplateID]) demo_result (demo_edge CusSubmitted no_ref) = (Inr (), st') \<and>
     length (es_completed st') = 1 \<and> ProcessIntegrationResult (demo_env []) demo_result st' = (Inl ErrDuplicateIntegrationResult, st')"
proof -
  let ?r = "ProcessIntegrationResult (demo_env [demo_task reviewTemplateID]) demo_result (demo_edge CusSubmitted no_ref)"
  have "fst ?r = Inr ()" by code_simp
  then have r: "?r = (Inr (), snd ?r)" by (metis surjective_pairing)
  have "ev_get (demo_env []) = None" by (simp add: demo_env_def)
  from integration_result_once [OF demo_edge_ok r refl this] r show ?thesis by (fastforce simp: demo_edge_def)
qed

theorem failed_callback_keeps_declarations_witness:
  "\<exists>st'. ProcessIntegrationResult (demo_env []) demo_result (demo_edge CusSubmitted no_ref) = (Inl ErrTaskNotParked, st') \<and>
     es_docs st' = [demo_decl CusSubmitted no_ref]"
proof -
  let ?r = "ProcessIntegrationResult (demo_env []) demo_result (demo_edge CusSubmitted no_ref)"
  have "fst ?r = Inl ErrTaskNotParked" by code_simp
  then have r: "?r = (Inl ErrTaskNotParked, snd ?r)" by (metis surjective_pairing)
  from failed_callback_keeps_declarations [OF demo_edge_ok disjI1 [OF r]] r show ?thesis by (auto simp: demo_edge_def)
qed

theorem declaration_history_witness:
  "\<exists>d'. GetByEdgeID ''e1'' (es_docs (snd (ProcessEvent (demo_env []) demo_event (demo_edge CusReleased demo_ref)))) = Some d' \<and> d_status d' = CusReleased"
proof -
  have "cusdec_step (demo_edge CusReleased demo_ref) (snd (ProcessEvent (demo_env []) demo_event (demo_edge CusReleased demo_ref)))"
    by (rule cus_event) (rule surjective_pairing)
  then have "cusdec_step\<^sup>*\<^sup>* (demo_edge CusReleased demo_ref) (snd (ProcessEvent (demo_env []) demo_event (demo_edge CusReleased demo_ref)))" by blast
  moreover have "GetByEdgeID ''e1'' (es_docs (demo_edge CusReleased demo_ref)) = Some (demo_decl CusReleased demo_ref)" by code_simp
  moreover have "d_status (demo_decl CusReleased demo_ref) = CusReleased" by (simp add: demo_decl_def)
  ultimately show ?thesis using declaration_history [OF _ demo_edge_ok] by blast
qed

theorem early_event_never_completes_witness:
  "\<exists>st'. ProcessEvent (demo_env []) demo_event (demo_edge CusIntegrated demo_ref) = (Inr (), st') \<and> es_completed st' = [] \<and>
     ProcessEvent (demo_env [demo_task ''customs-wait-payment'']) demo_event st' = (Inl ErrDuplicateEvent, st')"
proof -
  let ?r = "ProcessEvent (demo_env []) demo_event (demo_edge CusIntegrated demo_ref)"
  have "fst ?r = Inr ()" by code_simp
  then have r: "?r = (Inr (), snd ?r)" by (metis surjective_pairing)
  obtain p where p: "event_plan demo_event = Some (''customs-wait-payment'', CusPaid, p)" by (simp add: event_plan_def demo_event_def Let_def)
  have g: "GetByRef (ep_ref (er_payload demo_event)) (es_docs (demo_edge CusIntegrated demo_ref)) = Some (demo_decl CusIntegrated demo_ref)"
    by code_simp
  have f: "FindInCase (ev_tasks (demo_env [])) (d_case_id (demo_decl CusIntegrated demo_ref)) ''customs-wait-payment'' = Inr None" by code_simp
  have "ev_get (demo_env [demo_task ''customs-wait-payment'']) = None" by (simp add: demo_env_def)
  from early_event_never_completes [OF demo_edge_ok r g p f this] r show ?thesis by (auto simp: demo_edge_def)
qed

end
