(* ===== verification/Cdn_Service.thy ===== *)
theory Cdn_Service
  imports Cusdec_Service
begin

text \<open>
  \<open>external-integration/customs/asycuda/cdn\<close>: the callbacks about a cargo dispatch note. The
  state, the environment and the table are those of \<open>Cusdec_Service\<close>, at the status type of a
  note. A callback first releases the task that waits for it and then records the note, so an
  error leaves the note as it was; a redelivery records nothing and releases a task still
  parked.
\<close>

subsection \<open>Notes\<close>

datatype note_status = NoteSubmitted | NoteIntegrated | NoteFailed | NoteAcknowledged | NoteCancelled

type_synonym dispatch_note = "note_status doc_row"
type_synonym note_state = "note_status edge_state"

datatype cdn_error =
    GetNoteFailed string
  | ErrDispatchNoteNotRecorded
  | ErrDispatchNoteNotFoundByEdgeID
  | ErrDispatchNoteNotFoundByCDNRef
  | LocateWaitFailed string
  | ErrWaitNotParked
  | CompleteWaitFailed string string
  | UpdateNoteFailed string
  | InvalidTransition note_status
  | ErrNoteCaseNotRecorded
  | NoNoteFlows
  | DecodeNoteFailed
  | StartNoteFlowFailed string

definition GetByCDNRef :: "doc_ref \<Rightarrow> dispatch_note list \<Rightarrow> dispatch_note option" where
  "GetByCDNRef ref notes = first_row (\<lambda>d. d_ref d = ref) notes"

definition RecordSubmitted_note :: "string \<Rightarrow> nat \<Rightarrow> string \<Rightarrow> string \<Rightarrow> string \<Rightarrow> dispatch_note list \<Rightarrow> dispatch_note list" where
  "RecordSubmitted_note uuid now edgeID caseID workflowID notes = RecordSubmitted NoteSubmitted uuid now edgeID caseID workflowID notes"

lemma GetByCDNRef_eq: "GetByCDNRef ref notes = GetByRef ref notes"
  by (simp add: GetByCDNRef_def GetByRef_def)

subsection \<open>Requests\<close>

record cdn_result_payload =
  cp_edge_id :: string
  cp_integrated :: bool
  cp_ref :: doc_ref
  cp_errors :: raw_message

record cdn_result =
  cr_event :: string
  cr_process_at :: "int option"
  cr_payload :: cdn_result_payload

definition unmarshal_cdn_result :: "cdn_result_payload envelope \<Rightarrow> cdn_result" where
  "unmarshal_cdn_result aux = \<lparr>cr_event = merged_event aux, cr_process_at = merged_time aux, cr_payload = en_payload aux\<rparr>"

definition Validate_cdn_result :: "cdn_result \<Rightarrow> invalid + unit" where
  "Validate_cdn_result r =
     (if cp_edge_id (cr_payload r) = [] then Inl EdgeIdRequired
      else if cr_event r = [] then Inl EventRequired
      else if cr_process_at r = None then Inl ProcessAtRequired
      else if cp_integrated (cr_payload r) \<and> \<not> IsValid (cp_ref (cr_payload r)) then Inl RefRequired
      else Inr ())"

record cdn_ack =
  ak_event :: string
  ak_process_at :: "int option"
  ak_ref :: doc_ref

definition unmarshal_cdn_ack :: "doc_ref envelope \<Rightarrow> cdn_ack" where
  "unmarshal_cdn_ack aux = \<lparr>ak_event = merged_event aux, ak_process_at = merged_time aux, ak_ref = en_payload aux\<rparr>"

definition Validate_cdn_ack :: "cdn_ack \<Rightarrow> invalid + unit" where
  "Validate_cdn_ack r =
     (if ak_event r = [] then Inl EventRequired
      else if ak_process_at r = None then Inl ProcessAtRequired
      else if \<not> IsValid (ak_ref r) then Inl RefRequired
      else Inr ())"

abbreviation EventCDNAmended :: string where "EventCDNAmended \<equiv> ''CDN_AMENDED''"
abbreviation EventCDNCancelled :: string where "EventCDNCancelled \<equiv> ''CDN_CANCELLED''"

record cdn_amended =
  na_event_type :: string
  na_processed_at :: "int option"
  na_ref :: doc_ref
  na_document :: raw_message
  na_operation_time :: string

definition Validate_cdn_amended :: "cdn_amended \<Rightarrow> invalid + unit" where
  "Validate_cdn_amended r =
     (if na_event_type r \<noteq> EventCDNAmended then Inl WrongEventType
      else if \<not> IsValid (na_ref r) then Inl RefRequired
      else if \<not> is_object (na_document r) then Inl DocumentRequired
      else if blank (na_operation_time r) then Inl OperationTimeRequired
      else Inr ())"

subsection \<open>Releasing a wait\<close>

abbreviation integrationWaitTemplateID :: string where "integrationWaitTemplateID \<equiv> ''customs-cdn--integration-wait''"
abbreviation acknowledgmentWaitTemplateID :: string where "acknowledgmentWaitTemplateID \<equiv> ''customs-wait-cdn-ack''"

definition formatCDNRef :: "doc_ref \<Rightarrow> string" where
  "formatCDNRef ref = dr_office ref @ ''/'' @ dr_year ref @ ''/'' @ dr_serial ref @ ''/'' @ show_int (dr_number ref)"

record wait_lookup =
  wl_note :: dispatch_note
  wl_template :: string
  wl_payload :: "(string \<times> json) list"

definition resumeWait :: "edge_env \<Rightarrow> wait_lookup \<Rightarrow> bool \<Rightarrow> note_state \<Rightarrow> (cdn_error + unit) \<times> note_state" where
  "resumeWait ev look alreadyProcessed st =
     (if \<not> ev_wired ev then (Inr (), st)
      else if d_workflow_id (wl_note look) = [] then
        (if alreadyProcessed then (Inr (), st) else (Inl ErrDispatchNoteNotFoundByEdgeID, st))
      else case Find_parked (ev_tasks ev) (d_case_id (wl_note look)) (d_workflow_id (wl_note look)) (wl_template look) of
        Inl e \<Rightarrow> (Inl (LocateWaitFailed e), st)
      | Inr None \<Rightarrow> (if alreadyProcessed then (Inr (), st) else (Inl ErrWaitNotParked, st))
      | Inr (Some (taskID, stepID)) \<Rightarrow>
          (case complete_step ev taskID stepID (wl_payload look) st of
             (Inl e, st1) \<Rightarrow> (Inl (CompleteWaitFailed taskID e), st1)
           | (Inr _, st1) \<Rightarrow> (Inr (), st1)))"

definition integration_payload :: "go_text \<Rightarrow> cdn_result \<Rightarrow> (string \<times> json) list" where
  "integration_payload gt req =
     [(''__command'', JStr ''submit''), (''integrated'', JBool (cp_integrated (cr_payload req)))] @
     (if cp_integrated (cr_payload req) then [(''cdn_number'', JStr (formatCDNRef (cp_ref (cr_payload req))))]
      else [(''error'', JStr (describeErrors_cdn gt (cp_errors (cr_payload req))))])"

definition resumeIntegrationWait :: "edge_env \<Rightarrow> dispatch_note \<Rightarrow> cdn_result \<Rightarrow> bool \<Rightarrow> note_state \<Rightarrow> (cdn_error + unit) \<times> note_state" where
  "resumeIntegrationWait ev n req alreadyProcessed st =
     resumeWait ev \<lparr>wl_note = n, wl_template = integrationWaitTemplateID, wl_payload = integration_payload (ev_text ev) req\<rparr>
       alreadyProcessed st"

definition resumeAcknowledgmentWait :: "edge_env \<Rightarrow> dispatch_note \<Rightarrow> bool \<Rightarrow> note_state \<Rightarrow> (cdn_error + unit) \<times> note_state" where
  "resumeAcknowledgmentWait ev n alreadyAcknowledged st =
     resumeWait ev \<lparr>wl_note = n, wl_template = acknowledgmentWaitTemplateID,
         wl_payload = [(''__command'', JStr ''submit''), (''ack_status'', JStr ''ACKNOWLEDGED'')]\<rparr> alreadyAcknowledged st"

definition resumeCancelledWait :: "edge_env \<Rightarrow> dispatch_note \<Rightarrow> bool \<Rightarrow> note_state \<Rightarrow> (cdn_error + unit) \<times> note_state" where
  "resumeCancelledWait ev n alreadyCancelled st =
     resumeWait ev \<lparr>wl_note = n, wl_template = acknowledgmentWaitTemplateID,
         wl_payload = [(''__command'', JStr ''submit''), (''ack_status'', JStr ''CANCELLED'')]\<rparr> alreadyCancelled st"

subsection \<open>The callbacks\<close>

definition storedResult :: "cdn_result \<Rightarrow> dispatch_note \<Rightarrow> cdn_result" where
  "storedResult req n =
     req\<lparr>cr_payload := (cr_payload req)\<lparr>
       cp_integrated := (d_status n = NoteIntegrated \<or> d_status n = NoteAcknowledged \<or> d_status n = NoteCancelled),
       cp_ref := d_ref n\<rparr>\<rparr>"

text \<open>\<open>s.repo.Update\<close> with its error wrapped.\<close>

definition record_note :: "edge_env \<Rightarrow> dispatch_note \<Rightarrow> note_state \<Rightarrow> (cdn_error + unit) \<times> note_state" where
  "record_note ev n st =
     (case update_doc ev n st of
        (Inl e, st1) \<Rightarrow> (Inl (UpdateNoteFailed e), st1)
      | (Inr _, st1) \<Rightarrow> (Inr (), st1))"

definition ProcessIntegrationResult_cdn :: "edge_env \<Rightarrow> cdn_result \<Rightarrow> note_state \<Rightarrow> (cdn_error + unit) \<times> note_state" where
  "ProcessIntegrationResult_cdn ev req st =
     (case ev_get ev of Some e \<Rightarrow> (Inl (GetNoteFailed e), st)
      | None \<Rightarrow>
     (case GetByEdgeID (cp_edge_id (cr_payload req)) (es_docs st) of
        None \<Rightarrow> (Inl ErrDispatchNoteNotRecorded, st)
      | Some n \<Rightarrow>
          if d_status n = NoteIntegrated \<or> d_status n = NoteAcknowledged \<or> d_status n = NoteCancelled then
            resumeIntegrationWait ev n (storedResult req n) True st
          else if \<not> cp_integrated (cr_payload req) \<and> d_status n = NoteFailed then
            resumeIntegrationWait ev n req True st
          else case resumeIntegrationWait ev n req False st of
            (Inl e, st1) \<Rightarrow> (Inl e, st1)
          | (Inr _, st1) \<Rightarrow>
              if cp_integrated (cr_payload req)
              then record_note ev (n\<lparr>d_status := NoteIntegrated, d_ref := cp_ref (cr_payload req)\<rparr>) st1
              else record_note ev (n\<lparr>d_status := NoteFailed, d_errors := cp_errors (cr_payload req)\<rparr>) st1))"

definition ProcessAcknowledgment :: "edge_env \<Rightarrow> cdn_ack \<Rightarrow> note_state \<Rightarrow> (cdn_error + unit) \<times> note_state" where
  "ProcessAcknowledgment ev req st =
     (case ev_get ev of Some e \<Rightarrow> (Inl (GetNoteFailed e), st)
      | None \<Rightarrow>
     (case GetByCDNRef (ak_ref req) (es_docs st) of
        None \<Rightarrow> (Inl ErrDispatchNoteNotFoundByCDNRef, st)
      | Some n \<Rightarrow>
          if d_status n = NoteAcknowledged then resumeAcknowledgmentWait ev n True st
          else if d_status n = NoteCancelled then (Inr (), st)
          else if d_status n \<noteq> NoteIntegrated then (Inl (InvalidTransition (d_status n)), st)
          else case resumeAcknowledgmentWait ev n False st of
            (Inl e, st1) \<Rightarrow> (Inl e, st1)
          | (Inr _, st1) \<Rightarrow> record_note ev (n\<lparr>d_status := NoteAcknowledged\<rparr>) st1))"

definition ProcessCancellation_cdn :: "edge_env \<Rightarrow> cancelled_request \<Rightarrow> note_state \<Rightarrow> (cdn_error + unit) \<times> note_state" where
  "ProcessCancellation_cdn ev req st =
     (case ev_get ev of Some e \<Rightarrow> (Inl (GetNoteFailed e), st)
      | None \<Rightarrow>
     (case GetByCDNRef (ca_ref req) (es_docs st) of
        None \<Rightarrow> (Inl ErrDispatchNoteNotFoundByCDNRef, st)
      | Some n \<Rightarrow>
          (case d_status n of
             NoteCancelled \<Rightarrow> resumeCancelledWait ev n True st
           | NoteAcknowledged \<Rightarrow> record_note ev (n\<lparr>d_status := NoteCancelled\<rparr>) st
           | NoteIntegrated \<Rightarrow>
               (case resumeCancelledWait ev n False st of
                  (Inl e, st1) \<Rightarrow> (Inl e, st1)
                | (Inr _, st1) \<Rightarrow> record_note ev (n\<lparr>d_status := NoteCancelled\<rparr>) st1)
           | s \<Rightarrow> (Inl (InvalidTransition s), st))))"

abbreviation cdnAmendedFlowTemplateID :: string where "cdnAmendedFlowTemplateID \<equiv> ''customs-cdn-amended''"

definition amendmentWorkflowID_cdn :: "(string \<Rightarrow> string) \<Rightarrow> string \<Rightarrow> doc_ref \<Rightarrow> string \<Rightarrow> string" where
  "amendmentWorkflowID_cdn digest caseID ref operationTime =
     notice_workflow_id digest caseID cdnAmendedFlowTemplateID (formatCDNRef ref @ [CHR 0x00] @ operationTime)"

definition ProcessAmendment_cdn :: "edge_env \<Rightarrow> cdn_amended \<Rightarrow> note_state \<Rightarrow> (cdn_error + unit) \<times> note_state" where
  "ProcessAmendment_cdn ev req st =
     (case ev_get ev of Some e \<Rightarrow> (Inl (GetNoteFailed e), st)
      | None \<Rightarrow>
     (case GetByCDNRef (na_ref req) (es_docs st) of
        None \<Rightarrow> (Inl ErrDispatchNoteNotFoundByCDNRef, st)
      | Some n \<Rightarrow>
          if d_case_id n = [] then (Inl ErrNoteCaseNotRecorded, st)
          else case ev_start ev of
            None \<Rightarrow> (Inl NoNoteFlows, st)
          | Some starter \<Rightarrow>
              (case decode_document (na_document req) of
                 None \<Rightarrow> (Inl DecodeNoteFailed, st)
               | Some doc \<Rightarrow>
                   (let operationTime = trim_space (na_operation_time req);
                        f = \<lparr>fs_case = d_case_id n, fs_template = cdnAmendedFlowTemplateID,
                             fs_workflow = amendmentWorkflowID_cdn (ev_digest ev) (d_case_id n) (na_ref req) operationTime,
                             fs_vars = [(''consignmentId'', JStr (d_case_id n)), (''cdn_number'', JStr (formatCDNRef (na_ref req))),
                               (''amended_at'', JStr operationTime), (''cdn'', doc)]\<rparr>
                    in case start_case_flow starter f st of
                         (Inl e, st1) \<Rightarrow> (Inl (StartNoteFlowFailed e), st1)
                       | (Inr _, st1) \<Rightarrow> (Inr (), st1)))))"

subsection \<open>What a callback does\<close>

text \<open>The completion a release makes: of the task parked for the note's workflow, or none.\<close>

definition wait_completion :: "edge_env \<Rightarrow> dispatch_note \<Rightarrow> string \<Rightarrow> (string \<times> json) list \<Rightarrow> completion list" where
  "wait_completion ev n template payload =
     (if ev_wired ev then
        (case Find_parked (ev_tasks ev) (d_case_id n) (d_workflow_id n) template of
           Inr (Some (task, step)) \<Rightarrow> [\<lparr>cp_task = task, cp_step = step, cp_payload = payload\<rparr>] | _ \<Rightarrow> [])
      else [])"

lemma Find_parked_no_workflow [simp]: "Find_parked tasks c [] t = Inr None"
  by (simp add: Find_parked_def)

lemma resumeWait_effect:
  assumes "resumeWait ev look already st = (res, st')"
  shows "es_docs st' = es_docs st \<and> es_started st' = es_started st \<and>
    (case res of
       Inl e \<Rightarrow> es_completed st' = es_completed st \<and> (\<forall>m. e \<noteq> UpdateNoteFailed m)
     | Inr _ \<Rightarrow> es_completed st' = es_completed st @ wait_completion ev (wl_note look) (wl_template look) (wl_payload look) \<and>
         (\<not> already \<longrightarrow> ev_wired ev \<longrightarrow> length (es_completed st') = Suc (length (es_completed st))))"
  using assms
  by (auto simp: resumeWait_def complete_step_def wait_completion_def Let_def split: option.splits if_splits sum.splits prod.splits)

lemma record_note_effect:
  assumes "record_note ev n st = (res, st')"
  shows "es_completed st' = es_completed st \<and> es_started st' = es_started st \<and>
    (case res of Inl e \<Rightarrow> es_docs st' = es_docs st \<and> (\<exists>m. e = UpdateNoteFailed m) | Inr _ \<Rightarrow> es_docs st' = Update_doc n (es_docs st))"
  using assms by (auto simp: record_note_def update_doc_def split: option.splits)

text \<open>A failed callback: the notes are kept, and only a failed write leaves a completed wait behind.\<close>

definition error_keeps :: "cdn_error \<Rightarrow> note_state \<Rightarrow> note_state \<Rightarrow> bool" where
  "error_keeps e st st' \<longleftrightarrow> es_docs st' = es_docs st \<and> es_started st' = es_started st \<and>
     (es_completed st' = es_completed st \<or> (\<exists>m cs. e = UpdateNoteFailed m \<and> es_completed st' = es_completed st @ cs))"

lemma released_then_recorded:
  assumes r: "(case resumeWait ev look already st of (Inl e, st1) \<Rightarrow> (Inl e, st1) | (Inr _, st1) \<Rightarrow> record_note ev n st1) = (res, st')"
  shows "case res of Inl e \<Rightarrow> error_keeps e st st'
    | Inr _ \<Rightarrow> es_docs st' = Update_doc n (es_docs st) \<and> es_started st' = es_started st \<and>
        es_completed st' = es_completed st @ wait_completion ev (wl_note look) (wl_template look) (wl_payload look)"
proof (cases "resumeWait ev look already st")
  case (Pair res1 st1)
  note w = resumeWait_effect [OF Pair]
  show ?thesis
  proof (cases res1)
    case (Inl e)
    then show ?thesis using r Pair w by (auto simp: error_keeps_def)
  next
    case (Inr u)
    with r Pair have "record_note ev n st1 = (res, st')" by simp
    from record_note_effect [OF this] show ?thesis using w Inr by (cases res) (auto simp: error_keeps_def)
  qed
qed

lemma release_only:
  "resumeWait ev look already st = (res, st') \<Longrightarrow> case res of Inl e \<Rightarrow> error_keeps e st st'
    | Inr _ \<Rightarrow> es_docs st' = es_docs st \<and> es_started st' = es_started st \<and>
        es_completed st' = es_completed st @ wait_completion ev (wl_note look) (wl_template look) (wl_payload look)"
  by (drule resumeWait_effect) (auto simp: error_keeps_def split: sum.splits)

lemma record_only:
  "record_note ev n st = (res, st') \<Longrightarrow> case res of Inl e \<Rightarrow> error_keeps e st st'
    | Inr _ \<Rightarrow> es_docs st' = Update_doc n (es_docs st) \<and> es_started st' = es_started st \<and> es_completed st' = es_completed st"
  by (drule record_note_effect) (auto simp: error_keeps_def split: sum.splits)

lemma error_keeps_refl [simp]: "error_keeps e st st"
  by (simp add: error_keeps_def)

abbreviation "registered s \<equiv> s = NoteIntegrated \<or> s = NoteAcknowledged \<or> s = NoteCancelled"

text \<open>The note an integration result leaves, and the result its release hands to the workflow.\<close>

definition integrated_note :: "cdn_result \<Rightarrow> dispatch_note \<Rightarrow> dispatch_note" where
  "integrated_note req n =
     n\<lparr>d_status := (if cp_integrated (cr_payload req) then NoteIntegrated else NoteFailed),
       d_ref := (if cp_integrated (cr_payload req) then cp_ref (cr_payload req) else d_ref n),
       d_errors := (if cp_integrated (cr_payload req) then d_errors n else cp_errors (cr_payload req))\<rparr>"

lemma integrated_note_simps:
  "cp_integrated (cr_payload req) \<Longrightarrow> integrated_note req n = n\<lparr>d_status := NoteIntegrated, d_ref := cp_ref (cr_payload req)\<rparr>"
  "\<not> cp_integrated (cr_payload req) \<Longrightarrow> integrated_note req n = n\<lparr>d_status := NoteFailed, d_errors := cp_errors (cr_payload req)\<rparr>"
  by (cases n; simp add: integrated_note_def)+

lemma record_integrated:
  "record_note ev (integrated_note req n) st1 =
     (if cp_integrated (cr_payload req) then record_note ev (n\<lparr>d_status := NoteIntegrated, d_ref := cp_ref (cr_payload req)\<rparr>) st1
      else record_note ev (n\<lparr>d_status := NoteFailed, d_errors := cp_errors (cr_payload req)\<rparr>) st1)"
  by (simp add: integrated_note_simps)

lemma integration_cdn_effect:
  assumes r: "ProcessIntegrationResult_cdn ev req st = (res, st')"
  shows "case res of Inl e \<Rightarrow> error_keeps e st st'
    | Inr _ \<Rightarrow> (\<exists>n. GetByEdgeID (cp_edge_id (cr_payload req)) (es_docs st) = Some n \<and> es_started st' = es_started st \<and>
        es_docs st' = (if registered (d_status n) \<or> \<not> cp_integrated (cr_payload req) \<and> d_status n = NoteFailed then es_docs st
                       else Update_doc (integrated_note req n) (es_docs st)) \<and>
        es_completed st' = es_completed st @ wait_completion ev n integrationWaitTemplateID
          (integration_payload (ev_text ev) (if registered (d_status n) then storedResult req n else req)))"
proof (cases "ev_get ev = None")
  case get: True
  show ?thesis
  proof (cases "GetByEdgeID (cp_edge_id (cr_payload req)) (es_docs st)")
    case None
    with r get show ?thesis by (auto simp: ProcessIntegrationResult_cdn_def)
  next
    case (Some n)
    consider (reg) "registered (d_status n)" | (failed) "\<not> registered (d_status n)" "\<not> cp_integrated (cr_payload req)" "d_status n = NoteFailed"
      | (new) "\<not> registered (d_status n)" "cp_integrated (cr_payload req) \<or> d_status n \<noteq> NoteFailed" by blast
    then show ?thesis
    proof cases
      case reg
      then have "resumeIntegrationWait ev n (storedResult req n) True st = (res, st')"
        using r get Some by (auto simp: ProcessIntegrationResult_cdn_def)
      from release_only [OF this [unfolded resumeIntegrationWait_def]] show ?thesis using reg Some by (cases res) auto
    next
      case failed
      then have "resumeIntegrationWait ev n req True st = (res, st')" using r get Some by (simp add: ProcessIntegrationResult_cdn_def)
      from release_only [OF this [unfolded resumeIntegrationWait_def]] show ?thesis using failed Some by (cases res) auto
    next
      case new
      then have "(case resumeIntegrationWait ev n req False st of (Inl e, st1) \<Rightarrow> (Inl e, st1)
          | (Inr _, st1) \<Rightarrow> record_note ev (integrated_note req n) st1) = (res, st')"
        using r get Some unfolding record_integrated by (auto simp: ProcessIntegrationResult_cdn_def)
      from released_then_recorded [OF this [unfolded resumeIntegrationWait_def]] show ?thesis using new Some by (cases res) auto
    qed
  qed
next
  case False
  with r show ?thesis by (auto simp: ProcessIntegrationResult_cdn_def)
qed

definition status_payload :: "note_status \<Rightarrow> (string \<times> json) list" where
  "status_payload s = [(''__command'', JStr ''submit''), (''ack_status'', JStr (if s = NoteAcknowledged then ''ACKNOWLEDGED'' else ''CANCELLED''))]"

lemma acknowledgment_effect:
  assumes r: "ProcessAcknowledgment ev req st = (res, st')"
  shows "case res of Inl e \<Rightarrow> error_keeps e st st'
    | Inr _ \<Rightarrow> (\<exists>n. GetByCDNRef (ak_ref req) (es_docs st) = Some n \<and> registered (d_status n) \<and> es_started st' = es_started st \<and>
        es_docs st' = (if d_status n = NoteIntegrated then Update_doc (n\<lparr>d_status := NoteAcknowledged\<rparr>) (es_docs st) else es_docs st) \<and>
        es_completed st' = es_completed st @ (if d_status n = NoteCancelled then []
          else wait_completion ev n acknowledgmentWaitTemplateID (status_payload NoteAcknowledged)))"
proof (cases "ev_get ev = None")
  case get: True
  show ?thesis
  proof (cases "GetByCDNRef (ak_ref req) (es_docs st)")
    case None
    with r get show ?thesis by (auto simp: ProcessAcknowledgment_def)
  next
    case (Some n)
    show ?thesis
    proof (cases "d_status n")
      case NoteAcknowledged
      then have "resumeAcknowledgmentWait ev n True st = (res, st')" using r get Some by (simp add: ProcessAcknowledgment_def)
      from release_only [OF this [unfolded resumeAcknowledgmentWait_def]] show ?thesis
        using NoteAcknowledged Some by (cases res) (auto simp: status_payload_def)
    next
      case NoteIntegrated
      then have "(case resumeAcknowledgmentWait ev n False st of (Inl e, st1) \<Rightarrow> (Inl e, st1)
          | (Inr _, st1) \<Rightarrow> record_note ev (n\<lparr>d_status := NoteAcknowledged\<rparr>) st1) = (res, st')"
        using r get Some by (simp add: ProcessAcknowledgment_def)
      from released_then_recorded [OF this [unfolded resumeAcknowledgmentWait_def]] show ?thesis
        using NoteIntegrated Some by (cases res) (auto simp: status_payload_def)
    qed (use r get Some in \<open>auto simp: ProcessAcknowledgment_def\<close>)
  qed
next
  case False
  with r show ?thesis by (auto simp: ProcessAcknowledgment_def)
qed

lemma cancellation_cdn_effect:
  assumes r: "ProcessCancellation_cdn ev req st = (res, st')"
  shows "case res of Inl e \<Rightarrow> error_keeps e st st'
    | Inr _ \<Rightarrow> (\<exists>n. GetByCDNRef (ca_ref req) (es_docs st) = Some n \<and> registered (d_status n) \<and> es_started st' = es_started st \<and>
        es_docs st' = (if d_status n = NoteCancelled then es_docs st else Update_doc (n\<lparr>d_status := NoteCancelled\<rparr>) (es_docs st)) \<and>
        es_completed st' = es_completed st @ (if d_status n = NoteAcknowledged then []
          else wait_completion ev n acknowledgmentWaitTemplateID (status_payload NoteCancelled)))"
proof (cases "ev_get ev = None")
  case get: True
  show ?thesis
  proof (cases "GetByCDNRef (ca_ref req) (es_docs st)")
    case None
    with r get show ?thesis by (auto simp: ProcessCancellation_cdn_def)
  next
    case (Some n)
    show ?thesis
    proof (cases "d_status n")
      case NoteCancelled
      then have "resumeCancelledWait ev n True st = (res, st')" using r get Some by (simp add: ProcessCancellation_cdn_def)
      from release_only [OF this [unfolded resumeCancelledWait_def]] show ?thesis
        using NoteCancelled Some by (cases res) (auto simp: status_payload_def)
    next
      case NoteIntegrated
      then have "(case resumeCancelledWait ev n False st of (Inl e, st1) \<Rightarrow> (Inl e, st1)
          | (Inr _, st1) \<Rightarrow> record_note ev (n\<lparr>d_status := NoteCancelled\<rparr>) st1) = (res, st')"
        using r get Some by (simp add: ProcessCancellation_cdn_def)
      from released_then_recorded [OF this [unfolded resumeCancelledWait_def]] show ?thesis
        using NoteIntegrated Some by (cases res) (auto simp: status_payload_def)
    next
      case NoteAcknowledged
      then have "record_note ev (n\<lparr>d_status := NoteCancelled\<rparr>) st = (res, st')" using r get Some by (simp add: ProcessCancellation_cdn_def)
      from record_only [OF this] show ?thesis using NoteAcknowledged Some by (cases res) auto
    qed (use r get Some in \<open>auto simp: ProcessCancellation_cdn_def\<close>)
  qed
next
  case False
  with r show ?thesis by (auto simp: ProcessCancellation_cdn_def)
qed

lemma amendment_cdn_effect:
  assumes r: "ProcessAmendment_cdn ev req st = (res, st')"
  shows "es_docs st' = es_docs st \<and> es_completed st' = es_completed st \<and> (case res of Inl e \<Rightarrow> es_started st' = es_started st | Inr _ \<Rightarrow>
    (\<exists>n f. GetByCDNRef (na_ref req) (es_docs st) = Some n \<and> es_started st' = es_started st @ [f] \<and> fs_case f = d_case_id n \<and>
       fs_workflow f = amendmentWorkflowID_cdn (ev_digest ev) (d_case_id n) (na_ref req) (trim_space (na_operation_time req))))"
  using r by (auto simp: ProcessAmendment_cdn_def start_case_flow_def Let_def split: option.splits if_splits sum.splits prod.splits)

subsection \<open>Histories\<close>

text \<open>How a note moves: registered notes keep their reference, and cancellation ends the lifecycle.\<close>

definition note_moves :: "dispatch_note \<Rightarrow> dispatch_note \<Rightarrow> bool" where
  "note_moves n n' \<longleftrightarrow>
     (d_status n' = d_status n \<or> d_status n = NoteSubmitted \<and> d_status n' \<in> {NoteIntegrated, NoteFailed} \<or>
      d_status n = NoteFailed \<and> d_status n' = NoteIntegrated \<or>
      d_status n = NoteIntegrated \<and> d_status n' \<in> {NoteAcknowledged, NoteCancelled} \<or>
      d_status n = NoteAcknowledged \<and> d_status n' = NoteCancelled) \<and>
     (registered (d_status n) \<longrightarrow> d_ref n' = d_ref n)"

lemma note_moves_refl [simp]: "note_moves n n"
  by (simp add: note_moves_def)

inductive cdn_step :: "note_state \<Rightarrow> note_state \<Rightarrow> bool" where
  cdn_integration: "ProcessIntegrationResult_cdn ev req st = (res, st') \<Longrightarrow> cdn_step st st'"
| cdn_acknowledged: "ProcessAcknowledgment ev areq st = (res, st') \<Longrightarrow> cdn_step st st'"
| cdn_amended: "ProcessAmendment_cdn ev mreq st = (res, st') \<Longrightarrow> cdn_step st st'"
| cdn_cancelled: "ProcessCancellation_cdn ev creq st = (res, st') \<Longrightarrow> cdn_step st st'"
| cdn_submitted: "uuid \<notin> d_id ` set (es_docs st) \<Longrightarrow>
    cdn_step st (st\<lparr>es_docs := RecordSubmitted_note uuid now edge c w (es_docs st)\<rparr>)"

text \<open>A write of the status of a note found by its reference.\<close>

lemma status_write_moves:
  assumes ok: "table_ok ds" and n: "GetByCDNRef f ds = Some n" and m: "note_moves n (n\<lparr>d_status := s\<rparr>)"
  shows "table_ok (Update_doc (n\<lparr>d_status := s\<rparr>) ds) \<and> rows_move note_moves ds (Update_doc (n\<lparr>d_status := s\<rparr>) ds)"
proof -
  have "GetByEdgeID (d_edge_id n) ds = Some n" using doc.ref_edge [OF ok] n by (simp add: GetByCDNRef_eq)
  from rows_move_update [where R = note_moves and s = s and f = "d_ref n" and r = "d_errors n", OF ok this note_moves_refl] show ?thesis
    using m ok by (simp add: Update_doc_table_ok)
qed

lemma integration_cdn_moves:
  assumes ok: "table_ok (es_docs st)" and r: "ProcessIntegrationResult_cdn ev req st = (res, st')"
  shows "table_ok (es_docs st') \<and> rows_move note_moves (es_docs st) (es_docs st')"
proof (cases "es_docs st' = es_docs st")
  case True
  then show ?thesis using ok by (simp add: rows_move_refl)
next
  case False
  from integration_cdn_effect [OF r] False obtain n where n: "GetByEdgeID (cp_edge_id (cr_payload req)) (es_docs st) = Some n"
    "\<not> registered (d_status n)" "cp_integrated (cr_payload req) \<or> d_status n \<noteq> NoteFailed"
    "es_docs st' = Update_doc (integrated_note req n) (es_docs st)"
    by (cases res) (auto simp: error_keeps_def split: if_splits)
  have "note_moves n (integrated_note req n)"
    using n(2,3) by (cases "d_status n") (auto simp: note_moves_def integrated_note_def)
  then show ?thesis
    using rows_move_update [where R = note_moves, OF ok n(1) note_moves_refl] ok n(4)
    by (simp add: Update_doc_table_ok integrated_note_def del: if_image_distrib)
qed

lemma acknowledgment_moves:
  assumes ok: "table_ok (es_docs st)" and r: "ProcessAcknowledgment ev req st = (res, st')"
  shows "table_ok (es_docs st') \<and> rows_move note_moves (es_docs st) (es_docs st')"
proof (cases "es_docs st' = es_docs st")
  case True
  then show ?thesis using ok by (simp add: rows_move_refl)
next
  case False
  from acknowledgment_effect [OF r] False obtain n where n: "GetByCDNRef (ak_ref req) (es_docs st) = Some n" "d_status n = NoteIntegrated"
    "es_docs st' = Update_doc (n\<lparr>d_status := NoteAcknowledged\<rparr>) (es_docs st)"
    by (cases res) (auto simp: error_keeps_def split: if_splits)
  show ?thesis unfolding n(3) by (rule status_write_moves [OF ok n(1)]) (simp add: note_moves_def n(2))
qed

lemma cancellation_moves:
  assumes ok: "table_ok (es_docs st)" and r: "ProcessCancellation_cdn ev req st = (res, st')"
  shows "table_ok (es_docs st') \<and> rows_move note_moves (es_docs st) (es_docs st')"
proof (cases "es_docs st' = es_docs st")
  case True
  then show ?thesis using ok by (simp add: rows_move_refl)
next
  case False
  from cancellation_cdn_effect [OF r] False obtain n where n: "GetByCDNRef (ca_ref req) (es_docs st) = Some n" "registered (d_status n)"
    "es_docs st' = Update_doc (n\<lparr>d_status := NoteCancelled\<rparr>) (es_docs st)"
    by (cases res) (auto simp: error_keeps_def split: if_splits)
  show ?thesis unfolding n(3) by (rule status_write_moves [OF ok n(1)]) (use n(2) in \<open>auto simp: note_moves_def\<close>)
qed

lemma cdn_step_moves:
  assumes "cdn_step st st'" and "table_ok (es_docs st)"
  shows "table_ok (es_docs st') \<and> rows_move note_moves (es_docs st) (es_docs st')"
  using assms
  by (cases rule: cdn_step.cases)
    (auto dest: integration_cdn_moves acknowledgment_moves cancellation_moves amendment_cdn_effect
      simp: rows_move_refl RecordSubmitted_ok rows_move_submitted RecordSubmitted_note_def)

lemma note_moves_steps:
  assumes "note_moves\<^sup>*\<^sup>* n n'"
  shows "(registered (d_status n) \<longrightarrow> registered (d_status n') \<and> d_ref n' = d_ref n) \<and>
    (d_status n = NoteCancelled \<longrightarrow> d_status n' = NoteCancelled) \<and>
    (d_status n = NoteAcknowledged \<longrightarrow> d_status n' \<noteq> NoteIntegrated) \<and>
    (d_status n \<noteq> NoteSubmitted \<longrightarrow> d_status n' \<noteq> NoteSubmitted)"
  using assms
proof (induction rule: rtranclp_induct)
  case base
  then show ?case by simp
next
  case (step n1 n2)
  then show ?case by (cases "d_status n1"; cases "d_status n2") (auto simp: note_moves_def)
qed

subsection \<open>Properties\<close>

text \<open>
  over any history of submissions and callbacks a note keeps its case and workflow; once
  Customs registered it, it stays registered under the same reference; an acknowledged note
  never goes back to integrated, a cancelled one stays cancelled, and no note goes back to
  submitted.
\<close>
theorem note_lifecycle:
  assumes "cdn_step\<^sup>*\<^sup>* st st'" and "table_ok (es_docs st)" and "GetByEdgeID e (es_docs st) = Some n"
  shows "\<exists>n'. GetByEdgeID e (es_docs st') = Some n' \<and> d_case_id n' = d_case_id n \<and> d_workflow_id n' = d_workflow_id n \<and>
    (registered (d_status n) \<longrightarrow> registered (d_status n') \<and> d_ref n' = d_ref n) \<and>
    (d_status n = NoteCancelled \<longrightarrow> d_status n' = NoteCancelled) \<and>
    (d_status n = NoteAcknowledged \<longrightarrow> d_status n' \<noteq> NoteIntegrated) \<and>
    (d_status n \<noteq> NoteSubmitted \<longrightarrow> d_status n' \<noteq> NoteSubmitted)"
proof -
  have m: "table_ok (es_docs st') \<and> rows_move note_moves\<^sup>*\<^sup>* (es_docs st) (es_docs st')"
    by (rule rows_move_steps [where step = cdn_step and docs = es_docs, OF assms(1,2) cdn_step_moves])
  then obtain n' where "GetByEdgeID e (es_docs st') = Some n'" "d_case_id n' = d_case_id n" "d_workflow_id n' = d_workflow_id n"
    "note_moves\<^sup>*\<^sup>* n n'" using rows_moveD [OF _ assms(3)] by blast
  with note_moves_steps show ?thesis by blast
qed

text \<open>
  once an integration is recorded, the row is the authority: whatever a later delivery for
  the same edge ID says (a failure, another reference), it changes no note, and if the wait is
  still parked it completes it with the reference recorded first.
\<close>
theorem recorded_integration_redelivered:
  assumes "table_ok (es_docs st)" and "GetByEdgeID (cp_edge_id (cr_payload req)) (es_docs st) = Some n" and "\<not> registered (d_status n)"
    and "cp_integrated (cr_payload req)" and "ProcessIntegrationResult_cdn ev req st = (Inr (), st1)"
    and "cp_edge_id (cr_payload req2) = cp_edge_id (cr_payload req)" and "ProcessIntegrationResult_cdn ev2 req2 st1 = (Inr (), st2)"
  shows "es_docs st2 = es_docs st1 \<and> es_completed st2 = es_completed st1 @ wait_completion ev2 n integrationWaitTemplateID
    [(''__command'', JStr ''submit''), (''integrated'', JBool True), (''cdn_number'', JStr (formatCDNRef (cp_ref (cr_payload req))))]"
proof -
  have e: "es_docs st1 = Update_doc (integrated_note req n) (es_docs st)"
    using integration_cdn_effect [OF assms(5)] assms(2-4) by auto
  have "GetByEdgeID (cp_edge_id (cr_payload req2)) (es_docs st1) = Some (integrated_note req n)"
    unfolding e assms(6) integrated_note_def using doc.upd_same [OF assms(1,2)] by blast
  moreover have "registered (d_status (integrated_note req n))" using assms(4) by (simp add: integrated_note_simps)
  ultimately have "es_docs st2 = es_docs st1 \<and> es_completed st2 = es_completed st1 @ wait_completion ev2 (integrated_note req n)
      integrationWaitTemplateID (integration_payload (ev_text ev2) (storedResult req2 (integrated_note req n)))"
    using integration_cdn_effect [OF assms(7)] by auto
  moreover have "wait_completion ev2 (integrated_note req n) t p = wait_completion ev2 n t p" for t p
    using assms(4) by (simp add: wait_completion_def integrated_note_simps)
  moreover have "integration_payload (ev_text ev2) (storedResult req2 (integrated_note req n)) =
      [(''__command'', JStr ''submit''), (''integrated'', JBool True), (''cdn_number'', JStr (formatCDNRef (cp_ref (cr_payload req))))]"
    using assms(4) by (simp add: storedResult_def integration_payload_def integrated_note_simps)
  ultimately show ?thesis by simp
qed

text \<open>
  a callback that ends in an error can be retried: no note has changed and no flow was
  opened, and no wait was released unless it is the write of the note after the release that
  failed.
\<close>
theorem failed_cdn_callback_keeps_notes:
  assumes "ProcessIntegrationResult_cdn ev req st = (Inl e, st') \<or> ProcessAcknowledgment ev areq st = (Inl e, st') \<or>
    ProcessCancellation_cdn ev creq st = (Inl e, st')"
  shows "es_docs st' = es_docs st \<and> es_started st' = es_started st \<and>
    ((\<forall>m. e \<noteq> UpdateNoteFailed m) \<longrightarrow> es_completed st' = es_completed st)"
  using assms integration_cdn_effect [of ev req st "Inl e" st'] acknowledgment_effect [of ev areq st "Inl e" st']
    cancellation_cdn_effect [of ev creq st "Inl e" st']
  by (auto simp: error_keeps_def)

text \<open>
  a recorded cancellation ends the note: the cancelled note releases its acknowledgment wait
  as cancelled when it had not been acknowledged, and an acknowledgment for it afterwards, in
  any environment, is accepted without releasing or recording anything.
\<close>
theorem cancelled_note_is_final:
  assumes "table_ok (es_docs st)" and "ProcessCancellation_cdn ev req st = (Inr (), st1)"
    and "ak_ref areq = ca_ref req" and "ev_get ev2 = None"
  shows "\<exists>n. GetByCDNRef (ca_ref req) (es_docs st) = Some n \<and> registered (d_status n) \<and>
    GetByCDNRef (ca_ref req) (es_docs st1) = Some (n\<lparr>d_status := NoteCancelled\<rparr>) \<and>
    (d_status n = NoteIntegrated \<longrightarrow> es_completed st1 = es_completed st @
       wait_completion ev n acknowledgmentWaitTemplateID [(''__command'', JStr ''submit''), (''ack_status'', JStr ''CANCELLED'')]) \<and>
    ProcessAcknowledgment ev2 areq st1 = (Inr (), st1)"
proof -
  from cancellation_cdn_effect [OF assms(2)] obtain n where n: "GetByCDNRef (ca_ref req) (es_docs st) = Some n" "registered (d_status n)"
    "es_docs st1 = (if d_status n = NoteCancelled then es_docs st else Update_doc (n\<lparr>d_status := NoteCancelled\<rparr>) (es_docs st))"
    "es_completed st1 = es_completed st @ (if d_status n = NoteAcknowledged then []
          else wait_completion ev n acknowledgmentWaitTemplateID (status_payload NoteCancelled))" by auto
  have r: "GetByCDNRef (ca_ref req) (es_docs st1) = Some (n\<lparr>d_status := NoteCancelled\<rparr>)"
  proof (cases "d_status n = NoteCancelled")
    case True
    moreover have "n\<lparr>d_status := NoteCancelled\<rparr> = n" using True by (cases n) simp
    ultimately show ?thesis using n by simp
  next
    case False
    with n doc.ref_keep [OF assms(1)] show ?thesis by (simp add: GetByCDNRef_eq)
  qed
  with assms(3,4) have "ProcessAcknowledgment ev2 areq st1 = (Inr (), st1)" by (simp add: ProcessAcknowledgment_def)
  with n r show ?thesis by (auto simp: status_payload_def)
qed

subsection \<open>Witnesses\<close>

definition demo_notes :: "note_status \<Rightarrow> doc_ref \<Rightarrow> note_state" where
  "demo_notes s ref = \<lparr>es_docs = [\<lparr>d_id = ''n1'', d_edge_id = ''e1'', d_status = s, d_ref = ref, d_errors = NoBytes, d_case_id = ''c1'',
     d_workflow_id = ''w1'', d_created = 0\<rparr>], es_completed = [], es_started = []\<rparr>"

definition demo_cdn_result :: "bool \<Rightarrow> cdn_result" where
  "demo_cdn_result ok = \<lparr>cr_event = ''CDN_INTEGRATED'', cr_process_at = Some 5,
     cr_payload = \<lparr>cp_edge_id = ''e1'', cp_integrated = ok, cp_ref = demo_ref, cp_errors = NoBytes\<rparr>\<rparr>"

definition demo_cancel :: cancelled_request where
  "demo_cancel = \<lparr>ca_event_type = EventCDNCancelled, ca_processed_at = Some 7, ca_ref = demo_ref\<rparr>"

definition demo_ack :: cdn_ack where
  "demo_ack = \<lparr>ak_event = ''CDN_ACKNOWLEDGED'', ak_process_at = Some 8, ak_ref = demo_ref\<rparr>"

lemma demo_notes_ok: "table_ok (es_docs (demo_notes s ref))"
  by (simp add: table_ok_def demo_notes_def)

lemma pair_of_fst: "fst p = x \<Longrightarrow> p = (x, snd p)"
  by (cases p) simp

theorem note_lifecycle_witness:
  "\<exists>n'. GetByEdgeID ''e1'' (es_docs (snd (ProcessCancellation_cdn (demo_env [demo_task acknowledgmentWaitTemplateID]) demo_cancel
      (demo_notes NoteIntegrated demo_ref)))) = Some n' \<and> registered (d_status n') \<and> d_ref n' = demo_ref"
proof -
  let ?st = "demo_notes NoteIntegrated demo_ref"
  let ?st' = "snd (ProcessCancellation_cdn (demo_env [demo_task acknowledgmentWaitTemplateID]) demo_cancel ?st)"
  have "cdn_step ?st ?st'" by (rule cdn_cancelled) (rule surjective_pairing)
  then have s: "cdn_step\<^sup>*\<^sup>* ?st ?st'" by blast
  have g: "GetByEdgeID ''e1'' (es_docs ?st) = Some (hd (es_docs ?st))" by code_simp
  have "d_status (hd (es_docs ?st)) = NoteIntegrated" "d_ref (hd (es_docs ?st)) = demo_ref" by (simp_all add: demo_notes_def)
  with note_lifecycle [OF s demo_notes_ok g] show ?thesis by auto
qed

theorem recorded_integration_redelivered_witness:
  "\<exists>st1 st2. ProcessIntegrationResult_cdn (demo_env [demo_task integrationWaitTemplateID]) (demo_cdn_result True) (demo_notes NoteSubmitted no_ref) = (Inr (), st1) \<and>
     ProcessIntegrationResult_cdn (demo_env []) (demo_cdn_result False) st1 = (Inr (), st2) \<and> es_docs st2 = es_docs st1"
proof -
  let ?st = "demo_notes NoteSubmitted no_ref"
  let ?r = "ProcessIntegrationResult_cdn (demo_env [demo_task integrationWaitTemplateID]) (demo_cdn_result True) ?st"
  let ?q = "ProcessIntegrationResult_cdn (demo_env []) (demo_cdn_result False) (snd ?r)"
  have g: "GetByEdgeID (cp_edge_id (cr_payload (demo_cdn_result True))) (es_docs ?st) = Some (hd (es_docs ?st))" by code_simp
  have n: "\<not> registered (d_status (hd (es_docs ?st)))" by (simp add: demo_notes_def)
  have i: "cp_integrated (cr_payload (demo_cdn_result True))" by (simp add: demo_cdn_result_def)
  have e: "cp_edge_id (cr_payload (demo_cdn_result False)) = cp_edge_id (cr_payload (demo_cdn_result True))" by (simp add: demo_cdn_result_def)
  have "fst ?r = Inr ()" by code_simp
  then have r: "?r = (Inr (), snd ?r)" by (rule pair_of_fst)
  have "fst ?q = Inr ()" by code_simp
  then have q: "?q = (Inr (), snd ?q)" by (rule pair_of_fst)
  from recorded_integration_redelivered [OF demo_notes_ok g n i r e q] r q show ?thesis by blast
qed

theorem failed_cdn_callback_keeps_notes_witness:
  "\<exists>st'. ProcessIntegrationResult_cdn (demo_env []) (demo_cdn_result True) (demo_notes NoteSubmitted no_ref) = (Inl ErrWaitNotParked, st') \<and>
     es_docs st' = es_docs (demo_notes NoteSubmitted no_ref) \<and> es_completed st' = []"
proof -
  let ?r = "ProcessIntegrationResult_cdn (demo_env []) (demo_cdn_result True) (demo_notes NoteSubmitted no_ref)"
  have "fst ?r = Inl ErrWaitNotParked" by code_simp
  then have r: "?r = (Inl ErrWaitNotParked, snd ?r)" by (rule pair_of_fst)
  from failed_cdn_callback_keeps_notes [OF disjI1 [OF r]] r show ?thesis by (auto simp: demo_notes_def)
qed

theorem cancelled_note_is_final_witness:
  "\<exists>st1. ProcessCancellation_cdn (demo_env [demo_task acknowledgmentWaitTemplateID]) demo_cancel (demo_notes NoteIntegrated demo_ref) = (Inr (), st1) \<and>
     ProcessAcknowledgment (demo_env [demo_task acknowledgmentWaitTemplateID]) demo_ack st1 = (Inr (), st1)"
proof -
  let ?r = "ProcessCancellation_cdn (demo_env [demo_task acknowledgmentWaitTemplateID]) demo_cancel (demo_notes NoteIntegrated demo_ref)"
  have "fst ?r = Inr ()" by code_simp
  then have r: "?r = (Inr (), snd ?r)" by (rule pair_of_fst)
  have a: "ak_ref demo_ack = ca_ref demo_cancel" by (simp add: demo_ack_def demo_cancel_def)
  have "ev_get (demo_env [demo_task acknowledgmentWaitTemplateID]) = None" by (simp add: demo_env_def)
  from cancelled_note_is_final [OF demo_notes_ok r a this] r show ?thesis by blast
qed

end
