(* ===== verification/Edge_Submissions.thy ===== *)
theory Edge_Submissions
  imports Api_Calls Cusdec_Payload Cdn_Payload Cdn_Service
begin

text \<open>
  The submissions to SLC Edge as a call step makes them: \<open>cusdec/submission_interpreter.go\<close> and
  \<open>cdn/submission_interpreter.go\<close>. The storage service, the encoding of a JSON part, \<open>%q\<close> and the
  formats of \<open>go_text\<close> are parameters; the table an accepted submission is recorded in is the
  repository's of \<open>Edge_Documents\<close>, with writes that may fail. The trace of the exchange is left out.
\<close>

subsection \<open>Answers\<close>

definition answered :: "inputs option \<Rightarrow> inputs" where
  "answered resp = (case resp of None \<Rightarrow> [] | Some r \<Rightarrow> r)"

definition text_at :: "inputs \<Rightarrow> string \<Rightarrow> string" where
  "text_at m key = (case obj_get m key of Some (JStr s) \<Rightarrow> s | _ \<Rightarrow> [])"

definition captured_of :: "string list \<Rightarrow> inputs \<Rightarrow> inputs" where
  "captured_of keys r = concat (map (\<lambda>k. case obj_get r k of Some v \<Rightarrow> [(k, v)] | None \<Rightarrow> []) keys)"

definition statusIsAccepted :: "inputs \<Rightarrow> bool" where
  "statusIsAccepted r = (text_at r ''status'' \<in> {''QUEUED'', ''ACCEPTED'', ''RECEIVED''})"

definition PreviousEdgeIDKey :: string where "PreviousEdgeIDKey = ''previous_edge_id''"

text \<open>The first of the keys with a text, as the only bullet.\<close>

definition reason_bullets :: "(string \<Rightarrow> string) \<Rightarrow> string list" where
  "reason_bullets field =
     (case List.find (\<lambda>k. field k \<noteq> []) [''error'', ''detail'', ''title''] of None \<Rightarrow> [] | Some k \<Rightarrow> [''- '' @ field k])"

subsection \<open>Declarations\<close>

definition capturedFields :: "string list" where
  "capturedFields = [''edgeId'', ''status'', ''receivedAt'', ''acceptedAt'', ''errors'', ''nswId'',
     ''message'', ''error'', ''detail'', ''title'', ''code'', ''fieldRef'']"

definition maxAttachmentBytes :: nat where "maxAttachmentBytes = 300 * 1024"

text \<open>A download: what can be read, whether reading then fails, and the type.\<close>

record download =
  dw_bytes :: string
  dw_broken :: bool
  dw_mime :: string

type_synonym file_fetcher = "string \<Rightarrow> download option"

definition form_problem_text :: "form_problem \<Rightarrow> string" where
  "form_problem_text p =
     ''customs: '' @ (case p of
        EmptyForm \<Rightarrow> ''empty declaration form''
      | NoItems \<Rightarrow> ''declaration has no items''
      | ItemNotObject n \<Rightarrow> ''item '' @ show_nat n @ '' is not an object''
      | DocumentsNotArray k \<Rightarrow> k @ '' must be an array''
      | ScannedNotObject n \<Rightarrow> ''scanned document '' @ show_nat n @ '' is not an object''
      | ScannedIncomplete n \<Rightarrow> ''scanned document '' @ show_nat n @ '' is missing its file or document code''
      | MetaNotObject n \<Rightarrow> ''meta document '' @ show_nat n @ '' is not an object''
      | MetaIncomplete n \<Rightarrow> ''meta document '' @ show_nat n @ '' is missing the item number, document code, reference or date it needs'')"

definition buildFromInputs :: "(customs_declaration \<Rightarrow> string \<Rightarrow> string) \<Rightarrow> inputs \<Rightarrow> string + customs_declaration" where
  "buildFromInputs identify inputs =
     (case obj_get inputs ''payload'' of
        Some (JObj form) \<Rightarrow>
          (case BuildPayload identify form (text_at inputs PreviousEdgeIDKey) of
             Inl e \<Rightarrow> Inl (form_problem_text e) | Inr built \<Rightarrow> Inr built)
      | _ \<Rightarrow> Inl ''The declaration form could not be read.'')"

definition unread_attachment :: "(string \<Rightarrow> string) \<Rightarrow> support_doc \<Rightarrow> string" where
  "unread_attachment quote doc =
     ''Attachment '' @ quote (sd_file_name doc) @ '' could not be read. Please re-upload it and submit again.''"

definition fetch :: "file_fetcher option \<Rightarrow> (string \<Rightarrow> string) \<Rightarrow> support_doc \<Rightarrow> string + string \<times> string" where
  "fetch files quote doc =
     (case files of
        None \<Rightarrow> Inl ''Supporting documents cannot be attached in this environment.''
      | Some get \<Rightarrow> (case get (sd_key doc) of
          None \<Rightarrow> Inl (unread_attachment quote doc)
        | Some d \<Rightarrow>
            let content = take (maxAttachmentBytes + 1) (dw_bytes d) in
            if dw_broken d \<and> length (dw_bytes d) \<le> maxAttachmentBytes then Inl (unread_attachment quote doc)
            else if length content > maxAttachmentBytes
            then Inl (''Attachment '' @ quote (sd_file_name doc) @ '' is larger than the '' @ show_nat (maxAttachmentBytes div 1024) @
                '' KB limit Sri Lanka Customs accepts.'')
            else Inr (content, if dw_mime d = [] then ''application/pdf'' else dw_mime d)))"

fun file_parts :: "file_fetcher option \<Rightarrow> (string \<Rightarrow> string) \<Rightarrow> nat \<Rightarrow> support_doc list \<Rightarrow> string + part list" where
  "file_parts files quote i [] = Inr []"
| "file_parts files quote i (doc # docs) =
     (case fetch files quote doc of
        Inl e \<Rightarrow> Inl e
      | Inr (content, mime) \<Rightarrow> (case file_parts files quote (Suc i) docs of
          Inl e \<Rightarrow> Inl e
        | Inr parts \<Rightarrow> Inr (\<lparr>pt_name = ''file'' @ show_nat (i + 1), pt_file_name = sd_file_name doc, pt_type = mime, pt_content = content\<rparr> # parts)))"

text \<open>\<open>jsonPart\<close> is \<open>remote.JSONPart\<close>.\<close>

definition BuildParts ::
    "(customs_declaration \<Rightarrow> string \<Rightarrow> string) \<Rightarrow> (string \<Rightarrow> json \<Rightarrow> string + part) \<Rightarrow> (string \<Rightarrow> string) \<Rightarrow>
     file_fetcher option \<Rightarrow> inputs \<Rightarrow> string + part list" where
  "BuildParts identify jsonPart quote files inputs =
     (case buildFromInputs identify inputs of
        Inl e \<Rightarrow> Inl e
      | Inr built \<Rightarrow> (case jsonPart ''payload'' (declaration_json built) of
          Inl e \<Rightarrow> Inl e
        | Inr payloadPart \<Rightarrow>
            let attached = filter HasFile (de_documents built) in
            (case file_parts files quote 0 attached of
               Inl e \<Rightarrow> Inl e
             | Inr parts \<Rightarrow> Inr (payloadPart # \<lparr>pt_name = ''fileinfo'', pt_file_name = [], pt_type = [],
                 pt_content = show_nat (length attached)\<rparr> # parts))))"

definition BuildRequest_cusdec :: "(customs_declaration \<Rightarrow> string \<Rightarrow> string) \<Rightarrow> inputs \<Rightarrow> call_body" where
  "BuildRequest_cusdec identify inputs =
     (case buildFromInputs identify inputs of Inl e \<Rightarrow> JsonBody (JObj inputs) | Inr built \<Rightarrow> JsonBody (declaration_json built))"

definition hasErrors_cusdec :: "inputs \<Rightarrow> bool" where
  "hasErrors_cusdec r = (case obj_get r ''errors'' of Some (JArr es) \<Rightarrow> es \<noteq> [] | _ \<Rightarrow> False)"

definition submission_bullet :: "go_text \<Rightarrow> json \<Rightarrow> string list" where
  "submission_bullet gt e =
     (case e of
        JObj m \<Rightarrow>
          (let msg = (if text_at m ''message'' \<noteq> [] then text_at m ''message'' else text_at m ''code'');
               field = text_at m ''fieldRef'';
               msg' = (if field \<noteq> [] \<and> msg \<noteq> [] then msg @ '' _('' @ field @ '')_'' else msg)
           in if msg' \<noteq> [] then [''- '' @ msg'] else [])
      | _ \<Rightarrow> [''- '' @ gt_value gt e])"

definition validationBullets_cusdec :: "go_text \<Rightarrow> inputs \<Rightarrow> string list" where
  "validationBullets_cusdec gt r = (case obj_get r ''errors'' of Some (JArr es) \<Rightarrow> concat (map (submission_bullet gt) es) | _ \<Rightarrow> [])"

text \<open>The wording both submissions share, for a document called \<open>name\<close>.\<close>

definition failure_text :: "string \<Rightarrow> string list \<Rightarrow> call_error option \<Rightarrow> inputs \<Rightarrow> string" where
  "failure_text name bullets callErr r =
     (let intro = ''Your '' @ name @ '' was not accepted by Sri Lanka Customs:'';
          outro = newline @ newline @ ''Please correct the highlighted fields and resubmit.''
      in case callErr of
        Some (BuildError m) \<Rightarrow> ''Your '' @ name @ '' could not be submitted:'' @ newline @ newline @ ''- '' @ m
      | _ \<Rightarrow>
          if bullets \<noteq> [] then intro @ newline @ newline @ join_with newline bullets @ outro
          else if callErr \<noteq> None \<and> r = []
          then ''We could not reach Sri Lanka Customs to submit your '' @
            (if name = ''customs declaration'' then ''declaration'' else name) @ ''. Please try again in a few minutes.''
          else intro @ outro)"

definition describeFailure_cusdec :: "go_text \<Rightarrow> call_error option \<Rightarrow> inputs \<Rightarrow> string" where
  "describeFailure_cusdec gt callErr r =
     failure_text ''customs declaration''
       (let bullets = validationBullets_cusdec gt r in if bullets = [] then reason_bullets (text_at r) else bullets) callErr r"

definition Interpret_cusdec :: "go_text \<Rightarrow> call_error option \<Rightarrow> inputs option \<Rightarrow> bool \<times> inputs" where
  "Interpret_cusdec gt callErr resp =
     (let r = answered resp;
          accepted = (callErr = None \<and> \<not> hasErrors_cusdec r \<and> statusIsAccepted r);
          out = captured_of capturedFields r
      in (accepted, if accepted then out else obj_put ''error'' (JStr (describeFailure_cusdec gt callErr r)) out))"

text \<open>\<open>write\<close> is the repository, absent when nothing is recorded.\<close>

definition RecordDispatch :: "(string \<Rightarrow> string \<Rightarrow> string \<Rightarrow> 'w \<Rightarrow> bool \<times> 'w) option \<Rightarrow> string \<Rightarrow> string \<Rightarrow> string \<Rightarrow> inputs \<Rightarrow> 'w \<Rightarrow> bool \<times> 'w" where
  "RecordDispatch submissions task caseID workflowID captured w =
     (case submissions of
        None \<Rightarrow> (True, w)
      | Some write \<Rightarrow>
          if text_at captured ''edgeId'' = [] then (False, w) else write (text_at captured ''edgeId'') caseID workflowID w)"

definition CusdecInterpreter ::
    "go_text \<Rightarrow> (customs_declaration \<Rightarrow> string \<Rightarrow> string) \<Rightarrow> (string \<Rightarrow> json \<Rightarrow> string + part) \<Rightarrow> (string \<Rightarrow> string) \<Rightarrow>
     file_fetcher option \<Rightarrow> (string \<Rightarrow> string \<Rightarrow> string \<Rightarrow> 'w \<Rightarrow> bool \<times> 'w) option \<Rightarrow> 'w interpreter" where
  "CusdecInterpreter gt identify jsonPart quote files submissions =
     \<lparr>ai_request = BuildRequest_cusdec identify, ai_parts = Some (BuildParts identify jsonPart quote files),
      ai_headers = None, ai_query = None, ai_interpret = Interpret_cusdec gt, ai_record = Some (RecordDispatch submissions)\<rparr>"

subsection \<open>Dispatch notes\<close>

definition capturedFields_cdn :: "string list" where
  "capturedFields_cdn = [''edgeId'', ''status'', ''receivedAt'', ''message'', ''error'', ''detail'', ''title'', ''code'', ''fieldRef'', ''errors'']"

definition buildFromInputs_cdn ::
    "(string \<Rightarrow> rat option) \<Rightarrow> (note_form \<Rightarrow> string \<Rightarrow> string) \<Rightarrow> (string \<Rightarrow> string) \<Rightarrow> inputs \<Rightarrow> string + note_form" where
  "buildFromInputs_cdn parse identify quote inputs =
     (case obj_get inputs ''payload'' of
        Some (JObj form) \<Rightarrow>
          (case BuildPayload_note parse identify form (text_at inputs PreviousEdgeIDKey) of
             Inl e \<Rightarrow> Inl (note_problem_text quote e) | Inr built \<Rightarrow> Inr built)
      | _ \<Rightarrow> Inl ''The dispatch note form could not be read.'')"

definition BuildRequest_cdn ::
    "(string \<Rightarrow> rat option) \<Rightarrow> (note_form \<Rightarrow> string \<Rightarrow> string) \<Rightarrow> (string \<Rightarrow> string) \<Rightarrow> inputs \<Rightarrow> call_body" where
  "BuildRequest_cdn parse identify quote inputs =
     (case buildFromInputs_cdn parse identify quote inputs of
        Inl e \<Rightarrow> JsonBody (JObj [(''error'', JStr e)]) | Inr built \<Rightarrow> JsonBody (note_json built))"

definition hasErrors_cdn :: "inputs \<Rightarrow> bool" where
  "hasErrors_cdn r = (case obj_get r ''errors'' of Some (JArr es) \<Rightarrow> es \<noteq> [] | Some (JObj m) \<Rightarrow> m \<noteq> [] | _ \<Rightarrow> False)"

definition describeFailure_cdn :: "go_text \<Rightarrow> call_error option \<Rightarrow> inputs \<Rightarrow> string" where
  "describeFailure_cdn gt callErr r =
     failure_text ''cargo dispatch note''
       (let bullets = validationBullets gt (obj_get r ''errors'') in if bullets = [] then reason_bullets (stringField gt r) else bullets) callErr r"

definition Interpret_cdn :: "go_text \<Rightarrow> call_error option \<Rightarrow> inputs option \<Rightarrow> bool \<times> inputs" where
  "Interpret_cdn gt callErr resp =
     (let r = answered resp;
          accepted = (callErr = None \<and> \<not> hasErrors_cdn r \<and> statusIsAccepted r);
          out = captured_of capturedFields_cdn r
      in (accepted, if accepted then out else obj_put ''error'' (JStr (describeFailure_cdn gt callErr r)) out))"

definition CDNInterpreter ::
    "go_text \<Rightarrow> (string \<Rightarrow> rat option) \<Rightarrow> (note_form \<Rightarrow> string \<Rightarrow> string) \<Rightarrow> (string \<Rightarrow> string) \<Rightarrow>
     (string \<Rightarrow> string \<Rightarrow> string \<Rightarrow> 'w \<Rightarrow> bool \<times> 'w) option \<Rightarrow> 'w interpreter" where
  "CDNInterpreter gt parse identify quote submissions =
     \<lparr>ai_request = BuildRequest_cdn parse identify quote, ai_parts = None, ai_headers = None, ai_query = None,
      ai_interpret = Interpret_cdn gt, ai_record = Some (RecordDispatch submissions)\<rparr>"

subsection \<open>The table of submissions\<close>

text \<open>A write happens at its own time and may fail.\<close>

record 's submissions_db =
  sb_rows :: "'s doc_row list"
  sb_clock :: nat

definition RecordSubmitted_db ::
    "(nat \<Rightarrow> bool) \<Rightarrow> (nat \<Rightarrow> string) \<Rightarrow> 's \<Rightarrow> string \<Rightarrow> string \<Rightarrow> string \<Rightarrow> 's submissions_db \<Rightarrow> bool \<times> 's submissions_db" where
  "RecordSubmitted_db works fresh submitted edgeID caseID workflowID w =
     (works (sb_clock w),
      w\<lparr>sb_clock := Suc (sb_clock w),
        sb_rows := (if works (sb_clock w) then RecordSubmitted submitted (fresh (sb_clock w)) (sb_clock w) edgeID caseID workflowID (sb_rows w)
                    else sb_rows w)\<rparr>)"

lemma obj_get_captured: "k \<in> set keys \<Longrightarrow> distinct keys \<Longrightarrow> obj_get (captured_of keys r) k = obj_get r k"
proof (induction keys)
  case (Cons a keys)
  have "k \<notin> set keys \<Longrightarrow> obj_get (captured_of keys r) k = None" for k
    by (induction keys) (auto simp: captured_of_def obj_get_def split: option.splits)
  with Cons show ?case by (auto simp: captured_of_def obj_get_def split: option.splits)
qed simp

lemma found_when_new:
  assumes "e \<notin> d_edge_id ` set rows"
  shows "GetByEdgeID e (RecordSubmitted s u n e c wf_id rows) =
    Some \<lparr>d_id = u, d_edge_id = e, d_status = s, d_ref = no_ref, d_errors = NoBytes, d_case_id = c, d_workflow_id = wf_id, d_created = n\<rparr>"
proof -
  have new: "\<not> list_ex (\<lambda>d. d_edge_id d = e) rows" using assms by (auto simp: list_ex_iff)
  have found: "List.find p (rows @ [x]) = Some x" if "list_all (\<lambda>r. \<not> p r) rows" "p x" for p and x :: "'a doc_row"
    using that by (induction rows) auto
  show ?thesis
    unfolding GetByEdgeID_def first_row_def RecordSubmitted_def if_not_P [OF new]
    by (rule found) (use assms in \<open>auto simp: list_all_iff\<close>)
qed

text \<open>A write that succeeds among the ones tried is made.\<close>

lemma recorded_rows:
  assumes "works (sb_clock w + k)" and "k \<le> n" and "\<And>i. \<not> cancelled i" and "e \<notin> d_edge_id ` set (sb_rows w)"
  shows "\<exists>d. GetByEdgeID e (sb_rows (snd (recordDispatch (RecordSubmitted_db works fresh s e c wf_id) cancelled n w))) = Some d \<and>
    d_case_id d = c \<and> d_workflow_id d = wf_id \<and> d_status d = s"
proof -
  have retried: "\<exists>d. GetByEdgeID e (sb_rows (snd (record_retries (RecordSubmitted_db works fresh s e c wf_id) cancelled i m v))) = Some d \<and>
      d_case_id d = c \<and> d_workflow_id d = wf_id \<and> d_status d = s"
    if "works (sb_clock v + j)" "j < m" "e \<notin> d_edge_id ` set (sb_rows v)" for i j m v
    using that
  proof (induction m arbitrary: i j v)
    case (Suc m)
    show ?case
    proof (cases "works (sb_clock v)")
      case True
      then show ?thesis using assms(3) found_when_new [OF Suc.prems(3)] by (simp add: RecordSubmitted_db_def)
    next
      case False
      then obtain j' where j: "j = Suc j'" using Suc.prems(1) by (cases j) auto
      define v' where "v' = v\<lparr>sb_clock := Suc (sb_clock v)\<rparr>"
      have "works (sb_clock v' + j')" "j' < m" "e \<notin> d_edge_id ` set (sb_rows v')" using Suc.prems j by (simp_all add: v'_def)
      from Suc.IH [OF this, of "Suc i"] show ?thesis using False assms(3) by (simp add: RecordSubmitted_db_def v'_def)
    qed
  qed simp
  show ?thesis
  proof (cases "works (sb_clock w)")
    case True
    then show ?thesis using found_when_new [OF assms(4)] by (simp add: recordDispatch_def RecordSubmitted_db_def)
  next
    case False
    then obtain j where j: "k = Suc j" using assms(1) by (cases k) auto
    have "works (sb_clock (w\<lparr>sb_clock := Suc (sb_clock w)\<rparr>) + j)" "j < n" "e \<notin> d_edge_id ` set (sb_rows (w\<lparr>sb_clock := Suc (sb_clock w)\<rparr>))"
      using assms j by simp_all
    from retried [OF this, of 0] show ?thesis using False by (simp add: recordDispatch_def RecordSubmitted_db_def)
  qed
qed

lemma accepted_recorded:
  fixes E :: "'s submissions_db api_env"
  assumes env: "ai_record (av_interpreter E) = Some (RecordDispatch (Some (RecordSubmitted_db works fresh s)))" "\<And>i. \<not> av_cancelled E i"
    and cfg: "decodeApiConfig config = Some cfg" "pc_service_id cfg \<noteq> []" "pc_path cfg \<noteq> []" "pc_result_field cfg \<noteq> ''edgeId''"
      "expandPath (av_sprint E) (pc_path cfg) inputs = Inr path"
    and call: "call_service E cfg path inputs w = (callErr, resp, w1)" "ai_interpret (av_interpreter E) callErr resp = (True, out)"
    and e: "text_at out ''edgeId'' \<noteq> []" "text_at out ''edgeId'' \<notin> d_edge_id ` set (sb_rows w1)"
    and k: "works (sb_clock w1 + k)" "k \<le> 3"
  shows "\<exists>rec' w' d. Api_Execute E inputs ns config rec w = (Advanced, rec', w') \<and> GetByEdgeID (text_at out ''edgeId'') (sb_rows w') = Some d \<and>
    d_case_id d = pl_case rec \<and> d_workflow_id d = pl_parent rec \<and> d_status d = s"
proof -
  have t: "text_at (api_outcome cfg (True, out)) ''edgeId'' = text_at out ''edgeId''"
    using cfg(4) by (simp add: api_outcome_def text_at_def obj_get_put)
  have "\<exists>d. GetByEdgeID (text_at out ''edgeId'') (sb_rows (snd (recordDispatch
      (RecordSubmitted_db works fresh s (text_at out ''edgeId'') (pl_case rec) (pl_parent rec)) (av_cancelled E) (length recordDispatchBackoff) w1))) = Some d \<and>
    d_case_id d = pl_case rec \<and> d_workflow_id d = pl_parent rec \<and> d_status d = s"
    by (rule recorded_rows [where k = k]) (use k env(2) e(2) in \<open>simp_all add: recordDispatchBackoff_def\<close>)
  moreover have "RecordDispatch (Some (RecordSubmitted_db works fresh s)) (pl_task rec) (pl_case rec) (pl_parent rec) (api_outcome cfg (True, out)) =
      RecordSubmitted_db works fresh s (text_at out ''edgeId'') (pl_case rec) (pl_parent rec)"
    using e(1) t by (intro ext) (simp add: RecordDispatch_def)
  ultimately show ?thesis
    using cfg env(1) call by (auto simp: Api_Execute_def Let_def simp del: recordDispatchBackoff_def)
qed

lemma interpret_accepted:
  assumes "statusIsAccepted r"
  shows "\<not> hasErrors_cusdec r \<Longrightarrow> Interpret_cusdec gt None (Some r) = (True, captured_of capturedFields r)"
    and "\<not> hasErrors_cdn r \<Longrightarrow> Interpret_cdn gt None (Some r) = (True, captured_of capturedFields_cdn r)"
    and "text_at (captured_of capturedFields r) ''edgeId'' = text_at r ''edgeId''"
    and "text_at (captured_of capturedFields_cdn r) ''edgeId'' = text_at r ''edgeId''"
proof -
  show "\<not> hasErrors_cusdec r \<Longrightarrow> Interpret_cusdec gt None (Some r) = (True, captured_of capturedFields r)"
    "\<not> hasErrors_cdn r \<Longrightarrow> Interpret_cdn gt None (Some r) = (True, captured_of capturedFields_cdn r)"
    using assms by (simp_all add: Interpret_cusdec_def Interpret_cdn_def answered_def Let_def)
  have "''edgeId'' \<in> set capturedFields" "distinct capturedFields" "''edgeId'' \<in> set capturedFields_cdn" "distinct capturedFields_cdn"
    by code_simp+
  then show "text_at (captured_of capturedFields r) ''edgeId'' = text_at r ''edgeId''"
    "text_at (captured_of capturedFields_cdn r) ''edgeId'' = text_at r ''edgeId''"
    by (simp_all add: text_at_def obj_get_captured)
qed

text \<open>The integration result of a row still as it was submitted.\<close>

lemma result_resumes:
  assumes "GetByEdgeID (ir_edge_id req) (es_docs st) = Some d" and "d_status d = CusSubmitted" and "d_workflow_id d \<noteq> []"
    and "Find_parked (ev_tasks ev) (d_case_id d) (d_workflow_id d) reviewTemplateID = Inr (Some (task, step))"
    and "ev_get ev = None" and "ev_update ev = None"
    and "ev_complete ev \<lparr>cp_task = task, cp_step = step, cp_payload = reviewPayload (ev_text ev) req\<rparr> = None"
  shows "\<exists>st'. ProcessIntegrationResult ev req st = (Inr (), st') \<and>
    es_completed st' = es_completed st @ [\<lparr>cp_task = task, cp_step = step, cp_payload = reviewPayload (ev_text ev) req\<rparr>]"
  using assms
  by (simp add: ProcessIntegrationResult_def findReviewTask_def complete_step_def recordIntegrationResult_def update_doc_def Let_def)

lemma fetch_whole:
  assumes "fetch files quote doc = Inr (content, mime)"
  shows "length content \<le> maxAttachmentBytes \<and> mime \<noteq> [] \<and>
    (case files of None \<Rightarrow> False | Some get \<Rightarrow> map_option dw_bytes (get (sd_key doc)) = Some content)"
proof -
  have whole: "take (Suc n) xs = xs" if "\<not> n < length (take (Suc n) xs)" for n and xs :: string using that by auto
  obtain get d where g: "files = Some get" "get (sd_key doc) = Some d" using assms by (auto simp: fetch_def split: option.splits)
  have "\<not> maxAttachmentBytes < length (take (Suc maxAttachmentBytes) (dw_bytes d))"
    and "content = take (Suc maxAttachmentBytes) (dw_bytes d)" "mime = (if dw_mime d = [] then ''application/pdf'' else dw_mime d)"
    using assms g unfolding fetch_def Let_def by (auto split: if_splits)
  then show ?thesis using g whole by (auto simp: not_less)
qed

lemma file_parts_made:
  "file_parts files quote i docs = Inr parts \<Longrightarrow>
     map pt_name parts = map (\<lambda>n. ''file'' @ show_nat n) [Suc i..<Suc i + length docs] \<and> length parts = length docs \<and>
     list_all2 (\<lambda>p d. pt_file_name p = sd_file_name d \<and> length (pt_content p) \<le> maxAttachmentBytes \<and> pt_type p \<noteq> [] \<and>
       (case files of None \<Rightarrow> False | Some get \<Rightarrow> map_option dw_bytes (get (sd_key d)) = Some (pt_content p))) parts docs"
proof (induction docs arbitrary: i parts)
  case (Cons doc docs)
  from Cons.prems obtain content mime rest where f: "fetch files quote doc = Inr (content, mime)" "file_parts files quote (Suc i) docs = Inr rest"
    and p: "parts = \<lparr>pt_name = ''file'' @ show_nat (i + 1), pt_file_name = sd_file_name doc, pt_type = mime, pt_content = content\<rparr> # rest"
    by (auto split: sum.splits)
  have "length content \<le> maxAttachmentBytes \<and> mime \<noteq> [] \<and>
      (case files of None \<Rightarrow> False | Some get \<Rightarrow> map_option dw_bytes (get (sd_key doc)) = Some content)"
    by (rule fetch_whole [OF f(1)])
  moreover have "[Suc i..<Suc i + length (doc # docs)] = Suc i # [Suc (Suc i)..<Suc (Suc i) + length docs]"
    by (simp only: length_Cons upt_from)
  ultimately show ?case using Cons.IH [OF f(2)] unfolding p by (simp only: list.map list_all2_Cons part.simps length_Cons) simp
qed simp

subsection \<open>Properties\<close>

text \<open>C28: A declaration goes with its documents: one payload part, a fileinfo part with the number of file
  parts, and for each document with a file, in order, a part numbered from 1 without gaps that
  holds the file as it is stored, at most 300 KB of it, under the name the payload gives it.\<close>

theorem parts_match_declaration:
  assumes "BuildParts identify jsonPart quote files inputs = Inr parts"
  shows "\<exists>built first fs. buildFromInputs identify inputs = Inr built \<and> jsonPart ''payload'' (declaration_json built) = Inr first \<and>
    parts = first # \<lparr>pt_name = ''fileinfo'', pt_file_name = [], pt_type = [], pt_content = show_nat (length fs)\<rparr> # fs \<and>
    map pt_name fs = map (\<lambda>n. ''file'' @ show_nat n) [1..<Suc (length fs)] \<and>
    list_all2 (\<lambda>p d. pt_file_name p = sd_file_name d \<and> length (pt_content p) \<le> maxAttachmentBytes \<and> pt_type p \<noteq> [] \<and>
      (case files of None \<Rightarrow> False | Some get \<Rightarrow> map_option dw_bytes (get (sd_key d)) = Some (pt_content p)))
      fs (filter HasFile (de_documents built))"
proof -
  from assms obtain built first fs where b: "buildFromInputs identify inputs = Inr built" "jsonPart ''payload'' (declaration_json built) = Inr first"
    "file_parts files quote 0 (filter HasFile (de_documents built)) = Inr fs"
    and p: "parts = first # \<lparr>pt_name = ''fileinfo'', pt_file_name = [], pt_type = [],
      pt_content = show_nat (length (filter HasFile (de_documents built)))\<rparr> # fs"
    by (auto simp: BuildParts_def Let_def split: sum.splits)
  note m = file_parts_made [OF b(3)]
  show ?thesis
    by (intro exI [of _ built] exI [of _ first] exI [of _ fs] conjI) (use b(1,2) p m in \<open>simp_all del: upt_Suc\<close>)
qed

text \<open>C27: An accepted declaration is answered to its task: when SLC Edge acknowledges it with a new edge ID and
  one of the four writes works, the integration result sent for that ID completes the review step
  the consignment's workflow has parked.\<close>

theorem accepted_declaration_resumes:
  fixes E :: "cusdec_status submissions_db api_env"
  assumes "av_interpreter E = CusdecInterpreter gt identify jsonPart quote files (Some (RecordSubmitted_db works fresh CusSubmitted))"
    and "\<And>i. \<not> av_cancelled E i"
    and "decodeApiConfig config = Some cfg" "pc_service_id cfg \<noteq> []" "pc_path cfg \<noteq> []" "pc_result_field cfg \<noteq> ''edgeId''"
    and "expandPath (av_sprint E) (pc_path cfg) inputs = Inr path"
    and "call_service E cfg path inputs w = (None, Some r, w1)" "statusIsAccepted r" "\<not> hasErrors_cusdec r"
    and "text_at r ''edgeId'' \<noteq> []" "text_at r ''edgeId'' \<notin> d_edge_id ` set (sb_rows w1)"
    and "works (sb_clock w1 + k)" "k \<le> 3"
    and "Api_Execute E inputs ns config rec w = (stop, rec', w')" and "es_docs st = sb_rows w'"
    and "ir_edge_id req = text_at r ''edgeId''" and "pl_parent rec \<noteq> []"
    and "Find_parked (ev_tasks ev) (pl_case rec) (pl_parent rec) reviewTemplateID = Inr (Some (task, step))"
    and "ev_get ev = None" "ev_update ev = None"
      "ev_complete ev \<lparr>cp_task = task, cp_step = step, cp_payload = reviewPayload (ev_text ev) req\<rparr> = None"
  shows "\<exists>st'. ProcessIntegrationResult ev req st = (Inr (), st') \<and>
    es_completed st' = es_completed st @ [\<lparr>cp_task = task, cp_step = step, cp_payload = reviewPayload (ev_text ev) req\<rparr>]"
proof -
  have i: "ai_interpret (av_interpreter E) None (Some r) = (True, captured_of capturedFields r)"
    using assms(1) interpret_accepted(1) [OF assms(9,10)] by (simp add: CusdecInterpreter_def)
  have kept: "ai_record (av_interpreter E) = Some (RecordDispatch (Some (RecordSubmitted_db works fresh CusSubmitted)))"
    using assms(1) by (simp add: CusdecInterpreter_def)
  note t = interpret_accepted(3) [OF assms(9)]
  from accepted_recorded [OF kept assms(2-8) i, unfolded t, OF assms(11-14), where ns = ns and rec = rec] assms(15)
  obtain d where "GetByEdgeID (ir_edge_id req) (es_docs st) = Some d" "d_case_id d = pl_case rec" "d_workflow_id d = pl_parent rec" "d_status d = CusSubmitted"
    using assms(16,17) by auto
  with assms(18-22) show ?thesis by (intro result_resumes [of req st d]) simp_all
qed

text \<open>A declaration that cannot be assembled is not sent: nothing is called or recorded, and the trader reads
  which part is at fault.\<close>

theorem unbuilt_declaration_not_sent:
  assumes "av_interpreter E = CusdecInterpreter gt identify jsonPart quote files submissions"
    and "decodeApiConfig config = Some cfg" "pc_service_id cfg \<noteq> []" "pc_path cfg \<noteq> []" and "expandPath (av_sprint E) (pc_path cfg) inputs = Inr path"
    and "BuildParts identify jsonPart quote files inputs = Inl m"
  shows "\<exists>rec'. Api_Execute E inputs ns config rec w = (Advanced, rec', w) \<and>
    (ns = [] \<or> obj_get (pl_data rec') ns = Some (JObj (api_outcome cfg (False,
      [(''error'', JStr (''Your customs declaration could not be submitted:'' @ newline @ newline @ ''- '' @ m))]))))"
proof -
  have c: "captured_of capturedFields [] = []" by (simp add: captured_of_def obj_get_def)
  have i: "Interpret_cusdec gt (Some (BuildError m)) None =
      (False, [(''error'', JStr (''Your customs declaration could not be submitted:'' @ newline @ newline @ ''- '' @ m))])"
    by (simp add: Interpret_cusdec_def answered_def c describeFailure_cusdec_def failure_text_def Let_def)
  have "call_service E cfg path inputs w = (Some (BuildError m), None, w)"
    using assms(1,6) by (simp add: call_service_def CusdecInterpreter_def Let_def)
  then show ?thesis using assms i by (simp add: Api_Execute_def CusdecInterpreter_def Let_def)
qed

text \<open>A dispatch note that cannot be assembled is sent all the same, as an object that says why, and the
  failure is never reported to the trader as one of assembling it.\<close>

theorem unmappable_note_is_sent:
  assumes "av_interpreter E = CDNInterpreter gt parse identify quote submissions"
    and "buildFromInputs_cdn parse identify quote inputs = Inl m"
    and "call_service E cfg path inputs w = (callErr, resp, w')"
  shows "(\<exists>req. aq_body req = JsonBody (JObj [(''error'', JStr m)]) \<and>
      (case av_call E w (pc_service_id cfg) req of ((err, answer), w1) \<Rightarrow> callErr = map_option CallError err \<and> resp = answer \<and> w' = w1)) \<and>
    (case callErr of Some (BuildError _) \<Rightarrow> False | _ \<Rightarrow> True)"
proof -
  define asked where "asked = av_upper E (trim_space (pc_method cfg))"
  define req where "req = \<lparr>aq_method = (if asked = [] then ''POST'' else asked), aq_path = path, aq_query = queryFor (av_interpreter E) inputs,
    aq_body = JsonBody (JObj [(''error'', JStr m)]), aq_headers = headersFor (av_interpreter E) inputs\<rparr>"
  have "ai_request (av_interpreter E) inputs = JsonBody (JObj [(''error'', JStr m)])" "ai_parts (av_interpreter E) = None"
    using assms(1,2) by (simp_all add: CDNInterpreter_def BuildRequest_cdn_def)
  then have "call_service E cfg path inputs w =
      (case av_call E w (pc_service_id cfg) req of ((err, answer), w1) \<Rightarrow> (map_option CallError err, answer, w1))"
    by (simp add: call_service_def req_def asked_def Let_def)
  moreover have "aq_body req = JsonBody (JObj [(''error'', JStr m)])" by (simp add: req_def)
  ultimately show ?thesis using assms(3) by (auto intro!: exI [of _ req] split: prod.splits option.splits)
qed

subsection \<open>Witnesses\<close>

definition demo_inputs :: inputs where
  "demo_inputs = [(''payload'', JObj demo_form)]"

definition demo_files :: file_fetcher where
  "demo_files key = (if key = ''k/inv.pdf'' then Some \<lparr>dw_bytes = ''%PDF'', dw_broken = False, dw_mime = []\<rparr> else None)"

definition demo_part :: "string \<Rightarrow> json \<Rightarrow> string + part" where
  "demo_part name v = Inr \<lparr>pt_name = name, pt_file_name = [], pt_type = ''application/json'', pt_content = []\<rparr>"

definition demo_answer :: inputs where
  "demo_answer = [(''status'', JStr ''RECEIVED''), (''edgeId'', JStr ''e1'')]"

definition demo_caller :: "'w interpreter \<Rightarrow> 'w api_env" where
  "demo_caller I = \<lparr>av_interpreter = I, av_call = (\<lambda>w service req. ((None, Some demo_answer), w)), av_sprint = (\<lambda>_. []), av_upper = id,
     av_cancelled = (\<lambda>_. False)\<rparr>"

definition demo_config :: apiCallConfig where
  "demo_config = \<lparr>pc_service_id = ''slce'', pc_path = ''/api'', pc_method = [], pc_result_field = ''accepted'', pc_retain_state = True\<rparr>"

definition demo_raw :: raw_message where
  "demo_raw = Doc (JObj [(''service_id'', JStr ''slce''), (''path'', JStr ''/api''), (''result_field'', JStr ''accepted''), (''retain_state'', JBool True)])"

definition demo_declared_by :: plug_record where
  "demo_declared_by = \<lparr>pl_task = ''t0'', pl_case = ''c1'', pl_parent = ''w1'', pl_state = [], pl_data = []\<rparr>"

abbreviation demo_cusdec :: "file_fetcher option \<Rightarrow> (string \<Rightarrow> string \<Rightarrow> string \<Rightarrow> 'w \<Rightarrow> bool \<times> 'w) option \<Rightarrow> 'w interpreter" where
  "demo_cusdec files \<equiv> CusdecInterpreter demo_text (\<lambda>_ _. ''n1'') demo_part (\<lambda>s. s) files"

lemma demo_config_read: "decodeApiConfig demo_raw = Some demo_config" "expandPath sprint (pc_path demo_config) inputs = Inr ''/api''"
  "pc_service_id demo_config \<noteq> []" "pc_path demo_config \<noteq> []" "pc_result_field demo_config \<noteq> ''edgeId''"
proof -
  show "decodeApiConfig demo_raw = Some demo_config" by code_simp
  have "expand_from sprint inputs ''/api'' = (''/api'', [])" by (subst expand_from.simps) simp
  then show "expandPath sprint (pc_path demo_config) inputs = Inr ''/api''" by (simp add: expandPath_def demo_config_def)
qed (simp_all add: demo_config_def)

lemma demo_built:
  "\<exists>d doc. buildFromInputs (\<lambda>_ _. ''n1'') demo_inputs = Inr d \<and> filter HasFile (de_documents d) = [doc] \<and> sd_key doc = ''k/inv.pdf''"
proof -
  have "case buildFromInputs (\<lambda>_ _. ''n1'') demo_inputs of Inl _ \<Rightarrow> False | Inr d \<Rightarrow> map sd_key (filter HasFile (de_documents d)) = [''k/inv.pdf'']"
    by code_simp
  then show ?thesis by (auto simp: map_eq_Cons_conv split: sum.splits)
qed

lemma demo_parts: "\<exists>parts. BuildParts (\<lambda>_ _. ''n1'') demo_part (\<lambda>s. s) (Some demo_files) demo_inputs = Inr parts"
proof -
  obtain d doc where d: "buildFromInputs (\<lambda>_ _. ''n1'') demo_inputs = Inr d" "filter HasFile (de_documents d) = [doc]" "sd_key doc = ''k/inv.pdf''"
    using demo_built by blast
  have "fetch (Some demo_files) (\<lambda>s. s) doc = Inr (''%PDF'', ''application/pdf'')"
    by (simp add: fetch_def demo_files_def d(3) maxAttachmentBytes_def Let_def)
  then show ?thesis using d by (simp add: BuildParts_def demo_part_def Let_def)
qed

theorem parts_match_declaration_witness:
  "\<exists>parts first fs. BuildParts (\<lambda>_ _. ''n1'') demo_part (\<lambda>s. s) (Some demo_files) demo_inputs = Inr parts \<and>
     parts = first # \<lparr>pt_name = ''fileinfo'', pt_file_name = [], pt_type = [], pt_content = show_nat (length fs)\<rparr> # fs"
proof -
  from demo_parts obtain parts where p: "BuildParts (\<lambda>_ _. ''n1'') demo_part (\<lambda>s. s) (Some demo_files) demo_inputs = Inr parts"
    by blast
  with parts_match_declaration [OF p] show ?thesis by blast
qed

theorem accepted_declaration_resumes_witness:
  "\<exists>st st'. ProcessIntegrationResult (demo_env [demo_task reviewTemplateID]) demo_result st = (Inr (), st') \<and> length (es_completed st') = 1"
proof -
  define I where "I = demo_cusdec (Some demo_files) (Some (RecordSubmitted_db (\<lambda>n. n = 2) show_nat CusSubmitted))"
  define w :: "cusdec_status submissions_db" where "w = \<lparr>sb_rows = [], sb_clock = 0\<rparr>"
  from demo_parts obtain parts where "BuildParts (\<lambda>_ _. ''n1'') demo_part (\<lambda>s. s) (Some demo_files) demo_inputs = Inr parts"
    by blast
  then have call: "call_service (demo_caller I) demo_config ''/api'' demo_inputs w = (None, Some demo_answer, w)"
    by (simp add: call_service_def demo_caller_def I_def CusdecInterpreter_def Let_def)
  obtain stop rec' w' where x: "Api_Execute (demo_caller I) demo_inputs ''cusdec'' demo_raw demo_declared_by w = (stop, rec', w')"
    by (metis prod_cases3)
  define st :: "cusdec_status edge_state" where "st = \<lparr>es_docs = sb_rows w', es_completed = [], es_started = []\<rparr>"
  have a: "statusIsAccepted demo_answer" "\<not> hasErrors_cusdec demo_answer" "text_at demo_answer ''edgeId'' = ''e1''" by code_simp+
  have f: "Find_parked (ev_tasks (demo_env [demo_task reviewTemplateID])) (pl_case demo_declared_by) (pl_parent demo_declared_by) reviewTemplateID =
    Inr (Some (''t1'', ''s1''))" by code_simp
  have "\<exists>st'. ProcessIntegrationResult (demo_env [demo_task reviewTemplateID]) demo_result st = (Inr (), st') \<and>
      es_completed st' = es_completed st @ [\<lparr>cp_task = ''t1'', cp_step = ''s1'',
        cp_payload = reviewPayload (ev_text (demo_env [demo_task reviewTemplateID])) demo_result\<rparr>]"
    by (rule accepted_declaration_resumes [OF _ _ demo_config_read(1,3,4,5,2) call a(1,2) _ _ _ _ x, where k = 2 and works = "\<lambda>n. n = 2"])
      (use a f in \<open>simp_all add: demo_caller_def I_def w_def st_def demo_result_def demo_env_def demo_declared_by_def\<close>)
  then show ?thesis by (fastforce simp: st_def)
qed

theorem unbuilt_declaration_not_sent_witness:
  "\<exists>rec'. Api_Execute (demo_caller (demo_cusdec None None)) demo_inputs ''cusdec'' demo_raw demo_declared_by () = (Advanced, rec', ())"
proof -
  obtain d doc where d: "buildFromInputs (\<lambda>_ _. ''n1'') demo_inputs = Inr d" "filter HasFile (de_documents d) = [doc]"
    using demo_built by blast
  have m: "BuildParts (\<lambda>_ _. ''n1'') demo_part (\<lambda>s. s) None demo_inputs = Inl ''Supporting documents cannot be attached in this environment.''"
    using d by (simp add: BuildParts_def demo_part_def fetch_def Let_def)
  have "av_interpreter (demo_caller (demo_cusdec None None)) = demo_cusdec None None" by (simp add: demo_caller_def)
  from unbuilt_declaration_not_sent [OF this demo_config_read(1,3,4,2) m, where ns = "''cusdec''" and rec = demo_declared_by and w = "()"]
  show ?thesis by blast
qed

theorem unmappable_note_is_sent_witness:
  "\<exists>callErr resp w'. call_service (demo_caller (CDNInterpreter demo_text (\<lambda>_. None) (\<lambda>_ _. ''n1'') (\<lambda>s. s) None)) demo_config ''/api'' [] () =
     (callErr, resp, w') \<and> (case callErr of Some (BuildError _) \<Rightarrow> False | _ \<Rightarrow> True)"
proof -
  obtain callErr resp w' where c: "call_service (demo_caller (CDNInterpreter demo_text (\<lambda>_. None) (\<lambda>_ _. ''n1'') (\<lambda>s. s) None)) demo_config ''/api'' [] () =
     (callErr, resp, w')" by (metis prod_cases3)
  have "buildFromInputs_cdn (\<lambda>_. None) (\<lambda>_ _. ''n1'') (\<lambda>s. s) [] = Inl ''The dispatch note form could not be read.''" by code_simp
  from unmappable_note_is_sent [OF _ this c] c show ?thesis by (simp add: demo_caller_def)
qed

end
