(* ===== verification/Edge_Requests.thy ===== *)
theory Edge_Requests
  imports Cdn_Service "HOL-Library.Monad_Syntax"
begin

text \<open>
  Decoding the callbacks' bodies (\<open>cusdec/models.go\<close>, \<open>amendment.go\<close>, \<open>cancellation.go\<close>,
  \<open>verify_interpreter.go\<close> for the duties, \<open>cdn/models.go\<close>): what \<open>encoding/json\<close> and the
  \<open>UnmarshalJSON\<close> methods make of a document. \<open>None\<close> is a decoding error. A time is read by a
  parameter, \<open>time.Time\<close>'s RFC 3339 parser, whose inner \<open>None\<close> is the zero time. A member
  given twice under two spellings keeps the last one.
\<close>

type_synonym time_parser = "string \<Rightarrow> int option option"

subsection \<open>Times and references\<close>

fun decode_time :: "time_parser \<Rightarrow> json \<Rightarrow> int option option" where
  "decode_time tp JNull = Some None"
| "decode_time tp (JStr s) = tp s"
| "decode_time tp _ = None"

definition decode_ref :: "json \<Rightarrow> doc_ref option" where
  "decode_ref = decode_struct (\<lambda>kvs. do {
     year \<leftarrow> decode_string (member kvs ''year'');
     office \<leftarrow> decode_string (member kvs ''office'');
     serial \<leftarrow> decode_string (member kvs ''serial'');
     number \<leftarrow> decode_int64 (member kvs ''number'');
     Some \<lparr>dr_year = year, dr_office = office, dr_serial = serial, dr_number = number\<rparr> })"

text \<open>
  A declaration's payload has a field \<open>cusDecRef\<close> and the alternative \<open>cusdecRef\<close>, which differ
  in case only: the exact name goes to its own field, every other spelling to the alternative.
\<close>

definition main_ref :: "(string \<times> json) list \<Rightarrow> json" where
  "main_ref kvs = (case obj_get kvs ''cusDecRef'' of None \<Rightarrow> JNull | Some v \<Rightarrow> v)"

definition alt_ref :: "(string \<times> json) list \<Rightarrow> json" where
  "alt_ref kvs = member (filter (\<lambda>(k, _). k \<noteq> ''cusDecRef'') kvs) ''cusdecRef''"

subsection \<open>Duties\<close>

definition decode_duty_line :: "json \<Rightarrow> duty_line option" where
  "decode_duty_line = decode_struct (\<lambda>kvs. do {
     code \<leftarrow> decode_string (member kvs ''typeCode'');
     base \<leftarrow> decode_float (member kvs ''taxBaseAmount'');
     rate \<leftarrow> decode_float (member kvs ''taxRateNumeric'');
     assessed \<leftarrow> decode_float (member kvs ''taxAssessedAmount'');
     method \<leftarrow> decode_string (member kvs ''paymentMethodCode'');
     Some \<lparr>dl_type_code = code, dl_base = base, dl_rate = rate, dl_assessed = assessed, dl_method = method\<rparr> })"

definition decode_item_number :: "json \<Rightarrow> int option" where
  "decode_item_number v = do { f \<leftarrow> decode_float v; if f \<noteq> of_int \<lfloor>f\<rfloor> then None else Some \<lfloor>f\<rfloor> }"

definition decode_item_duties :: "json \<Rightarrow> (int \<times> duty_line list option) option" where
  "decode_item_duties = decode_struct (\<lambda>kvs. do {
     n \<leftarrow> decode_item_number (member kvs ''itemSequenceNumeric'');
     fees \<leftarrow> decode_slice decode_duty_line (member kvs ''dutyTaxFees'');
     Some (n, fees) })"

definition no_duties :: duties where
  "no_duties = \<lparr>du_global = None, du_items = None\<rparr>"

fun decode_duties :: "json \<Rightarrow> duties option" where
  "decode_duties JNull = Some no_duties"
| "decode_duties (JArr items) = (if items = [] then Some no_duties else None)"
| "decode_duties (JObj kvs) = do {
     global \<leftarrow> decode_slice decode_duty_line (member kvs ''globalDuties'');
     items \<leftarrow> decode_slice decode_item_duties (member kvs ''itemDutiesList'');
     Some \<lparr>du_global = global, du_items = items\<rparr> }"
| "decode_duties _ = None"

subsection \<open>Payloads and envelopes\<close>

definition decode_result_payload :: "json \<Rightarrow> result_payload option" where
  "decode_result_payload = decode_struct (\<lambda>kvs. do {
     alt \<leftarrow> decode_ref (alt_ref kvs);
     ref \<leftarrow> decode_ref (main_ref kvs);
     edge \<leftarrow> decode_string (member kvs ''edgeId'');
     integrated \<leftarrow> decode_pointer decode_bool (member kvs ''integrated'');
     total \<leftarrow> decode_pointer decode_float (member kvs ''totalAssessedAmount'');
     paid \<leftarrow> decode_pointer decode_float (member kvs ''amountPaid'');
     payable \<leftarrow> decode_pointer decode_float (member kvs ''amountPayable'');
     duties \<leftarrow> decode_duties (member kvs ''duties'');
     Some \<lparr>rp_ref = ref, rp_alt_ref = alt, rp_edge_id = edge, rp_integrated = integrated, rp_total = total, rp_paid = paid,
       rp_payable = payable, rp_duties = duties, rp_errors = raw_member kvs ''errors''\<rparr> })"

definition decode_event_payload :: "json \<Rightarrow> event_payload option" where
  "decode_event_payload = decode_struct (\<lambda>kvs. do {
     alt \<leftarrow> decode_ref (alt_ref kvs);
     ref \<leftarrow> decode_ref (main_ref kvs);
     paid \<leftarrow> decode_float (member kvs ''amountPaid'');
     currency \<leftarrow> decode_string (member kvs ''currency'');
     bank \<leftarrow> decode_string (member kvs ''bankReference'');
     release \<leftarrow> decode_string (member kvs ''releaseOrderNo'');
     exam \<leftarrow> decode_bool (member kvs ''examinationRequired'');
     vessel \<leftarrow> decode_string (member kvs ''vesselName'');
     voyage \<leftarrow> decode_string (member kvs ''voyageNo'');
     port \<leftarrow> decode_string (member kvs ''portOfLoading'');
     Some \<lparr>ep_ref = ref, ep_alt_ref = alt, ep_amount_paid = paid, ep_currency = currency, ep_bank_reference = bank,
       ep_release_order_no = release, ep_examination_required = exam, ep_vessel_name = vessel, ep_voyage_no = voyage,
       ep_port_of_loading = port\<rparr> })"

definition decode_envelope :: "time_parser \<Rightarrow> (json \<Rightarrow> 'p option) \<Rightarrow> json \<Rightarrow> 'p envelope option" where
  "decode_envelope tp payload = decode_struct (\<lambda>kvs. do {
     eventType \<leftarrow> decode_string (member kvs ''eventType'');
     processed \<leftarrow> decode_time tp (member kvs ''processedAt'');
     event \<leftarrow> decode_string (member kvs ''event'');
     process \<leftarrow> decode_time tp (member kvs ''processAt'');
     p \<leftarrow> payload (member kvs ''payload'');
     Some \<lparr>en_event = event, en_event_type = eventType, en_process_at = process, en_processed_at = processed, en_payload = p\<rparr> })"

definition decode_result :: "time_parser \<Rightarrow> json \<Rightarrow> integration_request option" where
  "decode_result tp v = map_option unmarshal_result (decode_envelope tp decode_result_payload v)"

definition decode_event :: "time_parser \<Rightarrow> json \<Rightarrow> event_request option" where
  "decode_event tp v = map_option unmarshal_event (decode_envelope tp decode_event_payload v)"

definition decode_amended :: "time_parser \<Rightarrow> json \<Rightarrow> amended_request option" where
  "decode_amended tp = decode_struct (\<lambda>kvs. do {
     event \<leftarrow> decode_string (member kvs ''eventType'');
     processed \<leftarrow> decode_time tp (member kvs ''processedAt'');
     decode_struct (\<lambda>p. do {
       ref \<leftarrow> decode_ref (member p ''cusDecRef'');
       duties \<leftarrow> decode_duties (member p ''duties'');
       operation \<leftarrow> decode_string (member p ''operationTime'');
       Some \<lparr>am_event_type = event, am_processed_at = processed, am_ref = ref, am_document = raw_member p ''cusDec'',
         am_duties = duties, am_operation_time = operation\<rparr> }) (member kvs ''payload'') })"

text \<open>Both cancellations: the payload is a reference under \<open>name\<close>.\<close>

definition decode_cancelled :: "time_parser \<Rightarrow> string \<Rightarrow> json \<Rightarrow> cancelled_request option" where
  "decode_cancelled tp name = decode_struct (\<lambda>kvs. do {
     event \<leftarrow> decode_string (member kvs ''eventType'');
     processed \<leftarrow> decode_time tp (member kvs ''processedAt'');
     decode_struct (\<lambda>p. do {
       ref \<leftarrow> decode_ref (member p name);
       Some \<lparr>ca_event_type = event, ca_processed_at = processed, ca_ref = ref\<rparr> }) (member kvs ''payload'') })"

definition decode_cdn_result_payload :: "json \<Rightarrow> cdn_result_payload option" where
  "decode_cdn_result_payload = decode_struct (\<lambda>kvs. do {
     edge \<leftarrow> decode_string (member kvs ''edgeId'');
     integrated \<leftarrow> decode_bool (member kvs ''integrated'');
     ref \<leftarrow> decode_ref (member kvs ''cdnRef'');
     Some \<lparr>cp_edge_id = edge, cp_integrated = integrated, cp_ref = ref, cp_errors = raw_member kvs ''errors''\<rparr> })"

definition decode_cdn_result :: "time_parser \<Rightarrow> json \<Rightarrow> cdn_result option" where
  "decode_cdn_result tp v = map_option unmarshal_cdn_result (decode_envelope tp decode_cdn_result_payload v)"

definition decode_cdn_ack :: "time_parser \<Rightarrow> json \<Rightarrow> cdn_ack option" where
  "decode_cdn_ack tp v = map_option unmarshal_cdn_ack (decode_envelope tp (decode_struct (\<lambda>p. decode_ref (member p ''cdnRef''))) v)"

definition decode_cdn_amended :: "time_parser \<Rightarrow> json \<Rightarrow> cdn_amended option" where
  "decode_cdn_amended tp = decode_struct (\<lambda>kvs. do {
     event \<leftarrow> decode_string (member kvs ''eventType'');
     processed \<leftarrow> decode_time tp (member kvs ''processedAt'');
     decode_struct (\<lambda>p. do {
       ref \<leftarrow> decode_ref (member p ''cdnRef'');
       operation \<leftarrow> decode_string (member p ''operationTime'');
       Some \<lparr>na_event_type = event, na_processed_at = processed, na_ref = ref, na_document = raw_member p ''cdn'',
         na_operation_time = operation\<rparr> }) (member kvs ''payload'') })"

end
