(* ===== verification/Edge_Verification.thy ===== *)
theory Edge_Verification
  imports Edge_Submissions Edge_Requests "HOL-Library.Multiset"
begin

text \<open>
  \<open>cusdec/verify_interpreter.go\<close>: the declaration sent to be checked and what the trader reads of the
  answer. Amounts are rationals, their printing the float format of \<open>go_text\<close>; a string is its
  UTF-8 bytes.
\<close>

subsection \<open>The answer\<close>

text \<open>The answer is encoded again before it is decoded, which puts the members of an object in the order of their names.\<close>

fun ordered_members :: "json \<Rightarrow> json" where
  "ordered_members (JArr vs) = JArr (map ordered_members vs)"
| "ordered_members (JObj kvs) = JObj (sort_key fst (map (\<lambda>(k, v). (k, ordered_members v)) kvs))"
| "ordered_members v = v"

record verify_response =
  vr_verified :: "bool option"
  vr_duties :: duties
  vr_errors :: raw_message

definition decode_verify :: "json \<Rightarrow> verify_response option" where
  "decode_verify = decode_struct (\<lambda>kvs. do {
     _ \<leftarrow> decode_string (member kvs ''eventType'');
     _ \<leftarrow> decode_string (member kvs ''processedAt'');
     decode_struct (\<lambda>p. do {
       verified \<leftarrow> decode_pointer decode_bool (member p ''verified'');
       duties \<leftarrow> decode_duties (member p ''duties'');
       Some \<lparr>vr_verified = verified, vr_duties = duties, vr_errors = raw_member p ''errors''\<rparr> }) (member kvs ''payload'') })"

text \<open>An answer with a verdict; a missing map is null.\<close>

definition readVerifyResponse :: "inputs option \<Rightarrow> (bool \<times> verify_response) option" where
  "readVerifyResponse resp =
     (case decode_verify (ordered_members (case resp of None \<Rightarrow> JNull | Some r \<Rightarrow> JObj r)) of
        None \<Rightarrow> None
      | Some r \<Rightarrow> map_option (\<lambda>verified. (verified, r)) (vr_verified r))"

subsection \<open>Duties\<close>

definition slice_list :: "'a list option \<Rightarrow> 'a list" where
  "slice_list xs = (case xs of None \<Rightarrow> [] | Some l \<Rightarrow> l)"

text \<open>\<open>math.Round\<close>: halves go away from zero.\<close>

definition go_round :: "rat \<Rightarrow> int" where
  "go_round r = (if 0 \<le> r then \<lfloor>r + 1 / 2\<rfloor> else \<lceil>r - 1 / 2\<rceil>)"

definition assessed :: "duty_line list \<Rightarrow> rat" where
  "assessed ls = sum_list (map dl_assessed ls)"

definition duties_sum :: "duties \<Rightarrow> rat" where
  "duties_sum d = assessed (slice_list (du_global d)) + sum_list (map (\<lambda>item. assessed (slice_list (snd item))) (slice_list (du_items d)))"

definition total :: "duties \<Rightarrow> rat" where
  "total d = of_int (go_round (duties_sum d * 100)) / 100"

definition writeDutyLine :: "go_text \<Rightarrow> duty_line \<Rightarrow> string" where
  "writeDutyLine gt l =
     ''- **'' @ dl_type_code l @ ''** '' @ [CHR 0xE2, CHR 0x80, CHR 0x94] @ '' '' @ gt_float gt (dl_assessed l) @ '' assessed (base '' @
     gt_float gt (dl_base l) @ '', rate '' @ gt_float gt (dl_rate l) @ '')'' @ newline"

definition writeDutyLines :: "go_text \<Rightarrow> duty_line list \<Rightarrow> string" where
  "writeDutyLines gt ls = concat (map (writeDutyLine gt) ls)"

definition item_section :: "go_text \<Rightarrow> int \<times> duty_line list option \<Rightarrow> string" where
  "item_section gt item =
     (if slice_list (snd item) = [] then []
      else newline @ ''**Item '' @ show_int (fst item) @ ''**'' @ newline @ newline @ writeDutyLines gt (slice_list (snd item)))"

definition renderDuties :: "go_text \<Rightarrow> duties \<Rightarrow> string" where
  "renderDuties gt d =
     ''### Verified'' @ newline @ newline @ ''Sri Lanka Customs accepted this declaration for checking. '' @
     ''Nothing has been submitted yet.'' @ newline @
     (if slice_list (du_global d) = [] \<and> slice_list (du_items d) = [] then newline @ ''No duty was assessed against it.'' @ newline
      else
        (if slice_list (du_global d) \<noteq> [] then newline @ ''**Declaration charges**'' @ newline @ newline @ writeDutyLines gt (slice_list (du_global d)) else []) @
        concat (map (item_section gt) (sort_key fst (slice_list (du_items d)))) @
        newline @ ''**Total assessed: '' @ gt_float gt (total d) @ ''**'' @ newline)"

subsection \<open>Failures\<close>

definition segmentedErrors :: "go_text \<Rightarrow> inputs \<Rightarrow> string" where
  "segmentedErrors gt r =
     (case obj_get r ''errors'' of
        None \<Rightarrow> [] | Some (JObj []) \<Rightarrow> [] | Some (JArr []) \<Rightarrow> [] | Some errs \<Rightarrow> describeErrors_cusdec gt (Doc (ordered_members errs)))"

definition nothingSent :: string where
  "nothingSent = newline @ newline @ ''Nothing has been submitted.''"

definition describeFailedCall :: "go_text \<Rightarrow> inputs \<Rightarrow> string" where
  "describeFailedCall gt r =
     (if segmentedErrors gt r \<noteq> [] then
        ''### Not verified'' @ newline @ newline @ ''Sri Lanka Customs would reject this declaration as it stands.'' @ nothingSent @
        newline @ newline @ segmentedErrors gt r @ newline
      else case List.find (\<lambda>k. \<not> blank (text_at r k)) [''error'', ''detail'', ''title'', ''message''] of
        Some k \<Rightarrow> ''### Not verified'' @ newline @ newline @ ''Sri Lanka Customs could not read this declaration:'' @ nothingSent @
          newline @ newline @ ''- '' @ trim_space (text_at r k) @ newline
      | None \<Rightarrow>
          if r = [] then ''### Verification unavailable'' @ newline @ newline @ ''Sri Lanka Customs could not be reached.'' @ nothingSent @
            '' Try again, or submit the declaration to have it checked on arrival.'' @ newline
          else ''### Not verified'' @ newline @ newline @ ''Sri Lanka Customs refused this declaration without saying why.'' @ nothingSent @
            '' Submitting it will return the same answer with their reasons.'' @ newline)"

definition describeUnreadable :: string where
  "describeUnreadable =
     ''### Verification could not be read'' @ newline @ newline @ ''Sri Lanka Customs answered, but not in a form this '' @
     ''could understand, so there is no verdict to report.'' @ newline @ newline @ ''Nothing has been submitted. '' @
     ''Submitting the declaration will have it checked on arrival.'' @ newline"

definition renderVerifyErrors :: "go_text \<Rightarrow> raw_message \<Rightarrow> string" where
  "renderVerifyErrors gt raw =
     ''### Not verified'' @ newline @ newline @ ''Sri Lanka Customs would reject this declaration as it stands. '' @
     ''Nothing has been submitted.'' @ newline @ newline @ describeErrors_cusdec gt raw @ newline"

subsection \<open>The interpreter\<close>

text \<open>A declaration that could not be built is the empty one.\<close>

definition verify_BuildRequest :: "(customs_declaration \<Rightarrow> string \<Rightarrow> string) \<Rightarrow> inputs \<Rightarrow> call_body" where
  "verify_BuildRequest identify inputs =
     (let form = (case obj_get inputs ''payload'' of Some (JObj f) \<Rightarrow> f | _ \<Rightarrow> []) in
      JsonBody (declaration_json (case buildDeclaration identify form (text_at inputs PreviousEdgeIDKey) True of
        Inl _ \<Rightarrow> no_declaration | Inr d \<Rightarrow> d)))"

definition verify_Interpret :: "go_text \<Rightarrow> call_error option \<Rightarrow> inputs option \<Rightarrow> bool \<times> inputs" where
  "verify_Interpret gt callErr resp =
     (if callErr \<noteq> None then (False, [(''summary'', JStr (describeFailedCall gt (answered resp)))])
      else case readVerifyResponse resp of
        None \<Rightarrow> (False, [(''summary'', JStr describeUnreadable)])
      | Some (True, r) \<Rightarrow> (True, [(''verified'', JBool True), (''summary'', JStr (renderDuties gt (vr_duties r))), (''total'', JNum (total (vr_duties r)))])
      | Some (False, r) \<Rightarrow> (False, [(''verified'', JBool False), (''summary'', JStr (renderVerifyErrors gt (vr_errors r)))]))"

definition VerifyInterpreter :: "go_text \<Rightarrow> (customs_declaration \<Rightarrow> string \<Rightarrow> string) \<Rightarrow> 'w interpreter" where
  "VerifyInterpreter gt identify =
     \<lparr>ai_request = verify_BuildRequest identify, ai_parts = None, ai_headers = None, ai_query = None,
      ai_interpret = verify_Interpret gt, ai_record = None\<rparr>"

subsection \<open>Properties\<close>

lemma half_away: fixes x r :: rat assumes "x \<le> r + 1 / 2" and "r - 1 / 2 \<le> x" shows "\<bar>x - r\<bar> \<le> 1 / 2"
proof (rule abs_leI)
  show "x - r \<le> 1 / 2" using assms(1) by (simp only: diff_le_eq add.commute)
  show "- (x - r) \<le> 1 / 2" using assms(2) by (simp only: minus_diff_eq diff_le_eq add.commute)
qed

lemma go_round_near: "\<bar>of_int (go_round r) - r\<bar> \<le> 1 / 2"
proof (rule half_away; cases "0 \<le> r")
  assume p: "0 \<le> r"
  then show "of_int (go_round r) \<le> r + 1 / 2" by (simp only: go_round_def if_True of_int_floor_le)
  have "r + 1 / 2 \<le> of_int \<lfloor>r + 1 / 2\<rfloor> + 1" by (rule less_imp_le) (rule floor_correct [THEN conjunct2, unfolded of_int_add of_int_1])
  then have "r + 1 / 2 - 1 \<le> of_int \<lfloor>r + 1 / 2\<rfloor>" by (simp only: diff_le_eq)
  moreover have "r + 1 / 2 - 1 = r - 1 / 2" by simp
  ultimately show "r - 1 / 2 \<le> of_int (go_round r)" using p by (simp only: go_round_def if_True)
next
  assume n: "\<not> 0 \<le> r"
  have "of_int \<lceil>r - 1 / 2\<rceil> \<le> r - 1 / 2 + 1" by (rule of_int_ceiling_le_add_one)
  moreover have "r - 1 / 2 + 1 = r + 1 / 2" by simp
  ultimately show "of_int (go_round r) \<le> r + 1 / 2" using n by (simp only: go_round_def if_False)
  show "r - 1 / 2 \<le> of_int (go_round r)" using n by (simp only: go_round_def if_False le_of_int_ceiling)
qed

lemma item_order:
  assumes "mset items = mset items'" and "distinct (map fst items)"
  shows "sort_key fst items = (sort_key fst items' :: (int \<times> 'a) list)"
proof (rule properties_for_sort_key)
  show "mset (sort_key fst items') = mset items" using assms(1) by simp
  have inj: "inj_on fst (set items')" "distinct items'"
    using assms by (metis distinct_map mset_eq_imp_distinct_iff set_mset_mset)+
  have one: "filter (\<lambda>x. fst k = fst x) ys = [k]" if "k \<in> set ys" "set ys = set items'" "distinct ys" for k and ys :: "(int \<times> 'a) list"
  proof -
    have "filter (\<lambda>x. fst k = fst x) ys = filter (\<lambda>x. x = k) ys"
      by (rule filter_cong) (use that inj(1) in \<open>auto simp: inj_on_def\<close>)
    also have "filter (\<lambda>x. x = k) ys = [k]" using that(1,3) by (induction ys) (auto simp: filter_empty_conv)
    finally show ?thesis .
  qed
  show "filter (\<lambda>x. fst k = fst x) (sort_key fst items') = filter (\<lambda>x. fst k = fst x) items" if "k \<in> set (sort_key fst items')" for k
  proof -
    have "set items = set items'" "distinct items" using assms inj by (metis set_mset_mset mset_eq_imp_distinct_iff)+
    then show ?thesis using that inj one [of k items] one [of k "sort_key fst items'"] by simp
  qed
qed simp


text \<open>The total the trader is shown is what the lines add up to, to the nearest cent.\<close>

theorem total_to_the_cent:
  "(\<exists>cents :: int. total d * 100 = of_int cents) \<and> \<bar>total d - duties_sum d\<bar> \<le> 1 / 200"
proof -
  have "\<bar>of_int (go_round (duties_sum d * 100)) - duties_sum d * 100\<bar> \<le> 1 / 2" by (rule go_round_near)
  then show ?thesis by (auto simp: total_def field_simps abs_le_iff)
qed

text \<open>A declaration counts as verified only when Customs says so: exactly when the call came back with the
  verdict true, and only a call that came back with a verdict reports one.\<close>

theorem verified_only_on_verdict:
  "fst (verify_Interpret gt callErr resp) = (callErr = None \<and> map_option fst (readVerifyResponse resp) = Some True) \<and>
   obj_get (snd (verify_Interpret gt callErr resp)) ''verified'' =
     (if callErr = None then map_option (\<lambda>a. JBool (fst a)) (readVerifyResponse resp) else None)"
  by (auto simp: verify_Interpret_def obj_get_def split: option.split prod.split bool.split)

text \<open>A declaration whose items cannot be read is sent to be verified with nothing in it, not even the parts of
  the form that could be read.\<close>

theorem unreadable_items_verify_nothing:
  assumes "obj_get inputs ''payload'' = Some (JObj form)" and "buildItems form = Inl e"
  shows "verify_BuildRequest identify inputs = JsonBody (declaration_json no_declaration)"
  using assms by (simp add: verify_BuildRequest_def buildDeclaration_def)

subsection \<open>Witnesses\<close>

definition demo_duties :: "(int \<times> duty_line list option) list \<Rightarrow> duties" where
  "demo_duties items = \<lparr>du_global = None, du_items = Some items\<rparr>"

definition demo_line :: "rat \<Rightarrow> duty_line" where
  "demo_line a = \<lparr>dl_type_code = ''CID'', dl_base = 100, dl_rate = 5, dl_assessed = a, dl_method = ''1''\<rparr>"


theorem unreadable_items_verify_nothing_witness:
  "verify_BuildRequest (\<lambda>_ _. ''n1'') [(''payload'', JObj [(''identification'', JObj [(''officeCode'', JStr ''CBEX1'')])])] =
     JsonBody (declaration_json no_declaration)"
proof -
  have "buildItems [(''identification'', JObj [(''officeCode'', JStr ''CBEX1'')])] = Inl NoItems" by code_simp
  from unreadable_items_verify_nothing [OF _ this] show ?thesis by (simp add: obj_get_def)
qed

end
