(* ===== verification/File_Fields.thy ===== *)
theory File_Fields
  imports Go_Json
begin

text \<open>
  \<open>internal/tasks/filefields\<close>: the file fields a render config declares, and the walk that
  rewrites the values at them. \<open>Replace\<close> works in place and stops at the first error, so it
  returns the data as the walk left it, and the error if any. JSON-decoded data is a tree, so
  an object or a list is changed where it stands.
\<close>

record segment =
  seg_name :: string
  seg_arrays :: nat

type_synonym path = "segment list"

datatype 'e fields_error =
    DecodeFiles
  | BadPath string string
  | DeclaredTwice path
  | ErrShape path string string string
  | FnFailed path 'e

subsection \<open>Paths\<close>

definition name_char :: "char \<Rightarrow> bool" where
  "name_char c = (let n = of_char c :: nat in
     (65 \<le> n \<and> n \<le> 90) \<or> (97 \<le> n \<and> n \<le> 122) \<or> (48 \<le> n \<and> n \<le> 57) \<or> c = CHR ''_'' \<or> c = CHR ''-'')"

definition namePattern :: "string \<Rightarrow> bool" where
  "namePattern s = (s \<noteq> [] \<and> list_all name_char s)"

abbreviation star :: string where "star \<equiv> ''[*]''"

function strip_arrays :: "string \<Rightarrow> nat \<Rightarrow> string \<times> nat" where
  "strip_arrays name arrays =
     (if has_suffix star name then strip_arrays (take (length name - 3) name) (arrays + 1) else (name, arrays))"
  by pat_completeness auto
termination by (relation "measure (\<lambda>(name, _). length name)") (auto simp: has_suffix_iff)

declare strip_arrays.simps [simp del]

fun parse_segments :: "string \<Rightarrow> string list \<Rightarrow> 'e fields_error + path" where
  "parse_segments s [] = Inr []"
| "parse_segments s (part # parts) =
     (let (name, arrays) = strip_arrays part 0 in
      if \<not> namePattern name then Inl (BadPath s part)
      else case parse_segments s parts of
        Inl e \<Rightarrow> Inl e
      | Inr segs \<Rightarrow> Inr (\<lparr>seg_name = name, seg_arrays = arrays\<rparr> # segs))"

definition parsePath :: "string \<Rightarrow> 'e fields_error + path" where
  "parsePath s = parse_segments s (split_on CHR ''.'' s)"

definition segment_String :: "segment \<Rightarrow> string" where
  "segment_String seg = seg_name seg @ concat (replicate (seg_arrays seg) star)"

definition path_String :: "path \<Rightarrow> string" where
  "path_String p = join_with ''.'' (map segment_String p)"

definition Rebase :: "path \<Rightarrow> string \<Rightarrow> path option" where
  "Rebase p prefix =
     (if prefix = [] then Some p
      else if length p < 2 \<or> hd p \<noteq> \<lparr>seg_name = prefix, seg_arrays = 0\<rparr> then None
      else Some (tl p))"

fun parse_declared :: "string list \<Rightarrow> string list \<Rightarrow> 'e fields_error + path list" where
  "parse_declared declared [] = Inr []"
| "parse_declared declared (s # ss) =
     (case parsePath s of
        Inl e \<Rightarrow> Inl e
      | Inr p \<Rightarrow>
          if path_String p \<in> set declared then Inl (DeclaredTwice p)
          else case parse_declared (path_String p # declared) ss of
            Inl e \<Rightarrow> Inl e
          | Inr ps \<Rightarrow> Inr (p # ps))"

definition Parse_fields :: "raw_message \<Rightarrow> 'e fields_error + path list" where
  "Parse_fields renderConfig =
     (case renderConfig of
        NoBytes \<Rightarrow> Inr []
      | NotJson _ \<Rightarrow> Inl DecodeFiles
      | Doc JNull \<Rightarrow> Inr []
      | Doc (JObj kvs) \<Rightarrow>
          (case decode_strings (case field_get kvs ''files'' of None \<Rightarrow> JNull | Some v \<Rightarrow> v) of
             None \<Rightarrow> Inl DecodeFiles
           | Some files \<Rightarrow> parse_declared [] files)
      | Doc _ \<Rightarrow> Inl DecodeFiles)"

subsection \<open>The walk\<close>

fun kindOf :: "json \<Rightarrow> string" where
  "kindOf (JStr _) = ''a string''"
| "kindOf (JNum _) = ''a number''"
| "kindOf (JBool _) = ''a boolean''"
| "kindOf (JObj _) = ''an object''"
| "kindOf (JArr _) = ''a list''"
| "kindOf JNull = ''a <nil>''"

text \<open>An error of the walk, before \<open>Replace\<close> names the path: a shape or \<open>fn\<close>'s own.\<close>

datatype 'e walk_error = ShapeAt string string string | FnError 'e

definition shapeError :: "string \<Rightarrow> json \<Rightarrow> string \<Rightarrow> 'e walk_error" where
  "shapeError loc v want = ShapeAt loc (kindOf v) want"

function (sequential) replaceIn :: "(string \<Rightarrow> 'e + string) \<Rightarrow> json \<Rightarrow> path \<Rightarrow> string \<Rightarrow> json \<times> 'e walk_error option"
  and replaceValue :: "(string \<Rightarrow> 'e + string) \<Rightarrow> json \<Rightarrow> nat \<Rightarrow> path \<Rightarrow> string \<Rightarrow> json \<times> 'e walk_error option"
  and replaceElems :: "(string \<Rightarrow> 'e + string) \<Rightarrow> json list \<Rightarrow> nat \<Rightarrow> path \<Rightarrow> string \<Rightarrow> json list \<times> 'e walk_error option" where
  "replaceIn fn JNull segs loc = (JNull, None)"
| "replaceIn fn (JObj kvs) (seg # rest) loc =
     (let loc' = (if loc = [] then seg_name seg else loc @ ''.'' @ seg_name seg) in
      case obj_get kvs (seg_name seg) of
        None \<Rightarrow> (JObj kvs, None)
      | Some v \<Rightarrow>
          (let (v', e) = replaceValue fn v (seg_arrays seg) rest loc' in
           (JObj (obj_put (seg_name seg) v' kvs), e)))"
| "replaceIn fn node segs loc = (node, Some (shapeError (if loc = [] then ''the task data'' else loc) node ''not an object''))"
| "replaceValue fn JNull arrays rest loc = (JNull, None)"
| "replaceValue fn (JArr vs) (Suc arrays) rest loc =
     (let (vs', e) = replaceElems fn vs arrays rest (loc @ star) in (JArr vs', e))"
| "replaceValue fn v (Suc arrays) rest loc =
     (case v of
        JStr _ \<Rightarrow> if arrays = 0 \<and> rest = [] then (v, Some (shapeError loc v ''not a list; declare it without [*]''))
                   else (v, Some (shapeError loc v ''not a list''))
      | _ \<Rightarrow> (v, Some (shapeError loc v ''not a list'')))"
| "replaceValue fn v 0 (seg # rest) loc = replaceIn fn v (seg # rest) loc"
| "replaceValue fn (JStr s) 0 [] loc =
     (if s = [] then (JStr s, None)
      else case fn s of Inl e \<Rightarrow> (JStr s, Some (FnError e)) | Inr s' \<Rightarrow> (JStr s', None))"
| "replaceValue fn (JArr vs) 0 [] loc = (JArr vs, Some (shapeError loc (JArr vs) (''not one file; declare '' @ loc @ star)))"
| "replaceValue fn v 0 [] loc = (v, Some (shapeError loc v ''not a file''))"
| "replaceElems fn [] arrays rest loc = ([], None)"
| "replaceElems fn (v # vs) arrays rest loc =
     (case replaceValue fn v arrays rest loc of
        (v', Some e) \<Rightarrow> (v' # vs, Some e)
      | (v', None) \<Rightarrow> (let (vs', e) = replaceElems fn vs arrays rest loc in (v' # vs', e)))"
  by pat_completeness auto
termination
  by (relation "inv_image (less_than <*lex*> less_than <*lex*> less_than)
       (\<lambda>x. case x of Inl (_, _, segs, _) \<Rightarrow> (length segs, 0, 0)
          | Inr (Inl (_, _, n, rest, _)) \<Rightarrow> (length rest, Suc n, 0)
          | Inr (Inr (_, vs, n, rest, _)) \<Rightarrow> (length rest, Suc n, Suc (length vs)))") auto

fun Replace_fields :: "(string \<Rightarrow> 'e + string) \<Rightarrow> json \<Rightarrow> path list \<Rightarrow> json \<times> 'e fields_error option" where
  "Replace_fields fn data [] = (data, None)"
| "Replace_fields fn data (p # ps) =
     (if p = [] then Replace_fields fn data ps
      else case replaceIn fn data p [] of
        (data', Some (ShapeAt loc kind want)) \<Rightarrow> (data', Some (ErrShape p loc kind want))
      | (data', Some (FnError e)) \<Rightarrow> (data', Some (FnFailed p e))
      | (data', None) \<Rightarrow> Replace_fields fn data' ps)"

subsection \<open>Printing and parsing paths\<close>

definition stars :: "nat \<Rightarrow> string" where
  "stars n = concat (replicate n star)"

lemma stars_Suc: "stars (Suc n) = stars n @ star"
proof -
  have "replicate (Suc n) star = replicate n star @ [star]" by (simp add: replicate_append_same)
  then show ?thesis unfolding stars_def by (simp only: concat_append concat.simps append_Nil2)
qed

lemma strip_arrays_star: "strip_arrays (t @ star) n = strip_arrays t (Suc n)"
proof -
  have "has_suffix star (t @ star)" by (auto simp: has_suffix_iff)
  then show ?thesis by (subst strip_arrays.simps) simp
qed

lemma strip_arrays_none: "\<not> has_suffix star t \<Longrightarrow> strip_arrays t n = (t, n)"
  by (subst strip_arrays.simps) simp

lemma strip_arrays_split:
  "strip_arrays name n = (base, m) \<Longrightarrow> \<exists>k. m = n + k \<and> name = base @ stars k"
proof (induction name n rule: strip_arrays.induct)
  case (1 name n)
  show ?case
  proof (cases "has_suffix star name")
    case True
    then obtain t where t: "name = t @ star" unfolding has_suffix_iff by blast
    then have "strip_arrays t (n + 1) = (base, m)" using "1.prems" by (simp add: strip_arrays_star)
    then obtain k where "m = n + 1 + k" "t = base @ stars k" using "1.IH" [OF True] t by auto
    then have "m = n + Suc k \<and> name = base @ stars (Suc k)" using t by (simp add: stars_Suc del: replicate_Suc)
    then show ?thesis by blast
  next
    case False
    with "1.prems" have "m = n + 0 \<and> name = base @ stars 0" by (simp add: strip_arrays_none stars_def)
    then show ?thesis by blast
  qed
qed

lemma strip_arrays_stars:
  "\<not> has_suffix star base \<Longrightarrow> strip_arrays (base @ stars k) n = (base, n + k)"
proof (induction k arbitrary: n)
  case 0
  then show ?case by (simp add: stars_def strip_arrays_none)
next
  case (Suc k)
  then show ?case using strip_arrays_star [of "base @ stars k" n] by (simp add: stars_Suc)
qed

lemma name_no_star: "namePattern s \<Longrightarrow> \<not> has_suffix star s"
  by (auto simp: namePattern_def has_suffix_iff list_all_iff name_char_def)

lemma name_no_dot: "namePattern s \<Longrightarrow> CHR ''.'' \<notin> set s"
  by (auto simp: namePattern_def list_all_iff name_char_def)

lemma segment_String_stars: "segment_String seg = seg_name seg @ stars (seg_arrays seg)"
  by (simp add: segment_String_def stars_def)

lemma segment_no_dot: "namePattern (seg_name seg) \<Longrightarrow> CHR ''.'' \<notin> set (segment_String seg)"
  by (auto simp: segment_String_def dest: name_no_dot)

definition path_ok :: "path \<Rightarrow> bool" where
  "path_ok p = (p \<noteq> [] \<and> list_all (\<lambda>seg. namePattern (seg_name seg)) p)"

lemma parse_segments_iff:
  "parse_segments s parts = (Inr segs :: 'e fields_error + path) \<longleftrightarrow>
     map segment_String segs = parts \<and> list_all (\<lambda>seg. namePattern (seg_name seg)) segs"
proof (induction parts arbitrary: segs)
  case (Cons part parts)
  obtain name n where st: "strip_arrays part 0 = (name, n)" by (cases "strip_arrays part 0")
  then have part: "part = name @ stars n" using strip_arrays_split by fastforce
  show ?case
  proof
    assume "parse_segments s (part # parts) = (Inr segs :: 'e fields_error + path)"
    then obtain segs' where "namePattern name" "parse_segments s parts = (Inr segs' :: 'e fields_error + path)"
      "segs = \<lparr>seg_name = name, seg_arrays = n\<rparr> # segs'"
      by (auto simp: st split: if_splits sum.splits)
    then show "map segment_String segs = part # parts \<and> list_all (\<lambda>seg. namePattern (seg_name seg)) segs"
      using Cons.IH by (simp add: segment_String_stars [of "\<lparr>seg_name = name, seg_arrays = n\<rparr>"] part)
  next
    assume a: "map segment_String segs = part # parts \<and> list_all (\<lambda>seg. namePattern (seg_name seg)) segs"
    then obtain seg segs' where s: "segs = seg # segs'" "segment_String seg = part" "map segment_String segs' = parts"
      by (cases segs) auto
    then have n: "namePattern (seg_name seg)" using a by simp
    then have "strip_arrays part 0 = (seg_name seg, seg_arrays seg)"
      using strip_arrays_stars [OF name_no_star [OF n], of "seg_arrays seg" 0] s by (simp add: segment_String_stars)
    moreover have "parse_segments s parts = (Inr segs' :: 'e fields_error + path)" using Cons.IH s a by simp
    ultimately show "parse_segments s (part # parts) = (Inr segs :: 'e fields_error + path)" using n s by simp
  qed
qed auto

lemma parsePath_iff: "parsePath s = Inr p \<longleftrightarrow> path_String p = s \<and> path_ok p"
proof
  assume "parsePath s = Inr p"
  then have "map segment_String p = split_on CHR ''.'' s" "list_all (\<lambda>seg. namePattern (seg_name seg)) p"
    by (simp_all add: parsePath_def parse_segments_iff)
  moreover from this have "p \<noteq> []" using split_on_not_Nil by (metis list.map_disc_iff)
  ultimately show "path_String p = s \<and> path_ok p" by (simp add: path_String_def path_ok_def join_split)
next
  assume a: "path_String p = s \<and> path_ok p"
  then have "\<forall>q \<in> set (map segment_String p). CHR ''.'' \<notin> set q" "map segment_String p \<noteq> []"
    using segment_no_dot by (auto simp: path_ok_def list_all_iff)
  then have "split_on CHR ''.'' s = map segment_String p"
    using a split_join [of "map segment_String p" "CHR ''.''"] by (simp add: path_String_def)
  then show "parsePath s = Inr p" using a by (simp add: parsePath_def parse_segments_iff path_ok_def)
qed

lemma parse_declared_ok:
  "parse_declared declared ss = (Inr ps :: 'e fields_error + path list) \<Longrightarrow>
   map path_String ps = ss \<and> list_all path_ok ps \<and> distinct ps \<and> (\<forall>p \<in> set ps. path_String p \<notin> set declared)"
proof (induction ss arbitrary: declared ps)
  case (Cons s ss)
  from Cons.prems obtain p ps' where p: "parsePath s = (Inr p :: 'e fields_error + path)" "path_String p \<notin> set declared"
    "parse_declared (path_String p # declared) ss = (Inr ps' :: 'e fields_error + path list)" "ps = p # ps'"
    by (auto split: sum.splits if_splits)
  from Cons.IH [OF p(3)] p show ?case by (auto simp: parsePath_iff)
qed auto

subsection \<open>What a path selects\<close>

text \<open>
  The values that are neither an object nor a list, in order, which the walk of a path
  reaches. A reached value is reached by one path only.
\<close>

fun scalar :: "json \<Rightarrow> bool" where
  "scalar (JObj _) = False"
| "scalar (JArr _) = False"
| "scalar _ = True"

fun at_path :: "path \<Rightarrow> json \<Rightarrow> json list" and at_value :: "path \<Rightarrow> nat \<Rightarrow> json \<Rightarrow> json list" where
  "at_path [] v = (if scalar v then [v] else [])"
| "at_path (seg # rest) (JObj kvs) =
     (case obj_get kvs (seg_name seg) of None \<Rightarrow> [] | Some v \<Rightarrow> at_value rest (seg_arrays seg) v)"
| "at_path (seg # rest) _ = []"
| "at_value rest 0 v = at_path rest v"
| "at_value rest (Suc n) (JArr vs) = concat (map (at_value rest n) vs)"
| "at_value rest (Suc n) _ = []"

definition through :: "(string \<Rightarrow> 'e + string) \<Rightarrow> json \<Rightarrow> json" where
  "through fn v = (case v of JStr s \<Rightarrow> if s = [] then v else (case fn s of Inl _ \<Rightarrow> v | Inr s' \<Rightarrow> JStr s') | _ \<Rightarrow> v)"

lemma at_value_null [simp]: "at_value q m JNull = (if q = [] \<and> m = 0 then [JNull] else [])"
  by (cases m; cases q) auto

lemma at_value_str [simp]: "at_value q m (JStr s) = (if q = [] \<and> m = 0 then [JStr s] else [])"
  by (cases m; cases q) auto

lemma at_value_obj [simp]: "at_value q m (JObj kvs) = (if m = 0 then at_path q (JObj kvs) else [])"
  by (cases m) auto

lemma at_value_arr: "at_value q m (JArr vs) = (case m of 0 \<Rightarrow> [] | Suc k \<Rightarrow> concat (map (at_value q k) vs))"
  by (cases m; cases q) auto

lemma at_path_null: "at_path q JNull = (if q = [] then [JNull] else [])"
  by (cases q) auto

lemma at_path_arr [simp]: "at_path q (JArr vs) = []"
  by (cases q) auto

text \<open>A completed walk passes every selected string through \<open>fn\<close> and changes no other value.\<close>

lemma walk_effect:
  "replaceIn fn v segs loc = (v', None) \<Longrightarrow> segs \<noteq> [] \<Longrightarrow>
     at_path q v' = (if q = segs then map (through fn) (at_path q v) else at_path q v)"
  "replaceValue fn v n rest loc = (v', None) \<Longrightarrow>
     at_value q m v' = (if q = rest \<and> m = n then map (through fn) (at_value q m v) else at_value q m v)"
  "replaceElems fn vs n rest loc = (vs', None) \<Longrightarrow>
     map (at_value q m) vs' = map (\<lambda>v. if q = rest \<and> m = n then map (through fn) (at_value q m v) else at_value q m v) vs"
proof (induction fn v segs loc and fn v n rest loc and fn vs n rest loc arbitrary: v' q and v' q m and vs' q m
    rule: replaceIn_replaceValue_replaceElems.induct)
  case (1 fn segs loc)
  then show ?case by (cases q) (auto split: if_splits simp: through_def)
next
  case (2 fn kvs seg rest loc)
  define loc' where "loc' = (if loc = [] then seg_name seg else loc @ ''.'' @ seg_name seg)"
  show ?case
  proof (cases "obj_get kvs (seg_name seg)")
    case None
    with 2(2) show ?thesis by (cases q) (auto simp: Let_def split: if_splits)
  next
    case (Some v)
    obtain w where w: "replaceValue fn v (seg_arrays seg) rest loc' = (w, None)" "v' = JObj (obj_put (seg_name seg) w kvs)"
      using 2(2) Some by (auto simp: Let_def loc'_def split: prod.splits)
    note IH = 2(1) [OF loc'_def Some w(1)]
    show ?thesis
    proof (cases q)
      case (Cons seg' rest')
      show ?thesis
      proof (cases "seg_name seg' = seg_name seg")
        case True
        then have "seg' = seg \<longleftrightarrow> seg_arrays seg' = seg_arrays seg" by auto
        with True show ?thesis using IH [of rest' "seg_arrays seg'"] by (auto simp: Cons w(2) obj_get_put Some)
      next
        case False
        then show ?thesis by (auto simp: Cons w(2) obj_get_put)
      qed
    qed (simp add: w(2))
  qed
qed (auto simp: shapeError_def through_def Let_def at_value_arr map_concat comp_def split: if_splits json.splits nat.splits prod.splits option.splits sum.splits)

subsection \<open>When the walk completes\<close>

text \<open>The data has the shape a path declares, and \<open>fn\<close> accepts every file under it.\<close>

function (sequential) fits_path :: "(string \<Rightarrow> bool) \<Rightarrow> path \<Rightarrow> json \<Rightarrow> bool" and fits_value :: "(string \<Rightarrow> bool) \<Rightarrow> path \<Rightarrow> nat \<Rightarrow> json \<Rightarrow> bool" where
  "fits_path ok segs JNull = True"
| "fits_path ok (seg # rest) (JObj kvs) =
     (case obj_get kvs (seg_name seg) of None \<Rightarrow> True | Some w \<Rightarrow> fits_value ok rest (seg_arrays seg) w)"
| "fits_path ok segs v = False"
| "fits_value ok rest n JNull = True"
| "fits_value ok rest (Suc n) (JArr vs) = (\<forall>w \<in> set vs. fits_value ok rest n w)"
| "fits_value ok rest (Suc n) v = False"
| "fits_value ok (seg # rest) 0 v = fits_path ok (seg # rest) v"
| "fits_value ok [] 0 (JStr s) = (s = [] \<or> ok s)"
| "fits_value ok [] 0 v = False"
  by pat_completeness auto
termination
  by (relation "inv_image (less_than <*lex*> less_than)
       (\<lambda>x. case x of Inl (_, segs, _) \<Rightarrow> (length segs, 0) | Inr (_, rest, n, _) \<Rightarrow> (length rest, Suc n))") auto

lemma walk_completes:
  "snd (replaceIn fn v segs loc) = None \<longleftrightarrow> fits_path (\<lambda>s. is_ok (fn s)) segs v"
  "snd (replaceValue fn v n rest loc) = None \<longleftrightarrow> fits_value (\<lambda>s. is_ok (fn s)) rest n v"
  "snd (replaceElems fn vs n rest loc) = None \<longleftrightarrow> (\<forall>w \<in> set vs. fits_value (\<lambda>s. is_ok (fn s)) rest n w)"
proof (induction fn v segs loc and fn v n rest loc and fn vs n rest loc rule: replaceIn_replaceValue_replaceElems.induct)
  case (2 fn kvs seg rest loc)
  define loc' where "loc' = (if loc = [] then seg_name seg else loc @ ''.'' @ seg_name seg)"
  have "snd (let (v', e) = replaceValue fn v (seg_arrays seg) rest loc' in (JObj (obj_put (seg_name seg) v' kvs), e)) = None \<longleftrightarrow>
      snd (replaceValue fn v (seg_arrays seg) rest loc') = None" for v
    by (simp add: Let_def split: prod.split)
  with 2 [OF loc'_def] show ?case
    by (simp add: Let_def flip: loc'_def split: option.split)
qed (auto simp: Let_def split: prod.splits option.splits sum.splits if_splits)

text \<open>A completed walk accepted every string it selects.\<close>

lemma fits_selected:
  "fits_path ok segs v \<Longrightarrow> segs \<noteq> [] \<Longrightarrow> JStr s \<in> set (at_path segs v) \<Longrightarrow> s = [] \<or> ok s"
  "fits_value ok rest n v \<Longrightarrow> JStr s \<in> set (at_value rest n v) \<Longrightarrow> s = [] \<or> ok s"
  by (induction ok segs v and ok rest n v rule: fits_path_fits_value.induct)
     (auto simp: at_value_arr at_path_null split: option.splits if_splits nat.splits)

lemma replace_effect:
  assumes "distinct paths" and "[] \<notin> set paths" and "Replace_fields fn data paths = (data', None)"
  shows "at_path q data' = (if q \<in> set paths then map (through fn) (at_path q data) else at_path q data)"
    and "q \<in> set paths \<Longrightarrow> JStr s \<in> set (at_path q data) \<Longrightarrow> s = [] \<or> is_ok (fn s)"
proof -
  have "at_path q data' = (if q \<in> set paths then map (through fn) (at_path q data) else at_path q data) \<and>
    (q \<in> set paths \<longrightarrow> JStr s \<in> set (at_path q data) \<longrightarrow> s = [] \<or> is_ok (fn s))"
    using assms
  proof (induction paths arbitrary: data)
    case (Cons p ps)
    then have p: "p \<noteq> []" "p \<notin> set ps" by auto
    obtain w where w: "replaceIn fn data p [] = (w, None)" "Replace_fields fn w ps = (data', None)"
      using Cons.prems(3) p by (auto split: prod.splits option.splits walk_error.splits)
    have IH: "at_path q data' = (if q \<in> set ps then map (through fn) (at_path q w) else at_path q w)"
      "q \<in> set ps \<longrightarrow> JStr s \<in> set (at_path q w) \<longrightarrow> s = [] \<or> is_ok (fn s)"
      using Cons.IH [OF _ _ w(2)] Cons.prems(1,2) by simp_all
    have "fits_path (\<lambda>s. is_ok (fn s)) p data" using walk_completes(1) [of fn data p "[]"] w(1) by simp
    from fits_selected(1) [OF this p(1)] have "JStr s \<in> set (at_path p data) \<Longrightarrow> s = [] \<or> is_ok (fn s)" by simp
    then show ?case using walk_effect(1) [OF w(1) p(1), of q] p(2) IH by auto
  qed simp
  then show "at_path q data' = (if q \<in> set paths then map (through fn) (at_path q data) else at_path q data)"
    and "q \<in> set paths \<Longrightarrow> JStr s \<in> set (at_path q data) \<Longrightarrow> s = [] \<or> is_ok (fn s)" by blast+
qed

lemma Parse_fields_ok:
  assumes "Parse_fields raw = (Inr paths :: 'e fields_error + path list)"
  shows "distinct paths" "[] \<notin> set paths"
proof -
  have "\<exists>ss. parse_declared [] ss = (Inr paths :: 'e fields_error + path list) \<or> paths = []"
    using assms by (auto simp: Parse_fields_def split: raw_message.splits json.splits option.splits)
  then show "distinct paths" "[] \<notin> set paths" using parse_declared_ok by (fastforce simp: list_all_iff path_ok_def)+
qed

subsection \<open>Properties\<close>

text \<open>
  parsing a declared path and printing it are inverse: a text parses to exactly the path
  that prints as it, if that path has segments and each name is made of letters, digits,
  underscores and hyphens; no other text parses.
\<close>
theorem path_round_trip:
  "parsePath s = (Inr p :: 'e fields_error + path) \<longleftrightarrow>
     path_String p = s \<and> p \<noteq> [] \<and> list_all (\<lambda>seg. namePattern (seg_name seg)) p"
  using parsePath_iff [of s p] by (auto simp: path_ok_def)

text \<open>
  C7: a completed \<open>Replace\<close> over the parsed fields leaves no declared file as it was and
  touches nothing else: along every path at all, the selected values are those of the original
  data, passed through \<open>fn\<close> exactly when the path is declared.
\<close>
theorem replace_protects_declared:
  assumes "Parse_fields raw = (Inr paths :: 'e fields_error + path list)"
    and "Replace_fields fn data paths = (data', None :: 'e fields_error option)"
  shows "at_path q data' = (if q \<in> set paths then map (through fn) (at_path q data) else at_path q data)"
  using replace_effect(1) [OF Parse_fields_ok [OF assms(1)] assms(2)] .

text \<open>
  \<open>Replace\<close> fails rather than leave a file unprotected: one path's walk completes exactly
  when the data has the shape the path declares all along, missing and null values aside, and
  \<open>fn\<close> accepts every non-empty string it selects.
\<close>
theorem replace_completes_iff:
  "p \<noteq> [] \<Longrightarrow> snd (Replace_fields fn data [p]) = None \<longleftrightarrow> fits_path (\<lambda>s. is_ok (fn s)) p data"
  using walk_completes(1) [of fn data p "[]"]
  by (auto split: prod.splits option.splits walk_error.splits)

definition demo_render :: raw_message where
  "demo_render = Doc (JObj [(''files'', JArr [JStr ''form.docs[*].file'', JStr ''invoice''])])"

definition demo_data :: json where
  "demo_data = JObj [(''invoice'', JStr ''k1''), (''form'', JObj [(''docs'', JArr [JObj [(''file'', JStr ''k2'')], JNull, JObj [(''file'', JStr [])]])])]"

definition demo_fn :: "string \<Rightarrow> unit + string" where
  "demo_fn s = Inr (''ref-'' @ s)"

theorem replace_protects_declared_witness:
  "\<exists>data'. Replace_fields demo_fn demo_data [[\<lparr>seg_name = ''form'', seg_arrays = 0\<rparr>, \<lparr>seg_name = ''docs'', seg_arrays = 1\<rparr>, \<lparr>seg_name = ''file'', seg_arrays = 0\<rparr>],
       [\<lparr>seg_name = ''invoice'', seg_arrays = 0\<rparr>]] = (data', None) \<and>
     at_path [\<lparr>seg_name = ''invoice'', seg_arrays = 0\<rparr>] data' = [JStr ''ref-k1'']"
proof -
  let ?ps = "[[\<lparr>seg_name = ''form'', seg_arrays = 0\<rparr>, \<lparr>seg_name = ''docs'', seg_arrays = 1\<rparr>, \<lparr>seg_name = ''file'', seg_arrays = 0\<rparr>],
       [\<lparr>seg_name = ''invoice'', seg_arrays = 0\<rparr>]]"
  have parse: "Parse_fields demo_render = (Inr ?ps :: unit fields_error + path list)" by code_simp
  have d: "snd (Replace_fields demo_fn demo_data ?ps) = None" by code_simp
  then obtain data' where r: "Replace_fields demo_fn demo_data ?ps = (data', None)"
    by (cases "Replace_fields demo_fn demo_data ?ps") auto
  have "at_path [\<lparr>seg_name = ''invoice'', seg_arrays = 0\<rparr>] data' = [JStr ''ref-k1'']"
    using replace_protects_declared [OF parse r, of "[\<lparr>seg_name = ''invoice'', seg_arrays = 0\<rparr>]"]
    by (simp add: demo_data_def through_def demo_fn_def obj_get_def)
  with r show ?thesis by blast
qed

theorem replace_completes_iff_witness:
  "snd (Replace_fields demo_fn (JObj [(''invoice'', JArr [JStr ''k1''])]) [[\<lparr>seg_name = ''invoice'', seg_arrays = 0\<rparr>]]) \<noteq> None"
  using replace_completes_iff [of "[\<lparr>seg_name = ''invoice'', seg_arrays = 0\<rparr>]" demo_fn "JObj [(''invoice'', JArr [JStr ''k1''])]"]
  by (simp add: obj_get_def del: Replace_fields.simps)

end
