(* ===== verification/File_Binding.thy ===== *)
theory File_Binding
  imports File_Fields File_Access
begin

text \<open>
  \<open>internal/tasks/file_binding.go\<close>: the file values of a task's data are swapped for
  references when a caller reads it, and swapped back when a caller submits. The references
  are \<open>Issue\<close> and \<open>Resolve\<close> of \<open>File_Access\<close>, the interface \<open>FileRefs\<close>; the render config and
  the output namespace of a task record are parameters, each possibly failing.
\<close>

datatype binding_error =
    RenderConfigFailed string
  | FieldsError "issue_error fields_error"
  | RefsError "access_error fields_error"
  | NamespaceFailed string

record binding =
  fb_render_config :: "string + raw_message"
  fb_namespace :: "string + string"

definition fileFields :: "binding \<Rightarrow> binding_error + path list" where
  "fileFields b =
     (case fb_render_config b of
        Inl e \<Rightarrow> Inl (RenderConfigFailed e)
      | Inr raw \<Rightarrow> (case Parse_fields raw of Inl e \<Rightarrow> Inl (FieldsError e) | Inr ps \<Rightarrow> Inr ps))"

text \<open>\<open>FileRefs\<close>: what a caller's reading issues and its submission resolves.\<close>

record file_refs =
  fr_issue :: "string \<Rightarrow> string list \<Rightarrow> issue_error + string"
  fr_resolve :: "string \<Rightarrow> string \<Rightarrow> access_error + string"

definition access_refs :: "'c access \<Rightarrow> int \<Rightarrow> nat \<Rightarrow> principal option \<Rightarrow> file_refs" where
  "access_refs a now nonce p = \<lparr>fr_issue = Issue a now nonce p, fr_resolve = Resolve_file a now p\<rparr>"

definition ForReader :: "binding \<Rightarrow> file_refs \<Rightarrow> json \<Rightarrow> bool \<Rightarrow> binding_error + json" where
  "ForReader b refs data canAct =
     (case fileFields b of
        Inl e \<Rightarrow> Inl e
      | Inr paths \<Rightarrow>
          if paths = [] then Inr data
          else
            let scopes = [ScopeRead] @ (if canAct then [ScopeSubmit] else [])
            in case Replace_fields (\<lambda>value. fr_issue refs value scopes) data paths of
                 (_, Some e) \<Rightarrow> Inl (FieldsError e)
               | (view, None) \<Rightarrow> Inr view)"

fun rebase_all :: "path list \<Rightarrow> string \<Rightarrow> path list" where
  "rebase_all [] namespace = []"
| "rebase_all (p # ps) namespace =
     (case Rebase p namespace of None \<Rightarrow> rebase_all ps namespace | Some q \<Rightarrow> q # rebase_all ps namespace)"

text \<open>\<open>FromCaller\<close> works in place: the payload as it leaves it, and the error if any.\<close>

definition FromCaller :: "binding \<Rightarrow> file_refs \<Rightarrow> json \<Rightarrow> json \<times> binding_error option" where
  "FromCaller b refs sub =
     (case fileFields b of
        Inl e \<Rightarrow> (sub, Some e)
      | Inr paths \<Rightarrow>
          if paths = [] then (sub, None)
          else case fb_namespace b of
            Inl e \<Rightarrow> (sub, Some (NamespaceFailed e))
          | Inr namespace \<Rightarrow>
              if namespace = [] then (sub, None)
              else case Replace_fields (\<lambda>ref. fr_resolve refs ref ScopeSubmit) sub (rebase_all paths namespace) of
                (sub', None) \<Rightarrow> (sub', None)
              | (sub', Some e) \<Rightarrow> (sub', Some (RefsError e)))"

subsection \<open>What is swapped\<close>

lemma Rebase_Some:
  assumes "namespace \<noteq> []"
  shows "Rebase p namespace = Some r \<longleftrightarrow> r \<noteq> [] \<and> p = \<lparr>seg_name = namespace, seg_arrays = 0\<rparr> # r"
proof (cases p)
  case (Cons s t)
  then show ?thesis using assms by (cases t) (auto simp: Rebase_def)
qed (use assms in \<open>simp add: Rebase_def\<close>)

lemma rebase_all_iff:
  assumes "namespace \<noteq> []"
  shows "q \<in> set (rebase_all ps namespace) \<longleftrightarrow> q \<noteq> [] \<and> \<lparr>seg_name = namespace, seg_arrays = 0\<rparr> # q \<in> set ps"
proof (induction ps)
  case (Cons p ps)
  show ?case
  proof (cases "Rebase p namespace")
    case None
    then have "\<not> (q \<noteq> [] \<and> p = \<lparr>seg_name = namespace, seg_arrays = 0\<rparr> # q)"
      using Rebase_Some [OF assms, of p q] by auto
    with None Cons show ?thesis by auto
  next
    case (Some r)
    then have "r \<noteq> []" "p = \<lparr>seg_name = namespace, seg_arrays = 0\<rparr> # r" using Rebase_Some [OF assms] by blast+
    with Some Cons show ?thesis by auto
  qed
qed simp

lemma rebase_all_distinct:
  assumes "namespace \<noteq> []"
  shows "distinct ps \<Longrightarrow> distinct (rebase_all ps namespace)"
proof (induction ps)
  case (Cons p ps)
  show ?case
  proof (cases "Rebase p namespace")
    case (Some r)
    then have "p = \<lparr>seg_name = namespace, seg_arrays = 0\<rparr> # r" using Rebase_Some [OF assms] by blast
    with Some Cons show ?thesis by (simp add: rebase_all_iff [OF assms])
  qed (use Cons in simp)
qed simp

lemma fileFields_ok:
  "fileFields b = Inr paths \<Longrightarrow> distinct paths \<and> [] \<notin> set paths"
  by (auto simp: fileFields_def dest: Parse_fields_ok split: sum.splits)

abbreviation reader_scopes :: "bool \<Rightarrow> string list" where
  "reader_scopes canAct \<equiv> [ScopeRead] @ (if canAct then [ScopeSubmit] else [])"

lemma ForReader_effect:
  assumes "ForReader b refs data canAct = Inr view" and "fileFields b = Inr paths"
  shows "at_path q view = (if q \<in> set paths then map (through (\<lambda>v. fr_issue refs v (reader_scopes canAct))) (at_path q data) else at_path q data)"
    and "q \<in> set paths \<Longrightarrow> JStr s \<in> set (at_path q data) \<Longrightarrow> s = [] \<or> is_ok (fr_issue refs s (reader_scopes canAct))"
proof -
  have r: "Replace_fields (\<lambda>v. fr_issue refs v (reader_scopes canAct)) data paths = (view, None)"
    using assms by (cases "paths = []") (auto simp: ForReader_def Let_def split: prod.splits option.splits)
  have p: "distinct paths" "[] \<notin> set paths" using fileFields_ok [OF assms(2)] by simp_all
  show "at_path q view = (if q \<in> set paths then map (through (\<lambda>v. fr_issue refs v (reader_scopes canAct))) (at_path q data) else at_path q data)"
    using p r by (rule replace_effect(1))
  show "q \<in> set paths \<Longrightarrow> JStr s \<in> set (at_path q data) \<Longrightarrow> s = [] \<or> is_ok (fr_issue refs s (reader_scopes canAct))"
    using p r by (rule replace_effect(2))
qed

lemma FromCaller_effect:
  assumes "FromCaller b refs sub = (sub', None)" and "fileFields b = Inr paths" and "fb_namespace b = Inr ns" and "ns \<noteq> []" and "q \<noteq> []"
  defines "declared \<equiv> \<lparr>seg_name = ns, seg_arrays = 0\<rparr> # q \<in> set paths"
  shows "at_path q sub' = (if declared then map (through (\<lambda>r. fr_resolve refs r ScopeSubmit)) (at_path q sub) else at_path q sub)"
    and "declared \<Longrightarrow> JStr s \<in> set (at_path q sub) \<Longrightarrow> s = [] \<or> is_ok (fr_resolve refs s ScopeSubmit)"
proof -
  have r: "Replace_fields (\<lambda>r. fr_resolve refs r ScopeSubmit) sub (rebase_all paths ns) = (sub', None)"
    using assms(1-4) by (cases "paths = []") (auto simp: FromCaller_def split: prod.splits option.splits)
  have p: "distinct (rebase_all paths ns)" "[] \<notin> set (rebase_all paths ns)"
    using fileFields_ok [OF assms(2)] assms(4) by (auto simp: rebase_all_distinct rebase_all_iff)
  have d: "q \<in> set (rebase_all paths ns) \<longleftrightarrow> declared" using assms(4,5) by (simp add: rebase_all_iff declared_def)
  show "at_path q sub' = (if declared then map (through (\<lambda>r. fr_resolve refs r ScopeSubmit)) (at_path q sub) else at_path q sub)"
    using replace_effect(1) [OF p r, of q] d by simp
  show "declared \<Longrightarrow> JStr s \<in> set (at_path q sub) \<Longrightarrow> s = [] \<or> is_ok (fr_resolve refs s ScopeSubmit)"
    using replace_effect(2) [OF p r, of q s] d by simp
qed

lemma Issue_Resolve_ref:
  assumes "access_ok a now" and "Issue a now nonce p v scopes = Inr r"
  shows "r \<noteq> []" and "p' = p \<Longrightarrow> now' < (now + ac_user_ttl a) div 1000000000 * 1000000000 \<Longrightarrow>
      Resolve_file a now' p' r need = (if need \<in> set scopes then Inr v else Inl ScopeDenied)"
    and "need \<notin> set scopes \<Longrightarrow> \<not> is_ok (Resolve_file a now' p' r need)"
proof -
  have i: "issue a now nonce (holderOf p) (case p of None \<Rightarrow> False | Some q \<Rightarrow> pr_kind q = KindUser) v scopes = Inr r"
    and h: "holderOf p \<noteq> []" using assms(2) by (auto simp: Issue_def split: if_splits)
  note res = issue_resolve [OF assms(1) i]
  show "p' = p \<Longrightarrow> now' < (now + ac_user_ttl a) div 1000000000 * 1000000000 \<Longrightarrow>
      Resolve_file a now' p' r need = (if need \<in> set scopes then Inr v else Inl ScopeDenied)"
    using h by (auto simp: res read_expiry_def unix_def)
  show "need \<notin> set scopes \<Longrightarrow> \<not> is_ok (Resolve_file a now' p' r need)" by (simp add: res)
  obtain token lt where t: "Seal (ac_codec a) now nonce \<lparr>g_resource = v, g_holder = holderOf p, g_scopes = scopes\<rparr> lt = Inr token"
    "r = token @ extension v" "lt = 0 \<or> lt = ac_user_ttl a"
    using i by (auto simp: issue_def Let_def split: if_splits sum.splits)
  have "clock_ok now lt" using assms(1) t(3) by (auto simp: access_ok_def clock_ok_def)
  from seal_open(1) [OF _ _ this t(1)] assms(1) have "dots token = 4" by (simp add: access_ok_def)
  then show "r \<noteq> []" using t(2) by (auto simp: dots_def)
qed

lemma at_path_under:
  "q \<noteq> [] \<Longrightarrow> obj_get kvs ns = Some sub \<Longrightarrow> at_path (\<lparr>seg_name = ns, seg_arrays = 0\<rparr> # q) (JObj kvs) = at_path q sub"
  by simp

lemma through_back:
  assumes "\<And>s. JStr s \<in> set xs \<Longrightarrow> s = [] \<or> is_ok (fn s)"
    and "\<And>s r. s \<noteq> [] \<Longrightarrow> fn s = Inr r \<Longrightarrow> r \<noteq> [] \<and> back r = Inr s"
  shows "map (through back) (map (through fn) xs) = xs"
  using assms(1)
proof (induction xs)
  case (Cons x xs)
  have "through back (through fn x) = x"
  proof (cases x)
    case (JStr s)
    with Cons.prems [of s] assms(2) [of s] show ?thesis by (auto simp: through_def is_ok_iff)
  qed (simp_all add: through_def)
  with Cons show ?case by simp
qed simp

subsection \<open>Properties\<close>


text \<open>
  a caller who may only read cannot submit what they read: if the view holds any declared,
  non-empty file under the step's namespace, the submission of it is refused, whoever sends it
  and whenever.
\<close>
theorem read_only_view_refused:
  assumes "access_ok a now" and "ForReader b (access_refs a now nonce p) data False = Inr (JObj kvs)"
    and "fileFields b = Inr paths" and "fb_namespace b = Inr ns" and "ns \<noteq> []" and "obj_get kvs ns = Some sub"
    and "q \<noteq> []" and "\<lparr>seg_name = ns, seg_arrays = 0\<rparr> # q \<in> set paths"
    and "JStr s \<in> set (at_path (\<lparr>seg_name = ns, seg_arrays = 0\<rparr> # q) data)" and "s \<noteq> []"
  shows "snd (FromCaller b (access_refs a now' nonce' p') sub) \<noteq> None"
proof
  assume "snd (FromCaller b (access_refs a now' nonce' p') sub) = None"
  then obtain sub' where fc: "FromCaller b (access_refs a now' nonce' p') sub = (sub', None)" by (metis surjective_pairing)
  let ?issue = "\<lambda>v. Issue a now nonce p v (reader_scopes False)"
  note out = ForReader_effect [OF assms(2,3)] and bk = FromCaller_effect [OF fc assms(3-5,7)]
  obtain r where r: "?issue s = Inr r"
    using out(2) [OF assms(8,9)] assms(10) by (auto simp: is_ok_iff access_refs_def)
  have "through ?issue (JStr s) = JStr r" using r assms(10) by (simp add: through_def)
  then have "JStr r \<in> set (at_path (\<lparr>seg_name = ns, seg_arrays = 0\<rparr> # q) (JObj kvs))"
    using out(1) [of "\<lparr>seg_name = ns, seg_arrays = 0\<rparr> # q"] assms(8,9) by (force simp: access_refs_def)
  then have "JStr r \<in> set (at_path q sub)" using assms(6,7) by simp
  then have "r = [] \<or> is_ok (Resolve_file a now' p' r ScopeSubmit)"
    using bk(2) assms(8) by (simp add: access_refs_def)
  then show False using Issue_Resolve_ref(1) [OF assms(1) r] Issue_Resolve_ref(3) [OF assms(1) r, of ScopeSubmit now' p'] by simp
qed

definition demo_binding :: binding where
  "demo_binding = \<lparr>fb_render_config = Inr (Doc (JObj [(''files'', JArr [JStr ''form.invoice''])])), fb_namespace = Inr ''form''\<rparr>"

definition demo_task_data :: json where
  "demo_task_data = JObj [(''form'', JObj [(''invoice'', JStr ''k/invoice.pdf''), (''note'', JStr ''n'')])]"

definition demo_sub :: json where
  "demo_sub = JObj [(''invoice'', JStr ''h.k.i.c.t.pdf''), (''note'', JStr ''n'')]"


theorem read_only_view_refused_witness:
  "snd (FromCaller demo_binding (access_refs (demo_access (demo_grant_doc [''read''] 15)) 14000000000 1 (Some demo_alice)) demo_sub) \<noteq> None"
proof -
  let ?a = "demo_access (demo_grant_doc [''read''] 15)"
  have v: "ForReader demo_binding (access_refs ?a 5000000000 0 (Some demo_alice)) demo_task_data False = Inr (JObj [(''form'', demo_sub)])"
    by code_simp
  have f: "fileFields demo_binding = Inr [[\<lparr>seg_name = ''form'', seg_arrays = 0\<rparr>, \<lparr>seg_name = ''invoice'', seg_arrays = 0\<rparr>]]" by code_simp
  from read_only_view_refused [OF demo_access_ok v f, of "''form''" demo_sub "[\<lparr>seg_name = ''invoice'', seg_arrays = 0\<rparr>]" "''k/invoice.pdf''"]
  show ?thesis by (simp add: demo_binding_def demo_task_data_def obj_get_def)
qed

end
