(* ===== verification/Case_Store.thy ===== *)
theory Case_Store
  imports Go_Json Case_Parties "HOL-Library.Product_Lexorder"
begin

text \<open>
  \<open>internal/caseflow/repository.go\<close>: the tables \<open>cases\<close>, \<open>case_flows\<close> and
  \<open>case_parties\<close> and the transactions over them. Each repository call is one atomic step on a
  \<open>store\<close>: the row locks the comments of \<open>Record\<close> and \<open>MarkCompleted\<close> describe serialise
  the transactions of a case. A transaction whose statement fails rolls back, so it is an error
  and no change: \<open>st_faults\<close> is the schedule of such failures, one entry a call, \<open>None\<close> a
  call that succeeds. \<open>st_clock\<close> stands for \<open>now()\<close>; \<open>updated_at\<close> is not kept.
\<close>

subsection \<open>Rows\<close>

datatype flow_status = Starting | Started | Completed

datatype case_state = CaseInProgress | CaseFinished

record case_row =
  c_id :: string
  c_name :: "string option"
  c_state :: case_state
  c_created_by :: "string option"
  c_attributes :: "(string \<times> json) list"

record flow =
  fl_workflow_id :: string
  fl_case_id :: string
  fl_template_id :: string
  fl_version :: int
  fl_status :: flow_status
  fl_payload :: "json option"
  fl_created :: nat

record owner =
  ow_role :: string
  ow_ou_handle :: string

record case_info =
  ci_attributes :: "(string \<times> json) list"
  ci_name :: string

record store =
  st_cases :: "case_row list"
  st_flows :: "flow list"
  st_parties :: "party list"
  st_clock :: nat
  st_faults :: "string option list"

datatype store_error = ErrFlowNotFound | StoreDb string

text \<open>The lifecycle order of a flow's status.\<close>

instantiation flow_status :: linorder
begin

fun status_rank :: "flow_status \<Rightarrow> nat" where
  "status_rank Starting = 0"
| "status_rank Started = 1"
| "status_rank Completed = 2"

definition less_eq_flow_status :: "flow_status \<Rightarrow> flow_status \<Rightarrow> bool" where
  "less_eq_flow_status a b = (status_rank a \<le> status_rank b)"

definition less_flow_status :: "flow_status \<Rightarrow> flow_status \<Rightarrow> bool" where
  "less_flow_status a b = (status_rank a < status_rank b)"

instance
proof
  fix a b c :: flow_status
  show "a < b \<longleftrightarrow> a \<le> b \<and> \<not> b \<le> a" by (auto simp: less_eq_flow_status_def less_flow_status_def)
  show "a \<le> a" by (simp add: less_eq_flow_status_def)
  show "a \<le> b \<Longrightarrow> b \<le> c \<Longrightarrow> a \<le> c" by (simp add: less_eq_flow_status_def)
  show "a \<le> b \<Longrightarrow> b \<le> a \<Longrightarrow> a = b" by (cases a; cases b) (auto simp: less_eq_flow_status_def)
  show "a \<le> b \<or> b \<le> a" by (auto simp: less_eq_flow_status_def)
qed

end

lemma status_bounds [simp]: "Starting \<le> s" "s \<le> Completed"
  by (cases s; simp add: less_eq_flow_status_def)+

subsection \<open>Statements\<close>

definition begin_op :: "store \<Rightarrow> string option \<times> store" where
  "begin_op db =
     ((case st_faults db of [] \<Rightarrow> None | f # _ \<Rightarrow> f),
      db\<lparr>st_faults := tl (st_faults db), st_clock := Suc (st_clock db)\<rparr>)"

definition case_exists :: "string \<Rightarrow> case_row list \<Rightarrow> bool" where
  "case_exists caseID rows = list_ex (\<lambda>c. c_id c = caseID) rows"

definition new_case :: "string \<Rightarrow> case_row" where
  "new_case caseID = \<lparr>c_id = caseID, c_name = None, c_state = CaseInProgress, c_created_by = None, c_attributes = []\<rparr>"

definition insertCase :: "string \<Rightarrow> case_row list \<Rightarrow> case_row list" where
  "insertCase caseID rows = (if case_exists caseID rows then rows else rows @ [new_case caseID])"

definition update_case :: "string \<Rightarrow> (case_row \<Rightarrow> case_row) \<Rightarrow> case_row list \<Rightarrow> case_row list" where
  "update_case caseID f rows = map (\<lambda>c. if c_id c = caseID then f c else c) rows"

definition find_flow :: "string \<Rightarrow> flow list \<Rightarrow> flow option" where
  "find_flow w rows = List.find (\<lambda>f. fl_workflow_id f = w) rows"

definition merge_attributes :: "(string \<times> json) list \<Rightarrow> (string \<times> json) list \<Rightarrow> (string \<times> json) list" where
  "merge_attributes old new = fold (\<lambda>(k, v). obj_put k v) new old"

definition mergeCaseInfo :: "case_info \<Rightarrow> case_row \<Rightarrow> case_row" where
  "mergeCaseInfo info c =
     c\<lparr>c_attributes := merge_attributes (c_attributes c) (ci_attributes info),
       c_name := (if ci_name info = [] then c_name c else Some (ci_name info))\<rparr>"

subsection \<open>Operations\<close>

definition EnsureCase :: "string \<Rightarrow> store \<Rightarrow> (store_error + unit) \<times> store" where
  "EnsureCase caseID db =
     (let (fault, db1) = begin_op db in
      case fault of Some m \<Rightarrow> (Inl (StoreDb m), db1)
      | None \<Rightarrow> (Inr (), db1\<lparr>st_cases := insertCase caseID (st_cases db1)\<rparr>))"

text \<open>
  The body of \<open>Record\<close>'s transaction; \<open>Inl\<close> rolls it back. \<open>cases.name\<close> is a
  varchar(255), so a longer name fails the update.
\<close>

definition record_tx :: "flow \<Rightarrow> owner option \<Rightarrow> case_info option \<Rightarrow> store \<Rightarrow> string + store" where
  "record_tx f own info db =
     (let caseInserted = (\<not> case_exists (fl_case_id f) (st_cases db));
          db1 = db\<lparr>st_cases := insertCase (fl_case_id f) (st_cases db)\<rparr>
      in if find_flow (fl_workflow_id f) (st_flows db1) \<noteq> None then
           (if \<not> caseInserted then Inr db1
            else Inr (db1\<lparr>st_cases := filter (\<lambda>c. c_id c \<noteq> fl_case_id f) (st_cases db1)\<rparr>))
         else
           let db2 = db1\<lparr>st_flows := st_flows db1 @ [f\<lparr>fl_status := Starting, fl_created := st_clock db1\<rparr>]\<rparr>;
               db3 = db2\<lparr>st_cases := update_case (fl_case_id f) (\<lambda>c. c\<lparr>c_state := CaseInProgress\<rparr>) (st_cases db2)\<rparr>
           in case (case info of
                      None \<Rightarrow> Inr db3
                    | Some i \<Rightarrow>
                        if 255 < rune_count (ci_name i) then Inl ''value too long for type character varying(255)''
                        else Inr (db3\<lparr>st_cases := update_case (fl_case_id f) (mergeCaseInfo i) (st_cases db3)\<rparr>)) of
                Inl e \<Rightarrow> Inl e
              | Inr db4 \<Rightarrow>
                  (case own of
                     None \<Rightarrow> Inr db4
                   | Some o' \<Rightarrow> Inr (db4\<lparr>st_parties :=
                       upsert_party (new_party (fl_case_id f) (ow_role o') (OU (ow_ou_handle o'))) (st_parties db4)\<rparr>)))"

definition Record_flow :: "flow \<Rightarrow> owner option \<Rightarrow> case_info option \<Rightarrow> store \<Rightarrow> (store_error + unit) \<times> store" where
  "Record_flow f own info db =
     (let (fault, db1) = begin_op db in
      case fault of Some m \<Rightarrow> (Inl (StoreDb m), db1)
      | None \<Rightarrow> (case record_tx f own info db1 of
            Inl m \<Rightarrow> (Inl (StoreDb m), db1)
          | Inr db2 \<Rightarrow> (Inr (), db2)))"

definition CaseAttributes :: "string \<Rightarrow> store \<Rightarrow> (store_error + (string \<times> json) list) \<times> store" where
  "CaseAttributes caseID db =
     (let (fault, db1) = begin_op db in
      case fault of Some m \<Rightarrow> (Inl (StoreDb m), db1)
      | None \<Rightarrow> (Inr (case List.find (\<lambda>c. c_id c = caseID) (st_cases db1) of None \<Rightarrow> [] | Some c \<Rightarrow> c_attributes c), db1))"

fun share_keys :: "string list \<Rightarrow> (string \<times> json) list \<Rightarrow> (string \<times> json) list \<Rightarrow> (string \<times> json) list" where
  "share_keys [] attrs shared = shared"
| "share_keys (k # ks) attrs shared =
     (case obj_get attrs k of None \<Rightarrow> share_keys ks attrs shared
      | Some v \<Rightarrow> share_keys ks attrs (obj_put k v shared))"

definition SharedAttributes :: "string list \<Rightarrow> string \<Rightarrow> store \<Rightarrow> (store_error + (string \<times> json) list) \<times> store" where
  "SharedAttributes keys caseID db =
     (case CaseAttributes caseID db of
        (Inl e, db1) \<Rightarrow> (Inl e, db1)
      | (Inr attrs, db1) \<Rightarrow> (Inr (share_keys keys attrs []), db1))"

definition MarkStarted :: "string \<Rightarrow> store \<Rightarrow> (store_error + unit) \<times> store" where
  "MarkStarted w db =
     (let (fault, db1) = begin_op db in
      case fault of Some m \<Rightarrow> (Inl (StoreDb m), db1)
      | None \<Rightarrow>
          (if find_flow w (st_flows db1) = None then (Inl ErrFlowNotFound, db1)
           else (Inr (), db1\<lparr>st_flows := map (\<lambda>f. if fl_workflow_id f = w
               then f\<lparr>fl_status := (if fl_status f = Starting then Started else fl_status f)\<rparr> else f) (st_flows db1)\<rparr>)))"

definition Get_flow :: "string \<Rightarrow> store \<Rightarrow> (store_error + flow) \<times> store" where
  "Get_flow w db =
     (let (fault, db1) = begin_op db in
      case fault of Some m \<Rightarrow> (Inl (StoreDb m), db1)
      | None \<Rightarrow> (case find_flow w (st_flows db1) of
            None \<Rightarrow> (Inl ErrFlowNotFound, db1)
          | Some f \<Rightarrow> (Inr f, db1)))"

definition ListByCase :: "string \<Rightarrow> store \<Rightarrow> (store_error + flow list) \<times> store" where
  "ListByCase caseID db =
     (let (fault, db1) = begin_op db in
      case fault of Some m \<Rightarrow> (Inl (StoreDb m), db1)
      | None \<Rightarrow> (Inr (sort_key (\<lambda>f. (fl_created f, fl_workflow_id f))
                       (filter (\<lambda>f. fl_case_id f = caseID) (st_flows db1))), db1))"

definition complete_tx :: "string \<Rightarrow> store \<Rightarrow> bool \<times> store" where
  "complete_tx w db =
     (case find_flow w (st_flows db) of
        None \<Rightarrow> (False, db)
      | Some f \<Rightarrow>
          (let caseID = fl_case_id f;
               flows = map (\<lambda>f. if fl_workflow_id f = w then f\<lparr>fl_status := Completed\<rparr> else f) (st_flows db);
               pending = list_ex (\<lambda>f. fl_case_id f = caseID \<and> fl_status f \<noteq> Completed) flows;
               db1 = db\<lparr>st_flows := flows\<rparr>
           in (True, if pending then db1
                     else db1\<lparr>st_cases := update_case caseID (\<lambda>c. c\<lparr>c_state := CaseFinished\<rparr>) (st_cases db1)\<rparr>)))"

definition MarkCompleted :: "string \<Rightarrow> store \<Rightarrow> (store_error + bool) \<times> store" where
  "MarkCompleted w db =
     (let (fault, db1) = begin_op db in
      case fault of Some m \<Rightarrow> (Inl (StoreDb m), db1)
      | None \<Rightarrow> (let (found, db2) = complete_tx w db1 in (Inr found, db2)))"

subsection \<open>The store invariant\<close>

text \<open>
  A case's state is a function of its flows: FINISHED when it has some and every one has
  completed, IN_PROGRESS otherwise. Ids are unique, every flow's case exists, and a case has
  one party a role.
\<close>

definition flows_of :: "string \<Rightarrow> flow list \<Rightarrow> flow list" where
  "flows_of caseID fs = filter (\<lambda>f. fl_case_id f = caseID) fs"

definition finished_by :: "string \<Rightarrow> flow list \<Rightarrow> bool" where
  "finished_by caseID fs = (flows_of caseID fs \<noteq> [] \<and> (\<forall>f \<in> set (flows_of caseID fs). fl_status f = Completed))"

definition rows_ok :: "case_row list \<Rightarrow> flow list \<Rightarrow> bool" where
  "rows_ok cs fs \<longleftrightarrow>
     distinct (map c_id cs) \<and> distinct (map fl_workflow_id fs) \<and>
     (\<forall>f \<in> set fs. fl_case_id f \<in> c_id ` set cs) \<and>
     (\<forall>c \<in> set cs. c_state c = CaseFinished \<longleftrightarrow> finished_by (c_id c) fs)"

definition store_ok :: "store \<Rightarrow> bool" where
  "store_ok db \<longleftrightarrow> rows_ok (st_cases db) (st_flows db) \<and> parties_ok (st_parties db)"

lemma begin_op_rows [row_simps]:
  "begin_op db = (fault, db1) \<Longrightarrow>
   st_cases db1 = st_cases db \<and> st_flows db1 = st_flows db \<and> st_parties db1 = st_parties db"
  by (auto simp: begin_op_def)

lemma store_ok_begin: "begin_op db = (fault, db1) \<Longrightarrow> store_ok db1 = store_ok db"
  by (auto simp: store_ok_def dest: begin_op_rows)

lemma case_exists_iff: "case_exists caseID rows \<longleftrightarrow> caseID \<in> c_id ` set rows"
  by (auto simp: case_exists_def list_ex_iff)

lemma find_flow_None: "find_flow w fs = None \<longleftrightarrow> w \<notin> fl_workflow_id ` set fs"
  by (auto simp: find_flow_def find_None_iff)

lemma find_flow_Some: "find_flow w fs = Some f \<Longrightarrow> f \<in> set fs \<and> fl_workflow_id f = w"
  unfolding find_flow_def by (drule find_SomeD) simp

lemma update_case_ids [simp]: "(\<And>c. c_id (f c) = c_id c) \<Longrightarrow> map c_id (update_case i f rows) = map c_id rows"
  by (auto simp: update_case_def)

lemma set_update_case:
  "set (update_case i f rows) = (\<lambda>c. if c_id c = i then f c else c) ` set rows"
  by (simp add: update_case_def)

lemma flows_of_append [simp]: "flows_of i (fs @ gs) = flows_of i fs @ flows_of i gs"
  by (simp add: flows_of_def)

lemma rows_ok_insertCase: "rows_ok cs fs \<Longrightarrow> rows_ok (insertCase i cs) fs"
  by (auto simp: rows_ok_def insertCase_def case_exists_iff new_case_def finished_by_def flows_of_def filter_empty_conv)

lemma rows_okI:
  assumes "map c_id cs' = map c_id cs" and "rows_ok cs fs" and "distinct (map fl_workflow_id fs')"
    and "fl_case_id ` set fs' \<subseteq> c_id ` set cs"
    and "\<And>c. c \<in> set cs' \<Longrightarrow> c_state c = CaseFinished \<longleftrightarrow> finished_by (c_id c) fs'"
  shows "rows_ok cs' fs'"
proof -
  have "c_id ` set cs' = c_id ` set cs" using assms(1) by (metis list.set_map)
  then show ?thesis using assms by (auto simp: rows_ok_def)
qed

lemma rows_okD:
  assumes "rows_ok cs fs"
  shows "distinct (map fl_workflow_id fs)" "fl_case_id ` set fs \<subseteq> c_id ` set cs"
    "c \<in> set cs \<Longrightarrow> c_state c = CaseFinished \<longleftrightarrow> finished_by (c_id c) fs"
  using assms by (auto simp: rows_ok_def)

lemma in_update_case:
  "c \<in> set (update_case i g cs) \<longleftrightarrow> (\<exists>c' \<in> set cs. c = (if c_id c' = i then g c' else c'))"
  unfolding update_case_def set_map image_iff ..

lemma rows_ok_update:
  assumes ok: "rows_ok cs fs" and g: "\<And>c. c_id (g c) = c_id c" "\<And>c. c_state (g c) = c_state c"
  shows "rows_ok (update_case i g cs) fs"
proof (rule rows_okI [OF _ ok])
  show "map c_id (update_case i g cs) = map c_id cs" using g(1) by simp
  show "c_state c = CaseFinished \<longleftrightarrow> finished_by (c_id c) fs" if "c \<in> set (update_case i g cs)" for c
  proof -
    obtain c' where "c' \<in> set cs" "c = (if c_id c' = i then g c' else c')"
      using \<open>c \<in> set (update_case i g cs)\<close> unfolding in_update_case by blast
    then show ?thesis using rows_okD(3) [OF ok] g by simp
  qed
qed (use rows_okD [OF ok] in auto)

text \<open>Setting a case's state to what its flows say keeps the rows in step.\<close>

lemma rows_ok_set_state:
  assumes ok: "rows_ok cs fs" and ids: "distinct (map fl_workflow_id fs')" "fl_case_id ` set fs' \<subseteq> c_id ` set cs"
    and other: "\<And>j. j \<noteq> i \<Longrightarrow> finished_by j fs' = finished_by j fs"
    and st: "s = CaseFinished \<longleftrightarrow> finished_by i fs'"
  shows "rows_ok (update_case i (\<lambda>c. c\<lparr>c_state := s\<rparr>) cs) fs'"
proof (rule rows_okI [OF _ ok])
  show "c_state c = CaseFinished \<longleftrightarrow> finished_by (c_id c) fs'" if "c \<in> set (update_case i (\<lambda>c. c\<lparr>c_state := s\<rparr>) cs)" for c
  proof -
    obtain c' where c': "c' \<in> set cs" "c = (if c_id c' = i then c'\<lparr>c_state := s\<rparr> else c')"
      using \<open>c \<in> set (update_case i (\<lambda>c. c\<lparr>c_state := s\<rparr>) cs)\<close> unfolding in_update_case by blast
    then show ?thesis using rows_okD(3) [OF ok c'(1)] other [of "c_id c'"] st by (cases "c_id c' = i") simp_all
  qed
qed (use ids in simp_all)

text \<open>Recording a new flow reopens its case.\<close>

lemma finished_by_new:
  "fl_status f \<noteq> Completed \<Longrightarrow> finished_by i (fs @ [f]) = (i \<noteq> fl_case_id f \<and> finished_by i fs)"
  by (auto simp: finished_by_def flows_of_def)

lemma rows_ok_new_flow:
  assumes ok: "rows_ok cs fs" and case_row: "fl_case_id f \<in> c_id ` set cs"
    and new: "fl_workflow_id f \<notin> fl_workflow_id ` set fs" and st: "fl_status f = Starting"
  shows "rows_ok (update_case (fl_case_id f) (\<lambda>c. c\<lparr>c_state := CaseInProgress\<rparr>) cs) (fs @ [f])"
  by (rule rows_ok_set_state [OF ok]) (use rows_okD [OF ok] case_row new st in \<open>auto simp: finished_by_new\<close>)

definition complete_flows :: "string \<Rightarrow> flow list \<Rightarrow> flow list" where
  "complete_flows w fs = map (\<lambda>f. if fl_workflow_id f = w then f\<lparr>fl_status := Completed\<rparr> else f) fs"

lemma complete_flows_ids [simp]:
  "map fl_workflow_id (complete_flows w fs) = map fl_workflow_id fs"
  "map fl_case_id (complete_flows w fs) = map fl_case_id fs"
  by (auto simp: complete_flows_def)

lemma complete_flows_cases [simp]: "fl_case_id ` set (complete_flows w fs) = fl_case_id ` set fs"
  by (metis complete_flows_ids(2) list.set_map)

lemma unique_flow:
  "distinct (map fl_workflow_id fs) \<Longrightarrow> f \<in> set fs \<Longrightarrow> g \<in> set fs \<Longrightarrow> fl_workflow_id g = fl_workflow_id f \<Longrightarrow> g = f"
  by (metis distinct_map inj_onD)

lemma flows_of_complete_other:
  assumes "\<And>g. g \<in> set fs \<Longrightarrow> fl_workflow_id g = w \<Longrightarrow> fl_case_id g \<noteq> i"
  shows "flows_of i (complete_flows w fs) = flows_of i fs"
  using assms by (induction fs) (auto simp: complete_flows_def flows_of_def)

lemma finished_by_grows:
  "finished_by i fs \<Longrightarrow> finished_by i (complete_flows w fs)"
proof -
  assume a: "finished_by i fs"
  have e: "flows_of i (complete_flows w fs) = complete_flows w (flows_of i fs)"
    by (induction fs) (auto simp: complete_flows_def flows_of_def)
  from a show ?thesis unfolding finished_by_def e by (auto simp: complete_flows_def)
qed

lemma rows_ok_complete:
  assumes ok: "rows_ok cs fs" and f: "f \<in> set fs" "fl_workflow_id f = w"
  shows "rows_ok (if finished_by (fl_case_id f) (complete_flows w fs)
                   then update_case (fl_case_id f) (\<lambda>c. c\<lparr>c_state := CaseFinished\<rparr>) cs else cs) (complete_flows w fs)"
proof -
  have ids: "distinct (map fl_workflow_id (complete_flows w fs))" "fl_case_id ` set (complete_flows w fs) \<subseteq> c_id ` set cs"
    using rows_okD [OF ok] by simp_all
  have other: "finished_by j (complete_flows w fs) = finished_by j fs" if "j \<noteq> fl_case_id f" for j
  proof -
    have "flows_of j (complete_flows w fs) = flows_of j fs"
      using unique_flow [OF rows_okD(1) [OF ok] f(1)] f(2) that by (intro flows_of_complete_other) auto
    then show ?thesis by (simp add: finished_by_def)
  qed
  show ?thesis
  proof (cases "finished_by (fl_case_id f) (complete_flows w fs)")
    case True
    have "rows_ok (update_case (fl_case_id f) (\<lambda>c. c\<lparr>c_state := CaseFinished\<rparr>) cs) (complete_flows w fs)"
      by (rule rows_ok_set_state [OF ok ids]) (use other True in auto)
    with True show ?thesis by simp
  next
    case False
    have "rows_ok cs (complete_flows w fs)"
    proof (rule rows_okI [OF refl ok ids])
      fix c assume c: "c \<in> set cs"
      show "c_state c = CaseFinished \<longleftrightarrow> finished_by (c_id c) (complete_flows w fs)"
        using rows_okD(3) [OF ok c] other [of "c_id c"] False finished_by_grows [of "c_id c" fs w]
        by (cases "c_id c = fl_case_id f") auto
    qed
    with False show ?thesis by simp
  qed
qed

subsection \<open>Every operation keeps the store well formed\<close>

text \<open>
  The shape every repository call has: it opens with \<open>begin_op\<close>, fails with its fault, and
  otherwise runs a body.
\<close>

lemmas store_ops =
  EnsureCase_def Record_flow_def CaseAttributes_def MarkStarted_def Get_flow_def ListByCase_def MarkCompleted_def

lemma insertCase_delete:
  "\<not> case_exists i cs \<Longrightarrow> filter (\<lambda>c. c_id c \<noteq> i) (insertCase i cs) = cs"
  by (auto simp: insertCase_def case_exists_iff new_case_def filter_id_conv)

lemma case_in_insertCase: "i \<in> c_id ` set (insertCase i cs)"
  by (auto simp: insertCase_def case_exists_iff new_case_def)

text \<open>A repeated workflow ID leaves the store as it was, but for nothing.\<close>

lemma record_tx_repeat:
  "find_flow (fl_workflow_id f) (st_flows db) \<noteq> None \<Longrightarrow> record_tx f own info db = Inr db"
  by (auto simp: record_tx_def Let_def insertCase_delete) (simp add: insertCase_def)

lemma update_case_compose:
  "(\<And>c. c_id (g c) = c_id c) \<Longrightarrow> update_case i h (update_case i g cs) = update_case i (h \<circ> g) cs"
  by (auto simp: update_case_def)

definition recorded :: "flow \<Rightarrow> store \<Rightarrow> flow" where
  "recorded f db = f\<lparr>fl_status := Starting, fl_created := st_clock db\<rparr>"

definition with_info :: "string \<Rightarrow> case_info option \<Rightarrow> case_row list \<Rightarrow> case_row list" where
  "with_info i info cs = (case info of None \<Rightarrow> cs | Some ci \<Rightarrow> update_case i (mergeCaseInfo ci) cs)"

definition with_owner :: "string \<Rightarrow> owner option \<Rightarrow> party list \<Rightarrow> party list" where
  "with_owner i own ps = (case own of None \<Rightarrow> ps
     | Some ow \<Rightarrow> upsert_party (new_party i (ow_role ow) (OU (ow_ou_handle ow))) ps)"

definition name_fits :: "case_info option \<Rightarrow> bool" where
  "name_fits info = (case info of None \<Rightarrow> True | Some ci \<Rightarrow> rune_count (ci_name ci) \<le> 255)"

text \<open>A first record, whole: the flow row, the reopened case, what it says of the case, its owner.\<close>

lemma record_tx_new:
  assumes "find_flow (fl_workflow_id f) (st_flows db) = None"
  shows "record_tx f own info db =
    (if name_fits info then Inr (db\<lparr>
       st_cases := with_info (fl_case_id f) info
         (update_case (fl_case_id f) (\<lambda>c. c\<lparr>c_state := CaseInProgress\<rparr>) (insertCase (fl_case_id f) (st_cases db))),
       st_flows := st_flows db @ [recorded f db],
       st_parties := with_owner (fl_case_id f) own (st_parties db)\<rparr>)
     else Inl ''value too long for type character varying(255)'')"
  using assms
  by (cases info; cases own)
     (auto simp: record_tx_def Let_def recorded_def with_info_def with_owner_def name_fits_def)

lemma rows_ok_with_info: "rows_ok cs fs \<Longrightarrow> rows_ok (with_info i info cs) fs"
  by (auto simp: with_info_def mergeCaseInfo_def intro!: rows_ok_update split: option.splits)

lemma parties_ok_with_owner: "parties_ok ps \<Longrightarrow> parties_ok (with_owner i own ps)"
  by (auto simp: with_owner_def intro: parties_ok_upsert split: option.splits)

lemma record_tx_ok:
  assumes ok: "store_ok db" and r: "record_tx f own info db = Inr db'"
  shows "store_ok db'"
proof (cases "find_flow (fl_workflow_id f) (st_flows db)")
  case (Some g)
  with r show ?thesis using ok by (simp add: record_tx_repeat)
next
  case None
  have new: "fl_workflow_id (recorded f db) \<notin> fl_workflow_id ` set (st_flows db)"
    using None by (simp add: find_flow_None recorded_def)
  have "rows_ok (insertCase (fl_case_id f) (st_cases db)) (st_flows db)"
    using ok by (auto simp: store_ok_def intro: rows_ok_insertCase)
  then have "rows_ok (update_case (fl_case_id f) (\<lambda>c. c\<lparr>c_state := CaseInProgress\<rparr>) (insertCase (fl_case_id f) (st_cases db)))
     (st_flows db @ [recorded f db])"
    using rows_ok_new_flow [of "insertCase (fl_case_id f) (st_cases db)" "st_flows db" "recorded f db"] new
      case_in_insertCase [of "fl_case_id f" "st_cases db"]
    by (simp add: recorded_def)
  then show ?thesis
    using r None ok by (auto simp: record_tx_new store_ok_def intro: rows_ok_with_info parties_ok_with_owner split: if_splits)
qed

lemma complete_tx_found:
  assumes "find_flow w (st_flows db) = Some f"
  shows "complete_tx w db = (True, db\<lparr>st_flows := complete_flows w (st_flows db),
    st_cases := (if finished_by (fl_case_id f) (complete_flows w (st_flows db))
       then update_case (fl_case_id f) (\<lambda>c. c\<lparr>c_state := CaseFinished\<rparr>) (st_cases db) else st_cases db)\<rparr>)"
proof -
  have f: "f \<in> set (st_flows db)" "fl_workflow_id f = w" using find_flow_Some [OF assms] by simp_all
  then have "f\<lparr>fl_status := Completed\<rparr> \<in> set (flows_of (fl_case_id f) (complete_flows w (st_flows db)))"
    by (simp add: flows_of_def complete_flows_def del: if_image_distrib) (rule image_eqI [of _ _ f], simp_all)
  then have "flows_of (fl_case_id f) (complete_flows w (st_flows db)) \<noteq> []" by fastforce
  then have "list_ex (\<lambda>g. fl_case_id g = fl_case_id f \<and> fl_status g \<noteq> Completed) (complete_flows w (st_flows db))
      \<longleftrightarrow> \<not> finished_by (fl_case_id f) (complete_flows w (st_flows db))"
    by (auto simp: finished_by_def flows_of_def list_ex_iff)
  then show ?thesis
    using assms by (simp add: complete_tx_def Let_def flip: complete_flows_def)
qed

lemma complete_tx_missing: "find_flow w (st_flows db) = None \<Longrightarrow> complete_tx w db = (False, db)"
  by (simp add: complete_tx_def)

lemma complete_tx_ok:
  assumes ok: "store_ok db" and c: "complete_tx w db = (b, db')"
  shows "store_ok db'"
proof (cases "find_flow w (st_flows db)")
  case None
  with c ok show ?thesis by (simp add: complete_tx_missing)
next
  case (Some f)
  have "rows_ok (st_cases db') (st_flows db')" "st_parties db' = st_parties db"
    using rows_ok_complete [of "st_cases db" "st_flows db" f w] ok find_flow_Some [OF Some] c
    by (auto simp: complete_tx_found [OF Some] store_ok_def)
  with ok show ?thesis by (simp add: store_ok_def)
qed

subsection \<open>What one operation does to the rows\<close>

definition flow_follows :: "flow \<Rightarrow> flow \<Rightarrow> bool" where
  "flow_follows f g \<longleftrightarrow>
     fl_workflow_id g = fl_workflow_id f \<and> fl_case_id g = fl_case_id f \<and> fl_template_id g = fl_template_id f \<and>
     fl_version g = fl_version f \<and> fl_payload g = fl_payload f \<and> fl_created g = fl_created f \<and> fl_status f \<le> fl_status g"

lemma flow_follows_refl [simp]: "flow_follows f f"
  by (simp add: flow_follows_def)

lemma flow_follows_trans: "flow_follows f g \<Longrightarrow> flow_follows g h \<Longrightarrow> flow_follows f h"
  by (auto simp: flow_follows_def)

text \<open>The flows of the later store extend those of the earlier, each followed by its successor.\<close>

definition flows_extend :: "flow list \<Rightarrow> flow list \<Rightarrow> bool" where
  "flows_extend fs gs \<longleftrightarrow> length fs \<le> length gs \<and> list_all2 flow_follows fs (take (length fs) gs)"

lemma flows_extend_refl [simp]: "flows_extend fs fs"
  by (auto simp: flows_extend_def intro: list_all2_refl)

lemma flows_extend_append [simp]: "flows_extend fs (fs @ gs)"
  by (auto simp: flows_extend_def intro: list_all2_refl)

lemma flows_extend_map: "(\<And>f. f \<in> set fs \<Longrightarrow> flow_follows f (h f)) \<Longrightarrow> flows_extend fs (map h fs)"
  by (auto simp: flows_extend_def list_all2_conv_all_nth)

lemma flows_extend_trans: "flows_extend fs gs \<Longrightarrow> flows_extend gs hs \<Longrightarrow> flows_extend fs hs"
  by (auto simp: flows_extend_def list_all2_conv_all_nth intro: flow_follows_trans)

lemma flows_extend_in: "flows_extend fs gs \<Longrightarrow> f \<in> set fs \<Longrightarrow> \<exists>g \<in> set gs. flow_follows f g"
  unfolding flows_extend_def list_all2_conv_all_nth
  by (metis in_set_conv_nth length_take min.absorb2 nth_take less_le_trans)

inductive store_step :: "store \<Rightarrow> store \<Rightarrow> bool" where
  step_ensure: "EnsureCase i db = (r, db') \<Longrightarrow> store_step db db'"
| step_record: "Record_flow f own info db = (r, db') \<Longrightarrow> store_step db db'"
| step_attrs: "CaseAttributes i db = (r', db') \<Longrightarrow> store_step db db'"
| step_started: "MarkStarted w db = (r, db') \<Longrightarrow> store_step db db'"
| step_get: "Get_flow w db = (r2, db') \<Longrightarrow> store_step db db'"
| step_list: "ListByCase i db = (r3, db') \<Longrightarrow> store_step db db'"
| step_completed: "MarkCompleted w db = (r4, db') \<Longrightarrow> store_step db db'"

inductive_cases store_stepE: "store_step db db'"

definition start_flow_row :: "string \<Rightarrow> flow \<Rightarrow> flow" where
  "start_flow_row w f = (if fl_workflow_id f = w
     then f\<lparr>fl_status := (if fl_status f = Starting then Started else fl_status f)\<rparr> else f)"

lemma start_flow_row_follows: "flow_follows f (start_flow_row w f)"
  by (simp add: flow_follows_def start_flow_row_def)

lemma flows_extend_start [simp]: "flows_extend fs (map (start_flow_row w) fs)"
  by (rule flows_extend_map) (rule start_flow_row_follows)

lemma start_rows [simp]:
  "map fl_workflow_id (map (start_flow_row w) fs) = map fl_workflow_id fs"
  "map fl_case_id (map (start_flow_row w) fs) = map fl_case_id fs"
  by (auto simp: start_flow_row_def)

lemma start_row_completed [simp]: "fl_status (start_flow_row w f) = Completed \<longleftrightarrow> fl_status f = Completed"
  by (auto simp: start_flow_row_def)

lemma finished_by_start [simp]: "finished_by i (map (start_flow_row w) fs) = finished_by i fs"
proof -
  have "flows_of i (map (start_flow_row w) fs) = map (start_flow_row w) (flows_of i fs)"
    by (induction fs) (auto simp: flows_of_def start_flow_row_def)
  then show ?thesis by (auto simp: finished_by_def)
qed

lemma start_row_cases [simp]: "fl_case_id (start_flow_row w f) = fl_case_id f" "fl_workflow_id (start_flow_row w f) = fl_workflow_id f"
  by (simp_all add: start_flow_row_def)

lemma rows_ok_start:
  assumes ok: "rows_ok cs fs"
  shows "rows_ok cs (map (start_flow_row w) fs)"
proof (rule rows_okI [OF refl ok])
  show "distinct (map fl_workflow_id (map (start_flow_row w) fs))"
    unfolding start_rows by (rule rows_okD(1) [OF ok])
  show "fl_case_id ` set (map (start_flow_row w) fs) \<subseteq> c_id ` set cs"
    using rows_okD(2) [OF ok] by auto
qed (use rows_okD(3) [OF ok] in simp)

lemma MarkStarted_rows:
  "MarkStarted w db = (r, db') \<Longrightarrow>
   st_cases db' = st_cases db \<and> st_parties db' = st_parties db \<and>
   (st_flows db' = st_flows db \<or> st_flows db' = map (start_flow_row w) (st_flows db))"
  by (auto simp: MarkStarted_def start_flow_row_def fun_eq_iff dest: begin_op_rows split: prod.splits option.splits if_splits)

lemma complete_tx_rows:
  "complete_tx w db = (b, db') \<Longrightarrow> st_flows db' = st_flows db \<or> st_flows db' = complete_flows w (st_flows db)"
  by (cases "find_flow w (st_flows db)") (auto simp: complete_tx_missing complete_tx_found)

lemma record_tx_rows:
  "record_tx f own info db = Inr db' \<Longrightarrow> st_flows db' = st_flows db \<or> st_flows db' = st_flows db @ [recorded f db]"
  by (cases "find_flow (fl_workflow_id f) (st_flows db)") (auto simp: record_tx_repeat record_tx_new split: if_splits)

lemma store_step_frame:
  assumes "store_step db db'"
  shows "store_ok db \<longrightarrow> store_ok db'" "flows_extend (st_flows db) (st_flows db')"
proof -
  have "(store_ok db \<longrightarrow> store_ok db') \<and> flows_extend (st_flows db) (st_flows db')"
    using assms
  proof (cases rule: store_step.cases)
    case (step_ensure i r)
    then have "(st_cases db' = st_cases db \<or> st_cases db' = insertCase i (st_cases db)) \<and>
        st_flows db' = st_flows db \<and> st_parties db' = st_parties db"
      by (auto simp: EnsureCase_def dest: begin_op_rows split: prod.splits option.splits)
    then show ?thesis using rows_ok_insertCase [of "st_cases db" "st_flows db" i] by (auto simp: store_ok_def)
  next
    case (step_record f own info r)
    obtain fault db1 where b: "begin_op db = (fault, db1)" by (cases "begin_op db")
    note rows = begin_op_rows [OF b]
    have "db' = db1 \<or> (\<exists>db2. record_tx f own info db1 = Inr db2 \<and> db' = db2)"
      using step_record b by (auto simp: Record_flow_def split: option.splits sum.splits)
    then show ?thesis
      using rows record_tx_ok [of db1 f own info] record_tx_rows [of f own info db1] store_ok_begin [OF b] by fastforce
  next
    case (step_started w r)
    then show ?thesis
      using MarkStarted_rows [OF step_started]
      by (auto simp: store_ok_def intro: rows_ok_start)
  next
    case (step_completed w r)
    obtain fault db1 where b: "begin_op db = (fault, db1)" by (cases "begin_op db")
    note rows = begin_op_rows [OF b]
    have e: "flows_extend fs (complete_flows w fs)" for fs
      unfolding complete_flows_def by (rule flows_extend_map) (simp add: flow_follows_def)
    obtain found db2 where c: "complete_tx w db1 = (found, db2)" by (cases "complete_tx w db1")
    have "db' = db1 \<or> db' = db2" using step_completed b c by (auto simp: MarkCompleted_def split: option.splits)
    then show ?thesis
      using rows complete_tx_ok [OF _ c] complete_tx_rows [OF c] store_ok_begin [OF b] e by auto
  qed (auto simp: CaseAttributes_def Get_flow_def ListByCase_def store_ok_def dest: begin_op_rows split: prod.splits option.splits)
  then show "store_ok db \<longrightarrow> store_ok db'" "flows_extend (st_flows db) (st_flows db')" by simp_all
qed

definition empty_store :: "nat \<Rightarrow> string option list \<Rightarrow> store" where
  "empty_store t faults = \<lparr>st_cases = [], st_flows = [], st_parties = [], st_clock = t, st_faults = faults\<rparr>"

lemma store_ok_empty: "store_ok (empty_store t faults)"
  by (simp add: store_ok_def empty_store_def rows_ok_def parties_ok_def)

lemma find_flow_unique:
  "distinct (map fl_workflow_id fs) \<Longrightarrow> f \<in> set fs \<Longrightarrow> find_flow (fl_workflow_id f) fs = Some f"
  by (induction fs) (auto simp: find_flow_def)

subsection \<open>The contract of a flow book\<close>

text \<open>
  What the flow service relies on: whatever other requests do to the store between two of its
  calls, a recorded flow stays and only moves forward.
\<close>

locale flow_book =
  fixes look :: "'db \<Rightarrow> string \<Rightarrow> flow option"
    and db_ok :: "'db \<Rightarrow> bool"
    and db_step :: "'db \<Rightarrow> 'db \<Rightarrow> bool"
  assumes step_keeps_ok: "db_step db db' \<Longrightarrow> db_ok db \<Longrightarrow> db_ok db'"
    and step_keeps_flow: "db_step db db' \<Longrightarrow> db_ok db \<Longrightarrow> look db w = Some f \<Longrightarrow> \<exists>g. look db' w = Some g \<and> flow_follows f g"
begin

lemma steps_ok: "db_step\<^sup>*\<^sup>* db db' \<Longrightarrow> db_ok db \<Longrightarrow> db_ok db'"
  by (induction rule: rtranclp_induct) (auto dest: step_keeps_ok)

lemma steps_keep_flow:
  assumes "db_step\<^sup>*\<^sup>* db db'" and "db_ok db" and "look db w = Some f"
  shows "\<exists>g. look db' w = Some g \<and> flow_follows f g"
  using assms(1)
proof (induction rule: rtranclp_induct)
  case base
  then show ?case using assms(3) by simp
next
  case (step y z)
  then obtain g where g: "look y w = Some g" "flow_follows f g" by blast
  have "db_ok y" using step.hyps(1) assms(2) by (rule steps_ok)
  with step.hyps(2) g(1) obtain h where "look z w = Some h" "flow_follows g h"
    using step_keeps_flow by blast
  with g(2) show ?case by (blast intro: flow_follows_trans)
qed

text \<open>Two sightings of a flow, in either order of the requests that made them, agree but for its status.\<close>

lemma sightings_agree:
  "db_step\<^sup>*\<^sup>* db db' \<Longrightarrow> db_ok db \<Longrightarrow> look db w = Some f \<Longrightarrow> look db' w = Some g \<Longrightarrow> flow_follows f g"
  using steps_keep_flow by fastforce

end

interpretation repo: flow_book "\<lambda>db w. find_flow w (st_flows db)" store_ok store_step
proof
  fix db db' w f
  assume s: "store_step db db'" and ok: "store_ok db"
  from s ok show ok': "store_ok db'" using store_step_frame(1) by blast
  assume f: "find_flow w (st_flows db) = Some f"
  then obtain g where g: "g \<in> set (st_flows db')" "flow_follows f g" "fl_workflow_id f = w"
    using flows_extend_in [OF store_step_frame(2) [OF s]] find_flow_Some by blast
  then have "find_flow (fl_workflow_id g) (st_flows db') = Some g"
    using ok' by (intro find_flow_unique) (auto simp: store_ok_def rows_ok_def)
  with g show "\<exists>g. find_flow w (st_flows db') = Some g \<and> flow_follows f g"
    by (auto simp: flow_follows_def)
qed

lemma find_flow_append: "find_flow w fs = None \<Longrightarrow> find_flow w (fs @ [f]) = (if fl_workflow_id f = w then Some f else None)"
  by (induction fs) (auto simp: find_flow_def split: if_splits)

lemma Record_repeat:
  assumes "begin_op db = (None, db1)" and "find_flow (fl_workflow_id f) (st_flows db) \<noteq> None"
  shows "Record_flow f own info db = (Inr (), db1)"
  using assms begin_op_rows [OF assms(1)] by (simp add: Record_flow_def record_tx_repeat)

lemma Record_new:
  assumes "begin_op db = (None, db1)" and "find_flow (fl_workflow_id f) (st_flows db) = None" and "name_fits info"
  shows "Record_flow f own info db = (Inr (), db1\<lparr>
       st_cases := with_info (fl_case_id f) info
         (update_case (fl_case_id f) (\<lambda>c. c\<lparr>c_state := CaseInProgress\<rparr>) (insertCase (fl_case_id f) (st_cases db))),
       st_flows := st_flows db @ [recorded f db1],
       st_parties := with_owner (fl_case_id f) own (st_parties db)\<rparr>)"
  using assms begin_op_rows [OF assms(1)] by (simp add: Record_flow_def record_tx_new)

lemma Get_found:
  "begin_op db = (None, db1) \<Longrightarrow> find_flow w (st_flows db) = Some f \<Longrightarrow> Get_flow w db = (Inr f, db1)"
  by (frule begin_op_rows) (simp add: Get_flow_def)

lemma Get_missing:
  "begin_op db = (None, db1) \<Longrightarrow> find_flow w (st_flows db) = None \<Longrightarrow> Get_flow w db = (Inl ErrFlowNotFound, db1)"
  by (frule begin_op_rows) (simp add: Get_flow_def)

lemma fault_result:
  assumes "begin_op db = (Some m, db1)"
  shows "Record_flow f own info db = (Inl (StoreDb m), db1)" "Get_flow w db = (Inl (StoreDb m), db1)"
    "MarkStarted w db = (Inl (StoreDb m), db1)" "MarkCompleted w db = (Inl (StoreDb m), db1)"
    "EnsureCase i db = (Inl (StoreDb m), db1)"
  using assms by (simp_all add: store_ops)

lemma completed_again: "complete_flows w (complete_flows w fs) = complete_flows w fs"
  by (auto simp: complete_flows_def)

lemma find_complete_flows:
  "find_flow w (complete_flows v fs) = map_option (\<lambda>f. if fl_workflow_id f = v then f\<lparr>fl_status := Completed\<rparr> else f) (find_flow w fs)"
  by (induction fs) (auto simp: find_flow_def complete_flows_def)

lemma update_case_again:
  "(\<And>c. c_id (g c) = c_id c) \<Longrightarrow> (\<And>c. g (g c) = g c) \<Longrightarrow> update_case i g (update_case i g cs) = update_case i g cs"
  by (auto simp: update_case_def)

lemma complete_tx_again:
  assumes "complete_tx w db = (b, db')" and "st_cases db'' = st_cases db'" and "st_flows db'' = st_flows db'"
  shows "complete_tx w db'' = (b, db'')"
proof (cases "find_flow w (st_flows db)")
  case None
  with assms show ?thesis by (auto simp: complete_tx_missing)
next
  case (Some f)
  with assms(1) have db': "b" "st_flows db' = complete_flows w (st_flows db)"
    "st_cases db' = (if finished_by (fl_case_id f) (complete_flows w (st_flows db))
       then update_case (fl_case_id f) (\<lambda>c. c\<lparr>c_state := CaseFinished\<rparr>) (st_cases db) else st_cases db)"
    by (auto simp: complete_tx_found)
  have "fl_workflow_id f = w" using find_flow_Some [OF Some] by simp
  then have f: "find_flow w (st_flows db'') = Some (f\<lparr>fl_status := Completed\<rparr>)"
    using Some db'(2) assms(3) by (simp add: find_complete_flows)
  show ?thesis
    using complete_tx_found [OF f] db' assms(2,3) by (simp add: completed_again update_case_again)
qed

lemma complete_tx_status:
  "complete_tx w db = (b, db') \<Longrightarrow> (case find_flow w (st_flows db') of None \<Rightarrow> \<not> b | Some f \<Rightarrow> b \<and> fl_status f = Completed)"
  by (cases "find_flow w (st_flows db)")
     (auto simp: complete_tx_missing complete_tx_found find_complete_flows dest: find_flow_Some)

lemma find_start_completed:
  "(case find_flow w fs of None \<Rightarrow> \<not> b | Some f \<Rightarrow> b \<and> fl_status f = Completed) \<Longrightarrow>
   find_flow w (map (start_flow_row w) fs) = find_flow w fs"
  by (induction fs) (auto simp: find_flow_def start_flow_row_def split: if_splits)

lemma with_info_case:
  assumes "c \<in> set cs" and "c_id c = i" and "c_state c = s"
  shows "\<exists>c \<in> set (with_info i info cs). c_id c = i \<and> c_state c = s"
proof (cases info)
  case (Some ci)
  have "mergeCaseInfo ci c \<in> set (update_case i (mergeCaseInfo ci) cs)"
    unfolding in_update_case using assms by (intro bexI [of _ c]) simp_all
  with Some assms show ?thesis
    unfolding with_info_def by (simp add: bexI [of _ "mergeCaseInfo ci c"] mergeCaseInfo_def)
qed (use assms in \<open>auto simp: with_info_def\<close>)

subsection \<open>Properties\<close>

text \<open>
  C5: over any history of repository calls, faults included, every case reads FINISHED exactly
  when it has flows and each has completed.
\<close>
theorem case_state_follows_flows:
  assumes "store_step\<^sup>*\<^sup>* (empty_store t faults) db" and "c \<in> set (st_cases db)"
  shows "c_state c = CaseFinished \<longleftrightarrow>
    (\<exists>f \<in> set (st_flows db). fl_case_id f = c_id c) \<and>
    (\<forall>f \<in> set (st_flows db). fl_case_id f = c_id c \<longrightarrow> fl_status f = Completed)"
proof -
  have "store_ok db" using assms(1) store_ok_empty by (rule repo.steps_ok)
  then have "c_state c = CaseFinished \<longleftrightarrow> finished_by (c_id c) (st_flows db)"
    using assms(2) by (auto simp: store_ok_def rows_ok_def)
  then show ?thesis by (auto simp: finished_by_def flows_of_def filter_empty_conv)
qed

definition demo_flow :: "string \<Rightarrow> flow" where
  "demo_flow w = \<lparr>fl_workflow_id = w, fl_case_id = ''c1'', fl_template_id = ''t'', fl_version = 3,
     fl_status = Completed, fl_payload = Some (JObj []), fl_created = 0\<rparr>"

definition demo_recorded :: store where
  "demo_recorded = snd (Record_flow (demo_flow ''w1'') (Some \<lparr>ow_role = ''officer'', ow_ou_handle = ''npqs''\<rparr>) None (empty_store 0 []))"

definition demo_completed :: store where
  "demo_completed = snd (MarkCompleted ''w1'' demo_recorded)"

lemma demo_steps:
  "store_step\<^sup>*\<^sup>* (empty_store 0 []) demo_completed" "store_step\<^sup>*\<^sup>* demo_recorded demo_completed" "store_ok demo_recorded"
proof -
  have 1: "store_step (empty_store 0 []) demo_recorded"
    unfolding demo_recorded_def by (rule step_record) (rule surjective_pairing)
  have 2: "store_step demo_recorded demo_completed"
    unfolding demo_completed_def by (rule step_completed) (rule surjective_pairing)
  show "store_step\<^sup>*\<^sup>* (empty_store 0 []) demo_completed" using 1 2 by simp
  show "store_step\<^sup>*\<^sup>* demo_recorded demo_completed" using 2 by simp
  show "store_ok demo_recorded" using 1 store_ok_empty store_step_frame(1) by blast
qed

theorem case_state_follows_flows_witness:
  "(CaseFinished = CaseFinished) = (\<exists>f \<in> set (st_flows demo_completed). fl_case_id f = ''c1'') \<and>
   st_cases demo_completed = [(new_case ''c1'')\<lparr>c_state := CaseFinished\<rparr>]"
proof -
  have rows: "st_cases demo_completed = [(new_case ''c1'')\<lparr>c_state := CaseFinished\<rparr>]"
    by code_simp
  then have "(new_case ''c1'')\<lparr>c_state := CaseFinished\<rparr> \<in> set (st_cases demo_completed)" by simp
  from case_state_follows_flows [OF demo_steps(1) this] rows show ?thesis by (simp add: new_case_def)
qed

text \<open>
  a recorded flow is never lost or changed: in every later store it is found under its
  workflow ID with the case, template, version, payload and time it was recorded with, and a
  status no earlier in STARTING, STARTED, COMPLETED.
\<close>
theorem flow_row_stable:
  assumes "store_ok db" and "store_step\<^sup>*\<^sup>* db db'" and "find_flow w (st_flows db) = Some f"
  shows "\<exists>g. find_flow w (st_flows db') = Some g \<and> fl_case_id g = fl_case_id f \<and>
    fl_template_id g = fl_template_id f \<and> fl_version g = fl_version f \<and> fl_payload g = fl_payload f \<and>
    fl_created g = fl_created f \<and> fl_status f \<le> fl_status g"
  using repo.steps_keep_flow [OF assms(2,1,3)] by (auto simp: flow_follows_def)

theorem flow_row_stable_witness:
  "\<exists>g. find_flow ''w1'' (st_flows demo_completed) = Some g \<and> fl_version g = 3 \<and> fl_status g = Completed"
proof -
  have "find_flow ''w1'' (st_flows demo_recorded) = Some (recorded (demo_flow ''w1'') demo_recorded)" by code_simp
  from flow_row_stable [OF demo_steps(3) demo_steps(2) this]
  have "\<exists>g. find_flow ''w1'' (st_flows demo_completed) = Some g \<and> fl_version g = 3"
    by (auto simp: recorded_def demo_flow_def)
  moreover have "map_option fl_status (find_flow ''w1'' (st_flows demo_completed)) = Some Completed" by code_simp
  ultimately show ?thesis by auto
qed

lemma record_flow_facts:
  assumes "store_ok db" and "st_faults db = []" and "find_flow (fl_workflow_id f) (st_flows db) = None" and "name_fits info"
    and db'_def: "db' = snd (Record_flow f (Some ow) info db)"
  shows "fst (Record_flow f (Some ow) info db) = Inr ()"
    and "fst (Get_flow (fl_workflow_id f) db') = Inr (f\<lparr>fl_status := Starting, fl_created := Suc (st_clock db)\<rparr>)"
    and "\<exists>c \<in> set (st_cases db'). c_id c = fl_case_id f \<and> c_state c = CaseInProgress"
    and "party_at (st_parties db') (fl_case_id f) (ow_role ow) q \<longleftrightarrow> q = OU (ow_ou_handle ow)"
    and "(i, r) \<noteq> (fl_case_id f, ow_role ow) \<Longrightarrow> party_at (st_parties db') i r q = party_at (st_parties db) i r q"
    and "\<exists>db''. Record_flow f own' info' db' = (Inr (), db'') \<and> st_cases db'' = st_cases db' \<and>
           st_flows db'' = st_flows db' \<and> st_parties db'' = st_parties db'"
proof -
  obtain db1 where b: "begin_op db = (None, db1)" and clock: "st_clock db1 = Suc (st_clock db)" and nf: "st_faults db1 = []"
    using assms(2) by (simp add: begin_op_def)
  note rec = Record_new [OF b assms(3,4), of "Some ow"]
  then show "fst (Record_flow f (Some ow) info db) = Inr ()" by simp
  have rows: "st_flows db' = st_flows db @ [recorded f db1]" "st_faults db' = []"
    "st_parties db' = upsert_party (new_party (fl_case_id f) (ow_role ow) (OU (ow_ou_handle ow))) (st_parties db)"
    using rec nf by (simp_all add: db'_def with_owner_def)
  obtain db2 where b': "begin_op db' = (None, db2)" using rows(2) by (simp add: begin_op_def)
  have found: "find_flow (fl_workflow_id f) (st_flows db') = Some (recorded f db1)"
    using assms(3) by (simp add: rows find_flow_append recorded_def)
  show "fst (Get_flow (fl_workflow_id f) db') = Inr (f\<lparr>fl_status := Starting, fl_created := Suc (st_clock db)\<rparr>)"
    using Get_found [OF b' found] clock by (simp add: recorded_def)
  have "fl_case_id f \<in> c_id ` set (insertCase (fl_case_id f) (st_cases db))" by (rule case_in_insertCase)
  then obtain c where "c \<in> set (insertCase (fl_case_id f) (st_cases db))" "c_id c = fl_case_id f" by auto
  then have "c\<lparr>c_state := CaseInProgress\<rparr> \<in> set (update_case (fl_case_id f) (\<lambda>c. c\<lparr>c_state := CaseInProgress\<rparr>) (insertCase (fl_case_id f) (st_cases db)))"
    unfolding in_update_case by (intro bexI [of _ c]) simp_all
  then have "\<exists>c \<in> set (with_info (fl_case_id f) info (update_case (fl_case_id f) (\<lambda>c. c\<lparr>c_state := CaseInProgress\<rparr>) (insertCase (fl_case_id f) (st_cases db)))).
      c_id c = fl_case_id f \<and> c_state c = CaseInProgress"
    by (rule with_info_case) (simp_all add: \<open>c_id c = fl_case_id f\<close>)
  then show "\<exists>c \<in> set (st_cases db'). c_id c = fl_case_id f \<and> c_state c = CaseInProgress"
    using rec by (simp add: db'_def)
  have ps: "parties_ok (st_parties db)" using assms(1) by (simp add: store_ok_def)
  show "party_at (st_parties db') (fl_case_id f) (ow_role ow) q \<longleftrightarrow> q = OU (ow_ou_handle ow)"
    unfolding rows by (rule book.give_holder [OF ps])
  show "party_at (st_parties db') i r q = party_at (st_parties db) i r q" if "(i, r) \<noteq> (fl_case_id f, ow_role ow)"
    unfolding rows by (rule book.give_other [OF ps that])
  show "\<exists>db''. Record_flow f own' info' db' = (Inr (), db'') \<and> st_cases db'' = st_cases db' \<and>
           st_flows db'' = st_flows db' \<and> st_parties db'' = st_parties db'"
    using Record_repeat [OF b', of f own' info'] found begin_op_rows [OF b'] by simp
qed

text \<open>
  recording a new flow, in one step: its row reads back STARTING with the request's fields,
  its case exists and is in progress, the owner is the only holder of its role on the case, and
  every other role of every case is held as before. Recording it again, whatever the repeat
  says of the owner or the case, changes no row.
\<close>
theorem record_flow_effect:
  assumes "store_ok db" and "st_faults db = []" and "find_flow (fl_workflow_id f) (st_flows db) = None" and "name_fits info"
    and "Record_flow f (Some ow) info db = (res, db')"
  shows "res = Inr () \<and>
    fst (Get_flow (fl_workflow_id f) db') = Inr (f\<lparr>fl_status := Starting, fl_created := Suc (st_clock db)\<rparr>) \<and>
    (\<exists>c \<in> set (st_cases db'). c_id c = fl_case_id f \<and> c_state c = CaseInProgress) \<and>
    (\<forall>i r q. party_at (st_parties db') i r q =
       (if (i, r) = (fl_case_id f, ow_role ow) then q = OU (ow_ou_handle ow) else party_at (st_parties db) i r q)) \<and>
    (\<exists>db''. Record_flow f own' info' db' = (Inr (), db'') \<and> st_cases db'' = st_cases db' \<and>
           st_flows db'' = st_flows db' \<and> st_parties db'' = st_parties db')"
proof -
  have d: "db' = snd (Record_flow f (Some ow) info db)" and r: "res = fst (Record_flow f (Some ow) info db)"
    using assms(5) by simp_all
  note facts = record_flow_facts [OF assms(1-4) d]
  show ?thesis using facts(1-3,6) facts(4,5) r by auto
qed

theorem record_flow_effect_witness:
  "fst (Get_flow ''w1'' demo_recorded) = Inr ((demo_flow ''w1'')\<lparr>fl_status := Starting, fl_created := 1\<rparr>)"
proof -
  have h: "st_faults (empty_store 0 []) = []" "find_flow (fl_workflow_id (demo_flow ''w1'')) (st_flows (empty_store 0 [])) = None"
    "name_fits None" by (simp_all add: empty_store_def find_flow_def name_fits_def)
  have r: "Record_flow (demo_flow ''w1'') (Some \<lparr>ow_role = ''officer'', ow_ou_handle = ''npqs''\<rparr>) None (empty_store 0 []) = (Inr (), demo_recorded)"
    by code_simp
  from record_flow_effect [OF store_ok_empty h r, of None None] show ?thesis
    by (simp add: demo_flow_def) (simp add: empty_store_def)
qed

text \<open>
  completing a flow is idempotent: a redelivered completion answers as the first did and
  changes no row, and a start confirmed late, after the completion, does not undo it.
\<close>
theorem mark_completed_idempotent:
  assumes "MarkCompleted w db = (Inr found, db')" and "st_faults db' = []"
  shows "(\<exists>db''. MarkCompleted w db' = (Inr found, db'') \<and> st_cases db'' = st_cases db' \<and> st_flows db'' = st_flows db' \<and>
    st_parties db'' = st_parties db') \<and>
    (\<exists>db''. MarkStarted w db' = ((if found then Inr () else Inl ErrFlowNotFound), db'') \<and>
      st_cases db'' = st_cases db' \<and> find_flow w (st_flows db'') = find_flow w (st_flows db'))"
proof (intro conjI)
  obtain db1 where b: "begin_op db = (None, db1)" and c: "complete_tx w db1 = (found, db')"
    using assms(1) by (auto simp: MarkCompleted_def split: prod.splits option.splits)
  obtain db2 where b': "begin_op db' = (None, db2)" using assms(2) by (simp add: begin_op_def)
  note rows = begin_op_rows [OF b']
  have "complete_tx w db2 = (found, db2)" by (rule complete_tx_again [OF c]) (use rows in simp_all)
  then show "\<exists>db''. MarkCompleted w db' = (Inr found, db'') \<and> st_cases db'' = st_cases db' \<and> st_flows db'' = st_flows db' \<and>
    st_parties db'' = st_parties db'"
    using b' rows by (simp add: MarkCompleted_def)
  have same: "find_flow w (map (start_flow_row w) (st_flows db')) = find_flow w (st_flows db')"
    using complete_tx_status [OF c] by (rule find_start_completed)
  show "\<exists>db''. MarkStarted w db' = ((if found then Inr () else Inl ErrFlowNotFound), db'') \<and>
      st_cases db'' = st_cases db' \<and> find_flow w (st_flows db'') = find_flow w (st_flows db')"
    using b' rows complete_tx_status [OF c] same
    by (auto simp: MarkStarted_def start_flow_row_def [abs_def] split: option.splits)
qed

theorem mark_completed_idempotent_witness:
  "\<exists>db''. MarkCompleted ''w1'' demo_completed = (Inr True, db'') \<and> st_cases db'' = st_cases demo_completed"
proof -
  have "MarkCompleted ''w1'' demo_recorded = (Inr True, demo_completed)" "st_faults demo_completed = []" by code_simp+
  from mark_completed_idempotent [OF this] show ?thesis by blast
qed

end
