(* ===== verification/Case_Flows.thy ===== *)
theory Case_Flows
  imports Case_Store
begin

text \<open>
  \<open>internal/caseflow/service.go\<close>: starting the flows of a case and recording their
  completion. What is not under src/ is the parameter \<open>core_api\<close>: the artifact set (its
  current manifest version, and what loading a workflow definition through a version gives),
  the workflow manager and the names of its two variables. The manager answers a start with an
  error or none, as any function of the calls made so far; \<open>fw_calls\<close> is the trace of those
  calls. Other requests run between this one's repository calls: \<open>ca_others\<close> is what they
  do to the store before each.
\<close>

subsection \<open>Requests, errors, the world\<close>

record start_request =
  sr_case_id :: string
  sr_template_id :: string
  sr_workflow_id :: string
  sr_vars :: "(string \<times> json) list option"
  sr_owner :: "owner option"
  sr_case :: "case_info option"

datatype load_error = ArtifactNotFound | RegistryFailed string | LoadFailed string

datatype flow_error =
    ErrInvalidRequest string
  | ErrUnknownTemplate string
  | ErrConflict string string string
  | ReadFlowFailed store_error
  | RecordFlowFailed store_error
  | RegistryError string
  | LoadWorkflowFailed string string
  | NoWorkflowManager
  | PayloadNotObject string
  | StartWorkflowFailed string string
  | MarkStartedFailed store_error
  | CompletionFailed string store_error
  | NotRecordedFlow string

record 'def start_call =
  sc_workflow_id :: string
  sc_definition :: 'def
  sc_vars :: "(string \<times> json) list"

record 'def core_api =
  ca_current :: int
  ca_load :: "int \<Rightarrow> string \<Rightarrow> load_error + 'def"
  ca_manager :: "('def start_call list \<Rightarrow> 'def start_call \<Rightarrow> string option) option"
  ca_var_case :: string
  ca_var_version :: string
  ca_others :: "store \<Rightarrow> store"

record 'def flow_world =
  fw_store :: store
  fw_calls :: "'def start_call list"

text \<open>A repository call of this request, after what other requests did.\<close>

definition repo_call :: "'def core_api \<Rightarrow> (store \<Rightarrow> 'r \<times> store) \<Rightarrow> 'def flow_world \<Rightarrow> 'r \<times> 'def flow_world" where
  "repo_call api f W = (let (r, db) = f (ca_others api (fw_store W)) in (r, W\<lparr>fw_store := db\<rparr>))"

subsection \<open>Building the row\<close>

definition FlowWorkflowID :: "string \<Rightarrow> string \<Rightarrow> string \<Rightarrow> string" where
  "FlowWorkflowID caseID templateID suffix = join_with '':'' [caseID, templateID, suffix]"

definition newFlowRow :: "string \<Rightarrow> start_request \<Rightarrow> flow_error + flow" where
  "newFlowRow uuid req =
     (if sr_case_id req = [] \<or> sr_template_id req = [] then Inl (ErrInvalidRequest ''case ID and template are required'')
      else
        let workflowID = (if sr_workflow_id req = [] then FlowWorkflowID (sr_case_id req) (sr_template_id req) uuid
                          else sr_workflow_id req)
        in if CHR ''/'' \<in> set workflowID then Inl (ErrInvalidRequest ''workflow ID contains /'')
           else Inr \<lparr>fl_workflow_id = workflowID, fl_case_id = sr_case_id req, fl_template_id = sr_template_id req,
                     fl_version = 0, fl_status = Starting, fl_payload = map_option JObj (sr_vars req), fl_created = 0\<rparr>)"

definition definition_of :: "'def core_api \<Rightarrow> int \<Rightarrow> string \<Rightarrow> flow_error + 'def" where
  "definition_of api version templateID =
     (case ca_load api version templateID of
        Inr d \<Rightarrow> Inr d
      | Inl (RegistryFailed e) \<Rightarrow> Inl (RegistryError e)
      | Inl ArtifactNotFound \<Rightarrow> Inl (ErrUnknownTemplate templateID)
      | Inl (LoadFailed e) \<Rightarrow> Inl (LoadWorkflowFailed templateID e))"

subsection \<open>Starting\<close>

definition recorded_vars :: "flow \<Rightarrow> ((string \<times> json) list) option" where
  "recorded_vars f = (case fl_payload f of
      None \<Rightarrow> Some [] | Some JNull \<Rightarrow> Some [] | Some (JObj kvs) \<Rightarrow> Some kvs | Some _ \<Rightarrow> None)"

definition engine_vars :: "'def core_api \<Rightarrow> flow \<Rightarrow> (string \<times> json) list \<Rightarrow> (string \<times> json) list" where
  "engine_vars api f vars =
     obj_put (ca_var_version api) (JNum (of_int (fl_version f)))
       (obj_put (ca_var_case api) (JStr (fl_case_id f)) vars)"

definition start :: "'def core_api \<Rightarrow> flow \<Rightarrow> 'def \<Rightarrow> 'def flow_world \<Rightarrow> (flow_error + unit) \<times> 'def flow_world" where
  "start api f d W =
     (case ca_manager api of
        None \<Rightarrow> (Inl NoWorkflowManager, W)
      | Some respond \<Rightarrow>
          (case recorded_vars f of
             None \<Rightarrow> (Inl (PayloadNotObject (fl_workflow_id f)), W)
           | Some vars \<Rightarrow>
               (let c = \<lparr>sc_workflow_id = fl_workflow_id f, sc_definition = d, sc_vars = engine_vars api f vars\<rparr>;
                    W' = W\<lparr>fw_calls := fw_calls W @ [c]\<rparr>
                in case respond (fw_calls W) c of
                     Some e \<Rightarrow> (Inl (StartWorkflowFailed (fl_workflow_id f) e), W')
                   | None \<Rightarrow> (Inr (), W'))))"

definition resume :: "'def core_api \<Rightarrow> start_request \<Rightarrow> flow \<Rightarrow> 'def option \<Rightarrow> 'def flow_world \<Rightarrow> (flow_error + flow) \<times> 'def flow_world" where
  "resume api req f d W =
     (if fl_case_id f \<noteq> sr_case_id req \<or> fl_template_id f \<noteq> sr_template_id req
      then (Inl (ErrConflict (fl_workflow_id f) (fl_case_id f) (fl_template_id f)), W)
      else if fl_status f \<noteq> Starting then (Inr f, W)
      else
        case (case d of None \<Rightarrow> definition_of api (fl_version f) (fl_template_id f) | Some d' \<Rightarrow> Inr d') of
          Inl e \<Rightarrow> (Inl e, W)
        | Inr d' \<Rightarrow>
            (case start api f d' W of
               (Inl e, W1) \<Rightarrow> (Inl e, W1)
             | (Inr _, W1) \<Rightarrow>
                 (case repo_call api (MarkStarted (fl_workflow_id f)) W1 of
                    (Inl e, W2) \<Rightarrow> (Inl (MarkStartedFailed e), W2)
                  | (Inr _, W2) \<Rightarrow> (Inr (f\<lparr>fl_status := Started\<rparr>), W2))))"

text \<open>What follows when the workflow ID names no flow yet: the rest of \<open>StartFlow\<close>.\<close>

definition start_new :: "'def core_api \<Rightarrow> start_request \<Rightarrow> flow \<Rightarrow> 'def flow_world \<Rightarrow> (flow_error + flow) \<times> 'def flow_world" where
  "start_new api req row W =
     (let newFlow = row\<lparr>fl_version := ca_current api\<rparr> in
      case definition_of api (fl_version newFlow) (sr_template_id req) of
        Inl e \<Rightarrow> (Inl e, W)
      | Inr d \<Rightarrow>
          (case repo_call api (Record_flow newFlow (sr_owner req) (sr_case req)) W of
             (Inl e, W1) \<Rightarrow> (Inl (RecordFlowFailed e), W1)
           | (Inr _, W1) \<Rightarrow>
               (case repo_call api (Get_flow (fl_workflow_id newFlow)) W1 of
                  (Inl e, W2) \<Rightarrow> (Inl (ReadFlowFailed e), W2)
                | (Inr f, W2) \<Rightarrow>
                    (if fl_version f \<noteq> fl_version newFlow then resume api req f None W2
                     else resume api req f (Some d) W2))))"

definition StartFlow :: "'def core_api \<Rightarrow> string \<Rightarrow> start_request \<Rightarrow> 'def flow_world \<Rightarrow> (flow_error + flow) \<times> 'def flow_world" where
  "StartFlow api uuid req W =
     (case newFlowRow uuid req of
        Inl e \<Rightarrow> (Inl e, W)
      | Inr row \<Rightarrow>
          (if sr_workflow_id req \<noteq> [] then
             (case repo_call api (Get_flow (fl_workflow_id row)) W of
                (Inr f, W1) \<Rightarrow> resume api req f None W1
              | (Inl ErrFlowNotFound, W1) \<Rightarrow> start_new api req row W1
              | (Inl e, W1) \<Rightarrow> (Inl (ReadFlowFailed e), W1))
           else start_new api req row W))"

subsection \<open>Completion\<close>

definition CompletionHandler :: "string \<Rightarrow> store \<Rightarrow> (flow_error + unit) \<times> store" where
  "CompletionHandler w db =
     (case MarkCompleted w db of
        (Inl e, db1) \<Rightarrow> (Inl (CompletionFailed w e), db1)
      | (Inr found, db1) \<Rightarrow> (if found then (Inr (), db1) else (Inl (NotRecordedFlow w), db1)))"

subsection \<open>What one request does\<close>

lemmas [flow_defs] = repo_call_def newFlowRow_def definition_of_def start_def resume_def start_new_def StartFlow_def

text \<open>Other requests only make repository calls.\<close>

definition fair_others :: "'def core_api \<Rightarrow> bool" where
  "fair_others api = (\<forall>db. store_step\<^sup>*\<^sup>* db (ca_others api db))"

lemma repo_call_steps:
  assumes "fair_others api" and "\<And>db. store_step db (snd (f db))" and "repo_call api f W = (r, W')"
  shows "store_step\<^sup>*\<^sup>* (fw_store W) (fw_store W') \<and> fw_calls W' = fw_calls W"
proof -
  obtain r' db where d: "f (ca_others api (fw_store W)) = (r', db)" by (cases "f (ca_others api (fw_store W))")
  have "store_step\<^sup>*\<^sup>* (fw_store W) (ca_others api (fw_store W))" using assms(1) by (simp add: fair_others_def)
  also have "store_step (ca_others api (fw_store W)) db" using assms(2) [of "ca_others api (fw_store W)"] d by simp
  finally show ?thesis using assms(3) d by (auto simp: repo_call_def)
qed

lemma op_steps [simp]:
  "store_step db (snd (Get_flow w db))" "store_step db (snd (Record_flow f own info db))"
  "store_step db (snd (MarkStarted w db))" "store_step db (snd (MarkCompleted w db))"
  by (rule step_get step_record step_started step_completed, rule surjective_pairing)+

text \<open>The engine call a recorded flow is started with.\<close>

definition call_for :: "'def core_api \<Rightarrow> flow \<Rightarrow> 'def start_call \<Rightarrow> bool" where
  "call_for api f c =
     (case ca_load api (fl_version f) (fl_template_id f) of Inl _ \<Rightarrow> False
      | Inr d \<Rightarrow> (case recorded_vars f of None \<Rightarrow> False
          | Some vars \<Rightarrow> c = \<lparr>sc_workflow_id = fl_workflow_id f, sc_definition = d, sc_vars = engine_vars api f vars\<rparr>))"

lemma call_for_follows: "flow_follows f g \<Longrightarrow> call_for api g c = call_for api f c"
  by (auto simp: call_for_def flow_follows_def recorded_vars_def engine_vars_def split: sum.split option.split)

lemma call_for_unique: "call_for api f c \<Longrightarrow> call_for api f c' \<Longrightarrow> c' = c"
  by (auto simp: call_for_def split: sum.splits option.splits)

lemma call_for_id: "call_for api f c \<Longrightarrow> sc_workflow_id c = fl_workflow_id f"
  by (auto simp: call_for_def split: sum.splits option.splits)

lemma definition_of_Inr: "definition_of api v t = Inr d \<longleftrightarrow> ca_load api v t = Inr d"
  by (auto simp: definition_of_def split: sum.splits load_error.splits)

lemma start_calls:
  assumes "start api f d W = (r, W')" and "ca_load api (fl_version f) (fl_template_id f) = Inr d"
  shows "fw_store W' = fw_store W \<and>
    ((\<exists>e. r = Inl e) \<and> W' = W \<or> (\<exists>c. call_for api f c \<and> fw_calls W' = fw_calls W @ [c]))"
  using assms by (auto simp: start_def call_for_def Let_def split: option.splits)

text \<open>
  What \<open>resume\<close> does: a conflict or a started flow touches nothing; otherwise it makes at
  most the flow's own call, and answers with the flow started.
\<close>

lemma resume_effect:
  assumes fair: "fair_others api" and r: "resume api req f d W = (r, W')"
    and d: "\<And>d'. d = Some d' \<Longrightarrow> ca_load api (fl_version f) (fl_template_id f) = Inr d'"
  shows "store_step\<^sup>*\<^sup>* (fw_store W) (fw_store W')"
    and "fw_calls W' = fw_calls W \<or> fl_status f = Starting \<and> fl_case_id f = sr_case_id req \<and>
           fl_template_id f = sr_template_id req \<and> (\<exists>c. call_for api f c \<and> fw_calls W' = fw_calls W @ [c])"
    and "r = Inr g \<Longrightarrow> fl_case_id f = sr_case_id req \<and> fl_template_id f = sr_template_id req \<and> flow_follows f g \<and>
           fl_status g \<noteq> Starting \<and>
           (g = f \<and> W' = W \<or> (\<exists>c. call_for api f c \<and> fw_calls W' = fw_calls W @ [c]))"
proof -
  have "store_step\<^sup>*\<^sup>* (fw_store W) (fw_store W') \<and>
    (fw_calls W' = fw_calls W \<or> fl_status f = Starting \<and> fl_case_id f = sr_case_id req \<and>
           fl_template_id f = sr_template_id req \<and> (\<exists>c. call_for api f c \<and> fw_calls W' = fw_calls W @ [c])) \<and>
    (\<forall>g. r = Inr g \<longrightarrow> fl_case_id f = sr_case_id req \<and> fl_template_id f = sr_template_id req \<and> flow_follows f g \<and>
           fl_status g \<noteq> Starting \<and> (g = f \<and> W' = W \<or> (\<exists>c. call_for api f c \<and> fw_calls W' = fw_calls W @ [c])))"
  proof (cases "(fl_case_id f \<noteq> sr_case_id req \<or> fl_template_id f \<noteq> sr_template_id req) \<or> fl_status f \<noteq> Starting")
    case True
    with r show ?thesis by (auto simp: resume_def split: if_splits)
  next
    case False
    then have agree: "fl_case_id f = sr_case_id req" "fl_template_id f = sr_template_id req" "fl_status f = Starting" by auto
    define l where "l = (case d of None \<Rightarrow> definition_of api (fl_version f) (fl_template_id f) | Some d' \<Rightarrow> Inr d')"
    show ?thesis
    proof (cases l)
      case (Inl e)
      with r agree show ?thesis by (auto simp: resume_def simp flip: l_def)
    next
      case (Inr d')
      have load: "ca_load api (fl_version f) (fl_template_id f) = Inr d'"
        using Inr d unfolding l_def by (auto simp: definition_of_Inr split: option.splits)
      obtain r1 W1 where s: "start api f d' W = (r1, W1)" by (cases "start api f d' W")
      note sc = start_calls [OF s load]
      show ?thesis
      proof (cases r1)
        case (Inl e)
        with r agree Inr s sc show ?thesis by (auto simp: resume_def simp flip: l_def)
      next
        case (Inr u)
        obtain r2 W2 where m: "repo_call api (MarkStarted (fl_workflow_id f)) W1 = (r2, W2)"
          by (cases "repo_call api (MarkStarted (fl_workflow_id f)) W1")
        have st: "store_step\<^sup>*\<^sup>* (fw_store W1) (fw_store W2) \<and> fw_calls W2 = fw_calls W1"
          by (rule repo_call_steps [OF fair _ m]) simp
        have res: "W' = W2" "r = (case r2 of Inl e \<Rightarrow> Inl (MarkStartedFailed e) | Inr _ \<Rightarrow> Inr (f\<lparr>fl_status := Started\<rparr>))"
          using r agree \<open>l = Inr d'\<close> s Inr m by (auto simp: resume_def simp flip: l_def split: sum.splits)
        have "flow_follows f (f\<lparr>fl_status := Started\<rparr>)" by (simp add: flow_follows_def agree)
        then show ?thesis using res st sc Inr agree by (auto split: sum.splits)
      qed
    qed
  qed
  then show "store_step\<^sup>*\<^sup>* (fw_store W) (fw_store W')"
    and "fw_calls W' = fw_calls W \<or> fl_status f = Starting \<and> fl_case_id f = sr_case_id req \<and>
           fl_template_id f = sr_template_id req \<and> (\<exists>c. call_for api f c \<and> fw_calls W' = fw_calls W @ [c])"
    and "r = Inr g \<Longrightarrow> fl_case_id f = sr_case_id req \<and> fl_template_id f = sr_template_id req \<and> flow_follows f g \<and>
           fl_status g \<noteq> Starting \<and>
           (g = f \<and> W' = W \<or> (\<exists>c. call_for api f c \<and> fw_calls W' = fw_calls W @ [c]))"
    by blast+
qed

lemma Get_flow_rows:
  "Get_flow w db = (Inr f, db') \<Longrightarrow> find_flow w (st_flows db') = Some f"
  by (auto simp: Get_flow_def dest: begin_op_rows split: prod.splits option.splits)

lemma repo_get:
  assumes "repo_call api (Get_flow w) W = (Inr f, W')"
  shows "find_flow w (st_flows (fw_store W')) = Some f"
  using assms by (auto simp: repo_call_def dest: Get_flow_rows split: prod.splits)

lemma find_start_row:
  "find_flow w fs = Some f \<Longrightarrow> find_flow w (map (start_flow_row w) fs) = Some (start_flow_row w f)"
  by (induction fs) (auto simp: find_flow_def split: if_splits)

lemma repo_mark_started:
  assumes fair: "fair_others api" and ok: "store_ok (fw_store W)" and f: "find_flow w (st_flows (fw_store W)) = Some f"
    and m: "repo_call api (MarkStarted w) W = (Inr u, W')"
  shows "\<exists>h. find_flow w (st_flows (fw_store W')) = Some h \<and> flow_follows f h \<and> fl_status h \<noteq> Starting"
proof -
  have "store_step\<^sup>*\<^sup>* (fw_store W) (ca_others api (fw_store W))" using fair by (simp add: fair_others_def)
  from repo.steps_keep_flow [OF this ok f] obtain g where
    g: "find_flow w (st_flows (ca_others api (fw_store W))) = Some g" "flow_follows f g" by blast
  have "st_flows (fw_store W') = map (start_flow_row w) (st_flows (ca_others api (fw_store W)))"
    using m by (auto simp: repo_call_def MarkStarted_def start_flow_row_def fun_eq_iff dest: begin_op_rows split: prod.splits option.splits if_splits)
  then have "find_flow w (st_flows (fw_store W')) = Some (start_flow_row w g)" using find_start_row [OF g(1)] by simp
  moreover have "flow_follows f (start_flow_row w g)" using flow_follows_trans [OF g(2) start_flow_row_follows] .
  moreover have "fl_status (start_flow_row w g) \<noteq> Starting" using find_flow_Some [OF g(1)] by (simp add: start_flow_row_def)
  ultimately show ?thesis by blast
qed

text \<open>The row a successful \<open>resume\<close> answers with is in the table, at that status or a later one.\<close>

lemma resume_row:
  assumes fair: "fair_others api" and ok: "store_ok (fw_store W)" and f: "find_flow w (st_flows (fw_store W)) = Some f"
    and r: "resume api req f d W = (Inr g, W')"
  shows "\<exists>h. find_flow w (st_flows (fw_store W')) = Some h \<and> flow_follows g h"
proof (cases "fl_status f = Starting")
  case False
  then show ?thesis using r f by (auto simp: resume_def split: if_splits)
next
  case True
  have w: "fl_workflow_id f = w" using find_flow_Some [OF f] by simp
  obtain d' u W1 v where s: "start api f d' W = (Inr u, W1)" "repo_call api (MarkStarted w) W1 = (Inr v, W')" "g = f\<lparr>fl_status := Started\<rparr>"
    using r True w by (auto simp: resume_def split: if_splits sum.splits prod.splits)
  have same: "fw_store W1 = fw_store W" using s(1) by (auto simp: start_def Let_def split: option.splits)
  obtain h where h: "find_flow w (st_flows (fw_store W')) = Some h" "flow_follows f h" "fl_status h \<noteq> Starting"
    using repo_mark_started [OF fair _ _ s(2)] ok f same by auto
  have "flow_follows g h" using h(2,3) s(3) by (cases "fl_status h") (auto simp: flow_follows_def less_eq_flow_status_def)
  with h(1) show ?thesis by blast
qed

text \<open>A request's outcome: it made no call, or the one call of the flow its workflow ID names.\<close>

definition outcome :: "'def core_api \<Rightarrow> start_request \<Rightarrow> string \<Rightarrow> 'def flow_world \<Rightarrow> flow_error + flow \<Rightarrow> 'def flow_world \<Rightarrow> bool" where
  "outcome api req w W r W' \<longleftrightarrow>
     store_step\<^sup>*\<^sup>* (fw_store W) (fw_store W') \<and>
     (fw_calls W' = fw_calls W \<or>
       (\<exists>c g. fw_calls W' = fw_calls W @ [c] \<and> find_flow w (st_flows (fw_store W')) = Some g \<and> call_for api g c)) \<and>
     (\<forall>f. r = Inr f \<longrightarrow> fl_workflow_id f = w \<and> fl_case_id f = sr_case_id req \<and> fl_template_id f = sr_template_id req \<and>
       fl_status f \<noteq> Starting \<and> (\<exists>g. find_flow w (st_flows (fw_store W')) = Some g \<and> flow_follows f g))"

lemma outcome_quiet:
  assumes "fair_others api" and "\<And>db. store_step db (snd (f db))" and "repo_call api f W = (r0, W')"
  shows "outcome api req w W (Inl e) W'"
  using repo_call_steps [OF assms] by (simp add: outcome_def)

lemma outcome_after:
  assumes "fair_others api" and "\<And>db. store_step db (snd (f db))" and "repo_call api f W = (r0, W1)"
    and "outcome api req w W1 r W'"
  shows "outcome api req w W r W'"
  using repo_call_steps [OF assms(1-3)] assms(4) unfolding outcome_def by (auto elim: rtranclp_trans)

lemma resume_outcome:
  assumes fair: "fair_others api" and ok: "store_ok (fw_store W)" and f: "find_flow w (st_flows (fw_store W)) = Some f"
    and d: "\<And>d'. d = Some d' \<Longrightarrow> ca_load api (fl_version f) (fl_template_id f) = Inr d'"
    and r: "resume api req f d W = (r, W')"
  shows "outcome api req w W r W'"
proof -
  note e = resume_effect [OF fair r d]
  have w: "fl_workflow_id f = w" using find_flow_Some [OF f] by simp
  obtain g where g: "find_flow w (st_flows (fw_store W')) = Some g" "flow_follows f g"
    using repo.steps_keep_flow [OF e(1) ok f] by blast
  have calls: "call_for api g c = call_for api f c" for c using g(2) by (rule call_for_follows)
  have "\<forall>h. r = Inr h \<longrightarrow> fl_workflow_id h = w \<and> fl_case_id h = sr_case_id req \<and> fl_template_id h = sr_template_id req \<and>
       fl_status h \<noteq> Starting \<and> flow_follows h g"
    using e(3) g(1) w resume_row [OF fair ok f] r unfolding flow_follows_def by fastforce
  then show ?thesis
    using e(1,2) g calls unfolding outcome_def by blast
qed

text \<open>Reading a flow back and resuming it.\<close>

lemma read_resume_outcome:
  assumes fair: "fair_others api" and ok: "store_ok (fw_store W)"
    and get: "repo_call api (Get_flow w) W = (Inr f, W1)"
    and d: "\<And>d'. d = Some d' \<Longrightarrow> ca_load api (fl_version f) (fl_template_id f) = Inr d'"
    and r: "resume api req f d W1 = (r, W')"
  shows "outcome api req w W r W'"
proof (rule outcome_after [OF fair _ get])
  have st: "store_step\<^sup>*\<^sup>* (fw_store W) (fw_store W1)" using repo_call_steps [OF fair _ get] by simp
  show "outcome api req w W1 r W'"
    using fair repo.steps_ok [OF st ok] repo_get [OF get] d r by (rule resume_outcome)
qed simp

lemma resume_conflict:
  "fl_template_id f \<noteq> sr_template_id req \<Longrightarrow>
   resume api req f d W = (Inl (ErrConflict (fl_workflow_id f) (fl_case_id f) (fl_template_id f)), W)"
  by (simp add: resume_def)

lemma start_new_outcome:
  assumes fair: "fair_others api" and ok: "store_ok (fw_store W)" and row: "fl_workflow_id row = w"
    and r: "start_new api req row W = (r, W')"
  shows "outcome api req w W r W'"
proof (cases "definition_of api (ca_current api) (sr_template_id req)")
  case (Inl e)
  with r show ?thesis by (auto simp: start_new_def outcome_def)
next
  case (Inr d)
  define newFlow where "newFlow = row\<lparr>fl_version := ca_current api\<rparr>"
  obtain r1 W1 where rec: "repo_call api (Record_flow newFlow (sr_owner req) (sr_case req)) W = (r1, W1)"
    by (cases "repo_call api (Record_flow newFlow (sr_owner req) (sr_case req)) W")
  have ok1: "store_ok (fw_store W1)"
    using repo_call_steps [OF fair op_steps(2) rec] ok repo.steps_ok by blast
  obtain r2 W2 where get: "repo_call api (Get_flow w) W1 = (r2, W2)" by (cases "repo_call api (Get_flow w) W1")
  have load: "ca_load api (ca_current api) (sr_template_id req) = Inr d" using Inr by (simp add: definition_of_Inr)
  have after: "outcome api req w W x X" if "outcome api req w W1 x X" for x X
    using fair op_steps(2) rec that by (rule outcome_after)
  have unfold: "start_new api req row W =
      (case r1 of Inl e \<Rightarrow> (Inl (RecordFlowFailed e), W1)
       | Inr _ \<Rightarrow> (case r2 of Inl e \<Rightarrow> (Inl (ReadFlowFailed e), W2)
           | Inr f \<Rightarrow> if fl_version f \<noteq> ca_current api then resume api req f None W2 else resume api req f (Some d) W2))"
    using Inr rec get row by (simp add: start_new_def newFlow_def split: sum.split)
  show ?thesis
  proof (cases r1)
    case (Inl e)
    then show ?thesis using r unfold outcome_quiet [OF fair op_steps(2) rec] by auto
  next
    case (Inr u)
    note r1 = this
    show ?thesis
    proof (cases r2)
      case (Inl e)
      then show ?thesis using r unfold r1 after outcome_quiet [OF fair op_steps(1) get] by auto
    next
      case (Inr f)
      note get' = get [unfolded Inr]
      consider "fl_template_id f \<noteq> sr_template_id req"
        | "fl_template_id f = sr_template_id req" "fl_version f \<noteq> ca_current api"
        | "fl_template_id f = sr_template_id req" "fl_version f = ca_current api" by blast
      then have "outcome api req w W1 r W'"
      proof cases
        case 1
        then show ?thesis
          using r unfold r1 Inr outcome_quiet [OF fair op_steps(1) get'] by (auto simp: resume_conflict split: if_splits)
      next
        case 2
        then have "resume api req f None W2 = (r, W')" using r unfold r1 Inr by simp
        then show ?thesis by (intro read_resume_outcome [OF fair ok1 get']) simp_all
      next
        case 3
        then have "resume api req f (Some d) W2 = (r, W')" using r unfold r1 Inr by simp
        then show ?thesis using load 3 by (intro read_resume_outcome [OF fair ok1 get']) simp_all
      qed
      then show ?thesis by (rule after)
    qed
  qed
qed

definition flow_id_of :: "string \<Rightarrow> start_request \<Rightarrow> string" where
  "flow_id_of uuid req = (if sr_workflow_id req = [] then FlowWorkflowID (sr_case_id req) (sr_template_id req) uuid
     else sr_workflow_id req)"

lemma newFlowRow_id: "newFlowRow uuid req = Inr row \<Longrightarrow> fl_workflow_id row = flow_id_of uuid req"
  by (auto simp: newFlowRow_def flow_id_of_def Let_def split: if_splits)

lemma StartFlow_unfold:
  "newFlowRow uuid req = Inr row \<Longrightarrow> StartFlow api uuid req W =
     (if sr_workflow_id req \<noteq> [] then
        (case repo_call api (Get_flow (fl_workflow_id row)) W of (r1, W1) \<Rightarrow>
           (case r1 of Inr f \<Rightarrow> resume api req f None W1
            | Inl ErrFlowNotFound \<Rightarrow> start_new api req row W1 | Inl e \<Rightarrow> (Inl (ReadFlowFailed e), W1)))
      else start_new api req row W)"
  by (simp add: StartFlow_def split: prod.split sum.split store_error.split)

lemma StartFlow_outcome:
  assumes fair: "fair_others api" and ok: "store_ok (fw_store W)" and r: "StartFlow api uuid req W = (r, W')"
  shows "outcome api req (flow_id_of uuid req) W r W'"
proof (cases "newFlowRow uuid req")
  case (Inl e)
  with r show ?thesis by (auto simp: StartFlow_def outcome_def)
next
  case (Inr row)
  note w = newFlowRow_id [OF Inr]
  obtain r1 W1 where get: "repo_call api (Get_flow (flow_id_of uuid req)) W = (r1, W1)"
    by (cases "repo_call api (Get_flow (flow_id_of uuid req)) W")
  have ok1: "store_ok (fw_store W1)" using repo_call_steps [OF fair op_steps(1) get] ok repo.steps_ok by blast
  show ?thesis
  proof (cases "sr_workflow_id req = []")
    case True
    with r Inr have "start_new api req row W = (r, W')" by (simp add: StartFlow_def)
    then show ?thesis by (rule start_new_outcome [OF fair ok w])
  next
    case False
    show ?thesis
    proof (cases r1)
      case (Inr f)
      with r \<open>newFlowRow uuid req = Inr row\<close> False get w have "resume api req f None W1 = (r, W')"
        by (simp add: StartFlow_def)
      then show ?thesis using get Inr by (intro read_resume_outcome [OF fair ok]) simp_all
    next
      case (Inl e)
      show ?thesis
      proof (cases e)
        case ErrFlowNotFound
        with r \<open>newFlowRow uuid req = Inr row\<close> False get w Inl have "start_new api req row W1 = (r, W')"
          by (simp add: StartFlow_def)
        then show ?thesis using outcome_after [OF fair op_steps(1) get] start_new_outcome [OF fair ok1 w] by blast
      next
        case (StoreDb m)
        with r \<open>newFlowRow uuid req = Inr row\<close> False get w Inl have "r = Inl (ReadFlowFailed e)" "W' = W1"
          by (auto simp: StartFlow_def)
        then show ?thesis using outcome_quiet [OF fair op_steps(1) get] by auto
      qed
    qed
  qed
qed

subsection \<open>Histories of requests\<close>

text \<open>
  Requests and completions in any order, each request with its own current version, manager
  and interference, over one artifact store.
\<close>

inductive serves :: "(int \<Rightarrow> string \<Rightarrow> load_error + 'def) \<Rightarrow> string \<Rightarrow> string \<Rightarrow> 'def flow_world \<Rightarrow> 'def flow_world \<Rightarrow> bool"
  for load vc vv where
  serve_start: "fair_others api \<Longrightarrow> ca_load api = load \<Longrightarrow> ca_var_case api = vc \<Longrightarrow> ca_var_version api = vv \<Longrightarrow>
    StartFlow api uuid req W = (r, W') \<Longrightarrow> serves load vc vv W W'"
| serve_completion: "CompletionHandler w (fw_store W) = (r, db) \<Longrightarrow> serves load vc vv W (W\<lparr>fw_store := db\<rparr>)"

inductive_simps serves_iff: "serves load vc vv W W'"

definition fixed_api :: "(int \<Rightarrow> string \<Rightarrow> load_error + 'def) \<Rightarrow> string \<Rightarrow> string \<Rightarrow> 'def core_api" where
  "fixed_api load vc vv = \<lparr>ca_current = 0, ca_load = load, ca_manager = None, ca_var_case = vc, ca_var_version = vv, ca_others = (\<lambda>db. db)\<rparr>"

definition calls_recorded :: "'def core_api \<Rightarrow> 'def flow_world \<Rightarrow> bool" where
  "calls_recorded api W \<longleftrightarrow> store_ok (fw_store W) \<and>
     (\<forall>c \<in> set (fw_calls W). \<exists>g. find_flow (sc_workflow_id c) (st_flows (fw_store W)) = Some g \<and> call_for api g c)"

lemma call_for_cong:
  "ca_load api = load \<Longrightarrow> ca_var_case api = vc \<Longrightarrow> ca_var_version api = vv \<Longrightarrow>
   call_for (fixed_api load vc vv) g c = call_for api g c"
  by (auto simp: call_for_def engine_vars_def fixed_api_def split: sum.split option.split)

lemma CompletionHandler_step: "CompletionHandler w db = (r, db') \<Longrightarrow> store_step db db'"
  by (auto simp: CompletionHandler_def intro: step_completed split: prod.splits sum.splits if_splits)

lemma calls_recorded_steps:
  assumes "calls_recorded api W" and "store_step\<^sup>*\<^sup>* (fw_store W) (fw_store W')" and "fw_calls W' = fw_calls W"
  shows "calls_recorded api W'"
  unfolding calls_recorded_def
proof (intro conjI ballI)
  have ok: "store_ok (fw_store W)" using assms(1) by (simp add: calls_recorded_def)
  with assms(2) show "store_ok (fw_store W')" by (rule repo.steps_ok)
  fix c assume "c \<in> set (fw_calls W')"
  then obtain f where f: "find_flow (sc_workflow_id c) (st_flows (fw_store W)) = Some f" "call_for api f c"
    using assms(1,3) by (auto simp: calls_recorded_def)
  with repo.steps_keep_flow [OF assms(2) ok f(1)]
  show "\<exists>g. find_flow (sc_workflow_id c) (st_flows (fw_store W')) = Some g \<and> call_for api g c"
    using call_for_follows by blast
qed

lemma calls_recorded_serves:
  assumes "serves load vc vv W W'" and "calls_recorded (fixed_api load vc vv) W"
  shows "calls_recorded (fixed_api load vc vv) W'"
  using assms
proof (cases rule: serves.cases)
  case (serve_start api uuid req r)
  have "store_ok (fw_store W)" using assms(2) by (simp add: calls_recorded_def)
  then have out: "outcome api req (flow_id_of uuid req) W r W'"
    using serve_start by (intro StartFlow_outcome)
  define W1 where "W1 = W'\<lparr>fw_calls := fw_calls W\<rparr>"
  have "calls_recorded (fixed_api load vc vv) W1"
    using assms(2) by (rule calls_recorded_steps) (use out in \<open>simp_all add: W1_def outcome_def\<close>)
  then have old: "store_ok (fw_store W')" "\<forall>c \<in> set (fw_calls W). \<exists>g. find_flow (sc_workflow_id c) (st_flows (fw_store W')) = Some g \<and> call_for (fixed_api load vc vv) g c"
    by (simp_all add: calls_recorded_def W1_def)
  have same: "call_for (fixed_api load vc vv) g c = call_for api g c" for g c
    using serve_start(2-4) by (rule call_for_cong)
  from out consider "fw_calls W' = fw_calls W"
    | c g where "fw_calls W' = fw_calls W @ [c]" "find_flow (flow_id_of uuid req) (st_flows (fw_store W')) = Some g" "call_for api g c"
    unfolding outcome_def by blast
  then show ?thesis
  proof cases
    case (2 c g)
    then have "find_flow (sc_workflow_id c) (st_flows (fw_store W')) = Some g"
      using call_for_id find_flow_Some by metis
    with 2 old same show ?thesis by (auto simp: calls_recorded_def)
  qed (use old in \<open>simp add: calls_recorded_def\<close>)
next
  case (serve_completion w r db)
  show ?thesis
    by (rule calls_recorded_steps [OF assms(2)]) (use serve_completion CompletionHandler_step in auto)
qed

lemma calls_recorded_reach:
  assumes "(serves load vc vv)\<^sup>*\<^sup>* \<lparr>fw_store = empty_store t faults, fw_calls = []\<rparr> W"
  shows "calls_recorded (fixed_api load vc vv) W"
  using assms
proof (induction rule: rtranclp_induct)
  case base
  then show ?case by (simp add: calls_recorded_def store_ok_empty)
next
  case (step y z)
  then show ?case using calls_recorded_serves by blast
qed

text \<open>A flow past STARTING is never sent to the engine.\<close>

lemma resume_started: "fl_status f \<noteq> Starting \<Longrightarrow> snd (resume api req f d W) = W"
  by (simp add: resume_def)

lemma follows_started: "flow_follows f g \<Longrightarrow> fl_status f \<noteq> Starting \<Longrightarrow> fl_status g \<noteq> Starting"
  by (cases "fl_status f"; cases "fl_status g") (auto simp: flow_follows_def less_eq_flow_status_def)

lemma repo_get_started:
  assumes "fair_others api" and "store_ok (fw_store W)" and "find_flow w (st_flows (fw_store W)) = Some f"
    and "fl_status f \<noteq> Starting" and "repo_call api (Get_flow w) W = (Inr g, W1)"
  shows "fl_status g \<noteq> Starting"
proof -
  have "store_step\<^sup>*\<^sup>* (fw_store W) (fw_store W1)" using repo_call_steps [OF assms(1) op_steps(1) assms(5)] by simp
  from repo.sightings_agree [OF this assms(2,3) repo_get [OF assms(5)]] assms(4) show ?thesis by (blast dest: follows_started)
qed

lemma start_new_started:
  assumes fair: "fair_others api" and ok: "store_ok (fw_store W)" and f: "find_flow (fl_workflow_id row) (st_flows (fw_store W)) = Some f"
    and st: "fl_status f \<noteq> Starting"
  shows "fw_calls (snd (start_new api req row W)) = fw_calls W"
proof -
  define newFlow where "newFlow = row\<lparr>fl_version := ca_current api\<rparr>"
  obtain r1 W1 where rec: "repo_call api (Record_flow newFlow (sr_owner req) (sr_case req)) W = (r1, W1)"
    by (cases "repo_call api (Record_flow newFlow (sr_owner req) (sr_case req)) W")
  note s1 = repo_call_steps [OF fair op_steps(2) rec]
  obtain g where g: "find_flow (fl_workflow_id row) (st_flows (fw_store W1)) = Some g" "fl_status g \<noteq> Starting"
    using repo.steps_keep_flow [OF _ ok f] s1 st follows_started by blast
  have ok1: "store_ok (fw_store W1)" using s1 ok repo.steps_ok by blast
  obtain r2 W2 where get: "repo_call api (Get_flow (fl_workflow_id row)) W1 = (r2, W2)"
    by (cases "repo_call api (Get_flow (fl_workflow_id row)) W1")
  note s2 = repo_call_steps [OF fair op_steps(1) get]
  have "fl_status h \<noteq> Starting" if "r2 = Inr h" for h
    using repo_get_started [OF fair ok1 g] get that by blast
  with rec get s1 s2 show ?thesis
    unfolding start_new_def newFlow_def
    by (cases "definition_of api (ca_current api) (sr_template_id req)"; cases r1; cases r2) (auto simp: resume_started)
qed

lemma started_keeps_calls:
  assumes "fair_others api" and "store_ok (fw_store W)"
    and "find_flow (flow_id_of uuid req) (st_flows (fw_store W)) = Some f" and "fl_status f \<noteq> Starting"
  shows "fw_calls (snd (StartFlow api uuid req W)) = fw_calls W"
proof (cases "newFlowRow uuid req")
  case (Inl e)
  then show ?thesis by (simp add: StartFlow_def)
next
  case (Inr row)
  note w = newFlowRow_id [OF Inr]
  obtain r1 W1 where get: "repo_call api (Get_flow (flow_id_of uuid req)) W = (r1, W1)"
    by (cases "repo_call api (Get_flow (flow_id_of uuid req)) W")
  note s = repo_call_steps [OF assms(1) op_steps(1) get]
  have ok1: "store_ok (fw_store W1)" using s assms(2) repo.steps_ok by blast
  obtain g where g: "find_flow (flow_id_of uuid req) (st_flows (fw_store W1)) = Some g" "fl_status g \<noteq> Starting"
    using repo.steps_keep_flow [OF _ assms(2,3)] s assms(4) follows_started by blast
  have "fw_calls (snd (resume api req h None W1)) = fw_calls W1" if "r1 = Inr h" for h
    using repo_get_started [OF assms] get that resume_started [of h api req None W1] by simp
  moreover have "fw_calls (snd (start_new api req row W1)) = fw_calls W1"
    using start_new_started [OF assms(1) ok1 _ g(2)] g(1) w by simp
  moreover have "fw_calls (snd (start_new api req row W)) = fw_calls W"
    using start_new_started [OF assms(1,2) _ assms(4)] assms(3) w by simp
  ultimately have "fw_calls (snd (case r1 of Inr f \<Rightarrow> resume api req f None W1
      | Inl ErrFlowNotFound \<Rightarrow> start_new api req row W1 | Inl e \<Rightarrow> (Inl (ReadFlowFailed e), W1))) = fw_calls W"
    and "fw_calls (snd (start_new api req row W)) = fw_calls W"
    using s by (auto split: sum.split store_error.split)
  then show ?thesis by (simp add: StartFlow_unfold [OF Inr] w get)
qed

subsection \<open>A concrete deployment\<close>

text \<open>One workflow, \<open>''review''\<close>, in every version from 1; an engine that fails its first call.\<close>

definition demo_api :: "int \<Rightarrow> string core_api" where
  "demo_api version = \<lparr>ca_current = version,
     ca_load = (\<lambda>v t. if t = ''review'' \<and> 1 \<le> v then Inr (''def'' @ show_int v) else Inl ArtifactNotFound),
     ca_manager = Some (\<lambda>cs c. if cs = [] then Some ''down'' else None),
     ca_var_case = ''case'', ca_var_version = ''version'', ca_others = (\<lambda>db. db)\<rparr>"

definition demo_request :: "string \<Rightarrow> json \<Rightarrow> start_request" where
  "demo_request template v = \<lparr>sr_case_id = ''c1'', sr_template_id = template, sr_workflow_id = ''f1'',
     sr_vars = Some [(''x'', v)], sr_owner = None, sr_case = None\<rparr>"

definition demo_start :: "string flow_world" where
  "demo_start = \<lparr>fw_store = empty_store 0 [], fw_calls = []\<rparr>"

text \<open>A first start the engine refuses, then a retry after a deploy with other variables.\<close>

definition demo_failed :: "string flow_world" where
  "demo_failed = snd (StartFlow (demo_api 1) [] (demo_request ''review'' JNull) demo_start)"

definition demo_retried :: "string flow_world" where
  "demo_retried = snd (StartFlow (demo_api 2) [] (demo_request ''review'' (JBool True)) demo_failed)"

lemma demo_fair: "fair_others (demo_api v)"
  by (simp add: fair_others_def demo_api_def)

lemma demo_serves:
  "(serves (ca_load (demo_api 1)) ''case'' ''version'')\<^sup>*\<^sup>* demo_start demo_retried" (is "?S\<^sup>*\<^sup>* _ _")
proof -
  have api: "ca_load (demo_api 2) = ca_load (demo_api 1)" "ca_var_case (demo_api v) = ''case''"
    "ca_var_version (demo_api v) = ''version''" for v by (simp_all add: demo_api_def)
  have "?S demo_start demo_failed"
    unfolding demo_failed_def by (rule serve_start [OF demo_fair refl api(2,3) surjective_pairing])
  moreover have "?S demo_failed demo_retried"
    unfolding demo_retried_def by (rule serve_start [OF demo_fair api surjective_pairing])
  ultimately show ?thesis by simp
qed

lemma demo_row:
  "find_flow ''f1'' (st_flows (fw_store demo_failed)) = Some \<lparr>fl_workflow_id = ''f1'', fl_case_id = ''c1'',
     fl_template_id = ''review'', fl_version = 1, fl_status = Starting, fl_payload = Some (JObj [(''x'', JNull)]), fl_created = 2\<rparr>"
  "find_flow ''f1'' (st_flows (fw_store demo_retried)) = Some \<lparr>fl_workflow_id = ''f1'', fl_case_id = ''c1'',
     fl_template_id = ''review'', fl_version = 1, fl_status = Started, fl_payload = Some (JObj [(''x'', JNull)]), fl_created = 2\<rparr>"
  by code_simp+

lemma demo_faults: "st_faults (fw_store demo_failed) = []" "st_faults (fw_store demo_start) = []"
  by code_simp+

lemma demo_ok: "store_ok (fw_store demo_retried)"
  using calls_recorded_reach [OF demo_serves [unfolded demo_start_def]] by (simp add: calls_recorded_def)

subsection \<open>Properties\<close>

text \<open>
  C4: over any history of start requests and completions, with any interference and any
  answers of the engine, all the engine calls made for one workflow ID are the same call: the
  definition of the template in the manifest version first recorded, with the variables first
  recorded.
\<close>
theorem engine_calls_agree:
  assumes "(serves load vc vv)\<^sup>*\<^sup>* \<lparr>fw_store = empty_store t faults, fw_calls = []\<rparr> W"
    and "c \<in> set (fw_calls W)" and "c' \<in> set (fw_calls W)" and "sc_workflow_id c' = sc_workflow_id c"
  shows "c' = c \<and> (\<exists>f. find_flow (sc_workflow_id c) (st_flows (fw_store W)) = Some f \<and>
    load (fl_version f) (fl_template_id f) = Inr (sc_definition c) \<and>
    (\<exists>vars. recorded_vars f = Some vars \<and>
       sc_vars c = obj_put vv (JNum (of_int (fl_version f))) (obj_put vc (JStr (fl_case_id f)) vars)))"
proof -
  have rec: "calls_recorded (fixed_api load vc vv) W" using assms(1) by (rule calls_recorded_reach)
  then obtain f where f: "find_flow (sc_workflow_id c) (st_flows (fw_store W)) = Some f" "call_for (fixed_api load vc vv) f c"
    using assms(2) unfolding calls_recorded_def by blast
  obtain g where g: "find_flow (sc_workflow_id c') (st_flows (fw_store W)) = Some g" "call_for (fixed_api load vc vv) g c'"
    using rec assms(3) unfolding calls_recorded_def by blast
  have "g = f" using f(1) g(1) assms(4) by simp
  with f(2) g(2) have "c' = c" by (simp add: call_for_unique)
  with f show ?thesis by (auto simp: call_for_def fixed_api_def engine_vars_def split: sum.splits option.splits)
qed

theorem engine_calls_agree_witness:
  "length (fw_calls demo_retried) = 2 \<and> fw_calls demo_retried ! 1 = fw_calls demo_retried ! 0 \<and>
   map sc_definition (fw_calls demo_retried) = [''def1'', ''def1'']"
proof -
  have calls: "length (fw_calls demo_retried) = 2" "map sc_workflow_id (fw_calls demo_retried) = [''f1'', ''f1'']"
    "map sc_definition (fw_calls demo_retried) = [''def1'', ''def1'']" by code_simp+
  then obtain a b where ab: "fw_calls demo_retried = [a, b]"
    by (auto simp: length_Suc_conv numeral_2_eq_2)
  then have "a \<in> set (fw_calls demo_retried)" "b \<in> set (fw_calls demo_retried)" "sc_workflow_id b = sc_workflow_id a"
    using calls(2) by simp_all
  from engine_calls_agree [OF demo_serves [unfolded demo_start_def] this] ab calls show ?thesis by simp
qed

text \<open>
  a flow that has started, or completed, is never sent to the engine again, whatever the
  request, the engine and the other requests do.
\<close>
theorem started_never_restarts:
  assumes "fair_others api" and "store_ok (fw_store W)"
    and "find_flow (flow_id_of uuid req) (st_flows (fw_store W)) = Some f" and "fl_status f \<noteq> Starting"
  shows "fw_calls (snd (StartFlow api uuid req W)) = fw_calls W"
  using assms by (rule started_keeps_calls)

theorem started_never_restarts_witness:
  "fw_calls (snd (StartFlow (demo_api 5) [] (demo_request ''review'' JNull) demo_retried)) = fw_calls demo_retried"
  by (rule started_never_restarts [OF demo_fair demo_ok])
     (simp add: flow_id_of_def demo_request_def demo_row(2), simp)

text \<open>
  a retry finishes what a failed start left: if the flow's row is STARTING and agrees with
  the request, the store and the engine work and the recorded version still loads, the request
  makes exactly the flow's call and answers with the flow STARTED, whatever its own variables
  and the version current now.
\<close>
theorem retry_starts_recorded_flow:
  assumes "find_flow (sr_workflow_id req) (st_flows (fw_store W)) = Some f" and "fl_status f = Starting"
    and "newFlowRow uuid req = Inr row" and "sr_workflow_id req \<noteq> []"
    and "fl_case_id f = sr_case_id req" and "fl_template_id f = sr_template_id req"
    and "\<forall>db. ca_others api db = db" and "st_faults (fw_store W) = []"
    and "ca_load api (fl_version f) (fl_template_id f) = Inr d" and "recorded_vars f = Some vars"
    and "ca_manager api = Some respond" and "\<forall>cs c. respond cs c = None"
  shows "\<exists>db. StartFlow api uuid req W = (Inr (f\<lparr>fl_status := Started\<rparr>),
    W\<lparr>fw_calls := fw_calls W @
       [\<lparr>sc_workflow_id = sr_workflow_id req, sc_definition = d, sc_vars = engine_vars api f vars\<rparr>], fw_store := db\<rparr>) \<and>
    find_flow (sr_workflow_id req) (st_flows db) = Some (f\<lparr>fl_status := Started\<rparr>)"
proof -
  define w where "w = sr_workflow_id req"
  have row: "fl_workflow_id row = w" using newFlowRow_id [OF assms(3)] assms(4) by (simp add: flow_id_of_def w_def)
  have fw: "fl_workflow_id f = w" using find_flow_Some [OF assms(1)] by (simp add: w_def)
  obtain db1 where b: "begin_op (fw_store W) = (None, db1)" and nf: "st_faults db1 = []"
    using assms(8) by (simp add: begin_op_def)
  have get: "repo_call api (Get_flow w) W = (Inr f, W\<lparr>fw_store := db1\<rparr>)"
    using Get_found [OF b assms(1)] assms(7) by (simp add: repo_call_def w_def)
  define c where "c = \<lparr>sc_workflow_id = w, sc_definition = d, sc_vars = engine_vars api f vars\<rparr>"
  define W1 where "W1 = W\<lparr>fw_store := db1, fw_calls := fw_calls W @ [c]\<rparr>"
  have st: "start api f d (W\<lparr>fw_store := db1\<rparr>) = (Inr (), W1)"
    using assms(10-12) fw by (simp add: start_def c_def W1_def)
  obtain db2 where b2: "begin_op db1 = (None, db2)" using nf by (simp add: begin_op_def)
  have fl: "st_flows db2 = st_flows (fw_store W)" using begin_op_rows [OF b] begin_op_rows [OF b2] by simp
  define db3 where "db3 = db2\<lparr>st_flows := map (start_flow_row w) (st_flows (fw_store W))\<rparr>"
  have mark: "repo_call api (MarkStarted w) W1 = (Inr (), W1\<lparr>fw_store := db3\<rparr>)"
    using assms(1,7) b2 fl by (simp add: repo_call_def MarkStarted_def W1_def db3_def w_def start_flow_row_def [abs_def])
  have "definition_of api (fl_version f) (fl_template_id f) = Inr d" using assms(9) by (simp add: definition_of_Inr)
  then have "StartFlow api uuid req W = (Inr (f\<lparr>fl_status := Started\<rparr>), W1\<lparr>fw_store := db3\<rparr>)"
    using assms(2-6) row get st mark fw by (simp add: StartFlow_def resume_def)
  moreover have "find_flow w (map (start_flow_row w) (st_flows (fw_store W))) = Some (f\<lparr>fl_status := Started\<rparr>)"
    using find_start_row [OF assms(1)] assms(2) fw by (simp add: start_flow_row_def w_def)
  ultimately show ?thesis by (auto simp: W1_def db3_def c_def w_def)
qed

theorem retry_starts_recorded_flow_witness:
  "\<exists>W'. StartFlow ((demo_api 2)\<lparr>ca_manager := Some (\<lambda>cs c. None)\<rparr>) [] (demo_request ''review'' (JBool True)) demo_failed = (Inr \<lparr>fl_workflow_id = ''f1'', fl_case_id = ''c1'',
     fl_template_id = ''review'', fl_version = 1, fl_status = Started, fl_payload = Some (JObj [(''x'', JNull)]), fl_created = 2\<rparr>, W') \<and>
     map sc_definition (fw_calls W') = map sc_definition (fw_calls demo_failed) @ [''def1'']"
proof -
  let ?req = "demo_request ''review'' (JBool True)" and ?api = "(demo_api 2)\<lparr>ca_manager := Some (\<lambda>cs c. None)\<rparr>"
  have row: "is_ok (newFlowRow [] ?req)" by code_simp
  then obtain row where "newFlowRow [] ?req = Inr row" by (auto simp: is_ok_iff)
  note r = retry_starts_recorded_flow [OF _ _ this, of demo_failed _ ?api "''def1''" "[(''x'', JNull)]" "\<lambda>cs c. None"]
  have wid: "sr_workflow_id ?req = ''f1''" "sr_case_id ?req = ''c1''" "sr_template_id ?req = ''review''" by (simp_all add: demo_request_def)
  have load: "ca_load ?api 1 ''review'' = Inr ''def1''" by code_simp
  have api: "\<forall>db. ca_others ?api db = db" "ca_manager ?api = Some (\<lambda>cs c. None)" by (simp_all add: demo_api_def)
  let ?f = "\<lparr>fl_workflow_id = ''f1'', fl_case_id = ''c1'', fl_template_id = ''review'', fl_version = 1,
     fl_status = Starting, fl_payload = Some (JObj [(''x'', JNull)]), fl_created = 2\<rparr>"
  have "\<exists>db. StartFlow ?api [] ?req demo_failed = (Inr (?f\<lparr>fl_status := Started\<rparr>), demo_failed\<lparr>fw_calls := fw_calls demo_failed @
       [\<lparr>sc_workflow_id = sr_workflow_id ?req, sc_definition = ''def1'', sc_vars = engine_vars ?api ?f [(''x'', JNull)]\<rparr>], fw_store := db\<rparr>) \<and>
     find_flow (sr_workflow_id ?req) (st_flows db) = Some (?f\<lparr>fl_status := Started\<rparr>)"
    by (rule r [of ?f]) (use api load in \<open>simp_all add: wid demo_row(1) demo_faults recorded_vars_def\<close>)
  then obtain db where "StartFlow ?api [] ?req demo_failed = (Inr (?f\<lparr>fl_status := Started\<rparr>), demo_failed\<lparr>fw_calls := fw_calls demo_failed @
       [\<lparr>sc_workflow_id = sr_workflow_id ?req, sc_definition = ''def1'', sc_vars = engine_vars ?api ?f [(''x'', JNull)]\<rparr>], fw_store := db\<rparr>)"
    by blast
  then show ?thesis by simp
qed

text \<open>
  Why a request is turned away before anything is recorded: the row it would record is
  invalid, the workflow ID is another flow's, or a new flow's template is in no definition.
\<close>

definition turned_away :: "'def core_api \<Rightarrow> string \<Rightarrow> start_request \<Rightarrow> store \<Rightarrow> flow_error option" where
  "turned_away api uuid req db =
     (case newFlowRow uuid req of
        Inl e \<Rightarrow> Some e
      | Inr _ \<Rightarrow>
          (case (if sr_workflow_id req = [] then None else find_flow (sr_workflow_id req) (st_flows db)) of
             Some f \<Rightarrow> if fl_case_id f \<noteq> sr_case_id req \<or> fl_template_id f \<noteq> sr_template_id req
                        then Some (ErrConflict (fl_workflow_id f) (fl_case_id f) (fl_template_id f)) else None
           | None \<Rightarrow> (case ca_load api (ca_current api) (sr_template_id req) of
                 Inl ArtifactNotFound \<Rightarrow> Some (ErrUnknownTemplate (sr_template_id req)) | _ \<Rightarrow> None)))"

lemma start_new_unknown:
  "ca_load api (ca_current api) (sr_template_id req) = Inl ArtifactNotFound \<Longrightarrow>
   start_new api req row W = (Inl (ErrUnknownTemplate (sr_template_id req)), W)"
  by (simp add: start_new_def definition_of_def)

lemma quiet_repo_get:
  assumes "\<forall>db. ca_others api db = db" and "st_faults (fw_store W) = []"
  shows "\<exists>db. repo_call api (Get_flow w) W =
      ((case find_flow w (st_flows (fw_store W)) of None \<Rightarrow> Inl ErrFlowNotFound | Some f \<Rightarrow> Inr f), W\<lparr>fw_store := db\<rparr>) \<and>
    st_cases db = st_cases (fw_store W) \<and> st_flows db = st_flows (fw_store W) \<and> st_parties db = st_parties (fw_store W)"
proof -
  obtain db where b: "begin_op (fw_store W) = (None, db)" using assms(2) by (simp add: begin_op_def)
  show ?thesis
    using begin_op_rows [OF b] Get_found [OF b] Get_missing [OF b] assms(1)
    by (cases "find_flow w (st_flows (fw_store W))") (auto simp: repo_call_def)
qed

text \<open>
  a request that is turned away is answered with its reason, changes no row, and never
  reaches the engine.
\<close>
theorem turned_away_writes_nothing:
  assumes "\<forall>db. ca_others api db = db" and "st_faults (fw_store W) = []"
    and "turned_away api uuid req (fw_store W) = Some e"
  shows "\<exists>db. StartFlow api uuid req W = (Inl e, W\<lparr>fw_store := db\<rparr>) \<and> st_cases db = st_cases (fw_store W) \<and>
    st_flows db = st_flows (fw_store W) \<and> st_parties db = st_parties (fw_store W)"
proof (cases "newFlowRow uuid req")
  case (Inl e')
  with assms(3) have "StartFlow api uuid req W = (Inl e, W\<lparr>fw_store := fw_store W\<rparr>)"
    by (simp add: StartFlow_def turned_away_def)
  then show ?thesis by blast
next
  case (Inr row)
  obtain db where get: "repo_call api (Get_flow (fl_workflow_id row)) W =
      ((case find_flow (fl_workflow_id row) (st_flows (fw_store W)) of None \<Rightarrow> Inl ErrFlowNotFound | Some f \<Rightarrow> Inr f), W\<lparr>fw_store := db\<rparr>)"
    and db: "st_cases db = st_cases (fw_store W)" "st_flows db = st_flows (fw_store W)" "st_parties db = st_parties (fw_store W)"
    using quiet_repo_get [OF assms(1,2)] by blast
  note w = newFlowRow_id [OF Inr]
  show ?thesis
  proof (cases "sr_workflow_id req = []")
    case True
    have "ca_load api (ca_current api) (sr_template_id req) = Inl ArtifactNotFound \<and> e = ErrUnknownTemplate (sr_template_id req)"
      using assms(3) Inr True by (auto simp: turned_away_def split: sum.splits load_error.splits)
    then have "StartFlow api uuid req W = (Inl e, W\<lparr>fw_store := fw_store W\<rparr>)"
      using start_new_unknown [of api req row W] True Inr by (simp add: StartFlow_unfold)
    then show ?thesis by blast
  next
    case False
    then have wid: "fl_workflow_id row = sr_workflow_id req" using w by (simp add: flow_id_of_def)
    show ?thesis
    proof (cases "find_flow (sr_workflow_id req) (st_flows (fw_store W))")
      case None
      have "ca_load api (ca_current api) (sr_template_id req) = Inl ArtifactNotFound \<and> e = ErrUnknownTemplate (sr_template_id req)"
        using assms(3) Inr None False by (auto simp: turned_away_def split: sum.splits load_error.splits)
      then have "StartFlow api uuid req W = (Inl e, W\<lparr>fw_store := db\<rparr>)"
        using False None get wid start_new_unknown [of api req row "W\<lparr>fw_store := db\<rparr>"] by (simp add: StartFlow_unfold [OF Inr])
      with db show ?thesis by blast
    next
      case (Some f)
      have "(fl_case_id f \<noteq> sr_case_id req \<or> fl_template_id f \<noteq> sr_template_id req) \<and>
          e = ErrConflict (fl_workflow_id f) (fl_case_id f) (fl_template_id f)"
        using assms(3) Inr Some False by (auto simp: turned_away_def split: if_splits)
      then have "StartFlow api uuid req W = (Inl e, W\<lparr>fw_store := db\<rparr>)"
        using False Some get wid by (simp add: StartFlow_unfold [OF Inr] resume_def)
      with db show ?thesis by blast
    qed
  qed
qed

theorem turned_away_writes_nothing_witness:
  "\<exists>db. StartFlow (demo_api 2) [] (demo_request ''unknown'' JNull) demo_start =
     (Inl (ErrUnknownTemplate ''unknown''), demo_start\<lparr>fw_store := db\<rparr>) \<and> st_cases db = []"
proof -
  have "\<forall>db. ca_others (demo_api 2) db = db" by (simp add: demo_api_def)
  moreover have "turned_away (demo_api 2) [] (demo_request ''unknown'' JNull) (fw_store demo_start) = Some (ErrUnknownTemplate ''unknown'')"
    by code_simp
  ultimately show ?thesis
    using turned_away_writes_nothing [OF _ demo_faults(2), of "demo_api 2" "[]" "demo_request ''unknown'' JNull" "ErrUnknownTemplate ''unknown''"]
    by (auto simp: demo_start_def empty_store_def)
qed

end
