(* ===== verification/Flow_Config.thy ===== *)
theory Flow_Config
  imports Task_Authz
begin

text \<open>
  \<open>internal/catalog\<close> (\<open>RequireRoles\<close>, \<open>Validate\<close>) and
  \<open>internal/caseflow/config.go\<close>: the lists of workflows a person or another system may
  start on a case, their validation against the catalog, and the lookups. Whether a text is a
  JSON Pointer and what an artifact manifest holds are parameters. The error of a check is a
  reason with the place it names.
\<close>

subsection \<open>The catalog\<close>

definition RequireRoles :: "(string \<times> string) list \<Rightarrow> string list \<Rightarrow> string list + unit" where
  "RequireRoles roles names =
     (let missing = filter (\<lambda>name. case map_of roles name of None \<Rightarrow> True | Some role \<Rightarrow> role = []) names
      in if missing \<noteq> [] then Inl missing else Inr ())"

datatype catalog_error = NilCatalog | EmptyCatalog | RoleNotMapped string | ClientNotMapped string

definition Validate_catalog :: "catalog option \<Rightarrow> catalog_error + unit" where
  "Validate_catalog c =
     (case c of
        None \<Rightarrow> Inl NilCatalog
      | Some c \<Rightarrow>
          if cat_roles c = [] \<and> cat_clients c = [] then Inl EmptyCatalog
          else case List.find (\<lambda>(_, role). role = []) (cat_roles c) of
            Some (name, _) \<Rightarrow> Inl (RoleNotMapped name)
          | None \<Rightarrow> (case List.find (\<lambda>(_, clientID). clientID = []) (cat_clients c) of
              Some (name, _) \<Rightarrow> Inl (ClientNotMapped name)
            | None \<Rightarrow> Inr ()))"

lemma Validate_catalog_roles:
  "Validate_catalog (Some c) = Inr () \<Longrightarrow> (name, role) \<in> set (cat_roles c) \<Longrightarrow> role \<noteq> []"
  by (auto simp: Validate_catalog_def find_None_iff split: if_splits option.splits)

lemma RequireRoles_ok:
  "RequireRoles roles names = Inr () \<longleftrightarrow> (\<forall>n \<in> set names. \<exists>r. map_of roles n = Some r \<and> r \<noteq> [])"
  by (auto simp: RequireRoles_def Let_def filter_empty_conv split: option.splits)

subsection \<open>The lists\<close>

record user_flow =
  uf_id :: string
  uf_label :: string
  uf_roles :: "string list"

record user_flows =
  ufs_enabled :: bool
  ufs_workflows :: "user_flow list"

record client_flow =
  cf_id :: string
  cf_clients :: "string list"
  cf_owner :: string

record client_flows =
  cfs_enabled :: bool
  cfs_ou_handle :: string
  cfs_case_columns :: "(string \<times> string) list"
  cfs_workflows :: "client_flow list"

record flow_config =
  fc_users :: user_flows
  fc_clients :: client_flows

abbreviation CaseColumnName :: string where "CaseColumnName \<equiv> ''name''"

subsection \<open>Validation\<close>

datatype flow_list = UserList | ClientList

datatype config_error =
    IdRequired flow_list nat
  | ListedTwice flow_list nat string
  | LabelRequired nat string
  | NamesRequired flow_list nat string
  | NameNotInCatalog flow_list nat string string
  | OUHandleRequired
  | UnknownColumn string
  | NotAPointer string string
  | OwnerRequired nat string
  | OwnerNotInCatalog nat string string
  | NotInManifest flow_list string

definition checkID :: "flow_list \<Rightarrow> nat \<Rightarrow> string \<Rightarrow> string list \<Rightarrow> config_error + string list" where
  "checkID lst i ident seen =
     (if blank ident then Inl (IdRequired lst i)
      else if ident \<in> set seen then Inl (ListedTwice lst i ident)
      else Inr (ident # seen))"

definition checkNames :: "flow_list \<Rightarrow> nat \<Rightarrow> string \<Rightarrow> string list \<Rightarrow> (string \<times> string) list \<Rightarrow> config_error + unit" where
  "checkNames lst i ident names defined =
     (if names = [] then Inl (NamesRequired lst i ident)
      else case List.find (\<lambda>name. map_of defined name = None) names of
        Some name \<Rightarrow> Inl (NameNotInCatalog lst i ident name)
      | None \<Rightarrow> Inr ())"

fun check_user_flows :: "catalog \<Rightarrow> nat \<Rightarrow> string list \<Rightarrow> user_flow list \<Rightarrow> config_error + unit" where
  "check_user_flows cat i seen [] = Inr ()"
| "check_user_flows cat i seen (f # fs) =
     (case checkID UserList i (uf_id f) seen of
        Inl e \<Rightarrow> Inl e
      | Inr seen' \<Rightarrow>
          if blank (uf_label f) then Inl (LabelRequired i (uf_id f))
          else case checkNames UserList i (uf_id f) (uf_roles f) (cat_roles cat) of
            Inl e \<Rightarrow> Inl e
          | Inr _ \<Rightarrow> check_user_flows cat (Suc i) seen' fs)"

fun check_client_flows :: "catalog \<Rightarrow> nat \<Rightarrow> string list \<Rightarrow> client_flow list \<Rightarrow> config_error + unit" where
  "check_client_flows cat i seen [] = Inr ()"
| "check_client_flows cat i seen (f # fs) =
     (case checkID ClientList i (cf_id f) seen of
        Inl e \<Rightarrow> Inl e
      | Inr seen' \<Rightarrow>
          (case checkNames ClientList i (cf_id f) (cf_clients f) (cat_clients cat) of
             Inl e \<Rightarrow> Inl e
           | Inr _ \<Rightarrow>
               if blank (cf_owner f) then Inl (OwnerRequired i (cf_id f))
               else if map_of (cat_roles cat) (cf_owner f) = None then Inl (OwnerNotInCatalog i (cf_id f) (cf_owner f))
               else check_client_flows cat (Suc i) seen' fs))"

fun check_columns :: "(string \<Rightarrow> bool) \<Rightarrow> (string \<times> string) list \<Rightarrow> config_error + unit" where
  "check_columns pointer_valid [] = Inr ()"
| "check_columns pointer_valid ((column, pointer) # cs) =
     (if column \<noteq> CaseColumnName then Inl (UnknownColumn column)
      else if \<not> pointer_valid pointer then Inl (NotAPointer column pointer)
      else check_columns pointer_valid cs)"

definition Validate_flows :: "(string \<Rightarrow> bool) \<Rightarrow> flow_config \<Rightarrow> catalog \<Rightarrow> config_error + unit" where
  "Validate_flows pointer_valid c cat =
     (case check_user_flows cat 0 [] (ufs_workflows (fc_users c)) of
        Inl e \<Rightarrow> Inl e
      | Inr _ \<Rightarrow>
          if cfs_workflows (fc_clients c) \<noteq> [] \<and> blank (cfs_ou_handle (fc_clients c)) then Inl OUHandleRequired
          else case check_columns pointer_valid (cfs_case_columns (fc_clients c)) of
            Inl e \<Rightarrow> Inl e
          | Inr _ \<Rightarrow> check_client_flows cat 0 [] (cfs_workflows (fc_clients c)))"

definition CheckWorkflows :: "(string \<Rightarrow> bool) \<Rightarrow> flow_config \<Rightarrow> config_error + unit" where
  "CheckWorkflows loads c =
     (case List.find (\<lambda>f. \<not> loads (uf_id f)) (ufs_workflows (fc_users c)) of
        Some f \<Rightarrow> Inl (NotInManifest UserList (uf_id f))
      | None \<Rightarrow> (case List.find (\<lambda>f. \<not> loads (cf_id f)) (cfs_workflows (fc_clients c)) of
            Some f \<Rightarrow> Inl (NotInManifest ClientList (cf_id f))
          | None \<Rightarrow> Inr ()))"

subsection \<open>Lookups\<close>

definition startableBy :: "user_flow \<Rightarrow> string list \<Rightarrow> bool" where
  "startableBy f roles = list_ex (\<lambda>role. role \<in> set roles) (uf_roles f)"

definition Startable :: "user_flows \<Rightarrow> string list \<Rightarrow> user_flow list" where
  "Startable f roles = (if \<not> ufs_enabled f then [] else filter (\<lambda>flow. startableBy flow roles) (ufs_workflows f))"

definition Find_user :: "user_flows \<Rightarrow> string \<Rightarrow> string list \<Rightarrow> user_flow option" where
  "Find_user f ident roles = List.find (\<lambda>flow. uf_id flow = ident) (Startable f roles)"

definition Find_client :: "client_flows \<Rightarrow> string \<Rightarrow> string \<Rightarrow> client_flow option" where
  "Find_client f ident client =
     (if \<not> cfs_enabled f then None
      else List.find (\<lambda>flow. cf_id flow = ident \<and> client \<in> set (cf_clients flow)) (cfs_workflows f))"

subsection \<open>What validation guarantees\<close>

lemma find_by_key:
  "distinct (map k xs) \<Longrightarrow> List.find (\<lambda>x. k x = a) xs = Some y \<longleftrightarrow> y \<in> set xs \<and> k y = a"
  by (induction xs) (auto simp: image_iff)

lemma find_key_and:
  "distinct (map k xs) \<Longrightarrow> List.find (\<lambda>x. k x = a \<and> p x) xs = Some y \<longleftrightarrow> y \<in> set xs \<and> k y = a \<and> p y"
  by (induction xs) (auto simp: image_iff)

lemma checkID_ok: "checkID wh i ident seen = Inr s \<longleftrightarrow> \<not> blank ident \<and> ident \<notin> set seen \<and> s = ident # seen"
  by (auto simp: checkID_def)

lemma checkNames_ok:
  "checkNames wh i ident names defined = Inr u \<longleftrightarrow> names \<noteq> [] \<and> (\<forall>n \<in> set names. map_of defined n \<noteq> None)"
  by (auto simp: checkNames_def find_None_iff split: option.splits dest: find_SomeD)

lemma check_user_flows_ok:
  "check_user_flows cat i seen fs = Inr () \<longleftrightarrow>
     distinct (map uf_id fs) \<and> set (map uf_id fs) \<inter> set seen = {} \<and>
     (\<forall>f \<in> set fs. \<not> blank (uf_id f) \<and> \<not> blank (uf_label f) \<and> uf_roles f \<noteq> [] \<and>
        (\<forall>r \<in> set (uf_roles f). map_of (cat_roles cat) r \<noteq> None))"
  by (induction fs arbitrary: i seen)
     (auto simp: bind_ok checkID_ok checkNames_ok)

lemma check_client_flows_ok:
  "check_client_flows cat i seen fs = Inr () \<longleftrightarrow>
     distinct (map cf_id fs) \<and> set (map cf_id fs) \<inter> set seen = {} \<and>
     (\<forall>f \<in> set fs. \<not> blank (cf_id f) \<and> cf_clients f \<noteq> [] \<and> (\<forall>r \<in> set (cf_clients f). map_of (cat_clients cat) r \<noteq> None) \<and>
        \<not> blank (cf_owner f) \<and> map_of (cat_roles cat) (cf_owner f) \<noteq> None)"
  by (induction fs arbitrary: i seen)
     (auto simp: bind_ok checkID_ok checkNames_ok)

subsection \<open>Properties\<close>

text \<open>
  in a configuration that validates against a catalog, a person may start a workflow
  exactly when its list is on and some listed flow of that id, the only one, names one of the
  roles they own the case in; every role it names is in the catalog.
\<close>
theorem user_flow_found_iff:
  assumes "Validate_flows pointer_valid c cat = Inr ()"
  shows "Find_user (fc_users c) ident roles = Some f \<longleftrightarrow>
    ufs_enabled (fc_users c) \<and> f \<in> set (ufs_workflows (fc_users c)) \<and> uf_id f = ident \<and>
    (\<exists>r \<in> set roles. r \<in> set (uf_roles f) \<and> map_of (cat_roles cat) r \<noteq> None)"
proof -
  have ok: "distinct (map uf_id (ufs_workflows (fc_users c)))"
    "\<forall>f \<in> set (ufs_workflows (fc_users c)). \<forall>r \<in> set (uf_roles f). map_of (cat_roles cat) r \<noteq> None"
    using assms by (auto simp: Validate_flows_def bind_ok check_user_flows_ok)
  have "distinct (map uf_id (filter p (ufs_workflows (fc_users c))))" for p
    using ok(1) by (rule distinct_map_filter)
  then have "Find_user (fc_users c) ident roles = Some f \<longleftrightarrow>
      ufs_enabled (fc_users c) \<and> f \<in> set (ufs_workflows (fc_users c)) \<and> startableBy f roles \<and> uf_id f = ident"
    by (auto simp: Find_user_def Startable_def find_by_key)
  then show ?thesis using ok(2) by (auto simp: startableBy_def list_ex_iff)
qed

lemma client_flow_facts:
  assumes "Validate_flows pointer_valid c cat = Inr ()"
  shows "Find_client (fc_clients c) ident client = Some f \<longleftrightarrow>
    cfs_enabled (fc_clients c) \<and> f \<in> set (cfs_workflows (fc_clients c)) \<and> cf_id f = ident \<and> client \<in> set (cf_clients f) \<and>
    map_of (cat_clients cat) client \<noteq> None \<and> map_of (cat_roles cat) (cf_owner f) \<noteq> None \<and> \<not> blank (cfs_ou_handle (fc_clients c))"
proof -
  let ?fs = "cfs_workflows (fc_clients c)"
  have ok: "distinct (map cf_id ?fs)"
    "\<forall>f \<in> set ?fs. (\<forall>r \<in> set (cf_clients f). map_of (cat_clients cat) r \<noteq> None) \<and> map_of (cat_roles cat) (cf_owner f) \<noteq> None"
    "?fs \<noteq> [] \<longrightarrow> \<not> blank (cfs_ou_handle (fc_clients c))"
    using assms by (auto simp: Validate_flows_def bind_ok check_client_flows_ok split: if_splits)
  have "Find_client (fc_clients c) ident client = Some f \<longleftrightarrow>
      cfs_enabled (fc_clients c) \<and> f \<in> set ?fs \<and> cf_id f = ident \<and> client \<in> set (cf_clients f)"
    using ok(1) by (auto simp: Find_client_def find_key_and)
  then show ?thesis using ok(2,3) by fastforce
qed

lemma client_found:
  assumes "Validate_flows pointer_valid c cat = Inr ()" and "Find_client (fc_clients c) ident client = Some f"
  shows "cfs_enabled (fc_clients c)" "f \<in> set (cfs_workflows (fc_clients c))" "cf_id f = ident" "client \<in> set (cf_clients f)"
    "map_of (cat_roles cat) (cf_owner f) \<noteq> None" "\<not> blank (cfs_ou_handle (fc_clients c))"
  using client_flow_facts [OF assms(1)] assms(2) by auto

text \<open>
  in a configuration that validates, a client finds a workflow exactly when the list is on
  and the one listed flow of that id names the client; the case it starts on is then owned by
  a named OU in a role the catalog defines.
\<close>
theorem client_flow_found_iff:
  assumes "Validate_flows pointer_valid c cat = Inr ()"
  shows "Find_client (fc_clients c) ident client = Some f \<longleftrightarrow>
    cfs_enabled (fc_clients c) \<and> f \<in> set (cfs_workflows (fc_clients c)) \<and> cf_id f = ident \<and> client \<in> set (cf_clients f) \<and>
    map_of (cat_clients cat) client \<noteq> None \<and> map_of (cat_roles cat) (cf_owner f) \<noteq> None \<and> \<not> blank (cfs_ou_handle (fc_clients c))"
  using assms by (rule client_flow_facts)

definition demo_flow_config :: flow_config where
  "demo_flow_config = \<lparr>fc_users = \<lparr>ufs_enabled = True, ufs_workflows = [\<lparr>uf_id = ''amend'', uf_label = ''Amend'', uf_roles = [''trader'']\<rparr>]\<rparr>,
     fc_clients = \<lparr>cfs_enabled = True, cfs_ou_handle = ''npqs'', cfs_case_columns = [(''name'', ''/company/name'')],
       cfs_workflows = [\<lparr>cf_id = ''review'', cf_clients = [''npqs''], cf_owner = ''cha''\<rparr>]\<rparr>\<rparr>"

lemma demo_flow_config_valid: "Validate_flows (has_prefix ''/'') demo_flow_config demo_catalog = Inr ()"
  by code_simp

theorem user_flow_found_iff_witness:
  "Find_user (fc_users demo_flow_config) ''amend'' [''cha'', ''trader''] =
     Some \<lparr>uf_id = ''amend'', uf_label = ''Amend'', uf_roles = [''trader'']\<rparr>"
  using user_flow_found_iff [OF demo_flow_config_valid]
  by (simp add: demo_flow_config_def demo_catalog_def)

theorem client_flow_found_iff_witness:
  "Find_client (fc_clients demo_flow_config) ''review'' ''npqs'' =
     Some \<lparr>cf_id = ''review'', cf_clients = [''npqs''], cf_owner = ''cha''\<rparr> \<and>
   Find_client (fc_clients demo_flow_config) ''review'' ''other'' \<noteq>
     Some \<lparr>cf_id = ''review'', cf_clients = [''npqs''], cf_owner = ''cha''\<rparr>"
proof -
  have nb: "\<not> blank ''npqs''" by code_simp
  show ?thesis
    using client_flow_found_iff [OF demo_flow_config_valid] nb
    by (simp add: demo_flow_config_def demo_catalog_def)
qed

end
