(* ===== verification/Client_Flows.thy ===== *)
theory Client_Flows
  imports Case_Flows Flow_Config Principals
begin

text \<open>
  \<open>internal/caseflow/client_handler.go\<close>: the route another system starts a flow on. The
  request body is what \<open>encoding/json\<close> makes of it (\<open>decodeClientStart\<close>), a response is
  its status code with the flow it carries. Reading a JSON Pointer is a parameter.
\<close>

record client_start_request =
  cs_workflow_id :: string
  cs_flow_id :: string
  cs_input :: "json option"
  cs_callback_token :: string
  cs_attributes :: "(string \<times> json) list"

datatype response = Response nat "flow option"

record client_handler =
  ch_list :: client_flows
  ch_clients :: "(string \<times> string) list"

definition NewClientHandler :: "client_flows \<Rightarrow> (string \<times> string) list \<Rightarrow> client_handler" where
  "NewClientHandler lst clients = \<lparr>ch_list = lst, ch_clients = map (\<lambda>(name, ident). (ident, name)) clients\<rparr>"

text \<open>The struct's fields, by \<open>encoding/json\<close>'s rules; \<open>input\<close> keeps its document, null included.\<close>

definition decodeClientStart :: "raw_message \<Rightarrow> client_start_request option" where
  "decodeClientStart raw =
     (let field = (\<lambda>kvs name. case field_get kvs name of None \<Rightarrow> JNull | Some v \<Rightarrow> v) in
      case raw of
        Doc (JObj kvs) \<Rightarrow>
          (case (decode_string (field kvs ''workflowId''), decode_string (field kvs ''flowId''),
                 decode_string (field kvs ''callbackToken''), decode_map Some (field kvs ''attributes'')) of
             (Some w, Some f, Some t, Some a) \<Rightarrow> Some \<lparr>cs_workflow_id = w, cs_flow_id = f,
                cs_input = field_get kvs ''input'', cs_callback_token = t, cs_attributes = a\<rparr>
           | _ \<Rightarrow> None)
      | Doc JNull \<Rightarrow> Some \<lparr>cs_workflow_id = [], cs_flow_id = [], cs_input = None, cs_callback_token = [], cs_attributes = []\<rparr>
      | _ \<Rightarrow> None)"

definition allowed :: "client_handler \<Rightarrow> principal option \<Rightarrow> string \<Rightarrow> client_flow option" where
  "allowed h p workflowID =
     (case p of
        None \<Rightarrow> None
      | Some p \<Rightarrow>
          if pr_kind p \<noteq> KindClient then None
          else case map_of (ch_clients h) (pr_client_id p) of
            None \<Rightarrow> None
          | Some client \<Rightarrow> Find_client (ch_list h) workflowID client)"

definition caseInfo :: "((string \<times> json) list \<Rightarrow> string \<Rightarrow> json option) \<Rightarrow> (string \<times> json) list \<Rightarrow> (string \<times> string) list \<Rightarrow> case_info option" where
  "caseInfo pointer_get attrs columns =
     (if attrs = [] then None
      else
        let name = (case map_of columns CaseColumnName of
            None \<Rightarrow> []
          | Some pointer \<Rightarrow> (case pointer_get attrs pointer of
                Some (JStr s) \<Rightarrow> if rune_count (trim_space s) \<le> 255 then trim_space s else []
              | _ \<Rightarrow> []))
        in Some \<lparr>ci_attributes = attrs, ci_name = name\<rparr>)"

definition clientVars :: "string \<Rightarrow> client_start_request \<Rightarrow> (string \<times> json) list" where
  "clientVars caseID req =
     [(''taskId'', JStr (cs_flow_id req)), (''taskCode'', JStr (cs_workflow_id req)),
      (''consignmentId'', JStr caseID), (''notification'', case cs_input req of None \<Rightarrow> JNull | Some v \<Rightarrow> v)] @
     (if cs_callback_token req \<noteq> [] then [(''callbackToken'', JStr (cs_callback_token req))] else [])"

definition status_of_error :: "flow_error \<Rightarrow> nat" where
  "status_of_error e = (case e of ErrInvalidRequest _ \<Rightarrow> 400 | ErrConflict _ _ _ \<Rightarrow> 409 | _ \<Rightarrow> 500)"

definition client_start :: "((string \<times> json) list \<Rightarrow> string \<Rightarrow> json option) \<Rightarrow> client_handler \<Rightarrow> string \<Rightarrow> client_flow \<Rightarrow> client_start_request \<Rightarrow> start_request" where
  "client_start pointer_get h caseID fl req =
     \<lparr>sr_case_id = caseID, sr_template_id = cf_id fl, sr_workflow_id = cs_flow_id req,
      sr_vars = Some (clientVars caseID req),
      sr_owner = Some \<lparr>ow_role = cf_owner fl, ow_ou_handle = cfs_ou_handle (ch_list h)\<rparr>,
      sr_case = caseInfo pointer_get (cs_attributes req) (cfs_case_columns (ch_list h))\<rparr>"

definition HandleStart :: "'def core_api \<Rightarrow> ((string \<times> json) list \<Rightarrow> string \<Rightarrow> json option) \<Rightarrow> client_handler \<Rightarrow>
    principal option \<Rightarrow> string \<Rightarrow> raw_message \<Rightarrow> 'def flow_world \<Rightarrow> response \<times> 'def flow_world" where
  "HandleStart api pointer_get h p caseID raw W =
     (case decodeClientStart raw of
        None \<Rightarrow> (Response 400 None, W)
      | Some req \<Rightarrow>
          if cs_workflow_id req = [] then (Response 400 None, W)
          else if cs_flow_id req = [] then (Response 400 None, W)
          else case allowed h p (cs_workflow_id req) of
            None \<Rightarrow> (Response 404 None, W)
          | Some fl \<Rightarrow>
              (case StartFlow api [] (client_start pointer_get h caseID fl req) W of
                 (Inl e, W') \<Rightarrow> (Response (status_of_error e) None, W')
               | (Inr f, W') \<Rightarrow> (Response 200 (Some f), W')))"

subsection \<open>What the route lets through\<close>

lemma caseInfo_fits: "name_fits (caseInfo pointer_get attrs columns)"
  by (auto simp: caseInfo_def name_fits_def rune_count_def Let_def split: option.split json.split)

lemma map_of_swap:
  "map_of (map (\<lambda>(name, ident). (ident, name)) clients) k = Some name \<Longrightarrow> (name, k) \<in> set clients"
  by (drule map_of_SomeD) auto

lemma allowed_NewClientHandler:
  assumes "allowed (NewClientHandler lst clients) p w = Some fl"
  shows "\<exists>q name. p = Some q \<and> pr_kind q = KindClient \<and> (name, pr_client_id q) \<in> set clients \<and> Find_client lst w name = Some fl"
  using assms by (auto simp: allowed_def NewClientHandler_def dest!: map_of_swap split: option.splits if_splits)

lemma HandleStart_refused:
  "(\<And>req. decodeClientStart raw = Some req \<Longrightarrow> allowed h p (cs_workflow_id req) = None) \<Longrightarrow>
   snd (HandleStart api pg h p caseID raw W) = W \<and> fst (HandleStart api pg h p caseID raw W) \<in> {Response 400 None, Response 404 None}"
  by (auto simp: HandleStart_def split: option.splits)

subsection \<open>Properties\<close>

text \<open>
  with a validated configuration, the route changes the store or calls the engine only for
  an OAuth2 client that the catalog names and that the enabled list names for the requested
  workflow; the flow it then starts runs that workflow under the request's flow ID, and its
  owner is this deployment's OU in the role the list gives, a role of the catalog.
\<close>
theorem client_start_authorized:
  assumes "Validate_flows pointer_valid c cat = Inr ()"
    and "HandleStart api pg (NewClientHandler (fc_clients c) (cat_clients cat)) p caseID raw W = (resp, W')"
    and "W' \<noteq> W"
  shows "\<exists>q name req fl. p = Some q \<and> pr_kind q = KindClient \<and> (name, pr_client_id q) \<in> set (cat_clients cat) \<and>
    decodeClientStart raw = Some req \<and> cfs_enabled (fc_clients c) \<and> fl \<in> set (cfs_workflows (fc_clients c)) \<and>
    cf_id fl = cs_workflow_id req \<and> name \<in> set (cf_clients fl) \<and> map_of (cat_roles cat) (cf_owner fl) \<noteq> None \<and>
    \<not> blank (cfs_ou_handle (fc_clients c)) \<and>
    W' = snd (StartFlow api [] \<lparr>sr_case_id = caseID, sr_template_id = cs_workflow_id req, sr_workflow_id = cs_flow_id req,
       sr_vars = Some (clientVars caseID req),
       sr_owner = Some \<lparr>ow_role = cf_owner fl, ow_ou_handle = cfs_ou_handle (fc_clients c)\<rparr>,
       sr_case = caseInfo pg (cs_attributes req) (cfs_case_columns (fc_clients c))\<rparr> W)"
proof -
  let ?h = "NewClientHandler (fc_clients c) (cat_clients cat)"
  obtain req fl where r: "decodeClientStart raw = Some req" "allowed ?h p (cs_workflow_id req) = Some fl"
    using HandleStart_refused [of raw ?h p api pg caseID W] assms(2,3) by (metis option.exhaust snd_conv)
  have ne: "cs_workflow_id req \<noteq> []" "cs_flow_id req \<noteq> []"
    using assms(2,3) r(1) by (auto simp: HandleStart_def split: if_splits)
  have W': "W' = snd (StartFlow api [] (client_start pg ?h caseID fl req) W)"
    using assms(2) r ne by (auto simp: HandleStart_def split: prod.splits sum.splits)
  obtain q name where q: "p = Some q" "pr_kind q = KindClient" "(name, pr_client_id q) \<in> set (cat_clients cat)"
    "Find_client (fc_clients c) (cs_workflow_id req) name = Some fl"
    using allowed_NewClientHandler [OF r(2)] by blast
  note f = client_found [OF assms(1) q(4)]
  have "client_start pg ?h caseID fl req = \<lparr>sr_case_id = caseID, sr_template_id = cs_workflow_id req, sr_workflow_id = cs_flow_id req,
       sr_vars = Some (clientVars caseID req),
       sr_owner = Some \<lparr>ow_role = cf_owner fl, ow_ou_handle = cfs_ou_handle (fc_clients c)\<rparr>,
       sr_case = caseInfo pg (cs_attributes req) (cfs_case_columns (fc_clients c))\<rparr>"
    using f by (simp add: client_start_def NewClientHandler_def)
  with W' q f r(1) show ?thesis by auto
qed

text \<open>
  the case name a client sends never costs it the flow: with a working store, recording
  its new flow succeeds whatever its attributes hold, and the owner OU then holds its role.
\<close>
theorem client_record_succeeds:
  assumes "st_faults db = []" and "store_ok db" and "find_flow (fl_workflow_id f) (st_flows db) = None"
    and "req = client_start pg h caseID fl creq" and "fl_case_id f = caseID"
  shows "fst (Record_flow f (sr_owner req) (sr_case req) db) = Inr () \<and>
    party_at (st_parties (snd (Record_flow f (sr_owner req) (sr_case req) db))) caseID (cf_owner fl)
      (OU (cfs_ou_handle (ch_list h)))"
proof -
  have own: "sr_owner req = Some \<lparr>ow_role = cf_owner fl, ow_ou_handle = cfs_ou_handle (ch_list h)\<rparr>"
    and fits: "name_fits (sr_case req)" using assms(4) caseInfo_fits by (simp_all add: client_start_def)
  note facts = record_flow_facts [OF assms(2,1,3) fits refl, where ow = "\<lparr>ow_role = cf_owner fl, ow_ou_handle = cfs_ou_handle (ch_list h)\<rparr>"]
  show ?thesis using facts(1) facts(4) assms(5) own by simp
qed

subsection \<open>Witnesses\<close>

definition demo_handler :: client_handler where
  "demo_handler = NewClientHandler (fc_clients demo_flow_config) (cat_clients demo_catalog)"

definition demo_client :: principal where
  "demo_client = empty_principal\<lparr>pr_kind := KindClient, pr_client_id := ''npqs-client''\<rparr>"

definition demo_body :: raw_message where
  "demo_body = Doc (JObj [(''workflowId'', JStr ''review''), (''flowId'', JStr ''f1''), (''input'', JNum 3)])"

theorem client_start_authorized_witness:
  "\<exists>req fl. decodeClientStart demo_body = Some req \<and> cf_id fl = ''review'' \<and> cs_workflow_id req = ''review'' \<and>
     fl \<in> set (cfs_workflows (fc_clients demo_flow_config))"
proof -
  define W' where "W' = snd (HandleStart (demo_api 1) (\<lambda>_ _. None) demo_handler (Some demo_client) ''c1'' demo_body demo_start)"
  have "length (fw_calls W') = 1" "length (fw_calls demo_start) = 0" unfolding W'_def by code_simp+
  then have "W' \<noteq> demo_start" by auto
  from client_start_authorized [OF demo_flow_config_valid surjective_pairing [of "HandleStart (demo_api 1) (\<lambda>_ _. None) demo_handler (Some demo_client) ''c1'' demo_body demo_start", unfolded demo_handler_def] this [unfolded W'_def demo_handler_def]]
  obtain req fl where r: "decodeClientStart demo_body = Some req" "fl \<in> set (cfs_workflows (fc_clients demo_flow_config))"
    "cf_id fl = cs_workflow_id req" by blast
  have "map_option cs_workflow_id (decodeClientStart demo_body) = Some ''review''" by code_simp
  with r show ?thesis by auto
qed

theorem client_record_succeeds_witness:
  "fst (Record_flow (demo_flow ''w1'') (Some \<lparr>ow_role = ''cha'', ow_ou_handle = ''npqs''\<rparr>)
     (Some \<lparr>ci_attributes = [(''company'', JStr (replicate 300 CHR ''x''))], ci_name = []\<rparr>) (empty_store 0 [])) = Inr ()"
proof -
  define creq where "creq = \<lparr>cs_workflow_id = ''review'', cs_flow_id = ''f1'', cs_input = None, cs_callback_token = [],
     cs_attributes = [(''company'', JStr (replicate 300 CHR ''x''))]\<rparr>"
  define fl where "fl = \<lparr>cf_id = ''review'', cf_clients = [''npqs''], cf_owner = ''cha''\<rparr>"
  define get :: "(string \<times> json) list \<Rightarrow> string \<Rightarrow> json option" where "get = (\<lambda>attrs _. map_of attrs ''company'')"
  have h: "st_faults (empty_store 0 []) = []" "find_flow (fl_workflow_id (demo_flow ''w1'')) (st_flows (empty_store 0 [])) = None"
    "fl_case_id (demo_flow ''w1'') = ''c1''" by (simp_all add: empty_store_def find_flow_def demo_flow_def)
  have info: "caseInfo get (cs_attributes creq) (cfs_case_columns (ch_list demo_handler)) =
      Some \<lparr>ci_attributes = [(''company'', JStr (replicate 300 CHR ''x''))], ci_name = []\<rparr>"
    unfolding creq_def get_def by code_simp
  have own: "cfs_ou_handle (ch_list demo_handler) = ''npqs''" by code_simp
  from client_record_succeeds [OF h(1) store_ok_empty h(2) refl h(3), of get demo_handler fl creq]
  show ?thesis by (simp add: client_start_def info own) (simp add: fl_def)
qed

end
