(* ===== verification/External_Review.thy ===== *)
theory External_Review
  imports Plugin_Steps File_Binding File_Routes Client_Flows
begin

text \<open>
  \<open>internal/tasks/plugins/external_review.go\<close> and \<open>oga_files.go\<close>: the step that hands a task to
  another system, starting its review flow on the same case or answering the step it parked, and
  waits for the callback. Files leave as tokens issued to the receiving client. Reading a
  task's render config and a case's attributes, the callback token of a record, issuing a token,
  the classification of a remote error and the outbound call, which acts on a world \<open>'w\<close>, are
  parameters.
\<close>

datatype 'e review_error =
    InvalidReviewConfig
  | ServiceRequired
  | ReplyTokenNotString
  | ReviewNoToken 'e
  | PathRequired
  | WorkflowRequired
  | NoCase
  | RenderNotRead 'e
  | FilesNotParsed "unit fields_error"
  | NoClientFor string
  | NotIssued 'e
  | FilesShape string
  | AttributesNotRead 'e
  | ReplyPayloadNotObject
  | ReplyCommandRequired
  | StaleReply remote_error
  | NotSent remote_error

subsection \<open>Files for another system\<close>

text \<open>\<open>of_issue\<close> is \<open>None\<close> for the zero \<open>OGAFiles\<close> of a deployment that proxies its storage.\<close>

record 'e oga_files =
  of_client :: "string \<Rightarrow> string option"
  of_issue :: "(string \<Rightarrow> string \<Rightarrow> 'e + string) option"
  of_render :: "plug_record \<Rightarrow> 'e + raw_message"

definition issue_for :: "'e oga_files \<Rightarrow> (string \<Rightarrow> string \<Rightarrow> 'e + string) \<Rightarrow> string \<Rightarrow> string \<Rightarrow> 'e review_error plugin_error + string" where
  "issue_for f issue_token service value =
     (case of_client f service of
        None \<Rightarrow> Inl (configError (NoClientFor service))
      | Some client \<Rightarrow> (case issue_token client value of Inl e \<Rightarrow> Inl (Retryable (NotIssued e)) | Inr t \<Rightarrow> Inr t))"

definition tokenize :: "'e oga_files \<Rightarrow> plug_record \<Rightarrow> string \<Rightarrow> json \<Rightarrow> string \<Rightarrow> 'e review_error plugin_error + json" where
  "tokenize f rec root_field data service =
     (case of_issue f of
        None \<Rightarrow> Inr data
      | Some issue_token \<Rightarrow>
     (case of_render f rec of
        Inl e \<Rightarrow> Inl (Retryable (RenderNotRead e))
      | Inr renderConfig \<Rightarrow>
     (case (Parse_fields renderConfig :: unit fields_error + path list) of
        Inl e \<Rightarrow> Inl (configError (FilesNotParsed e))
      | Inr paths \<Rightarrow>
          let inData = rebase_all paths root_field in
          if inData = [] then Inr data
          else case Replace_fields (issue_for f issue_token service) data inData of
            (sent, None) \<Rightarrow> Inr sent
          | (_, Some (FnFailed _ e)) \<Rightarrow> Inl e
          | (_, Some (ErrShape p loc kind want)) \<Rightarrow> Inl (Retryable (FilesShape loc))
          | (_, Some _) \<Rightarrow> Inl (Retryable (FilesShape [])))))"

subsection \<open>The step\<close>

record externalReviewConfig =
  ec_service :: string
  ec_path :: string
  ec_workflow :: string
  ec_command :: string

definition decodeReviewConfig :: "raw_message \<Rightarrow> externalReviewConfig option" where
  "decodeReviewConfig config =
     (case config of
        Doc v \<Rightarrow> decode_struct (\<lambda>kvs.
          case (decode_string (member kvs ''service_id''), decode_string (member kvs ''path''),
                decode_string (member kvs ''service_workflow_id''), decode_string (member kvs ''reply_command'')) of
            (Some s, Some p, Some w, Some c) \<Rightarrow> Some \<lparr>ec_service = s, ec_path = p, ec_workflow = w, ec_command = c\<rparr>
          | _ \<Rightarrow> None) v
      | _ \<Rightarrow> None)"

record ('w, 'e) review_env =
  rv_files :: "'e oga_files"
  rv_attributes :: "string \<Rightarrow> 'e + (string \<times> json) list"
  rv_token :: "plug_record \<Rightarrow> 'e + string"
  rv_post :: "'w \<Rightarrow> string \<Rightarrow> string \<Rightarrow> json \<Rightarrow> remote_error option \<times> 'w"
  rv_classify :: "remote_error \<Rightarrow> 'e review_error plugin_error"

definition replyTokenFrom :: "(string \<times> json) list \<Rightarrow> 'e review_error plugin_error + string" where
  "replyTokenFrom inputs =
     (case obj_get inputs ''replyToken'' of
        None \<Rightarrow> Inr []
      | Some JNull \<Rightarrow> Inr []
      | Some (JStr token) \<Rightarrow> Inr token
      | Some _ \<Rightarrow> Inl (inputError ReplyTokenNotString))"

definition startFlowBody :: "plug_record \<Rightarrow> string \<Rightarrow> json \<Rightarrow> string \<Rightarrow> (string \<times> json) list" where
  "startFlowBody rec workflowID data callbackToken =
     [(''workflowId'', JStr workflowID), (''flowId'', JStr (pl_task rec)), (''input'', data), (''callbackToken'', JStr callbackToken)]"

definition dispatch_path :: "string \<Rightarrow> string \<Rightarrow> string" where
  "dispatch_path path caseID = replace_all ''{caseId}'' (PathEscape caseID) path"

definition submitted :: "(string \<times> json) list \<Rightarrow> string \<times> json" where
  "submitted inputs = (case obj_get inputs ''submission'' of Some submission \<Rightarrow> (''submission'', submission) | None \<Rightarrow> ([], JObj inputs))"

definition dispatchRequest ::
    "('w, 'e) review_env \<Rightarrow> (string \<times> json) list \<Rightarrow> plug_record \<Rightarrow> externalReviewConfig \<Rightarrow> string \<Rightarrow> 'e review_error plugin_error + string \<times> json" where
  "dispatchRequest E inputs rec cfg callbackToken =
     (if ec_path cfg = [] then Inl (configError PathRequired)
      else if ec_workflow cfg = [] then Inl (Retryable WorkflowRequired)
      else if pl_case rec = [] then Inl (Retryable NoCase)
      else case tokenize (rv_files E) rec (fst (submitted inputs)) (snd (submitted inputs)) (ec_service cfg) of
        Inl e \<Rightarrow> Inl e
      | Inr data \<Rightarrow>
     (case rv_attributes E (pl_case rec) of
        Inl e \<Rightarrow> Inl (Retryable (AttributesNotRead e))
      | Inr attrs \<Rightarrow>
          Inr (dispatch_path (ec_path cfg) (pl_case rec),
            JObj (startFlowBody rec (ec_workflow cfg) data callbackToken @ (if attrs \<noteq> [] then [(''attributes'', JObj attrs)] else [])))))"

definition obj_delete :: "string \<Rightarrow> (string \<times> json) list \<Rightarrow> (string \<times> json) list" where
  "obj_delete k kvs = filter (\<lambda>(k', _). k' \<noteq> k) kvs"

text \<open>What a reply sends is an object: the \<open>payload\<close> input, checked to be one, or all the inputs.\<close>

definition replyRequest :: "externalReviewConfig \<Rightarrow> (string \<times> json) list \<Rightarrow> string \<Rightarrow> string \<Rightarrow> 'e review_error plugin_error + string \<times> json" where
  "replyRequest cfg sent replyToken callbackToken =
     (if ec_command cfg = [] then Inl (configError ReplyCommandRequired)
      else Inr (''/api/v1/callbacks/'' @ PathEscape replyToken,
        JObj [(''command'', JStr (ec_command cfg)), (''payload'', JObj (obj_put ''callbackToken'' (JStr callbackToken) sent))]))"

definition replied :: "(string \<times> json) list \<Rightarrow> ('e review_error plugin_error + string \<times> (string \<times> json) list)" where
  "replied inputs =
     (case obj_get inputs ''payload'' of
        None \<Rightarrow> Inr ([], inputs)
      | Some (JObj kvs) \<Rightarrow> Inr (''payload'', kvs)
      | Some _ \<Rightarrow> Inl (Permanent (ErrorTypeNamed ''InvalidReplyPayload'') ReplyPayloadNotObject))"

definition review_reply ::
    "('w, 'e) review_env \<Rightarrow> (string \<times> json) list \<Rightarrow> plug_record \<Rightarrow> externalReviewConfig \<Rightarrow> string \<Rightarrow> string \<Rightarrow> 'e review_error plugin_error + string \<times> json" where
  "review_reply E inputs rec cfg replyToken callbackToken =
     (case replied inputs of
        Inl e \<Rightarrow> Inl e
      | Inr (root_field, data) \<Rightarrow>
     (case tokenize (rv_files E) rec root_field (JObj data) (ec_service cfg) of
        Inl e \<Rightarrow> Inl e
      | Inr sent \<Rightarrow>
          let kvs = (case sent of JObj kvs \<Rightarrow> kvs | _ \<Rightarrow> []) in
          replyRequest cfg (if root_field = [] then obj_delete ''replyToken'' kvs else kvs) replyToken callbackToken))"

definition isConflict :: "remote_error \<Rightarrow> bool" where
  "isConflict e = (case e of RemoteStatus s _ \<Rightarrow> s = 409 | _ \<Rightarrow> False)"

text \<open>The request the step is to make, before anything changes: whether it replies, the service, the path, the body.\<close>

definition review_request ::
    "('w, 'e) review_env \<Rightarrow> (string \<times> json) list \<Rightarrow> raw_message \<Rightarrow> plug_record \<Rightarrow> 'e review_error plugin_error + bool \<times> string \<times> string \<times> json" where
  "review_request E inputs config rec =
     (case decodeReviewConfig config of
        None \<Rightarrow> Inl (configError InvalidReviewConfig)
      | Some cfg \<Rightarrow>
          if ec_service cfg = [] then Inl (configError ServiceRequired)
          else case replyTokenFrom inputs of
            Inl e \<Rightarrow> Inl e
          | Inr replyToken \<Rightarrow>
         (case rv_token E rec of
            Inl e \<Rightarrow> Inl (inputError (ReviewNoToken e))
          | Inr callbackToken \<Rightarrow>
         (case (if replyToken \<noteq> [] then review_reply E inputs rec cfg replyToken callbackToken else dispatchRequest E inputs rec cfg callbackToken) of
            Inl e \<Rightarrow> Inl e
          | Inr (path, body) \<Rightarrow> Inr (replyToken \<noteq> [], ec_service cfg, path, body))))"

definition Review_Execute ::
    "('w, 'e) review_env \<Rightarrow> (string \<times> json) list \<Rightarrow> raw_message \<Rightarrow> plug_record \<Rightarrow> 'w \<Rightarrow> 'e review_error step_end \<times> plug_record \<times> 'w" where
  "Review_Execute E inputs config rec w =
     (case review_request E inputs config rec of
        Inl e \<Rightarrow> (Failed e, rec, w)
      | Inr (is_reply, service, path, body) \<Rightarrow>
          let rec1 = rec\<lparr>pl_state := ''QUEUED_EXTERNALLY''\<rparr> in
         (case rv_post E w service path body of
            (None, w1) \<Rightarrow> (Suspended, rec1, w1)
          | (Some err, w1) \<Rightarrow>
              if is_reply \<and> isConflict err then (Failed (Permanent (ErrorTypeNamed ''StaleReplyToken'') (StaleReply err)), rec1, w1)
              else (Failed (rv_classify E err), rec1, w1)))"

subsection \<open>What is sent\<close>

lemma rebase_all_nil [simp]: "rebase_all ps [] = ps"
  by (induction ps) (simp_all add: Rebase_def)

abbreviation plain_seg :: "string \<Rightarrow> segment" where
  "plain_seg n \<equiv> \<lparr>seg_name = n, seg_arrays = 0\<rparr>"

text \<open>The path of the task's data that the value at \<open>q\<close> under the top-level field \<open>field\<close> has; all of the data is \<open>[]\<close>.\<close>

definition under_field :: "string \<Rightarrow> path \<Rightarrow> path" where
  "under_field field q = (if field = [] then q else plain_seg field # q)"

lemma tokenize_effect:
  assumes "tokenize f rec field data service = Inr sent" and "of_issue f = Some issue_token"
  obtains render paths where "of_render f rec = Inr render" "(Parse_fields render :: unit fields_error + path list) = Inr paths"
    "\<And>q. at_path q sent = (if q \<noteq> [] \<and> under_field field q \<in> set paths then map (through (issue_for f issue_token service)) (at_path q data) else at_path q data)"
    "\<And>q s. q \<noteq> [] \<Longrightarrow> under_field field q \<in> set paths \<Longrightarrow> JStr s \<in> set (at_path q data) \<Longrightarrow> s = [] \<or> is_ok (issue_for f issue_token service s)"
proof -
  obtain render paths where r: "of_render f rec = Inr render" "(Parse_fields render :: unit fields_error + path list) = Inr paths"
    using assms by (auto simp: tokenize_def split: sum.splits)
  note ok = Parse_fields_ok [OF r(2)]
  define inside where "inside = rebase_all paths field"
  have inside: "q \<in> set inside \<longleftrightarrow> q \<noteq> [] \<and> under_field field q \<in> set paths" for q
    using ok(2) by (cases "field = []") (auto simp: inside_def under_field_def rebase_all_iff)
  have "distinct inside" using ok(1) rebase_all_distinct by (cases "field = []") (simp_all add: inside_def)
  note d = this
  have e: "[] \<notin> set inside" by (simp add: inside)
  have rep: "Replace_fields (issue_for f issue_token service) data inside = (sent, None)"
    using assms r by (cases "inside = []")
      (auto simp: tokenize_def Let_def simp flip: inside_def split: prod.splits option.splits fields_error.splits)
  show thesis
  proof (rule that [OF r])
    show "at_path q sent = (if q \<noteq> [] \<and> under_field field q \<in> set paths then map (through (issue_for f issue_token service)) (at_path q data) else at_path q data)" for q
      using replace_effect(1) [OF d e rep, of q] by (simp add: inside)
    show "s = [] \<or> is_ok (issue_for f issue_token service s)"
      if "q \<noteq> []" "under_field field q \<in> set paths" "JStr s \<in> set (at_path q data)" for q s
      using replace_effect(2) [OF d e rep, of q s] that by (simp add: inside)
  qed
qed

lemma obj_get_delete: "obj_get (obj_delete k kvs) k' = (if k' = k then None else obj_get kvs k')"
  by (induction kvs) (auto simp: obj_delete_def obj_get_def)

text \<open>The name the sent data has in the body of a request, and the names there that are not of the inputs.\<close>

definition sent_as :: "bool \<Rightarrow> string" where
  "sent_as is_reply = (if is_reply then ''payload'' else ''input'')"

definition sent_field :: "bool \<Rightarrow> (string \<times> json) list \<Rightarrow> string" where
  "sent_field is_reply inputs =
     (let n = (if is_reply then ''payload'' else ''submission'') in if obj_get inputs n = None then [] else n)"

definition replaced_name :: "bool \<Rightarrow> (string \<times> json) list \<Rightarrow> path \<Rightarrow> bool" where
  "replaced_name is_reply inputs q =
     (is_reply \<and> q \<noteq> [] \<and> (seg_name (hd q) = ''callbackToken'' \<or> seg_name (hd q) = ''replyToken'' \<and> sent_field True inputs = []))"

lemma tokenize_object: "tokenize f rec field (JObj kvs) service = Inr sent \<Longrightarrow> at_path [] sent = []"
proof (cases "of_issue f")
  case (Some issue_token)
  moreover assume t: "tokenize f rec field (JObj kvs) service = Inr sent"
  ultimately obtain render paths where "at_path [] sent = at_path [] (JObj kvs)" using tokenize_effect [OF t, of issue_token] by metis
  then show ?thesis by simp
qed (auto simp: tokenize_def)

lemma reply_sends:
  assumes "replyRequest cfg (if clean then obj_delete ''replyToken'' kvs else kvs) replyToken token = Inr (path, body)"
    and "kvs = (case sent of JObj kvs \<Rightarrow> kvs | _ \<Rightarrow> [])" and "at_path [] sent = []"
    and "q \<noteq> [] \<longrightarrow> seg_name (hd q) \<noteq> ''callbackToken'' \<and> (clean \<longrightarrow> seg_name (hd q) \<noteq> ''replyToken'')"
  shows "at_path (plain_seg ''payload'' # q) body = at_path q sent"
proof -
  define kept where "kept = obj_put ''callbackToken'' (JStr token) (if clean then obj_delete ''replyToken'' kvs else kvs)"
  have "at_path (plain_seg ''payload'' # q) body = at_path q (JObj kept)"
    using assms(1) by (auto simp: replyRequest_def kept_def obj_get_def split: if_splits)
  also have "\<dots> = at_path q sent"
  proof (cases q)
    case (Cons seg r)
    have "obj_get kept (seg_name seg) = obj_get kvs (seg_name seg)"
      using assms(4) Cons by (simp add: kept_def obj_get_put obj_get_delete)
    then show ?thesis using assms(2) Cons by (cases sent) (simp_all add: obj_get_def)
  qed (use assms(3) in simp)
  finally show ?thesis .
qed

text \<open>A request carries, under one name, the step's inputs or the one it singles out, tokenized for its service.\<close>

lemma request_made:
  fixes E :: "('w, 'e) review_env"
  assumes "review_request E inputs config rec = Inr (is_reply, service, path, body)"
  obtains cfg data sent where "decodeReviewConfig config = Some cfg" "service = ec_service cfg"
    "tokenize (rv_files E) rec (sent_field is_reply inputs) data service = Inr sent"
    "\<And>q. at_path (under_field (sent_field is_reply inputs) q) (JObj inputs) = at_path q data"
    "\<And>q. \<not> replaced_name is_reply inputs q \<Longrightarrow> at_path (plain_seg (sent_as is_reply) # q) body = at_path q sent"
proof -
  obtain cfg reply_token token where c: "decodeReviewConfig config = Some cfg" "service = ec_service cfg" "is_reply = (reply_token \<noteq> [])"
    "(if reply_token \<noteq> [] then review_reply E inputs rec cfg reply_token token else dispatchRequest E inputs rec cfg token) = Inr (path, body)"
    using assms by (auto simp: review_request_def split: option.splits if_splits sum.splits)
  show thesis
  proof (cases is_reply)
    case False
    with c have d: "dispatchRequest E inputs rec cfg token = Inr (path, body)" by simp
    obtain sent rest where s: "tokenize (rv_files E) rec (fst (submitted inputs)) (snd (submitted inputs)) service = Inr sent"
      "body = JObj (startFlowBody rec (ec_workflow cfg) sent token @ rest)"
      using d c(2) by (auto simp: dispatchRequest_def split: if_splits sum.splits)
    have f: "fst (submitted inputs) = sent_field is_reply inputs"
      using False by (simp add: submitted_def sent_field_def Let_def split: option.split)
    show thesis
    proof (rule that [OF c(1,2) s(1) [unfolded f]])
      show "at_path (under_field (sent_field is_reply inputs) q) (JObj inputs) = at_path q (snd (submitted inputs))" for q
        using False by (simp add: submitted_def sent_field_def under_field_def Let_def split: option.split)
      show "at_path (plain_seg (sent_as is_reply) # q) body = at_path q sent" for q
        using False by (simp add: s(2) sent_as_def startFlowBody_def obj_get_def)
    qed
  next
    case True
    with c have d: "review_reply E inputs rec cfg reply_token token = Inr (path, body)" by simp
    obtain field data where s1: "(replied inputs :: 'e review_error plugin_error + string \<times> (string \<times> json) list) = Inr (field, data)"
      using d by (auto simp: review_reply_def split: sum.splits)
    obtain sent where s2: "tokenize (rv_files E) rec field (JObj data) service = Inr sent"
      using d c(2) s1 by (auto simp: review_reply_def split: sum.splits)
    have s3: "(replyRequest cfg (if field = [] then obj_delete ''replyToken'' (case sent of JObj kvs \<Rightarrow> kvs | _ \<Rightarrow> []) else (case sent of JObj kvs \<Rightarrow> kvs | _ \<Rightarrow> [])) reply_token token
        :: 'e review_error plugin_error + string \<times> json) = Inr (path, body)"
      using d c(2) s1 s2 by (simp add: review_reply_def Let_def)
    note s = s1 s2 s3
    have f: "field = sent_field is_reply inputs" "field = [] \<and> data = inputs \<or> field = ''payload'' \<and> obj_get inputs ''payload'' = Some (JObj data)"
      using s(1) True by (auto simp: replied_def sent_field_def Let_def split: option.splits json.splits)
    show thesis
    proof (rule that [OF c(1,2) s(2) [unfolded f(1)]])
      show "at_path (under_field (sent_field is_reply inputs) q) (JObj inputs) = at_path q (JObj data)" for q
        using f by (auto simp: under_field_def)
      show "at_path (plain_seg (sent_as is_reply) # q) body = at_path q sent" if "\<not> replaced_name is_reply inputs q" for q
        using reply_sends [OF s(3) refl tokenize_object [OF s(2)], of q] that True f(1) by (auto simp: replaced_name_def sent_as_def)
    qed
  qed
qed

subsection \<open>The flow a dispatch starts\<close>

text \<open>The other deployment's client flows route as a post reaches it: an answer other than 200 is an error here.\<close>

definition posted_to :: "'def core_api \<Rightarrow> ((string \<times> json) list \<Rightarrow> string \<Rightarrow> json option) \<Rightarrow> client_handler \<Rightarrow> principal \<Rightarrow> string \<Rightarrow>
    json \<Rightarrow> 'def flow_world \<Rightarrow> remote_error option \<times> 'def flow_world" where
  "posted_to api pg h p caseID body W =
     (case HandleStart api pg h (Some p) caseID (Doc body) W of
        (Response status _, W') \<Rightarrow> (if status = 200 then None else Some (RemoteStatus status []), W'))"

lemma decode_members_all: "decode_members Some kvs = Some kvs"
  by (induction kvs) auto

lemma dispatch_made:
  fixes E :: "('w, 'e) review_env"
  assumes "review_request E inputs config rec = Inr (False, service, path, body)"
  obtains cfg token data and creq :: client_start_request where "decodeReviewConfig config = Some cfg" "rv_token E rec = Inr token"
    "at_path [plain_seg ''input''] body = at_path [] data" "decodeClientStart (Doc body) = Some creq" "cs_workflow_id creq = ec_workflow cfg"
    "cs_flow_id creq = pl_task rec" "cs_input creq = Some data" "cs_callback_token creq = token"
    "path = dispatch_path (ec_path cfg) (pl_case rec)" "pl_case rec \<noteq> []"
    "tokenize (rv_files E) rec (fst (submitted inputs)) (snd (submitted inputs)) service = Inr data"
proof -
  obtain cfg token where c: "decodeReviewConfig config = Some cfg" "rv_token E rec = Inr token" "service = ec_service cfg"
    "dispatchRequest E inputs rec cfg token = Inr (path, body)"
    using assms by (auto simp: review_request_def split: option.splits if_splits sum.splits)
  obtain data where t: "tokenize (rv_files E) rec (fst (submitted inputs)) (snd (submitted inputs)) service = Inr data"
    using c(3,4) by (auto simp: dispatchRequest_def split: if_splits sum.splits)
  obtain attrs where a: "rv_attributes E (pl_case rec) = Inr attrs"
    using c(3,4) t by (auto simp: dispatchRequest_def split: if_splits sum.splits)
  have b: "path = dispatch_path (ec_path cfg) (pl_case rec)" "pl_case rec \<noteq> []"
      "body = JObj (startFlowBody rec (ec_workflow cfg) data token @ (if attrs \<noteq> [] then [(''attributes'', JObj attrs)] else []))"
    using c(3,4) t a by (auto simp: dispatchRequest_def split: if_splits)
  have names: "fold_name ''workflowId'' \<noteq> fold_name ''flowId''" "fold_name ''workflowId'' \<noteq> fold_name ''input''"
    "fold_name ''workflowId'' \<noteq> fold_name ''callbackToken''" "fold_name ''workflowId'' \<noteq> fold_name ''attributes''"
    "fold_name ''flowId'' \<noteq> fold_name ''input''" "fold_name ''flowId'' \<noteq> fold_name ''callbackToken''"
    "fold_name ''flowId'' \<noteq> fold_name ''attributes''" "fold_name ''input'' \<noteq> fold_name ''callbackToken''"
    "fold_name ''input'' \<noteq> fold_name ''attributes''" "fold_name ''callbackToken'' \<noteq> fold_name ''attributes''"
    by code_simp+
  have "decodeClientStart (Doc body) = Some \<lparr>cs_workflow_id = ec_workflow cfg, cs_flow_id = pl_task rec, cs_input = Some data,
      cs_callback_token = token, cs_attributes = attrs\<rparr>"
    using names names [symmetric] by (simp add: b(3) decodeClientStart_def startFlowBody_def field_get_def Let_def decode_members_all del: fold_name.simps)
  note dec = this
  show thesis
    by (rule that [OF c(1,2) _ dec]) (use b t in \<open>simp_all add: startFlowBody_def obj_get_def\<close>)
qed

subsection \<open>Properties\<close>



text \<open>C26: A step that waits after a dispatch waits for a flow: with the post answered by the client flows
  route of the other deployment, the flow of the workflow the step names is recorded there for
  the task's case, under the task's ID, and past STARTING, its variables taken from a request
  with what the step sent and its token; and no later dispatch of the task makes the engine
  there start anything again.\<close>

theorem dispatch_starts_review:
  fixes E :: "('def flow_world, 'e) review_env"
  assumes "review_request E inputs config rec = Inr (False, service, path, body)"
    and "Review_Execute E inputs config rec W = (Suspended, rec', W')"
    and "\<And>W body. rv_post E W service path body = posted_to api pg h p (pl_case rec) body W"
    and "fair_others api" and "store_ok (fw_store W)"
  shows "\<exists>cfg token (creq :: client_start_request) fl g. decodeReviewConfig config = Some cfg \<and> rv_token E rec = Inr token \<and>
    allowed h (Some p) (ec_workflow cfg) = Some fl \<and>
    W' = snd (StartFlow api [] (client_start pg h (pl_case rec) fl creq) W) \<and>
    cs_callback_token creq = token \<and>
    tokenize (rv_files E) rec (fst (submitted inputs)) (snd (submitted inputs)) service = Inr (the (cs_input creq)) \<and>
    find_flow (pl_task rec) (st_flows (fw_store W')) = Some g \<and>
    fl_case_id g = pl_case rec \<and> fl_template_id g = cf_id fl \<and> fl_status g \<noteq> Starting \<and>
    (\<forall>inputs2 config2 (rec2 :: plug_record) body2 (W2 :: 'def flow_world). review_request E inputs2 config2 rec2 = Inr (False, service, path, body2) \<longrightarrow>
       pl_task rec2 = pl_task rec \<longrightarrow> store_step\<^sup>*\<^sup>* (fw_store W') (fw_store W2) \<longrightarrow>
       fw_calls (snd (snd (Review_Execute E inputs2 config2 rec2 W2))) = fw_calls W2)"
proof -
  obtain cfg token data and creq :: client_start_request where q: "decodeReviewConfig config = Some cfg" "rv_token E rec = Inr token"
    "decodeClientStart (Doc body) = Some creq" "cs_workflow_id creq = ec_workflow cfg" "cs_flow_id creq = pl_task rec"
    "cs_input creq = Some data" "cs_callback_token creq = token"
    "tokenize (rv_files E) rec (fst (submitted inputs)) (snd (submitted inputs)) service = Inr data"
    using assms(1) by (rule dispatch_made) blast
  have posted: "posted_to api pg h p (pl_case rec) body W = (None, W')"
    using assms(2) by (auto simp: Review_Execute_def assms(1,3) Let_def split: prod.splits option.splits if_splits)
  have ne: "cs_workflow_id creq \<noteq> []" "cs_flow_id creq \<noteq> []"
    using posted q(3) by (auto simp: posted_to_def HandleStart_def split: if_splits)
  obtain fl f where fl: "allowed h (Some p) (ec_workflow cfg) = Some fl"
    "StartFlow api [] (client_start pg h (pl_case rec) fl creq) W = (Inr f, W')"
    using posted q(3,4) ne by (auto simp: posted_to_def HandleStart_def status_of_error_def split: if_splits option.splits sum.splits prod.splits flow_error.splits)
  define req where "req = client_start pg h (pl_case rec) fl creq"
  have req: "flow_id_of [] req = pl_task rec" "sr_case_id req = pl_case rec" "sr_template_id req = cf_id fl"
    using ne(2) q(5) by (simp_all add: req_def client_start_def flow_id_of_def)
  have out: "outcome api req (pl_task rec) W (Inr f) W'"
    using StartFlow_outcome [OF assms(4,5) fl(2) [folded req_def]] req(1) by simp
  then obtain g where g: "find_flow (pl_task rec) (st_flows (fw_store W')) = Some g" "flow_follows f g" "fl_case_id f = pl_case rec"
    "fl_template_id f = cf_id fl" "fl_status f \<noteq> Starting"
    using req by (auto simp: outcome_def)
  have ok: "store_ok (fw_store W')" using out assms(5) repo.steps_ok by (auto simp: outcome_def)
  have started: "fl_status g \<noteq> Starting" using follows_started [OF g(2,5)] .
  show ?thesis
  proof (intro exI [of _ cfg] exI [of _ token] exI [of _ creq] exI [of _ fl] exI [of _ g] conjI allI impI)
    fix inputs2 config2 body2 and rec2 :: plug_record and W2 :: "'def flow_world"
    assume again: "review_request E inputs2 config2 rec2 = Inr (False, service, path, body2)" "pl_task rec2 = pl_task rec"
      and later: "store_step\<^sup>*\<^sup>* (fw_store W') (fw_store W2)"
    obtain creq2 :: client_start_request where c2: "decodeClientStart (Doc body2) = Some creq2" "cs_flow_id creq2 = pl_task rec"
      using again by (elim dispatch_made) metis
    obtain g2 where g2: "find_flow (pl_task rec) (st_flows (fw_store W2)) = Some g2" "fl_status g2 \<noteq> Starting"
      using repo.steps_keep_flow [OF later ok g(1)] started follows_started by blast
    have "fw_calls (snd (StartFlow api [] (client_start pg h (pl_case rec) fl2 creq2) W2)) = fw_calls W2" for fl2
      using c2(2) ne(2) q(5) g2
      by (intro started_keeps_calls [OF assms(4) repo.steps_ok [OF later ok], of _ _ g2]) (simp_all add: client_start_def flow_id_of_def)
    then have "fw_calls (snd (HandleStart api pg h (Some p) (pl_case rec) (Doc body2) W2)) = fw_calls W2"
      by (auto simp: HandleStart_def c2(1) split: option.split sum.split prod.split) (metis snd_conv)+
    then have "fw_calls (snd (posted_to api pg h p (pl_case rec) body2 W2)) = fw_calls W2"
      by (auto simp: posted_to_def split: prod.split response.split)
    then show "fw_calls (snd (snd (Review_Execute E inputs2 config2 rec2 W2))) = fw_calls W2"
      by (auto simp: Review_Execute_def again(1) assms(3) Let_def split: prod.split option.split)
  qed (use q fl g started in \<open>auto simp: flow_follows_def\<close>)
qed

subsection \<open>Witnesses\<close>

definition demo_review :: "(string flow_world, string) review_env" where
  "demo_review = \<lparr>rv_files = \<lparr>of_client = (\<lambda>s. if s = ''npqs'' then Some ''npqs-client'' else None),
       of_issue = Some (\<lambda>client v. Inr (client @ '':'' @ v)), of_render = (\<lambda>_. Inr (Doc (JObj [(''files'', JArr [JStr ''submission.invoice''])])))\<rparr>,
     rv_attributes = (\<lambda>_. Inr []), rv_token = (\<lambda>_. Inr ''t1''),
     rv_post = (\<lambda>W _ _ body. posted_to (demo_api 1) (\<lambda>_ _. None) demo_handler demo_client ''c1'' body W),
     rv_classify = (\<lambda>e. Retryable (NotSent e))\<rparr>"

definition demo_review_config :: raw_message where
  "demo_review_config = Doc (JObj [(''service_id'', JStr ''npqs''), (''path'', JStr ''/api/v1/cases/{caseId}/flows''), (''service_workflow_id'', JStr ''review'')])"

definition demo_review_inputs :: "(string \<times> json) list" where
  "demo_review_inputs = [(''submission'', JObj [(''invoice'', JStr ''k/a.pdf'')])]"

definition demo_review_record :: plug_record where
  "demo_review_record = \<lparr>pl_task = ''t9'', pl_case = ''c1'', pl_parent = [], pl_state = ''ACTIVE'', pl_data = []\<rparr>"

definition demo_review_request :: "string review_error plugin_error + bool \<times> string \<times> string \<times> json" where
  "demo_review_request = review_request demo_review demo_review_inputs demo_review_config demo_review_record"

lemma demo_review_made:
  obtains body where "review_request demo_review demo_review_inputs demo_review_config demo_review_record = Inr (False, ''npqs'', ''/api/v1/cases/c1/flows'', body)"
proof -
  have "case demo_review_request of Inr (r, s, p, b) \<Rightarrow> \<not> r \<and> s = ''npqs'' \<and> p = ''/api/v1/cases/c1/flows'' | Inl e \<Rightarrow> False" by code_simp
  then show thesis using that by (auto simp: demo_review_request_def split: sum.splits prod.splits)
qed


theorem dispatch_starts_review_witness:
  "\<exists>g W'. find_flow ''t9'' (st_flows (fw_store W')) = Some g \<and> fl_case_id g = ''c1'' \<and> fl_status g \<noteq> Starting \<and>
     snd (snd (Review_Execute demo_review demo_review_inputs demo_review_config demo_review_record demo_retried)) = W'"
proof -
  obtain body where b: "review_request demo_review demo_review_inputs demo_review_config demo_review_record = Inr (False, ''npqs'', ''/api/v1/cases/c1/flows'', body)"
    by (rule demo_review_made)
  obtain e rec' and W' :: "string flow_world" where x: "Review_Execute demo_review demo_review_inputs demo_review_config demo_review_record demo_retried = (e, rec', W')"
    by (cases "Review_Execute demo_review demo_review_inputs demo_review_config demo_review_record demo_retried")
  have "case fst (Review_Execute demo_review demo_review_inputs demo_review_config demo_review_record demo_retried) of Suspended \<Rightarrow> True | _ \<Rightarrow> False"
    by code_simp
  then have "e = Suspended" using x by (auto split: step_end.splits)
  moreover have "rv_post demo_review W ''npqs'' ''/api/v1/cases/c1/flows'' bd = posted_to (demo_api 1) (\<lambda>_ _. None) demo_handler demo_client (pl_case demo_review_record) bd W" for W bd
    by (simp add: demo_review_def demo_review_record_def)
  moreover have "store_ok (fw_store demo_retried)" by (rule demo_ok)
  ultimately obtain g where "find_flow (pl_task demo_review_record) (st_flows (fw_store W')) = Some g"
      "fl_case_id g = pl_case demo_review_record" "fl_status g \<noteq> Starting"
    using dispatch_starts_review [where pg = "\<lambda>_ _. None" and h = demo_handler and p = demo_client, OF b _ _ demo_fair [of 1], of demo_retried rec' W'] x by metis
  then show ?thesis using x by (auto simp: demo_review_record_def)
qed

end
