(* ===== verification/Govpay_Crypto.thy ===== *)
theory Govpay_Crypto
  imports File_Access
begin

unbundle bit_operations_syntax

text \<open>
  \<open>external-integration/payment/govpay/crypto.go\<close>: what GovPay+ encrypts and how. A call carries a
  32-byte transaction key, encrypted to this GO's RSA key, and every field of it is AES-256-CBC
  under the SHA-256 of that key, padded as PKCS7 and written in base64; the answer's fields are
  encrypted the same way. Padding, chaining and base64 are defined here; RSA-OAEP decryption,
  SHA-256, the AES block permutation and the reading of a PEM file are parameters
  (\<open>gov_crypto\<close>), with the standards' laws in \<open>crypto_ok\<close>.
\<close>

record 'k gov_crypto =
  gc_oaep :: "'k \<Rightarrow> bytes \<Rightarrow> bytes option"
  gc_sha256 :: "bytes \<Rightarrow> bytes"
  gc_encrypt :: "bytes \<Rightarrow> bytes \<Rightarrow> bytes"
  gc_decrypt :: "bytes \<Rightarrow> bytes \<Rightarrow> bytes"

definition bytes_ok :: "bytes \<Rightarrow> bool" where
  "bytes_ok b = list_all (\<lambda>x. x < 256) b"

definition crypto_ok :: "'k gov_crypto \<Rightarrow> bool" where
  "crypto_ok L \<longleftrightarrow>
     (\<forall>b. length (gc_sha256 L b) = 32 \<and> bytes_ok (gc_sha256 L b)) \<and>
     (\<forall>key b. length b = 16 \<longrightarrow> bytes_ok b \<longrightarrow>
        length (gc_encrypt L key b) = 16 \<and> bytes_ok (gc_encrypt L key b) \<and> gc_decrypt L key (gc_encrypt L key b) = b)"

datatype crypt_error = NotBase64 | BadKeyLength nat | NotWholeBlocks | BadPaddedLength | BadPadding | RsaFailed

lemma bytes_ok_simps [simp]:
  "bytes_ok []" "bytes_ok (x # b) \<longleftrightarrow> x < 256 \<and> bytes_ok b" "bytes_ok (b @ c) \<longleftrightarrow> bytes_ok b \<and> bytes_ok c"
  by (simp_all add: bytes_ok_def)

lemma bytes_ok_take [simp]: "bytes_ok b \<Longrightarrow> bytes_ok (take n b)" and bytes_ok_drop [simp]: "bytes_ok b \<Longrightarrow> bytes_ok (drop n b)"
  by (auto simp: bytes_ok_def list_all_iff dest: in_set_takeD in_set_dropD)

text \<open>\<open>[]byte(s)\<close> and \<open>string(b)\<close>.\<close>

definition bytes_of :: "string \<Rightarrow> bytes" where "bytes_of s = map of_char s"
definition string_of :: "bytes \<Rightarrow> string" where "string_of b = map char_of b"

lemma string_of_bytes_of [simp]: "string_of (bytes_of s) = s"
  by (simp add: string_of_def bytes_of_def)

lemma bytes_ok_bytes_of [simp]: "bytes_ok (bytes_of s)"
  by (simp add: bytes_ok_def bytes_of_def list_all_iff)

lemma length_bytes_of [simp]: "length (bytes_of s) = length s"
  by (simp add: bytes_of_def)

subsection \<open>Base64\<close>

definition b64_char :: "nat \<Rightarrow> char" where
  "b64_char n = (if n < 26 then char_of (n + 65) else if n < 52 then char_of (n + 71) else if n < 62 then char_of (n - 4)
     else if n = 62 then CHR ''+'' else CHR ''/'')"

fun EncodeToString :: "bytes \<Rightarrow> string" where
  "EncodeToString [] = []"
| "EncodeToString [a] = [b64_char (a div 4), b64_char (a mod 4 * 16), CHR ''='', CHR ''='']"
| "EncodeToString [a, b] = [b64_char (a div 4), b64_char (a mod 4 * 16 + b div 16), b64_char (b mod 16 * 4), CHR ''='']"
| "EncodeToString (a # b # c # rest) =
     b64_char (a div 4) # b64_char (a mod 4 * 16 + b div 16) # b64_char (b mod 16 * 4 + c div 64) # b64_char (c mod 64) # EncodeToString rest"

lemma b64_value_char [simp]: "n < 64 \<Longrightarrow> b64_value (b64_char n) = Some n"
  by (auto simp: b64_char_def b64_value_def Let_def)

lemma b64_char_plain: "n < 64 \<Longrightarrow> b64_char n \<noteq> CHR 0x0D \<and> b64_char n \<noteq> CHR 0x0A"
  using b64_value_char [of n] by (auto simp: b64_value_def)

lemma b64_value_pad [simp]: "b64_value CHR ''='' = None"
  by (simp add: b64_value_def)

lemma sextets:
  "a < 256 \<Longrightarrow> a div 4 < (64 :: nat)" "b < 256 \<Longrightarrow> a mod 4 * 16 + b div 16 < (64 :: nat)"
  "c < 256 \<Longrightarrow> b mod 16 * 4 + c div 64 < (64 :: nat)" "c mod 64 < (64 :: nat)" "a mod 4 * 16 < (64 :: nat)" "b mod 16 * 4 < (64 :: nat)"
proof -
  show "a < 256 \<Longrightarrow> a div 4 < (64 :: nat)" by (simp add: less_mult_imp_div_less)
  show "b < 256 \<Longrightarrow> a mod 4 * 16 + b div 16 < (64 :: nat)" using pos_mod_bound [of 4 a] less_mult_imp_div_less [of b 16 16] by linarith
  show "c < 256 \<Longrightarrow> b mod 16 * 4 + c div 64 < (64 :: nat)" using pos_mod_bound [of 16 b] less_mult_imp_div_less [of c 4 64] by linarith
  show "a mod 4 * 16 < (64 :: nat)" using pos_mod_bound [of 4 a] by linarith
  show "b mod 16 * 4 < (64 :: nat)" using pos_mod_bound [of 16 b] by linarith
qed simp

lemma encoded_plain: "bytes_ok b \<Longrightarrow> filter (\<lambda>c. c \<noteq> CHR 0x0D \<and> c \<noteq> CHR 0x0A) (EncodeToString b) = EncodeToString b"
  by (induction b rule: EncodeToString.induct) (simp_all add: b64_char_plain sextets)

lemma regroup:
  "b < 256 \<Longrightarrow> (a mod 4 * 16 + b div 16) div 16 = (a mod 4 :: nat)" "b < 256 \<Longrightarrow> (a mod 4 * 16 + b div 16) mod 16 = (b div 16 :: nat)"
  "c < 256 \<Longrightarrow> (b mod 16 * 4 + c div 64) div 4 = (b mod 16 :: nat)" "c < 256 \<Longrightarrow> (b mod 16 * 4 + c div 64) mod 4 = (c div 64 :: nat)"
proof -
  have "(x * k + y) div k = x \<and> (x * k + y) mod k = y" if "y < k" for x y k :: nat using that by simp
  note this [of "b div 16" 16 "a mod 4"] this [of "c div 64" 4 "b mod 16"]
  moreover have "b < 256 \<Longrightarrow> b div 16 < 16" "c < 256 \<Longrightarrow> c div 64 < 4" by (simp_all add: less_mult_imp_div_less)
  ultimately show
    "b < 256 \<Longrightarrow> (a mod 4 * 16 + b div 16) div 16 = (a mod 4 :: nat)" "b < 256 \<Longrightarrow> (a mod 4 * 16 + b div 16) mod 16 = (b div 16 :: nat)"
    "c < 256 \<Longrightarrow> (b mod 16 * 4 + c div 64) div 4 = (b mod 16 :: nat)" "c < 256 \<Longrightarrow> (b mod 16 * 4 + c div 64) mod 4 = (c div 64 :: nat)"
    by blast+
qed

lemma b64_quads_encoded: "bytes_ok b \<Longrightarrow> b64_quads (EncodeToString b) = Some b"
proof (induction b rule: EncodeToString.induct)
  case (3 a b)
  then have "b div 16 < 16" by (simp add: less_mult_imp_div_less)
  with 3 show ?case by (simp add: sextets regroup)
next
  case (4 a b c rest)
  then have "b div 16 < 16" "c div 64 < 4" by (simp_all add: less_mult_imp_div_less)
  with 4 show ?case by (simp add: sextets regroup)
qed (simp_all add: sextets)

lemma DecodeString_EncodeToString: "bytes_ok b \<Longrightarrow> DecodeString (EncodeToString b) = Some b"
  by (simp add: DecodeString_def encoded_plain b64_quads_encoded)

subsection \<open>Padding\<close>

definition pkcs7Pad :: "bytes \<Rightarrow> nat \<Rightarrow> bytes" where
  "pkcs7Pad data blockSize = (let pad = blockSize - length data mod blockSize in data @ replicate pad pad)"

definition pkcs7Unpad :: "bytes \<Rightarrow> nat \<Rightarrow> crypt_error + string" where
  "pkcs7Unpad data blockSize =
     (let n = length data in
      if n = 0 \<or> n mod blockSize \<noteq> 0 then Inl BadPaddedLength
      else let pad = data ! (n - 1) in
      if pad = 0 \<or> blockSize < pad then Inl BadPadding
      else if list_all (\<lambda>b. b = pad) (drop (n - pad) data) then Inr (string_of (take (n - pad) data))
      else Inl BadPadding)"

lemma pkcs7Unpad_pad: "0 < k \<Longrightarrow> pkcs7Unpad (pkcs7Pad data k) k = Inr (string_of data)"
proof -
  assume k: "0 < k"
  define p where "p = k - length data mod k"
  have p: "0 < p" "p \<le> k" using k by (auto simp: p_def)
  have "(length data + p) mod k = 0"
  proof -
    have "length data mod k < k" using k by simp
    then have "length data + p = k * (length data div k) + k" using mult_div_mod_eq [of k "length data"] unfolding p_def by linarith
    then show ?thesis by simp
  qed
  moreover have "(data @ replicate p p) ! (length (data @ replicate p p) - 1) = p"
    using p by (cases p) (simp_all add: nth_append del: replicate_Suc)
  ultimately show ?thesis using p by (simp add: pkcs7Unpad_def pkcs7Pad_def Let_def p_def [symmetric] list_all_iff)
qed

lemma pkcs7Pad_length: "0 < k \<Longrightarrow> k dvd length (pkcs7Pad data k) \<and> pkcs7Pad data k \<noteq> []"
  using pkcs7Unpad_pad [of k data] by (auto simp: pkcs7Unpad_def Let_def dvd_eq_mod_eq_0 split: if_splits)

subsection \<open>Chaining\<close>

definition xor_bytes :: "bytes \<Rightarrow> bytes \<Rightarrow> bytes" where
  "xor_bytes a b = map2 (XOR) a b"

text \<open>\<open>cipher.NewCBCEncrypter\<close> and \<open>NewCBCDecrypter\<close> over whole blocks of 16 bytes.\<close>

function cbc_encrypt :: "(bytes \<Rightarrow> bytes) \<Rightarrow> bytes \<Rightarrow> bytes \<Rightarrow> bytes" where
  "cbc_encrypt E iv data =
     (if length data < 16 then []
      else let c = E (xor_bytes (take 16 data) iv) in c @ cbc_encrypt E c (drop 16 data))"
  by auto
termination by (relation "measure (\<lambda>(E, iv, data). length data)") auto

function cbc_decrypt :: "(bytes \<Rightarrow> bytes) \<Rightarrow> bytes \<Rightarrow> bytes \<Rightarrow> bytes" where
  "cbc_decrypt D iv data =
     (if length data < 16 then []
      else xor_bytes (D (take 16 data)) iv @ cbc_decrypt D (take 16 data) (drop 16 data))"
  by auto
termination by (relation "measure (\<lambda>(D, iv, data). length data)") auto

declare cbc_encrypt.simps [simp del] cbc_decrypt.simps [simp del]

lemma length_xor_bytes [simp]: "length (xor_bytes a b) = min (length a) (length b)"
  by (simp add: xor_bytes_def)

lemma xor_byte_less: "x < 256 \<Longrightarrow> y < 256 \<Longrightarrow> x XOR y < (256 :: nat)"
  using take_bit_xor [of 8 x y] take_bit_nat_eq_self_iff [of 8 x] take_bit_nat_eq_self_iff [of 8 y] take_bit_nat_eq_self_iff [of 8 "x XOR y"] by simp

lemma xor_bytes_ok: "bytes_ok a \<Longrightarrow> bytes_ok b \<Longrightarrow> bytes_ok (xor_bytes a b)"
  by (auto simp: bytes_ok_def xor_bytes_def list_all_iff intro!: xor_byte_less dest: set_zip_leftD set_zip_rightD)

lemma xor_bytes_twice: "length a = length b \<Longrightarrow> xor_bytes (xor_bytes a b) b = a"
  by (induction a b rule: list_induct2) (simp_all add: xor_bytes_def xor.assoc)

lemma cbc_round_trip:
  assumes "\<And>b. length b = 16 \<Longrightarrow> bytes_ok b \<Longrightarrow> length (E b) = 16 \<and> bytes_ok (E b) \<and> D (E b) = b"
    and "16 dvd length data" "bytes_ok data" "length iv = 16" "bytes_ok iv"
  shows "length (cbc_encrypt E iv data) = length data \<and> bytes_ok (cbc_encrypt E iv data) \<and> cbc_decrypt D iv (cbc_encrypt E iv data) = data"
  using assms
proof (induction E iv data rule: cbc_encrypt.induct)
  case (1 E iv data)
  show ?case
  proof (cases "length data < 16")
    case True
    with 1(3) have "data = []" by (auto elim: dvdE)
    then show ?thesis by (simp add: cbc_encrypt.simps cbc_decrypt.simps)
  next
    case False
    define c where "c = E (xor_bytes (take 16 data) iv)"
    have x: "length (xor_bytes (take 16 data) iv) = 16" "bytes_ok (xor_bytes (take 16 data) iv)"
      using False 1(4-6) by (simp_all add: xor_bytes_ok)
    then have c: "length c = 16" "bytes_ok c" "D c = xor_bytes (take 16 data) iv" using 1(2) [OF x] by (simp_all add: c_def)
    have "16 dvd length (drop 16 data)" using 1(3) False by (simp add: dvd_diff_nat)
    with 1(1) [OF False c_def 1(2)] 1(4) c
    have ih: "length (cbc_encrypt E c (drop 16 data)) = length (drop 16 data)" "bytes_ok (cbc_encrypt E c (drop 16 data))"
      "cbc_decrypt D c (cbc_encrypt E c (drop 16 data)) = drop 16 data" by simp_all
    have e: "cbc_encrypt E iv data = c @ cbc_encrypt E c (drop 16 data)"
      using False by (subst cbc_encrypt.simps) (simp add: Let_def c_def)
    have "cbc_decrypt D iv (c @ cbc_encrypt E c (drop 16 data)) = xor_bytes (xor_bytes (take 16 data) iv) iv @ drop 16 data"
      using c ih by (subst cbc_decrypt.simps) simp
    moreover have "xor_bytes (xor_bytes (take 16 data) iv) iv = take 16 data"
      using False 1(5) by (intro xor_bytes_twice) simp
    ultimately show ?thesis using c ih False by (simp add: e)
  qed
qed

subsection \<open>Fields\<close>

definition aesKeyLen :: nat where "aesKeyLen = 32"
definition ivLen :: nat where "ivLen = 16"

definition newCBC :: "'k gov_crypto \<Rightarrow> bytes \<Rightarrow> crypt_error + bytes \<times> bytes" where
  "newCBC L txnKey =
     (if length txnKey \<noteq> aesKeyLen then Inl (BadKeyLength (length txnKey))
      else let key = gc_sha256 L txnKey in Inr (key, take ivLen key))"

definition aesCBCEncrypt :: "'k gov_crypto \<Rightarrow> bytes \<Rightarrow> string \<Rightarrow> crypt_error + string" where
  "aesCBCEncrypt L key plaintext =
     (case newCBC L key of
        Inl e \<Rightarrow> Inl e
      | Inr (block, iv) \<Rightarrow> Inr (EncodeToString (cbc_encrypt (gc_encrypt L block) iv (pkcs7Pad (bytes_of plaintext) 16))))"

definition aesCBCDecrypt :: "'k gov_crypto \<Rightarrow> bytes \<Rightarrow> string \<Rightarrow> crypt_error + string" where
  "aesCBCDecrypt L key b64 =
     (case DecodeString b64 of
        None \<Rightarrow> Inl NotBase64
      | Some ciphertext \<Rightarrow>
     (case newCBC L key of
        Inl e \<Rightarrow> Inl e
      | Inr (block, iv) \<Rightarrow>
          if length ciphertext = 0 \<or> length ciphertext mod 16 \<noteq> 0 then Inl NotWholeBlocks
          else pkcs7Unpad (cbc_decrypt (gc_decrypt L block) iv ciphertext) 16))"

lemma aes_round_trip:
  assumes "crypto_ok L" and "length key = 32"
  shows "\<exists>c. aesCBCEncrypt L key s = Inr c \<and> aesCBCDecrypt L key c = Inr s"
proof -
  define sk where "sk = gc_sha256 L key"
  define data where "data = pkcs7Pad (bytes_of s) 16"
  define ct where "ct = cbc_encrypt (gc_encrypt L sk) (take 16 sk) data"
  have sk: "length sk = 32" "bytes_ok sk" using assms(1) by (simp_all add: crypto_ok_def sk_def)
  have "bytes_ok data" using pkcs7Pad_length [of 16 "bytes_of s"]
    by (auto simp: data_def pkcs7Pad_def Let_def bytes_ok_def [of "replicate _ _"] list_all_iff)
  moreover have d: "16 dvd length data" "data \<noteq> []" using pkcs7Pad_length [of 16 "bytes_of s"] by (simp_all add: data_def)
  ultimately have ct: "length ct = length data" "bytes_ok ct" "cbc_decrypt (gc_decrypt L sk) (take 16 sk) ct = data"
    using cbc_round_trip [of "gc_encrypt L sk" "gc_decrypt L sk" data "take 16 sk"] assms(1) sk by (simp_all add: crypto_ok_def ct_def)
  have cbc: "newCBC L key = Inr (sk, take 16 sk)" using assms(2) by (simp add: newCBC_def aesKeyLen_def ivLen_def sk_def Let_def)
  have "aesCBCEncrypt L key s = Inr (EncodeToString ct)" by (simp add: aesCBCEncrypt_def cbc ct_def data_def)
  moreover have "aesCBCDecrypt L key (EncodeToString ct) = Inr s"
    using ct d pkcs7Unpad_pad [of 16 "bytes_of s"]
    by (simp add: aesCBCDecrypt_def DecodeString_EncodeToString cbc dvd_eq_mod_eq_0 data_def [symmetric])
  ultimately show ?thesis by blast
qed

subsection \<open>The transaction key\<close>

definition decryptTransactionKey :: "'k gov_crypto \<Rightarrow> 'k \<Rightarrow> string \<Rightarrow> crypt_error + bytes" where
  "decryptTransactionKey L priv header =
     (case DecodeString (trim_space header) of
        None \<Rightarrow> Inl NotBase64
      | Some ciphertext \<Rightarrow>
     (case gc_oaep L priv ciphertext of
        None \<Rightarrow> Inl RsaFailed
      | Some key \<Rightarrow> if length key \<noteq> aesKeyLen then Inl (BadKeyLength (length key)) else Inr key))"

lemma transaction_key_length: "decryptTransactionKey L priv header = Inr key \<Longrightarrow> length key = 32"
  by (auto simp: decryptTransactionKey_def aesKeyLen_def split: option.splits if_splits)

text \<open>
  The private key: a PEM block holding a PKCS#1 or PKCS#8 key, RSA and at least 2048 bits, found
  through a \<open>file:\<close> or \<open>env:\<close> reference. How a reference resolves and what a block holds are
  parameters.
\<close>

datatype 'k pkcs8_key = RsaKey 'k | OtherKey

record 'k key_reader =
  kr_resolve :: "string \<Rightarrow> string option"
  kr_block :: "string \<Rightarrow> bytes option"
  kr_pkcs1 :: "bytes \<Rightarrow> 'k option"
  kr_pkcs8 :: "bytes \<Rightarrow> 'k pkcs8_key option"
  kr_bits :: "'k \<Rightarrow> nat"

datatype key_error = NoPemBlock | KeyNotParsed | KeyNotRSA | KeyTooSmall nat | KeyNotReference | KeyNotResolved

definition newDecryptor :: "'k key_reader \<Rightarrow> string \<Rightarrow> key_error + 'k" where
  "newDecryptor K pemData =
     (case kr_block K pemData of
        None \<Rightarrow> Inl NoPemBlock
      | Some block \<Rightarrow>
          (case (case kr_pkcs1 K block of
                   Some key \<Rightarrow> Inr key
                 | None \<Rightarrow> (case kr_pkcs8 K block of None \<Rightarrow> Inl KeyNotParsed | Some OtherKey \<Rightarrow> Inl KeyNotRSA | Some (RsaKey key) \<Rightarrow> Inr key)) of
             Inl e \<Rightarrow> Inl e
           | Inr key \<Rightarrow> if kr_bits K key < 2048 then Inl (KeyTooSmall (kr_bits K key)) else Inr key))"

definition loadDecryptor :: "'k key_reader \<Rightarrow> string \<Rightarrow> key_error + 'k option" where
  "loadDecryptor K ref =
     (if blank ref then Inr None
      else if \<not> has_prefix ''file:'' ref \<and> \<not> has_prefix ''env:'' ref then Inl KeyNotReference
      else case kr_resolve K ref of
        None \<Rightarrow> Inl KeyNotResolved
      | Some pemData \<Rightarrow> (case newDecryptor K pemData of Inl e \<Rightarrow> Inl e | Inr key \<Rightarrow> Inr (Some key)))"

lemma loaded_key: "loadDecryptor K ref = Inr (Some key) \<Longrightarrow> 2048 \<le> kr_bits K key \<and> (has_prefix ''file:'' ref \<or> has_prefix ''env:'' ref)"
  by (auto simp: loadDecryptor_def newDecryptor_def split: if_splits option.splits sum.splits pkcs8_key.splits)

end
