(* ===== verification/Govpay_Requests.thy ===== *)
theory Govpay_Requests
  imports Govpay_Crypto Principals
begin

text \<open>
  \<open>external-integration/payment/govpay\<close>, what comes in: the envelope both GovPay+ calls share
  (\<open>request.go\<close>), the decryption of its data with the call's transaction key (\<open>session.go\<close>),
  the identity a payee is mapped to and the client a callback must be authenticated as
  (\<open>identity.go\<close>). A document is read with its number literals kept. core's payee lookup
  and the inbound request's header are arguments; an error keeps what its text names.
\<close>

subsection \<open>Documents\<close>

datatype lit_json =
    LNull
  | LBool bool
  | LNum string
  | LStr string
  | LArr "lit_json list"
  | LObj "(string \<times> lit_json) list"

record govPayParam =
  gp_seq :: string
  gp_name :: string
  gp_value :: lit_json

record govPayRequest =
  gr_transaction :: string
  gr_subinst :: string
  gr_service :: string
  gr_service_name :: string
  gr_data :: "govPayParam list"

datatype char_class = LettersAndNumbers | Digits | Printable

datatype gov_error =
    InvalidJson
  | InvalidData
  | NotStringOrNumber string
  | FieldMissing string
  | FieldRequired string
  | FieldTooLong string nat
  | FieldChars string char_class
  | FieldNotText string
  | EncryptionNotConfigured
  | NoInboundRequest
  | KeyMissing
  | KeyInvalid crypt_error
  | NotDecrypted string crypt_error
  | ValueNotText string
  | DataNotOneItem
  | DataNotRefNo
  | InvalidRefNo gov_error
  | NoPayeeLookup string
  | LookupFailed string string
  | IdentityNotConfigured
  | SubInstMismatch string string
  | ServiceMismatch string string
  | WebhookFor string gov_error
  | InvalidAmount
  | NotEncrypted crypt_error
  | WebhookClientNotConfigured
  | NoAuthenticatedClient
  | WrongClient string string

text \<open>The errors that wrap core's verification failure, answered 401; the others are retried.\<close>

fun verification_failed :: "gov_error \<Rightarrow> bool" where
  "verification_failed KeyMissing = True"
| "verification_failed (KeyInvalid e) = True"
| "verification_failed NoAuthenticatedClient = True"
| "verification_failed (WrongClient c d) = True"
| "verification_failed e = False"

subsection \<open>Fields\<close>

text \<open>The bytes of the first rune as Go's decoder takes them; an invalid byte is a rune of its own.\<close>

definition continuation :: "char \<Rightarrow> bool" where
  "continuation c = (let n = of_char c :: nat in 128 \<le> n \<and> n \<le> 191)"

definition rune_width :: "string \<Rightarrow> nat" where
  "rune_width s =
     (case s of
        a # b # rest \<Rightarrow>
          (let x = of_char a :: nat; y = of_char b :: nat in
           if 0xC2 \<le> x \<and> x \<le> 0xDF then (if continuation b then 2 else 1)
           else if 0xE0 \<le> x \<and> x \<le> 0xEF
           then (if (if x = 0xE0 then 0xA0 else 0x80) \<le> y \<and> y \<le> (if x = 0xED then 0x9F else 0xBF) \<and> rest \<noteq> [] \<and> continuation (hd rest) then 3 else 1)
           else if 0xF0 \<le> x \<and> x \<le> 0xF4
           then (if (if x = 0xF0 then 0x90 else 0x80) \<le> y \<and> y \<le> (if x = 0xF4 then 0x8F else 0xBF) \<and> 2 \<le> length rest \<and>
                    continuation (rest ! 0) \<and> continuation (rest ! 1) then 4 else 1)
           else 1)
      | _ \<Rightarrow> 1)"

text \<open>\<open>utf8.RuneCountInString\<close>: \<open>k\<close> bytes of a rune counted already are still to be passed over.\<close>

fun count_runes :: "nat \<Rightarrow> string \<Rightarrow> nat" where
  "count_runes k [] = 0"
| "count_runes (Suc k) (c # s) = count_runes k s"
| "count_runes 0 (c # s) = Suc (count_runes (rune_width (c # s) - 1) s)"

definition RuneCountInString :: "string \<Rightarrow> nat" where
  "RuneCountInString s = count_runes 0 s"

text \<open>Runes outside ASCII have bytes outside it only, so the classes are tests of the bytes.\<close>

definition isANS :: "string \<Rightarrow> bool" where
  "isANS s = (list_all (\<lambda>c. let n = of_char c :: nat in 32 \<le> n \<and> n \<le> 126) s \<and> s \<noteq> [])"

definition digit :: "char \<Rightarrow> bool" where
  "digit c = (let n = of_char c :: nat in 48 \<le> n \<and> n \<le> 57)"

definition letter_or_number :: "char \<Rightarrow> bool" where
  "letter_or_number c = (let n = of_char c :: nat in (48 \<le> n \<and> n \<le> 57) \<or> (97 \<le> n \<and> n \<le> 122) \<or> (65 \<le> n \<and> n \<le> 90))"

definition validateANField :: "string \<Rightarrow> string \<Rightarrow> nat \<Rightarrow> gov_error option" where
  "validateANField name v maxLength =
     (if blank v then Some (FieldRequired name)
      else if maxLength < RuneCountInString v then Some (FieldTooLong name maxLength)
      else if \<not> list_all letter_or_number v then Some (FieldChars name LettersAndNumbers) else None)"

definition validateNumericField :: "string \<Rightarrow> string \<Rightarrow> nat \<Rightarrow> gov_error option" where
  "validateNumericField name v maxLength =
     (if v = [] then Some (FieldRequired name)
      else if maxLength < RuneCountInString v then Some (FieldTooLong name maxLength)
      else if \<not> list_all digit v then Some (FieldChars name Digits) else None)"

definition validateANSField :: "string \<Rightarrow> string \<Rightarrow> nat \<Rightarrow> gov_error option" where
  "validateANSField name v maxLength =
     (if blank v then Some (FieldRequired name)
      else if maxLength < RuneCountInString v then Some (FieldTooLong name maxLength)
      else if \<not> isANS v then Some (FieldChars name Printable) else None)"

text \<open>The first of the names that is present and not null; a number counts as its literal.\<close>

fun getStringField :: "(string \<times> lit_json) list \<Rightarrow> string list \<Rightarrow> gov_error + string option" where
  "getStringField body [] = Inr None"
| "getStringField body (key # keys) =
     (case map_of body key of
        None \<Rightarrow> getStringField body keys
      | Some LNull \<Rightarrow> getStringField body keys
      | Some (LStr s) \<Rightarrow> Inr (Some s)
      | Some (LNum literal) \<Rightarrow> Inr (Some literal)
      | Some _ \<Rightarrow> Inl (NotStringOrNumber key))"

definition required_field :: "(string \<times> lit_json) list \<Rightarrow> string list \<Rightarrow> string \<Rightarrow> (string \<Rightarrow> gov_error option) \<Rightarrow> gov_error + string" where
  "required_field body keys name check =
     (case getStringField body keys of
        Inl e \<Rightarrow> Inl e
      | Inr None \<Rightarrow> Inl (FieldMissing name)
      | Inr (Some v) \<Rightarrow> (case check v of Some e \<Rightarrow> Inl e | None \<Rightarrow> Inr v))"

definition parseGovPayRequestHeaders :: "(string \<times> lit_json) list \<Rightarrow> gov_error + govPayRequest" where
  "parseGovPayRequestHeaders body =
     (case required_field body [''transactionID'', ''transactionId''] ''transactionID'' (\<lambda>v. validateANField ''transactionID'' v 20) of
        Inl e \<Rightarrow> Inl e
      | Inr transactionID \<Rightarrow>
     (case required_field body [''subinstId'', ''suinstId''] ''subinstId'' (\<lambda>v. validateNumericField ''subinstId'' v 3) of
        Inl e \<Rightarrow> Inl e
      | Inr subInstID \<Rightarrow>
     (case required_field body [''serviceid'', ''serviceId'', ''serviced''] ''serviceid'' (\<lambda>v. validateNumericField ''serviceid'' v 3) of
        Inl e \<Rightarrow> Inl e
      | Inr serviceID \<Rightarrow>
     (case required_field body [''serviceName''] ''serviceName'' (\<lambda>v. validateANSField ''serviceName'' v 50) of
        Inl e \<Rightarrow> Inl e
      | Inr serviceName \<Rightarrow>
          Inr \<lparr>gr_transaction = transactionID, gr_subinst = subInstID, gr_service = serviceID, gr_service_name = serviceName, gr_data = []\<rparr>))))"

definition lit_field :: "(string \<times> lit_json) list \<Rightarrow> string \<Rightarrow> lit_json" where
  "lit_field kvs name = (case List.find (\<lambda>(k, _). fold_name k = fold_name name) (rev kvs) of None \<Rightarrow> LNull | Some (_, v) \<Rightarrow> v)"

fun lit_text :: "lit_json \<Rightarrow> string option" where
  "lit_text LNull = Some []"
| "lit_text (LStr s) = Some s"
| "lit_text _ = None"

fun decode_param :: "lit_json \<Rightarrow> govPayParam option" where
  "decode_param LNull = Some \<lparr>gp_seq = [], gp_name = [], gp_value = LNull\<rparr>"
| "decode_param (LObj kvs) =
     (case (lit_text (lit_field kvs ''seq''), lit_text (lit_field kvs ''paramName'')) of
        (Some s, Some n) \<Rightarrow> Some \<lparr>gp_seq = s, gp_name = n, gp_value = lit_field kvs ''value''\<rparr>
      | _ \<Rightarrow> None)"
| "decode_param _ = None"

fun decode_params :: "lit_json \<Rightarrow> govPayParam list option" where
  "decode_params LNull = Some []"
| "decode_params (LArr vs) = those (map decode_param vs)"
| "decode_params _ = None"

text \<open>A body is \<open>None\<close> when its bytes are not JSON.\<close>

definition parseGovPayRequest :: "lit_json option \<Rightarrow> gov_error + govPayRequest" where
  "parseGovPayRequest raw =
     (case (case raw of Some (LObj kvs) \<Rightarrow> Some kvs | Some LNull \<Rightarrow> Some [] | _ \<Rightarrow> None) of
        None \<Rightarrow> Inl InvalidJson
      | Some body \<Rightarrow>
     (case parseGovPayRequestHeaders body of
        Inl e \<Rightarrow> Inl e
      | Inr request \<Rightarrow>
     (case map_of body ''data'' of
        None \<Rightarrow> Inr request
      | Some rawData \<Rightarrow>
          (case decode_params rawData of None \<Rightarrow> Inl InvalidData | Some ps \<Rightarrow> Inr (request\<lparr>gr_data := ps\<rparr>)))))"

subsection \<open>Data\<close>

definition item_prefix :: "nat \<Rightarrow> string" where
  "item_prefix i = ''data['' @ show_nat i @ '']''"

definition validate_item :: "nat \<Rightarrow> govPayParam \<Rightarrow> gov_error option" where
  "validate_item i p =
     (case validateNumericField (item_prefix i @ ''.seq'') (gp_seq p) 2 of Some e \<Rightarrow> Some e | None \<Rightarrow>
     (case validateANSField (item_prefix i @ ''.paramName'') (gp_name p) 50 of Some e \<Rightarrow> Some e | None \<Rightarrow>
     (case gp_value p of
        LStr v \<Rightarrow> validateANSField (item_prefix i @ ''.value'') v 50
      | _ \<Rightarrow> Some (FieldNotText (item_prefix i @ ''.value'')))))"

fun validate_items :: "nat \<Rightarrow> govPayParam list \<Rightarrow> gov_error option" where
  "validate_items i [] = None"
| "validate_items i (p # ps) = (case validate_item i p of Some e \<Rightarrow> Some e | None \<Rightarrow> validate_items (i + 1) ps)"

definition validateGovPayData :: "govPayParam list \<Rightarrow> gov_error option" where
  "validateGovPayData ps = validate_items 0 ps"

definition decrypt_param :: "'k gov_crypto \<Rightarrow> bytes \<Rightarrow> govPayParam \<Rightarrow> gov_error + govPayParam" where
  "decrypt_param L key p =
     (case aesCBCDecrypt L key (gp_seq p) of
        Inl e \<Rightarrow> Inl (NotDecrypted ''seq'' e)
      | Inr seq \<Rightarrow>
     (case aesCBCDecrypt L key (gp_name p) of
        Inl e \<Rightarrow> Inl (NotDecrypted ''paramName'' e)
      | Inr paramName \<Rightarrow>
     (case gp_value p of
        LStr ciphertext \<Rightarrow>
          (case aesCBCDecrypt L key ciphertext of
             Inl e \<Rightarrow> Inl (NotDecrypted (''value for '' @ paramName) e)
           | Inr v \<Rightarrow> Inr \<lparr>gp_seq = seq, gp_name = paramName, gp_value = LStr v\<rparr>)
      | _ \<Rightarrow> Inl (ValueNotText paramName))))"

fun decryptParams :: "'k gov_crypto \<Rightarrow> bytes \<Rightarrow> govPayParam list \<Rightarrow> gov_error + govPayParam list" where
  "decryptParams L key [] = Inr []"
| "decryptParams L key (p # ps) =
     (case decrypt_param L key p of
        Inl e \<Rightarrow> Inl e
      | Inr q \<Rightarrow> (case decryptParams L key ps of Inl e \<Rightarrow> Inl e | Inr qs \<Rightarrow> Inr (q # qs)))"

subsection \<open>A call\<close>

record 'k gateway =
  gw_client :: string
  gw_decryptor :: "'k option"

text \<open>What a gateway reads off the call's context: the caller, and the TransactionKey header of the inbound request.\<close>

record call_context =
  cc_caller :: "principal option"
  cc_header :: "string option"

definition transactionKey :: "'k gov_crypto \<Rightarrow> 'k gateway \<Rightarrow> call_context \<Rightarrow> gov_error + bytes" where
  "transactionKey L g ctx =
     (case gw_decryptor g of
        None \<Rightarrow> Inl EncryptionNotConfigured
      | Some priv \<Rightarrow>
     (case cc_header ctx of
        None \<Rightarrow> Inl NoInboundRequest
      | Some header \<Rightarrow>
          if header = [] then Inl KeyMissing
          else case decryptTransactionKey L priv header of Inl e \<Rightarrow> Inl (KeyInvalid e) | Inr key \<Rightarrow> Inr key))"

definition decryptRequest :: "'k gov_crypto \<Rightarrow> 'k gateway \<Rightarrow> call_context \<Rightarrow> lit_json option \<Rightarrow> gov_error + govPayRequest \<times> bytes" where
  "decryptRequest L g ctx raw =
     (case parseGovPayRequest raw of
        Inl e \<Rightarrow> Inl e
      | Inr req \<Rightarrow>
     (case transactionKey L g ctx of
        Inl e \<Rightarrow> Inl e
      | Inr key \<Rightarrow>
     (case decryptParams L key (gr_data req) of
        Inl e \<Rightarrow> Inl e
      | Inr ps \<Rightarrow>
     (case validateGovPayData ps of Some e \<Rightarrow> Inl e | None \<Rightarrow> Inr (req\<lparr>gr_data := ps\<rparr>, key)))))"

definition refNoMaxLength :: nat where "refNoMaxLength = 20"

definition validateRefNoValue :: "string \<Rightarrow> gov_error + string" where
  "validateRefNoValue refNo =
     (if refNo = [] then Inl (FieldRequired ''refNo'')
      else if refNoMaxLength < RuneCountInString refNo then Inl (FieldTooLong ''refNo'' refNoMaxLength)
      else if \<not> isANS refNo then Inl (FieldChars ''refNo'' Printable)
      else Inr refNo)"

definition validateRefNoOnly :: "govPayParam list \<Rightarrow> gov_error + string" where
  "validateRefNoOnly ps =
     (case ps of
        [p] \<Rightarrow>
          if trim_space (gp_name p) \<noteq> ''refNo'' then Inl DataNotRefNo
          else (case gp_value p of LStr refNo \<Rightarrow> validateRefNoValue refNo | _ \<Rightarrow> Inl (FieldNotText ''refNo''))
      | _ \<Rightarrow> Inl DataNotOneItem)"

definition ExtractReferenceNumber :: "'k gov_crypto \<Rightarrow> 'k gateway \<Rightarrow> call_context \<Rightarrow> lit_json option \<Rightarrow> gov_error + string" where
  "ExtractReferenceNumber L g ctx raw =
     (case decryptRequest L g ctx raw of Inl e \<Rightarrow> Inl e | Inr (req, _) \<Rightarrow> validateRefNoOnly (gr_data req))"

text \<open>Items by name, trimmed and in lower case, the later of two winning; a checked name is ASCII.\<close>

definition item_name :: "govPayParam \<Rightarrow> string" where
  "item_name p = map lower_ascii (trim_space (gp_name p))"

definition indexParams :: "govPayParam list \<Rightarrow> (string \<times> govPayParam) list" where
  "indexParams ps = rev (map (\<lambda>p. (item_name p, p)) ps)"

fun paramValueString :: "(lit_json \<Rightarrow> string) \<Rightarrow> lit_json \<Rightarrow> string" where
  "paramValueString format LNull = []"
| "paramValueString format (LStr s) = trim_space s"
| "paramValueString format (LNum literal) = literal"
| "paramValueString format (LBool b) = (if b then ''true'' else ''false'')"
| "paramValueString format v = trim_space (format v)"

definition stringParam :: "(lit_json \<Rightarrow> string) \<Rightarrow> (string \<times> govPayParam) list \<Rightarrow> string \<Rightarrow> string" where
  "stringParam format params key = (case map_of params key of None \<Rightarrow> [] | Some p \<Rightarrow> paramValueString format (gp_value p))"

fun firstNonEmpty :: "string list \<Rightarrow> string" where
  "firstNonEmpty [] = []"
| "firstNonEmpty (v # vs) = (if \<not> blank v then v else firstNonEmpty vs)"

subsection \<open>Who is paid, and who calls\<close>

record gov_identity =
  gi_subinst :: string
  gi_service :: string

definition parseIdentity :: "raw_message \<Rightarrow> gov_error + gov_identity" where
  "parseIdentity mapping =
     (case (case mapping of
              NoBytes \<Rightarrow> Some ([], [])
            | NotJson _ \<Rightarrow> None
            | Doc v \<Rightarrow> decode_struct (\<lambda>kvs. case (decode_string (member kvs ''subinst_id''), decode_string (member kvs ''service_id'')) of
                  (Some a, Some b) \<Rightarrow> Some (a, b) | _ \<Rightarrow> None) v) of
        None \<Rightarrow> Inl IdentityNotConfigured
      | Some (subinst, service) \<Rightarrow>
          if blank subinst \<or> blank service then Inl IdentityNotConfigured
          else Inr \<lparr>gi_subinst = trim_space subinst, gi_service = trim_space service\<rparr>)"

definition ValidatePayeeMapping :: "raw_message \<Rightarrow> gov_error option" where
  "ValidatePayeeMapping mapping = (case parseIdentity mapping of Inl e \<Rightarrow> Some e | Inr _ \<Rightarrow> None)"

text \<open>\<open>strings.EqualFold\<close> where one side is ASCII, as a checked id is.\<close>

definition EqualFold :: "string \<Rightarrow> string \<Rightarrow> bool" where
  "EqualFold a b = (fold_name a = fold_name b)"

definition identity_match :: "gov_identity \<Rightarrow> string \<Rightarrow> string \<Rightarrow> gov_error option" where
  "identity_match i gotSubInst gotService =
     (if \<not> EqualFold (trim_space gotSubInst) (gi_subinst i) then Some (SubInstMismatch gotSubInst (gi_subinst i))
      else if \<not> EqualFold (trim_space gotService) (gi_service i) then Some (ServiceMismatch gotService (gi_service i))
      else None)"

text \<open>core's lookup of the payee mapping of a reference: an error, the mapping, or no such reference.\<close>

type_synonym payee_lookup = "string \<Rightarrow> string + raw_message option"

definition verifyWebhookIdentity :: "string \<Rightarrow> govPayRequest \<Rightarrow> payee_lookup option \<Rightarrow> gov_error option" where
  "verifyWebhookIdentity refNo req payees =
     (case payees of
        None \<Rightarrow> Some (NoPayeeLookup refNo)
      | Some find_payee \<Rightarrow>
     (case find_payee refNo of
        Inl e \<Rightarrow> Some (LookupFailed refNo e)
      | Inr None \<Rightarrow> None
      | Inr (Some mapping) \<Rightarrow>
          (case (case parseIdentity mapping of Inl e \<Rightarrow> Some e | Inr i \<Rightarrow> identity_match i (gr_subinst req) (gr_service req)) of
             None \<Rightarrow> None
           | Some e \<Rightarrow> Some (WebhookFor refNo e))))"

definition VerifyWebhook :: "'k gateway \<Rightarrow> call_context \<Rightarrow> gov_error option" where
  "VerifyWebhook g ctx =
     (if gw_client g = [] then Some WebhookClientNotConfigured
      else case cc_caller ctx of
        None \<Rightarrow> Some NoAuthenticatedClient
      | Some p \<Rightarrow>
          if pr_kind p \<noteq> KindClient then Some NoAuthenticatedClient
          else if pr_client_id p \<noteq> gw_client g then Some (WrongClient (pr_client_id p) (gw_client g))
          else None)"

subsection \<open>What an accepted call holds\<close>

definition ascii :: "string \<Rightarrow> bool" where
  "ascii s = list_all (\<lambda>c. of_char c < (128 :: nat)) s"

lemma rune_width_ascii: "of_char c < (128 :: nat) \<Longrightarrow> rune_width (c # s) = 1"
  by (cases s) (auto simp: rune_width_def Let_def)

lemma count_ascii: "ascii s \<Longrightarrow> RuneCountInString s = length s"
  unfolding RuneCountInString_def by (induction s) (auto simp: ascii_def rune_width_ascii)

lemma classes_ascii: "isANS s \<Longrightarrow> ascii s" "list_all digit s \<Longrightarrow> ascii s" "list_all letter_or_number s \<Longrightarrow> ascii s"
  by (auto simp: isANS_def digit_def letter_or_number_def ascii_def list_all_iff Let_def)

lemma checked_fields:
  "validateANField name v n = None \<longleftrightarrow> \<not> blank v \<and> length v \<le> n \<and> list_all letter_or_number v"
  "validateNumericField name v n = None \<longleftrightarrow> v \<noteq> [] \<and> length v \<le> n \<and> list_all digit v"
  "validateANSField name v n = None \<longleftrightarrow> \<not> blank v \<and> length v \<le> n \<and> isANS v"
  by (auto simp: validateANField_def validateNumericField_def validateANSField_def count_ascii classes_ascii not_less)

lemma validateRefNoValue_iff: "validateRefNoValue r = Inr r' \<longleftrightarrow> r' = r \<and> isANS r \<and> length r \<le> 20"
  by (auto simp: validateRefNoValue_def refNoMaxLength_def count_ascii classes_ascii not_less isANS_def [of "[]"])

lemma required_field_iff:
  "required_field body keys name check = Inr v \<longleftrightarrow> getStringField body keys = Inr (Some v) \<and> check v = None"
  by (auto simp: required_field_def split: sum.splits option.splits)

definition checked_item :: "govPayParam \<Rightarrow> bool" where
  "checked_item p \<longleftrightarrow> gp_seq p \<noteq> [] \<and> length (gp_seq p) \<le> 2 \<and> list_all digit (gp_seq p) \<and>
     \<not> blank (gp_name p) \<and> length (gp_name p) \<le> 50 \<and> isANS (gp_name p) \<and>
     (\<exists>v. gp_value p = LStr v \<and> \<not> blank v \<and> length v \<le> 50 \<and> isANS v)"

lemma no_error: "(case x of None \<Rightarrow> y | Some e \<Rightarrow> Some e) = None \<longleftrightarrow> x = None \<and> y = None"
  by (cases x) simp_all

lemma validate_item_iff: "validate_item i p = None \<longleftrightarrow> checked_item p"
  unfolding validate_item_def no_error checked_item_def checked_fields by (cases "gp_value p") (auto simp: checked_fields)

lemma validate_items_iff: "validate_items i ps = None \<longleftrightarrow> (\<forall>p \<in> set ps. checked_item p)"
  by (induction ps arbitrary: i) (simp_all add: no_error validate_item_iff)

definition checked_request :: "govPayRequest \<Rightarrow> bool" where
  "checked_request req \<longleftrightarrow>
     \<not> blank (gr_transaction req) \<and> length (gr_transaction req) \<le> 20 \<and> list_all letter_or_number (gr_transaction req) \<and>
     gr_subinst req \<noteq> [] \<and> length (gr_subinst req) \<le> 3 \<and> list_all digit (gr_subinst req) \<and>
     gr_service req \<noteq> [] \<and> length (gr_service req) \<le> 3 \<and> list_all digit (gr_service req) \<and>
     \<not> blank (gr_service_name req) \<and> length (gr_service_name req) \<le> 50 \<and> isANS (gr_service_name req)"

lemma parsed_headers:
  "parseGovPayRequestHeaders body = Inr req \<longleftrightarrow>
     getStringField body [''transactionID'', ''transactionId''] = Inr (Some (gr_transaction req)) \<and>
     getStringField body [''subinstId'', ''suinstId''] = Inr (Some (gr_subinst req)) \<and>
     getStringField body [''serviceid'', ''serviceId'', ''serviced''] = Inr (Some (gr_service req)) \<and>
     getStringField body [''serviceName''] = Inr (Some (gr_service_name req)) \<and> gr_data req = [] \<and> checked_request req"
  unfolding parseGovPayRequestHeaders_def bind_ok required_field_iff checked_fields checked_request_def
  by (cases req) auto

lemma checked_request_data [simp]: "checked_request (req\<lparr>gr_data := d\<rparr>) = checked_request req"
  by (simp add: checked_request_def)

lemma parsed_checked:
  assumes "parseGovPayRequest raw = Inr req"
  shows "checked_request req"
proof -
  define b where "b = (case raw of Some (LObj kvs) \<Rightarrow> Some kvs | Some LNull \<Rightarrow> Some [] | _ \<Rightarrow> None)"
  from assms obtain body where "b = Some body" unfolding parseGovPayRequest_def b_def [symmetric] by (cases b) auto
  with assms obtain r where r: "parseGovPayRequestHeaders body = Inr r" and
      d: "(case map_of body ''data'' of None \<Rightarrow> Inr r
        | Some rawData \<Rightarrow> (case decode_params rawData of None \<Rightarrow> Inl InvalidData | Some ps \<Rightarrow> Inr (r\<lparr>gr_data := ps\<rparr>))) = Inr req"
    unfolding parseGovPayRequest_def b_def [symmetric] by (cases "parseGovPayRequestHeaders body") auto
  from d have "req = r \<or> (\<exists>ps. req = r\<lparr>gr_data := ps\<rparr>)" by (auto split: option.splits)
  with r have "\<exists>body r. parseGovPayRequestHeaders body = Inr r \<and> (req = r \<or> (\<exists>ps. req = r\<lparr>gr_data := ps\<rparr>))" by blast
  then show ?thesis unfolding parsed_headers by auto
qed

lemma accepted_data: "(case validateGovPayData ps of Some e \<Rightarrow> Inl e | None \<Rightarrow> Inr r) = Inr r' \<longleftrightarrow> r' = r \<and> (\<forall>p \<in> set ps. checked_item p)"
  using validate_items_iff [of 0 ps] by (auto simp: validateGovPayData_def split: option.splits)

lemma decrypted_request:
  "decryptRequest L g ctx raw = Inr (req, key) \<longleftrightarrow>
     (\<exists>r ps. parseGovPayRequest raw = Inr r \<and> transactionKey L g ctx = Inr key \<and> decryptParams L key (gr_data r) = Inr ps \<and>
        req = r\<lparr>gr_data := ps\<rparr> \<and> (\<forall>p \<in> set ps. checked_item p))"
  unfolding decryptRequest_def bind_ok accepted_data by auto

lemma transactionKey_length: "transactionKey L g ctx = Inr key \<Longrightarrow> length key = 32"
  by (auto simp: transactionKey_def dest: transaction_key_length split: option.splits if_splits sum.splits)

text \<open>What a call that is read at all holds: its ids, its service's name and every item of its data
  are within GovPay+'s lengths and characters, no item's value is left encrypted or untyped, the
  key it is answered with has 32 bytes; and a reference taken from it is the single item's value,
  1 to 20 printable characters.\<close>

theorem accepted_call_in_bounds:
  assumes "decryptRequest L g ctx raw = Inr (req, key)"
  shows "length key = 32 \<and>
    length (gr_transaction req) \<in> {1..20} \<and> list_all letter_or_number (gr_transaction req) \<and>
    length (gr_subinst req) \<in> {1..3} \<and> list_all digit (gr_subinst req) \<and>
    length (gr_service req) \<in> {1..3} \<and> list_all digit (gr_service req) \<and>
    length (gr_service_name req) \<in> {1..50} \<and> isANS (gr_service_name req) \<and>
    (\<forall>p \<in> set (gr_data req). length (gp_seq p) \<in> {1..2} \<and> list_all digit (gp_seq p) \<and> length (gp_name p) \<in> {1..50} \<and> isANS (gp_name p) \<and>
       (\<exists>v. gp_value p = LStr v \<and> length v \<in> {1..50} \<and> isANS v)) \<and>
    (\<forall>refNo. ExtractReferenceNumber L g ctx raw = Inr refNo \<longrightarrow>
       (\<exists>p. gr_data req = [p] \<and> trim_space (gp_name p) = ''refNo'' \<and> gp_value p = LStr refNo) \<and> length refNo \<in> {1..20} \<and> isANS refNo)"
proof -
  have r: "checked_request req" and k: "length key = 32" and d: "\<forall>p \<in> set (gr_data req). checked_item p"
    using assms parsed_checked transactionKey_length [of L g ctx key] unfolding decrypted_request by auto
  have nb: "s \<noteq> []" if "\<not> blank s" for s using that by auto
  have "(\<exists>p. gr_data req = [p] \<and> trim_space (gp_name p) = ''refNo'' \<and> gp_value p = LStr refNo) \<and> length refNo \<in> {1..20} \<and> isANS refNo"
    if "ExtractReferenceNumber L g ctx raw = Inr refNo" for refNo
    using that by (auto simp: ExtractReferenceNumber_def assms validateRefNoOnly_def validateRefNoValue_iff isANS_def Suc_le_eq
      split: list.splits if_splits lit_json.splits)
  with r k d show ?thesis by (fastforce simp: checked_request_def checked_item_def Suc_le_eq dest: nb)
qed

text \<open>
  Only the configured GovPay+ client passes, and a gateway that has none configured does not call
  the caller invalid.
\<close>

lemma VerifyWebhook_iff:
  "VerifyWebhook g ctx = None \<longleftrightarrow>
     gw_client g \<noteq> [] \<and> (\<exists>p. cc_caller ctx = Some p \<and> pr_kind p = KindClient \<and> pr_client_id p = gw_client g)"
  "VerifyWebhook g ctx = Some e \<Longrightarrow> verification_failed e \<longleftrightarrow> gw_client g \<noteq> []"
  by (auto simp: VerifyWebhook_def split: option.splits if_splits)

text \<open>Without a lookup, on a lookup's error and with an incomplete mapping, no notification passes.\<close>

definition paid_to_its_payee :: "string \<Rightarrow> govPayRequest \<Rightarrow> payee_lookup option \<Rightarrow> bool" where
  "paid_to_its_payee refNo req payees \<longleftrightarrow>
     (\<exists>find_payee. payees = Some find_payee \<and>
        (find_payee refNo = Inr None \<or>
         (\<exists>mapping i. find_payee refNo = Inr (Some mapping) \<and> parseIdentity mapping = Inr i \<and>
            EqualFold (trim_space (gr_subinst req)) (gi_subinst i) \<and> EqualFold (trim_space (gr_service req)) (gi_service i))))"

lemma verifyWebhookIdentity_iff: "verifyWebhookIdentity refNo req payees = None \<longleftrightarrow> paid_to_its_payee refNo req payees"
  by (auto simp: verifyWebhookIdentity_def identity_match_def paid_to_its_payee_def split: option.splits sum.splits if_splits)

end
