(* ===== verification/Decimals.thy ===== *)
theory Decimals
  imports NSW_Prelude
begin

text \<open>
  The decimal library (shopspring/decimal) the payment code computes amounts with, a parameter:
  reading and writing, the value a decimal stands for, and rounding to two places. What the
  code relies on is \<open>decimals_ok\<close>: a text written from a decimal reads back as one of its value,
  and rounding gives the nearest value with two places.
\<close>

record 'd decimals =
  dc_parse :: "string \<Rightarrow> 'd option"
  dc_of_float :: "rat \<Rightarrow> 'd"
  dc_text :: "'d \<Rightarrow> string"
  dc_text2 :: "'d \<Rightarrow> string"
  dc_round2 :: "'d \<Rightarrow> 'd"
  dc_value :: "'d \<Rightarrow> rat"

definition decimals_ok :: "'d decimals \<Rightarrow> bool" where
  "decimals_ok D \<longleftrightarrow>
     (\<forall>d. dc_text D d \<noteq> [] \<and> set (dc_text D d) \<subseteq> set ''0123456789.-'') \<and>
     (\<forall>d. \<exists>d'. dc_parse D (dc_text D d) = Some d' \<and> dc_value D d' = dc_value D d) \<and>
     (\<forall>d. dc_value D (dc_round2 D d) * 100 \<in> \<int> \<and> \<bar>dc_value D (dc_round2 D d) - dc_value D d\<bar> \<le> 1 / 200)"

lemma not_a_space: "c \<in> set ''0123456789.-'' \<Longrightarrow> p \<in> set go_spaces \<Longrightarrow> p \<noteq> [] \<and> hd p \<noteq> c \<and> hd (rev p) \<noteq> c"
proof -
  have "list_all (\<lambda>p. p \<noteq> [] \<and> list_all (\<lambda>c. hd p \<noteq> c \<and> hd (rev p) \<noteq> c) ''0123456789.-'') go_spaces" by code_simp
  then show "c \<in> set ''0123456789.-'' \<Longrightarrow> p \<in> set go_spaces \<Longrightarrow> p \<noteq> [] \<and> hd p \<noteq> c \<and> hd (rev p) \<noteq> c"
    unfolding list_all_iff by blast
qed

lemma strip_front_same:
  assumes "\<And>p. p \<in> set seqs \<Longrightarrow> p \<noteq> [] \<and> hd p \<noteq> c"
  shows "strip_front n seqs (c # s) = c # s"
proof -
  have "\<not> has_prefix p (c # s)" if "p \<in> set seqs" for p using assms [OF that] by (cases p) auto
  then have "List.find (\<lambda>p. has_prefix p (c # s)) seqs = None" by (auto simp: find_None_iff)
  then show ?thesis by (cases n) simp_all
qed

lemma trim_space_same:
  assumes "set s \<subseteq> set ''0123456789.-''"
  shows "trim_space s = s"
proof (cases s)
  case (Cons c t)
  have l: "trim_left s = s" unfolding trim_left_def Cons
    by (rule strip_front_same) (use assms Cons not_a_space in auto)
  obtain d u where d: "rev s = d # u" using Cons by (cases "rev s") auto
  then have "d \<in> set s" by (metis list.set_intros(1) set_rev)
  then have "strip_front (length s) (map rev go_spaces) (d # u) = d # u"
    by (intro strip_front_same) (use assms not_a_space in auto)
  then have "trim_right s = s" by (simp add: trim_right_def d [symmetric])
  with l show ?thesis by (simp add: trim_space_def)
qed simp

lemma decimal_text:
  assumes "decimals_ok D"
  shows "trim_space (dc_text D d) = dc_text D d" and "dc_text D d \<noteq> []" and "set (dc_text D d) \<subseteq> set ''0123456789.-''"
  using assms trim_space_same [of "dc_text D d"] by (simp_all add: decimals_ok_def)

lemma decimal_reads: "decimals_ok D \<Longrightarrow> \<exists>d'. dc_parse D (dc_text D d) = Some d' \<and> dc_value D d' = dc_value D d"
  unfolding decimals_ok_def by blast

lemma two_places:
  assumes "decimals_ok D"
  shows "dc_value D (dc_round2 D d) = dc_value D d \<longleftrightarrow> dc_value D d * 100 \<in> \<int>"
proof
  assume "dc_value D d * 100 \<in> \<int>"
  then obtain i where i: "dc_value D d * 100 = of_int i" by (auto elim: Ints_cases)
  from assms have r: "dc_value D (dc_round2 D d) * 100 \<in> \<int>" "\<bar>dc_value D (dc_round2 D d) - dc_value D d\<bar> \<le> 1 / 200"
    by (auto simp: decimals_ok_def)
  from r(1) obtain j where j: "dc_value D (dc_round2 D d) * 100 = of_int j" by (auto elim: Ints_cases)
  have "\<bar>of_int j - of_int i :: rat\<bar> = 100 * \<bar>dc_value D (dc_round2 D d) - dc_value D d\<bar>" by (simp add: i [symmetric] j [symmetric] abs_if)
  also have "\<dots> \<le> 1 / 2" using r(2) by simp
  finally have "\<bar>of_int (j - i) :: rat\<bar> < 1" by simp
  then have "j = i" by linarith
  with i j show "dc_value D (dc_round2 D d) = dc_value D d" by simp
next
  assume "dc_value D (dc_round2 D d) = dc_value D d"
  with assms show "dc_value D d * 100 \<in> \<int>" by (metis decimals_ok_def)
qed

text \<open>Whole numbers, a library that keeps the contract.\<close>

definition demo_decimals :: "nat decimals" where
  "demo_decimals = \<lparr>dc_parse = digits_value 0, dc_of_float = (\<lambda>r. nat \<lfloor>r\<rfloor>), dc_text = show_nat, dc_text2 = (\<lambda>n. show_nat n @ ''.00''),
     dc_round2 = id, dc_value = of_nat\<rparr>"

lemma demo_decimals_ok: "decimals_ok demo_decimals"
proof -
  have "c \<in> set ''0123456789.-''" if "of_char c \<in> {48..(57 :: nat)}" for c
  proof -
    have "{48..(57 :: nat)} = set [48, 49, 50, 51, 52, 53, 54, 55, 56, 57]" by (auto; arith)
    then have "of_char c \<in> set [48, 49, 50, 51, 52, 53, 54, 55, 56, 57 :: nat]" using that by simp
    then have "char_of (of_char c :: nat) \<in> char_of ` set [48, 49, 50, 51, 52, 53, 54, 55, 56, 57 :: nat]" by (rule imageI)
    moreover have "list_all (\<lambda>n. char_of n \<in> set ''0123456789.-'') [48, 49, 50, 51, 52, 53, 54, 55, 56, 57 :: nat]" by code_simp
    ultimately show ?thesis unfolding list_all_iff char_of_char by blast
  qed
  then have "set (show_nat n) \<subseteq> set ''0123456789.-''" for n using show_nat_digits [of _ n] by blast
  then show ?thesis by (simp add: decimals_ok_def demo_decimals_def digits_value_show)
qed

end
