(* ===== verification/Govpay_Gateway.thy ===== *)
theory Govpay_Gateway
  imports Govpay_Requests Decimals
begin

text \<open>
  \<open>external-integration/payment/govpay\<close>, what goes out: the presentment answer (\<open>validate.go\<close>) and the
  settlement a notification is parsed into with its receipt (\<open>webhook.go\<close>), every text of which is
  encrypted under the call's key (\<open>encryptResponseObjects\<close>). A transaction is what core's payment
  service passes in; amounts are the decimal library's.
\<close>

subsection \<open>Values a response is made of\<close>

text \<open>
  What reflection sees of a response object: a string, a slice, a struct with its exported
  fields (JSON name, \<open>omitempty\<close>, value), a pointer. \<open>encryptStrings\<close> replaces every string.
\<close>

datatype go_value =
    GStr string
  | GSlice "go_value list"
  | GStruct "(string \<times> bool \<times> go_value) list"
  | GPtr "go_value option"

function (sequential) encryptStrings :: "'k gov_crypto \<Rightarrow> bytes \<Rightarrow> go_value \<Rightarrow> crypt_error + go_value"
  and encrypt_elements :: "'k gov_crypto \<Rightarrow> bytes \<Rightarrow> go_value list \<Rightarrow> crypt_error + go_value list"
  and encrypt_fields :: "'k gov_crypto \<Rightarrow> bytes \<Rightarrow> (string \<times> bool \<times> go_value) list \<Rightarrow> crypt_error + (string \<times> bool \<times> go_value) list" where
  "encryptStrings L key (GStr s) = (case aesCBCEncrypt L key s of Inl e \<Rightarrow> Inl e | Inr c \<Rightarrow> Inr (GStr c))"
| "encryptStrings L key (GSlice vs) = (case encrypt_elements L key vs of Inl e \<Rightarrow> Inl e | Inr ws \<Rightarrow> Inr (GSlice ws))"
| "encryptStrings L key (GStruct fs) = (case encrypt_fields L key fs of Inl e \<Rightarrow> Inl e | Inr gs \<Rightarrow> Inr (GStruct gs))"
| "encryptStrings L key (GPtr None) = Inr (GPtr None)"
| "encryptStrings L key (GPtr (Some v)) = (case encryptStrings L key v of Inl e \<Rightarrow> Inl e | Inr w \<Rightarrow> Inr (GPtr (Some w)))"
| "encrypt_elements L key [] = Inr []"
| "encrypt_elements L key (v # vs) =
     (case encryptStrings L key v of
        Inl e \<Rightarrow> Inl e
      | Inr w \<Rightarrow> (case encrypt_elements L key vs of Inl e \<Rightarrow> Inl e | Inr ws \<Rightarrow> Inr (w # ws)))"
| "encrypt_fields L key [] = Inr []"
| "encrypt_fields L key ((n, omit, v) # fs) =
     (case encryptStrings L key v of
        Inl e \<Rightarrow> Inl e
      | Inr w \<Rightarrow> (case encrypt_fields L key fs of Inl e \<Rightarrow> Inl e | Inr gs \<Rightarrow> Inr ((n, omit, w) # gs)))"
  by pat_completeness auto
termination by size_change

definition encryptResponseObjects :: "'k gov_crypto \<Rightarrow> bytes \<Rightarrow> go_value list \<Rightarrow> crypt_error + go_value list" where
  "encryptResponseObjects L key objs = encrypt_elements L key objs"

text \<open>\<open>json.Marshal\<close> of such a value.\<close>

definition empty_value :: "go_value \<Rightarrow> bool" where
  "empty_value v \<longleftrightarrow> v = GStr [] \<or> v = GSlice [] \<or> v = GPtr None"

fun marshal :: "go_value \<Rightarrow> json" where
  "marshal (GStr s) = JStr s"
| "marshal (GSlice vs) = JArr (map marshal vs)"
| "marshal (GStruct fs) = JObj (map (\<lambda>(n, omit, v). (n, marshal v)) (filter (\<lambda>(n, omit, v). \<not> (omit \<and> empty_value v)) fs))"
| "marshal (GPtr None) = JNull"
| "marshal (GPtr (Some v)) = marshal v"

subsection \<open>Presentment\<close>

record table_cell =
  tc_type :: string
  tc_value :: string
  tc_enabled :: string

record table_data =
  td_header :: "table_cell list"
  td_rows :: "table_cell list"

record presentment_object =
  po_type :: string
  po_seq :: string
  po_id :: string
  po_placeholder :: string
  po_initial :: string
  po_datatype :: string
  po_max_length :: string
  po_selection :: string
  po_mask :: string
  po_not_null :: string
  po_enabled :: string
  po_returned :: string
  po_rows :: string
  po_cols :: string
  po_return_param :: string
  po_is_reference :: string
  po_is_amount :: string
  po_return_value :: string
  po_combo :: "(string \<times> string) list"
  po_table :: "table_data option"

definition header_value :: "table_cell \<Rightarrow> go_value" where
  "header_value c = GStruct [(''dataType'', True, GStr (tc_type c)), (''value'', False, GStr (tc_value c)), (''enabled'', True, GStr (tc_enabled c))]"

definition row_value :: "table_cell \<Rightarrow> go_value" where
  "row_value c = GStruct [(''dataType'', False, GStr (tc_type c)), (''value'', False, GStr (tc_value c)), (''enabled'', False, GStr (tc_enabled c))]"

definition table_value :: "table_data option \<Rightarrow> go_value" where
  "table_value t = GPtr (case t of None \<Rightarrow> None
     | Some d \<Rightarrow> Some (GStruct [(''header'', False, GSlice (map header_value (td_header d))), (''rowData'', False, GSlice (map row_value (td_rows d)))]))"

definition combo_value :: "string \<times> string \<Rightarrow> go_value" where
  "combo_value c = GStruct [(''id'', False, GStr (fst c)), (''data'', False, GStr (snd c))]"

definition presentment_value :: "presentment_object \<Rightarrow> go_value" where
  "presentment_value p = GStruct
     [(''objType'', False, GStr (po_type p)), (''seq'', False, GStr (po_seq p)), (''id'', False, GStr (po_id p)),
      (''placeholder'', False, GStr (po_placeholder p)), (''initialValue'', False, GStr (po_initial p)),
      (''datatype'', False, GStr (po_datatype p)), (''maxLength'', False, GStr (po_max_length p)),
      (''selectionType'', False, GStr (po_selection p)), (''mask'', False, GStr (po_mask p)), (''notNull'', False, GStr (po_not_null p)),
      (''enabled'', False, GStr (po_enabled p)), (''returned'', False, GStr (po_returned p)), (''rows'', False, GStr (po_rows p)),
      (''cols'', False, GStr (po_cols p)), (''returnedParam'', False, GStr (po_return_param p)),
      (''isPaymentReference'', True, GStr (po_is_reference p)), (''isPaymentAmount'', True, GStr (po_is_amount p)),
      (''returnedValue'', False, GStr (po_return_value p)), (''objData'', True, GSlice (map combo_value (po_combo p))),
      (''tableData'', True, table_value (po_table p))]"

definition boolToFlag :: "bool \<Rightarrow> string" where
  "boolToFlag b = (if b then ''true'' else ''false'')"

text \<open>\<open>%03d%04d\<close> of a number twice.\<close>

definition zero_pad :: "nat \<Rightarrow> nat \<Rightarrow> string" where
  "zero_pad width n = replicate (width - length (show_nat n)) CHR ''0'' @ show_nat n"

definition object_id :: "nat \<Rightarrow> string" where
  "object_id n = zero_pad 3 n @ zero_pad 4 n"

definition newPresentmentObject ::
    "nat \<Rightarrow> string \<Rightarrow> string \<Rightarrow> string \<Rightarrow> string \<Rightarrow> nat \<Rightarrow> bool \<Rightarrow> bool \<Rightarrow> string \<Rightarrow> bool \<Rightarrow> bool \<Rightarrow> presentment_object" where
  "newPresentmentObject seq objType placeholder initialValue dataType maxLength enabled returned returnParam isPaymentReference isPaymentAmount =
     \<lparr>po_type = objType, po_seq = show_nat seq, po_id = object_id seq, po_placeholder = placeholder, po_initial = initialValue,
      po_datatype = dataType, po_max_length = show_nat maxLength, po_selection = ''SINGLE'', po_mask = [], po_not_null = ''true'',
      po_enabled = boolToFlag enabled, po_returned = boolToFlag returned, po_rows = ''1'', po_cols = ''1'', po_return_param = returnParam,
      po_is_reference = boolToFlag isPaymentReference, po_is_amount = boolToFlag isPaymentAmount, po_return_value = [], po_combo = [],
      po_table = None\<rparr>"

text \<open>core's view of the transaction a reference names, with its payee's mapping.\<close>

record 'd validation_transaction =
  vt_reference :: string
  vt_amount :: 'd
  vt_currency :: string
  vt_mapping :: raw_message

definition buildPresentmentData :: "'d decimals \<Rightarrow> 'd validation_transaction \<Rightarrow> presentment_object list" where
  "buildPresentmentData D tx =
     (let objects =
        [newPresentmentObject 1 ''label'' ''Reference Number'' (vt_reference tx) ''text'' refNoMaxLength False True ''refNo'' True False,
         newPresentmentObject 2 ''textBox'' ''Amount To Be Paid'' (dc_text D (vt_amount tx)) ''decimal'' 13 False True ''amount'' False True]
      in if \<not> blank (vt_currency tx)
         then objects @ [newPresentmentObject (length objects + 1) ''label'' ''Currency'' (vt_currency tx) ''text'' 8 False True ''currency'' False False]
         else objects)"

definition error_response :: "string \<Rightarrow> string \<Rightarrow> json" where
  "error_response code message = JObj [(''error'', JStr code), (''message'', JStr message)]"

definition echoed :: "govPayRequest \<Rightarrow> (string \<times> json) list" where
  "echoed req = [(''transactionID'', JStr (gr_transaction req)), (''subinstId'', JStr (gr_subinst req)), (''serviceid'', JStr (gr_service req)),
     (''serviceName'', JStr (gr_service_name req)), (''message'', JStr ''Success'')]"

text \<open>The answer with its HTTP status. \<open>tx\<close> is \<open>None\<close> for a reference core does not know.\<close>

definition HandleValidateReference ::
    "'k gov_crypto \<Rightarrow> 'd decimals \<Rightarrow> 'k gateway \<Rightarrow> call_context \<Rightarrow> 'd validation_transaction option \<Rightarrow> bool \<Rightarrow> lit_json option \<Rightarrow> gov_error + json \<times> nat" where
  "HandleValidateReference L D g ctx tx isPayable raw =
     (case decryptRequest L g ctx raw of
        Inl e \<Rightarrow> Inl e
      | Inr (req, aesKey) \<Rightarrow>
     (case tx of
        None \<Rightarrow> Inr (error_response ''invalid_reference'' ''invalid reference number'', 404)
      | Some t \<Rightarrow>
     (case parseIdentity (vt_mapping t) of
        Inl _ \<Rightarrow> Inr (error_response ''configuration_error'' ''this service is not configured for GovPay payments'', 500)
      | Inr i \<Rightarrow>
     (case identity_match i (gr_subinst req) (gr_service req) of
        Some _ \<Rightarrow> Inr (error_response ''invalid_reference'' ''invalid reference number'', 404)
      | None \<Rightarrow>
          if \<not> isPayable
          then Inr (error_response ''not_payable'' ''payment already completed, expired, or otherwise not payable for this reference number'', 409)
          else case encryptResponseObjects L aesKey (map presentment_value (buildPresentmentData D t)) of
            Inl e \<Rightarrow> Inl (NotEncrypted e)
          | Inr objs \<Rightarrow> Inr (JObj (echoed req @ [(''presentmentData'', JArr (map marshal objs))]), 200)))))"

subsection \<open>Settlement\<close>

record payment_item =
  pi_seq :: string
  pi_id :: string
  pi_placeholder :: string
  pi_initial :: string
  pi_datatype :: string

text \<open>A receipt item's other fields are the same for all.\<close>

definition payment_value :: "payment_item \<Rightarrow> go_value" where
  "payment_value p = GStruct
     [(''objType'', False, GStr ''label''), (''seq'', False, GStr (pi_seq p)), (''id'', False, GStr (pi_id p)),
      (''placeholder'', False, GStr (pi_placeholder p)), (''initialValue'', False, GStr (pi_initial p)),
      (''datatype'', False, GStr (pi_datatype p)), (''maxLength'', False, GStr ''50''),
      (''selectionType'', False, GStr ''SINGLE''), (''mask'', False, GStr []), (''notNull'', False, GStr ''true''),
      (''enabled'', False, GStr ''false''), (''returned'', False, GStr ''false''), (''rows'', False, GStr ''1''),
      (''cols'', False, GStr ''1''), (''returnedParam'', False, GStr []), (''returnedValue'', False, GStr []), (''tableData'', True, GPtr None)]"

definition newPaymentItem :: "nat \<Rightarrow> string \<Rightarrow> string \<Rightarrow> string \<Rightarrow> string \<Rightarrow> payment_item" where
  "newPaymentItem idx seq placeholder initialValue dataType =
     \<lparr>pi_seq = seq, pi_id = object_id idx, pi_placeholder = placeholder, pi_initial = initialValue, pi_datatype = dataType\<rparr>"

definition valueDataType :: "lit_json \<Rightarrow> string" where
  "valueDataType v = (case v of LNum _ \<Rightarrow> ''decimal'' | _ \<Rightarrow> ''text'')"

definition echoed_item :: "(lit_json \<Rightarrow> string) \<Rightarrow> nat \<Rightarrow> govPayParam \<Rightarrow> payment_item" where
  "echoed_item format i p =
     (let seq = (if blank (gp_seq p) then show_nat (i + 1) else trim_space (gp_seq p));
          paramName = (if blank (gp_name p) then ''param_'' @ show_nat (i + 1) else trim_space (gp_name p))
      in newPaymentItem (i + 1) seq paramName (paramValueString format (gp_value p)) (valueDataType (gp_value p)))"

definition buildPaymentData :: "(lit_json \<Rightarrow> string) \<Rightarrow> govPayParam list \<Rightarrow> string \<Rightarrow> payment_item list" where
  "buildPaymentData format ps transactionID =
     (let n = length ps in
      map (\<lambda>(i, p). echoed_item format i p) (enumerate 0 ps) @
      [newPaymentItem (n + 1) (show_nat (n + 1)) ''Receipt Number'' (''REC-'' @ transactionID) ''text'',
       newPaymentItem (n + 2) (show_nat (n + 2)) ''Status'' ''Payment recorded'' ''text''])"

record 'd webhook_payload =
  wp_reference :: string
  wp_success :: bool
  wp_method :: string
  wp_gateway_id :: string
  wp_currency :: string
  wp_timestamp :: string
  wp_amount :: "'d option"

definition paramDecimal :: "'d decimals \<Rightarrow> lit_json \<Rightarrow> 'd option" where
  "paramDecimal D v = (case v of LStr s \<Rightarrow> dc_parse D (trim_space s) | LNum literal \<Rightarrow> dc_parse D literal | _ \<Rightarrow> None)"

text \<open>The payload core settles by, and the acknowledgement relayed with status 200; no amount item leaves the amount unset.\<close>

definition ParseWebhook ::
    "'k gov_crypto \<Rightarrow> 'd decimals \<Rightarrow> (lit_json \<Rightarrow> string) \<Rightarrow> 'k gateway \<Rightarrow> call_context \<Rightarrow> lit_json option \<Rightarrow> payee_lookup option \<Rightarrow>
       gov_error + 'd webhook_payload \<times> json" where
  "ParseWebhook L D format g ctx raw payees =
     (case decryptRequest L g ctx raw of
        Inl e \<Rightarrow> Inl e
      | Inr (req, aesKey) \<Rightarrow>
     (let params = indexParams (gr_data req);
          refNoValue = (case map_of params ''refno'' of Some p \<Rightarrow> (case gp_value p of LStr s \<Rightarrow> s | _ \<Rightarrow> []) | None \<Rightarrow> [])
      in
     (case validateRefNoValue refNoValue of
        Inl e \<Rightarrow> Inl (InvalidRefNo e)
      | Inr refNo \<Rightarrow>
     (case verifyWebhookIdentity refNo req payees of
        Some e \<Rightarrow> Inl e
      | None \<Rightarrow>
     (case (case map_of params ''amount'' of
              None \<Rightarrow> Inr None
            | Some p \<Rightarrow> (case paramDecimal D (gp_value p) of None \<Rightarrow> Inl InvalidAmount | Some a \<Rightarrow> Inr (Some a))) of
        Inl e \<Rightarrow> Inl e
      | Inr amount \<Rightarrow>
     (case encryptResponseObjects L aesKey (map payment_value (buildPaymentData format (gr_data req) (gr_transaction req))) of
        Inl e \<Rightarrow> Inl (NotEncrypted e)
      | Inr objs \<Rightarrow>
          Inr (\<lparr>wp_reference = refNo, wp_success = True, wp_method = stringParam format params ''paymentmethod'',
                wp_gateway_id = firstNonEmpty [stringParam format params ''gatewaytransactionid'', gr_transaction req],
                wp_currency = stringParam format params ''currency'', wp_timestamp = stringParam format params ''timestamp'',
                wp_amount = amount\<rparr>,
               JObj (echoed req @ [(''paymentData'', JArr (map marshal objs))]))))))))"

subsection \<open>Reading an answer\<close>

text \<open>What GovPay+ does with the objects of an answer: every text decrypted under the key it sent.\<close>

function (sequential) read_encrypted :: "'k gov_crypto \<Rightarrow> bytes \<Rightarrow> json \<Rightarrow> json option"
  and read_elements :: "'k gov_crypto \<Rightarrow> bytes \<Rightarrow> json list \<Rightarrow> json list option"
  and read_members :: "'k gov_crypto \<Rightarrow> bytes \<Rightarrow> (string \<times> json) list \<Rightarrow> (string \<times> json) list option" where
  "read_encrypted L key (JStr c) = (case aesCBCDecrypt L key c of Inl e \<Rightarrow> None | Inr s \<Rightarrow> Some (JStr s))"
| "read_encrypted L key (JArr vs) = map_option JArr (read_elements L key vs)"
| "read_encrypted L key (JObj kvs) = map_option JObj (read_members L key kvs)"
| "read_encrypted L key v = Some v"
| "read_elements L key [] = Some []"
| "read_elements L key (v # vs) =
     (case (read_encrypted L key v, read_elements L key vs) of (Some w, Some ws) \<Rightarrow> Some (w # ws) | _ \<Rightarrow> None)"
| "read_members L key [] = Some []"
| "read_members L key ((k, v) # kvs) =
     (case (read_encrypted L key v, read_members L key kvs) of (Some w, Some ws) \<Rightarrow> Some ((k, w) # ws) | _ \<Rightarrow> None)"
  by pat_completeness auto
termination by size_change

text \<open>No empty text is in a field that leaves it out, so encryption leaves the object's shape.\<close>

fun shape_kept :: "go_value \<Rightarrow> bool" where
  "shape_kept (GStr s) = True"
| "shape_kept (GSlice vs) = (\<forall>v \<in> set vs. shape_kept v)"
| "shape_kept (GStruct fs) = (\<forall>(n, omit, v) \<in> set fs. \<not> (omit \<and> v = GStr []) \<and> shape_kept v)"
| "shape_kept (GPtr None) = True"
| "shape_kept (GPtr (Some v)) = shape_kept v"

lemma encrypted_not_empty: "crypto_ok L \<Longrightarrow> length key = 32 \<Longrightarrow> aesCBCEncrypt L key s = Inr c \<Longrightarrow> c \<noteq> []"
  using aes_round_trip [of L key s]
  by (auto simp: aesCBCDecrypt_def DecodeString_def newCBC_def aesKeyLen_def split: sum.splits)

lemma encrypted_reads_back:
  shows "crypto_ok L \<Longrightarrow> length key = 32 \<Longrightarrow> shape_kept v \<Longrightarrow>
      \<exists>w. encryptStrings L key v = Inr w \<and> read_encrypted L key (marshal w) = Some (marshal v) \<and> (v \<noteq> GStr [] \<longrightarrow> empty_value w = empty_value v)"
    and "crypto_ok L \<Longrightarrow> length key = 32 \<Longrightarrow> \<forall>v \<in> set vs. shape_kept v \<Longrightarrow>
      \<exists>ws. encrypt_elements L key vs = Inr ws \<and> length ws = length vs \<and> read_elements L key (map marshal ws) = Some (map marshal vs)"
    and "crypto_ok L \<Longrightarrow> length key = 32 \<Longrightarrow> \<forall>(n, omit, v) \<in> set fs. \<not> (omit \<and> v = GStr []) \<and> shape_kept v \<Longrightarrow>
      \<exists>gs. encrypt_fields L key fs = Inr gs \<and>
      read_members L key (map (\<lambda>(n, omit, v). (n, marshal v)) (filter (\<lambda>(n, omit, v). \<not> (omit \<and> empty_value v)) gs)) =
      Some (map (\<lambda>(n, omit, v). (n, marshal v)) (filter (\<lambda>(n, omit, v). \<not> (omit \<and> empty_value v)) fs))"
proof (induction L key v and L key vs and L key fs rule: encryptStrings_encrypt_elements_encrypt_fields.induct)
  case (1 L key s)
  obtain c where c: "aesCBCEncrypt L key s = Inr c" "aesCBCDecrypt L key c = Inr s" using aes_round_trip [OF 1(1,2)] by blast
  then show ?case using encrypted_not_empty [OF 1(1,2) c(1)] by (simp add: empty_value_def)
next
  case (2 L key vs)
  then obtain ws where ws: "encrypt_elements L key vs = Inr ws" "length ws = length vs" "read_elements L key (map marshal ws) = Some (map marshal vs)" by auto
  have "empty_value (GSlice ws) = empty_value (GSlice vs)" using ws(2) by (auto simp: empty_value_def)
  then show ?case using ws by simp
next
  case (3 L key fs)
  then show ?case by (fastforce simp: empty_value_def)
next
  case (4 L key)
  then show ?case by (simp add: empty_value_def)
next
  case (5 L key v)
  then show ?case by (fastforce simp: empty_value_def)
next
  case (6 L key)
  then show ?case by simp
next
  case (7 L key v vs)
  then obtain w where "encryptStrings L key v = Inr w" "read_encrypted L key (marshal w) = Some (marshal v)" by auto
  with 7 show ?case by fastforce
next
  case (8 L key)
  then show ?case by simp
next
  case (9 L key n omit v fs)
  then obtain w where w: "encryptStrings L key v = Inr w" "read_encrypted L key (marshal w) = Some (marshal v)"
    "v \<noteq> GStr [] \<longrightarrow> empty_value w = empty_value v" by auto
  moreover have "\<not> (omit \<and> v = GStr [])" using 9(5) by auto
  moreover from 9 w obtain gs where "encrypt_fields L key fs = Inr gs"
    "read_members L key (map (\<lambda>(n, omit, v). (n, marshal v)) (filter (\<lambda>(n, omit, v). \<not> (omit \<and> empty_value v)) gs)) =
      Some (map (\<lambda>(n, omit, v). (n, marshal v)) (filter (\<lambda>(n, omit, v). \<not> (omit \<and> empty_value v)) fs))" by auto
  ultimately show ?case by (cases omit) auto
qed

lemma presentment_shape: "po_is_reference p \<noteq> [] \<Longrightarrow> po_is_amount p \<noteq> [] \<Longrightarrow> po_combo p = [] \<Longrightarrow> po_table p = None \<Longrightarrow> shape_kept (presentment_value p)"
  by (simp add: presentment_value_def table_value_def)

lemma built_shape: "p \<in> set (buildPresentmentData D tx) \<Longrightarrow> shape_kept (presentment_value p)"
  by (intro presentment_shape) (auto simp: buildPresentmentData_def newPresentmentObject_def boolToFlag_def Let_def split: if_splits)

lemma payment_shape: "shape_kept (payment_value p)"
  by (simp add: payment_value_def)

lemma presentment_encrypts:
  assumes "crypto_ok L" "length key = 32"
  obtains objs where "encryptResponseObjects L key (map presentment_value (buildPresentmentData D t)) = Inr objs"
    "read_encrypted L key (JArr (map marshal objs)) = Some (JArr (map (marshal \<circ> presentment_value) (buildPresentmentData D t)))"
  using encrypted_reads_back(2) [OF assms, of "map presentment_value (buildPresentmentData D t)"] built_shape
  by (auto simp: encryptResponseObjects_def)

lemma payment_encrypts:
  assumes "crypto_ok L" "length key = 32"
  obtains objs where "encryptResponseObjects L key (map payment_value items) = Inr objs"
  using encrypted_reads_back(2) [OF assms, of "map payment_value items"] payment_shape by (auto simp: encryptResponseObjects_def)

subsection \<open>What a caller learns\<close>

lemma presented_transaction:
  assumes "crypto_ok L" and "decryptRequest L g ctx raw = Inr (req, key)" and "parseIdentity (vt_mapping t) = Inr i"
    and "identity_match i (gr_subinst req) (gr_service req) = None"
  obtains objs where
    "HandleValidateReference L D g ctx (Some t) True raw = Inr (JObj (echoed req @ [(''presentmentData'', JArr (map marshal objs))]), 200)"
    "read_encrypted L key (JArr (map marshal objs)) = Some (JArr (map (marshal \<circ> presentment_value) (buildPresentmentData D t)))"
    "encryptResponseObjects L key (map presentment_value (buildPresentmentData D t)) = Inr objs"
proof -
  have "length key = 32" using assms(2) transactionKey_length [of L g ctx key] unfolding decrypted_request by auto
  then obtain objs where o: "encryptResponseObjects L key (map presentment_value (buildPresentmentData D t)) = Inr objs"
    "read_encrypted L key (JArr (map marshal objs)) = Some (JArr (map (marshal \<circ> presentment_value) (buildPresentmentData D t)))"
    by (rule presentment_encrypts [OF assms(1)])
  moreover have "HandleValidateReference L D g ctx (Some t) True raw = Inr (JObj (echoed req @ [(''presentmentData'', JArr (map marshal objs))]), 200)"
    by (simp add: HandleValidateReference_def assms(2-4) o(1))
  ultimately show ?thesis using that by blast
qed

lemma shown_transaction:
  assumes "crypto_ok L" and "decryptRequest L g ctx raw = Inr (req, key)" and "HandleValidateReference L D g ctx (Some t) payable raw = Inr (JObj answer, 200)"
  shows "\<exists>i objs. parseIdentity (vt_mapping t) = Inr i \<and> identity_match i (gr_subinst req) (gr_service req) = None \<and>
    answer = echoed req @ [(''presentmentData'', JArr (map marshal objs))] \<and>
    read_encrypted L key (JArr (map marshal objs)) = Some (JArr (map (marshal \<circ> presentment_value) (buildPresentmentData D t)))"
proof -
  from assms(3) obtain i where i: "parseIdentity (vt_mapping t) = Inr i" "identity_match i (gr_subinst req) (gr_service req) = None" and p: payable
    by (auto simp: HandleValidateReference_def assms(2) split: sum.splits option.splits if_splits)
  obtain objs where "HandleValidateReference L D g ctx (Some t) True raw = Inr (JObj (echoed req @ [(''presentmentData'', JArr (map marshal objs))]), 200)"
    "read_encrypted L key (JArr (map marshal objs)) = Some (JArr (map (marshal \<circ> presentment_value) (buildPresentmentData D t)))"
    by (rule presented_transaction [OF assms(1,2) i])
  moreover from this(1) assms(3) p have "answer = echoed req @ [(''presentmentData'', JArr (map marshal objs))]" by simp
  ultimately show ?thesis using i by blast
qed

text \<open>A presentment shows a transaction exactly when it is payable and the call's ids are those of its
  payee, and then in texts that the caller reads back, with the key it sent, as the reference, the
  amount and the currency; a call for another service gets, for every reference, the answer an
  unknown one gets.\<close>

theorem presentment_only_to_its_service:
  assumes "crypto_ok L" and "decryptRequest L g ctx raw = Inr (req, key)"
  shows "(\<forall>t payable i. parseIdentity (vt_mapping t) = Inr i \<longrightarrow> identity_match i (gr_subinst req) (gr_service req) \<noteq> None \<longrightarrow>
      HandleValidateReference L D g ctx (Some t) payable raw = HandleValidateReference L D g ctx None False raw) \<and>
    (\<forall>tx payable body. HandleValidateReference L D g ctx tx payable raw = Inr (body, 200) \<longleftrightarrow>
      (\<exists>t i objs. tx = Some t \<and> payable \<and> parseIdentity (vt_mapping t) = Inr i \<and> identity_match i (gr_subinst req) (gr_service req) = None \<and>
        body = JObj (echoed req @ [(''presentmentData'', JArr (map marshal objs))]) \<and>
        encryptResponseObjects L key (map presentment_value (buildPresentmentData D t)) = Inr objs \<and>
        read_encrypted L key (JArr (map marshal objs)) = Some (JArr (map (marshal \<circ> presentment_value) (buildPresentmentData D t)))))"
proof -
  have shown: "HandleValidateReference L D g ctx tx payable raw = Inr (body, 200) \<longleftrightarrow>
      (\<exists>t i objs. tx = Some t \<and> payable \<and> parseIdentity (vt_mapping t) = Inr i \<and> identity_match i (gr_subinst req) (gr_service req) = None \<and>
        body = JObj (echoed req @ [(''presentmentData'', JArr (map marshal objs))]) \<and>
        encryptResponseObjects L key (map presentment_value (buildPresentmentData D t)) = Inr objs \<and>
        read_encrypted L key (JArr (map marshal objs)) = Some (JArr (map (marshal \<circ> presentment_value) (buildPresentmentData D t))))" for tx payable body
  proof (cases tx)
    case (Some t)
    show ?thesis
    proof (cases "\<exists>i. parseIdentity (vt_mapping t) = Inr i \<and> identity_match i (gr_subinst req) (gr_service req) = None \<and> payable")
      case True
      then obtain i where i: "parseIdentity (vt_mapping t) = Inr i" "identity_match i (gr_subinst req) (gr_service req) = None" payable by blast
      obtain objs where o:
        "HandleValidateReference L D g ctx (Some t) True raw = Inr (JObj (echoed req @ [(''presentmentData'', JArr (map marshal objs))]), 200)"
        "read_encrypted L key (JArr (map marshal objs)) = Some (JArr (map (marshal \<circ> presentment_value) (buildPresentmentData D t)))"
        "encryptResponseObjects L key (map presentment_value (buildPresentmentData D t)) = Inr objs"
        by (rule presented_transaction [OF assms i(1,2)])
      with i Some show ?thesis by (simp del: read_encrypted.simps add: eq_commute [of _ body])
    next
      case False
      then have "HandleValidateReference L D g ctx tx payable raw \<noteq> Inr (body, 200)"
        by (cases "parseIdentity (vt_mapping t)") (auto simp: HandleValidateReference_def assms(2) Some split: option.splits)
      with False Some show ?thesis by blast
    qed
  qed (simp add: HandleValidateReference_def assms(2))
  have other: "HandleValidateReference L D g ctx (Some t) payable raw = HandleValidateReference L D g ctx None False raw"
    if "parseIdentity (vt_mapping t) = Inr i" "identity_match i (gr_subinst req) (gr_service req) \<noteq> None" for t payable i
    using that by (auto simp: HandleValidateReference_def assms(2))
  show ?thesis by (intro conjI allI impI) (erule (1) other, rule shown)
qed

subsection \<open>From presentment to settlement\<close>

text \<open>
  What GovPay+ posts once the payer has paid: the parameters the presentment marked as returned,
  with the values shown, encrypted under a key of the new call, for the same service.
\<close>

definition text_member :: "(string \<times> json) list \<Rightarrow> string \<Rightarrow> string" where
  "text_member kvs name = (case obj_get kvs name of Some (JStr s) \<Rightarrow> s | _ \<Rightarrow> [])"

fun returned_items :: "json list \<Rightarrow> (string \<times> string \<times> string) list" where
  "returned_items (JObj kvs # vs) =
     (if text_member kvs ''returned'' = ''true''
      then (text_member kvs ''seq'', text_member kvs ''returnedParam'', text_member kvs ''initialValue'') # returned_items vs
      else returned_items vs)"
| "returned_items (v # vs) = returned_items vs"
| "returned_items [] = []"

definition encrypted :: "'k gov_crypto \<Rightarrow> bytes \<Rightarrow> string \<Rightarrow> string" where
  "encrypted L key s = (case aesCBCEncrypt L key s of Inr c \<Rightarrow> c | Inl _ \<Rightarrow> [])"

definition sent_item :: "'k gov_crypto \<Rightarrow> bytes \<Rightarrow> string \<times> string \<times> string \<Rightarrow> lit_json" where
  "sent_item L key i = LObj [(''seq'', LStr (encrypted L key (fst i))), (''paramName'', LStr (encrypted L key (fst (snd i)))),
     (''value'', LStr (encrypted L key (snd (snd i))))]"

definition update_call :: "'k gov_crypto \<Rightarrow> bytes \<Rightarrow> govPayRequest \<Rightarrow> (string \<times> string \<times> string) list \<Rightarrow> lit_json option" where
  "update_call L key envelope items =
     Some (LObj [(''transactionID'', LStr (gr_transaction envelope)), (''subinstId'', LStr (gr_subinst envelope)),
       (''serviceid'', LStr (gr_service envelope)), (''serviceName'', LStr (gr_service_name envelope)),
       (''data'', LArr (map (sent_item L key) items))])"

definition plain_item :: "string \<times> string \<times> string \<Rightarrow> govPayParam" where
  "plain_item i = \<lparr>gp_seq = fst i, gp_name = fst (snd i), gp_value = LStr (snd (snd i))\<rparr>"

lemma plain_item_value [simp]: "gp_value (plain_item i) = LStr (snd (snd i))"
  by (simp add: plain_item_def)

lemma encrypted_decrypts: "crypto_ok L \<Longrightarrow> length key = 32 \<Longrightarrow> aesCBCDecrypt L key (encrypted L key s) = Inr s"
  using aes_round_trip [of L key s] by (auto simp: encrypted_def)

lemma decode_sent: "decode_param (sent_item L key i) =
    Some \<lparr>gp_seq = encrypted L key (fst i), gp_name = encrypted L key (fst (snd i)), gp_value = LStr (encrypted L key (snd (snd i)))\<rparr>"
proof -
  have "fold_name ''seq'' = ''seq''" "fold_name ''paramName'' = ''paramname''" "fold_name ''value'' = ''value''" by code_simp+
  then show ?thesis by (simp add: sent_item_def lit_field_def)
qed

lemma sent_items_decrypt:
  assumes "crypto_ok L" "length key = 32"
  shows "\<exists>ps. decode_params (LArr (map (sent_item L key) items)) = Some ps \<and> decryptParams L key ps = Inr (map plain_item items)"
proof (induction items)
  case (Cons i items)
  then obtain ps where "those (map decode_param (map (sent_item L key) items)) = Some ps" "decryptParams L key ps = Inr (map plain_item items)" by auto
  then show ?case by (simp add: decode_sent decrypt_param_def encrypted_decrypts [OF assms] plain_item_def)
qed simp

lemma update_call_read:
  assumes "crypto_ok L" "transactionKey L g ctx = Inr key" "checked_request envelope" "\<forall>i \<in> set items. checked_item (plain_item i)"
  shows "decryptRequest L g ctx (update_call L key envelope items) = Inr (envelope\<lparr>gr_data := map plain_item items\<rparr>, key)"
proof -
  have k: "length key = 32" using assms(2) by (rule transactionKey_length)
  obtain ps where ps: "decode_params (LArr (map (sent_item L key) items)) = Some ps" "decryptParams L key ps = Inr (map plain_item items)"
    using sent_items_decrypt [OF assms(1) k] by blast
  have "parseGovPayRequestHeaders
      [(''transactionID'', LStr (gr_transaction envelope)), (''subinstId'', LStr (gr_subinst envelope)),
       (''serviceid'', LStr (gr_service envelope)), (''serviceName'', LStr (gr_service_name envelope)),
       (''data'', LArr (map (sent_item L key) items))] = Inr (envelope\<lparr>gr_data := []\<rparr>)"
    using assms(3) by (simp add: parsed_headers)
  then have "parseGovPayRequest (update_call L key envelope items) = Inr (envelope\<lparr>gr_data := ps\<rparr>)"
    using ps(1) by (simp add: parseGovPayRequest_def update_call_def del: decode_params.simps)
  then show ?thesis using ps(2) assms(2,4) unfolding decrypted_request
    by (intro exI [of _ "envelope\<lparr>gr_data := ps\<rparr>"] exI [of _ "map plain_item items"]) simp
qed

definition payment_items :: "'d decimals \<Rightarrow> 'd validation_transaction \<Rightarrow> (string \<times> string \<times> string) list" where
  "payment_items D t = [(''1'', ''refNo'', vt_reference t), (''2'', ''amount'', dc_text D (vt_amount t))] @
     (if blank (vt_currency t) then [] else [(''3'', ''currency'', vt_currency t)])"

lemma returned_object:
  "returned_items (marshal (presentment_value p) # vs) =
     (if po_returned p = ''true'' then (po_seq p, po_return_param p, po_initial p) # returned_items vs else returned_items vs)"
  by (simp add: presentment_value_def empty_value_def text_member_def obj_get_def)

lemma small_numbers: "show_nat (Suc 0) = ''1''" "show_nat (Suc (Suc 0)) = ''2''" "show_nat 2 = ''2''" "show_nat (Suc (Suc (Suc 0))) = ''3''"
  by code_simp+

lemma returned_built: "returned_items (map (marshal \<circ> presentment_value) (buildPresentmentData D t)) = payment_items D t"
  by (auto simp: buildPresentmentData_def payment_items_def Let_def returned_object newPresentmentObject_def boolToFlag_def small_numbers)

lemma decimal_printable: "decimals_ok D \<Longrightarrow> \<not> blank (dc_text D d) \<and> isANS (dc_text D d)"
proof -
  assume D: "decimals_ok D"
  have "list_all (\<lambda>c. let n = of_char c :: nat in 32 \<le> n \<and> n \<le> 126) ''0123456789.-''" by code_simp
  then have "list_all (\<lambda>c. let n = of_char c :: nat in 32 \<le> n \<and> n \<le> 126) (dc_text D d)"
    using decimal_text(3) [OF D, of d] unfolding list_all_iff by blast
  then show ?thesis using decimal_text [OF D, of d] by (simp add: isANS_def blank_def)
qed

lemma payment_items_checked:
  assumes "decimals_ok D" and "\<not> blank (vt_reference t)" "isANS (vt_reference t)" "length (vt_reference t) \<le> 20"
    and "length (dc_text D (vt_amount t)) \<le> 50" and "blank (vt_currency t) \<or> isANS (vt_currency t) \<and> length (vt_currency t) \<le> 50"
  shows "\<forall>i \<in> set (payment_items D t). checked_item (plain_item i)"
proof -
  have "isANS ''refNo''" "isANS ''amount''" "isANS ''currency''" "\<not> blank ''refNo''" "\<not> blank ''amount''" "\<not> blank ''currency''"
    "digit CHR ''1''" "digit CHR ''2''" "digit CHR ''3''" by code_simp+
  then show ?thesis using assms decimal_printable [OF assms(1), of "vt_amount t"]
    by (auto simp: payment_items_def checked_item_def plain_item_def)
qed

lemma payment_items_index:
  "map_of (indexParams (map plain_item (payment_items D t))) =
     (if blank (vt_currency t) then Map.empty else [''currency'' \<mapsto> plain_item (''3'', ''currency'', vt_currency t)])
       (''refno'' \<mapsto> plain_item (''1'', ''refNo'', vt_reference t), ''amount'' \<mapsto> plain_item (''2'', ''amount'', dc_text D (vt_amount t)))"
proof -
  have "map lower_ascii (trim_space ''refNo'') = ''refno''" "map lower_ascii (trim_space ''amount'') = ''amount''"
    "map lower_ascii (trim_space ''currency'') = ''currency''" by code_simp+
  then show ?thesis by (auto simp: indexParams_def item_name_def payment_items_def plain_item_def fun_eq_iff)
qed

lemma update_parses:
  assumes L: "crypto_ok L" and D: "decimals_ok D" and update: "transactionKey L g ctx = Inr key" "checked_request envelope"
    and ref: "\<not> blank (vt_reference t)" "isANS (vt_reference t)" "length (vt_reference t) \<le> 20"
    and amounts: "length (dc_text D (vt_amount t)) \<le> 50" "blank (vt_currency t) \<or> isANS (vt_currency t) \<and> length (vt_currency t) \<le> 50"
    and verified: "verifyWebhookIdentity (vt_reference t) envelope payees = None"
  shows "\<exists>p ack a. ParseWebhook L D format g ctx (update_call L key envelope (payment_items D t)) payees = Inr (p, ack) \<and>
    wp_reference p = vt_reference t \<and> wp_success p \<and> wp_amount p = Some a \<and> dc_value D a = dc_value D (vt_amount t) \<and>
    wp_currency p = trim_space (vt_currency t) \<and> wp_gateway_id p = gr_transaction envelope"
proof -
  have read: "decryptRequest L g ctx (update_call L key envelope (payment_items D t)) =
      Inr (envelope\<lparr>gr_data := map plain_item (payment_items D t)\<rparr>, key)"
    by (rule update_call_read [OF L update(1,2) payment_items_checked [OF D ref amounts]])
  obtain a where a: "dc_parse D (dc_text D (vt_amount t)) = Some a" "dc_value D a = dc_value D (vt_amount t)"
    using decimal_reads [OF D] by blast
  obtain objs where objs: "encryptResponseObjects L key
      (map payment_value (buildPaymentData format (map plain_item (payment_items D t)) (gr_transaction envelope))) = Inr objs"
    by (rule payment_encrypts [OF L transactionKey_length [OF update(1)]])
  have gid: "\<not> blank (gr_transaction envelope)" using update(2) by (simp add: checked_request_def)
  have refno: "validateRefNoValue (vt_reference t) = Inr (vt_reference t)" using ref by (simp add: validateRefNoValue_iff)
  have params: "map_of (indexParams (map plain_item (payment_items D t))) ''refno'' = Some (plain_item (''1'', ''refNo'', vt_reference t))"
    "map_of (indexParams (map plain_item (payment_items D t))) ''amount'' = Some (plain_item (''2'', ''amount'', dc_text D (vt_amount t)))"
    by (simp_all add: payment_items_index)
  have texts: "stringParam format (indexParams (map plain_item (payment_items D t))) ''currency'' = trim_space (vt_currency t)"
    "stringParam format (indexParams (map plain_item (payment_items D t))) ''gatewaytransactionid'' = []"
    by (simp_all add: payment_items_index stringParam_def blank_def)
  have amount: "paramDecimal D (LStr (dc_text D (vt_amount t))) = Some a" by (simp add: paramDecimal_def decimal_text [OF D] a)
  define q where "q = envelope\<lparr>gr_data := map plain_item (payment_items D t)\<rparr>"
  have q: "gr_data q = map plain_item (payment_items D t)" "gr_transaction q = gr_transaction envelope" by (simp_all add: q_def)
  have verified': "verifyWebhookIdentity (vt_reference t) q payees = None" 
    using verified by (simp add: verifyWebhookIdentity_iff paid_to_its_payee_def q_def)
  show ?thesis
    unfolding ParseWebhook_def read [folded q_def] Let_def sum.case prod.case q params option.case plain_item_value snd_conv lit_json.case refno
      verified' amount objs texts
    by (simp add: gid a)
qed

text \<open>C22: A payment made with what a presentment shows settles: when GovPay+ sends back the parameters
  marked as returned, under whatever key and transaction id, for the service it asked about, the
  notification is accepted as the payment of that reference, of an amount of the transaction's
  value in its currency.\<close>

theorem presented_payment_settles:
  assumes L: "crypto_ok L" and D: "decimals_ok D"
    and presented: "HandleValidateReference L D g ctx (Some t) payable raw = Inr (JObj answer, 200)"
    and extracted: "ExtractReferenceNumber L g ctx raw = Inr (vt_reference t)"
    and shown: "transactionKey L g ctx = Inr key" "obj_get answer ''presentmentData'' = Some data" "read_encrypted L key data = Some (JArr items)"
    and update: "transactionKey L g ctx' = Inr key'" "checked_request envelope"
      "gr_subinst envelope = text_member answer ''subinstId''" "gr_service envelope = text_member answer ''serviceid''"
    and amounts: "length (dc_text D (vt_amount t)) \<le> 50" "blank (vt_currency t) \<or> isANS (vt_currency t) \<and> length (vt_currency t) \<le> 50"
    and payee: "find_payee (vt_reference t) = Inr (Some (vt_mapping t))"
  shows "\<exists>p ack a. ParseWebhook L D format g ctx' (update_call L key' envelope (returned_items items)) (Some find_payee) = Inr (p, ack) \<and>
    wp_reference p = vt_reference t \<and> wp_success p \<and> wp_amount p = Some a \<and> dc_value D a = dc_value D (vt_amount t) \<and>
    wp_currency p = trim_space (vt_currency t) \<and> wp_gateway_id p = gr_transaction envelope"
proof -
  obtain req key0 where req: "decryptRequest L g ctx raw = Inr (req, key0)"
    using extracted by (auto simp: ExtractReferenceNumber_def split: sum.splits)
  have key0: "key0 = key" and data: "\<forall>p \<in> set (gr_data req). checked_item p" using req shown(1) unfolding decrypted_request by auto
  obtain i objs where i: "parseIdentity (vt_mapping t) = Inr i" "identity_match i (gr_subinst req) (gr_service req) = None"
    and body: "answer = echoed req @ [(''presentmentData'', JArr (map marshal objs))]"
    and objs: "read_encrypted L key (JArr (map marshal objs)) = Some (JArr (map (marshal \<circ> presentment_value) (buildPresentmentData D t)))"
    using shown_transaction [OF L req presented] key0 by blast
  have "data = JArr (map marshal objs)" using shown(2) by (simp add: body obj_get_def echoed_def)
  then have items: "returned_items items = payment_items D t" using shown(3) objs returned_built [of D t] by simp
  have ids: "gr_subinst envelope = gr_subinst req" "gr_service envelope = gr_service req"
    using update(3,4) by (simp_all add: body text_member_def obj_get_def echoed_def)
  have ref: "\<not> blank (vt_reference t)" "isANS (vt_reference t)" "length (vt_reference t) \<le> 20"
    using extracted data by (auto simp: ExtractReferenceNumber_def req validateRefNoOnly_def validateRefNoValue_iff checked_item_def
      split: list.splits if_splits lit_json.splits)
  have "verifyWebhookIdentity (vt_reference t) envelope (Some find_payee) = None"
    using i by (simp add: verifyWebhookIdentity_def payee ids)
  with update_parses [OF L D update(1,2) ref amounts] show ?thesis unfolding items by blast
qed

text \<open>C23: A notification settles only when the caller is authenticated as GovPay+'s client, its data reads
  under this GO's key, and its ids are those of the payee of the reference it settles; what it
  settles is the reference and the amount of its own items, no amount when it has none.\<close>

theorem settlement_from_its_payee:
  assumes "VerifyWebhook g ctx = None" and "ParseWebhook L D format g ctx raw payees = Inr (p, ack)"
  shows "(\<exists>c. cc_caller ctx = Some c \<and> pr_kind c = KindClient \<and> pr_client_id c = gw_client g) \<and>
    (\<exists>req key. decryptRequest L g ctx raw = Inr (req, key) \<and> transactionKey L g ctx = Inr key \<and>
      paid_to_its_payee (wp_reference p) req payees \<and> length (wp_reference p) \<in> {1..20} \<and>
      (\<exists>item \<in> set (gr_data req). item_name item = ''refno'' \<and> gp_value item = LStr (wp_reference p)) \<and>
      (case wp_amount p of
         None \<Rightarrow> \<forall>item \<in> set (gr_data req). item_name item \<noteq> ''amount''
       | Some a \<Rightarrow> \<exists>item \<in> set (gr_data req). item_name item = ''amount'' \<and> paramDecimal D (gp_value item) = Some a))"
proof -
  from assms(2) obtain req key where read: "decryptRequest L g ctx raw = Inr (req, key)" by (auto simp: ParseWebhook_def split: sum.splits)
  define params where "params = indexParams (gr_data req)"
  define v where "v = (case map_of params ''refno'' of Some p \<Rightarrow> (case gp_value p of LStr s \<Rightarrow> s | _ \<Rightarrow> []) | None \<Rightarrow> [])"
  from assms(2) have p: "validateRefNoValue v = Inr (wp_reference p)" "verifyWebhookIdentity (wp_reference p) req payees = None"
    "(case map_of params ''amount'' of None \<Rightarrow> Inr None
      | Some p \<Rightarrow> (case paramDecimal D (gp_value p) of None \<Rightarrow> Inl InvalidAmount | Some a \<Rightarrow> Inr (Some a))) = Inr (wp_amount p)"
    unfolding ParseWebhook_def read Let_def sum.case prod.case params_def [symmetric] v_def [symmetric]
    by (auto split: sum.splits option.splits)
  have item: "map_of params name = Some it \<Longrightarrow> it \<in> set (gr_data req) \<and> item_name it = name" for name it
    by (auto simp: params_def indexParams_def dest!: map_of_SomeD)
  have none: "map_of params name = None \<Longrightarrow> it \<in> set (gr_data req) \<Longrightarrow> item_name it \<noteq> name" for name it
    by (auto simp: params_def indexParams_def map_of_eq_None_iff rev_map image_iff)
  have r: "wp_reference p = v" "v \<noteq> []" "length v \<le> 20" using p(1) by (auto simp: validateRefNoValue_iff isANS_def)
  then obtain it where "map_of params ''refno'' = Some it" "gp_value it = LStr (wp_reference p)"
    by (auto simp: v_def split: option.splits lit_json.splits)
  then have "\<exists>it \<in> set (gr_data req). item_name it = ''refno'' \<and> gp_value it = LStr (wp_reference p)"
    using item by blast
  moreover have "(case wp_amount p of
         None \<Rightarrow> \<forall>item \<in> set (gr_data req). item_name item \<noteq> ''amount''
       | Some a \<Rightarrow> \<exists>item \<in> set (gr_data req). item_name item = ''amount'' \<and> paramDecimal D (gp_value item) = Some a)"
    using p(3) item [of "''amount''"] none [of "''amount''"] by (auto split: option.splits)
  moreover have "transactionKey L g ctx = Inr key" using read unfolding decrypted_request by blast
  moreover have "length (wp_reference p) \<in> {1..20}" using r by (simp add: Suc_le_eq)
  ultimately show ?thesis using assms(1) p(2) read unfolding VerifyWebhook_iff verifyWebhookIdentity_iff by blast
qed

subsection \<open>A concrete gateway\<close>

definition demo_crypto :: "unit gov_crypto" where
  "demo_crypto = \<lparr>gc_oaep = (\<lambda>_ c. Some c), gc_sha256 = (\<lambda>b. replicate 32 11), gc_encrypt = (\<lambda>_. map (\<lambda>x. (x + 1) mod 256)),
     gc_decrypt = (\<lambda>_. map (\<lambda>x. (x + 255) mod 256))\<rparr>"

lemma demo_crypto_ok: "crypto_ok demo_crypto"
proof -
  have "map (\<lambda>x. (Suc x mod 256 + 255) mod 256) b = b" if "bytes_ok b" for b
    using that by (induction b) (auto simp: mod_simps)
  moreover have "bytes_ok (map (\<lambda>x. Suc x mod 256) b)" for b by (simp add: bytes_ok_def list_all_iff)
  moreover have "bytes_ok (replicate 32 11)" by code_simp
  ultimately show ?thesis by (simp add: crypto_ok_def demo_crypto_def comp_def)
qed

definition demo_gateway :: "unit gateway" where
  "demo_gateway = \<lparr>gw_client = ''GOVPAY'', gw_decryptor = Some ()\<rparr>"

definition demo_call_key :: bytes where "demo_call_key = replicate 32 7"

definition demo_call :: call_context where
  "demo_call = \<lparr>cc_caller = Some (empty_principal\<lparr>pr_kind := KindClient, pr_client_id := ''GOVPAY''\<rparr>), cc_header = Some (EncodeToString demo_call_key)\<rparr>"

definition demo_envelope :: govPayRequest where
  "demo_envelope = \<lparr>gr_transaction = ''T1'', gr_subinst = ''004'', gr_service = ''001'', gr_service_name = ''App fee'', gr_data = []\<rparr>"

definition demo_tx :: "nat validation_transaction" where
  "demo_tx = \<lparr>vt_reference = ''NSW1'', vt_amount = 1500, vt_currency = ''LKR'',
     vt_mapping = Doc (JObj [(''subinst_id'', JStr ''004''), (''service_id'', JStr '' 001'')])\<rparr>"

definition demo_presented :: "lit_json option" where
  "demo_presented = update_call demo_crypto demo_call_key demo_envelope [(''1'', ''refNo'', ''NSW1'')]"

lemma demo_transaction_key: "transactionKey demo_crypto demo_gateway demo_call = Inr demo_call_key"
  by code_simp

lemma demo_envelope_checked: "checked_request demo_envelope"
  by code_simp

lemma demo_read: "decryptRequest demo_crypto demo_gateway demo_call demo_presented =
    Inr (demo_envelope\<lparr>gr_data := [plain_item (''1'', ''refNo'', ''NSW1'')]\<rparr>, demo_call_key)"
proof -
  have "isANS ''refNo''" "isANS ''NSW1''" "\<not> blank ''refNo''" "\<not> blank ''NSW1''" "digit CHR ''1''" by code_simp+
  then have "\<forall>i \<in> set [(''1'', ''refNo'', ''NSW1'')]. checked_item (plain_item i)" by (simp add: checked_item_def plain_item_def)
  from update_call_read [OF demo_crypto_ok demo_transaction_key demo_envelope_checked this] show ?thesis
    by (simp add: demo_presented_def)
qed

lemma demo_identity: "parseIdentity (vt_mapping demo_tx) = Inr \<lparr>gi_subinst = ''004'', gi_service = ''001''\<rparr>"
  by code_simp

theorem accepted_call_in_bounds_witness:
  "decryptRequest demo_crypto demo_gateway demo_call demo_presented =
     Inr (demo_envelope\<lparr>gr_data := [plain_item (''1'', ''refNo'', ''NSW1'')]\<rparr>, demo_call_key) \<and> length demo_call_key = 32"
  using accepted_call_in_bounds [OF demo_read] demo_read by simp

theorem presentment_only_to_its_service_witness:
  "HandleValidateReference demo_crypto demo_decimals demo_gateway demo_call
     (Some (demo_tx\<lparr>vt_mapping := Doc (JObj [(''subinst_id'', JStr ''004''), (''service_id'', JStr ''002'')])\<rparr>)) True demo_presented =
   HandleValidateReference demo_crypto demo_decimals demo_gateway demo_call None False demo_presented"
proof -
  have "parseIdentity (Doc (JObj [(''subinst_id'', JStr ''004''), (''service_id'', JStr ''002'')])) = Inr \<lparr>gi_subinst = ''004'', gi_service = ''002''\<rparr>"
    "identity_match \<lparr>gi_subinst = ''004'', gi_service = ''002''\<rparr> ''004'' ''001'' \<noteq> None" by code_simp+
  then show ?thesis
    using presentment_only_to_its_service [OF demo_crypto_ok demo_read, of demo_decimals] by (simp add: demo_envelope_def)
qed

theorem presented_payment_settles_witness:
  "\<exists>items p ack a. ParseWebhook demo_crypto demo_decimals (\<lambda>_. []) demo_gateway demo_call
       (update_call demo_crypto demo_call_key demo_envelope items) (Some (\<lambda>ref. Inr (Some (vt_mapping demo_tx)))) = Inr (p, ack) \<and>
     wp_reference p = ''NSW1'' \<and> wp_amount p = Some a \<and> dc_value demo_decimals a = 1500 \<and> wp_currency p = ''LKR''"
proof -
  have m: "identity_match \<lparr>gi_subinst = ''004'', gi_service = ''001''\<rparr>
      (gr_subinst (demo_envelope\<lparr>gr_data := [plain_item (''1'', ''refNo'', ''NSW1'')]\<rparr>))
      (gr_service (demo_envelope\<lparr>gr_data := [plain_item (''1'', ''refNo'', ''NSW1'')]\<rparr>)) = None" by code_simp
  let ?req = "demo_envelope\<lparr>gr_data := [plain_item (''1'', ''refNo'', ''NSW1'')]\<rparr>"
  obtain objs where o: "HandleValidateReference demo_crypto demo_decimals demo_gateway demo_call (Some demo_tx) True demo_presented =
      Inr (JObj (echoed ?req @ [(''presentmentData'', JArr (map marshal objs))]), 200)"
    "read_encrypted demo_crypto demo_call_key (JArr (map marshal objs)) =
      Some (JArr (map (marshal \<circ> presentment_value) (buildPresentmentData demo_decimals demo_tx)))"
    by (rule presented_transaction [OF demo_crypto_ok demo_read demo_identity m])
  have "validateRefNoOnly [plain_item (''1'', ''refNo'', ''NSW1'')] = Inr ''NSW1''" by code_simp
  then have e: "ExtractReferenceNumber demo_crypto demo_gateway demo_call demo_presented = Inr (vt_reference demo_tx)"
    by (simp add: ExtractReferenceNumber_def demo_read demo_tx_def)
  have d: "obj_get (echoed ?req @ [(''presentmentData'', JArr (map marshal objs))]) ''presentmentData'' = Some (JArr (map marshal objs))"
    by (simp add: obj_get_def echoed_def)
  have ids: "gr_subinst demo_envelope = text_member (echoed ?req @ [(''presentmentData'', JArr (map marshal objs))]) ''subinstId''"
    "gr_service demo_envelope = text_member (echoed ?req @ [(''presentmentData'', JArr (map marshal objs))]) ''serviceid''"
    by (simp_all add: text_member_def obj_get_def echoed_def)
  have amounts: "length (dc_text demo_decimals (vt_amount demo_tx)) \<le> 50"
    "blank (vt_currency demo_tx) \<or> isANS (vt_currency demo_tx) \<and> length (vt_currency demo_tx) \<le> 50" by code_simp+
  have "trim_space ''LKR'' = ''LKR''" by code_simp
  then have v: "vt_reference demo_tx = ''NSW1''" "dc_value demo_decimals (vt_amount demo_tx) = 1500" "trim_space (vt_currency demo_tx) = ''LKR''"
    by (simp_all add: demo_decimals_def demo_tx_def)
  have f: "(\<lambda>ref. Inr (Some (vt_mapping demo_tx))) (vt_reference demo_tx) = Inr (Some (vt_mapping demo_tx))" by simp
  show ?thesis
    using presented_payment_settles [where format = "\<lambda>_. []", OF demo_crypto_ok demo_decimals_ok o(1) e demo_transaction_key d o(2)
      demo_transaction_key demo_envelope_checked ids amounts f]
    unfolding v by (elim exE conjE, intro exI conjI) assumption+
qed

theorem settlement_from_its_payee_witness:
  "\<exists>p ack. ParseWebhook demo_crypto demo_decimals (\<lambda>_. []) demo_gateway demo_call
      (update_call demo_crypto demo_call_key demo_envelope (payment_items demo_decimals demo_tx)) (Some (\<lambda>ref. Inr (Some (vt_mapping demo_tx)))) = Inr (p, ack) \<and>
    length (wp_reference p) \<in> {1..20}"
proof -
  have c: "VerifyWebhook demo_gateway demo_call = None" by code_simp
  have ref: "\<not> blank (vt_reference demo_tx)" "isANS (vt_reference demo_tx)" "length (vt_reference demo_tx) \<le> 20"
    and amounts: "length (dc_text demo_decimals (vt_amount demo_tx)) \<le> 50"
    "blank (vt_currency demo_tx) \<or> isANS (vt_currency demo_tx) \<and> length (vt_currency demo_tx) \<le> 50" by code_simp+
  have "identity_match \<lparr>gi_subinst = ''004'', gi_service = ''001''\<rparr> (gr_subinst demo_envelope) (gr_service demo_envelope) = None" by code_simp
  then have v: "verifyWebhookIdentity (vt_reference demo_tx) demo_envelope (Some (\<lambda>ref. Inr (Some (vt_mapping demo_tx)))) = None"
    by (simp add: verifyWebhookIdentity_def demo_identity)
  obtain p ack where p: "ParseWebhook demo_crypto demo_decimals (\<lambda>_. []) demo_gateway demo_call
      (update_call demo_crypto demo_call_key demo_envelope (payment_items demo_decimals demo_tx)) (Some (\<lambda>ref. Inr (Some (vt_mapping demo_tx)))) = Inr (p, ack)"
    using update_parses [where format = "\<lambda>_. []", OF demo_crypto_ok demo_decimals_ok demo_transaction_key demo_envelope_checked ref amounts v] by blast
  from settlement_from_its_payee [OF c p] p show ?thesis by blast
qed

end
