(* ===== verification/Payment_Steps.thy ===== *)
theory Payment_Steps
  imports Plugin_Steps Decimals "HOL-Library.Monad_Syntax"
begin

text \<open>
  The payment step: \<open>internal/tasks/plugins/payment.go\<close> opens a checkout for a fee and parks,
  \<open>internal/payment/ref_generator.go\<close> issues the reference the payer pays against, in the fee's own
  format when it names one, and \<open>internal/payment/task_completer.go\<close> completes the step when the
  payment settles. The pointers to a reference's params are \<open>refid.go\<close>'s. core's payment service,
  which acts on a world \<open>'w\<close>, its registry of reference formats, the callback token, JSON pointers
  and the decimal library are parameters. Go iterates a map in no fixed order: of two wrong
  params the list's first is reported here.
\<close>

subsection \<open>Pointers into the inputs\<close>

record pointers =
  jp_valid :: "string \<Rightarrow> bool"
  jp_get :: "(string \<times> json) list \<Rightarrow> string \<Rightarrow> json option"

record refIDPointer =
  rp_raw :: string
  rp_ptr :: string
  rp_relative :: bool

datatype pointer_error = NotPointer string | BadStart string | NoCurrentElement string | NotRelativePointer string | ParamNotString string string

definition parseRefIDPointer :: "pointers \<Rightarrow> string \<Rightarrow> bool \<Rightarrow> pointer_error + refIDPointer" where
  "parseRefIDPointer J s allowRelative =
     (if has_prefix ''/'' s
      then (if \<not> jp_valid J s then Inl (NotPointer s) else Inr \<lparr>rp_raw = s, rp_ptr = s, rp_relative = False\<rparr>)
      else if \<not> has_prefix ''0/'' s then Inl (BadStart s)
      else if \<not> allowRelative then Inl (NoCurrentElement s)
      else let ptr = ''/'' @ drop 2 s in
        if \<not> jp_valid J ptr then Inl (NotRelativePointer s) else Inr \<lparr>rp_raw = s, rp_ptr = ptr, rp_relative = True\<rparr>)"

definition resolved_in :: "refIDPointer \<Rightarrow> (string \<times> json) list \<Rightarrow> (string \<times> json) list \<Rightarrow> (string \<times> json) list" where
  "resolved_in p doc elem = (if rp_relative p then elem else doc)"

text \<open>A pointer with no value leaves its param out.\<close>

fun readRefIDParams ::
    "pointers \<Rightarrow> (string \<times> json) list \<Rightarrow> (string \<times> json) list \<Rightarrow> (string \<times> refIDPointer) list \<Rightarrow> pointer_error + (string \<times> string) list" where
  "readRefIDParams J doc elem [] = Inr []"
| "readRefIDParams J doc elem ((name, p) # ps) =
     (case jp_get J (resolved_in p doc elem) (rp_ptr p) of
        None \<Rightarrow> readRefIDParams J doc elem ps
      | Some JNull \<Rightarrow> readRefIDParams J doc elem ps
      | Some (JStr s) \<Rightarrow> (case readRefIDParams J doc elem ps of Inl e \<Rightarrow> Inl e | Inr vs \<Rightarrow> Inr ((name, s) # vs))
      | Some _ \<Rightarrow> Inl (ParamNotString name (rp_raw p)))"

subsection \<open>References\<close>

type_synonym metadata = "string \<Rightarrow> string option"

definition metadataKeyIssuer :: string where "metadataKeyIssuer = ''reference_issuer''"
definition metadataKeyIDType :: string where "metadataKeyIDType = ''reference_id_type''"
definition metadataKeyParamPrefix :: string where "metadataKeyParamPrefix = ''reference_param.''"

text \<open>Later keys are written over earlier ones; the params' keys have a prefix neither of the others has.\<close>

definition ReferenceMetadata :: "string \<Rightarrow> string \<Rightarrow> metadata \<Rightarrow> metadata" where
  "ReferenceMetadata issuer idType params key =
     (if has_prefix metadataKeyParamPrefix key \<and> params (drop (length metadataKeyParamPrefix) key) \<noteq> None
      then params (drop (length metadataKeyParamPrefix) key)
      else if key = metadataKeyIDType then Some idType
      else if key = metadataKeyIssuer then Some issuer else None)"

datatype 'e reference_error = HalfAFormat string string | RegistryError 'e

definition text_at :: "metadata \<Rightarrow> string \<Rightarrow> string" where
  "text_at m key = (case m key of None \<Rightarrow> [] | Some v \<Rightarrow> v)"

type_synonym ('w, 'e) registry = "'w \<Rightarrow> string \<Rightarrow> string \<Rightarrow> metadata \<Rightarrow> ('e + string) \<times> 'w"

definition GenerateReference :: "('w, 'e) registry \<Rightarrow> 'w \<Rightarrow> metadata \<Rightarrow> ('e reference_error + string) \<times> 'w" where
  "GenerateReference R w md =
     (let issuer = text_at md metadataKeyIssuer; idType = text_at md metadataKeyIDType;
          params = (\<lambda>name. md (metadataKeyParamPrefix @ name));
          generate = (\<lambda>issuer idType. case R w issuer idType params of (Inl e, w1) \<Rightarrow> (Inl (RegistryError e), w1) | (Inr ref, w1) \<Rightarrow> (Inr ref, w1))
      in if issuer = [] \<and> idType = [] then generate ''TNSW'' ''payment_ref''
         else if issuer = [] \<or> idType = [] then (Inl (HalfAFormat issuer idType), w)
         else generate issuer idType)"

subsection \<open>The step\<close>

record paymentReferenceConfig =
  rc_issuer :: string
  rc_id_type :: string
  rc_params :: "(string \<times> string) list"
  rc_values :: "(string \<times> string) list"

record 'd paymentConfig =
  pg_org :: string
  pg_service :: string
  pg_amount :: 'd
  pg_currency :: string
  pg_reference :: "paymentReferenceConfig option"

record payee =
  py_org :: string
  py_service :: string

record 'd checkout_request =
  cr_gateway :: string
  cr_payee :: payee
  cr_amount :: 'd
  cr_currency :: string
  cr_expires :: int
  cr_metadata :: metadata
  cr_token :: string

record checkout_session =
  cs_session :: string
  cs_reference :: string
  cs_url :: string
  cs_instructions :: string
  cs_type :: string

datatype 'e checkout_error = PayeeNotMapped 'e | CheckoutFailed 'e

datatype 'e payment_error =
    InvalidPaymentConfig
  | PayeeRequired
  | CurrencyRequired
  | MethodsNotListed 'e
  | NoMethod
  | MethodCannotPay string
  | MethodNotSelected
  | AmountRequired
  | AmountTooLarge bool
  | AmountTooPrecise bool
  | AmountInvalid
  | AmountNotPositive
  | ReferenceIncomplete
  | ReferenceEmptyName
  | ReferencePointer string pointer_error
  | ReferenceNamedTwice string
  | ReferenceParam pointer_error
  | NoCallbackToken 'e
  | NotCheckedOut 'e

text \<open>
  What a step is run with: the decimals and how a configuration's amount decodes into one (an
  absent member leaves zero), pointers, the methods that can pay a payee, the checkout, the
  token of a record, how a remote error is classified, and the clock.
\<close>

record ('w, 'd, 'e) payment_env =
  pv_dec :: "'d decimals"
  pv_amount :: "raw_message \<Rightarrow> 'd option"
  pv_pointers :: pointers
  pv_methods :: "'w \<Rightarrow> payee \<Rightarrow> 'e + string list"
  pv_checkout :: "'w \<Rightarrow> 'd checkout_request \<Rightarrow> ('e checkout_error + checkout_session) \<times> 'w"
  pv_token :: "plug_record \<Rightarrow> 'e + string"
  pv_classify :: "'e payment_error \<Rightarrow> 'e payment_error plugin_error"
  pv_now :: int

definition decode_reference :: "json \<Rightarrow> paymentReferenceConfig option" where
  "decode_reference v = decode_struct (\<lambda>kvs. do {
     i \<leftarrow> decode_string (member kvs ''issuer'');
     t \<leftarrow> decode_string (member kvs ''id_type'');
     ps \<leftarrow> decode_map decode_string (member kvs ''params'');
     vs \<leftarrow> decode_map decode_string (member kvs ''values'');
     Some \<lparr>rc_issuer = i, rc_id_type = t, rc_params = ps, rc_values = vs\<rparr> }) v"

definition decodePaymentConfig :: "(raw_message \<Rightarrow> 'd option) \<Rightarrow> raw_message \<Rightarrow> 'd paymentConfig option" where
  "decodePaymentConfig amount config =
     (case config of
        Doc v \<Rightarrow> decode_struct (\<lambda>kvs. do {
          oid \<leftarrow> decode_string (member kvs ''org_id'');
          sid \<leftarrow> decode_string (member kvs ''service_id'');
          a \<leftarrow> amount (raw_member kvs ''amount'');
          c \<leftarrow> decode_string (member kvs ''currency'');
          r \<leftarrow> decode_pointer decode_reference (member kvs ''reference'');
          Some \<lparr>pg_org = oid, pg_service = sid, pg_amount = a, pg_currency = c, pg_reference = r\<rparr> }) v
      | _ \<Rightarrow> None)"

definition selectPaymentMethod :: "string \<Rightarrow> string list \<Rightarrow> 'e payment_error plugin_error + string" where
  "selectPaymentMethod selected ids =
     (if ids = [] then Inl (configError NoMethod)
      else if selected \<noteq> []
      then (if selected \<notin> set ids then Inl (inputError (MethodCannotPay selected)) else Inr selected)
      else if 1 < length ids then Inl (inputError MethodNotSelected)
      else Inr (hd ids))"

fun parse_pointers :: "pointers \<Rightarrow> (string \<times> string) list \<Rightarrow> 'e payment_error + (string \<times> refIDPointer) list" where
  "parse_pointers J [] = Inr []"
| "parse_pointers J ((name, raw) # ps) =
     (if blank name then Inl ReferenceEmptyName
      else case parseRefIDPointer J raw False of
        Inl e \<Rightarrow> Inl (ReferencePointer name e)
      | Inr ptr \<Rightarrow> (case parse_pointers J ps of Inl e \<Rightarrow> Inl e | Inr qs \<Rightarrow> Inr ((name, ptr) # qs)))"

fun check_values :: "(string \<times> refIDPointer) list \<Rightarrow> (string \<times> string) list \<Rightarrow> 'e payment_error option" where
  "check_values ptrs [] = None"
| "check_values ptrs ((name, v) # vs) =
     (if blank name then Some ReferenceEmptyName
      else if map_of ptrs name \<noteq> None then Some (ReferenceNamedTwice name)
      else check_values ptrs vs)"

text \<open>\<open>None\<close> in the result is the nil map of a fee without a format.\<close>

definition paymentReferenceMetadata ::
    "pointers \<Rightarrow> (string \<times> json) list \<Rightarrow> paymentReferenceConfig option \<Rightarrow> 'e payment_error + metadata option" where
  "paymentReferenceMetadata J inputs cfg =
     (case cfg of
        None \<Rightarrow> Inr None
      | Some c \<Rightarrow>
          if blank (rc_issuer c) \<or> blank (rc_id_type c) then Inl ReferenceIncomplete
          else case parse_pointers J (rc_params c) of
            Inl e \<Rightarrow> Inl e
          | Inr ptrs \<Rightarrow>
         (case check_values ptrs (rc_values c) of
            Some e \<Rightarrow> Inl e
          | None \<Rightarrow>
         (case readRefIDParams J inputs [] ptrs of
            Inl e \<Rightarrow> Inl (ReferenceParam e)
          | Inr params \<Rightarrow>
              Inr (Some (ReferenceMetadata (rc_issuer c) (rc_id_type c) (map_of (rc_values c @ params)))))))"

definition buildPaymentMetadata :: "string \<Rightarrow> string \<Rightarrow> metadata option \<Rightarrow> metadata" where
  "buildPaymentMetadata taskID selectedMethod ref key =
     (if key = ''method_id'' then Some selectedMethod else if key = ''task_id'' then Some taskID
      else case ref of None \<Rightarrow> None | Some m \<Rightarrow> m key)"

text \<open>\<open>maxAmount\<close>: the largest a NUMERIC(15, 2) column holds. \<open>True\<close> in an error is the configuration's amount.\<close>

definition maxAmount :: rat where "maxAmount = 999999999999999 / 100"

definition storableAmount :: "'d decimals \<Rightarrow> bool \<Rightarrow> 'd \<Rightarrow> 'e payment_error option" where
  "storableAmount D configured amount =
     (if maxAmount < dc_value D amount then Some (AmountTooLarge configured)
      else if dc_value D (dc_round2 D amount) \<noteq> dc_value D amount then Some (AmountTooPrecise configured)
      else None)"

fun decimalFromAny :: "'d decimals \<Rightarrow> json \<Rightarrow> 'd option" where
  "decimalFromAny D (JNum r) = Some (dc_of_float D r)"
| "decimalFromAny D (JStr s) = dc_parse D (trim_space s)"
| "decimalFromAny D _ = None"

definition resolvePaymentAmount :: "'d decimals \<Rightarrow> json option \<Rightarrow> 'd \<Rightarrow> 'e payment_error plugin_error + 'd" where
  "resolvePaymentAmount D input configured =
     (if input = None \<or> input = Some JNull
      then (if \<not> 0 < dc_value D configured then Inl (configError AmountRequired)
            else case storableAmount D True configured of Some e \<Rightarrow> Inl (configError e) | None \<Rightarrow> Inr configured)
      else case decimalFromAny D (the input) of
        None \<Rightarrow> Inl (inputError AmountInvalid)
      | Some amount \<Rightarrow>
          if \<not> 0 < dc_value D amount then Inl (inputError AmountNotPositive)
          else case storableAmount D False amount of Some e \<Rightarrow> Inl (inputError e) | None \<Rightarrow> Inr amount)"

definition referenceLifetime :: int where "referenceLifetime = 365 * 24 * 3600 * 1000000000"

text \<open>What is checked before the record changes: the payee, the method, the amount, the metadata and the fee's currency.\<close>

definition payment_terms ::
    "('w, 'd, 'e) payment_env \<Rightarrow> (string \<times> json) list \<Rightarrow> raw_message \<Rightarrow> 'w \<Rightarrow>
       'e payment_error plugin_error + payee \<times> string \<times> 'd \<times> string \<times> metadata option" where
  "payment_terms E inputs config w =
     (case decodePaymentConfig (pv_amount E) config of
        None \<Rightarrow> Inl (configError InvalidPaymentConfig)
      | Some cfg \<Rightarrow>
          let payee = \<lparr>py_org = trim_space (pg_org cfg), py_service = trim_space (pg_service cfg)\<rparr> in
          if py_org payee = [] \<or> py_service payee = [] then Inl (configError PayeeRequired)
          else if pg_currency cfg = [] then Inl (configError CurrencyRequired)
          else case pv_methods E w payee of
            Inl e \<Rightarrow> Inl (Retryable (MethodsNotListed e))
          | Inr ids \<Rightarrow>
         (case selectPaymentMethod (trim_space (case obj_get inputs ''selected_method'' of Some (JStr s) \<Rightarrow> s | _ \<Rightarrow> [])) ids of
            Inl e \<Rightarrow> Inl e
          | Inr selected \<Rightarrow>
         (case resolvePaymentAmount (pv_dec E) (obj_get inputs ''amount'') (pg_amount cfg) of
            Inl e \<Rightarrow> Inl e
          | Inr amount \<Rightarrow>
         (case paymentReferenceMetadata (pv_pointers E) inputs (pg_reference cfg) of
            Inl e \<Rightarrow> Inl (configError e)
          | Inr ref \<Rightarrow> Inr (payee, selected, amount, pg_currency cfg, ref)))))"

definition payment_data :: "'d decimals \<Rightarrow> payee \<Rightarrow> string \<Rightarrow> 'd \<Rightarrow> string \<Rightarrow> checkout_session \<Rightarrow> json" where
  "payment_data D payee selected amount currency s =
     JObj [(''session_id'', JStr (cs_session s)), (''reference_number'', JStr (cs_reference s)), (''amount'', JStr (dc_text D amount)),
       (''currency'', JStr currency), (''selected_method'', JStr selected), (''checkout_url'', JStr (cs_url s)),
       (''instructions'', JStr (cs_instructions s)), (''flow_type'', JStr (cs_type s)), (''org_id'', JStr (py_org payee)),
       (''service_id'', JStr (py_service payee))]"

text \<open>The record is the context's, which core always gives; it is returned as the step leaves it.\<close>

definition Payment_Execute ::
    "('w, 'd, 'e) payment_env \<Rightarrow> (string \<times> json) list \<Rightarrow> string \<Rightarrow> raw_message \<Rightarrow> plug_record \<Rightarrow> 'w \<Rightarrow> 'e payment_error step_end \<times> plug_record \<times> 'w" where
  "Payment_Execute E inputs output config record0 w =
     (case payment_terms E inputs config w of
        Inl e \<Rightarrow> (Failed e, record0, w)
      | Inr (payee, selected, amount, currency, ref) \<Rightarrow>
          let rec = record0\<lparr>pl_state := ''PENDING_PAYMENT''\<rparr> in
         (case pv_token E rec of
            Inl e \<Rightarrow> (Failed (inputError (NoCallbackToken e)), rec, w)
          | Inr token \<Rightarrow>
         (case pv_checkout E w \<lparr>cr_gateway = selected, cr_payee = payee, cr_amount = amount, cr_currency = currency,
               cr_expires = pv_now E + referenceLifetime, cr_metadata = buildPaymentMetadata (pl_task rec) selected ref, cr_token = token\<rparr> of
            (Inl (PayeeNotMapped e), w1) \<Rightarrow> (Failed (configError (NotCheckedOut e)), rec, w1)
          | (Inl (CheckoutFailed e), w1) \<Rightarrow> (Failed (pv_classify E (NotCheckedOut e)), rec, w1)
          | (Inr s, w1) \<Rightarrow>
              (Suspended, if output \<noteq> [] then put_data output (payment_data (pv_dec E) payee selected amount currency s) rec else rec, w1))))"

subsection \<open>Completion\<close>

text \<open>core's \<open>CommandVar\<close> is an argument: the name a completion's command goes by.\<close>

definition completed_with :: "string \<Rightarrow> (string \<times> json) list \<Rightarrow> (string \<times> json) list" where
  "completed_with commandVar body =
     (case obj_get body commandVar of
        Some (JStr command) \<Rightarrow> if command \<noteq> [] then body else obj_put commandVar (JStr ''submit'') body
      | _ \<Rightarrow> obj_put commandVar (JStr ''submit'') body)"

definition CompleteTaskStepByToken ::
    "string \<Rightarrow> ('w \<Rightarrow> string \<Rightarrow> (string \<times> json) list \<Rightarrow> 'r \<times> 'w) \<Rightarrow> 'w \<Rightarrow> string \<Rightarrow> (string \<times> json) list \<Rightarrow> 'r \<times> 'w" where
  "CompleteTaskStepByToken commandVar next_completer w token body = next_completer w token (completed_with commandVar body)"

subsection \<open>What is charged\<close>

lemma selected_method: "selectPaymentMethod selected ids = Inr m \<Longrightarrow> m \<in> set ids \<and> (selected \<noteq> [] \<longrightarrow> m = selected) \<and> (selected = [] \<longrightarrow> ids = [m])"
  by (cases ids; cases "tl ids") (auto simp: selectPaymentMethod_def split: if_splits)

definition chargeable :: "'d decimals \<Rightarrow> 'd \<Rightarrow> bool" where
  "chargeable D amount \<longleftrightarrow> (\<exists>cents :: int. dc_value D amount = of_int cents / 100 \<and> 1 \<le> cents \<and> cents < 10 ^ 15)"

lemma storable_chargeable:
  assumes "decimals_ok D" and "0 < dc_value D amount" and "storableAmount D b amount = None"
  shows "chargeable D amount"
proof -
  from assms(3) have le: "dc_value D amount \<le> maxAmount" and "dc_value D (dc_round2 D amount) = dc_value D amount"
    by (auto simp: storableAmount_def split: if_splits)
  then have "dc_value D amount * 100 \<in> \<int>" using two_places [OF assms(1)] by simp
  then obtain n where n: "dc_value D amount * 100 = of_int n" by (auto elim: Ints_cases)
  have "0 < (of_int n :: rat)" "(of_int n :: rat) \<le> 999999999999999" using assms(2) le n by (simp_all add: maxAmount_def)
  then have "0 < n" "n \<le> 999999999999999" by simp_all
  moreover have "dc_value D amount = of_int n / 100" using n by simp
  ultimately show ?thesis unfolding chargeable_def by (intro exI [of _ n]) simp
qed

lemma resolved_amount:
  assumes "decimals_ok D" and "resolvePaymentAmount D input configured = Inr amount"
  shows "chargeable D amount \<and>
    (if input = None \<or> input = Some JNull then amount = configured else decimalFromAny D (the input) = Some amount)"
  using assms(2) by (auto simp: resolvePaymentAmount_def split: if_splits option.splits intro: storable_chargeable [OF assms(1)])

lemma accepted_terms:
  fixes E :: "('w, 'd, 'e) payment_env"
  assumes "payment_terms E inputs config w = Inr (payee, selected, amount, currency, ref)"
  shows "\<exists>cfg ids s. decodePaymentConfig (pv_amount E) config = Some cfg \<and> pv_methods E w payee = Inr ids \<and>
    (selectPaymentMethod s ids :: 'e payment_error plugin_error + string) = Inr selected \<and>
    (resolvePaymentAmount (pv_dec E) (obj_get inputs ''amount'') (pg_amount cfg) :: 'e payment_error plugin_error + 'd) = Inr amount \<and> currency = pg_currency cfg \<and>
    (paymentReferenceMetadata (pv_pointers E) inputs (pg_reference cfg) :: 'e payment_error + metadata option) = Inr ref"
proof -
  define s where "s = trim_space (case obj_get inputs ''selected_method'' of Some (JStr s) \<Rightarrow> s | _ \<Rightarrow> [])"
  from assms obtain cfg where cfg: "decodePaymentConfig (pv_amount E) config = Some cfg" by (auto simp: payment_terms_def split: option.splits)
  obtain ids where "pv_methods E w payee = Inr ids \<and> (selectPaymentMethod s ids :: 'e payment_error plugin_error + string) = Inr selected \<and>
    (resolvePaymentAmount (pv_dec E) (obj_get inputs ''amount'') (pg_amount cfg) :: 'e payment_error plugin_error + 'd) = Inr amount \<and> currency = pg_currency cfg \<and>
    (paymentReferenceMetadata (pv_pointers E) inputs (pg_reference cfg) :: 'e payment_error + metadata option) = Inr ref"
    using assms unfolding payment_terms_def cfg option.case Let_def s_def [symmetric] by (auto split: if_splits sum.splits)
  with cfg show ?thesis by blast
qed

text \<open>C24: A payment step charges at most once, and only an amount the transaction can store: a whole
  number of cents from 1 to 10^15 - 1, the step's input when there is one and the configured one
  otherwise, through a method that can pay the payee; when it opens no checkout it fails and
  nothing outside the record has changed.\<close>

theorem charged_amount_bounds:
  fixes E :: "('w, 'd, 'e) payment_env"
  assumes "decimals_ok (pv_dec E)" and "Payment_Execute E inputs output config rec w = (end_state, rec', w')"
  shows "w' = w \<and> (\<exists>e. end_state = Failed e) \<or>
    (\<exists>cfg req r ids. decodePaymentConfig (pv_amount E) config = Some cfg \<and> pv_checkout E w req = (r, w') \<and>
      chargeable (pv_dec E) (cr_amount req) \<and>
      (case obj_get inputs ''amount'' of
         None \<Rightarrow> cr_amount req = pg_amount cfg
       | Some v \<Rightarrow> if v = JNull then cr_amount req = pg_amount cfg else decimalFromAny (pv_dec E) v = Some (cr_amount req)) \<and>
      pv_methods E w (cr_payee req) = Inr ids \<and> cr_gateway req \<in> set ids \<and> cr_currency req = pg_currency cfg \<and>
      (end_state = Suspended \<longleftrightarrow> is_ok r) \<and> pl_state rec' = ''PENDING_PAYMENT'')"
proof (cases "payment_terms E inputs config w")
  case (Inl e)
  then show ?thesis using assms(2) by (intro disjI1) (auto simp: Payment_Execute_def)
next
  case (Inr terms)
  obtain payee selected amount currency ref where t: "terms = (payee, selected, amount, currency, ref)" by (cases terms)
  note terms = Inr [unfolded t]
  from terms obtain cfg ids where cfg: "decodePaymentConfig (pv_amount E) config = Some cfg" "pv_methods E w payee = Inr ids"
    "\<exists>s. (selectPaymentMethod s ids :: 'e payment_error plugin_error + string) = Inr selected"
    "(resolvePaymentAmount (pv_dec E) (obj_get inputs ''amount'') (pg_amount cfg) :: 'e payment_error plugin_error + 'd) = Inr amount" "currency = pg_currency cfg"
    using accepted_terms [OF terms] by blast
  have amount: "chargeable (pv_dec E) amount" "case obj_get inputs ''amount'' of
         None \<Rightarrow> amount = pg_amount cfg
       | Some v \<Rightarrow> if v = JNull then amount = pg_amount cfg else decimalFromAny (pv_dec E) v = Some amount"
    using resolved_amount [OF assms(1) cfg(4)] by (auto split: option.splits if_splits)
  have m: "selected \<in> set ids" using cfg(3) selected_method by blast
  show ?thesis
  proof (cases "pv_token E (rec\<lparr>pl_state := ''PENDING_PAYMENT''\<rparr>)")
    case (Inl e)
    then show ?thesis using assms(2) terms by (intro disjI1) (auto simp: Payment_Execute_def Let_def)
  next
    case (Inr token)
    define req where "req = \<lparr>cr_gateway = selected, cr_payee = payee, cr_amount = amount, cr_currency = currency,
      cr_expires = pv_now E + referenceLifetime, cr_metadata = buildPaymentMetadata (pl_task rec) selected ref, cr_token = token\<rparr>"
    obtain r v where r: "pv_checkout E w req = (r, v)" by (cases "pv_checkout E w req")
    have "v = w' \<and> (end_state = Suspended \<longleftrightarrow> is_ok r) \<and> pl_state rec' = ''PENDING_PAYMENT''"
      using assms(2) terms Inr r
      by (auto simp: Payment_Execute_def Let_def req_def [symmetric] is_ok_def split: sum.splits checkout_error.splits if_splits)
    moreover have "cr_gateway req = selected" "cr_payee req = payee" "cr_amount req = amount" "cr_currency req = currency"
      by (simp_all add: req_def)
    ultimately show ?thesis using cfg(1,2,5) amount m r by (intro disjI2 exI [of _ cfg] exI [of _ req] exI [of _ r] exI [of _ ids]) (auto split: option.splits)
  qed
qed

subsection \<open>The reference a payer gets\<close>

definition param_value :: "pointers \<Rightarrow> (string \<times> json) list \<Rightarrow> string \<Rightarrow> string option" where
  "param_value J inputs ptr = (case jp_get J inputs ptr of Some (JStr s) \<Rightarrow> Some s | _ \<Rightarrow> None)"

lemma read_params:
  "readRefIDParams J doc elem ptrs = Inr vs \<Longrightarrow> distinct (map fst ptrs) \<Longrightarrow> \<forall>(n, p) \<in> set ptrs. \<not> rp_relative p \<Longrightarrow>
     map_of vs = (\<lambda>name. case map_of ptrs name of None \<Rightarrow> None | Some p \<Rightarrow> param_value J doc (rp_ptr p))"
proof (induction ptrs arbitrary: vs)
  case (Cons x ps)
  obtain name p where x: "x = (name, p)" by (cases x)
  from Cons.prems(2) have d: "distinct (map fst ps)" and n: "map_of ps name = None" by (simp_all add: x map_of_eq_None_iff)
  have r: "resolved_in p doc elem = doc" using Cons.prems(3) by (simp add: x resolved_in_def)
  have rel: "\<forall>(n, p) \<in> set ps. \<not> rp_relative p" using Cons.prems(3) by simp
  note ih = Cons.IH [OF _ d rel]
  show ?case
  proof (cases "param_value J doc (rp_ptr p)")
    case None
    then have "readRefIDParams J doc elem ps = Inr vs"
      using Cons.prems(1) by (simp add: x r param_value_def split: option.splits json.splits)
    from ih [OF this] None n show ?thesis by (auto simp: x fun_eq_iff)
  next
    case (Some s)
    then have g: "jp_get J doc (rp_ptr p) = Some (JStr s)" by (simp add: param_value_def split: option.splits json.splits)
    then obtain us where us: "readRefIDParams J doc elem ps = Inr us" "vs = (name, s) # us"
      using Cons.prems(1) by (auto simp: x r split: sum.splits)
    from ih [OF us(1)] us(2) Some show ?thesis by (auto simp: x fun_eq_iff)
  qed
qed (simp add: fun_eq_iff)

lemma parsed_pointer: "parseRefIDPointer J raw False = Inr p \<Longrightarrow> rp_ptr p = raw \<and> \<not> rp_relative p"
  by (auto simp: parseRefIDPointer_def split: if_splits)

lemma parsed_pointers:
  "(parse_pointers J ps :: 'e payment_error + (string \<times> refIDPointer) list) = Inr ptrs \<Longrightarrow>
     map fst ptrs = map fst ps \<and> (\<forall>(n, p) \<in> set ptrs. \<not> rp_relative p) \<and> (\<forall>name. map_option rp_ptr (map_of ptrs name) = map_of ps name)"
proof (induction ps arbitrary: ptrs)
  case (Cons x ps)
  obtain name raw where x: "x = (name, raw)" by (cases x)
  from Cons.prems have nb: "\<not> blank name" by (simp add: x split: if_splits)
  with Cons.prems obtain p where p: "parseRefIDPointer J raw False = Inr p" by (auto simp: x split: sum.splits)
  with Cons.prems nb obtain qs where qs: "(parse_pointers J ps :: 'e payment_error + (string \<times> refIDPointer) list) = Inr qs" "ptrs = (name, p) # qs"
    by (cases "parse_pointers J ps :: 'e payment_error + (string \<times> refIDPointer) list") (auto simp: x)
  with Cons.IH [OF qs(1)] parsed_pointer [OF p] show ?case by (auto simp: x)
qed simp

lemma checked_values: "check_values ptrs vs = None \<Longrightarrow> map_of vs name = Some v \<Longrightarrow> map_of ptrs name = None"
  by (induction ptrs vs rule: check_values.induct) (auto split: if_splits)

lemma reference_keys [simp]:
  "has_prefix metadataKeyParamPrefix (metadataKeyParamPrefix @ name)" "drop (length metadataKeyParamPrefix) (metadataKeyParamPrefix @ name) = name"
  "\<not> has_prefix metadataKeyParamPrefix metadataKeyIssuer" "\<not> has_prefix metadataKeyParamPrefix metadataKeyIDType"
  "metadataKeyParamPrefix @ name \<noteq> metadataKeyIssuer" "metadataKeyParamPrefix @ name \<noteq> metadataKeyIDType"
  "metadataKeyIssuer \<noteq> metadataKeyIDType" "metadataKeyParamPrefix @ name \<noteq> ''method_id''" "metadataKeyParamPrefix @ name \<noteq> ''task_id''"
  "metadataKeyIssuer \<noteq> ''method_id''" "metadataKeyIssuer \<noteq> ''task_id''" "metadataKeyIDType \<noteq> ''method_id''" "metadataKeyIDType \<noteq> ''task_id''"
  by (simp_all add: has_prefix_iff) (simp_all add: metadataKeyParamPrefix_def metadataKeyIssuer_def metadataKeyIDType_def)

lemma reference_read_back:
  "buildPaymentMetadata task m (Some (ReferenceMetadata i t params)) metadataKeyIssuer = Some i"
  "buildPaymentMetadata task m (Some (ReferenceMetadata i t params)) metadataKeyIDType = Some t"
  "buildPaymentMetadata task m (Some (ReferenceMetadata i t params)) (metadataKeyParamPrefix @ name) = params name"
  by (auto simp: buildPaymentMetadata_def ReferenceMetadata_def)

text \<open>The reference of a step's checkout is issued in the fee's own format, whose params the registry
  gets just as the configuration gives them: a fixed value, or the text its pointer finds in the
  step's inputs, absent when there is none; a fee without a format gets the default format and no
  params. Neither the task's nor the method's key is taken for one of the format's.\<close>

theorem checkout_reference_format:
  assumes "(paymentReferenceMetadata J inputs cfg :: 'e payment_error + metadata option) = Inr md" and "\<forall>c. cfg = Some c \<longrightarrow> distinct (map fst (rc_params c))"
  shows "GenerateReference R w (buildPaymentMetadata task selected md) =
    (let (issuer, idType, params) =
       (case cfg of
          None \<Rightarrow> (''TNSW'', ''payment_ref'', Map.empty)
        | Some c \<Rightarrow> (rc_issuer c, rc_id_type c, \<lambda>name.
            case map_of (rc_values c) name of
              Some v \<Rightarrow> Some v
            | None \<Rightarrow> (case map_of (rc_params c) name of None \<Rightarrow> None | Some ptr \<Rightarrow> param_value J inputs ptr)))
     in case R w issuer idType params of (Inl e, w1) \<Rightarrow> (Inl (RegistryError e), w1) | (Inr ref, w1) \<Rightarrow> (Inr ref, w1))"
proof (cases cfg)
  case None
  then have md: "md = None" using assms(1) by (simp add: paymentReferenceMetadata_def)
  have "(\<lambda>name. buildPaymentMetadata task selected None (metadataKeyParamPrefix @ name)) = Map.empty"
    by (simp add: fun_eq_iff buildPaymentMetadata_def)
  then show ?thesis by (simp add: None md GenerateReference_def text_at_def buildPaymentMetadata_def)
next
  case (Some c)
  with assms(1) obtain ptrs params where c: "\<not> blank (rc_issuer c)" "\<not> blank (rc_id_type c)"
    "parse_pointers J (rc_params c) = (Inr ptrs :: 'e payment_error + (string \<times> refIDPointer) list)"
    "check_values ptrs (rc_values c) = (None :: 'e payment_error option)" "readRefIDParams J inputs [] ptrs = Inr params"
    "md = Some (ReferenceMetadata (rc_issuer c) (rc_id_type c) (map_of (rc_values c @ params)))"
    by (auto simp: paymentReferenceMetadata_def split: if_splits sum.splits option.splits)
  note p = parsed_pointers [OF c(3)]
  have "map_of params = (\<lambda>name. case map_of ptrs name of None \<Rightarrow> None | Some p \<Rightarrow> param_value J inputs (rp_ptr p))"
    using read_params [OF c(5)] p assms(2) Some by simp
  then have params: "map_of params name = (case map_of (rc_params c) name of None \<Rightarrow> None | Some ptr \<Rightarrow> param_value J inputs ptr)" for name
    using p by (metis (no_types, lifting) option.map_disc_iff option.map_sel option.case_eq_if option.simps(3))
  have "map_of (rc_values c @ params) = (\<lambda>name. case map_of (rc_values c) name of Some v \<Rightarrow> Some v
      | None \<Rightarrow> (case map_of (rc_params c) name of None \<Rightarrow> None | Some ptr \<Rightarrow> param_value J inputs ptr))"
    by (simp add: fun_eq_iff map_add_def params split: option.splits)
  moreover have "rc_issuer c \<noteq> []" "rc_id_type c \<noteq> []" using c(1,2) by auto
  ultimately show ?thesis by (simp add: Some c(6) GenerateReference_def text_at_def reference_read_back)
qed

text \<open>A completion always carries a command, its own when it has one, and every other member it came with.\<close>

lemma completed_with_command:
  "(\<exists>command. obj_get (completed_with cv body) cv = Some (JStr command) \<and> command \<noteq> [] \<and>
     (\<forall>own. own \<noteq> [] \<longrightarrow> obj_get body cv = Some (JStr own) \<longrightarrow> command = own)) \<and>
   (\<forall>k. k \<noteq> cv \<longrightarrow> obj_get (completed_with cv body) k = obj_get body k)"
  by (auto simp: completed_with_def obj_get_put split: option.splits json.splits)

subsection \<open>A concrete step\<close>

definition demo_payment :: "(nat, nat, string) payment_env" where
  "demo_payment = \<lparr>pv_dec = demo_decimals,
     pv_amount = (\<lambda>m. case m of Doc (JNum q) \<Rightarrow> Some (nat \<lfloor>q\<rfloor>) | NoBytes \<Rightarrow> Some 0 | _ \<Rightarrow> None),
     pv_pointers = \<lparr>jp_valid = (\<lambda>_. True), jp_get = (\<lambda>doc p. obj_get doc (drop 1 p))\<rparr>,
     pv_methods = (\<lambda>w p. Inr [''govpay'']),
     pv_checkout = (\<lambda>w r. (Inr \<lparr>cs_session = ''s'', cs_reference = ''NSW1'', cs_url = [], cs_instructions = ''pay'', cs_type = ''INSTRUCTION''\<rparr>, Suc w)),
     pv_token = (\<lambda>r. Inr ''tok''), pv_classify = Retryable, pv_now = 0\<rparr>"

definition demo_fee :: raw_message where
  "demo_fee = Doc (JObj [(''org_id'', JStr ''cda''), (''service_id'', JStr ''app_fee''), (''amount'', JNum 12), (''currency'', JStr ''LKR''),
     (''reference'', JObj [(''issuer'', JStr ''CDA''), (''id_type'', JStr ''fee_ref''), (''params'', JObj [(''branch'', JStr ''/branch'')]),
       (''values'', JObj [(''code'', JStr ''07'')])])])"

definition demo_paid_record :: plug_record where
  "demo_paid_record = \<lparr>pl_task = ''t1'', pl_case = ''c1'', pl_parent = [], pl_state = ''PENDING'', pl_data = []\<rparr>"

theorem charged_amount_bounds_witness:
  "\<exists>req r. pv_checkout demo_payment 0 req = (r, 1) \<and> chargeable demo_decimals (cr_amount req) \<and> cr_amount req = 15"
proof -
  obtain e r w where run: "Payment_Execute demo_payment [(''amount'', JNum 15)] ''payment'' demo_fee demo_paid_record 0 = (e, r, w)"
    by (cases "Payment_Execute demo_payment [(''amount'', JNum 15)] ''payment'' demo_fee demo_paid_record 0")
  have "(case Payment_Execute demo_payment [(''amount'', JNum 15)] ''payment'' demo_fee demo_paid_record 0 of (e, r, w) \<Rightarrow> w) = 1" by code_simp
  then have w: "w = 1" by (simp add: run)
  have D: "pv_dec demo_payment = demo_decimals" by (simp add: demo_payment_def)
  have "decimals_ok (pv_dec demo_payment)" by (simp add: D demo_decimals_ok)
  from charged_amount_bounds [OF this run] w obtain req res where "pv_checkout demo_payment 0 req = (res, 1)"
    "chargeable demo_decimals (cr_amount req)" "decimalFromAny demo_decimals (JNum 15) = Some (cr_amount req)"
    by (auto simp: D obj_get_def)
  moreover from this(3) have "cr_amount req = 15" by (simp add: demo_decimals_def)
  ultimately show ?thesis by blast
qed

definition demo_fee_reference :: paymentReferenceConfig where
  "demo_fee_reference = \<lparr>rc_issuer = ''CDA'', rc_id_type = ''fee_ref'', rc_params = [(''branch'', ''/branch'')], rc_values = [(''code'', ''07'')]\<rparr>"

definition demo_registry :: "(nat, string) registry" where
  "demo_registry w issuer idType params = (Inr (issuer @ ''-'' @ text_at params ''branch'' @ ''-'' @ text_at params ''code''), Suc w)"

theorem checkout_reference_format_witness:
  "\<exists>md. GenerateReference demo_registry 4 (buildPaymentMetadata ''t1'' ''govpay'' md) = (Inr ''CDA-CMB-07'', 5)"
proof -
  have "is_ok (paymentReferenceMetadata (pv_pointers demo_payment) [(''branch'', JStr ''CMB'')] (Some demo_fee_reference) :: string payment_error + _)"
    by code_simp
  then obtain md where md: "(paymentReferenceMetadata (pv_pointers demo_payment) [(''branch'', JStr ''CMB'')] (Some demo_fee_reference) ::
      string payment_error + metadata option) = Inr md" by (auto simp: is_ok_iff)
  have d: "\<forall>c. Some demo_fee_reference = Some c \<longrightarrow> distinct (map fst (rc_params c))" by (simp add: demo_fee_reference_def)
  show ?thesis
    using checkout_reference_format [OF md d, of demo_registry 4 "''t1''" "''govpay''"]
    by (intro exI [of _ md]) (simp add: demo_fee_reference_def demo_registry_def text_at_def param_value_def demo_payment_def obj_get_def)
qed

end
