(* ===== verification/Task_Http.thy ===== *)
theory Task_Http
  imports Task_Claims File_Binding
begin

text \<open>
  \<open>internal/tasks/http_handler.go\<close>, with \<open>task_template.go\<close> and \<open>title.go\<close>: reading a task,
  completing a step from the portal or by callback token, and saving a draft. A handler's calls
  of core's task manager are a list of \<open>core_call\<close>, answered by a function; the request's body
  is what \<open>json.Decoder\<close> makes of it within the size limit. The properties say exactly which
  requests reach core and with what payload, and what a refused reader can tell.
\<close>

subsection \<open>The handler and its answers\<close>

record zone_view =
  zv_claimed_by :: string
  zv_claimed_at :: "string option"
  zv_body :: json

record http_env = task_env +
  he_binding :: "task_record \<Rightarrow> binding"
  he_refs :: "principal option \<Rightarrow> file_refs"
  he_can_act :: "(task_record \<Rightarrow> authz_input \<Rightarrow> string + bool) option"
  he_render :: "(task_record \<Rightarrow> string + raw_message) option"
  he_assemble :: "task_record \<Rightarrow> (string \<Rightarrow> bool option) \<Rightarrow> string + zone_view"
  he_token :: "string \<Rightarrow> (string \<times> string) option"

definition errStepIDRequired :: string where "errStepIDRequired = ''step id is required''"
definition errInvalidCallbackToken :: string where "errInvalidCallbackToken = ''invalid callback token''"
definition errForbiddenTaskAction :: string where "errForbiddenTaskAction = ''you may not perform this action on this task''"
definition errInvalidRequestBody :: string where "errInvalidRequestBody = ''invalid request body''"
definition errStaleStep :: string where "errStaleStep = ''this step is no longer active; refetch the task''"
definition errRequestBodyTooLarge :: string where "errRequestBodyTooLarge = ''request body too large''"
definition errFileNotReference :: string where "errFileNotReference = ''a file in the submission is not a file reference; upload it again''"
definition errFileNotYours :: string where "errFileNotYours = ''a file in the submission was issued to someone else''"
definition errFileExpired :: string where "errFileExpired = ''a file in the submission has expired; refetch the task and submit again''"
definition errFileScope :: string where "errFileScope = ''a file in the submission can't be submitted; refetch the task''"
definition errFileShape :: string where "errFileShape = ''a file field in the submission does not have the shape the task declares''"
definition errDraftNotEnabled :: string where "errDraftNotEnabled = ''this step does not accept drafts''"
definition errInvalidPayload :: string where "errInvalidPayload = ''submission does not match the form''"

abbreviation CommandVar :: string where "CommandVar \<equiv> ''__command''"

datatype core_call = CompleteStep string string json | CompleteByToken string json | SaveDraftCall string string json

datatype completion_error =
  StaleStep | StepUnauthenticated | StepForbidden | StepNotGuarded | InvalidStepPayload | DraftNotEnabled | CompletionFailed string

text \<open>The attributes of a request the audit record carries, and the record.\<close>

record step_attrs =
  at_task :: string
  at_step :: string
  at_command :: string
  at_draft :: bool

record task_audit =
  ta_task :: string
  ta_failure :: bool
  ta_status :: nat
  ta_error :: string
  ta_attrs :: step_attrs

definition taskAuditMeta :: "bool \<Rightarrow> nat \<Rightarrow> string \<Rightarrow> step_attrs \<Rightarrow> task_audit" where
  "taskAuditMeta failure status code a =
     \<lparr>ta_task = at_task a, ta_failure = failure, ta_status = status, ta_error = code, ta_attrs = a\<rparr>"

type_synonym answer = "reply \<times> task_audit list"

subsection \<open>The envelope\<close>

text \<open>What a decoder finds after the first value, and first: nothing, too much, or a value.\<close>

datatype body_rest = RestNothing | RestTooLarge | RestData
datatype body = BodyEmpty | BodyTooLarge | BodyMalformed | BodyValue json body_rest

record step_request =
  rq_command :: string
  rq_payload :: "(string \<times> json) list option"

definition empty_request :: step_request where
  "empty_request = \<lparr>rq_command = [], rq_payload = None\<rparr>"

definition request_command :: "(string \<times> json) list \<Rightarrow> string option" where
  "request_command kvs = (case field_get kvs ''command'' of None \<Rightarrow> Some [] | Some v \<Rightarrow> decode_string v)"

definition request_payload :: "(string \<times> json) list \<Rightarrow> (string \<times> json) list option option" where
  "request_payload kvs =
     (case field_get kvs ''payload'' of
        None \<Rightarrow> Some None
      | Some JNull \<Rightarrow> Some None
      | Some (JObj m) \<Rightarrow> Some (Some m)
      | Some _ \<Rightarrow> None)"

text \<open>The request a value decodes to and whether it decodes; a command that does is set anyway.\<close>

fun completeTaskStepRequest :: "json \<Rightarrow> step_request \<times> bool" where
  "completeTaskStepRequest JNull = (empty_request, True)"
| "completeTaskStepRequest (JObj kvs) =
     (\<lparr>rq_command = (case request_command kvs of None \<Rightarrow> [] | Some c \<Rightarrow> c),
       rq_payload = (case request_payload kvs of None \<Rightarrow> None | Some m \<Rightarrow> m)\<rparr>,
      request_command kvs \<noteq> None \<and> request_payload kvs \<noteq> None)"
| "completeTaskStepRequest _ = (empty_request, False)"

definition envelope_fail :: "step_attrs \<Rightarrow> step_request \<Rightarrow> nat \<Rightarrow> string \<Rightarrow> answer" where
  "envelope_fail a req status message = (reply status message, [taskAuditMeta True status message (a\<lparr>at_command := rq_command req\<rparr>)])"

definition decodeEnvelope :: "step_attrs \<Rightarrow> body \<Rightarrow> answer + step_request" where
  "decodeEnvelope a b =
     (let check = (\<lambda>req. case rq_payload req of
            Some m \<Rightarrow> if obj_get m CommandVar \<noteq> None then Inl (envelope_fail a req 400 errInvalidRequestBody) else Inr req
          | None \<Rightarrow> Inr req)
      in case b of
        BodyTooLarge \<Rightarrow> Inl (envelope_fail a empty_request 413 errRequestBodyTooLarge)
      | BodyMalformed \<Rightarrow> Inl (envelope_fail a empty_request 400 errInvalidRequestBody)
      | BodyEmpty \<Rightarrow> check empty_request
      | BodyValue v rest \<Rightarrow>
          (case completeTaskStepRequest v of
             (req, False) \<Rightarrow> Inl (envelope_fail a req 400 errInvalidRequestBody)
           | (req, True) \<Rightarrow>
               (case rest of
                  RestTooLarge \<Rightarrow> Inl (envelope_fail a req 413 errRequestBodyTooLarge)
                | RestData \<Rightarrow> Inl (envelope_fail a req 400 errInvalidRequestBody)
                | RestNothing \<Rightarrow> check req)))"

definition payload_or_empty :: "step_request \<Rightarrow> (string \<times> json) list" where
  "payload_or_empty req = (case rq_payload req of None \<Rightarrow> [] | Some m \<Rightarrow> m)"

definition decodeSubmission :: "step_attrs \<Rightarrow> body \<Rightarrow> answer + string \<times> (string \<times> json) list" where
  "decodeSubmission a b =
     (case decodeEnvelope a b of
        Inl x \<Rightarrow> Inl x
      | Inr req \<Rightarrow>
          if rq_command req = [] then Inl (reply 400 errInvalidRequestBody, [])
          else Inr (rq_command req, obj_put CommandVar (JStr (rq_command req)) (payload_or_empty req)))"

subsection \<open>Answering core\<close>

definition writeCompletion :: "step_attrs \<Rightarrow> completion_error option \<Rightarrow> answer" where
  "writeCompletion a err =
     (case err of
        None \<Rightarrow> (reply 204 [], [taskAuditMeta False 204 [] a])
      | Some StaleStep \<Rightarrow> (reply 409 errStaleStep, [taskAuditMeta True 409 ''stale_step'' a])
      | Some StepUnauthenticated \<Rightarrow> (reply 401 errAuthenticationReq, [taskAuditMeta True 401 ''unauthenticated'' a])
      | Some StepForbidden \<Rightarrow> (reply 403 errForbiddenTaskAction, [taskAuditMeta True 403 ''forbidden'' a])
      | Some StepNotGuarded \<Rightarrow> (reply 403 errForbiddenTaskAction, [taskAuditMeta True 403 ''step_not_guarded'' a])
      | Some InvalidStepPayload \<Rightarrow> (reply 400 errInvalidPayload, [taskAuditMeta True 400 ''invalid_payload'' a])
      | Some DraftNotEnabled \<Rightarrow> (reply 400 errDraftNotEnabled, [taskAuditMeta True 400 ''draft_not_enabled'' a])
      | Some (CompletionFailed _) \<Rightarrow> (reply 500 errInternal, [taskAuditMeta True 500 ''complete_failed'' a]))"

definition rejectFiles :: "step_attrs \<Rightarrow> nat \<Rightarrow> string \<Rightarrow> string \<Rightarrow> answer" where
  "rejectFiles a status public code = (reply status public, [taskAuditMeta True status code a])"

definition file_answer :: "step_attrs \<Rightarrow> binding_error \<Rightarrow> answer" where
  "file_answer a err =
     (case err of
        RefsError (FnFailed _ AccessInvalid) \<Rightarrow> rejectFiles a 400 errFileNotReference ''file_not_reference''
      | RefsError (FnFailed _ NotYours) \<Rightarrow> rejectFiles a 403 errFileNotYours ''file_not_yours''
      | RefsError (FnFailed _ ScopeDenied) \<Rightarrow> rejectFiles a 403 errFileScope ''file_scope''
      | RefsError (FnFailed _ AccessExpired) \<Rightarrow> rejectFiles a 410 errFileExpired ''file_expired''
      | RefsError (ErrShape _ _ _ _) \<Rightarrow> rejectFiles a 400 errFileShape ''file_shape''
      | _ \<Rightarrow> rejectFiles a 500 errInternal ''file_resolve_failed'')"

text \<open>The payload with its files resolved, or the answer.\<close>

definition resolveFiles :: "http_env \<Rightarrow> principal option \<Rightarrow> step_attrs \<Rightarrow> (string \<times> json) list \<Rightarrow> answer + json" where
  "resolveFiles h p a data =
     (case te_store h (at_task a) of
        TaskMissing \<Rightarrow> Inl (rejectFiles a 404 errTaskNotFound ''task_not_found'')
      | FetchFailed \<Rightarrow> Inl (rejectFiles a 500 errInternal ''task_read_failed'')
      | TaskFound rec \<Rightarrow>
          if tr_active_step rec \<noteq> at_step a then Inl (writeCompletion a (Some StaleStep))
          else case FromCaller (he_binding h rec) (he_refs h p) (JObj data) of
            (swapped, None) \<Rightarrow> Inr swapped
          | (_, Some err) \<Rightarrow> Inl (file_answer a err))"

subsection \<open>Completing a step\<close>

text \<open>What both completion routes do once they know the task and the step.\<close>

definition complete_step ::
    "http_env \<Rightarrow> (core_call \<Rightarrow> completion_error option) \<Rightarrow> principal option \<Rightarrow> string \<Rightarrow> string \<Rightarrow> body \<Rightarrow> (json \<Rightarrow> core_call) \<Rightarrow>
     core_call list \<times> answer" where
  "complete_step h core p taskID stepID b call =
     (let a = \<lparr>at_task = taskID, at_step = stepID, at_command = [], at_draft = False\<rparr> in
      case decodeSubmission a b of
        Inl x \<Rightarrow> ([], x)
      | Inr (command, data) \<Rightarrow>
          (case resolveFiles h p (a\<lparr>at_command := command\<rparr>) data of
             Inl x \<Rightarrow> ([], x)
           | Inr swapped \<Rightarrow> ([call swapped], writeCompletion (a\<lparr>at_command := command\<rparr>) (core (call swapped)))))"

definition HandleCompleteTaskStep ::
    "http_env \<Rightarrow> (core_call \<Rightarrow> completion_error option) \<Rightarrow> principal option \<Rightarrow> string \<Rightarrow> string \<Rightarrow> body \<Rightarrow> core_call list \<times> answer" where
  "HandleCompleteTaskStep h core p taskID stepID b =
     (if taskID = [] then ([], reply 400 errTaskIDRequired, [])
      else if stepID = [] then ([], reply 400 errStepIDRequired, [])
      else complete_step h core p taskID stepID b (CompleteStep taskID stepID))"

definition HandleCompleteTaskStepByToken ::
    "http_env \<Rightarrow> (core_call \<Rightarrow> completion_error option) \<Rightarrow> principal option \<Rightarrow> string \<Rightarrow> body \<Rightarrow> core_call list \<times> answer" where
  "HandleCompleteTaskStepByToken h core p token b =
     (case he_token h token of
        None \<Rightarrow> ([], rejectFiles \<lparr>at_task = [], at_step = [], at_command = [], at_draft = False\<rparr> 400 errInvalidCallbackToken ''invalid_callback_token'')
      | Some (taskID, stepID) \<Rightarrow> complete_step h core p taskID stepID b (CompleteByToken token))"

definition HandleSaveDraft ::
    "http_env \<Rightarrow> (core_call \<Rightarrow> completion_error option) \<Rightarrow> principal option \<Rightarrow> string \<Rightarrow> string \<Rightarrow> body \<Rightarrow> core_call list \<times> answer" where
  "HandleSaveDraft h core p taskID stepID b =
     (if taskID = [] then ([], reply 400 errTaskIDRequired, [])
      else if stepID = [] then ([], reply 400 errStepIDRequired, [])
      else
        let a = \<lparr>at_task = taskID, at_step = stepID, at_command = [], at_draft = False\<rparr> in
        case decodeEnvelope a b of
          Inl x \<Rightarrow> ([], x)
        | Inr req \<Rightarrow>
            if rq_command req \<noteq> [] then ([], reply 400 errInvalidRequestBody, [])
            else case resolveFiles h p (a\<lparr>at_draft := True\<rparr>) (payload_or_empty req) of
              Inl x \<Rightarrow> ([], x)
            | Inr swapped \<Rightarrow>
                ([SaveDraftCall taskID stepID swapped], writeCompletion (a\<lparr>at_draft := True\<rparr>) (core (SaveDraftCall taskID stepID swapped))))"

subsection \<open>Reading a task\<close>

definition titleOf :: "raw_message \<Rightarrow> string \<Rightarrow> string" where
  "titleOf rc fallback =
     (case rc of
        Doc (JObj kvs) \<Rightarrow>
          (case field_get kvs ''title'' of
             None \<Rightarrow> fallback
           | Some v \<Rightarrow> (case decode_string v of None \<Rightarrow> fallback | Some t \<Rightarrow> if t \<noteq> [] then t else fallback))
      | _ \<Rightarrow> fallback)"

definition Title :: "http_env \<Rightarrow> task_record \<Rightarrow> string" where
  "Title h rec =
     (case he_render h of
        None \<Rightarrow> tr_template rec
      | Some renderConfigOf \<Rightarrow>
          (case renderConfigOf rec of Inl _ \<Rightarrow> tr_template rec | Inr rc \<Rightarrow> titleOf rc (tr_template rec)))"

definition can_act :: "http_env \<Rightarrow> task_record \<Rightarrow> authz_input \<Rightarrow> bool" where
  "can_act h rec i =
     (case he_can_act h of
        None \<Rightarrow> False
      | Some f \<Rightarrow> (case f rec i of Inl _ \<Rightarrow> False | Inr ok \<Rightarrow> ok))"

record task_response =
  ts_view :: zone_view
  ts_title :: string
  ts_claim :: "task_claim option"

datatype get_answer = Refused reply | TaskView task_response

text \<open>The answer, and whether the audit trail records a read of the task: failed or made.\<close>

definition HandleGetTask :: "http_env \<Rightarrow> principal option \<Rightarrow> authz_input option \<Rightarrow> string \<Rightarrow> get_answer \<times> bool option" where
  "HandleGetTask h p ctx taskID =
     (if taskID = [] then (Refused (reply 400 errTaskIDRequired), None)
      else case ctx of
        None \<Rightarrow> (Refused (reply 401 errAuthenticationReq), None)
      | Some i \<Rightarrow>
     (case te_store h taskID of
        TaskMissing \<Rightarrow> (Refused (reply 404 errTaskNotFound), None)
      | FetchFailed \<Rightarrow> (Refused (reply 500 errInternal), None)
      | TaskFound rec \<Rightarrow>
     (case taskTemplate (task_env.truncate h) rec of
        Inl _ \<Rightarrow> (Refused (reply 500 errInternal), None)
      | Inr tmpl \<Rightarrow>
     (case resolveRead (task_env.truncate h) i rec tmpl of
        Inl (ReadFailed _) \<Rightarrow> (Refused (reply 500 errInternal), None)
      | Inl ErrDenied \<Rightarrow> (Refused (reply 404 errTaskNotFound), Some False)
      | Inr claims \<Rightarrow>
     (case ForReader (he_binding h rec) (he_refs h p) (tr_data rec) (can_act h rec i) of
        Inl _ \<Rightarrow> (Refused (reply 500 errInternal), None)
      | Inr view \<Rightarrow>
     (case he_assemble h (rec\<lparr>tr_data := view\<rparr>) claims of
        Inl _ \<Rightarrow> (Refused (reply 500 errInternal), None)
      | Inr zv \<Rightarrow>
          (TaskView
             \<lparr>ts_view = zv\<lparr>zv_claimed_by := [], zv_claimed_at := None\<rparr>,
              ts_title = Title h rec,
              ts_claim = (if tt_claimable tmpl then Some (claimOf (task_env.truncate h) i rec) else None)\<rparr>,
           Some True)))))))"

subsection \<open>Which submissions reach core\<close>

text \<open>The body is one envelope of this command and payload, nothing after it.\<close>

definition submits :: "body \<Rightarrow> string \<Rightarrow> (string \<times> json) list \<Rightarrow> bool" where
  "submits b command m \<longleftrightarrow>
     (\<exists>v req. b = BodyValue v RestNothing \<and> completeTaskStepRequest v = (req, True) \<and> rq_command req = command \<and> payload_or_empty req = m) \<and>
     obj_get m CommandVar = None"

text \<open>The data the task's binding makes of a payload for its active step.\<close>

definition binds :: "http_env \<Rightarrow> principal option \<Rightarrow> string \<Rightarrow> string \<Rightarrow> (string \<times> json) list \<Rightarrow> json \<Rightarrow> bool" where
  "binds h p t s m d \<longleftrightarrow>
     (\<exists>rec. te_store h t = TaskFound rec \<and> tr_active_step rec = s \<and> FromCaller (he_binding h rec) (he_refs h p) (JObj m) = (d, None))"

lemma decodeEnvelope_Inr:
  "decodeEnvelope a b = Inr req \<longleftrightarrow>
     (b = BodyEmpty \<and> req = empty_request \<or> (\<exists>v. b = BodyValue v RestNothing \<and> completeTaskStepRequest v = (req, True))) \<and>
     obj_get (payload_or_empty req) CommandVar = None"
  by (auto simp: decodeEnvelope_def Let_def payload_or_empty_def empty_request_def obj_get_def
      split: body.splits body_rest.splits option.splits prod.splits bool.splits if_splits)

lemma decodeSubmission_Inr:
  "decodeSubmission a b = Inr (command, d) \<longleftrightarrow> command \<noteq> [] \<and> (\<exists>m. submits b command m \<and> d = obj_put CommandVar (JStr command) m)"
proof -
  have "decodeSubmission a b = Inr (command, d) \<longleftrightarrow>
      (\<exists>req. decodeEnvelope a b = Inr req \<and> rq_command req = command \<and> command \<noteq> [] \<and> d = obj_put CommandVar (JStr command) (payload_or_empty req))"
    by (auto simp: decodeSubmission_def split: sum.splits if_splits)
  then show ?thesis unfolding decodeEnvelope_Inr submits_def by (auto simp: empty_request_def)
qed

lemma resolveFiles_Inr: "resolveFiles h p a m = Inr d \<longleftrightarrow> binds h p (at_task a) (at_step a) m d"
  by (auto simp: resolveFiles_def binds_def split: fetched.splits prod.splits option.splits)

lemma file_answer_not_204 [simp]: "rp_status (fst (file_answer a err)) \<noteq> 204"
  by (auto simp: file_answer_def rejectFiles_def split: binding_error.splits fields_error.splits access_error.splits)

lemma writeCompletion_204: "rp_status (fst (writeCompletion a err)) = 204 \<longleftrightarrow> err = None"
  by (cases err) (auto simp: writeCompletion_def split: completion_error.splits)

lemma refused_not_204:
  "decodeEnvelope a b = Inl x \<Longrightarrow> rp_status (fst x) \<noteq> 204"
  "decodeSubmission a b = Inl x \<Longrightarrow> rp_status (fst x) \<noteq> 204"
  "resolveFiles h p a m = Inl x \<Longrightarrow> rp_status (fst x) \<noteq> 204"
  by (auto simp: decodeEnvelope_def decodeSubmission_def resolveFiles_def envelope_fail_def rejectFiles_def Let_def writeCompletion_def
      split: body.splits body_rest.splits option.splits prod.splits bool.splits if_splits sum.splits fetched.splits)

lemma complete_step_calls:
  "c \<in> set (fst (complete_step h core p t s b call)) \<longleftrightarrow>
     (\<exists>command m d. command \<noteq> [] \<and> submits b command m \<and> binds h p t s (obj_put CommandVar (JStr command) m) d \<and> c = call d)"
proof -
  let ?a = "\<lparr>at_task = t, at_step = s, at_command = [], at_draft = False\<rparr>"
  have "c \<in> set (fst (complete_step h core p t s b call)) \<longleftrightarrow>
      (\<exists>command e d. decodeSubmission ?a b = Inr (command, e) \<and> resolveFiles h p (?a\<lparr>at_command := command\<rparr>) e = Inr d \<and> c = call d)"
    by (auto simp: complete_step_def Let_def split: sum.splits prod.splits)
  then show ?thesis by (auto simp: decodeSubmission_Inr resolveFiles_Inr)
qed

lemma complete_step_204:
  "rp_status (fst (snd (complete_step h core p t s b call))) = 204 \<longleftrightarrow> (\<exists>c \<in> set (fst (complete_step h core p t s b call)). core c = None)"
  using refused_not_204 by (auto simp: complete_step_def Let_def writeCompletion_204 split: sum.splits prod.splits)

text \<open>A submission reaches core exactly when its body is one envelope with a command and no
  command key of its own in the payload, the task is stored with that step active, and every
  declared file of the payload resolves for the caller; core then gets that step's ID, the files
  resolved and the command the request named. It is answered 204 exactly when core accepts it.\<close>

theorem submission_reaches_core_iff:
  "(c \<in> set (fst (HandleCompleteTaskStep h core p t s b)) \<longleftrightarrow>
      t \<noteq> [] \<and> s \<noteq> [] \<and>
      (\<exists>command m d. command \<noteq> [] \<and> submits b command m \<and> binds h p t s (obj_put CommandVar (JStr command) m) d \<and> c = CompleteStep t s d)) \<and>
   (c \<in> set (fst (HandleCompleteTaskStepByToken h core p token b)) \<longleftrightarrow>
      (\<exists>t' s' command m d. he_token h token = Some (t', s') \<and> command \<noteq> [] \<and> submits b command m \<and>
         binds h p t' s' (obj_put CommandVar (JStr command) m) d \<and> c = CompleteByToken token d)) \<and>
   (rp_status (fst (snd (HandleCompleteTaskStep h core p t s b))) = 204 \<longleftrightarrow>
      (\<exists>c. c \<in> set (fst (HandleCompleteTaskStep h core p t s b)) \<and> core c = None)) \<and>
   (rp_status (fst (snd (HandleCompleteTaskStepByToken h core p token b))) = 204 \<longleftrightarrow>
      (\<exists>c. c \<in> set (fst (HandleCompleteTaskStepByToken h core p token b)) \<and> core c = None))"
proof (intro conjI)
  show "c \<in> set (fst (HandleCompleteTaskStep h core p t s b)) \<longleftrightarrow>
      t \<noteq> [] \<and> s \<noteq> [] \<and>
      (\<exists>command m d. command \<noteq> [] \<and> submits b command m \<and> binds h p t s (obj_put CommandVar (JStr command) m) d \<and> c = CompleteStep t s d)"
    by (auto simp: HandleCompleteTaskStep_def complete_step_calls)
  show "c \<in> set (fst (HandleCompleteTaskStepByToken h core p token b)) \<longleftrightarrow>
      (\<exists>t' s' command m d. he_token h token = Some (t', s') \<and> command \<noteq> [] \<and> submits b command m \<and>
         binds h p t' s' (obj_put CommandVar (JStr command) m) d \<and> c = CompleteByToken token d)"
    by (auto simp: HandleCompleteTaskStepByToken_def complete_step_calls split: option.splits)
  show "rp_status (fst (snd (HandleCompleteTaskStep h core p t s b))) = 204 \<longleftrightarrow>
      (\<exists>c. c \<in> set (fst (HandleCompleteTaskStep h core p t s b)) \<and> core c = None)"
    by (auto simp: HandleCompleteTaskStep_def complete_step_204)
  show "rp_status (fst (snd (HandleCompleteTaskStepByToken h core p token b))) = 204 \<longleftrightarrow>
      (\<exists>c. c \<in> set (fst (HandleCompleteTaskStepByToken h core p token b)) \<and> core c = None)"
    by (auto simp: HandleCompleteTaskStepByToken_def complete_step_204 rejectFiles_def split: option.splits)
qed

text \<open>A draft reaches core exactly when its body is empty or one envelope that names no command
  and sets no command key, the step is the stored task's active one, and the files resolve; what
  core gets is the payload with its files resolved, no command added, and the answer is 204
  exactly when core stores it.\<close>

theorem draft_reaches_core_iff:
  "(c \<in> set (fst (HandleSaveDraft h core p t s b)) \<longleftrightarrow>
      t \<noteq> [] \<and> s \<noteq> [] \<and> (\<exists>m d. (b = BodyEmpty \<and> m = [] \<or> submits b [] m) \<and> binds h p t s m d \<and> c = SaveDraftCall t s d)) \<and>
   (rp_status (fst (snd (HandleSaveDraft h core p t s b))) = 204 \<longleftrightarrow>
      (\<exists>c. c \<in> set (fst (HandleSaveDraft h core p t s b)) \<and> core c = None))"
proof
  let ?a = "\<lparr>at_task = t, at_step = s, at_command = [], at_draft = False\<rparr>"
  have "c \<in> set (fst (HandleSaveDraft h core p t s b)) \<longleftrightarrow>
      t \<noteq> [] \<and> s \<noteq> [] \<and> (\<exists>req d. decodeEnvelope ?a b = Inr req \<and> rq_command req = [] \<and>
        resolveFiles h p (?a\<lparr>at_draft := True\<rparr>) (payload_or_empty req) = Inr d \<and> c = SaveDraftCall t s d)"
    by (auto simp: HandleSaveDraft_def Let_def split: sum.splits if_splits)
  also have "\<dots> \<longleftrightarrow> t \<noteq> [] \<and> s \<noteq> [] \<and> (\<exists>m d. (b = BodyEmpty \<and> m = [] \<or> submits b [] m) \<and> binds h p t s m d \<and> c = SaveDraftCall t s d)"
    unfolding decodeEnvelope_Inr resolveFiles_Inr submits_def by (auto simp: empty_request_def payload_or_empty_def obj_get_def)
  finally show "c \<in> set (fst (HandleSaveDraft h core p t s b)) \<longleftrightarrow>
      t \<noteq> [] \<and> s \<noteq> [] \<and> (\<exists>m d. (b = BodyEmpty \<and> m = [] \<or> submits b [] m) \<and> binds h p t s m d \<and> c = SaveDraftCall t s d)" .
  show "rp_status (fst (snd (HandleSaveDraft h core p t s b))) = 204 \<longleftrightarrow>
      (\<exists>c. c \<in> set (fst (HandleSaveDraft h core p t s b)) \<and> core c = None)"
    using refused_not_204 by (auto simp: HandleSaveDraft_def Let_def writeCompletion_204 split: sum.splits)
qed

subsection \<open>What a reader sees\<close>

text \<open>A caller who may not read a task gets, from the read, claim and release routes alike, the
  very answer they would get were the task not stored, and no claim moves.\<close>

theorem denied_reader_sees_missing_task:
  assumes "te_store h t = TaskFound rec" and "taskTemplate (task_env.truncate h) rec = Inr tmpl"
    and "resolveRead (task_env.truncate h) i rec tmpl = Inl ErrDenied"
  defines "gone \<equiv> h\<lparr>te_store := (te_store h)(t := TaskMissing)\<rparr>"
  shows "fst (HandleGetTask h p (Some i) t) = fst (HandleGetTask gone p (Some i) t) \<and>
    fst (snd (HandleClaimTask core others (task_env.truncate h) (Some i) t w)) =
      fst (snd (HandleClaimTask core others (task_env.truncate gone) (Some i) t w)) \<and>
    fst (snd (HandleReleaseTask core others (task_env.truncate h) (Some i) t w)) =
      fst (snd (HandleReleaseTask core others (task_env.truncate gone) (Some i) t w)) \<and>
    fst (HandleClaimTask core others (task_env.truncate h) (Some i) t w) = w \<and>
    fst (HandleReleaseTask core others (task_env.truncate h) (Some i) t w) = w"
proof -
  have target: "claimTarget (task_env.truncate h) (Some i) t op_name =
      (if t = [] then Inl (reply 400 errTaskIDRequired, [])
       else case claimant (Some i) of Inl r \<Rightarrow> Inl (r, [])
       | Inr _ \<Rightarrow> Inl (reply 404 errTaskNotFound, [auditClaim t op_name None ''task read access denied'']))" for op_name
    using assms(1-3) by (auto simp: claimTarget_def claimant_def admitClaimant_def readable_def task_env.truncate_def)
  have missing: "claimTarget (task_env.truncate gone) (Some i) t op_name =
      (if t = [] then Inl (reply 400 errTaskIDRequired, [])
       else case claimant (Some i) of Inl r \<Rightarrow> Inl (r, []) | Inr _ \<Rightarrow> Inl (reply 404 errTaskNotFound, []))" for op_name
    by (auto simp: claimTarget_def claimant_def admitClaimant_def gone_def task_env.truncate_def)
  have "fst (HandleGetTask h p (Some i) t) = fst (HandleGetTask gone p (Some i) t)"
    using assms(1-3) by (simp add: HandleGetTask_def gone_def)
  then show ?thesis
    by (auto simp: HandleClaimTask_def HandleReleaseTask_def target missing split: sum.splits)
qed

text \<open>A person behind the gate is shown a task only when their company is a party to its case in
  a role the task's template admits and their token carries that role; the data shown is the
  reader's view of the task's files, submittable only where the caller may act, and the claim,
  shown exactly on claimable tasks, is marked theirs only when they hold it.\<close>

theorem task_shown_to_party:
  assumes "gate_resolve db (Some q) = Some i" and "pr_kind q = KindUser" and "party_fault db = None"
    and "HandleGetTask h (Some q) (Some i) t = (TaskView v, au)"
  shows "\<exists>rec tmpl role claims view zv.
    te_store h t = TaskFound rec \<and> taskTemplate (task_env.truncate h) rec = Inr tmpl \<and>
    (tt_read_roles tmpl = [] \<or> role \<in> set (tt_read_roles tmpl)) \<and>
    party_at (parties db) (tr_case rec) role (OU (pr_ou_handle q)) \<and>
    (\<exists>token_role. map_of (cat_roles (te_catalog h)) role = Some token_role \<and> token_role \<in> set (pr_roles q)) \<and>
    ForReader (he_binding h rec) (he_refs h (Some q)) (tr_data rec) (can_act h rec i) = Inr view \<and>
    he_assemble h (rec\<lparr>tr_data := view\<rparr>) claims = Inr zv \<and> ts_view v = zv\<lparr>zv_claimed_by := [], zv_claimed_at := None\<rparr> \<and>
    ts_claim v = (if tt_claimable tmpl then Some (claimOf (task_env.truncate h) i rec) else None) \<and>
    (isClaimHolder i rec \<longleftrightarrow> tr_claimed_by rec = pr_user_id q \<and> pr_user_id q \<noteq> [])"
proof -
  from assms(4) obtain rec tmpl claims view zv where
    rec: "te_store h t = TaskFound rec" "taskTemplate (task_env.truncate h) rec = Inr tmpl"
    and read: "resolveRead (task_env.truncate h) i rec tmpl = Inr claims"
    and view: "ForReader (he_binding h rec) (he_refs h (Some q)) (tr_data rec) (can_act h rec i) = Inr view"
      "he_assemble h (rec\<lparr>tr_data := view\<rparr>) claims = Inr zv" "ts_view v = zv\<lparr>zv_claimed_by := [], zv_claimed_at := None\<rparr>"
      "ts_claim v = (if tt_claimable tmpl then Some (claimOf (task_env.truncate h) i rec) else None)"
    unfolding HandleGetTask_def
    by (auto split: if_splits fetched.splits sum.splits read_error.splits)
  let ?c = "te_catalog h"
  have "Resolve_read ?c i (tt_read_roles tmpl) (tr_case rec) = Inr claims"
    using read by (simp add: resolveRead_def task_env.truncate_def)
  from Resolve_read_Inr [OF this] obtain acting where
    a: "acting_as ?c i (tt_read_roles tmpl) (tr_case rec) claims acting" by blast
  then have ne: "acting \<noteq> []" by (simp add: acting_as_def)
  let ?role = "hd acting"
  have "?role \<in> set acting" using ne by simp
  with a have role: "?role \<in> set (fst (allowedRoles ?c (tt_read_roles tmpl)))" "may_act_as ?c i (tr_case rec) ?role"
    by (auto simp: acting_as_def)
  have listed: "tt_read_roles tmpl = [] \<or> ?role \<in> set (tt_read_roles tmpl)"
    using role(1) by (auto simp: allowedRoles_set)
  have gated: "in_kind i = PKUser" "in_user_id i = pr_user_id q"
    using assms(1,2) by (auto simp: gate_resolve_def)
  have holder: "isClaimHolder i rec \<longleftrightarrow> tr_claimed_by rec = pr_user_id q \<and> pr_user_id q \<noteq> []"
    by (auto simp: isClaimHolder_def gated)
  show ?thesis
    using rec listed role(2) view holder gate_may_act_as [OF assms(1-3), of ?c "tr_case rec" ?role]
    by (intro exI [of _ rec] exI [of _ tmpl] exI [of _ ?role] exI [of _ claims] exI [of _ view] exI [of _ zv]) auto
qed

text \<open>For the witnesses: a claimable task of the demo case without files.\<close>

definition demo_http :: http_env where
  "demo_http = task_env.extend (demo_tasks [])
     \<lparr>he_binding = (\<lambda>_. \<lparr>fb_render_config = Inr (Doc (JObj [])), fb_namespace = Inr ''ns''\<rparr>),
      he_refs = (\<lambda>_. \<lparr>fr_issue = (\<lambda>_ _. Inl NoHolder), fr_resolve = (\<lambda>_ _. Inl AccessInvalid)\<rparr>),
      he_can_act = None, he_render = None,
      he_assemble = (\<lambda>rec _. Inr \<lparr>zv_claimed_by = tr_claimed_by rec, zv_claimed_at = None, zv_body = tr_data rec\<rparr>),
      he_token = (\<lambda>_. None)\<rparr>"

lemma demo_http_sel:
  "task_env.truncate demo_http = demo_tasks []" "te_store demo_http = (\<lambda>_. TaskFound (demo_task []))"
  "te_catalog demo_http = demo_catalog"
  by (simp_all add: demo_http_def demo_tasks_def task_env.defs)

theorem denied_reader_sees_missing_task_witness:
  "fst (HandleGetTask demo_http None (Some (demo_reader\<lparr>in_roles := []\<rparr>)) ''t'') = Refused (reply 404 errTaskNotFound)"
proof -
  let ?i = "demo_reader\<lparr>in_roles := []\<rparr>" and ?tmpl = "\<lparr>tt_read_roles = [''trader''], tt_claimable = True\<rparr>"
  have "te_store demo_http ''t'' = TaskFound (demo_task [])" by (simp add: demo_http_sel)
  moreover have "taskTemplate (task_env.truncate demo_http) (demo_task []) = Inr ?tmpl"
    by (simp add: demo_http_sel taskTemplate_def demo_tasks_def)
  moreover have "case resolveRead (demo_tasks []) ?i (demo_task []) ?tmpl of Inl e \<Rightarrow> e = ErrDenied | Inr _ \<Rightarrow> False"
    by code_simp
  then have "resolveRead (task_env.truncate demo_http) ?i (demo_task []) ?tmpl = Inl ErrDenied"
    unfolding demo_http_sel by (simp split: sum.splits)
  ultimately show ?thesis
    using denied_reader_sees_missing_task [of demo_http "''t''" "demo_task []" ?tmpl ?i None] by (simp add: HandleGetTask_def)
qed

theorem task_shown_to_party_witness:
  "\<exists>(db :: party_store) i v au role. HandleGetTask demo_http (Some demo_principal) (Some i) ''t'' = (TaskView v, au) \<and>
     party_at (parties db) ''case-1'' role (OU ''acme'')"
proof -
  let ?db = "\<lparr>parties = [demo_party], party_fault = None\<rparr>"
  obtain i where i: "gate_resolve ?db (Some demo_principal) = Some i"
    by (auto simp: gate_resolve_def demo_principal_def)
  have "gate_resolve ?db (Some demo_principal) \<noteq> None \<and>
      (case fst (HandleGetTask demo_http (Some demo_principal) (gate_resolve ?db (Some demo_principal)) ''t'') of
         TaskView v \<Rightarrow> True | Refused r \<Rightarrow> False)"
    by code_simp
  then obtain v au where v: "HandleGetTask demo_http (Some demo_principal) (Some i) ''t'' = (TaskView v, au)"
    by (cases "HandleGetTask demo_http (Some demo_principal) (Some i) ''t''") (auto simp: i split: get_answer.splits)
  have p: "pr_kind demo_principal = KindUser" "party_fault ?db = None" "pr_ou_handle demo_principal = ''acme''"
    by (simp_all add: demo_principal_def)
  from task_shown_to_party [OF i p(1,2) v] obtain rec role where
    "te_store demo_http ''t'' = TaskFound rec" "party_at (parties ?db) (tr_case rec) role (OU (pr_ou_handle demo_principal))" by blast
  moreover from this have "rec = demo_task []" by (simp add: demo_http_sel)
  ultimately have "party_at (parties ?db) ''case-1'' role (OU ''acme'')" by (simp add: demo_task_def p(3))
  with v show ?thesis by blast
qed

end
