(* ===== verification/Profiles.thy ===== *)
theory Profiles
  imports Go_Json
begin

text \<open>
  \<open>internal/profile\<close>: the tables of companies, users and customs house agents, with the
  services over them. A service call is one or two statements; \<open>pd_fault\<close> is the error the
  next statement fails with, if any, and timestamps are not kept. \<open>id\<close> and \<open>ou_handle\<close> of a
  company and \<open>id\<close> and \<open>idp_user_id\<close> of a user are unique columns, so a statement that would
  repeat one fails. The properties: every call keeps the columns unique, a merge never drops a
  key of a company's data, and a user of the identity provider has one record whatever
  concurrent first requests do.
\<close>

subsection \<open>Rows\<close>

record company =
  co_id :: string
  co_name :: string
  co_ou_handle :: string
  co_has_cha :: bool
  co_data :: json

record user_row =
  us_id :: string
  us_idp_user_id :: string
  us_email :: string
  us_phone :: string
  us_ou_id :: string
  us_ou_handle :: string
  us_data :: raw_message

record cha_row =
  ch_id :: string
  ch_name :: string
  ch_email :: string
  ch_company_id :: string

record profile_db =
  pd_companies :: "company list"
  pd_users :: "user_row list"
  pd_chas :: "cha_row list"
  pd_fault :: "string option"

datatype company_error = ErrCompanyNotFound | ErrInvalidCompanyID | ErrOUHandleConflict | CompanyInvalid string | CompanyDb string

subsection \<open>Companies\<close>

definition first_company :: "(company \<Rightarrow> bool) \<Rightarrow> profile_db \<Rightarrow> company_error + company" where
  "first_company p db =
     (case pd_fault db of
        Some e \<Rightarrow> Inl (CompanyDb e)
      | None \<Rightarrow> (case List.find p (pd_companies db) of None \<Rightarrow> Inl ErrCompanyNotFound | Some c \<Rightarrow> Inr c))"

definition company_getByID :: "string \<Rightarrow> profile_db \<Rightarrow> company_error + company" where
  "company_getByID ident db = first_company (\<lambda>c. co_id c = ident) db"

definition getByOUHandle :: "string \<Rightarrow> profile_db \<Rightarrow> company_error + company" where
  "getByOUHandle handle db = first_company (\<lambda>c. co_ou_handle c = handle) db"

definition GetCompanyByID :: "string \<Rightarrow> profile_db \<Rightarrow> company_error + company" where
  "GetCompanyByID ident db = (if ident = [] then Inl ErrInvalidCompanyID else company_getByID ident db)"

definition GetCompanyByOUHandle :: "string \<Rightarrow> profile_db \<Rightarrow> company_error + company" where
  "GetCompanyByOUHandle handle db = (if handle = [] then Inl ErrInvalidCompanyID else getByOUHandle handle db)"

text \<open>
  PostgreSQL's \<open>||\<close> on jsonb: objects are merged, the right one's keys winning; otherwise a
  value that is not an array counts as an array of one.
\<close>

fun jsonb_elements :: "json \<Rightarrow> json list" where
  "jsonb_elements (JArr vs) = vs"
| "jsonb_elements v = [v]"

fun jsonb_concat :: "json \<Rightarrow> json \<Rightarrow> json" where
  "jsonb_concat (JObj a) (JObj b) = JObj (fold (\<lambda>(k, v). obj_put k v) b a)"
| "jsonb_concat a b = JArr (jsonb_elements a @ jsonb_elements b)"

text \<open>An update of the row of one ID; no row is \<open>ErrCompanyNotFound\<close>.\<close>

definition update_company :: "string \<Rightarrow> (company \<Rightarrow> company) \<Rightarrow> profile_db \<Rightarrow> (company_error + unit) \<times> profile_db" where
  "update_company ident f db =
     (case pd_fault db of
        Some e \<Rightarrow> (Inl (CompanyDb e), db)
      | None \<Rightarrow>
          (let rows = map (\<lambda>c. if co_id c = ident then f c else c) (pd_companies db) in
           if \<not> distinct (map co_ou_handle rows) then (Inl ErrOUHandleConflict, db)
           else if \<not> list_ex (\<lambda>c. co_id c = ident) (pd_companies db) then (Inl ErrCompanyNotFound, db)
           else (Inr (), db\<lparr>pd_companies := rows\<rparr>)))"

definition UpdateCompany :: "string \<Rightarrow> (string \<times> json) list \<Rightarrow> profile_db \<Rightarrow> (company_error + unit) \<times> profile_db" where
  "UpdateCompany ident data db =
     (if ident = [] then (Inl ErrInvalidCompanyID, db)
      else if data = [] then (Inr (), db)
      else update_company ident (\<lambda>c. c\<lparr>co_data := jsonb_concat (co_data c) (JObj data)\<rparr>) db)"

record company_update =
  cu_name :: "string option"
  cu_ou_handle :: "string option"
  cu_has_cha :: "bool option"

definition given :: "'a option \<Rightarrow> 'a \<Rightarrow> 'a" where
  "given new old = (case new of None \<Rightarrow> old | Some x \<Rightarrow> x)"

definition UpdateCompanyFields :: "string \<Rightarrow> company_update \<Rightarrow> profile_db \<Rightarrow> (company_error + unit) \<times> profile_db" where
  "UpdateCompanyFields ident upd db =
     (if ident = [] then (Inl ErrInvalidCompanyID, db)
      else if (case cu_name upd of None \<Rightarrow> False | Some n \<Rightarrow> trim_space n = []) then (Inl (CompanyInvalid ''company name cannot be empty''), db)
      else if (case cu_ou_handle upd of None \<Rightarrow> False | Some h \<Rightarrow> trim_space h = []) then (Inl (CompanyInvalid ''ou_handle cannot be empty''), db)
      else if cu_name upd = None \<and> cu_ou_handle upd = None \<and> cu_has_cha upd = None then (Inr (), db)
      else update_company ident (\<lambda>c. c\<lparr>co_name := given (cu_name upd) (co_name c),
             co_ou_handle := given (cu_ou_handle upd) (co_ou_handle c), co_has_cha := given (cu_has_cha upd) (co_has_cha c)\<rparr>) db)"

definition ReplaceCompanyData :: "string \<Rightarrow> raw_message \<Rightarrow> profile_db \<Rightarrow> (company_error + unit) \<times> profile_db" where
  "ReplaceCompanyData ident data db =
     (if ident = [] then (Inl ErrInvalidCompanyID, db)
      else case (if data = NoBytes then Doc (JObj []) else data) of
        Doc (JObj kvs) \<Rightarrow> update_company ident (\<lambda>c. c\<lparr>co_data := JObj kvs\<rparr>) db
      | _ \<Rightarrow> (Inl (CompanyInvalid ''company data must be a valid JSON object''), db))"

text \<open>A record to write, whose data is text.\<close>

record company_record =
  cr_id :: string
  cr_name :: string
  cr_ou_handle :: string
  cr_has_cha :: bool
  cr_data :: raw_message

definition row_of :: "company_record \<Rightarrow> json \<Rightarrow> company" where
  "row_of r data = \<lparr>co_id = cr_id r, co_name = cr_name r,
     co_ou_handle = (if cr_ou_handle r = [] then cr_id r else cr_ou_handle r), co_has_cha = cr_has_cha r, co_data = data\<rparr>"

definition UpsertCompany :: "company_record \<Rightarrow> profile_db \<Rightarrow> (company_error + unit) \<times> profile_db" where
  "UpsertCompany r db =
     (if cr_id r = [] then (Inl ErrInvalidCompanyID, db)
      else if cr_name r = [] then (Inl (CompanyInvalid ''company name is required''), db)
      else case pd_fault db of
        Some e \<Rightarrow> (Inl (CompanyDb e), db)
      | None \<Rightarrow>
          (case (if cr_data r = NoBytes then Doc (JObj []) else cr_data r) of
             Doc data \<Rightarrow>
               (let row = row_of r data;
                    rows = (if list_ex (\<lambda>c. co_id c = cr_id r) (pd_companies db)
                            then map (\<lambda>c. if co_id c = cr_id r then row else c) (pd_companies db)
                            else pd_companies db @ [row])
                in if \<not> distinct (map co_ou_handle rows) then (Inl ErrOUHandleConflict, db)
                   else (Inr (), db\<lparr>pd_companies := rows\<rparr>))
           | _ \<Rightarrow> (Inl (CompanyDb ''invalid input syntax for type json''), db)))"

definition CreateCompany :: "company_record \<Rightarrow> profile_db \<Rightarrow> (company_error + unit) \<times> profile_db" where
  "CreateCompany r db =
     (if cr_id r = [] then (Inl ErrInvalidCompanyID, db)
      else if cr_name r = [] then (Inl (CompanyInvalid ''company name is required''), db)
      else case pd_fault db of
        Some e \<Rightarrow> (Inl (CompanyDb e), db)
      | None \<Rightarrow>
          (case (if cr_data r = NoBytes then Doc (JObj []) else cr_data r) of
             Doc data \<Rightarrow>
               (let rows = pd_companies db @ [row_of r data]
                in if \<not> distinct (map co_id rows) \<or> \<not> distinct (map co_ou_handle rows)
                   then (Inl (CompanyDb ''duplicate key value violates unique constraint''), db)
                   else (Inr (), db\<lparr>pd_companies := rows\<rparr>))
           | _ \<Rightarrow> (Inl (CompanyDb ''invalid input syntax for type json''), db)))"

subsection \<open>Listing companies\<close>

text \<open>SQL's LIKE with an escape character; a pattern ending in it matches nothing.\<close>

function (sequential) like :: "char \<Rightarrow> string \<Rightarrow> string \<Rightarrow> bool" where
  "like e [] s = (s = [])"
| "like e (p # ps) s =
     (if p = e then
        (case ps of [] \<Rightarrow> False | q # qs \<Rightarrow> (case s of [] \<Rightarrow> False | c # cs \<Rightarrow> c = q \<and> like e qs cs))
      else if p = CHR ''%'' then like e ps s \<or> (case s of [] \<Rightarrow> False | c # cs \<Rightarrow> like e (p # ps) cs)
      else if p = CHR ''_'' then (case s of [] \<Rightarrow> False | c # cs \<Rightarrow> like e ps cs)
      else (case s of [] \<Rightarrow> False | c # cs \<Rightarrow> c = p \<and> like e ps cs))"
  by pat_completeness auto
termination by (relation "measure (\<lambda>(e, p, s). length p + length s)") auto

definition backslash :: char where
  "backslash = CHR 0x5C"

definition ilike :: "(string \<Rightarrow> string) \<Rightarrow> string \<Rightarrow> string \<Rightarrow> bool" where
  "ilike lower pattern s = like backslash (lower pattern) (lower s)"

record company_filter =
  cl_has_cha :: "bool option"
  cl_name :: "string option"
  cl_offset :: "int option"
  cl_limit :: "int option"

record company_page =
  cp_items :: "(string \<times> string \<times> bool) list"
  cp_total :: nat
  cp_offset :: nat
  cp_limit :: nat

definition company_matches :: "(string \<Rightarrow> string) \<Rightarrow> company_filter \<Rightarrow> company \<Rightarrow> bool" where
  "company_matches lower flt c \<longleftrightarrow>
     (case cl_has_cha flt of None \<Rightarrow> True | Some b \<Rightarrow> co_has_cha c = b) \<and>
     (case cl_name flt of None \<Rightarrow> True
      | Some n \<Rightarrow> trim_space n = [] \<or> ilike lower (''%'' @ trim_space n @ ''%'') (co_name c))"

text \<open>\<open>page\<close> resolves the offset and limit asked for.\<close>

definition ListCompanies ::
    "(string \<Rightarrow> string) \<Rightarrow> (int option \<Rightarrow> int option \<Rightarrow> nat \<times> nat) \<Rightarrow> company_filter \<Rightarrow> profile_db \<Rightarrow> company_error + company_page" where
  "ListCompanies lower page flt db =
     (case pd_fault db of
        Some e \<Rightarrow> Inl (CompanyDb e)
      | None \<Rightarrow>
          (let (off, lmt) = page (cl_offset flt) (cl_limit flt);
               hits = filter (company_matches lower flt) (pd_companies db);
               items = take lmt (drop off (sort_key co_name hits))
           in Inr \<lparr>cp_items = map (\<lambda>c. (co_id c, co_name c, co_has_cha c)) items,
                   cp_total = (if length items < lmt \<and> off = 0 then length items else length hits),
                   cp_offset = off, cp_limit = lmt\<rparr>))"

text \<open>A name is not matched as text: its own wildcards are the pattern's.\<close>

lemma company_name_wildcard: "company_matches lower_text \<lparr>cl_has_cha = None, cl_name = Some ''a_c'', cl_offset = None, cl_limit = None\<rparr>
    \<lparr>co_id = ''c1'', co_name = ''abc'', co_ou_handle = ''abc'', co_has_cha = False, co_data = JObj []\<rparr>"
  if "lower_text = map lower_ascii"
  unfolding that by code_simp

subsection \<open>Users\<close>

datatype user_error = ErrUserNotFound | ErrInvalidUserID | UserDb string

definition GetUser :: "string \<Rightarrow> profile_db \<Rightarrow> user_error + user_row" where
  "GetUser ident db =
     (if ident = [] then Inl ErrInvalidUserID
      else case pd_fault db of
        Some e \<Rightarrow> Inl (UserDb e)
      | None \<Rightarrow> (case List.find (\<lambda>u. us_id u = ident) (pd_users db) of None \<Rightarrow> Inl ErrUserNotFound | Some u \<Rightarrow> Inr u))"

definition getUserIDByIDP :: "string \<Rightarrow> profile_db \<Rightarrow> user_error + string option" where
  "getUserIDByIDP idp db =
     (if idp = [] then Inl ErrInvalidUserID
      else case pd_fault db of
        Some e \<Rightarrow> Inl (UserDb e)
      | None \<Rightarrow> Inr (map_option us_id (List.find (\<lambda>u. us_idp_user_id u = idp) (pd_users db))))"

text \<open>
  The insert that does nothing when the identity is known; \<open>False\<close> is no row affected. A
  repeated \<open>id\<close> is an error.
\<close>

definition insert_user :: "user_row \<Rightarrow> profile_db \<Rightarrow> (user_error + bool) \<times> profile_db" where
  "insert_user u db =
     (case pd_fault db of
        Some e \<Rightarrow> (Inl (UserDb e), db)
      | None \<Rightarrow>
          if us_id u \<in> set (map us_id (pd_users db)) then (Inl (UserDb ''duplicate key value violates unique constraint''), db)
          else if us_idp_user_id u \<in> set (map us_idp_user_id (pd_users db)) then (Inr False, db)
          else (Inr True, db\<lparr>pd_users := pd_users db @ [u]\<rparr>))"

text \<open>\<open>others n\<close> is what other requests do just before the \<open>n\<close>-th statement.\<close>

definition GetOrCreateUser :: "(nat \<Rightarrow> profile_db \<Rightarrow> profile_db) \<Rightarrow> string \<Rightarrow> user_row \<Rightarrow> profile_db \<Rightarrow> (user_error + string) \<times> profile_db" where
  "GetOrCreateUser others uuid u db =
     (if us_idp_user_id u = [] then (Inl ErrInvalidUserID, db)
      else let db1 = others 0 db in
        case getUserIDByIDP (us_idp_user_id u) db1 of
          Inl e \<Rightarrow> (Inl e, db1)
        | Inr (Some ident) \<Rightarrow> (Inr ident, db1)
        | Inr None \<Rightarrow>
            (case insert_user (u\<lparr>us_id := uuid, us_data := Doc (JObj [])\<rparr>) (others 1 db1) of
               (Inl e, db2) \<Rightarrow> (Inl e, db2)
             | (Inr True, db2) \<Rightarrow> (Inr uuid, db2)
             | (Inr False, db2) \<Rightarrow>
                 (let db3 = others 2 db2 in
                  case getUserIDByIDP (us_idp_user_id u) db3 of
                    Inl e \<Rightarrow> (Inl e, db3)
                  | Inr (Some ident) \<Rightarrow> (Inr ident, db3)
                  | Inr None \<Rightarrow> (Inl (UserDb ''user record insert skipped but existing record not found''), db3))))"

definition UpdateUserData :: "string \<Rightarrow> raw_message \<Rightarrow> profile_db \<Rightarrow> (user_error + unit) \<times> profile_db" where
  "UpdateUserData ident data db =
     (if ident = [] then (Inl ErrInvalidUserID, db)
      else case pd_fault db of
        Some e \<Rightarrow> (Inl (UserDb e), db)
      | None \<Rightarrow>
          if (case data of Doc _ \<Rightarrow> False | _ \<Rightarrow> True) then (Inl (UserDb ''invalid input syntax for type json''), db)
          else if \<not> list_ex (\<lambda>u. us_id u = ident) (pd_users db) then (Inl ErrUserNotFound, db)
          else (Inr (), db\<lparr>pd_users := map (\<lambda>u. if us_id u = ident then u\<lparr>us_data := data\<rparr> else u) (pd_users db)\<rparr>))"

subsection \<open>Customs house agents\<close>

datatype cha_error = ErrCHANotFound | ErrInvalidCHAID | ErrInvalidEmail | CHADb string

definition first_cha :: "(cha_row \<Rightarrow> bool) \<Rightarrow> profile_db \<Rightarrow> cha_error + cha_row" where
  "first_cha p db =
     (case pd_fault db of
        Some e \<Rightarrow> Inl (CHADb e)
      | None \<Rightarrow> (case List.find p (pd_chas db) of None \<Rightarrow> Inl ErrCHANotFound | Some c \<Rightarrow> Inr c))"

definition cha_GetByID :: "string \<Rightarrow> profile_db \<Rightarrow> cha_error + cha_row" where
  "cha_GetByID ident db = (if ident = [] then Inl ErrInvalidCHAID else first_cha (\<lambda>c. ch_id c = ident) db)"

definition cha_GetByEmail :: "string \<Rightarrow> profile_db \<Rightarrow> cha_error + cha_row" where
  "cha_GetByEmail email db = (if email = [] then Inl ErrInvalidEmail else first_cha (\<lambda>c. ch_email c = email) db)"

definition cha_List :: "profile_db \<Rightarrow> cha_error + cha_row list" where
  "cha_List db = (case pd_fault db of Some e \<Rightarrow> Inl (CHADb e) | None \<Rightarrow> Inr (sort_key ch_name (pd_chas db)))"

subsection \<open>Unique columns\<close>

definition profiles_ok :: "profile_db \<Rightarrow> bool" where
  "profiles_ok db = (distinct (map co_id (pd_companies db)) \<and> distinct (map co_ou_handle (pd_companies db)) \<and>
     distinct (map us_id (pd_users db)) \<and> distinct (map us_idp_user_id (pd_users db)))"

lemma find_unique:
  "distinct (map k rows) \<Longrightarrow> r \<in> set rows \<Longrightarrow> List.find (\<lambda>x. k x = k r) rows = Some r"
  by (induction rows) (auto simp: rev_image_eqI)

lemma map_update_keys: "(\<And>c. k (f c) = k c) \<Longrightarrow> map k (map (\<lambda>c. if p c then f c else c) rows) = map k rows"
  by simp

lemma update_company_ok:
  "profiles_ok db \<Longrightarrow> (\<And>c. co_id (f c) = co_id c) \<Longrightarrow> profiles_ok (snd (update_company ident f db))"
  by (auto simp: update_company_def profiles_ok_def Let_def map_update_keys simp del: map_map split: option.splits)

lemma distinct_replace:
  "distinct (map co_id rows) \<Longrightarrow> co_id row = i \<Longrightarrow> distinct (map co_id (map (\<lambda>c. if co_id c = i then row else c) rows))"
proof -
  assume d: "distinct (map co_id rows)" and i: "co_id row = i"
  have "map co_id (map (\<lambda>c. if co_id c = i then row else c) rows) = map co_id rows" using i by auto
  with d show ?thesis by (simp only:)
qed

lemma row_of_id [simp]: "co_id (row_of r d) = cr_id r"
  by (simp add: row_of_def)

lemma UpsertCompany_ok: "profiles_ok db \<Longrightarrow> profiles_ok (snd (UpsertCompany r db))"
proof -
  assume ok: "profiles_ok db"
  have "distinct (map co_id (map (\<lambda>c. if co_id c = cr_id r then row_of r d else c) (pd_companies db)))" for d
    using ok by (intro distinct_replace) (simp_all add: profiles_ok_def)
  with ok show ?thesis
    by (auto simp: UpsertCompany_def profiles_ok_def Let_def list_ex_iff simp del: map_map
        split: option.splits raw_message.splits if_splits)
qed

lemma CreateCompany_ok: "profiles_ok db \<Longrightarrow> profiles_ok (snd (CreateCompany r db))"
  by (auto simp: CreateCompany_def profiles_ok_def Let_def simp del: distinct_append split: option.splits raw_message.splits)

lemma insert_user_ok: "profiles_ok db \<Longrightarrow> profiles_ok (snd (insert_user u db))"
  by (auto simp: insert_user_def profiles_ok_def split: option.splits)

lemma UpdateUserData_ok: "profiles_ok db \<Longrightarrow> profiles_ok (snd (UpdateUserData i d db))"
  by (simp add: UpdateUserData_def profiles_ok_def map_update_keys del: map_map split: option.splits raw_message.splits)

text \<open>What any statement of the services does to the tables, and faults coming and going.\<close>

inductive profile_step :: "profile_db \<Rightarrow> profile_db \<Rightarrow> bool" where
  update_data: "profile_step db (snd (UpdateCompany i d db))"
| update_fields: "profile_step db (snd (UpdateCompanyFields i upd db))"
| replace_data: "profile_step db (snd (ReplaceCompanyData i raw db))"
| upsert: "profile_step db (snd (UpsertCompany r db))"
| create: "profile_step db (snd (CreateCompany r db))"
| new_user: "profile_step db (snd (insert_user u db))"
| user_data: "profile_step db (snd (UpdateUserData i raw db))"
| fault: "profile_step db (db\<lparr>pd_fault := e\<rparr>)"

lemma profile_step_ok: "profile_step db db' \<Longrightarrow> profiles_ok db \<Longrightarrow> profiles_ok db'"
proof (induction rule: profile_step.induct)
  case (update_data db i d)
  then show ?case by (simp add: UpdateCompany_def update_company_ok)
next
  case (update_fields db i upd)
  then show ?case by (simp add: UpdateCompanyFields_def update_company_ok)
next
  case (replace_data db i raw)
  then show ?case by (simp add: ReplaceCompanyData_def update_company_ok split: raw_message.splits json.splits)
qed (simp_all add: UpsertCompany_ok CreateCompany_ok insert_user_ok UpdateUserData_ok, simp add: profiles_ok_def)

lemma profile_steps_ok: "profile_step\<^sup>*\<^sup>* db db' \<Longrightarrow> profiles_ok db \<Longrightarrow> profiles_ok db'"
  by (induction rule: rtranclp_induct) (auto dest: profile_step_ok)

text \<open>A user record is never removed and never changes its identity.\<close>

definition has_user :: "profile_db \<Rightarrow> string \<Rightarrow> string \<Rightarrow> bool" where
  "has_user db idp ident = (\<exists>u \<in> set (pd_users db). us_idp_user_id u = idp \<and> us_id u = ident)"

lemma has_user_keys: "has_user db idp ident \<longleftrightarrow> (idp, ident) \<in> set (map (\<lambda>u. (us_idp_user_id u, us_id u)) (pd_users db))"
  by (auto simp: has_user_def)

lemma profile_step_users: "profile_step db db' \<Longrightarrow> has_user db idp ident \<Longrightarrow> has_user db' idp ident"
proof (induction rule: profile_step.induct)
  case (user_data db i raw)
  then show ?case
    by (simp add: has_user_keys UpdateUserData_def map_update_keys del: map_map set_map split: option.splits raw_message.splits)
qed (auto simp: has_user_def UpdateCompany_def UpdateCompanyFields_def ReplaceCompanyData_def update_company_def UpsertCompany_def
      CreateCompany_def insert_user_def Let_def split: option.splits raw_message.splits json.splits)

lemma profile_steps_users: "profile_step\<^sup>*\<^sup>* db db' \<Longrightarrow> has_user db idp ident \<Longrightarrow> has_user db' idp ident"
  by (induction rule: rtranclp_induct) (auto dest: profile_step_users)

lemma user_unique: "profiles_ok db \<Longrightarrow> has_user db idp a \<Longrightarrow> has_user db idp b \<Longrightarrow> a = b"
  unfolding has_user_def profiles_ok_def by (metis distinct_map inj_onD)

lemma getUserIDByIDP_has: "getUserIDByIDP idp db = Inr (Some ident) \<Longrightarrow> has_user db idp ident"
  by (auto simp: getUserIDByIDP_def has_user_def split: if_splits option.splits dest: find_SomeD)

text \<open>C19: The columns IDs and handles are looked up by stay unique over any history of profile
  calls, and a first request of a user, whatever requests run between its statements, answers
  the ID of the one record that user of the identity provider has, from then on.\<close>

theorem one_record_per_identity:
  assumes "profiles_ok db" and "\<And>n v. profile_step\<^sup>*\<^sup>* v (others n v)"
    and "GetOrCreateUser others uuid u db = (Inr ident, db')" and "profile_step\<^sup>*\<^sup>* db' db''"
  shows "profiles_ok db'' \<and> has_user db'' (us_idp_user_id u) ident \<and>
    (\<forall>other. has_user db'' (us_idp_user_id u) other \<longrightarrow> other = ident)"
proof -
  have ins: "profile_step\<^sup>*\<^sup>* v (snd (insert_user w v))" for v w
    by (rule r_into_rtranclp) (rule profile_step.new_user)
  let ?w = "u\<lparr>us_id := uuid, us_data := Doc (JObj [])\<rparr>" and ?v0 = "others 0 db"
  let ?v1 = "others 1 ?v0"
  let ?v2 = "snd (insert_user ?w ?v1)"
  have r1: "profile_step\<^sup>*\<^sup>* db ?v0" and r2: "profile_step\<^sup>*\<^sup>* db ?v2" and r3: "profile_step\<^sup>*\<^sup>* db (others 2 ?v2)"
    using assms(2) ins by (meson rtranclp_trans)+
  have inserted: "has_user ?v2 (us_idp_user_id u) uuid" if "fst (insert_user ?w ?v1) = Inr True"
    using that by (auto simp: insert_user_def has_user_def split: option.splits if_splits)
  have "profile_step\<^sup>*\<^sup>* db db' \<and> has_user db' (us_idp_user_id u) ident"
    using assms(3) r1 r2 r3 inserted getUserIDByIDP_has
    by (auto simp: GetOrCreateUser_def Let_def split: if_splits sum.splits option.splits prod.splits bool.splits)
  then have reach: "profile_step\<^sup>*\<^sup>* db db'" and user: "has_user db' (us_idp_user_id u) ident" by blast+
  have "profiles_ok db''" using profile_steps_ok [OF rtranclp_trans [OF reach assms(4)] assms(1)] .
  moreover have "has_user db'' (us_idp_user_id u) ident" using profile_steps_users [OF assms(4) user] .
  ultimately show ?thesis using user_unique by blast
qed

subsection \<open>Merging company data\<close>

lemma map_of_puts:
  "distinct (map fst data) \<Longrightarrow> map_of (fold (\<lambda>(k, v). obj_put k v) data old) key = (case map_of data key of None \<Rightarrow> map_of old key | Some v \<Rightarrow> Some v)"
proof (induction data arbitrary: old)
  case (Cons kv data)
  have "map_of data (fst kv) = None" using Cons.prems by (simp add: map_of_eq_None_iff)
  then show ?case using Cons by (cases kv) (auto split: option.splits)
qed simp

lemma find_map_update:
  "(\<And>c. p (f c) = p c) \<Longrightarrow> List.find p (map (\<lambda>c. if p c then f c else c) rows) = map_option f (List.find p rows)"
  by (induction rows) auto

lemma find_map_other:
  "(\<And>c. q (f c) = q c) \<Longrightarrow> (\<And>c. q c \<Longrightarrow> \<not> p c) \<Longrightarrow> List.find q (map (\<lambda>c. if p c then f c else c) rows) = List.find q rows"
  by (induction rows) auto

text \<open>A recorded merge of a company's data sets every key it gives and keeps every other key of
  the data, and of the company, and leaves every other company as it was.\<close>

theorem company_merge_keeps_keys:
  assumes "UpdateCompany i data db = (Inr (), db')" and "data \<noteq> []" and "distinct (map fst data)"
    and "GetCompanyByID i db = Inr c" and "co_data c = JObj old"
  shows "\<exists>new. GetCompanyByID i db' = Inr (c\<lparr>co_data := JObj new\<rparr>) \<and>
    (\<forall>key. obj_get new key = (case obj_get data key of None \<Rightarrow> obj_get old key | Some v \<Rightarrow> Some v)) \<and>
    (\<forall>other. other \<noteq> i \<longrightarrow> GetCompanyByID other db' = GetCompanyByID other db)"
proof -
  let ?f = "\<lambda>c. c\<lparr>co_data := jsonb_concat (co_data c) (JObj data)\<rparr>"
  from assms(1,2) have i: "i \<noteq> []" "pd_fault db = None"
    and db': "db' = db\<lparr>pd_companies := map (\<lambda>c. if co_id c = i then ?f c else c) (pd_companies db)\<rparr>"
    by (auto simp: UpdateCompany_def update_company_def Let_def split: if_splits option.splits)
  have "List.find (\<lambda>c. co_id c = i) (pd_companies db) = Some c"
    using assms(4) i by (auto simp: GetCompanyByID_def company_getByID_def first_company_def split: option.splits)
  then have "GetCompanyByID i db' = Inr (c\<lparr>co_data := JObj (fold (\<lambda>(k, v). obj_put k v) data old)\<rparr>)"
    using i assms(5) by (simp add: db' GetCompanyByID_def company_getByID_def first_company_def find_map_update)
  moreover have "GetCompanyByID other db' = GetCompanyByID other db" if "other \<noteq> i" for other
    using that by (simp add: db' GetCompanyByID_def company_getByID_def first_company_def find_map_other split: option.splits)
  ultimately show ?thesis using map_of_puts [OF assms(3), of old]
    by (intro exI [of _ "fold (\<lambda>(k, v). obj_put k v) data old"]) (simp add: obj_get_def split: option.split)
qed

subsection \<open>Witnesses\<close>

definition demo_profiles :: profile_db where
  "demo_profiles = \<lparr>pd_companies = [\<lparr>co_id = ''c1'', co_name = ''Acme'', co_ou_handle = ''acme'', co_has_cha = False,
     co_data = JObj [(''tin'', JStr ''1'')]\<rparr>], pd_users = [], pd_chas = [], pd_fault = None\<rparr>"

definition demo_new_user :: user_row where
  "demo_new_user = \<lparr>us_id = [], us_idp_user_id = ''sub-1'', us_email = [], us_phone = [], us_ou_id = [], us_ou_handle = ''acme'', us_data = NoBytes\<rparr>"

theorem one_record_per_identity_witness:
  "has_user (snd (GetOrCreateUser (\<lambda>_ v. v) ''u1'' demo_new_user demo_profiles)) ''sub-1'' ''u1''"
proof -
  let ?r = "GetOrCreateUser (\<lambda>_ v. v) ''u1'' demo_new_user demo_profiles"
  have "profiles_ok demo_profiles" by (simp add: profiles_ok_def demo_profiles_def)
  moreover have "fst ?r = Inr ''u1''" by code_simp
  ultimately show ?thesis
    using one_record_per_identity [of demo_profiles "\<lambda>_ v. v" "''u1''" demo_new_user "''u1''" "snd ?r" "snd ?r"]
    by (cases ?r) (simp add: demo_new_user_def)
qed

theorem company_merge_keeps_keys_witness:
  "\<exists>new. GetCompanyByID ''c1'' (snd (UpdateCompany ''c1'' [(''vat'', JStr ''2'')] demo_profiles)) =
     Inr ((hd (pd_companies demo_profiles))\<lparr>co_data := JObj new\<rparr>) \<and> obj_get new ''tin'' = Some (JStr ''1'')"
proof -
  let ?r = "UpdateCompany ''c1'' [(''vat'', JStr ''2'')] demo_profiles"
  have "fst ?r = Inr ()" by code_simp
  then have r: "?r = (Inr (), snd ?r)" by (cases ?r) simp
  have "GetCompanyByID ''c1'' demo_profiles = Inr (hd (pd_companies demo_profiles))"
    by (simp add: GetCompanyByID_def company_getByID_def first_company_def demo_profiles_def)
  from company_merge_keeps_keys [OF r _ _ this, of "[(''tin'', JStr ''1'')]"] obtain new where
    "GetCompanyByID ''c1'' (snd ?r) = Inr ((hd (pd_companies demo_profiles))\<lparr>co_data := JObj new\<rparr>)"
    "\<forall>key. obj_get new key = (case obj_get [(''vat'', JStr ''2'')] key of None \<Rightarrow> obj_get [(''tin'', JStr ''1'')] key | Some v \<Rightarrow> Some v)"
    by (auto simp: demo_profiles_def)
  then show ?thesis by (intro exI [of _ new]) (simp add: obj_get_def)
qed

end
