(* ===== verification/Consignments.thy ===== *)
theory Consignments
  imports Client_Flows Profiles Task_Claims
begin

text \<open>
  \<open>internal/consignment\<close>, with \<open>caseflow/view.go\<close>: consignments, who may see them and start
  flows on them. A consignment is a row of its own table joined to its case, the OUs that are
  its trader and CHA parties and the companies of those OUs. The case tables and the engine are
  \<open>Case_Flows\<close>, companies and users \<open>Profiles\<close>; pagination, the tasks of a case, the names of
  workflow definitions and lowering of text are parameters, and \<open>cw_fault\<close> is the error reads
  of the consignment tables fail with, if any. Timestamps are kept for the order of creation
  only. Characters are bytes, so an unescaped \<open>_\<close> in a LIKE pattern is one byte here.
\<close>

subsection \<open>Rows and what is read of them\<close>

record consignment_row =
  cn_id :: string
  cn_flow :: string
  cn_trader_id :: string
  cn_trader_company_id :: string
  cn_cha_company_id :: "string option"
  cn_created :: nat

record consignment_view =
  cv_id :: string
  cv_flow :: string
  cv_created :: nat
  cv_name :: "string option"
  cv_state :: case_state
  cv_trader_id :: string
  cv_trader_company_id :: string
  cv_cha_company_id :: "string option"

record 'def con_world =
  cw_flows :: "'def flow_world"
  cw_rows :: "consignment_row list"
  cw_profiles :: profile_db
  cw_fault :: "string option"

abbreviation partyRoleTrader :: string where "partyRoleTrader \<equiv> ''trader''"
abbreviation partyRoleCHA :: string where "partyRoleCHA \<equiv> ''cha''"
abbreviation FlowImport :: string where "FlowImport \<equiv> ''IMPORT''"
abbreviation FlowExport :: string where "FlowExport \<equiv> ''EXPORT''"

definition Flow_Valid :: "string \<Rightarrow> bool" where
  "Flow_Valid f = (f = FlowImport \<or> f = FlowExport)"

definition State_of :: "string \<Rightarrow> case_state option" where
  "State_of s = (if s = ''IN_PROGRESS'' then Some CaseInProgress else if s = ''FINISHED'' then Some CaseFinished else None)"

definition left_join :: "('a \<Rightarrow> bool) \<Rightarrow> 'a list \<Rightarrow> 'a option list" where
  "left_join p rows = (let hits = filter p rows in if hits = [] then [None] else map Some hits)"

text \<open>The companies of the OU that holds a role of a case.\<close>

definition party_companies :: "'def con_world \<Rightarrow> string \<Rightarrow> string \<Rightarrow> company option list" where
  "party_companies W caseID role =
     concat (map (\<lambda>q. case q of
         None \<Rightarrow> [None]
       | Some pty \<Rightarrow> left_join (\<lambda>c. co_ou_handle c = p_id pty) (pd_companies (cw_profiles W)))
       (left_join (\<lambda>pty. p_case pty = caseID \<and> p_role pty = role \<and> p_type pty = TypeOU) (st_parties (fw_store (cw_flows W)))))"

definition view_row :: "consignment_row \<Rightarrow> case_row \<Rightarrow> company option \<Rightarrow> company option \<Rightarrow> consignment_view" where
  "view_row r k trader cha =
     \<lparr>cv_id = cn_id r, cv_flow = cn_flow r, cv_created = cn_created r, cv_name = c_name k, cv_state = c_state k,
      cv_trader_id = (case c_created_by k of None \<Rightarrow> [] | Some u \<Rightarrow> u),
      cv_trader_company_id = (case trader of None \<Rightarrow> [] | Some c \<Rightarrow> co_id c),
      cv_cha_company_id = map_option co_id cha\<rparr>"

text \<open>The joined rows of one consignment, and of all.\<close>

definition row_views :: "'def con_world \<Rightarrow> consignment_row \<Rightarrow> consignment_view list" where
  "row_views W r =
     concat (map (\<lambda>k. concat (map (\<lambda>trader. map (view_row r k trader)
           (party_companies W (cn_id r) partyRoleCHA)) (party_companies W (cn_id r) partyRoleTrader)))
         (filter (\<lambda>k. c_id k = cn_id r) (st_cases (fw_store (cw_flows W)))))"

definition withCase :: "'def con_world \<Rightarrow> consignment_view list" where
  "withCase W = concat (map (row_views W) (cw_rows W))"

subsection \<open>The service\<close>

record con_task =
  ct_id :: string
  ct_type :: string
  ct_state :: string

record con_env =
  ce_roles :: "(string \<times> string) list"
  ce_user_flows :: user_flows
  ce_has_flows :: bool
  ce_tasks :: "(string \<Rightarrow> string + con_task list) option"
  ce_title :: "con_task \<Rightarrow> string"
  ce_cancelled :: string
  ce_on_hold :: string
  ce_def_name :: "int \<Rightarrow> string \<Rightarrow> string option"
  ce_times :: "company \<Rightarrow> (string \<times> json) list"
  ce_page :: "int option \<Rightarrow> int option \<Rightarrow> nat \<times> nat"
  ce_lower :: "string \<Rightarrow> string"

datatype con_error =
    ErrConsignmentNotFound
  | ErrAccessDenied
  | ErrFlowNotAllowed string
  | ConFailed string
  | ConFlowFailed flow_error
  | ConStoreFailed store_error

definition validateRoles :: "(string \<times> string) list \<Rightarrow> string list + unit" where
  "validateRoles roles = RequireRoles roles [''trader'', ''cha'']"

definition token_role :: "con_env \<Rightarrow> string \<Rightarrow> string" where
  "token_role env name = (case map_of (ce_roles env) name of None \<Rightarrow> [] | Some r \<Rightarrow> r)"

definition fetchConsignmentRecord :: "string \<Rightarrow> 'def con_world \<Rightarrow> con_error + consignment_view" where
  "fetchConsignmentRecord ident W =
     (case cw_fault W of
        Some e \<Rightarrow> Inl (ConFailed e)
      | None \<Rightarrow> (case List.find (\<lambda>v. cv_id v = ident) (withCase W) of None \<Rightarrow> Inl ErrConsignmentNotFound | Some v \<Rightarrow> Inr v))"

definition cha_company :: "consignment_view \<Rightarrow> string" where
  "cha_company v = (case cv_cha_company_id v of None \<Rightarrow> [] | Some c \<Rightarrow> c)"

definition authorize_con :: "con_env \<Rightarrow> consignment_view \<Rightarrow> string \<Rightarrow> string list \<Rightarrow> con_error + string list" where
  "authorize_con env v callerCompanyID callerRoles =
     (if callerCompanyID = [] then Inl ErrAccessDenied
      else let rls =
          (if callerCompanyID = cv_trader_company_id v \<and> token_role env partyRoleTrader \<in> set callerRoles then [partyRoleTrader] else []) @
          (if callerCompanyID = cha_company v \<and> token_role env partyRoleCHA \<in> set callerRoles then [partyRoleCHA] else [])
        in if rls = [] then Inl ErrAccessDenied else Inr rls)"

subsection \<open>Details\<close>

datatype node_state = NodeInProgress | NodeQueuedExternally | NodeCompleted | NodeFailed | NodeCancelled | NodeOnHold

record node_view =
  nv_id :: string
  nv_name :: string
  nv_type :: string
  nv_state :: node_state

record con_detail =
  dt_id :: string
  dt_name :: string
  dt_flow :: string
  dt_state :: case_state
  dt_trader_id :: string
  dt_trader_company_id :: string
  dt_cha_company_id :: string
  dt_nodes :: "node_view list"
  dt_startable :: "(string \<times> string) list"

definition flowOptions :: "user_flow list \<Rightarrow> (string \<times> string) list" where
  "flowOptions flows = map (\<lambda>f. (uf_id f, uf_label f)) flows"

definition node_state_of :: "con_env \<Rightarrow> string \<Rightarrow> node_state" where
  "node_state_of env s =
     (if s = ''COMPLETED'' then NodeCompleted
      else if s = ''FAILED'' then NodeFailed
      else if s = ''QUEUED_EXTERNALLY'' then NodeQueuedExternally
      else if s = ce_cancelled env then NodeCancelled
      else if s = ce_on_hold env then NodeOnHold
      else NodeInProgress)"

definition buildNodeDTOs :: "con_env \<Rightarrow> string \<Rightarrow> con_error + node_view list" where
  "buildNodeDTOs env consignmentID =
     (case ce_tasks env of
        None \<Rightarrow> Inl (ConFailed ''task store not initialized'')
      | Some getTasks \<Rightarrow>
          (case getTasks consignmentID of
             Inl e \<Rightarrow> Inl (ConFailed e)
           | Inr tasks \<Rightarrow> Inr (map (\<lambda>t. \<lparr>nv_id = ct_id t, nv_name = ce_title env t, nv_type = ct_type t, nv_state = node_state_of env (ct_state t)\<rparr>)
               (filter (\<lambda>t. ct_type t \<noteq> ''SYSTEM'') tasks))))"

definition buildConsignmentDetailDTO :: "con_env \<Rightarrow> consignment_view \<Rightarrow> user_flow list \<Rightarrow> con_error + con_detail" where
  "buildConsignmentDetailDTO env v startable =
     (case buildNodeDTOs env (cv_id v) of
        Inl e \<Rightarrow> Inl e
      | Inr nodes \<Rightarrow> Inr \<lparr>dt_id = cv_id v, dt_name = (case cv_name v of None \<Rightarrow> [] | Some n \<Rightarrow> n), dt_flow = cv_flow v, dt_state = cv_state v,
          dt_trader_id = cv_trader_id v, dt_trader_company_id = cv_trader_company_id v, dt_cha_company_id = cha_company v,
          dt_nodes = nodes, dt_startable = flowOptions startable\<rparr>)"

definition GetConsignmentByID :: "con_env \<Rightarrow> string \<Rightarrow> string \<Rightarrow> string list \<Rightarrow> 'def con_world \<Rightarrow> con_error + con_detail" where
  "GetConsignmentByID env ident callerCompanyID callerRoles W =
     (case fetchConsignmentRecord ident W of
        Inl e \<Rightarrow> Inl e
      | Inr v \<Rightarrow>
          (case authorize_con env v callerCompanyID callerRoles of
             Inl e \<Rightarrow> Inl e
           | Inr rls \<Rightarrow> buildConsignmentDetailDTO env v (Startable (ce_user_flows env) rls)))"

subsection \<open>Starting flows\<close>

record flow_view =
  vw_workflow_id :: string
  vw_template_id :: string
  vw_template_name :: string
  vw_status :: flow_status

definition ViewOf :: "con_env \<Rightarrow> flow \<Rightarrow> flow_view" where
  "ViewOf env f =
     \<lparr>vw_workflow_id = fl_workflow_id f, vw_template_id = fl_template_id f,
      vw_template_name = (case ce_def_name env (fl_version f) (fl_template_id f) of
          None \<Rightarrow> fl_template_id f | Some name \<Rightarrow> if name \<noteq> [] then name else fl_template_id f),
      vw_status = fl_status f\<rparr>"

definition companyRecordToMap :: "con_env \<Rightarrow> company \<Rightarrow> (string \<times> json) list" where
  "companyRecordToMap env c =
     [(''id'', JStr (co_id c)), (''name'', JStr (co_name c)), (''ouHandle'', JStr (co_ou_handle c)),
      (''hasCha'', JBool (co_has_cha c)), (''data'', co_data c)] @ ce_times env c"

definition caseAttributes :: "company \<Rightarrow> (string \<times> json) list" where
  "caseAttributes trader = [(''traderCompany'', JObj [(''name'', JStr (co_name trader))])]"

definition SharedCaseAttributes :: "string list" where
  "SharedCaseAttributes = [''traderCompany'']"

text \<open>The start of a flow on a consignment, as the case flow service is asked for it.\<close>

definition consignment_start :: "con_env \<Rightarrow> string \<Rightarrow> string \<Rightarrow> company \<Rightarrow> start_request" where
  "consignment_start env consignmentID templateID trader =
     \<lparr>sr_case_id = consignmentID, sr_template_id = templateID, sr_workflow_id = [],
      sr_vars = Some [(''consignmentId'', JStr consignmentID), (''traderCompany'', JObj (companyRecordToMap env trader))],
      sr_owner = None, sr_case = None\<rparr>"

definition StartConsignmentFlow ::
    "'def core_api \<Rightarrow> con_env \<Rightarrow> string \<Rightarrow> string \<Rightarrow> string \<Rightarrow> string \<Rightarrow> string list \<Rightarrow> 'def con_world \<Rightarrow> (con_error + flow_view) \<times> 'def con_world" where
  "StartConsignmentFlow api env uuid consignmentID templateID callerCompanyID callerRoles W =
     (if \<not> ce_has_flows env then (Inl (ConFailed ''no case flows registered for ConsignmentService''), W)
      else case fetchConsignmentRecord consignmentID W of
        Inl e \<Rightarrow> (Inl e, W)
      | Inr v \<Rightarrow>
     (case authorize_con env v callerCompanyID callerRoles of
        Inl e \<Rightarrow> (Inl e, W)
      | Inr rls \<Rightarrow>
     (case Find_user (ce_user_flows env) templateID rls of
        None \<Rightarrow> (Inl (ErrFlowNotAllowed templateID), W)
      | Some _ \<Rightarrow>
     (case GetCompanyByID (cv_trader_company_id v) (cw_profiles W) of
        Inl _ \<Rightarrow> (Inl (ConFailed ''trader company lookup failed''), W)
      | Inr trader \<Rightarrow>
     (case StartFlow api uuid (consignment_start env consignmentID templateID trader) (cw_flows W) of
        (Inl e, F) \<Rightarrow> (Inl (ConFlowFailed e), W\<lparr>cw_flows := F\<rparr>)
      | (Inr f, F) \<Rightarrow> (Inr (ViewOf env f), W\<lparr>cw_flows := F\<rparr>))))))"

subsection \<open>Creating a consignment\<close>

text \<open>The transaction; \<open>Inl\<close> leaves the tables as they were.\<close>

definition createConsignment :: "consignment_row \<Rightarrow> string \<Rightarrow> 'def con_world \<Rightarrow> con_error + 'def con_world" where
  "createConsignment r traderOUHandle W =
     (let db = fw_store (cw_flows W) in
      case cw_fault W of
        Some e \<Rightarrow> Inl (ConFailed e)
      | None \<Rightarrow>
          if list_ex (\<lambda>r'. cn_id r' = cn_id r) (cw_rows W) \<or> \<not> case_exists (cn_id r) (st_cases db)
          then Inl (ConFailed ''failed to create consignment'')
          else case Assign \<lparr>p_case = cn_id r, p_role = partyRoleTrader, p_type = TypeOU, p_id = traderOUHandle, p_assigned_by = Some (cn_trader_id r)\<rparr>
              \<lparr>parties = st_parties db, party_fault = None\<rparr> of
            (Inl _, _) \<Rightarrow> Inl (ConFailed ''failed to record the consignment's trader'')
          | (Inr _, pdb) \<Rightarrow>
              Inr (W\<lparr>cw_rows := cw_rows W @ [r],
                cw_flows := (cw_flows W)\<lparr>fw_store := db\<lparr>st_parties := parties pdb,
                  st_cases := update_case (cn_id r) (\<lambda>k. k\<lparr>c_created_by := Some (cn_trader_id r)\<rparr>) (st_cases db)\<rparr>\<rparr>\<rparr>))"

definition export_start :: "con_env \<Rightarrow> string \<Rightarrow> string \<Rightarrow> company \<Rightarrow> start_request" where
  "export_start env consignmentID templateID trader =
     \<lparr>sr_case_id = consignmentID, sr_template_id = templateID, sr_workflow_id = [],
      sr_vars = Some [(''traderCompany'', JObj (companyRecordToMap env trader))],
      sr_owner = None, sr_case = Some \<lparr>ci_attributes = caseAttributes trader, ci_name = []\<rparr>\<rparr>"

text \<open>\<open>ident\<close> and \<open>uuid\<close> are the new IDs of the consignment and of its flow, \<open>now\<close> the clock.\<close>

definition CreateAndStartConsignment ::
    "'def core_api \<Rightarrow> con_env \<Rightarrow> string \<Rightarrow> string \<Rightarrow> nat \<Rightarrow> string \<Rightarrow> string \<Rightarrow> 'def con_world \<Rightarrow> (con_error + con_detail) \<times> 'def con_world" where
  "CreateAndStartConsignment api env ident uuid now traderID templateID W =
     (case GetUser traderID (cw_profiles W) of
        Inl _ \<Rightarrow> (Inl (ConFailed ''trader user lookup failed''), W)
      | Inr traderUser \<Rightarrow>
     (case GetCompanyByOUHandle (us_ou_handle traderUser) (cw_profiles W) of
        Inl _ \<Rightarrow> (Inl (ConFailed ''trader company lookup failed''), W)
      | Inr trader \<Rightarrow>
     (case ca_load api (ca_current api) templateID of
        Inl _ \<Rightarrow> (Inl (ConFailed ''failed to get workflow template''), W)
      | Inr _ \<Rightarrow>
      if \<not> ce_has_flows env then (Inl (ConFailed ''no case flows registered for ConsignmentService''), W)
      else case repo_call api (EnsureCase ident) (cw_flows W) of
        (Inl e, F) \<Rightarrow> (Inl (ConStoreFailed e), W\<lparr>cw_flows := F\<rparr>)
      | (Inr _, F) \<Rightarrow>
     (case createConsignment \<lparr>cn_id = ident, cn_flow = FlowExport, cn_trader_id = traderID, cn_trader_company_id = co_id trader, cn_cha_company_id = None, cn_created = now\<rparr>
          (co_ou_handle trader) (W\<lparr>cw_flows := F\<rparr>) of
        Inl e \<Rightarrow> (Inl e, W\<lparr>cw_flows := F\<rparr>)
      | Inr W1 \<Rightarrow>
     (case StartFlow api uuid (export_start env ident templateID trader) (cw_flows W1) of
        (Inl e, F2) \<Rightarrow> (Inl (ConFlowFailed e), W1\<lparr>cw_flows := F2\<rparr>)
      | (Inr _, F2) \<Rightarrow>
     (case fetchConsignmentRecord ident (W1\<lparr>cw_flows := F2\<rparr>) of
        Inl e \<Rightarrow> (Inl e, W1\<lparr>cw_flows := F2\<rparr>)
      | Inr v \<Rightarrow> (buildConsignmentDetailDTO env v (Startable (ce_user_flows env) [partyRoleTrader]), W1\<lparr>cw_flows := F2\<rparr>)))))))"

subsection \<open>The admin's view\<close>

definition flowDTOs :: "con_env \<Rightarrow> string \<Rightarrow> 'def con_world \<Rightarrow> (con_error + flow_view list) \<times> 'def con_world" where
  "flowDTOs env ident W =
     (if \<not> ce_has_flows env then (Inl (ConFailed ''no case flows registered for ConsignmentService''), W)
      else case ListByCase ident (fw_store (cw_flows W)) of
        (Inl e, db) \<Rightarrow> (Inl (ConStoreFailed e), W\<lparr>cw_flows := (cw_flows W)\<lparr>fw_store := db\<rparr>\<rparr>)
      | (Inr fs, db) \<Rightarrow> (Inr (map (ViewOf env) fs), W\<lparr>cw_flows := (cw_flows W)\<lparr>fw_store := db\<rparr>\<rparr>))"

definition GetConsignmentByIDForAdmin ::
    "con_env \<Rightarrow> string \<Rightarrow> 'def con_world \<Rightarrow> (con_error + con_detail \<times> flow_view list) \<times> 'def con_world" where
  "GetConsignmentByIDForAdmin env ident W =
     (case fetchConsignmentRecord ident W of
        Inl e \<Rightarrow> (Inl e, W)
      | Inr v \<Rightarrow>
     (case buildConsignmentDetailDTO env v (Startable (ce_user_flows env) [partyRoleTrader, partyRoleCHA]) of
        Inl e \<Rightarrow> (Inl e, W)
      | Inr detail \<Rightarrow>
     (case flowDTOs env ident W of
        (Inl e, W1) \<Rightarrow> (Inl e, W1)
      | (Inr fs, W1) \<Rightarrow> (Inr (detail, fs), W1))))"

subsection \<open>Listing\<close>

record con_filter =
  cq_trader_company :: "string option"
  cq_cha_company :: "string option"
  cq_flow :: "string option"
  cq_state :: "case_state option"
  cq_query :: "string option"
  cq_offset :: "int option"
  cq_limit :: "int option"

definition replace_char :: "char \<Rightarrow> string \<Rightarrow> string \<Rightarrow> string" where
  "replace_char c new s = concat (map (\<lambda>d. if d = c then new else [d]) s)"

definition escape_like :: "string \<Rightarrow> string" where
  "escape_like q =
     replace_char CHR ''_'' [backslash, CHR ''_'']
       (replace_char CHR ''%'' [backslash, CHR ''%'']
         (replace_char backslash [backslash, backslash] q))"

definition query_matches :: "con_env \<Rightarrow> string \<Rightarrow> consignment_view \<Rightarrow> bool" where
  "query_matches env q v =
     (let pattern = ''%'' @ ce_lower env (escape_like q) @ ''%'' in
      like backslash pattern (ce_lower env (cv_id v)) \<or>
      (case cv_name v of None \<Rightarrow> False | Some n \<Rightarrow> like backslash pattern (ce_lower env n)))"

text \<open>A trader column that is null is read as an empty ID, which no company has; null equals nothing.\<close>

definition scope_matches :: "con_filter \<Rightarrow> consignment_view \<Rightarrow> bool" where
  "scope_matches flt v =
     (let trader = (\<lambda>c. cv_trader_company_id v = c \<and> c \<noteq> []); cha = (\<lambda>c. cv_cha_company_id v = Some c) in
      case (cq_trader_company flt, cq_cha_company flt) of
        (Some t, Some c) \<Rightarrow> trader t \<or> cha c
      | (Some t, None) \<Rightarrow> trader t
      | (None, Some c) \<Rightarrow> cha c
      | (None, None) \<Rightarrow> False)"

definition row_matches :: "con_env \<Rightarrow> con_filter \<Rightarrow> consignment_view \<Rightarrow> bool" where
  "row_matches env flt v \<longleftrightarrow>
     scope_matches flt v \<and>
     (case cq_state flt of None \<Rightarrow> True | Some s \<Rightarrow> cv_state v = s) \<and>
     (case cq_flow flt of None \<Rightarrow> True | Some f \<Rightarrow> cv_flow v = f) \<and>
     (case cq_query flt of None \<Rightarrow> True | Some q \<Rightarrow> q = [] \<or> query_matches env q v)"

record con_summary =
  sm_view :: consignment_view
  sm_caller_roles :: "string list"

record con_page =
  pg_items :: "con_summary list"
  pg_total :: nat
  pg_offset :: nat
  pg_limit :: nat

definition callerRolesOn :: "string \<Rightarrow> string \<Rightarrow> con_filter \<Rightarrow> string list" where
  "callerRolesOn traderCompanyID chaCompanyID flt =
     (if cq_trader_company flt = Some traderCompanyID then [partyRoleTrader] else []) @
     (if cq_cha_company flt = Some chaCompanyID then [partyRoleCHA] else [])"

definition newest_first :: "consignment_view list \<Rightarrow> consignment_view list" where
  "newest_first vs = rev (sort_key cv_created (rev vs))"

definition listConsignmentsWithBaseQuery :: "con_env \<Rightarrow> con_filter \<Rightarrow> 'def con_world \<Rightarrow> con_error + con_page" where
  "listConsignmentsWithBaseQuery env flt W =
     (case cw_fault W of
        Some e \<Rightarrow> Inl (ConFailed e)
      | None \<Rightarrow>
          (let (off, lmt) = ce_page env (cq_offset flt) (cq_limit flt);
               hits = filter (row_matches env flt) (withCase W);
               page = take lmt (drop off (newest_first hits));
               total = (if length page < lmt \<and> off = 0 then length page else length hits)
           in Inr \<lparr>pg_items = map (\<lambda>v. \<lparr>sm_view = v, sm_caller_roles = callerRolesOn (cv_trader_company_id v) (cha_company v) flt\<rparr>) page,
                   pg_total = total, pg_offset = off, pg_limit = lmt\<rparr>))"

definition ListConsignments :: "con_env \<Rightarrow> con_filter \<Rightarrow> 'def con_world \<Rightarrow> con_error + con_page" where
  "ListConsignments env flt W =
     (if cq_trader_company flt = None \<and> cq_cha_company flt = None
      then Inl (ConFailed ''at least one of TraderCompanyID or CHACompanyID must be set in filter'')
      else listConsignmentsWithBaseQuery env flt W)"

subsection \<open>The routes\<close>

definition errUnauthorized :: string where "errUnauthorized = ''unauthorized''"
definition errConsignmentIDRequired :: string where "errConsignmentIDRequired = ''consignment ID is required''"
definition errInvalidState :: string where "errInvalidState = ''query param state must be IN_PROGRESS or FINISHED''"
definition errInvalidFlow :: string where "errInvalidFlow = ''query param flow must be IMPORT or EXPORT''"
definition errForbiddenRole :: string where "errForbiddenRole = ''caller holds neither the trader nor the cha role''"
definition errTraderRoleRequired :: string where "errTraderRoleRequired = ''creating a consignment requires the trader role''"
definition errCompanyNotFound :: string where "errCompanyNotFound = ''company not found''"
definition errConsignmentNotFound :: string where "errConsignmentNotFound = ''consignment not found''"
definition errConInvalidBody :: string where "errConInvalidBody = ''invalid request body''"
definition errFlowNotAllowed :: string where "errFlowNotAllowed = ''templateId is not a flow that can be started on this consignment''"
definition errConBodyTooLarge :: string where "errConBodyTooLarge = ''request body too large''"

definition con_user :: "principal option \<Rightarrow> reply + principal" where
  "con_user p = (case p of Some q \<Rightarrow> if pr_kind q = KindUser then Inr q else Inl (reply 401 errUnauthorized)
     | None \<Rightarrow> Inl (reply 401 errUnauthorized))"

definition caller_company :: "principal \<Rightarrow> 'def con_world \<Rightarrow> reply + company" where
  "caller_company q W =
     (case GetCompanyByOUHandle (pr_ou_handle q) (cw_profiles W) of
        Inr c \<Rightarrow> Inr c
      | Inl e \<Rightarrow> Inl (if e = ErrCompanyNotFound \<or> e = ErrInvalidCompanyID then reply 403 errCompanyNotFound else reply 500 errInternal))"

definition HandleCreateConsignment ::
    "'def core_api \<Rightarrow> con_env \<Rightarrow> principal option \<Rightarrow> string \<Rightarrow> string \<Rightarrow> nat \<Rightarrow> 'def con_world \<Rightarrow> (reply + con_detail) \<times> 'def con_world" where
  "HandleCreateConsignment api env p ident uuid now W =
     (case con_user p of
        Inl r \<Rightarrow> (Inl r, W)
      | Inr q \<Rightarrow>
          if token_role env partyRoleTrader \<notin> set (pr_roles q) then (Inl (reply 403 errTraderRoleRequired), W)
          else case CreateAndStartConsignment api env ident uuid now (pr_user_id q) ''trade-export'' W of
            (Inl e, W1) \<Rightarrow> (Inl (reply 500 errInternal), W1)
          | (Inr d, W1) \<Rightarrow> (Inr d, W1))"

text \<open>The query parameters; \<open>None\<close> is pagination that does not parse.\<close>

record con_query =
  qp_page :: "(int option \<times> int option) option"
  qp_state :: string
  qp_flow :: string
  qp_q :: string

definition buildConsignmentFilter :: "con_query \<Rightarrow> string + con_filter" where
  "buildConsignmentFilter qp =
     (case qp_page qp of
        None \<Rightarrow> Inl ''invalid pagination parameters''
      | Some (off, lmt) \<Rightarrow>
          if qp_state qp \<noteq> [] \<and> State_of (qp_state qp) = None then Inl errInvalidState
          else if qp_flow qp \<noteq> [] \<and> \<not> Flow_Valid (qp_flow qp) then Inl errInvalidFlow
          else Inr \<lparr>cq_trader_company = None, cq_cha_company = None,
              cq_flow = (if qp_flow qp = [] then None else Some (qp_flow qp)),
              cq_state = (if qp_state qp = [] then None else State_of (qp_state qp)),
              cq_query = (if trim_space (qp_q qp) = [] then None else Some (trim_space (qp_q qp))),
              cq_offset = off, cq_limit = lmt\<rparr>)"

definition HandleGetConsignments :: "con_env \<Rightarrow> principal option \<Rightarrow> con_query \<Rightarrow> 'def con_world \<Rightarrow> reply + con_page" where
  "HandleGetConsignments env p qp W =
     (case con_user p of
        Inl r \<Rightarrow> Inl r
      | Inr q \<Rightarrow>
     (case buildConsignmentFilter qp of
        Inl m \<Rightarrow> Inl (reply 400 m)
      | Inr flt \<Rightarrow>
      let asTrader = token_role env partyRoleTrader \<in> set (pr_roles q);
          asCHA = token_role env partyRoleCHA \<in> set (pr_roles q)
      in if \<not> asTrader \<and> \<not> asCHA then Inl (reply 403 errForbiddenRole)
         else case caller_company q W of
           Inl r \<Rightarrow> Inl r
         | Inr c \<Rightarrow>
             (case ListConsignments env (flt\<lparr>cq_trader_company := (if asTrader then Some (co_id c) else None),
                 cq_cha_company := (if asCHA then Some (co_id c) else None)\<rparr>) W of
                Inl _ \<Rightarrow> Inl (reply 500 errInternal)
              | Inr page \<Rightarrow> Inr page)))"

definition HandleGetConsignmentByID :: "con_env \<Rightarrow> principal option \<Rightarrow> string \<Rightarrow> 'def con_world \<Rightarrow> reply + con_detail" where
  "HandleGetConsignmentByID env p ident W =
     (case con_user p of
        Inl r \<Rightarrow> Inl r
      | Inr q \<Rightarrow>
          if ident = [] then Inl (reply 400 errConsignmentIDRequired)
          else case caller_company q W of
            Inl r \<Rightarrow> Inl r
          | Inr c \<Rightarrow>
              (case GetConsignmentByID env ident (co_id c) (pr_roles q) W of
                 Inr d \<Rightarrow> Inr d
               | Inl ErrAccessDenied \<Rightarrow> Inl (reply 404 errConsignmentNotFound)
               | Inl ErrConsignmentNotFound \<Rightarrow> Inl (reply 404 errConsignmentNotFound)
               | Inl _ \<Rightarrow> Inl (reply 500 errInternal)))"

text \<open>The body of a start: one object of no field but \<open>templateId\<close>, within the size limit.\<close>

datatype start_body = StartTooLarge | StartMalformed | StartDoc json

definition decodeStartFlow :: "start_body \<Rightarrow> reply + string" where
  "decodeStartFlow b =
     (case b of
        StartTooLarge \<Rightarrow> Inl (reply 413 errConBodyTooLarge)
      | StartMalformed \<Rightarrow> Inl (reply 400 errConInvalidBody)
      | StartDoc JNull \<Rightarrow> Inr []
      | StartDoc (JObj kvs) \<Rightarrow>
          if list_ex (\<lambda>(k, _). fold_name k \<noteq> fold_name ''templateId'') kvs then Inl (reply 400 errConInvalidBody)
          else (case field_get kvs ''templateId'' of
             None \<Rightarrow> Inr []
           | Some v \<Rightarrow> (case decode_string v of None \<Rightarrow> Inl (reply 400 errConInvalidBody) | Some t \<Rightarrow> Inr t))
      | StartDoc _ \<Rightarrow> Inl (reply 400 errConInvalidBody))"

definition HandleStartConsignmentFlow ::
    "'def core_api \<Rightarrow> con_env \<Rightarrow> principal option \<Rightarrow> string \<Rightarrow> string \<Rightarrow> start_body \<Rightarrow> 'def con_world \<Rightarrow> (reply + flow_view) \<times> 'def con_world" where
  "HandleStartConsignmentFlow api env p uuid ident b W =
     (case con_user p of
        Inl r \<Rightarrow> (Inl r, W)
      | Inr q \<Rightarrow>
          if ident = [] then (Inl (reply 400 errConsignmentIDRequired), W)
          else case decodeStartFlow b of
            Inl r \<Rightarrow> (Inl r, W)
          | Inr templateID \<Rightarrow>
         (case caller_company q W of
            Inl r \<Rightarrow> (Inl r, W)
          | Inr c \<Rightarrow>
              (case StartConsignmentFlow api env uuid ident templateID (co_id c) (pr_roles q) W of
                 (Inr f, W1) \<Rightarrow> (Inr f, W1)
               | (Inl (ErrFlowNotAllowed _), W1) \<Rightarrow> (Inl (reply 400 errFlowNotAllowed), W1)
               | (Inl ErrAccessDenied, W1) \<Rightarrow> (Inl (reply 404 errConsignmentNotFound), W1)
               | (Inl ErrConsignmentNotFound, W1) \<Rightarrow> (Inl (reply 404 errConsignmentNotFound), W1)
               | (Inl _, W1) \<Rightarrow> (Inl (reply 500 errInternal), W1))))"

definition HandleAdminGetConsignmentByID ::
    "con_env \<Rightarrow> principal option \<Rightarrow> string \<Rightarrow> 'def con_world \<Rightarrow> (reply + con_detail \<times> flow_view list) \<times> 'def con_world" where
  "HandleAdminGetConsignmentByID env p ident W =
     (case con_user p of
        Inl r \<Rightarrow> (Inl r, W)
      | Inr _ \<Rightarrow>
          if ident = [] then (Inl (reply 400 errConsignmentIDRequired), W)
          else case GetConsignmentByIDForAdmin env ident W of
            (Inr d, W1) \<Rightarrow> (Inr d, W1)
          | (Inl ErrConsignmentNotFound, W1) \<Rightarrow> (Inl (reply 404 errConsignmentNotFound), W1)
          | (Inl _, W1) \<Rightarrow> (Inl (reply 500 errInternal), W1))"

subsection \<open>Access\<close>

definition owned_roles :: "con_env \<Rightarrow> consignment_view \<Rightarrow> string \<Rightarrow> string list \<Rightarrow> string list" where
  "owned_roles env v company roles =
     (if company \<noteq> [] \<and> company = cv_trader_company_id v \<and> token_role env partyRoleTrader \<in> set roles then [partyRoleTrader] else []) @
     (if company \<noteq> [] \<and> company = cha_company v \<and> token_role env partyRoleCHA \<in> set roles then [partyRoleCHA] else [])"

lemma authorize_owned:
  "authorize_con env v company roles = (if owned_roles env v company roles = [] then Inl ErrAccessDenied else Inr (owned_roles env v company roles))"
  by (auto simp: authorize_con_def owned_roles_def Let_def)

lemma cha_company_iff: "company \<noteq> [] \<Longrightarrow> company = cha_company v \<longleftrightarrow> cv_cha_company_id v = Some company"
  by (auto simp: cha_company_def split: option.splits)

definition scope_for :: "con_env \<Rightarrow> string \<Rightarrow> string list \<Rightarrow> con_filter \<Rightarrow> con_filter" where
  "scope_for env company roles flt =
     flt\<lparr>cq_trader_company := (if token_role env partyRoleTrader \<in> set roles then Some company else None),
       cq_cha_company := (if token_role env partyRoleCHA \<in> set roles then Some company else None)\<rparr>"

lemma scope_matches_owned:
  "company \<noteq> [] \<Longrightarrow> scope_matches (scope_for env company roles flt) v \<longleftrightarrow> owned_roles env v company roles \<noteq> []"
  using cha_company_iff [of company v] by (auto simp: scope_matches_def scope_for_def owned_roles_def Let_def)

lemma callerRolesOn_owned:
  "company \<noteq> [] \<Longrightarrow> callerRolesOn (cv_trader_company_id v) (cha_company v) (scope_for env company roles flt) = owned_roles env v company roles"
  by (auto simp: callerRolesOn_def scope_for_def owned_roles_def)

lemma set_newest_first [simp]: "set (newest_first vs) = set vs" "length (newest_first vs) = length vs"
  by (simp_all add: newest_first_def)

text \<open>The state, flow and text a list query asks for.\<close>

definition asked_for :: "con_env \<Rightarrow> con_filter \<Rightarrow> consignment_view \<Rightarrow> bool" where
  "asked_for env flt v \<longleftrightarrow>
     (case cq_state flt of None \<Rightarrow> True | Some s \<Rightarrow> cv_state v = s) \<and>
     (case cq_flow flt of None \<Rightarrow> True | Some f \<Rightarrow> cv_flow v = f) \<and>
     (case cq_query flt of None \<Rightarrow> True | Some q \<Rightarrow> q = [] \<or> query_matches env q v)"

lemma row_matches_owned:
  "company \<noteq> [] \<Longrightarrow> row_matches env (scope_for env company roles flt) v \<longleftrightarrow> owned_roles env v company roles \<noteq> [] \<and> asked_for env flt v"
  using scope_matches_owned [of company env roles flt v] by (simp add: row_matches_def asked_for_def) (simp add: scope_for_def)

lemma con_user_Inr: "con_user p = Inr q \<longleftrightarrow> p = Some q \<and> pr_kind q = KindUser"
  by (auto simp: con_user_def split: option.splits if_splits)


lemma Find_user_iff: "Find_user fs t roles = None \<longleftrightarrow> t \<notin> uf_id ` set (Startable fs roles)"
  by (auto simp: Find_user_def find_None_iff)

lemma flowOptions_ids: "fst ` set (flowOptions fs) = uf_id ` set fs"
  by (force simp: flowOptions_def)

text \<open>The flows a consignment's detail offers the caller are exactly those the start route does
  not refuse them as not startable, and a caller the detail is denied to is denied the start of
  every flow, with nothing changed.\<close>

theorem startable_flows_agree:
  assumes "ce_has_flows env"
  shows "(\<forall>d. GetConsignmentByID env ident company roles W = Inr d \<longrightarrow>
      fst ` set (dt_startable d) = {t. fst (StartConsignmentFlow api env uuid ident t company roles W) \<noteq> Inl (ErrFlowNotAllowed t)}) \<and>
    (GetConsignmentByID env ident company roles W = Inl ErrAccessDenied \<longrightarrow>
      StartConsignmentFlow api env uuid ident t company roles W = (Inl ErrAccessDenied, W))"
proof (intro conjI allI impI)
  fix d assume "GetConsignmentByID env ident company roles W = Inr d"
  then obtain v rls where v: "fetchConsignmentRecord ident W = Inr v" "authorize_con env v company roles = Inr rls"
    and d: "dt_startable d = flowOptions (Startable (ce_user_flows env) rls)"
    by (auto simp: GetConsignmentByID_def buildConsignmentDetailDTO_def split: sum.splits)
  have "fst (StartConsignmentFlow api env uuid ident t company roles W) = Inl (ErrFlowNotAllowed t) \<longleftrightarrow>
      t \<notin> uf_id ` set (Startable (ce_user_flows env) rls)" for t
    using assms v Find_user_iff [of "ce_user_flows env" t rls]
    by (auto simp: StartConsignmentFlow_def split: option.splits sum.splits prod.splits)
  then show "fst ` set (dt_startable d) = {t. fst (StartConsignmentFlow api env uuid ident t company roles W) \<noteq> Inl (ErrFlowNotAllowed t)}"
    by (auto simp: d flowOptions_ids)
next
  assume "GetConsignmentByID env ident company roles W = Inl ErrAccessDenied"
  then obtain v where "fetchConsignmentRecord ident W = Inr v" "authorize_con env v company roles = Inl ErrAccessDenied"
    by (auto simp: GetConsignmentByID_def fetchConsignmentRecord_def buildConsignmentDetailDTO_def buildNodeDTOs_def
        split: sum.splits option.splits)
  then show "StartConsignmentFlow api env uuid ident t company roles W = (Inl ErrAccessDenied, W)"
    using assms by (simp add: StartConsignmentFlow_def)
qed

subsection \<open>Searching\<close>

lemma like_any: "e \<noteq> CHR ''%'' \<Longrightarrow> like e (CHR ''%'' # ps) s \<longleftrightarrow> (\<exists>a b. s = a @ b \<and> like e ps b)"
proof (induction s)
  case (Cons c cs)
  then show ?case by (auto simp: Cons_eq_append_conv)
qed auto

lemma replace_char_append: "replace_char c n (a @ b) = replace_char c n a @ replace_char c n b"
  by (simp add: replace_char_def)

lemma escape_like_Cons:
  "escape_like (c # q) = (if c \<in> {backslash, CHR ''%'', CHR ''_''} then [backslash, c] else [c]) @ escape_like q"
  by (auto simp: escape_like_def replace_char_append backslash_def) (simp_all add: replace_char_def)

lemma like_escaped: "like backslash (escape_like q @ ps) s \<longleftrightarrow> (\<exists>b. s = q @ b \<and> like backslash ps b)"
proof (induction q arbitrary: s)
  case Nil
  then show ?case by (simp add: escape_like_def replace_char_def)
next
  case (Cons c q)
  then show ?case by (cases s) (auto simp: escape_like_Cons backslash_def)
qed

text \<open>A list's search text is matched as it is written: where lowering text and escaping it can be
  done in either order, a consignment matches exactly when its ID or name, lowered, contains the
  lowered text, whatever wildcards of SQL it holds.\<close>

theorem search_is_literal:
  assumes "ce_lower env (escape_like q) = escape_like (ce_lower env q)"
  shows "query_matches env q v \<longleftrightarrow>
    (\<exists>a b. ce_lower env (cv_id v) = a @ ce_lower env q @ b) \<or>
    (\<exists>n a b. cv_name v = Some n \<and> ce_lower env n = a @ ce_lower env q @ b)"
proof -
  have "like backslash (''%'' @ escape_like t @ ''%'') s \<longleftrightarrow> (\<exists>a b. s = a @ t @ b)" for t s
  proof -
    have e: "backslash \<noteq> CHR ''%''" by (simp add: backslash_def)
    have "like backslash ''%'' b" for b by (simp add: like_any [OF e, of "[]"] del: like.simps(2))
    then have "like backslash (''%'' @ escape_like t @ ''%'') s \<longleftrightarrow> (\<exists>a b. s = a @ b \<and> (\<exists>ba. b = t @ ba))"
      by (simp add: like_any [OF e] like_escaped del: like.simps)
    then show ?thesis by blast
  qed
  then show ?thesis by (auto simp: query_matches_def assms Let_def split: option.splits)
qed

subsection \<open>The trader of a new consignment\<close>

lemma filter_key: "distinct (map k xs) \<Longrightarrow> x \<in> set xs \<Longrightarrow> filter (\<lambda>y. k y = k x) xs = [x]"
proof (induction xs)
  case (Cons a xs)
  then show ?case by (auto simp: filter_empty_conv rev_image_eqI)
qed simp

lemma find_append_None: "List.find p xs = None \<Longrightarrow> List.find p (xs @ ys) = List.find p ys"
  by (induction xs) (auto split: if_splits)

lemma upsert_member:
  "\<exists>q \<in> set (upsert_party p rows). party_key q = party_key p \<and> p_type q = p_type p \<and> p_id q = p_id p"
  using party_at_upsert_same [of p rows "\<lparr>ref_type = p_type p, ref_id = p_id p\<rparr>"]
  by (auto simp: party_at_def ref_matches_def list_ex_iff party_key_def)

lemma upsert_new_keys: "q \<in> set (upsert_party p rows) \<Longrightarrow> party_key q \<in> insert (party_key p) (party_key ` set rows)"
proof -
  assume "q \<in> set (upsert_party p rows)"
  then have "party_key q \<in> set (map party_key (upsert_party p rows))" by (simp del: key_upsert)
  then show "party_key q \<in> insert (party_key p) (party_key ` set rows)"
    unfolding key_upsert by (auto split: if_splits)
qed

lemma assigned_company:
  assumes "st_parties (fw_store (cw_flows W)) = upsert_party pty rows" and "parties_ok rows" and "p_type pty = TypeOU"
    and "distinct (map co_ou_handle (pd_companies (cw_profiles W)))" and "c \<in> set (pd_companies (cw_profiles W))" and "co_ou_handle c = p_id pty"
  shows "party_companies W (p_case pty) (p_role pty) = [Some c]"
proof -
  obtain q where q: "q \<in> set (upsert_party pty rows)" "party_key q = party_key pty" "p_type q = p_type pty" "p_id q = p_id pty"
    using upsert_member by blast
  have "filter (\<lambda>x. party_key x = party_key q) (upsert_party pty rows) = [q]"
    using filter_key [of party_key] parties_ok_upsert [OF assms(2)] q(1) by (simp add: parties_ok_def del: key_upsert)
  then have "filter (\<lambda>x. p_type x = TypeOU) (filter (\<lambda>x. party_key x = party_key q) (upsert_party pty rows)) = [q]"
    using q(3) assms(3) by simp
  then have "filter (\<lambda>x. p_case x = p_case pty \<and> p_role x = p_role pty \<and> p_type x = TypeOU) (upsert_party pty rows) = [q]"
    using q(2) by (simp add: party_key_def conj_ac)
  moreover have "filter (\<lambda>d. co_ou_handle d = p_id pty) (pd_companies (cw_profiles W)) = [c]"
    using filter_key [OF assms(4,5)] assms(6) by simp
  ultimately show ?thesis by (simp add: party_companies_def left_join_def assms(1) q(4))
qed

lemma no_party_company:
  "\<forall>q \<in> set (st_parties (fw_store (cw_flows W))). party_key q \<noteq> (caseID, role) \<Longrightarrow> party_companies W caseID role = [None]"
  by (auto simp: party_companies_def left_join_def Let_def filter_empty_conv party_key_def)

text \<open>A consignment just created is its creator's company's alone: its record reads with the
  creating user and, of any company and roles, only that company with the trader's token role is
  authorized on it, as its trader.\<close>

theorem created_consignment_owned:
  assumes "createConsignment r (co_ou_handle c) W = Inr W1"
    and "parties_ok (st_parties (fw_store (cw_flows W)))" and "distinct (map c_id (st_cases (fw_store (cw_flows W))))"
    and "profiles_ok (cw_profiles W)" and "c \<in> set (pd_companies (cw_profiles W))"
    and "\<forall>q \<in> set (st_parties (fw_store (cw_flows W))). party_key q \<noteq> (cn_id r, partyRoleCHA)"
  shows "\<exists>v. fetchConsignmentRecord (cn_id r) W1 = Inr v \<and> cv_trader_id v = cn_trader_id r \<and>
    (\<forall>company roles. authorize_con env v company roles =
       (if company = co_id c \<and> company \<noteq> [] \<and> token_role env partyRoleTrader \<in> set roles then Inr [partyRoleTrader] else Inl ErrAccessDenied))"
proof -
  let ?db = "fw_store (cw_flows W)" and ?created = "\<lambda>k :: case_row. k\<lparr>c_created_by := Some (cn_trader_id r)\<rparr>"
  let ?pty = "\<lparr>p_case = cn_id r, p_role = partyRoleTrader, p_type = TypeOU, p_id = co_ou_handle c, p_assigned_by = Some (cn_trader_id r)\<rparr>"
  let ?rows = "upsert_party ?pty (st_parties ?db)"
  from assms(1) have ok: "cw_fault W = None" "\<not> list_ex (\<lambda>r'. cn_id r' = cn_id r) (cw_rows W)" "case_exists (cn_id r) (st_cases ?db)"
    and W1: "W1 = W\<lparr>cw_rows := cw_rows W @ [r], cw_flows := (cw_flows W)\<lparr>fw_store := ?db\<lparr>st_parties := ?rows,
        st_cases := update_case (cn_id r) ?created (st_cases ?db)\<rparr>\<rparr>\<rparr>"
    by (auto simp: createConsignment_def Assign_def Let_def split: option.splits if_splits prod.splits)
  obtain k where k: "k \<in> set (st_cases ?db)" "c_id k = cn_id r" using ok(3) by (auto simp: case_exists_def list_ex_iff)
  have cases: "filter (\<lambda>k'. c_id k' = cn_id r) (update_case (cn_id r) ?created (st_cases ?db)) = [?created k]"
  proof -
    have "filter (\<lambda>k'. c_id k' = cn_id r) (st_cases ?db) = [k]" using filter_key [OF assms(3) k(1)] k(2) by simp
    moreover have "filter (\<lambda>k'. c_id k' = cn_id r) (update_case (cn_id r) ?created ks) = map ?created (filter (\<lambda>k'. c_id k' = cn_id r) ks)" for ks
      by (induction ks) (auto simp: update_case_def)
    ultimately show ?thesis by simp
  qed
  have trader: "party_companies W1 (cn_id r) partyRoleTrader = [Some c]"
    using assigned_company [of W1 ?pty "st_parties ?db" c] assms(2,4,5) by (simp add: W1 profiles_ok_def)
  have "party_companies W1 (cn_id r) partyRoleCHA = [None]"
    using assms(6) upsert_new_keys [of _ ?pty "st_parties ?db"] by (intro no_party_company) (fastforce simp: W1 party_key_def)
  with trader cases have "row_views W1 r = [view_row r (?created k) (Some c) None]"
    by (simp add: row_views_def) (simp add: W1)
  moreover have "cw_rows W1 = cw_rows W @ [r]" by (simp add: W1)
  ultimately have views: "withCase W1 = concat (map (row_views W1) (cw_rows W)) @ [view_row r (?created k) (Some c) None]"
    by (simp add: withCase_def)
  have "List.find (\<lambda>v. cv_id v = cn_id r) (concat (map (row_views W1) (cw_rows W))) = None"
    using ok(2) by (auto simp: find_None_iff row_views_def view_row_def list_ex_iff)
  then have "List.find (\<lambda>v. cv_id v = cn_id r) (withCase W1) = Some (view_row r (?created k) (Some c) None)"
    by (simp add: views find_append_None view_row_def)
  then have "fetchConsignmentRecord (cn_id r) W1 = Inr (view_row r (?created k) (Some c) None)"
    using ok(1) by (simp add: fetchConsignmentRecord_def) (simp add: W1)
  then show ?thesis
    by (intro exI [of _ "view_row r (?created k) (Some c) None"]) (auto simp: view_row_def authorize_con_def cha_company_def)
qed

subsection \<open>Witnesses\<close>

definition demo_con_env :: con_env where
  "demo_con_env = \<lparr>ce_roles = [(''trader'', ''Trader''), (''cha'', ''CHA'')],
     ce_user_flows = \<lparr>ufs_enabled = True, ufs_workflows = [\<lparr>uf_id = ''fee'', uf_label = ''Pay'', uf_roles = [''trader'']\<rparr>]\<rparr>,
     ce_has_flows = True, ce_tasks = Some (\<lambda>_. Inr []), ce_title = ct_type, ce_cancelled = ''CANCELLED'', ce_on_hold = ''ON_HOLD'',
     ce_def_name = (\<lambda>_ _. None), ce_times = (\<lambda>_. []), ce_page = (\<lambda>_ _. (0, 10)), ce_lower = map lower_ascii\<rparr>"

definition demo_con_row :: consignment_row where
  "demo_con_row = \<lparr>cn_id = ''k1'', cn_flow = FlowExport, cn_trader_id = ''u1'', cn_trader_company_id = ''c1'', cn_cha_company_id = None, cn_created = 0\<rparr>"

text \<open>The world before and after a consignment is created in it.\<close>

definition demo_con_before :: "string con_world" where
  "demo_con_before = \<lparr>cw_flows = \<lparr>fw_store = \<lparr>st_cases = [new_case ''k1''], st_flows = [], st_parties = [], st_clock = 0, st_faults = []\<rparr>, fw_calls = []\<rparr>,
     cw_rows = [], cw_profiles = demo_profiles, cw_fault = None\<rparr>"

definition demo_con_world :: "string con_world" where
  "demo_con_world = (case createConsignment demo_con_row ''acme'' demo_con_before of Inr W \<Rightarrow> W | Inl _ \<Rightarrow> demo_con_before)"

definition demo_con_query :: con_query where
  "demo_con_query = \<lparr>qp_page = Some (None, None), qp_state = [], qp_flow = [], qp_q = []\<rparr>"

definition demo_company :: company where
  "demo_company = hd (pd_companies demo_profiles)"

lemma demo_con_created: "createConsignment demo_con_row (co_ou_handle demo_company) demo_con_before = Inr demo_con_world"
  by (simp add: demo_con_world_def demo_con_before_def demo_con_row_def createConsignment_def Assign_def demo_company_def demo_profiles_def
      case_exists_def new_case_def)

theorem created_consignment_owned_witness:
  "\<exists>v. fetchConsignmentRecord ''k1'' demo_con_world = Inr v \<and> authorize_con demo_con_env v ''c1'' [''Trader''] = Inr [''trader'']"
proof -
  from created_consignment_owned [OF demo_con_created, of demo_con_env] obtain v where
    "fetchConsignmentRecord (cn_id demo_con_row) demo_con_world = Inr v"
    "\<forall>company roles. authorize_con demo_con_env v company roles =
       (if company = co_id demo_company \<and> company \<noteq> [] \<and> token_role demo_con_env partyRoleTrader \<in> set roles
        then Inr [partyRoleTrader] else Inl ErrAccessDenied)"
    by (auto simp: demo_con_before_def parties_ok_def profiles_ok_def demo_profiles_def demo_company_def)
  then show ?thesis
    by (intro exI [of _ v]) (simp add: demo_con_row_def demo_company_def demo_profiles_def token_role_def demo_con_env_def)
qed

lemma demo_caller: "caller_company demo_principal W = Inr demo_company" if "cw_profiles W = demo_profiles"
  using that by (simp add: caller_company_def GetCompanyByOUHandle_def getByOUHandle_def first_company_def demo_profiles_def
      demo_principal_def demo_company_def)


theorem startable_flows_agree_witness:
  "fst (StartConsignmentFlow (demo_api 1) demo_con_env ''f'' ''k1'' ''other'' ''c1'' [''Trader''] demo_con_world) = Inl (ErrFlowNotAllowed ''other'')"
proof -
  have flows: "ce_has_flows demo_con_env" by (simp add: demo_con_env_def)
  have "case GetConsignmentByID demo_con_env ''k1'' ''c1'' [''Trader''] demo_con_world of
      Inr d \<Rightarrow> fst ` set (dt_startable d) = {''fee''} | Inl _ \<Rightarrow> False"
    by code_simp
  then obtain d where d: "GetConsignmentByID demo_con_env ''k1'' ''c1'' [''Trader''] demo_con_world = Inr d" "fst ` set (dt_startable d) = {''fee''}"
    by (auto split: sum.splits)
  have eq: "fst ` set (dt_startable d) =
      {t. fst (StartConsignmentFlow (demo_api 1) demo_con_env ''f'' ''k1'' t ''c1'' [''Trader''] demo_con_world) \<noteq> Inl (ErrFlowNotAllowed t)}"
    using startable_flows_agree [OF flows, THEN conjunct1, THEN spec, THEN mp, OF d(1)] .
  have "''other'' \<notin> fst ` set (dt_startable d)" by (simp add: d(2))
  then show ?thesis unfolding eq by simp
qed

theorem search_is_literal_witness:
  "\<not> query_matches demo_con_env ''%k_'' (view_row demo_con_row (new_case ''k1'') None None)"
proof -
  have "ce_lower demo_con_env (escape_like ''%k_'') = escape_like (ce_lower demo_con_env ''%k_'')" by code_simp
  then show ?thesis
    by (subst search_is_literal) (auto simp: view_row_def demo_con_row_def new_case_def demo_con_env_def lower_ascii_def Cons_eq_append_conv)
qed

end
