(* ===== verification/Trade_Steps.thy ===== *)
theory Trade_Steps
  imports Consignments Plugin_Steps "HOL-Library.Monad_Syntax"
begin

text \<open>
  \<open>internal/trade\<close>: the two steps of the trade workflow that shape a consignment.
  \<open>plugin_hscode_split.go\<close> turns the HS codes of the goods into the agency flows to start, and
  \<open>plugin_cha_persist.go\<close> records the customs house agent the trader selected as the case's
  \<open>cha\<close> party. Both run on \<open>Plugin_Steps\<close>; the second writes the consignment tables of
  \<open>Consignments\<close>, whose transaction either commits or leaves them as they were. Go iterates a
  map in no fixed order: where two entries of a configuration are both wrong, which of them is
  reported is the list's order here.
\<close>

subsection \<open>The flows of HS codes\<close>

datatype split_error =
    SplitConfigRequired
  | SplitInvalidConfig
  | NoMappings
  | ReplacesEmpty string
  | ReplacesItself string
  | ReplacesAndReplaced string
  | HsCodesMissing
  | HsCodesNotArray
  | HsCodesEmpty
  | HsCodeNotString nat
  | UnmappedHsCode string
  | EmptyTemplateID string
  | SplitRecordNil

record hscodeSplitConfig =
  hc_mappings :: "(string \<times> string list) list"
  hc_replaces :: "(string \<times> string list) list"

definition decodeSplitConfig :: "raw_message \<Rightarrow> split_error + hscodeSplitConfig" where
  "decodeSplitConfig config =
     (case config of
        NoBytes \<Rightarrow> Inl SplitConfigRequired
      | NotJson _ \<Rightarrow> Inl SplitInvalidConfig
      | Doc v \<Rightarrow>
          (case decode_struct (\<lambda>kvs. do {
               m \<leftarrow> decode_map decode_strings (member kvs ''mappings'');
               r \<leftarrow> decode_map decode_strings (member kvs ''replaces'');
               Some \<lparr>hc_mappings = m, hc_replaces = r\<rparr> }) v of
             None \<Rightarrow> Inl SplitInvalidConfig
           | Some cfg \<Rightarrow> Inr cfg))"

definition workflows_of :: "(string \<times> string list) list \<Rightarrow> string \<Rightarrow> string list" where
  "workflows_of m code = (case map_of m code of None \<Rightarrow> [] | Some ws \<Rightarrow> ws)"

text \<open>The workflows one code maps to, those not listed yet added at the end.\<close>

fun add_workflows :: "string \<Rightarrow> string list \<Rightarrow> string list \<Rightarrow> split_error + string list" where
  "add_workflows hsCode [] templates = Inr templates"
| "add_workflows hsCode (w # ws) templates =
     (if w = [] then Inl (EmptyTemplateID hsCode)
      else add_workflows hsCode ws (if w \<in> set templates then templates else templates @ [w]))"

fun resolveTemplates :: "(string \<times> string list) list \<Rightarrow> nat \<Rightarrow> json list \<Rightarrow> string list \<Rightarrow> split_error + string list" where
  "resolveTemplates m i [] templates = Inr templates"
| "resolveTemplates m i (item # items) templates =
     (case item of
        JStr hsCode \<Rightarrow>
          if workflows_of m hsCode = [] then Inl (UnmappedHsCode hsCode)
          else (case add_workflows hsCode (workflows_of m hsCode) templates of
                  Inl e \<Rightarrow> Inl e
                | Inr ts \<Rightarrow> resolveTemplates m (Suc i) items ts)
      | _ \<Rightarrow> Inl (HsCodeNotString i))"

definition replaced_by_any :: "(string \<times> string list) list \<Rightarrow> string list" where
  "replaced_by_any replaces = concat (map snd replaces)"

fun check_others :: "string \<Rightarrow> string list \<Rightarrow> split_error option" where
  "check_others w [] = None"
| "check_others w (x # xs) =
     (if x = [] then Some (ReplacesEmpty w) else if x = w then Some (ReplacesItself w) else check_others w xs)"

fun check_entries :: "(string \<times> string list) list \<Rightarrow> split_error option" where
  "check_entries [] = None"
| "check_entries ((w, others) # es) = (case check_others w others of Some e \<Rightarrow> Some e | None \<Rightarrow> check_entries es)"

definition validateReplaces :: "(string \<times> string list) list \<Rightarrow> split_error option" where
  "validateReplaces replaces =
     (case check_entries replaces of
        Some e \<Rightarrow> Some e
      | None \<Rightarrow> map_option (\<lambda>(w, _). ReplacesAndReplaced w)
          (List.find (\<lambda>(w, _). w \<in> set (replaced_by_any replaces)) replaces))"

definition applyReplaces :: "(string \<times> string list) list \<Rightarrow> string list \<Rightarrow> string list" where
  "applyReplaces replaces templates =
     (let dropped = concat (map (workflows_of replaces) templates)
      in filter (\<lambda>w. w \<notin> set dropped) templates)"

text \<open>Every input the flows share: all that have a value but the codes.\<close>

definition sharedPayload :: "(string \<times> json) list \<Rightarrow> (string \<times> json) list" where
  "sharedPayload inputs = filter (\<lambda>(name, value). name \<noteq> ''hs_codes'' \<and> value \<noteq> JNull) inputs"

definition split_item :: "(string \<times> json) list \<Rightarrow> string \<Rightarrow> json" where
  "split_item shared templateID =
     JObj [(''template_id'', JStr templateID), (''branch_id'', JStr templateID), (''payload'', JObj shared)]"

definition hs_items :: "plugin_context \<Rightarrow> split_error + json list" where
  "hs_items ctx =
     (case obj_get (px_inputs ctx) ''hs_codes'' of
        None \<Rightarrow> Inl HsCodesMissing
      | Some (JArr items) \<Rightarrow> if items = [] then Inl HsCodesEmpty else Inr items
      | Some _ \<Rightarrow> Inl HsCodesNotArray)"

text \<open>An error of the builder is not marked permanent; the record is returned as the step leaves it.\<close>

definition HscodeSplitBuilder :: "plugin_context \<Rightarrow> raw_message \<Rightarrow> split_error + plug_record" where
  "HscodeSplitBuilder ctx config =
     (case decodeSplitConfig config of Inl e \<Rightarrow> Inl e | Inr cfg \<Rightarrow>
      if hc_mappings cfg = [] then Inl NoMappings
      else case validateReplaces (hc_replaces cfg) of Some e \<Rightarrow> Inl e | None \<Rightarrow>
     (case hs_items ctx of Inl e \<Rightarrow> Inl e | Inr items \<Rightarrow>
     (case resolveTemplates (hc_mappings cfg) 0 items [] of Inl e \<Rightarrow> Inl e | Inr templates \<Rightarrow>
     (case px_record ctx of
        None \<Rightarrow> Inl SplitRecordNil
      | Some rec \<Rightarrow>
          Inr (put_data ''split_items''
            (JArr (map (split_item (sharedPayload (px_inputs ctx))) (applyReplaces (hc_replaces cfg) templates))) rec)))))"

lemma add_workflows_ok:
  "add_workflows code wfs ts = Inr ts' \<Longrightarrow> distinct ts \<Longrightarrow>
     distinct ts' \<and> set ts' = set ts \<union> set wfs \<and> [] \<notin> set wfs"
  by (induction code wfs ts rule: add_workflows.induct) (auto split: if_splits)

lemma resolveTemplates_ok:
  "resolveTemplates m i items ts = Inr ts' \<Longrightarrow> distinct ts \<Longrightarrow>
     distinct ts' \<and> (\<forall>v \<in> set items. \<exists>code. v = JStr code \<and> workflows_of m code \<noteq> []) \<and>
     set ts' = set ts \<union> {w. \<exists>code. JStr code \<in> set items \<and> w \<in> set (workflows_of m code)}"
proof (induction m i items ts rule: resolveTemplates.induct)
  case (2 m i item items ts)
  then obtain code us where "item = JStr code" "workflows_of m code \<noteq> []"
    "add_workflows code (workflows_of m code) ts = Inr us" "resolveTemplates m (Suc i) items us = Inr ts'"
    by (auto split: json.splits if_splits sum.splits)
  moreover from this "2.prems"(2) have "distinct us" "set us = set ts \<union> set (workflows_of m code)"
    using add_workflows_ok by blast+
  ultimately show ?case using "2.IH" by auto
qed simp

lemma check_entries_ok:
  "check_entries es = None \<Longrightarrow> (w, others) \<in> set es \<Longrightarrow> x \<in> set others \<Longrightarrow> x \<noteq> [] \<and> x \<noteq> w"
proof (induction es rule: check_entries.induct)
  case (2 w' others' es)
  have "check_others w xs = None \<Longrightarrow> y \<in> set xs \<Longrightarrow> y \<noteq> [] \<and> y \<noteq> w" for w xs y
    by (induction w xs rule: check_others.induct) (auto split: if_splits)
  with 2 show ?case by (auto split: option.splits)
qed simp

text \<open>In a valid rule set no workflow that replaces another is itself replaced.\<close>

lemma validateReplaces_ok:
  assumes "validateReplaces replaces = None" and "x \<in> set (workflows_of replaces w)"
  shows "w \<notin> set (workflows_of replaces u)"
proof -
  from assms have "\<forall>(w, _) \<in> set replaces. w \<notin> set (replaced_by_any replaces)"
    by (auto simp: validateReplaces_def find_None_iff split: option.splits)
  moreover from assms(2) have "w \<in> fst ` set replaces"
    by (cases "map_of replaces w") (force simp: workflows_of_def dest: map_of_SomeD)+
  moreover have "y \<in> set (workflows_of replaces u) \<Longrightarrow> y \<in> set (replaced_by_any replaces)" for y
    by (cases "map_of replaces u") (force simp: workflows_of_def replaced_by_any_def dest: map_of_SomeD)+
  ultimately show ?thesis by auto
qed


lemma applyReplaces_set:
  "set (applyReplaces r ts) = {w \<in> set ts. \<forall>v \<in> set ts. w \<notin> set (workflows_of r v)}"
  "distinct ts \<Longrightarrow> distinct (applyReplaces r ts)"
  by (auto simp: applyReplaces_def)

text \<open>A successful split starts, each once and with the shared inputs, at least one flow; every
  flow an HS code asks for is started or replaced by one that is, every flow started was asked for,
  and none started is replaced by another.\<close>

theorem hscode_flows_covered:
  assumes "HscodeSplitBuilder ctx config = Inr rec'"
  shows "\<exists>cfg codes ts. decodeSplitConfig config = Inr cfg \<and> hs_items ctx = Inr (map JStr codes) \<and>
    obj_get (pl_data rec') ''split_items'' = Some (JArr (map (split_item (sharedPayload (px_inputs ctx))) ts)) \<and>
    distinct ts \<and> ts \<noteq> [] \<and>
    (\<forall>code \<in> set codes. \<forall>w \<in> set (workflows_of (hc_mappings cfg) code).
       w \<in> set ts \<or> (\<exists>v \<in> set ts. w \<in> set (workflows_of (hc_replaces cfg) v))) \<and>
    (\<forall>w \<in> set ts. (\<exists>code \<in> set codes. w \<in> set (workflows_of (hc_mappings cfg) code)) \<and>
       (\<forall>v \<in> set ts. w \<notin> set (workflows_of (hc_replaces cfg) v)))"
proof -
  from assms obtain cfg items us rec where cfg: "decodeSplitConfig config = Inr cfg" and valid: "validateReplaces (hc_replaces cfg) = None"
    and items: "hs_items ctx = Inr items" and us: "resolveTemplates (hc_mappings cfg) 0 items [] = Inr us"
    and rec': "rec' = put_data ''split_items'' (JArr (map (split_item (sharedPayload (px_inputs ctx)))
        (applyReplaces (hc_replaces cfg) us))) rec"
    by (auto simp: HscodeSplitBuilder_def split: sum.splits option.splits if_splits)
  note resolved = resolveTemplates_ok [OF us]
  let ?ts = "applyReplaces (hc_replaces cfg) us"
  have "\<forall>v \<in> set items. \<exists>code. v = JStr code" using resolved by auto
  then obtain codes where codes: "items = map JStr codes" by (metis ex_map_conv)
  have "items \<noteq> []" using items by (auto simp: hs_items_def split: option.splits json.splits if_splits)
  with codes obtain code where code: "code \<in> set codes" by (cases codes) auto
  with resolved codes have "workflows_of (hc_mappings cfg) code \<noteq> []" by auto
  then obtain w where "w \<in> set (workflows_of (hc_mappings cfg) code)" using hd_in_set by blast
  with code resolved codes have w: "w \<in> set us" by auto
  have covered: "v \<in> set ?ts \<or> (\<exists>u \<in> set ?ts. v \<in> set (workflows_of (hc_replaces cfg) u))" if "v \<in> set us" for v
  proof (cases "v \<in> set ?ts")
    case False
    with that obtain u where "u \<in> set us" "v \<in> set (workflows_of (hc_replaces cfg) u)"
      by (auto simp: applyReplaces_set)
    with validateReplaces_ok [OF valid] show ?thesis by (auto simp: applyReplaces_set)
  qed simp
  from covered [OF w] have "?ts \<noteq> []" by auto
  with covered resolved codes items cfg rec' show ?thesis
    by (intro exI [of _ cfg] exI [of _ codes] exI [of _ ?ts]) (auto simp: applyReplaces_set)
qed


subsection \<open>Recording the selected agent\<close>

datatype cha_error =
    ChaConfigInvalid
  | ChaFieldBlank nat
  | ChaCompanyMissing
  | ChaLookupFailed string company_error
  | NotEnabledAsCha string
  | ChaDataNotObject string
  | ChaRecordNil
  | ChaCaseEmpty
  | ChaNameTooLong
  | ChaUpdateFailed string string
  | ChaConsignmentMissing string
  | ChaPartyFailed party_error

definition parseCHAPersistConfig :: "raw_message \<Rightarrow> cha_error + string list" where
  "parseCHAPersistConfig config =
     (case config of
        NoBytes \<Rightarrow> Inr []
      | NotJson _ \<Rightarrow> Inl ChaConfigInvalid
      | Doc v \<Rightarrow>
          (case decode_struct (\<lambda>kvs. decode_strings (member kvs ''cha_data_fields'')) v of
             None \<Rightarrow> Inl ChaConfigInvalid
           | Some fs \<Rightarrow>
               (case List.find (\<lambda>i. trim_space (fs ! i) = []) [0..<length fs] of
                  Some i \<Rightarrow> Inl (ChaFieldBlank i)
                | None \<Rightarrow> Inr fs)))"

text \<open>The agent's details: the listed fields of the company's data that hold text.\<close>

fun seed_fields :: "(string \<times> json) list \<Rightarrow> string list \<Rightarrow> (string \<times> json) list \<Rightarrow> (string \<times> json) list" where
  "seed_fields all_data [] data = data"
| "seed_fields all_data (f # fs) data =
     seed_fields all_data fs
       (case obj_get all_data f of
          Some (JStr s) \<Rightarrow> if trim_space s \<noteq> [] then obj_put f (JStr s) data else data
        | _ \<Rightarrow> data)"

definition chaSeed :: "company \<Rightarrow> string list \<Rightarrow> cha_error + json" where
  "chaSeed c fs =
     (case co_data c of
        JObj all_data \<Rightarrow>
          Inr (JObj [(''id'', JStr (co_id c)), (''name'', JStr (co_name c)), (''data'', JObj (seed_fields all_data fs []))])
      | _ \<Rightarrow> Inl (ChaDataNotObject (co_id c)))"

definition con_parties :: "'def con_world \<Rightarrow> party list" where
  "con_parties W = st_parties (fw_store (cw_flows W))"

text \<open>The transaction: \<open>Inl\<close> leaves the tables as they were.\<close>

definition assignCHA :: "string \<Rightarrow> string \<Rightarrow> string \<Rightarrow> string \<Rightarrow> 'def con_world \<Rightarrow> cha_error plugin_error + 'def con_world" where
  "assignCHA consignmentID chaCompanyID chaOUHandle name W =
     (let db = fw_store (cw_flows W) in
      case cw_fault W of
        Some e \<Rightarrow> Inl (Retryable (ChaUpdateFailed consignmentID e))
      | None \<Rightarrow>
          if \<not> list_ex (\<lambda>r. cn_id r = consignmentID) (cw_rows W) then Inl (inputError (ChaConsignmentMissing consignmentID))
          else case Assign \<lparr>p_case = consignmentID, p_role = partyRoleCHA, p_type = TypeOU, p_id = chaOUHandle, p_assigned_by = None\<rparr>
              \<lparr>parties = st_parties db, party_fault = None\<rparr> of
            (Inl e, _) \<Rightarrow> Inl (Retryable (ChaPartyFailed e))
          | (Inr _, pdb) \<Rightarrow>
              Inr (W\<lparr>cw_rows := map (\<lambda>r. if cn_id r = consignmentID then r\<lparr>cn_cha_company_id := Some chaCompanyID\<rparr> else r) (cw_rows W),
                cw_flows := (cw_flows W)\<lparr>fw_store := db\<lparr>st_parties := parties pdb,
                  st_cases := (if name = [] then st_cases db
                     else update_case consignmentID (\<lambda>k. k\<lparr>c_name := Some name\<rparr>) (st_cases db))\<rparr>\<rparr>\<rparr>))"

definition consignment_name :: "plugin_context \<Rightarrow> string" where
  "consignment_name ctx = (let name = input_string ctx ''consignment_name'' in if trim_space name = [] then [] else name)"

text \<open>What the plugin learns before it writes: the agent's company, its details, the task record and the name.\<close>

definition cha_selection :: "plugin_context \<Rightarrow> raw_message \<Rightarrow> profile_db \<Rightarrow> cha_error plugin_error + (company \<times> json \<times> plug_record)" where
  "cha_selection ctx config db =
     (case parseCHAPersistConfig config of Inl e \<Rightarrow> Inl (Retryable e) | Inr fs \<Rightarrow>
      (let chaCompanyID = input_string ctx ''cha_company_id'' in
       if chaCompanyID = [] then Inl (inputError ChaCompanyMissing)
       else case GetCompanyByID chaCompanyID db of
         Inl e \<Rightarrow> Inl ((if e = ErrCompanyNotFound \<or> e = ErrInvalidCompanyID then inputError else Retryable) (ChaLookupFailed chaCompanyID e))
       | Inr c \<Rightarrow>
           if \<not> co_has_cha c then Inl (inputError (NotEnabledAsCha chaCompanyID))
           else case chaSeed c fs of Inl e \<Rightarrow> Inl (Retryable e) | Inr cha \<Rightarrow>
          (case px_record ctx of
             None \<Rightarrow> Inl (inputError ChaRecordNil)
           | Some rec \<Rightarrow>
               if pl_case rec = [] then Inl (inputError ChaCaseEmpty)
               else if 255 < rune_count (consignment_name ctx) then Inl (inputError ChaNameTooLong)
               else Inr (c, cha, rec))))"

definition CHAPersist :: "plugin_context \<Rightarrow> raw_message \<Rightarrow> 'def con_world \<Rightarrow> (cha_error step_end \<times> plug_record option) \<times> 'def con_world" where
  "CHAPersist ctx config W =
     (case cha_selection ctx config (cw_profiles W) of
        Inl e \<Rightarrow> ((Failed e, px_record ctx), W)
      | Inr (c, cha, rec) \<Rightarrow>
          (case assignCHA (pl_case rec) (input_string ctx ''cha_company_id'') (co_ou_handle c) (consignment_name ctx) W of
             Inl e \<Rightarrow> ((Failed e, px_record ctx), W)
           | Inr W1 \<Rightarrow> ((Advanced, Some (put_data ''cha'' cha rec)), W1)))"


subsection \<open>The consignment a selection leaves\<close>

lemma find_concat_key:
  assumes "\<And>r v. v \<in> set (f r) \<Longrightarrow> key v = k r" and "distinct (map k rows)"
  shows "List.find (\<lambda>v. key v = K) (concat (map f rows)) =
    (case List.find (\<lambda>r. k r = K) rows of None \<Rightarrow> None | Some r \<Rightarrow> (case f r of [] \<Rightarrow> None | v # _ \<Rightarrow> Some v))"
  using assms(2)
proof (induction rows)
  case (Cons r rows)
  show ?case
  proof (cases "k r = K")
    case True
    then have "List.find (\<lambda>r. k r = K) rows = None" using Cons.prems by (auto simp: find_None_iff) (metis imageI)
    with Cons True assms(1) show ?thesis by (cases "f r") auto
  next
    case False
    then have "List.find (\<lambda>v. key v = K) (f r) = None" using assms(1) by (auto simp: find_None_iff)
    with Cons False show ?thesis by (simp add: find_append_None)
  qed
qed simp

lemma left_join_not_Nil [simp]: "left_join q rows \<noteq> []"
  by (simp add: left_join_def Let_def)

lemma party_companies_not_Nil [simp]: "party_companies W caseID role \<noteq> []"
proof -
  have "\<exists>q. q \<in> set (left_join (\<lambda>pty. p_case pty = caseID \<and> p_role pty = role \<and> p_type pty = TypeOU) (st_parties (fw_store (cw_flows W))))"
    using left_join_not_Nil hd_in_set by blast
  then show ?thesis by (auto simp: party_companies_def split: option.splits)
qed

text \<open>A consignment reads as its row with its case and the first company of each party.\<close>

lemma fetch_row:
  assumes "distinct (map cn_id (cw_rows W))" and "distinct (map c_id (st_cases (fw_store (cw_flows W))))"
  shows "fetchConsignmentRecord K W =
    (case cw_fault W of Some e \<Rightarrow> Inl (ConFailed e) | None \<Rightarrow>
    (case List.find (\<lambda>r. cn_id r = K) (cw_rows W) of None \<Rightarrow> Inl ErrConsignmentNotFound | Some r \<Rightarrow>
    (case List.find (\<lambda>k. c_id k = K) (st_cases (fw_store (cw_flows W))) of None \<Rightarrow> Inl ErrConsignmentNotFound | Some k \<Rightarrow>
     Inr (view_row r k (hd (party_companies W K partyRoleTrader)) (hd (party_companies W K partyRoleCHA))))))"
proof -
  have "v \<in> set (row_views W r) \<Longrightarrow> cv_id v = cn_id r" for r v
    by (auto simp: row_views_def view_row_def)
  note found = find_concat_key [where f = "row_views W" and key = cv_id and k = cn_id and K = K, OF this assms(1)]
  have "(case row_views W r of [] \<Rightarrow> None | v # _ \<Rightarrow> Some v) =
      (case List.find (\<lambda>k. c_id k = cn_id r) (st_cases (fw_store (cw_flows W))) of None \<Rightarrow> None | Some k \<Rightarrow>
         Some (view_row r k (hd (party_companies W (cn_id r) partyRoleTrader)) (hd (party_companies W (cn_id r) partyRoleCHA))))" for r
  proof (cases "List.find (\<lambda>k. c_id k = cn_id r) (st_cases (fw_store (cw_flows W)))")
    case None
    then have "filter (\<lambda>k. c_id k = cn_id r) (st_cases (fw_store (cw_flows W))) = []" by (simp add: find_None_filter)
    with None show ?thesis by (simp add: row_views_def)
  next
    case (Some k)
    then have k: "k \<in> set (st_cases (fw_store (cw_flows W)))" "c_id k = cn_id r" by (auto dest: find_SomeD)
    then have "filter (\<lambda>k. c_id k = cn_id r) (st_cases (fw_store (cw_flows W))) = [k]"
      using filter_key [OF assms(2) k(1)] by simp
    with Some show ?thesis
      by (cases "party_companies W (cn_id r) partyRoleTrader"; cases "party_companies W (cn_id r) partyRoleCHA")
         (simp_all add: row_views_def del: party_companies_not_Nil add: party_companies_not_Nil [of W "cn_id r", simplified])
  qed
  with found show ?thesis
    by (auto simp: fetchConsignmentRecord_def withCase_def split: option.splits dest: find_SomeD)
qed

lemma filter_upsert_other:
  assumes "\<And>q. P q \<Longrightarrow> party_key q \<noteq> party_key pty"
    and "\<And>q t i a. party_key q = party_key pty \<Longrightarrow> \<not> P (q\<lparr>p_type := t, p_id := i, p_assigned_by := a\<rparr>)"
  shows "filter P (upsert_party pty rows) = filter P rows"
proof -
  have "filter P (map (\<lambda>r. if party_key r = party_key pty then r\<lparr>p_type := p_type pty, p_id := p_id pty, p_assigned_by := p_assigned_by pty\<rparr> else r) rows)
      = filter P rows"
    using assms by (induction rows) auto
  moreover have "\<not> P pty" using assms(1) by blast
  ultimately show ?thesis by (simp add: upsert_party_def)
qed

lemma party_companies_other:
  assumes "con_parties W' = upsert_party pty (con_parties W)" and "cw_profiles W' = cw_profiles W"
    and "(caseID, role) \<noteq> party_key pty"
  shows "party_companies W' caseID role = party_companies W caseID role"
proof -
  have "filter (\<lambda>q. p_case q = caseID \<and> p_role q = role \<and> p_type q = TypeOU) (upsert_party pty (con_parties W)) =
      filter (\<lambda>q. p_case q = caseID \<and> p_role q = role \<and> p_type q = TypeOU) (con_parties W)"
    using assms(3) by (intro filter_upsert_other) (auto simp: party_key_def)
  then show ?thesis using assms(1) unfolding party_companies_def assms(2) by (simp add: left_join_def con_parties_def)
qed

lemma find_map_same: "(\<And>x. p (f x) = p x) \<Longrightarrow> List.find p (map f xs) = map_option f (List.find p xs)"
  by (induction xs) auto


text \<open>C21: A selection either fails and leaves every table and the record as they were, or makes an
  agent enabled for it the case's only \<open>cha\<close>: its company is the consignment's agent with the
  chosen name, its OU is the one holder of the role, and every other consignment reads as before.\<close>

theorem cha_selection_all_or_nothing:
  assumes "CHAPersist ctx config W = ((ending, rec'), W')" and "profiles_ok (cw_profiles W)" and "parties_ok (con_parties W)"
    and "distinct (map cn_id (cw_rows W))" and "distinct (map c_id (st_cases (fw_store (cw_flows W))))"
  shows "(\<exists>e. ending = Failed e \<and> rec' = px_record ctx \<and> W' = W) \<or>
    (\<exists>c cha rec. ending = Advanced \<and> px_record ctx = Some rec \<and> rec' = Some (put_data ''cha'' cha rec) \<and>
       c \<in> set (pd_companies (cw_profiles W)) \<and> co_has_cha c \<and> co_id c = input_string ctx ''cha_company_id'' \<and>
       (\<forall>h. party_at (con_parties W') (pl_case rec) partyRoleCHA (OU h) \<longleftrightarrow> h = co_ou_handle c) \<and>
       (\<forall>K. fetchConsignmentRecord K W' =
          (if K = pl_case rec
           then map_sum id (\<lambda>v. v\<lparr>cv_cha_company_id := Some (co_id c),
                  cv_name := (if consignment_name ctx = [] then cv_name v else Some (consignment_name ctx))\<rparr>) (fetchConsignmentRecord K W)
           else fetchConsignmentRecord K W)))"
proof (cases "cha_selection ctx config (cw_profiles W)")
  case (Inr sel)
  obtain c cha rec where sel: "sel = (c, cha, rec)" by (cases sel)
  let ?K = "pl_case rec" and ?db = "fw_store (cw_flows W)" and ?n = "consignment_name ctx"
  let ?pty = "\<lparr>p_case = ?K, p_role = partyRoleCHA, p_type = TypeOU, p_id = co_ou_handle c, p_assigned_by = None\<rparr>"
  from Inr sel have c: "c \<in> set (pd_companies (cw_profiles W))" "co_has_cha c" "co_id c = input_string ctx ''cha_company_id''" "px_record ctx = Some rec"
    by (auto simp: cha_selection_def Let_def GetCompanyByID_def company_getByID_def first_company_def
        split: sum.splits if_splits option.splits dest!: find_SomeD)
  show ?thesis
  proof (cases "assignCHA ?K (input_string ctx ''cha_company_id'') (co_ou_handle c) ?n W")
    case (Inl e)
    with assms(1) Inr sel show ?thesis by (auto simp: CHAPersist_def)
  next
    case (Inr W1)
    with assms(1) \<open>cha_selection ctx config (cw_profiles W) = Inr sel\<close> sel
    have run: "ending = Advanced" "rec' = Some (put_data ''cha'' cha rec)" "W1 = W'" by (auto simp: CHAPersist_def)
    let ?rows = "map (\<lambda>r. if cn_id r = ?K then r\<lparr>cn_cha_company_id := Some (co_id c)\<rparr> else r) (cw_rows W)"
    let ?cases = "if ?n = [] then st_cases ?db else update_case ?K (\<lambda>k. k\<lparr>c_name := Some ?n\<rparr>) (st_cases ?db)"
    from Inr run(3) have ok: "cw_fault W = None" and W': "W' = W\<lparr>cw_rows := ?rows,
        cw_flows := (cw_flows W)\<lparr>fw_store := ?db\<lparr>st_parties := upsert_party ?pty (con_parties W), st_cases := ?cases\<rparr>\<rparr>\<rparr>"
      by (auto simp: assignCHA_def Assign_def Let_def con_parties_def c(3) split: option.splits if_splits prod.splits)
    have cha_party: "party_companies W' ?K partyRoleCHA = [Some c]"
      using assigned_company [of W' ?pty "con_parties W" c] assms(2,3) c(1) by (simp add: W' profiles_ok_def)
    have others: "party_companies W' k role = party_companies W k role" if "(k, role) \<noteq> (?K, partyRoleCHA)" for k role
      using that by (intro party_companies_other [of _ ?pty]) (simp_all add: W' con_parties_def party_key_def)
    have ids: "map cn_id ?rows = map cn_id (cw_rows W)" "map c_id ?cases = map c_id (st_cases ?db)"
      by (simp_all add: update_case_def comp_def if_distrib cong: if_cong)
    have tables: "cw_rows W' = ?rows" "st_cases (fw_store (cw_flows W')) = ?cases" by (simp_all add: W')
    have "distinct (map cn_id (cw_rows W'))" "distinct (map c_id (st_cases (fw_store (cw_flows W'))))"
      unfolding tables ids by (fact assms(4), fact assms(5))
    note after = fetch_row [OF this] and before = fetch_row [OF assms(4,5)]
    have row: "List.find (\<lambda>r. cn_id r = K) (cw_rows W') =
        map_option (\<lambda>r. if cn_id r = ?K then r\<lparr>cn_cha_company_id := Some (co_id c)\<rparr> else r) (List.find (\<lambda>r. cn_id r = K) (cw_rows W))" for K
      by (simp add: W' find_map_same)
    have kase: "List.find (\<lambda>k. c_id k = K) (st_cases (fw_store (cw_flows W'))) =
        map_option (\<lambda>k. if ?n \<noteq> [] \<and> c_id k = ?K then k\<lparr>c_name := Some ?n\<rparr> else k) (List.find (\<lambda>k. c_id k = K) (st_cases ?db))" for K
      by (auto simp: W' update_case_def find_map_same option.map_ident)
    have "fetchConsignmentRecord K W' =
       (if K = ?K then map_sum id (\<lambda>v. v\<lparr>cv_cha_company_id := Some (co_id c), cv_name := (if ?n = [] then cv_name v else Some ?n)\<rparr>) (fetchConsignmentRecord K W)
        else fetchConsignmentRecord K W)" for K
      unfolding after before row kase
      using ok cha_party others by (auto simp: W' view_row_def split: option.splits dest!: find_SomeD)
    moreover have "party_at (con_parties W') ?K partyRoleCHA (OU h) \<longleftrightarrow> h = co_ou_handle c" for h
      using party_at_upsert_same [of ?pty "con_parties W" "OU h"] by (auto simp: W' con_parties_def ref_matches_def OU_def)
    ultimately show ?thesis using run c by blast
  qed
qed (use assms(1) in \<open>auto simp: CHAPersist_def\<close>)


subsection \<open>Witnesses\<close>

definition demo_split_config :: raw_message where
  "demo_split_config = Doc (JObj
     [(''mappings'', JObj [(''0902'', JArr [JStr ''tea'']), (''0901'', JArr [JStr ''customs'', JStr ''health''])]),
      (''replaces'', JObj [(''tea'', JArr [JStr ''customs''])])])"

definition demo_trade_step :: plugin_context where
  "demo_trade_step = \<lparr>px_inputs = [(''hs_codes'', JArr [JStr ''0901'', JStr ''0902'']), (''cha'', JNull), (''company'', JStr ''acme''),
       (''cha_company_id'', JStr ''c2''), (''consignment_name'', JStr ''Tea'')],
     px_namespace = [], px_record = Some \<lparr>pl_task = ''t1'', pl_case = ''k1'', pl_parent = ''f1'', pl_state = [], pl_data = []\<rparr>\<rparr>"

text \<open>The tea flow takes the place of the customs flow, the health flow stays.\<close>

theorem hscode_flows_covered_witness:
  "\<exists>rec. HscodeSplitBuilder demo_trade_step demo_split_config = Inr rec \<and>
     (\<exists>ts. obj_get (pl_data rec) ''split_items'' = Some (JArr (map (split_item [(''company'', JStr ''acme''),
       (''cha_company_id'', JStr ''c2''), (''consignment_name'', JStr ''Tea'')]) ts)) \<and> ts \<noteq> [])"
proof -
  have "is_ok (HscodeSplitBuilder demo_trade_step demo_split_config)" by code_simp
  then obtain rec where rec: "HscodeSplitBuilder demo_trade_step demo_split_config = Inr rec" by (auto simp: is_ok_iff)
  have "sharedPayload (px_inputs demo_trade_step) =
      [(''company'', JStr ''acme''), (''cha_company_id'', JStr ''c2''), (''consignment_name'', JStr ''Tea'')]"
    by code_simp
  with hscode_flows_covered [OF rec] rec show ?thesis by auto
qed


definition demo_agent :: company where
  "demo_agent = \<lparr>co_id = ''c2'', co_name = ''Agents'', co_ou_handle = ''agents'', co_has_cha = True,
     co_data = JObj [(''tin_no'', JStr ''7''), (''cms_key'', JStr ''s'')]\<rparr>"

definition demo_trade_world :: "string con_world" where
  "demo_trade_world = demo_con_world\<lparr>cw_profiles := demo_profiles\<lparr>pd_companies := pd_companies demo_profiles @ [demo_agent]\<rparr>\<rparr>"

definition demo_cha_config :: raw_message where
  "demo_cha_config = Doc (JObj [(''cha_data_fields'', JArr [JStr ''tin_no''])])"

theorem cha_selection_all_or_nothing_witness:
  "\<exists>rec' W'. CHAPersist demo_trade_step demo_cha_config demo_trade_world = ((Advanced, rec'), W') \<and>
     (\<exists>v. fetchConsignmentRecord ''k1'' W' = Inr v \<and> cv_cha_company_id v = Some ''c2'' \<and> cv_name v = Some ''Tea'')"
proof -
  let ?run = "CHAPersist demo_trade_step demo_cha_config demo_trade_world"
  have "case ?run of ((ending, rec), _) \<Rightarrow> (case ending of Advanced \<Rightarrow> True | _ \<Rightarrow> False)"
    and "is_ok (fetchConsignmentRecord ''k1'' demo_trade_world)"
    by code_simp+
  then obtain rec' W' v where run: "?run = ((Advanced, rec'), W')" and v: "fetchConsignmentRecord ''k1'' demo_trade_world = Inr v"
    by (auto simp: is_ok_iff split: prod.splits step_end.splits)
  have prof: "profiles_ok (cw_profiles demo_trade_world)"
    by (simp add: demo_trade_world_def demo_profiles_def demo_agent_def profiles_ok_def)
  have keys: "parties_ok (con_parties demo_trade_world)" "distinct (map cn_id (cw_rows demo_trade_world))"
    "distinct (map c_id (st_cases (fw_store (cw_flows demo_trade_world))))"
    by (simp_all add: demo_trade_world_def demo_con_world_def demo_con_before_def createConsignment_def Assign_def demo_con_row_def
        case_exists_def new_case_def con_parties_def parties_ok_def upsert_party_def update_case_def)
  have vals: "consignment_name demo_trade_step = ''Tea''" "input_string demo_trade_step ''cha_company_id'' = ''c2''"
    "map_option pl_case (px_record demo_trade_step) = Some ''k1''"
    by code_simp+
  from cha_selection_all_or_nothing [OF run prof keys] show ?thesis
  proof (elim disjE exE conjE)
    fix e assume "Advanced = Failed e"
    then show ?thesis by simp
  next
    fix c cha rec
    assume rec: "px_record demo_trade_step = Some rec" and c: "co_id c = input_string demo_trade_step ''cha_company_id''"
      and fetch: "\<forall>K. fetchConsignmentRecord K W' =
          (if K = pl_case rec
           then map_sum id (\<lambda>v. v\<lparr>cv_cha_company_id := Some (co_id c),
                  cv_name := (if consignment_name demo_trade_step = [] then cv_name v else Some (consignment_name demo_trade_step))\<rparr>)
                  (fetchConsignmentRecord K demo_trade_world)
           else fetchConsignmentRecord K demo_trade_world)"
    from rec vals have "pl_case rec = ''k1''" by simp
    with fetch [rule_format, of "''k1''"] v c vals run show ?thesis by simp
  qed
qed

end
