(* ===== verification/Workflow_Admin.thy ===== *)
theory Workflow_Admin
  imports Consignments Plugin_Steps "HOL-Library.Product_Lexorder"
begin

text \<open>
  \<open>internal/workflowadmin\<close>: an admin's view of the workflows a deployment runs, and the two ways
  to override one, resolving a node parked for an admin and forcing a task's node to park. Core's
  workflow managers, its task manager and the task store are parameters: a manager answers what it
  knows of a workflow in a world \<open>'w\<close>, and changes that world when it takes a signal or parks a
  step; it is \<open>None\<close> where none is registered, and a manager need not support either override.
  \<open>others n\<close> is what everybody else does to the world just before the \<open>n\<close>-th call of a request.
  Answers and audit events are kept, log lines are not.
\<close>

subsection \<open>What the engine tells\<close>

datatype node_kind = NodeTask | NodeGateway | NodeKind string
datatype node_status = NodeRunning | NodeAwaitingAdmin | NodeNotStarted | NodeStatus string
datatype park_category = AdminForced | ParkCategory string

record node_info =
  ni_id :: string
  ni_activation :: string
  ni_kind :: node_kind
  ni_gateway :: string
  ni_template :: string
  ni_status :: node_status
  ni_error :: string
  ni_category :: park_category
  ni_inputs :: "(string \<times> string) list"
  ni_outputs :: "(string \<times> string) list"
  ni_created :: int
  ni_updated :: int
  ni_children :: "string list"
  ni_cached :: "(string \<times> json) list"

record workflow_instance =
  wi_status :: string
  wi_nodes :: "(string \<times> node_info) list"
  wi_trail :: "string list"
  wi_vars :: "(string \<times> json) list"
  wi_edges :: "json list"

datatype status_answer = StatusOf workflow_instance | WorkflowUnknown | StatusFailed string

datatype admin_action = AdminRetry | AdminComplete | AdminAbort

record admin_signal =
  sg_activation :: string
  sg_node :: string
  sg_action :: admin_action
  sg_patch :: "(string \<times> json) list"
  sg_reason :: string

datatype park_error = ActivationNotPending | ParkRefused string
datatype cancel_error = TaskNotOpen | CancelRefused string

record 'w workflow_manager =
  wm_status :: "'w \<Rightarrow> string \<Rightarrow> status_answer"
  wm_resolver :: "('w \<Rightarrow> string \<Rightarrow> admin_signal \<Rightarrow> 'w \<times> string option) option"
  wm_parker :: "('w \<Rightarrow> string \<Rightarrow> string \<Rightarrow> string \<Rightarrow> 'w \<times> park_error option) option"

datatype task_case = TaskOfCase string | NoSuchTask | TaskCaseFailed

record task_index =
  tx_workflows :: "string \<Rightarrow> string + (string \<times> string) list"
  tx_case :: "string \<Rightarrow> task_case"

record 'w admin_service =
  as_wm :: "'w workflow_manager option"
  as_task_wm :: "'w workflow_manager option"
  as_cancel :: "('w \<Rightarrow> string \<Rightarrow> string \<Rightarrow> 'w \<times> cancel_error option) option"
  as_tasks :: "task_index option"
  as_case_var :: string

datatype admin_error =
    NoWorkflowManagerFor string
  | NoTaskCanceller
  | EngineWorkflowNotFound
  | EngineStatusFailed string
  | NodeNotParked
  | UnsupportedForGateway
  | InterventionUnsupported
  | SignalFailed string
  | NodeNotWaiting
  | ForceParkNotATask
  | ForceParkUnsupported
  | ParkFailed string
  | CancelFailed string

subsection \<open>Engine status\<close>

record engine_node =
  en_id :: string
  en_step :: string
  en_kind :: node_kind
  en_gateway :: string
  en_template :: string
  en_status :: node_status
  en_error :: string
  en_category :: park_category
  en_inputs :: "(string \<times> string) list"
  en_outputs :: "(string \<times> string) list"
  en_created :: int
  en_updated :: int
  en_children :: "string list"
  en_task_workflow :: string
  en_cached :: "(string \<times> json) list"

record engine_status =
  es_workflow :: string
  es_status :: string
  es_nodes :: "engine_node list"
  es_trail :: "string list"
  es_vars :: "(string \<times> json) list"
  es_edges :: "json list"

definition engine_node_of :: "node_info \<Rightarrow> engine_node" where
  "engine_node_of n =
     \<lparr>en_id = ni_id n, en_step = ni_activation n, en_kind = ni_kind n, en_gateway = ni_gateway n, en_template = ni_template n,
      en_status = ni_status n, en_error = ni_error n, en_category = ni_category n, en_inputs = ni_inputs n, en_outputs = ni_outputs n,
      en_created = ni_created n, en_updated = ni_updated n, en_children = ni_children n, en_task_workflow = [], en_cached = ni_cached n\<rparr>"

text \<open>The nodes reached, oldest first, then by ID.\<close>

definition buildEngineStatusDTO :: "string \<Rightarrow> workflow_instance \<Rightarrow> engine_status" where
  "buildEngineStatusDTO workflowID inst =
     \<lparr>es_workflow = workflowID, es_status = wi_status inst,
      es_nodes = sort_key (\<lambda>n. (en_created n, en_id n))
        (map (\<lambda>(_, n). engine_node_of n) (filter (\<lambda>(_, n). ni_status n \<noteq> NodeNotStarted) (wi_nodes inst))),
      es_trail = wi_trail inst, es_vars = wi_vars inst, es_edges = wi_edges inst\<rparr>"

definition case_of_vars :: "string \<Rightarrow> (string \<times> json) list \<Rightarrow> string" where
  "case_of_vars var vars = (case obj_get vars var of Some (JStr c) \<Rightarrow> c | _ \<Rightarrow> [])"

text \<open>A task recorded twice counts as it was recorded last, as the source's map does.\<close>

definition attachTaskWorkflowIDs :: "'w admin_service \<Rightarrow> workflow_instance \<Rightarrow> engine_node list \<Rightarrow> engine_node list" where
  "attachTaskWorkflowIDs s inst nodes =
     (case as_tasks s of
        None \<Rightarrow> nodes
      | Some tx \<Rightarrow>
          let caseID = case_of_vars (as_case_var s) (wi_vars inst) in
          if caseID = [] then nodes
          else case tx_workflows tx caseID of
            Inl _ \<Rightarrow> nodes
          | Inr tasks \<Rightarrow>
              let byTaskID = map_of (rev (filter (\<lambda>(_, w). w \<noteq> []) tasks)) in
              map (\<lambda>n. if en_kind n = NodeTask
                       then n\<lparr>en_task_workflow := (case byTaskID (en_step n) of None \<Rightarrow> [] | Some w \<Rightarrow> w)\<rparr> else n) nodes)"

definition engine_status_from :: "'w workflow_manager \<Rightarrow> string \<Rightarrow> 'w \<Rightarrow> admin_error + workflow_instance" where
  "engine_status_from mgr workflowID w =
     (case wm_status mgr w workflowID of
        WorkflowUnknown \<Rightarrow> Inl EngineWorkflowNotFound
      | StatusFailed e \<Rightarrow> Inl (EngineStatusFailed e)
      | StatusOf inst \<Rightarrow> Inr inst)"

definition GetEngineStatus :: "'w admin_service \<Rightarrow> string \<Rightarrow> 'w \<Rightarrow> admin_error + engine_status" where
  "GetEngineStatus s workflowID w =
     (case as_wm s of
        None \<Rightarrow> Inl (NoWorkflowManagerFor workflowID)
      | Some mgr \<Rightarrow>
          (case engine_status_from mgr workflowID w of
             Inl e \<Rightarrow> Inl e
           | Inr inst \<Rightarrow>
               let dto = buildEngineStatusDTO workflowID inst in
               Inr (dto\<lparr>es_nodes := attachTaskWorkflowIDs s inst (es_nodes dto)\<rparr>)))"

definition GetTaskWorkflowEngineStatus :: "'w admin_service \<Rightarrow> string \<Rightarrow> 'w \<Rightarrow> admin_error + engine_status" where
  "GetTaskWorkflowEngineStatus s workflowID w =
     (case as_task_wm s of
        None \<Rightarrow> Inl (NoWorkflowManagerFor workflowID)
      | Some mgr \<Rightarrow>
          (case engine_status_from mgr workflowID w of
             Inl e \<Rightarrow> Inl e
           | Inr inst \<Rightarrow> Inr (buildEngineStatusDTO workflowID inst)))"

subsection \<open>Resolving a parked node\<close>

definition findNodeByStep :: "(string \<times> node_info) list \<Rightarrow> string \<Rightarrow> (string \<times> node_info) option" where
  "findNodeByStep nodes stepID = (if stepID = [] then None else List.find (\<lambda>(_, n). ni_activation n = stepID) nodes)"

definition findParkedNode :: "(string \<times> node_info) list \<Rightarrow> string \<Rightarrow> (string \<times> node_info) option" where
  "findParkedNode nodes stepID =
     (if stepID = [] then None
      else List.find (\<lambda>(_, n). ni_activation n = stepID \<and> ni_status n = NodeAwaitingAdmin) nodes)"

definition resolveAdminIntervention ::
    "(nat \<Rightarrow> 'w \<Rightarrow> 'w) \<Rightarrow> 'w workflow_manager \<Rightarrow> string \<Rightarrow> admin_signal \<Rightarrow> 'w \<Rightarrow> (admin_error + string) \<times> 'w" where
  "resolveAdminIntervention others mgr workflowID sig w =
     (case wm_resolver mgr of
        None \<Rightarrow> (Inl InterventionUnsupported, w)
      | Some send \<Rightarrow>
          let w0 = others 0 w in
          (case engine_status_from mgr workflowID w0 of
             Inl e \<Rightarrow> (Inl e, w0)
           | Inr inst \<Rightarrow>
               (case findParkedNode (wi_nodes inst) (sg_activation sig) of
                  None \<Rightarrow> (Inl NodeNotParked, w0)
                | Some (nodeID, n) \<Rightarrow>
                    if ni_kind n = NodeGateway \<and> sg_action sig = AdminComplete then (Inl UnsupportedForGateway, w0)
                    else case send (others 1 w0) workflowID (sig\<lparr>sg_node := nodeID\<rparr>) of
                      (w1, Some e) \<Rightarrow> (Inl (SignalFailed e), w1)
                    | (w1, None) \<Rightarrow> (Inr nodeID, w1))))"

definition via_manager :: "'w workflow_manager option \<Rightarrow> string \<Rightarrow> ('w workflow_manager \<Rightarrow> (admin_error + 'a) \<times> 'w) \<Rightarrow> 'w \<Rightarrow> (admin_error + 'a) \<times> 'w" where
  "via_manager mgr workflowID run w = (case mgr of None \<Rightarrow> (Inl (NoWorkflowManagerFor workflowID), w) | Some m \<Rightarrow> run m)"

definition ResolveAdminIntervention ::
    "(nat \<Rightarrow> 'w \<Rightarrow> 'w) \<Rightarrow> 'w admin_service \<Rightarrow> string \<Rightarrow> admin_signal \<Rightarrow> 'w \<Rightarrow> (admin_error + string) \<times> 'w" where
  "ResolveAdminIntervention others s workflowID sig w =
     via_manager (as_wm s) workflowID (\<lambda>m. resolveAdminIntervention others m workflowID sig w) w"

definition ResolveTaskWorkflowAdminIntervention ::
    "(nat \<Rightarrow> 'w \<Rightarrow> 'w) \<Rightarrow> 'w admin_service \<Rightarrow> string \<Rightarrow> admin_signal \<Rightarrow> 'w \<Rightarrow> (admin_error + string) \<times> 'w" where
  "ResolveTaskWorkflowAdminIntervention others s workflowID sig w =
     via_manager (as_task_wm s) workflowID (\<lambda>m. resolveAdminIntervention others m workflowID sig w) w"

subsection \<open>Forcing a node to park\<close>

definition force_parked :: "node_info \<Rightarrow> bool" where
  "force_parked n = (ni_status n = NodeAwaitingAdmin \<and> ni_category n = AdminForced)"

definition findForceParkNode :: "(string \<times> node_info) list \<Rightarrow> string \<Rightarrow> bool \<Rightarrow> admin_error + string \<times> bool" where
  "findForceParkNode nodes stepID allowAlreadyForceParked =
     (case findNodeByStep nodes stepID of
        None \<Rightarrow> Inl NodeNotWaiting
      | Some (nodeID, n) \<Rightarrow>
          if ni_kind n \<noteq> NodeTask then Inl ForceParkNotATask
          else let already = allowAlreadyForceParked \<and> force_parked n in
            if ni_status n \<noteq> NodeRunning \<and> \<not> already then Inl NodeNotWaiting
            else Inr (nodeID, already))"

text \<open>\<open>after\<close> runs once the step is parked; it is the third call.\<close>

definition run_after :: "('w \<Rightarrow> admin_error option \<times> 'w) option \<Rightarrow> string \<Rightarrow> 'w \<Rightarrow> (admin_error + string) \<times> 'w" where
  "run_after after nodeID w =
     (case after of
        None \<Rightarrow> (Inr nodeID, w)
      | Some f \<Rightarrow> (case f w of (Some e, w1) \<Rightarrow> (Inl e, w1) | (None, w1) \<Rightarrow> (Inr nodeID, w1)))"

definition forceParkStep ::
    "(nat \<Rightarrow> 'w \<Rightarrow> 'w) \<Rightarrow> 'w workflow_manager \<Rightarrow> string \<Rightarrow> string \<Rightarrow> string \<Rightarrow> ('w \<Rightarrow> admin_error option \<times> 'w) option \<Rightarrow> 'w \<Rightarrow>
      (admin_error + string) \<times> 'w" where
  "forceParkStep others mgr workflowID stepID reason after w =
     (case wm_parker mgr of
        None \<Rightarrow> (Inl ForceParkUnsupported, w)
      | Some park \<Rightarrow>
          let w0 = others 0 w in
          (case engine_status_from mgr workflowID w0 of
             Inl e \<Rightarrow> (Inl e, w0)
           | Inr inst \<Rightarrow>
               (case findForceParkNode (wi_nodes inst) stepID (after \<noteq> None) of
                  Inl e \<Rightarrow> (Inl e, w0)
                | Inr (nodeID, already) \<Rightarrow>
                    if already then run_after after nodeID w0
                    else case park (others 1 w0) workflowID stepID reason of
                      (w1, Some ActivationNotPending) \<Rightarrow> (Inl NodeNotWaiting, w1)
                    | (w1, Some (ParkRefused e)) \<Rightarrow> (Inl (ParkFailed e), w1)
                    | (w1, None) \<Rightarrow> run_after after nodeID w1)))"

definition close_task :: "(nat \<Rightarrow> 'w \<Rightarrow> 'w) \<Rightarrow> ('w \<Rightarrow> string \<Rightarrow> string \<Rightarrow> 'w \<times> cancel_error option) \<Rightarrow> string \<Rightarrow> string \<Rightarrow> 'w \<Rightarrow> admin_error option \<times> 'w" where
  "close_task others cancel stepID reason w =
     (case cancel (others 2 w) stepID reason of
        (w1, None) \<Rightarrow> (None, w1)
      | (w1, Some TaskNotOpen) \<Rightarrow> (None, w1)
      | (w1, Some (CancelRefused e)) \<Rightarrow> (Some (CancelFailed e), w1))"

definition ForceParkTaskNode ::
    "(nat \<Rightarrow> 'w \<Rightarrow> 'w) \<Rightarrow> 'w admin_service \<Rightarrow> string \<Rightarrow> string \<Rightarrow> string \<Rightarrow> 'w \<Rightarrow> (admin_error + string) \<times> 'w" where
  "ForceParkTaskNode others s workflowID stepID reason w =
     (case as_cancel s of
        None \<Rightarrow> (Inl NoTaskCanceller, w)
      | Some cancel \<Rightarrow>
          via_manager (as_wm s) workflowID
            (\<lambda>m. forceParkStep others m workflowID stepID reason (Some (close_task others cancel stepID reason)) w) w)"

definition ForceParkTaskWorkflowStep ::
    "(nat \<Rightarrow> 'w \<Rightarrow> 'w) \<Rightarrow> 'w admin_service \<Rightarrow> string \<Rightarrow> string \<Rightarrow> string \<Rightarrow> 'w \<Rightarrow> (admin_error + string) \<times> 'w" where
  "ForceParkTaskWorkflowStep others s workflowID stepID reason w =
     via_manager (as_task_wm s) workflowID (\<lambda>m. forceParkStep others m workflowID stepID reason None w) w"


subsection \<open>Audit events and answers\<close>

datatype audit_action = AuditRead | AuditUpdate

record admin_event =
  ae_action :: audit_action
  ae_target :: string
  ae_failure :: bool
  ae_meta :: "(string \<times> json) list"

definition admin_event :: "audit_action \<Rightarrow> string \<Rightarrow> bool \<Rightarrow> (string \<times> json) list \<Rightarrow> admin_event" where
  "admin_event act target failure meta = \<lparr>ae_action = act, ae_target = target, ae_failure = failure, ae_meta = meta\<rparr>"

text \<open>\<open>ah_quote\<close> quotes a field's name in an error text; a nil auditor records nothing.\<close>

record 'w admin_handler =
  ah_svc :: "'w admin_service"
  ah_audits :: bool
  ah_quote :: "string \<Rightarrow> string"

definition auditEvent :: "'w admin_handler \<Rightarrow> admin_event \<Rightarrow> admin_event list" where
  "auditEvent h e = (if ah_audits h then [e] else [])"

definition auditFlowEventWithCaseID :: "'w admin_handler \<Rightarrow> admin_event \<Rightarrow> string \<Rightarrow> admin_event list" where
  "auditFlowEventWithCaseID h e caseID =
     auditEvent h (e\<lparr>ae_target := caseID,
       ae_meta := (let meta = obj_put ''workflowId'' (JStr (ae_target e)) (ae_meta e) in
         if caseID = [] then obj_put ''targetResolutionError'' (JStr ''workflow consignment could not be resolved'') meta else meta)\<rparr>)"

definition auditFlowEvent :: "'w admin_handler \<Rightarrow> 'w \<Rightarrow> admin_event \<Rightarrow> admin_event list" where
  "auditFlowEvent h w e =
     auditFlowEventWithCaseID h e
       (case as_wm (ah_svc h) of
          None \<Rightarrow> []
        | Some mgr \<Rightarrow> (case wm_status mgr w (ae_target e) of StatusOf inst \<Rightarrow> case_of_vars (as_case_var (ah_svc h)) (wi_vars inst) | _ \<Rightarrow> []))"

definition auditTaskWorkflowEvent :: "'w admin_handler \<Rightarrow> 'w \<Rightarrow> admin_event \<Rightarrow> admin_event list" where
  "auditTaskWorkflowEvent h w e =
     auditFlowEventWithCaseID h e
       (case as_tasks (ah_svc h) of
          None \<Rightarrow> []
        | Some tx \<Rightarrow> (case tx_case tx (ae_target e) of TaskOfCase c \<Rightarrow> c | _ \<Rightarrow> []))"

definition errUnauthorizedAdmin :: string where "errUnauthorizedAdmin = ''unauthorized''"
definition errWorkflowIDRequired :: string where "errWorkflowIDRequired = ''workflow ID is required''"
definition errWorkflowNotFound :: string where "errWorkflowNotFound = ''workflow execution not found''"
definition errAdminStepIDRequired :: string where "errAdminStepIDRequired = ''step ID is required''"
definition errAdminInvalidBody :: string where "errAdminInvalidBody = ''invalid request body''"
definition errInvalidAdminAction :: string where "errInvalidAdminAction = ''action must be one of RETRY, COMPLETE, ABORT''"
definition errReasonRequired :: string where "errReasonRequired = ''reason is required''"
definition errCaseIDRequired :: string where "errCaseIDRequired = ''case ID is required''"
definition errCaseNotFound :: string where "errCaseNotFound = ''case not found''"
definition textNodeNotParked :: string where "textNodeNotParked = ''node is not currently awaiting admin intervention''"
definition textUnsupportedForGateway :: string where
  "textUnsupportedForGateway = ''complete is not supported for GATEWAY nodes; use retry or abort''"
definition textNodeNotWaiting :: string where "textNodeNotWaiting = ''node is not waiting on its step''"
definition textForceParkNotATask :: string where "textForceParkNotATask = ''force-park is supported only for TASK nodes''"

text \<open>\<open>err.Error()\<close>, but for the identifiers and the texts of core some errors carry.\<close>

fun admin_error_text :: "admin_error \<Rightarrow> string" where
  "admin_error_text (NoWorkflowManagerFor w) = ''no workflow manager registered''"
| "admin_error_text NoTaskCanceller = ''no task canceller registered for workflowadmin.Service''"
| "admin_error_text EngineWorkflowNotFound = errWorkflowNotFound"
| "admin_error_text (EngineStatusFailed e) = e"
| "admin_error_text NodeNotParked = textNodeNotParked"
| "admin_error_text UnsupportedForGateway = textUnsupportedForGateway"
| "admin_error_text InterventionUnsupported = ''workflow manager does not support resolving admin interventions''"
| "admin_error_text (SignalFailed e) = e"
| "admin_error_text NodeNotWaiting = textNodeNotWaiting"
| "admin_error_text ForceParkNotATask = textForceParkNotATask"
| "admin_error_text ForceParkUnsupported = ''workflow manager does not support force-parking a step''"
| "admin_error_text (ParkFailed e) = e"
| "admin_error_text (CancelFailed e) = e"

subsection \<open>Bodies decoded without unknown fields\<close>

text \<open>A body is its first document, and whether anything follows it.\<close>

record admin_body =
  ab_doc :: raw_message
  ab_trailing :: bool

datatype strict_error = UnknownField string | BadBody

fun strict_members :: "(string \<times> (json \<Rightarrow> bool)) list \<Rightarrow> (string \<times> json) list \<Rightarrow> strict_error option" where
  "strict_members known [] = None"
| "strict_members known ((k, v) # kvs) =
     (case List.find (\<lambda>(name, _). fold_name name = fold_name k) known of
        None \<Rightarrow> Some (UnknownField k)
      | Some (_, fits) \<Rightarrow> if fits v then strict_members known kvs else Some BadBody)"

definition decode_strict :: "(string \<times> (json \<Rightarrow> bool)) list \<Rightarrow> ((string \<times> json) list \<Rightarrow> 'a) \<Rightarrow> raw_message \<Rightarrow> strict_error + 'a" where
  "decode_strict known value b =
     (case b of
        Doc JNull \<Rightarrow> Inr (value [])
      | Doc (JObj kvs) \<Rightarrow> (case strict_members known kvs of Some e \<Rightarrow> Inl e | None \<Rightarrow> Inr (value kvs))
      | _ \<Rightarrow> Inl BadBody)"

definition strict_text :: "'w admin_handler \<Rightarrow> strict_error \<Rightarrow> string" where
  "strict_text h e =
     (case e of BadBody \<Rightarrow> errAdminInvalidBody | UnknownField k \<Rightarrow> errAdminInvalidBody @ '': unknown field '' @ ah_quote h k)"

definition is_text :: "json \<Rightarrow> bool" where
  "is_text v = (decode_string v \<noteq> None)"

definition text_of :: "(string \<times> json) list \<Rightarrow> string \<Rightarrow> string" where
  "text_of kvs name = (case decode_string (member kvs name) of None \<Rightarrow> [] | Some s \<Rightarrow> s)"

fun object_or_null :: "json \<Rightarrow> bool" where
  "object_or_null JNull = True"
| "object_or_null (JObj kvs) = True"
| "object_or_null _ = False"

record resolve_request =
  rr_action :: string
  rr_patch :: "(string \<times> json) list"
  rr_reason :: string

definition decodeResolveRequest :: "raw_message \<Rightarrow> strict_error + resolve_request" where
  "decodeResolveRequest =
     decode_strict [(''action'', is_text), (''global_variables_patch'', object_or_null), (''reason'', is_text)]
       (\<lambda>kvs. \<lparr>rr_action = text_of kvs ''action'',
          rr_patch = (case member kvs ''global_variables_patch'' of JObj patch \<Rightarrow> patch | _ \<Rightarrow> []), rr_reason = text_of kvs ''reason''\<rparr>)"

definition decodeForceParkRequest :: "raw_message \<Rightarrow> strict_error + string" where
  "decodeForceParkRequest = decode_strict [(''reason'', is_text)] (\<lambda>kvs. text_of kvs ''reason'')"

definition validAdminActions :: "string \<Rightarrow> admin_action option" where
  "validAdminActions a =
     (if a = ''RETRY'' then Some AdminRetry else if a = ''COMPLETE'' then Some AdminComplete
      else if a = ''ABORT'' then Some AdminAbort else None)"

subsection \<open>The routes\<close>

text \<open>What the override routes check before they read the body.\<close>

definition admin_target :: "bool \<Rightarrow> string \<Rightarrow> string \<Rightarrow> reply option" where
  "admin_target authenticated workflowID stepID =
     (if \<not> authenticated then Some (reply 401 errUnauthorizedAdmin)
      else if workflowID = [] then Some (reply 400 errWorkflowIDRequired)
      else if stepID = [] then Some (reply 400 errAdminStepIDRequired)
      else None)"

definition read_body :: "'w admin_handler \<Rightarrow> (raw_message \<Rightarrow> strict_error + 'a) \<Rightarrow> admin_body \<Rightarrow> reply + 'a" where
  "read_body h decode b =
     (case decode (ab_doc b) of
        Inl e \<Rightarrow> Inl (reply 400 (strict_text h e))
      | Inr req \<Rightarrow> if ab_trailing b then Inl (reply 400 errAdminInvalidBody) else Inr req)"

definition read_resolve_request :: "'w admin_handler \<Rightarrow> bool \<Rightarrow> string \<Rightarrow> string \<Rightarrow> admin_body \<Rightarrow> reply + resolve_request \<times> admin_action" where
  "read_resolve_request h authenticated workflowID stepID b =
     (case admin_target authenticated workflowID stepID of
        Some r \<Rightarrow> Inl r
      | None \<Rightarrow>
          (case read_body h decodeResolveRequest b of
             Inl r \<Rightarrow> Inl r
           | Inr req \<Rightarrow>
               (case validAdminActions (rr_action req) of
                  None \<Rightarrow> Inl (reply 400 errInvalidAdminAction)
                | Some act \<Rightarrow> if trim_space (rr_reason req) = [] then Inl (reply 400 errReasonRequired) else Inr (req, act))))"

definition resolve_answer :: "admin_error \<Rightarrow> reply" where
  "resolve_answer e =
     (case e of
        EngineWorkflowNotFound \<Rightarrow> reply 404 errWorkflowNotFound
      | NodeNotParked \<Rightarrow> reply 409 textNodeNotParked
      | UnsupportedForGateway \<Rightarrow> reply 400 textUnsupportedForGateway
      | _ \<Rightarrow> reply 500 errInternal)"

definition handleResolveAdminIntervention ::
    "'w admin_handler \<Rightarrow> string \<Rightarrow> (string \<Rightarrow> admin_signal \<Rightarrow> 'w \<Rightarrow> (admin_error + string) \<times> 'w) \<Rightarrow> ('w \<Rightarrow> admin_event \<Rightarrow> admin_event list) \<Rightarrow>
      bool \<Rightarrow> string \<Rightarrow> string \<Rightarrow> admin_body \<Rightarrow> 'w \<Rightarrow> 'w \<times> reply \<times> admin_event list" where
  "handleResolveAdminIntervention h view resolve recordAudit authenticated workflowID stepID b w =
     (case read_resolve_request h authenticated workflowID stepID b of
        Inl r \<Rightarrow> (w, r, [])
      | Inr (req, act) \<Rightarrow>
          (case resolve workflowID \<lparr>sg_activation = stepID, sg_node = [], sg_action = act, sg_patch = rr_patch req, sg_reason = rr_reason req\<rparr> w of
             (Inl e, w1) \<Rightarrow>
               (w1, resolve_answer e, recordAudit w1 (admin_event AuditUpdate workflowID True
                  [(''view'', JStr view), (''stepId'', JStr stepID), (''action'', JStr (rr_action req)), (''error'', JStr (admin_error_text e))]))
           | (Inr nodeID, w1) \<Rightarrow>
               (w1, reply 204 [], recordAudit w1 (admin_event AuditUpdate workflowID False
                  [(''view'', JStr view), (''stepId'', JStr stepID), (''nodeId'', JStr nodeID), (''action'', JStr (rr_action req)),
                   (''reason'', JStr (rr_reason req))]))))"

definition HandleResolveAdminIntervention ::
    "(nat \<Rightarrow> 'w \<Rightarrow> 'w) \<Rightarrow> 'w admin_handler \<Rightarrow> bool \<Rightarrow> string \<Rightarrow> string \<Rightarrow> admin_body \<Rightarrow> 'w \<Rightarrow> 'w \<times> reply \<times> admin_event list" where
  "HandleResolveAdminIntervention others h =
     handleResolveAdminIntervention h ''admin-resolve'' (ResolveAdminIntervention others (ah_svc h)) (auditFlowEvent h)"

definition HandleResolveTaskWorkflowAdminIntervention ::
    "(nat \<Rightarrow> 'w \<Rightarrow> 'w) \<Rightarrow> 'w admin_handler \<Rightarrow> bool \<Rightarrow> string \<Rightarrow> string \<Rightarrow> admin_body \<Rightarrow> 'w \<Rightarrow> 'w \<times> reply \<times> admin_event list" where
  "HandleResolveTaskWorkflowAdminIntervention others h =
     handleResolveAdminIntervention h ''task-workflow-admin-resolve'' (ResolveTaskWorkflowAdminIntervention others (ah_svc h)) (auditTaskWorkflowEvent h)"

definition force_park_request :: "'w admin_handler \<Rightarrow> bool \<Rightarrow> string \<Rightarrow> string \<Rightarrow> admin_body \<Rightarrow> reply + string" where
  "force_park_request h authenticated workflowID stepID b =
     (case admin_target authenticated workflowID stepID of
        Some r \<Rightarrow> Inl r
      | None \<Rightarrow>
          (case read_body h decodeForceParkRequest b of
             Inl r \<Rightarrow> Inl r
           | Inr reason \<Rightarrow> if trim_space reason = [] then Inl (reply 400 errReasonRequired) else Inr reason))"

definition force_park_answer :: "admin_error \<Rightarrow> reply" where
  "force_park_answer e =
     (case e of
        EngineWorkflowNotFound \<Rightarrow> reply 404 errWorkflowNotFound
      | NodeNotWaiting \<Rightarrow> reply 409 textNodeNotWaiting
      | ForceParkNotATask \<Rightarrow> reply 400 textForceParkNotATask
      | _ \<Rightarrow> reply 500 errInternal)"

definition handleForcePark ::
    "'w admin_handler \<Rightarrow> string \<Rightarrow> (string \<Rightarrow> string \<Rightarrow> string \<Rightarrow> 'w \<Rightarrow> (admin_error + string) \<times> 'w) \<Rightarrow> ('w \<Rightarrow> admin_event \<Rightarrow> admin_event list) \<Rightarrow>
      bool \<Rightarrow> string \<Rightarrow> string \<Rightarrow> admin_body \<Rightarrow> 'w \<Rightarrow> 'w \<times> reply \<times> admin_event list" where
  "handleForcePark h view forcePark recordAudit authenticated workflowID stepID b w =
     (case force_park_request h authenticated workflowID stepID b of
        Inl r \<Rightarrow> (w, r, [])
      | Inr reason \<Rightarrow>
          (case forcePark workflowID stepID reason w of
             (Inl e, w1) \<Rightarrow>
               (w1, force_park_answer e, recordAudit w1 (admin_event AuditUpdate workflowID True
                  [(''view'', JStr view), (''stepId'', JStr stepID), (''error'', JStr (admin_error_text e))]))
           | (Inr nodeID, w1) \<Rightarrow>
               (w1, reply 204 [], recordAudit w1 (admin_event AuditUpdate workflowID False
                  [(''view'', JStr view), (''stepId'', JStr stepID), (''nodeId'', JStr nodeID), (''reason'', JStr reason)]))))"

definition HandleForceParkTaskNode ::
    "(nat \<Rightarrow> 'w \<Rightarrow> 'w) \<Rightarrow> 'w admin_handler \<Rightarrow> bool \<Rightarrow> string \<Rightarrow> string \<Rightarrow> admin_body \<Rightarrow> 'w \<Rightarrow> 'w \<times> reply \<times> admin_event list" where
  "HandleForceParkTaskNode others h =
     handleForcePark h ''admin-force-park'' (ForceParkTaskNode others (ah_svc h)) (auditFlowEvent h)"

definition HandleForceParkTaskWorkflowStep ::
    "(nat \<Rightarrow> 'w \<Rightarrow> 'w) \<Rightarrow> 'w admin_handler \<Rightarrow> bool \<Rightarrow> string \<Rightarrow> string \<Rightarrow> admin_body \<Rightarrow> 'w \<Rightarrow> 'w \<times> reply \<times> admin_event list" where
  "HandleForceParkTaskWorkflowStep others h =
     handleForcePark h ''task-workflow-admin-force-park'' (ForceParkTaskWorkflowStep others (ah_svc h)) (auditTaskWorkflowEvent h)"

datatype 'a admin_view = AdminRefused reply | AdminShown 'a

definition handleEngineStatus ::
    "'w admin_handler \<Rightarrow> string \<Rightarrow> bool \<Rightarrow> (string \<Rightarrow> 'w \<Rightarrow> admin_error + engine_status) \<Rightarrow> bool \<Rightarrow> string \<Rightarrow> 'w \<Rightarrow>
      engine_status admin_view \<times> admin_event list" where
  "handleEngineStatus h view flowAudit fetch authenticated ident w =
     (if \<not> authenticated then (AdminRefused (reply 401 errUnauthorizedAdmin), [])
      else if ident = [] then (AdminRefused (reply 400 errWorkflowIDRequired), [])
      else case fetch ident w of
        Inl e \<Rightarrow> (AdminRefused (if e = EngineWorkflowNotFound then reply 404 errWorkflowNotFound else reply 500 errInternal), [])
      | Inr status \<Rightarrow>
          let event = admin_event AuditRead ident False [(''view'', JStr view)] in
          (AdminShown status,
           if flowAudit then auditFlowEventWithCaseID h event (case_of_vars (as_case_var (ah_svc h)) (es_vars status))
           else auditTaskWorkflowEvent h w event))"

definition HandleGetWorkflowEngineStatus :: "'w admin_handler \<Rightarrow> bool \<Rightarrow> string \<Rightarrow> 'w \<Rightarrow> engine_status admin_view \<times> admin_event list" where
  "HandleGetWorkflowEngineStatus h = handleEngineStatus h ''engine-status'' True (GetEngineStatus (ah_svc h))"

definition HandleGetTaskWorkflowEngineStatus :: "'w admin_handler \<Rightarrow> bool \<Rightarrow> string \<Rightarrow> 'w \<Rightarrow> engine_status admin_view \<times> admin_event list" where
  "HandleGetTaskWorkflowEngineStatus h = handleEngineStatus h ''task-workflow-engine-status'' False (GetTaskWorkflowEngineStatus (ah_svc h))"


subsection \<open>A case as the admin sees it\<close>

record case_detail =
  cd_id :: string
  cd_name :: string
  cd_state :: case_state
  cd_nodes :: "(string \<times> string \<times> string \<times> string) list"
  cd_flows :: "flow_view list"

datatype case_error = ErrCaseNotFound | CaseReadFailed string | CaseFlowsFailed store_error

definition getCaseRow :: "string \<Rightarrow> 'def con_world \<Rightarrow> case_error + case_row" where
  "getCaseRow ident W =
     (case cw_fault W of
        Some e \<Rightarrow> Inl (CaseReadFailed e)
      | None \<Rightarrow>
          (case List.find (\<lambda>k. c_id k = ident) (st_cases (fw_store (cw_flows W))) of
             None \<Rightarrow> Inl ErrCaseNotFound
           | Some k \<Rightarrow> Inr k))"

text \<open>A task is its ID, title, type and the store's own state; timestamps are not kept.\<close>

definition GetCaseDetail ::
    "con_env \<Rightarrow> (string \<Rightarrow> string + con_task list) \<Rightarrow> string \<Rightarrow> 'def con_world \<Rightarrow> (case_error + case_detail) \<times> 'def con_world" where
  "GetCaseDetail env getTasks ident W =
     (case getCaseRow ident W of
        Inl e \<Rightarrow> (Inl e, W)
      | Inr k \<Rightarrow>
     (case getTasks ident of
        Inl e \<Rightarrow> (Inl (CaseReadFailed e), W)
      | Inr rawTasks \<Rightarrow>
     (case ListByCase ident (fw_store (cw_flows W)) of
        (Inl e, db) \<Rightarrow> (Inl (CaseFlowsFailed e), W\<lparr>cw_flows := (cw_flows W)\<lparr>fw_store := db\<rparr>\<rparr>)
      | (Inr fs, db) \<Rightarrow>
          (Inr \<lparr>cd_id = c_id k, cd_name = (case c_name k of None \<Rightarrow> [] | Some n \<Rightarrow> n), cd_state = c_state k,
             cd_nodes = map (\<lambda>t. (ct_id t, ce_title env t, ct_type t, ct_state t)) (filter (\<lambda>t. ct_type t \<noteq> ''SYSTEM'') rawTasks),
             cd_flows = map (ViewOf env) fs\<rparr>,
           W\<lparr>cw_flows := (cw_flows W)\<lparr>fw_store := db\<rparr>\<rparr>))))"

definition HandleGetCase ::
    "'w admin_handler \<Rightarrow> con_env \<Rightarrow> (string \<Rightarrow> string + con_task list) \<Rightarrow> bool \<Rightarrow> string \<Rightarrow> 'def con_world \<Rightarrow>
      (case_detail admin_view \<times> admin_event list) \<times> 'def con_world" where
  "HandleGetCase h env getTasks authenticated ident W =
     (if \<not> authenticated then ((AdminRefused (reply 401 errUnauthorizedAdmin), []), W)
      else if ident = [] then ((AdminRefused (reply 400 errCaseIDRequired), []), W)
      else case GetCaseDetail env getTasks ident W of
        (Inl e, W1) \<Rightarrow> ((AdminRefused (if e = ErrCaseNotFound then reply 404 errCaseNotFound else reply 500 errInternal), []), W1)
      | (Inr d, W1) \<Rightarrow> ((AdminShown d, auditEvent h (admin_event AuditRead ident False [(''view'', JStr ''admin-case'')])), W1))"

subsection \<open>What an override does to the engine\<close>

text \<open>
  An answer and its audit trail agree: a request that reached the service is recorded once, as a
  failure unless it was answered 204.
\<close>

definition audited :: "'w admin_handler \<Rightarrow> reply \<Rightarrow> admin_event list \<Rightarrow> bool" where
  "audited h r evs = (ah_audits h \<longrightarrow> length evs = 1 \<and> ae_action (hd evs) = AuditUpdate \<and> (ae_failure (hd evs) \<longleftrightarrow> rp_status r \<noteq> 204))"

lemma audited_flow [simp]:
  "audited h r (auditFlowEvent h w (admin_event AuditUpdate t failure m)) \<longleftrightarrow> ah_audits h \<longrightarrow> (failure \<longleftrightarrow> rp_status r \<noteq> 204)"
  by (auto simp: audited_def auditFlowEvent_def auditFlowEventWithCaseID_def auditEvent_def admin_event_def)

lemma answers_not_204 [simp]: "rp_status (resolve_answer e) \<noteq> 204" "rp_status (force_park_answer e) \<noteq> 204"
  by (simp_all add: resolve_answer_def force_park_answer_def split: admin_error.splits)

lemma answer_cancel_failed [simp]: "force_park_answer (CancelFailed m) = reply 500 errInternal"
  by (simp add: force_park_answer_def)

text \<open>The node whose current run is a step.\<close>

definition step_node :: "'w workflow_manager \<Rightarrow> 'w \<Rightarrow> string \<Rightarrow> string \<Rightarrow> node_info option" where
  "step_node mgr w workflowID stepID =
     (case wm_status mgr w workflowID of StatusOf inst \<Rightarrow> map_option snd (findNodeByStep (wi_nodes inst) stepID) | _ \<Rightarrow> None)"

definition forced :: "'w workflow_manager \<Rightarrow> 'w \<Rightarrow> string \<Rightarrow> string \<Rightarrow> bool" where
  "forced mgr w workflowID stepID =
     (case step_node mgr w workflowID stepID of None \<Rightarrow> False | Some n \<Rightarrow> ni_kind n = NodeTask \<and> force_parked n)"

text \<open>A resolve request signals the engine at most once, and only for the step it names, parked at
  that moment and not a gateway asked to complete: the signal carries the parked node's ID and the
  request's action, patch and reason, 204 is answered exactly when the engine took it, every other
  request leaves the engine alone, and one that passed its checks is audited with its outcome.\<close>

theorem resolve_signals_parked_step:
  assumes "as_wm (ah_svc h) = Some mgr" and "wm_resolver mgr = Some send"
    and "HandleResolveAdminIntervention others h authenticated workflowID stepID b w = (w', r, evs)"
  shows "(case read_resolve_request h authenticated workflowID stepID b of
      Inl refusal \<Rightarrow> w' = w \<and> r = refusal \<and> rp_status r \<in> {400, 401} \<and> evs = []
    | Inr (req, act) \<Rightarrow> audited h r evs \<and>
        (rp_status r \<noteq> 204 \<and> w' = others 0 w \<or>
         (\<exists>inst nodeID n e. wm_status mgr (others 0 w) workflowID = StatusOf inst \<and> findParkedNode (wi_nodes inst) stepID = Some (nodeID, n) \<and>
            \<not> (ni_kind n = NodeGateway \<and> act = AdminComplete) \<and>
            send (others 1 (others 0 w)) workflowID
              \<lparr>sg_activation = stepID, sg_node = nodeID, sg_action = act, sg_patch = rr_patch req, sg_reason = rr_reason req\<rparr> = (w', e) \<and>
            (rp_status r = 204 \<longleftrightarrow> e = None))))"
proof (cases "read_resolve_request h authenticated workflowID stepID b")
  case (Inl refusal)
  moreover have "rp_status refusal \<in> {400, 401}"
    using Inl by (auto simp: read_resolve_request_def admin_target_def read_body_def split: if_splits option.splits sum.splits)
  ultimately show ?thesis
    using assms(3) by (simp add: HandleResolveAdminIntervention_def handleResolveAdminIntervention_def)
next
  case (Inr ra)
  obtain req act where ra: "ra = (req, act)" by (cases ra)
  show ?thesis
    using assms Inr ra
    by (auto simp: HandleResolveAdminIntervention_def handleResolveAdminIntervention_def ResolveAdminIntervention_def via_manager_def
        resolveAdminIntervention_def engine_status_from_def Let_def
        split: sum.splits prod.splits option.splits if_splits status_answer.splits)
qed


text \<open>
  What core documents of forcing a step to park and of closing a task. A step it parks is its
  node's current run, awaiting an admin who forced it, of the kind it was; closing a task, or
  learning that it is not open, leaves it shut; and while the request runs nobody else, nor the
  closing, moves the node off the step or resolves it once forced.
\<close>

definition keeps_node :: "'w workflow_manager \<Rightarrow> string \<Rightarrow> string \<Rightarrow> ('w \<Rightarrow> 'w) \<Rightarrow> bool" where
  "keeps_node mgr workflowID stepID f \<longleftrightarrow>
     (\<forall>w n. step_node mgr w workflowID stepID = Some n \<longrightarrow>
        (\<exists>n'. step_node mgr (f w) workflowID stepID = Some n' \<and> ni_kind n' = ni_kind n \<and> (force_parked n \<longrightarrow> force_parked n')))"

definition park_contract ::
    "'w workflow_manager \<Rightarrow> ('w \<Rightarrow> string \<Rightarrow> string \<Rightarrow> string \<Rightarrow> 'w \<times> park_error option) \<Rightarrow>
      ('w \<Rightarrow> string \<Rightarrow> string \<Rightarrow> 'w \<times> cancel_error option) \<Rightarrow> ('w \<Rightarrow> string \<Rightarrow> bool) \<Rightarrow> string \<Rightarrow> string \<Rightarrow> bool" where
  "park_contract mgr park cancel shut workflowID stepID \<longleftrightarrow>
     (\<forall>w n reason w'. step_node mgr w workflowID stepID = Some n \<longrightarrow> park w workflowID stepID reason = (w', None) \<longrightarrow>
        (\<exists>n'. step_node mgr w' workflowID stepID = Some n' \<and> ni_kind n' = ni_kind n \<and> force_parked n')) \<and>
     (\<forall>reason. keeps_node mgr workflowID stepID (\<lambda>w. fst (cancel w stepID reason))) \<and>
     (\<forall>w reason w' e. cancel w stepID reason = (w', e) \<longrightarrow> e \<in> {None, Some TaskNotOpen} \<longrightarrow> shut w' stepID)"

lemma forced_kept: "keeps_node mgr wid step f \<Longrightarrow> forced mgr w wid step \<Longrightarrow> forced mgr (f w) wid step"
  by (fastforce simp: keeps_node_def forced_def split: option.splits)

lemma forced_cancel:
  "park_contract mgr park cancel shut wid step \<Longrightarrow> forced mgr w wid step \<Longrightarrow> forced mgr (fst (cancel w step reason)) wid step"
  by (rule forced_kept [where f = "\<lambda>w. fst (cancel w step reason)"]) (simp_all add: park_contract_def)

lemma forced_park:
  assumes "park_contract mgr park cancel shut wid step" and "step_node mgr w wid step = Some n" and "ni_kind n = NodeTask"
    and "keeps_node mgr wid step f" and "park (f w) wid step reason = (w', None)"
  shows "forced mgr w' wid step"
proof -
  from assms(4,2,3) obtain n1 where "step_node mgr (f w) wid step = Some n1" "ni_kind n1 = NodeTask"
    unfolding keeps_node_def by metis
  with assms(1,5) obtain n' where "step_node mgr w' wid step = Some n'" "ni_kind n' = NodeTask" "force_parked n'"
    unfolding park_contract_def by metis
  then show ?thesis by (simp add: forced_def)
qed

lemma force_park_node_found:
  assumes "findForceParkNode nodes step allow = Inr (nodeID, already)"
  obtains n where "findNodeByStep nodes step = Some (nodeID, n)" "ni_kind n = NodeTask" "already \<longrightarrow> force_parked n"
  using assms by (auto simp: findForceParkNode_def Let_def split: option.splits if_splits)

lemma close_task_cases:
  assumes "close_task others cancel step reason w = (e, w')"
  obtains "e = None" "cancel (others 2 w) step reason = (w', None)"
    | "e = None" "cancel (others 2 w) step reason = (w', Some TaskNotOpen)"
    | m where "e = Some (CancelFailed m)" "cancel (others 2 w) step reason = (w', Some (CancelRefused m))"
  using assms by (auto simp: close_task_def split: prod.splits option.splits cancel_error.splits)

text \<open>Forcing a task's node to park, answered 204, leaves the node awaiting the admin who forced it
  and the task shut; if only closing the task failed the answer is 500 and the node is parked all
  the same.\<close>

theorem force_park_closes_task:
  assumes "as_wm (ah_svc h) = Some mgr" and "wm_parker mgr = Some park" and "as_cancel (ah_svc h) = Some cancel"
    and "park_contract mgr park cancel shut workflowID stepID" and "\<forall>i. keeps_node mgr workflowID stepID (others i)"
    and "HandleForceParkTaskNode others h authenticated workflowID stepID b w = (w', r, evs)"
  shows "(rp_status r = 204 \<longrightarrow> forced mgr w' workflowID stepID \<and> shut w' stepID) \<and>
    (\<forall>reason m. force_park_request h authenticated workflowID stepID b = Inr reason \<longrightarrow>
       fst (ForceParkTaskNode others (ah_svc h) workflowID stepID reason w) = Inl (CancelFailed m) \<longrightarrow>
       rp_status r = 500 \<and> forced mgr w' workflowID stepID)"
proof (cases "force_park_request h authenticated workflowID stepID b")
  case (Inl refusal)
  then have "rp_status refusal \<noteq> 204"
    by (auto simp: force_park_request_def admin_target_def read_body_def split: if_splits option.splits sum.splits)
  with Inl assms(6) show ?thesis by (auto simp: HandleForceParkTaskNode_def handleForcePark_def)
next
  case (Inr reason)
  obtain res w1 where run: "ForceParkTaskNode others (ah_svc h) workflowID stepID reason w = (res, w1)"
    by (cases "ForceParkTaskNode others (ah_svc h) workflowID stepID reason w")
  have answered: "w' = w1 \<and> r = (case res of Inl e \<Rightarrow> force_park_answer e | Inr _ \<Rightarrow> reply 204 [])"
    using assms(6) Inr run by (auto simp: HandleForceParkTaskNode_def handleForcePark_def split: sum.splits)
  let ?after = "close_task others cancel stepID reason"
  have step: "forceParkStep others mgr workflowID stepID reason (Some ?after) w = (res, w1)"
    using run assms(1,3) by (simp add: ForceParkTaskNode_def via_manager_def)
  have closing: "res = Inr nodeID \<and> forced mgr w1 workflowID stepID \<and> shut w1 stepID \<or>
      (\<exists>m. res = Inl (CancelFailed m)) \<and> forced mgr w1 workflowID stepID"
    if f: "forced mgr v workflowID stepID" and a: "run_after (Some ?after) nodeID v = (res, w1)" for v nodeID
  proof -
    obtain e v1 where e: "?after v = (e, v1)" by (cases "?after v")
    then have v1: "v1 = fst (cancel (others 2 v) stepID reason)" by (elim close_task_cases) simp_all
    have "forced mgr (others 2 v) workflowID stepID" using forced_kept [OF assms(5) [rule_format] f] .
    then have "forced mgr v1 workflowID stepID" unfolding v1 by (rule forced_cancel [OF assms(4)])
    moreover have "e = None \<Longrightarrow> shut v1 stepID"
      using e assms(4) [unfolded park_contract_def] by (elim close_task_cases) blast+
    moreover have "e = None \<or> (\<exists>m. e = Some (CancelFailed m))" using e by (elim close_task_cases) simp_all
    ultimately show ?thesis using a e by (auto simp: run_after_def)
  qed
  have "(\<exists>nodeID. res = Inr nodeID) \<or> (\<exists>m. res = Inl (CancelFailed m)) \<Longrightarrow>
      forced mgr w1 workflowID stepID \<and> (\<forall>nodeID. res = Inr nodeID \<longrightarrow> shut w1 stepID)"
  proof -
    assume ended: "(\<exists>nodeID. res = Inr nodeID) \<or> (\<exists>m. res = Inl (CancelFailed m))"
    let ?w0 = "others 0 w"
    obtain inst where inst: "wm_status mgr ?w0 workflowID = StatusOf inst"
      using step ended assms(2) by (auto simp: forceParkStep_def engine_status_from_def Let_def split: status_answer.splits)
    have "findForceParkNode (wi_nodes inst) stepID True \<noteq> Inl (CancelFailed m)" for m
      by (auto simp: findForceParkNode_def Let_def split: option.splits)
    then obtain nodeID already where found: "findForceParkNode (wi_nodes inst) stepID True = Inr (nodeID, already)"
      using step ended assms(2) inst by (auto simp: forceParkStep_def engine_status_from_def Let_def split: sum.splits)
    then obtain n where n: "findNodeByStep (wi_nodes inst) stepID = Some (nodeID, n)" "ni_kind n = NodeTask" "already \<longrightarrow> force_parked n"
      by (rule force_park_node_found)
    have sn: "step_node mgr ?w0 workflowID stepID = Some n" by (simp add: step_node_def inst n)
    show ?thesis
    proof (cases already)
      case True
      with n sn have "forced mgr ?w0 workflowID stepID" by (simp add: forced_def)
      moreover have "run_after (Some ?after) nodeID ?w0 = (res, w1)"
        using step assms(2) inst found True by (simp add: forceParkStep_def engine_status_from_def)
      ultimately show ?thesis using closing by blast
    next
      case False
      obtain v e where park: "park (others 1 ?w0) workflowID stepID reason = (v, e)"
        by (cases "park (others 1 ?w0) workflowID stepID reason")
      then have "e = None"
        using step ended assms(2) inst found False
        by (auto simp: forceParkStep_def engine_status_from_def split: option.splits park_error.splits)
      with park step assms(2) inst found False have "run_after (Some ?after) nodeID v = (res, w1)"
        by (simp add: forceParkStep_def engine_status_from_def)
      moreover have "forced mgr v workflowID stepID"
        using forced_park [OF assms(4) sn n(2), of "others 1"] assms(5) park \<open>e = None\<close> by blast
      ultimately show ?thesis using closing by blast
    qed
  qed
  with answered Inr run show ?thesis by (cases res) auto
qed

text \<open>The same request sent again for a node an earlier one parked does not park it again: it goes
  straight to closing the task, and is answered 204 exactly when the task is shut or not open.\<close>

theorem force_park_repeat_finishes:
  assumes "as_wm (ah_svc h) = Some mgr" and "wm_parker mgr = Some park" and "as_cancel (ah_svc h) = Some cancel"
    and "forced mgr (others 0 w) workflowID stepID" and "force_park_request h authenticated workflowID stepID b = Inr reason"
    and "cancel (others 2 (others 0 w)) stepID reason = (w1, e)"
  shows "\<exists>r evs. HandleForceParkTaskNode others h authenticated workflowID stepID b w = (w1, r, evs) \<and>
    (rp_status r = 204 \<longleftrightarrow> e \<in> {None, Some TaskNotOpen}) \<and> audited h r evs"
proof -
  from assms(4) obtain inst nodeID n where inst: "wm_status mgr (others 0 w) workflowID = StatusOf inst"
    and n: "findNodeByStep (wi_nodes inst) stepID = Some (nodeID, n)" "ni_kind n = NodeTask" "force_parked n"
    by (auto simp: forced_def step_node_def split: option.splits status_answer.splits)
  from n have "findForceParkNode (wi_nodes inst) stepID True = Inr (nodeID, True)" by (simp add: findForceParkNode_def)
  with assms inst show ?thesis
    by (cases e) (auto simp: HandleForceParkTaskNode_def handleForcePark_def ForceParkTaskNode_def via_manager_def forceParkStep_def
        engine_status_from_def run_after_def close_task_def split: cancel_error.splits)
qed


subsection \<open>Witnesses\<close>

text \<open>An engine with one task node, parked or not, and its task, closed or not.\<close>

definition demo_node :: "bool \<Rightarrow> node_info" where
  "demo_node p = \<lparr>ni_id = ''review'', ni_activation = ''s1'', ni_kind = NodeTask, ni_gateway = [], ni_template = ''t'',
     ni_status = (if p then NodeAwaitingAdmin else NodeRunning), ni_error = [], ni_category = (if p then AdminForced else ParkCategory []),
     ni_inputs = [], ni_outputs = [], ni_created = 0, ni_updated = 0, ni_children = [], ni_cached = []\<rparr>"

definition demo_park :: "bool \<times> bool \<Rightarrow> string \<Rightarrow> string \<Rightarrow> string \<Rightarrow> (bool \<times> bool) \<times> park_error option" where
  "demo_park w workflowID stepID reason = ((True, snd w), None)"

definition demo_cancel_task :: "bool \<times> bool \<Rightarrow> string \<Rightarrow> string \<Rightarrow> (bool \<times> bool) \<times> cancel_error option" where
  "demo_cancel_task w taskID reason = ((fst w, True), None)"

definition demo_send :: "bool \<times> bool \<Rightarrow> string \<Rightarrow> admin_signal \<Rightarrow> (bool \<times> bool) \<times> string option" where
  "demo_send w workflowID sig = ((False, snd w), None)"

definition demo_manager :: "(bool \<times> bool) workflow_manager" where
  "demo_manager = \<lparr>wm_status = (\<lambda>w _. StatusOf \<lparr>wi_status = ''RUNNING'', wi_nodes = [(''review'', demo_node (fst w))], wi_trail = [],
       wi_vars = [(''caseId'', JStr ''k1'')], wi_edges = []\<rparr>),
     wm_resolver = Some demo_send, wm_parker = Some demo_park\<rparr>"

definition demo_admin :: "(bool \<times> bool) admin_handler" where
  "demo_admin = \<lparr>ah_svc = \<lparr>as_wm = Some demo_manager, as_task_wm = None, as_cancel = Some demo_cancel_task, as_tasks = None, as_case_var = ''caseId''\<rparr>,
     ah_audits = True, ah_quote = id\<rparr>"

definition demo_resolve_body :: admin_body where
  "demo_resolve_body = \<lparr>ab_doc = Doc (JObj [(''action'', JStr ''RETRY''), (''reason'', JStr ''amended'')]), ab_trailing = False\<rparr>"

definition demo_park_body :: admin_body where
  "demo_park_body = \<lparr>ab_doc = Doc (JObj [(''reason'', JStr ''amended'')]), ab_trailing = False\<rparr>"

lemma demo_admin_sel: "as_wm (ah_svc demo_admin) = Some demo_manager" "wm_resolver demo_manager = Some demo_send"
  "wm_parker demo_manager = Some demo_park" "as_cancel (ah_svc demo_admin) = Some demo_cancel_task" "ah_audits demo_admin"
  by (simp_all add: demo_admin_def demo_manager_def)

lemma demo_step_node: "step_node demo_manager w ''f1'' ''s1'' = Some (demo_node (fst w))"
  by (simp add: step_node_def demo_manager_def findNodeByStep_def demo_node_def)

lemma demo_park_contract: "park_contract demo_manager demo_park demo_cancel_task (\<lambda>w _. snd w) ''f1'' ''s1''"
  by (auto simp: park_contract_def keeps_node_def demo_step_node demo_park_def demo_cancel_task_def demo_node_def force_parked_def)

theorem resolve_signals_parked_step_witness:
  "\<exists>w' r evs. HandleResolveAdminIntervention (\<lambda>_ w. w) demo_admin True ''f1'' ''s1'' demo_resolve_body (True, False) = (w', r, evs) \<and>
     rp_status r = 204 \<and> length evs = 1"
proof -
  let ?run = "HandleResolveAdminIntervention (\<lambda>_ w. w) demo_admin True ''f1'' ''s1'' demo_resolve_body (True, False)"
  obtain w' r evs where run: "?run = (w', r, evs)" by (cases ?run)
  have "rp_status (fst (snd ?run)) = 204" by code_simp
  with run have "rp_status r = 204" by simp
  moreover have "is_ok (read_resolve_request demo_admin True ''f1'' ''s1'' demo_resolve_body)" by code_simp
  then obtain ra where "read_resolve_request demo_admin True ''f1'' ''s1'' demo_resolve_body = Inr ra" by (auto simp: is_ok_iff)
  with resolve_signals_parked_step [OF demo_admin_sel(1,2) run] have "audited demo_admin r evs" by (cases ra) simp
  ultimately show ?thesis using run demo_admin_sel(5) by (simp add: audited_def)
qed

theorem force_park_closes_task_witness:
  "\<exists>r evs. HandleForceParkTaskNode (\<lambda>_ w. w) demo_admin True ''f1'' ''s1'' demo_park_body (False, False) = ((True, True), r, evs) \<and>
     rp_status r = 204 \<and> forced demo_manager (True, True) ''f1'' ''s1''"
proof -
  let ?run = "HandleForceParkTaskNode (\<lambda>_ w. w) demo_admin True ''f1'' ''s1'' demo_park_body (False, False)"
  obtain w' r evs where run: "?run = (w', r, evs)" by (cases ?run)
  have "rp_status (fst (snd ?run)) = 204 \<and> fst ?run = (True, True)" by code_simp
  with run have r: "rp_status r = 204" "w' = (True, True)" by simp_all
  have "\<forall>i. keeps_node demo_manager ''f1'' ''s1'' ((\<lambda>_ w. w) i)" by (simp add: keeps_node_def)
  from force_park_closes_task [OF demo_admin_sel(1,3,4) demo_park_contract, of "\<lambda>_ w. w", OF this run] r run
  show ?thesis by simp
qed

theorem force_park_repeat_finishes_witness:
  "\<exists>r evs. HandleForceParkTaskNode (\<lambda>_ w. w) demo_admin True ''f1'' ''s1'' demo_park_body (True, False) = ((True, True), r, evs) \<and> rp_status r = 204"
proof -
  have "is_ok (force_park_request demo_admin True ''f1'' ''s1'' demo_park_body)" by code_simp
  then obtain reason where "force_park_request demo_admin True ''f1'' ''s1'' demo_park_body = Inr reason" by (auto simp: is_ok_iff)
  moreover have "forced demo_manager (True, False) ''f1'' ''s1''"
    by (simp add: forced_def demo_step_node) (simp add: demo_node_def force_parked_def)
  moreover have "demo_cancel_task (True, False) ''s1'' reason = ((True, True), None)" by (simp add: demo_cancel_task_def)
  ultimately show ?thesis
    using force_park_repeat_finishes [where others = "\<lambda>_ w. w" and w = "(True, False)", OF demo_admin_sel(1,3,4)] by blast
qed

end
