(* ===== verification/Edge_Webhook.thy ===== *)
theory Edge_Webhook
  imports Edge_Requests
begin

text \<open>
  \<open>external-integration/customs/asycuda/handler.go\<close> and \<open>retry.go\<close>: the webhook SLC Edge
  posts its callbacks to, and the retries of the callbacks that arrive early. A delivery is a
  body and what the outside answers during it; the world is the two tables' states and the
  callbacks held for retry. The JSON parser, the time parser and the digest naming a held body
  are parameters. Auditing and tracing are left out: they write no state a callback reads.
\<close>

subsection \<open>State\<close>

datatype edge_error = CusErr cusdec_error | CdnErr cdn_error | ErrInvalidCallback

record callback =
  cb_event_type :: string
  cb_body :: string

record edge_world =
  ew_cus :: "cusdec_status edge_state"
  ew_cdn :: note_state
  ew_pending :: "(string \<times> callback) list"

record delivery_env =
  de_cus :: edge_env
  de_cdn :: edge_env
  de_parse :: "string \<Rightarrow> json option"
  de_time :: time_parser
  de_key :: "string \<Rightarrow> string"

text \<open>A service call as the handler sees it: its error lifted, its state put back.\<close>

definition on_cus :: "(cusdec_status edge_state \<Rightarrow> (cusdec_error + unit) \<times> cusdec_status edge_state) \<Rightarrow> edge_world \<Rightarrow> (edge_error + unit) \<times> edge_world" where
  "on_cus f w = (case f (ew_cus w) of (r, st) \<Rightarrow> (map_sum CusErr id r, w\<lparr>ew_cus := st\<rparr>))"

definition on_cdn :: "(note_state \<Rightarrow> (cdn_error + unit) \<times> note_state) \<Rightarrow> edge_world \<Rightarrow> (edge_error + unit) \<times> edge_world" where
  "on_cdn f w = (case f (ew_cdn w) of (r, st) \<Rightarrow> (map_sum CdnErr id r, w\<lparr>ew_cdn := st\<rparr>))"

subsection \<open>Early and permanent errors\<close>

definition isPermanent :: "edge_error \<Rightarrow> bool" where
  "isPermanent e =
     list_ex (\<lambda>target. e = target)
       [ErrInvalidCallback, CusErr ErrWorkflowNotFoundByEdgeID, CusErr ErrCaseNotRecorded,
        CdnErr ErrDispatchNoteNotFoundByEdgeID, CdnErr ErrNoteCaseNotRecorded]"

definition isEarly :: "edge_error \<Rightarrow> bool" where
  "isEarly e =
     list_ex (\<lambda>target. e = target)
       [CusErr ErrDeclarationNotRecorded, CusErr ErrTaskNotParked, CusErr ErrCusdecNotFoundByRef,
        CdnErr ErrDispatchNoteNotRecorded, CdnErr ErrWaitNotParked, CdnErr ErrDispatchNoteNotFoundByCDNRef]"

subsection \<open>Holding a callback\<close>

definition callback_key :: "delivery_env \<Rightarrow> callback \<Rightarrow> string" where
  "callback_key env cb = cb_event_type cb @ '' '' @ de_key env (cb_body cb)"

definition schedule :: "delivery_env \<Rightarrow> callback \<Rightarrow> edge_world \<Rightarrow> edge_world" where
  "schedule env cb w =
     (let key = callback_key env cb in
      if map_of (ew_pending w) key \<noteq> None then w
      else w\<lparr>ew_pending := ew_pending w @ [(key, cb)]\<rparr>)"

definition holdIfEarly :: "bool \<Rightarrow> delivery_env \<Rightarrow> string \<Rightarrow> string \<Rightarrow> edge_error \<Rightarrow> edge_world \<Rightarrow> edge_world option" where
  "holdIfEarly retries env eventType body err w =
     (if \<not> retries \<or> \<not> isEarly err then None
      else Some (schedule env \<lparr>cb_event_type = eventType, cb_body = body\<rparr> w))"

subsection \<open>Answering a delivery\<close>

text \<open>
  The shape every handler has: decode, validate, process; an early error is held (202) when
  retries are configured, and any other is answered by the handler's own list of statuses.
\<close>

definition answer :: "bool \<Rightarrow> delivery_env \<Rightarrow> string \<Rightarrow> string \<Rightarrow> 'r option \<Rightarrow> ('r \<Rightarrow> invalid + unit) \<Rightarrow>
    ('r \<Rightarrow> edge_world \<Rightarrow> (edge_error + unit) \<times> edge_world) \<Rightarrow> (edge_error \<Rightarrow> nat) \<Rightarrow> edge_world \<Rightarrow> nat \<times> edge_world" where
  "answer retries env eventType body decoded validate process status w =
     (case decoded of
        None \<Rightarrow> (400, w)
      | Some req \<Rightarrow>
          (case validate req of
             Inl _ \<Rightarrow> (400, w)
           | Inr _ \<Rightarrow>
               (case process req w of
                  (Inr _, w1) \<Rightarrow> (200, w1)
                | (Inl err, w1) \<Rightarrow>
                    (case holdIfEarly retries env eventType body err w1 of
                       Some w2 \<Rightarrow> (202, w2)
                     | None \<Rightarrow> (status err, w1)))))"

definition cusdec_integration_status :: "edge_error \<Rightarrow> nat" where
  "cusdec_integration_status err =
     (if err = CusErr ErrDuplicateIntegrationResult then 202
      else if err = CusErr ErrDeclarationNotRecorded then 503
      else if err = CusErr ErrTaskNotParked then 503
      else if err = CusErr ErrWorkflowNotFoundByEdgeID then 404
      else 500)"

definition cusdec_event_status :: "edge_error \<Rightarrow> nat" where
  "cusdec_event_status err =
     (if err = CusErr ErrDuplicateEvent then 200
      else if err = CusErr ErrCusdecNotFoundByRef then 503
      else if err = CusErr ErrWorkflowNotFoundByEdgeID then 404
      else 500)"

definition cusdec_notice_status :: "edge_error \<Rightarrow> nat" where
  "cusdec_notice_status err =
     (if err = CusErr ErrCusdecNotFoundByRef then 503
      else if err = CusErr ErrCaseNotRecorded then 404
      else 500)"

definition cdn_integration_status :: "edge_error \<Rightarrow> nat" where
  "cdn_integration_status err =
     (if err = CdnErr ErrDispatchNoteNotRecorded then 503
      else if err = CdnErr ErrWaitNotParked then 503
      else if err = CdnErr ErrDispatchNoteNotFoundByEdgeID then 404
      else 500)"

definition cdn_wait_status :: "edge_error \<Rightarrow> nat" where
  "cdn_wait_status err =
     (if err = CdnErr ErrDispatchNoteNotFoundByCDNRef then 503
      else if err = CdnErr ErrWaitNotParked then 503
      else 500)"

definition cdn_amendment_status :: "edge_error \<Rightarrow> nat" where
  "cdn_amendment_status err =
     (if err = CdnErr ErrDispatchNoteNotFoundByCDNRef then 503
      else if err = CdnErr ErrNoteCaseNotRecorded then 404
      else 500)"

definition decoded_body :: "delivery_env \<Rightarrow> (time_parser \<Rightarrow> json \<Rightarrow> 'r option) \<Rightarrow> string \<Rightarrow> 'r option" where
  "decoded_body env dec body = (case de_parse env body of None \<Rightarrow> None | Some v \<Rightarrow> dec (de_time env) v)"

definition handleCusdecIntegrationResult :: "bool \<Rightarrow> delivery_env \<Rightarrow> string \<Rightarrow> edge_world \<Rightarrow> nat \<times> edge_world" where
  "handleCusdecIntegrationResult retries env body =
     answer retries env ''CUSDEC_INTEGRATED'' body (decoded_body env decode_result body) Validate_result
       (\<lambda>req. on_cus (ProcessIntegrationResult (de_cus env) req)) cusdec_integration_status"

text \<open>The event's type is the route's, whatever the body says.\<close>

definition decoded_event :: "delivery_env \<Rightarrow> string \<Rightarrow> string \<Rightarrow> event_request option" where
  "decoded_event env expectedEvent body = map_option (\<lambda>req. req\<lparr>er_event := expectedEvent\<rparr>) (decoded_body env decode_event body)"

definition handleCusdecEvent :: "bool \<Rightarrow> delivery_env \<Rightarrow> string \<Rightarrow> string \<Rightarrow> edge_world \<Rightarrow> nat \<times> edge_world" where
  "handleCusdecEvent retries env expectedEvent body =
     answer retries env expectedEvent body (decoded_event env expectedEvent body) Validate_event
       (\<lambda>req. on_cus (ProcessEvent (de_cus env) req)) cusdec_event_status"

definition handleCusdecAmendment :: "bool \<Rightarrow> delivery_env \<Rightarrow> string \<Rightarrow> edge_world \<Rightarrow> nat \<times> edge_world" where
  "handleCusdecAmendment retries env body =
     answer retries env EventCusdecAmended body (decoded_body env decode_amended body) (Validate_amended EventCusdecAmended)
       (\<lambda>req. on_cus (ProcessAmendment (de_cus env) req)) cusdec_notice_status"

definition handleCusdecCancellation :: "bool \<Rightarrow> delivery_env \<Rightarrow> string \<Rightarrow> edge_world \<Rightarrow> nat \<times> edge_world" where
  "handleCusdecCancellation retries env body =
     answer retries env EventCusdecCancelled body (decoded_body env (\<lambda>tp. decode_cancelled tp ''cusdecRef'') body)
       (Validate_cancelled EventCusdecCancelled) (\<lambda>req. on_cus (ProcessCancellation (de_cus env) req)) cusdec_notice_status"

definition handleCDNIntegrationResult :: "bool \<Rightarrow> delivery_env \<Rightarrow> string \<Rightarrow> edge_world \<Rightarrow> nat \<times> edge_world" where
  "handleCDNIntegrationResult retries env body =
     answer retries env ''CDN_INTEGRATED'' body (decoded_body env decode_cdn_result body) Validate_cdn_result
       (\<lambda>req. on_cdn (ProcessIntegrationResult_cdn (de_cdn env) req)) cdn_integration_status"

definition handleCDNAcknowledgment :: "bool \<Rightarrow> delivery_env \<Rightarrow> string \<Rightarrow> edge_world \<Rightarrow> nat \<times> edge_world" where
  "handleCDNAcknowledgment retries env body =
     answer retries env ''CDN_ACKNOWLEDGED'' body (decoded_body env decode_cdn_ack body) Validate_cdn_ack
       (\<lambda>req. on_cdn (ProcessAcknowledgment (de_cdn env) req)) cdn_wait_status"

definition handleCDNAmendment :: "bool \<Rightarrow> delivery_env \<Rightarrow> string \<Rightarrow> edge_world \<Rightarrow> nat \<times> edge_world" where
  "handleCDNAmendment retries env body =
     answer retries env EventCDNAmended body (decoded_body env decode_cdn_amended body) Validate_cdn_amended
       (\<lambda>req. on_cdn (ProcessAmendment_cdn (de_cdn env) req)) cdn_amendment_status"

definition handleCDNCancellation :: "bool \<Rightarrow> delivery_env \<Rightarrow> string \<Rightarrow> edge_world \<Rightarrow> nat \<times> edge_world" where
  "handleCDNCancellation retries env body =
     answer retries env EventCDNCancelled body (decoded_body env (\<lambda>tp. decode_cancelled tp ''cdnRef'') body)
       (Validate_cancelled EventCDNCancelled) (\<lambda>req. on_cdn (ProcessCancellation_cdn (de_cdn env) req)) cdn_wait_status"

subsection \<open>The webhook\<close>

text \<open>
  \<open>strings.ToUpper\<close> as far as an event's name can see it: the ASCII letters, and the two runes
  outside ASCII whose upper case is an ASCII letter, U+0131 and U+017F.
\<close>

definition upper_ascii :: "char \<Rightarrow> char" where
  "upper_ascii c = (let n = of_char c in if 97 \<le> n \<and> n \<le> (122::nat) then char_of (n - 32) else c)"

fun to_upper :: "string \<Rightarrow> string" where
  "to_upper (a # b # s) =
     (if a = CHR 0xC4 \<and> b = CHR 0xB1 then CHR ''I'' # to_upper s
      else if a = CHR 0xC5 \<and> b = CHR 0xBF then CHR ''S'' # to_upper s
      else upper_ascii a # to_upper (b # s))"
| "to_upper [a] = [upper_ascii a]"
| "to_upper [] = []"

definition decode_event_type :: "json \<Rightarrow> string option" where
  "decode_event_type = decode_struct (\<lambda>kvs. decode_string (member kvs ''eventType''))"

definition maxBody :: nat where
  "maxBody = 1048576"

definition HandleWebhook :: "bool \<Rightarrow> delivery_env \<Rightarrow> string \<Rightarrow> edge_world \<Rightarrow> nat \<times> edge_world" where
  "HandleWebhook retries env body w =
     (if length body > maxBody then (400, w)
      else case (case de_parse env body of None \<Rightarrow> None | Some v \<Rightarrow> decode_event_type v) of
        None \<Rightarrow> (400, w)
      | Some t \<Rightarrow>
          (let eventType = to_upper (trim_space t) in
           if eventType = ''CUSDEC_INTEGRATED'' then handleCusdecIntegrationResult retries env body w
           else if eventType = ''PAYMENT_CONFIRMED'' then handleCusdecEvent retries env ''PAYMENT_CONFIRMED'' body w
           else if eventType = ''WARRANTING_COMPLETED'' then handleCusdecEvent retries env ''WARRANTING_COMPLETED'' body w
           else if eventType = ''EXPORT_RELEASED'' then handleCusdecEvent retries env ''EXPORT_RELEASED'' body w
           else if eventType = EventCusdecAmended then handleCusdecAmendment retries env body w
           else if eventType = EventCusdecCancelled then handleCusdecCancellation retries env body w
           else if eventType = ''CDN_INTEGRATED'' then handleCDNIntegrationResult retries env body w
           else if eventType = ''CDN_ACKNOWLEDGED'' then handleCDNAcknowledgment retries env body w
           else if eventType = EventCDNAmended then handleCDNAmendment retries env body w
           else if eventType = EventCDNCancelled then handleCDNCancellation retries env body w
           else (400, w)))"

subsection \<open>Applying a held callback\<close>

definition ignore :: "edge_error option \<Rightarrow> (edge_error + unit) \<times> edge_world \<Rightarrow> (edge_error + unit) \<times> edge_world" where
  "ignore done_err r = (case r of (Inl e, w) \<Rightarrow> (if done_err = Some e then (Inr (), w) else (Inl e, w)) | (Inr _, w) \<Rightarrow> (Inr (), w))"

definition decodeCallback :: "'r option \<Rightarrow> ('r \<Rightarrow> invalid + unit) \<Rightarrow> edge_error + 'r" where
  "decodeCallback decoded validate =
     (case decoded of None \<Rightarrow> Inl ErrInvalidCallback
      | Some req \<Rightarrow> (case validate req of Inl _ \<Rightarrow> Inl ErrInvalidCallback | Inr _ \<Rightarrow> Inr req))"

definition applyAs :: "'r option \<Rightarrow> ('r \<Rightarrow> invalid + unit) \<Rightarrow> ('r \<Rightarrow> edge_world \<Rightarrow> (edge_error + unit) \<times> edge_world) \<Rightarrow>
    edge_error option \<Rightarrow> edge_world \<Rightarrow> (edge_error + unit) \<times> edge_world" where
  "applyAs decoded validate process done_err w =
     (case decodeCallback decoded validate of
        Inl e \<Rightarrow> (Inl e, w)
      | Inr req \<Rightarrow> ignore done_err (process req w))"

definition cusdecEventApplier :: "delivery_env \<Rightarrow> string \<Rightarrow> string \<Rightarrow> edge_world \<Rightarrow> (edge_error + unit) \<times> edge_world" where
  "cusdecEventApplier env event body w =
     (case decoded_body env decode_event body of
        None \<Rightarrow> (Inl ErrInvalidCallback, w)
      | Some req \<Rightarrow>
          (let req' = req\<lparr>er_event := event\<rparr> in
           case Validate_event req' of
             Inl _ \<Rightarrow> (Inl ErrInvalidCallback, w)
           | Inr _ \<Rightarrow> ignore (Some (CusErr ErrDuplicateEvent)) (on_cus (ProcessEvent (de_cus env) req') w)))"

definition applyCallback :: "delivery_env \<Rightarrow> string \<Rightarrow> string \<Rightarrow> edge_world \<Rightarrow> (edge_error + unit) \<times> edge_world" where
  "applyCallback env eventType body w =
     (if eventType = ''CUSDEC_INTEGRATED'' then
        applyAs (decoded_body env decode_result body) Validate_result (\<lambda>req. on_cus (ProcessIntegrationResult (de_cus env) req))
          (Some (CusErr ErrDuplicateIntegrationResult)) w
      else if eventType = ''PAYMENT_CONFIRMED'' then cusdecEventApplier env ''PAYMENT_CONFIRMED'' body w
      else if eventType = ''WARRANTING_COMPLETED'' then cusdecEventApplier env ''WARRANTING_COMPLETED'' body w
      else if eventType = ''EXPORT_RELEASED'' then cusdecEventApplier env ''EXPORT_RELEASED'' body w
      else if eventType = EventCusdecAmended then
        applyAs (decoded_body env decode_amended body) (Validate_amended EventCusdecAmended)
          (\<lambda>req. on_cus (ProcessAmendment (de_cus env) req)) None w
      else if eventType = EventCusdecCancelled then
        applyAs (decoded_body env (\<lambda>tp. decode_cancelled tp ''cusdecRef'') body) (Validate_cancelled EventCusdecCancelled)
          (\<lambda>req. on_cus (ProcessCancellation (de_cus env) req)) None w
      else if eventType = ''CDN_INTEGRATED'' then
        applyAs (decoded_body env decode_cdn_result body) Validate_cdn_result
          (\<lambda>req. on_cdn (ProcessIntegrationResult_cdn (de_cdn env) req)) None w
      else if eventType = ''CDN_ACKNOWLEDGED'' then
        applyAs (decoded_body env decode_cdn_ack body) Validate_cdn_ack (\<lambda>req. on_cdn (ProcessAcknowledgment (de_cdn env) req)) None w
      else if eventType = EventCDNAmended then
        applyAs (decoded_body env decode_cdn_amended body) Validate_cdn_amended
          (\<lambda>req. on_cdn (ProcessAmendment_cdn (de_cdn env) req)) None w
      else if eventType = EventCDNCancelled then
        applyAs (decoded_body env (\<lambda>tp. decode_cancelled tp ''cdnRef'') body) (Validate_cancelled EventCDNCancelled)
          (\<lambda>req. on_cdn (ProcessCancellation_cdn (de_cdn env) req)) None w
      else (Inl ErrInvalidCallback, w))"

subsection \<open>Retrying\<close>

text \<open>Durations in seconds; the source's are nanoseconds that are whole seconds.\<close>

record retry_timing =
  rt_initial :: int
  rt_max :: int
  rt_window :: int

definition defaultCallbackRetryTiming :: retry_timing where
  "defaultCallbackRetryTiming = \<lparr>rt_initial = 5, rt_max = 600, rt_window = 86400\<rparr>"

datatype retry_end = RetryApplied nat | RetryPermanent nat edge_error | RetryLate nat edge_error

fun attempts :: "retry_end \<Rightarrow> nat" where
  "attempts (RetryApplied n) = n"
| "attempts (RetryPermanent n e) = n"
| "attempts (RetryLate n e) = n"

text \<open>
  The loop of \<open>retry\<close>. While it sleeps before its \<open>n\<close>th attempt the world moves on by
  \<open>between n\<close>; the attempt runs in \<open>envs n\<close>, and the clock reads \<open>now n\<close> after it. The first
  argument is fuel.
\<close>

fun retry_loop :: "nat \<Rightarrow> retry_timing \<Rightarrow> (nat \<Rightarrow> delivery_env) \<Rightarrow> (nat \<Rightarrow> edge_world \<Rightarrow> edge_world) \<Rightarrow> (nat \<Rightarrow> int) \<Rightarrow>
    callback \<Rightarrow> int \<Rightarrow> int \<Rightarrow> nat \<Rightarrow> edge_world \<Rightarrow> (retry_end \<times> edge_world) option" where
  "retry_loop 0 tm envs between now cb giveUpAt pause attempt w = None"
| "retry_loop (Suc fuel) tm envs between now cb giveUpAt pause attempt w =
     (case applyCallback (envs attempt) (cb_event_type cb) (cb_body cb) (between attempt w) of
        (Inr _, w1) \<Rightarrow> Some (RetryApplied attempt, w1)
      | (Inl err, w1) \<Rightarrow>
          if isPermanent err then Some (RetryPermanent attempt err, w1)
          else let pause' = min (2 * pause) (rt_max tm) in
               if now attempt + pause' > giveUpAt then Some (RetryLate attempt err, w1)
               else retry_loop fuel tm envs between now cb giveUpAt pause' (Suc attempt) w1)"

text \<open>The goroutine \<open>schedule\<close> starts: the key is released however the retries end.\<close>

definition run_retries :: "nat \<Rightarrow> retry_timing \<Rightarrow> (nat \<Rightarrow> delivery_env) \<Rightarrow> (nat \<Rightarrow> edge_world \<Rightarrow> edge_world) \<Rightarrow> (nat \<Rightarrow> int) \<Rightarrow>
    string \<Rightarrow> callback \<Rightarrow> int \<Rightarrow> edge_world \<Rightarrow> (retry_end \<times> edge_world) option" where
  "run_retries fuel tm envs between now key cb start w =
     (case retry_loop fuel tm envs between now cb (start + rt_window tm) (rt_initial tm) 1 w of
        None \<Rightarrow> None
      | Some (e, w1) \<Rightarrow> Some (e, w1\<lparr>ew_pending := filter (\<lambda>(k, _). k \<noteq> key) (ew_pending w1)\<rparr>))"

text \<open>The wait before the \<open>n\<close>th attempt, and the waits up to it.\<close>

fun wait_before :: "retry_timing \<Rightarrow> nat \<Rightarrow> int" where
  "wait_before tm 0 = 0"
| "wait_before tm (Suc 0) = rt_initial tm"
| "wait_before tm (Suc (Suc n)) = min (2 * wait_before tm (Suc n)) (rt_max tm)"

definition total_wait :: "retry_timing \<Rightarrow> nat \<Rightarrow> int" where
  "total_wait tm n = sum_list (map (wait_before tm) [0..<Suc n])"

lemma total_wait_Suc: "total_wait tm (Suc n) = total_wait tm n + wait_before tm (Suc n)"
  by (simp add: total_wait_def)

lemma retry_loop_ends:
  assumes clock: "\<And>n. start + total_wait tm n \<le> now n" and late: "rt_window tm < total_wait tm (Suc limit)"
    and "1 \<le> attempt" and "attempt \<le> limit" and "fuel = Suc (limit - attempt)"
  shows "\<exists>e w'. retry_loop fuel tm envs between now cb (start + rt_window tm) (wait_before tm attempt) attempt w = Some (e, w') \<and>
    attempts e \<le> limit"
  using assms(3-5)
proof (induction fuel arbitrary: attempt w)
  case 0
  then show ?case by simp
next
  case (Suc fuel)
  obtain r w1 where a: "applyCallback (envs attempt) (cb_event_type cb) (cb_body cb) (between attempt w) = (r, w1)" by (meson surj_pair)
  obtain m where m: "attempt = Suc m" using Suc.prems(1) by (cases attempt) auto
  have p: "min (2 * wait_before tm attempt) (rt_max tm) = wait_before tm (Suc attempt)" by (simp add: m)
  show ?case
  proof (cases r)
    case (Inr u)
    then show ?thesis using a Suc.prems by simp
  next
    case (Inl err)
    show ?thesis
    proof (cases "isPermanent err \<or> now attempt + wait_before tm (Suc attempt) > start + rt_window tm")
      case True
      then show ?thesis using a Inl Suc.prems p by (auto simp: Let_def)
    next
      case False
      have "attempt \<noteq> limit"
      proof
        assume "attempt = limit"
        then have "start + rt_window tm < start + total_wait tm attempt + wait_before tm (Suc attempt)"
          using late by (simp add: total_wait_Suc)
        with clock [of attempt] False show False by linarith
      qed
      then have "Suc attempt \<le> limit" "fuel = Suc (limit - Suc attempt)" using Suc.prems by simp_all
      from Suc.IH [OF _ this, of w1] show ?thesis using a Inl False p by (simp add: Let_def)
    qed
  qed
qed

subsection \<open>What a delivery does\<close>

definition same_tables :: "edge_world \<Rightarrow> edge_world \<Rightarrow> bool" where
  "same_tables w w' \<longleftrightarrow> es_docs (ew_cus w') = es_docs (ew_cus w) \<and> es_started (ew_cus w') = es_started (ew_cus w) \<and>
     es_docs (ew_cdn w') = es_docs (ew_cdn w) \<and> es_started (ew_cdn w') = es_started (ew_cdn w)"

lemma same_tables_refl [simp]: "same_tables w w"
  by (simp add: same_tables_def)

lemma schedule_simps [simp]:
  "ew_cus (schedule env cb w) = ew_cus w" "ew_cdn (schedule env cb w) = ew_cdn w"
  "map_of (ew_pending (schedule env cb w)) (callback_key env cb) \<noteq> None"
  by (auto simp: schedule_def Let_def map_add_def split: option.splits)

lemma same_tables_schedule [simp]: "same_tables w (schedule env cb w') \<longleftrightarrow> same_tables w w'"
  by (simp add: same_tables_def)

text \<open>An error a service returns, as the handler's statuses and the retries read it.\<close>

definition status_agrees :: "(edge_error \<Rightarrow> nat) \<Rightarrow> edge_error option \<Rightarrow> edge_error \<Rightarrow> bool" where
  "status_agrees status done_err e \<longleftrightarrow>
     (if done_err = Some e then \<not> isEarly e \<and> status e \<in> {200, 202}
      else (isEarly e \<longleftrightarrow> status e = 503) \<and> (status e = 404 \<longrightarrow> isPermanent e) \<and> status e \<in> {404, 500, 503})"

definition error_ok :: "(edge_error \<Rightarrow> nat) \<Rightarrow> edge_error option \<Rightarrow> edge_world \<Rightarrow> (edge_error + unit) \<times> edge_world \<Rightarrow> bool" where
  "error_ok status done_err w r \<longleftrightarrow> ew_pending (snd r) = ew_pending w \<and>
     (case fst r of Inl e \<Rightarrow> same_tables w (snd r) \<and> status_agrees status done_err e | Inr _ \<Rightarrow> True)"

lemma on_cus_error_ok:
  assumes "\<And>e st'. f (ew_cus w) = (Inl e, st') \<Longrightarrow> es_docs st' = es_docs (ew_cus w) \<and> es_started st' = es_started (ew_cus w) \<and>
    status_agrees status done_err (CusErr e)"
  shows "error_ok status done_err w (on_cus f w)"
proof (cases "f (ew_cus w)")
  case (Pair r st)
  with assms show ?thesis by (cases r) (auto simp: error_ok_def on_cus_def same_tables_def)
qed

lemma on_cdn_error_ok:
  assumes "\<And>e st'. f (ew_cdn w) = (Inl e, st') \<Longrightarrow> es_docs st' = es_docs (ew_cdn w) \<and> es_started st' = es_started (ew_cdn w) \<and>
    status_agrees status done_err (CdnErr e)"
  shows "error_ok status done_err w (on_cdn f w)"
proof (cases "f (ew_cdn w)")
  case (Pair r st)
  with assms show ?thesis by (cases r) (auto simp: error_ok_def on_cdn_def same_tables_def)
qed

lemma result_errors:
  "error_ok cusdec_integration_status (Some (CusErr ErrDuplicateIntegrationResult)) w (on_cus (ProcessIntegrationResult ev req) w)"
  by (rule on_cus_error_ok)
    (auto simp: ProcessIntegrationResult_def recordIntegrationResult_def findReviewTask_def complete_step_def update_doc_def Let_def
      status_agrees_def isEarly_def isPermanent_def cusdec_integration_status_def
      split: option.splits if_splits sum.splits prod.splits)

lemma event_errors: "error_ok cusdec_event_status (Some (CusErr ErrDuplicateEvent)) w (on_cus (ProcessEvent ev req) w)"
  by (rule on_cus_error_ok)
    (auto simp: ProcessEvent_def completeEventTaskAndMetadata_def complete_step_def update_doc_def Let_def
      status_agrees_def isEarly_def isPermanent_def cusdec_event_status_def
      split: option.splits if_splits sum.splits prod.splits)

lemma amendment_errors: "error_ok cusdec_notice_status None w (on_cus (ProcessAmendment ev req) w)"
  by (rule on_cus_error_ok)
    (auto simp: ProcessAmendment_def start_case_flow_def Let_def status_agrees_def isEarly_def isPermanent_def cusdec_notice_status_def
      split: option.splits if_splits sum.splits prod.splits)

lemma cancellation_errors: "error_ok cusdec_notice_status None w (on_cus (ProcessCancellation ev req) w)"
  by (rule on_cus_error_ok)
    (auto simp: ProcessCancellation_def start_case_flow_def Let_def status_agrees_def isEarly_def isPermanent_def cusdec_notice_status_def
      split: option.splits if_splits sum.splits prod.splits)

lemma note_amendment_errors: "error_ok cdn_amendment_status None w (on_cdn (ProcessAmendment_cdn ev req) w)"
  by (rule on_cdn_error_ok)
    (auto simp: ProcessAmendment_cdn_def start_case_flow_def Let_def status_agrees_def isEarly_def isPermanent_def cdn_amendment_status_def
      split: option.splits if_splits sum.splits prod.splits)

text \<open>The errors of a released wait, with the statuses of the two waits.\<close>

lemma resumeWait_errors:
  "resumeWait ev look already st = (Inl e, st') \<Longrightarrow>
   status_agrees cdn_integration_status None (CdnErr e) \<and> status_agrees cdn_wait_status None (CdnErr e)"
  by (auto simp: resumeWait_def complete_step_def Let_def status_agrees_def isEarly_def isPermanent_def cdn_integration_status_def
      cdn_wait_status_def split: option.splits if_splits sum.splits prod.splits)

lemma other_note_errors [simp]:
  "status_agrees cdn_integration_status None (CdnErr (UpdateNoteFailed m))" "status_agrees cdn_wait_status None (CdnErr (UpdateNoteFailed m))"
  "status_agrees cdn_integration_status None (CdnErr (GetNoteFailed m))" "status_agrees cdn_wait_status None (CdnErr (GetNoteFailed m))"
  "status_agrees cdn_integration_status None (CdnErr ErrDispatchNoteNotRecorded)"
  "status_agrees cdn_wait_status None (CdnErr ErrDispatchNoteNotFoundByCDNRef)" "status_agrees cdn_wait_status None (CdnErr (InvalidTransition s))"
  by (simp_all add: status_agrees_def isEarly_def isPermanent_def cdn_integration_status_def cdn_wait_status_def)

lemma record_note_errors: "record_note ev n st = (Inl e, st') \<Longrightarrow> \<exists>m. e = UpdateNoteFailed m"
  by (drule record_note_effect) simp

lemma note_result_errors: "error_ok cdn_integration_status None w (on_cdn (ProcessIntegrationResult_cdn ev req) w)"
proof (rule on_cdn_error_ok)
  fix e st'
  assume r: "ProcessIntegrationResult_cdn ev req (ew_cdn w) = (Inl e, st')"
  have "status_agrees cdn_integration_status None (CdnErr e)"
    using r by (auto simp: ProcessIntegrationResult_cdn_def resumeIntegrationWait_def dest!: resumeWait_errors record_note_errors
        split: option.splits if_splits sum.splits prod.splits)
  with integration_cdn_effect [OF r] show "es_docs st' = es_docs (ew_cdn w) \<and> es_started st' = es_started (ew_cdn w) \<and>
    status_agrees cdn_integration_status None (CdnErr e)" by (simp add: error_keeps_def)
qed

lemma acknowledgment_errors: "error_ok cdn_wait_status None w (on_cdn (ProcessAcknowledgment ev req) w)"
proof (rule on_cdn_error_ok)
  fix e st'
  assume r: "ProcessAcknowledgment ev req (ew_cdn w) = (Inl e, st')"
  have "status_agrees cdn_wait_status None (CdnErr e)"
    using r by (auto simp: ProcessAcknowledgment_def resumeAcknowledgmentWait_def dest!: resumeWait_errors record_note_errors
        split: option.splits if_splits sum.splits prod.splits)
  with acknowledgment_effect [OF r] show "es_docs st' = es_docs (ew_cdn w) \<and> es_started st' = es_started (ew_cdn w) \<and>
    status_agrees cdn_wait_status None (CdnErr e)" by (simp add: error_keeps_def)
qed

lemma note_cancellation_errors: "error_ok cdn_wait_status None w (on_cdn (ProcessCancellation_cdn ev req) w)"
proof (rule on_cdn_error_ok)
  fix e st'
  assume r: "ProcessCancellation_cdn ev req (ew_cdn w) = (Inl e, st')"
  have "status_agrees cdn_wait_status None (CdnErr e)"
    using r by (auto simp: ProcessCancellation_cdn_def resumeCancelledWait_def dest!: resumeWait_errors record_note_errors
        split: option.splits if_splits sum.splits prod.splits note_status.splits)
  with cancellation_cdn_effect [OF r] show "es_docs st' = es_docs (ew_cdn w) \<and> es_started st' = es_started (ew_cdn w) \<and>
    status_agrees cdn_wait_status None (CdnErr e)" by (simp add: error_keeps_def)
qed

lemmas service_errors = result_errors event_errors amendment_errors cancellation_errors note_result_errors acknowledgment_errors
  note_amendment_errors note_cancellation_errors

text \<open>The answer to a delivery, held or not.\<close>

definition held :: "delivery_env \<Rightarrow> string \<Rightarrow> edge_world \<Rightarrow> bool" where
  "held env body w \<longleftrightarrow> (\<exists>t. map_of (ew_pending w) (callback_key env \<lparr>cb_event_type = t, cb_body = body\<rparr>) \<noteq> None)"

lemma held_schedule [simp]: "held env body (schedule env \<lparr>cb_event_type = t, cb_body = body\<rparr> w)"
  unfolding held_def by (rule exI) (rule schedule_simps(3))

definition answered :: "bool \<Rightarrow> delivery_env \<Rightarrow> string \<Rightarrow> edge_world \<Rightarrow> nat \<times> edge_world \<Rightarrow> bool" where
  "answered retries env body w r \<longleftrightarrow>
     fst r \<in> {200, 202, 400, 404, 500, 503} \<and> (fst r \<noteq> 200 \<longrightarrow> same_tables w (snd r)) \<and> (retries \<longrightarrow> fst r \<noteq> 503) \<and>
     (ew_pending (snd r) = ew_pending w \<or> retries \<and> fst r = 202 \<and> held env body (snd r))"

lemma answer_answered:
  assumes "\<And>req. error_ok status done_err w (process req w)"
  shows "answered retries env body w (answer retries env t body decoded validate process status w)"
proof (cases "\<exists>req. decoded = Some req \<and> validate req = Inr ()")
  case False
  then show ?thesis by (auto simp: answered_def answer_def split: option.split sum.split)
next
  case True
  then obtain req where req: "decoded = Some req" "validate req = Inr ()" by blast
  obtain r w1 where p: "process req w = (r, w1)" by (meson surj_pair)
  note ok = assms [of req, unfolded p error_ok_def]
  show ?thesis
  proof (cases r)
    case (Inr u)
    then show ?thesis using req p ok by (simp add: answered_def answer_def)
  next
    case (Inl e)
    then have e: "ew_pending w1 = ew_pending w" "same_tables w w1" "status_agrees status done_err e" using ok by auto
    show ?thesis
    proof (cases "retries \<and> isEarly e")
      case True
      then show ?thesis using req p Inl e by (simp add: answered_def answer_def holdIfEarly_def)
    next
      case False
      then show ?thesis using req p Inl e by (auto simp: answered_def answer_def holdIfEarly_def status_agrees_def split: if_splits)
    qed
  qed
qed

lemma answered_400 [simp]: "answered retries env body w (400, w)"
  by (simp add: answered_def)

lemma handlers_answered:
  "answered retries env body w (handleCusdecIntegrationResult retries env body w)"
  "answered retries env body w (handleCusdecEvent retries env t body w)"
  "answered retries env body w (handleCusdecAmendment retries env body w)"
  "answered retries env body w (handleCusdecCancellation retries env body w)"
  "answered retries env body w (handleCDNIntegrationResult retries env body w)"
  "answered retries env body w (handleCDNAcknowledgment retries env body w)"
  "answered retries env body w (handleCDNAmendment retries env body w)"
  "answered retries env body w (handleCDNCancellation retries env body w)"
  unfolding handleCusdecIntegrationResult_def handleCusdecEvent_def handleCusdecAmendment_def handleCusdecCancellation_def
    handleCDNIntegrationResult_def handleCDNAcknowledgment_def handleCDNAmendment_def handleCDNCancellation_def
  by (rule answer_answered, rule service_errors)+

text \<open>A held callback is applied as the handler would have answered it.\<close>

definition retry_agrees :: "nat \<times> edge_world \<Rightarrow> (edge_error + unit) \<times> edge_world \<Rightarrow> bool" where
  "retry_agrees a r \<longleftrightarrow> snd a = snd r \<and>
     (case fst r of Inr _ \<Rightarrow> fst a \<in> {200, 202}
      | Inl e \<Rightarrow> fst a \<in> {400, 404, 500, 503} \<and> (fst a = 503 \<longleftrightarrow> isEarly e) \<and> (fst a \<in> {400, 404} \<longrightarrow> isPermanent e))"

lemma ErrInvalidCallback_kind [simp]: "isPermanent ErrInvalidCallback" "\<not> isEarly ErrInvalidCallback"
  by (simp_all add: isPermanent_def isEarly_def)

lemma answer_retry:
  assumes "\<And>req. error_ok status done_err w (process req w)"
  shows "retry_agrees (answer False env t body decoded validate process status w) (applyAs decoded validate process done_err w)"
proof (cases "\<exists>req. decoded = Some req \<and> validate req = Inr ()")
  case False
  then show ?thesis by (auto simp: retry_agrees_def answer_def applyAs_def decodeCallback_def split: option.split sum.split)
next
  case True
  then obtain req where req: "decoded = Some req" "validate req = Inr ()" by blast
  obtain r w1 where p: "process req w = (r, w1)" by (meson surj_pair)
  note ok = assms [of req, unfolded p error_ok_def]
  show ?thesis
  proof (cases r)
    case (Inr u)
    then show ?thesis using req p by (simp add: retry_agrees_def answer_def applyAs_def decodeCallback_def ignore_def)
  next
    case (Inl e)
    then have "status_agrees status done_err e" using ok by simp
    then show ?thesis
      using req p Inl by (auto simp: retry_agrees_def answer_def applyAs_def decodeCallback_def ignore_def holdIfEarly_def status_agrees_def
        split: if_splits)
  qed
qed

lemma event_applier:
  "cusdecEventApplier env event body w =
   applyAs (decoded_event env event body) Validate_event (\<lambda>req. on_cus (ProcessEvent (de_cus env) req)) (Some (CusErr ErrDuplicateEvent)) w"
  by (simp add: cusdecEventApplier_def applyAs_def decodeCallback_def decoded_event_def Let_def split: option.split sum.split)

definition known_event :: "string \<Rightarrow> bool" where
  "known_event t = (t \<in> {''CUSDEC_INTEGRATED'', ''PAYMENT_CONFIRMED'', ''WARRANTING_COMPLETED'', ''EXPORT_RELEASED'', EventCusdecAmended,
     EventCusdecCancelled, ''CDN_INTEGRATED'', ''CDN_ACKNOWLEDGED'', EventCDNAmended, EventCDNCancelled})"

definition event_type_of :: "delivery_env \<Rightarrow> string \<Rightarrow> string option" where
  "event_type_of env body = (case de_parse env body of None \<Rightarrow> None | Some v \<Rightarrow> map_option (\<lambda>t. to_upper (trim_space t)) (decode_event_type v))"

subsection \<open>Properties\<close>

text \<open>
  any answer but 200 leaves both tables and the flows opened as they were, so SLC Edge can
  deliver the callback again; with retries configured no callback is sent back (503), and the
  callbacks held change only when this one is accepted (202) and held under its own key.
\<close>
theorem refused_delivery_keeps_tables:
  "\<exists>status w'. HandleWebhook retries env body w = (status, w') \<and> status \<in> {200, 202, 400, 404, 500, 503} \<and>
     (status \<noteq> 200 \<longrightarrow> same_tables w w') \<and> (retries \<longrightarrow> status \<noteq> 503) \<and>
     (ew_pending w' = ew_pending w \<or> retries \<and> status = 202 \<and> held env body w')"
proof -
  have "answered retries env body w (HandleWebhook retries env body w)"
    unfolding HandleWebhook_def Let_def by (simp add: handlers_answered split: option.split)
  then show ?thesis by (cases "HandleWebhook retries env body w") (simp add: answered_def)
qed

text \<open>
  C12: a held callback is applied exactly as the webhook would have answered it then: it leaves
  the same world, succeeds where the answer is 200 or 202, and fails early exactly where the
  answer is 503, for good wherever it is 400 or 404.
\<close>
theorem retry_applies_like_handler:
  assumes "length body \<le> maxBody" and "event_type_of env body = Some t" and "known_event t"
    and "HandleWebhook False env body w = (status, w1)" and "applyCallback env t body w = (r, w2)"
  shows "w2 = w1 \<and> (r = Inr () \<longleftrightarrow> status \<in> {200, 202}) \<and>
    (\<forall>e. r = Inl e \<longrightarrow> (status = 503 \<longleftrightarrow> isEarly e) \<and> (status \<in> {400, 404} \<longrightarrow> isPermanent e))"
proof -
  obtain v t0 where v: "de_parse env body = Some v" "decode_event_type v = Some t0" "t = to_upper (trim_space t0)"
    using assms(2) by (auto simp: event_type_of_def split: option.splits)
  have "retry_agrees (HandleWebhook False env body w) (applyCallback env t body w)"
    using assms(1,3) v
    by (auto simp: known_event_def HandleWebhook_def applyCallback_def event_applier Let_def
      handleCusdecIntegrationResult_def handleCusdecEvent_def handleCusdecAmendment_def handleCusdecCancellation_def
      handleCDNIntegrationResult_def handleCDNAcknowledgment_def handleCDNAmendment_def handleCDNCancellation_def
      intro!: answer_retry service_errors)
  then show ?thesis using assms(4,5) by (cases r) (auto simp: retry_agrees_def)
qed

text \<open>
  C13: with the default timing a held callback is released after at most 149 attempts, however
  its attempts fail, whatever else happens meanwhile, provided a sleep lasts as long as asked.
\<close>
theorem retries_end:
  assumes "\<And>n. start + total_wait defaultCallbackRetryTiming n \<le> now n"
  shows "\<exists>e w'. run_retries 149 defaultCallbackRetryTiming envs between now key cb start w = Some (e, w') \<and> attempts e \<le> 149 \<and>
    map_of (ew_pending w') key = None"
proof -
  have "total_wait defaultCallbackRetryTiming 150 = 86435" by code_simp
  then have "rt_window defaultCallbackRetryTiming < total_wait defaultCallbackRetryTiming (Suc 149)"
    by (simp add: defaultCallbackRetryTiming_def)
  from retry_loop_ends [where attempt = 1 and fuel = 149, OF assms this, of envs between cb w]
  obtain e w' where "retry_loop 149 defaultCallbackRetryTiming envs between now cb (start + rt_window defaultCallbackRetryTiming)
      (rt_initial defaultCallbackRetryTiming) 1 w = Some (e, w')" "attempts e \<le> 149"
    by (auto simp: numeral_eq_Suc)
  moreover have "map_of (filter (\<lambda>(k, _). k \<noteq> key) xs) key = None" for xs :: "(string \<times> callback) list"
    by (auto simp: map_of_eq_None_iff)
  ultimately show ?thesis by (simp add: run_retries_def)
qed

subsection \<open>Witnesses\<close>

definition demo_delivery :: "task_record list \<Rightarrow> delivery_env" where
  "demo_delivery tasks = \<lparr>de_cus = demo_env [], de_cdn = demo_env tasks,
     de_parse = (\<lambda>s. if s = ''ack'' then Some (JObj [(''eventType'', JStr ''cdn_acknowledged''), (''processedAt'', JStr ''now''),
         (''payload'', JObj [(''cdnRef'', JObj [(''year'', JStr ''2026''), (''office'', JStr ''CBC''), (''serial'', JStr ''E''), (''number'', JNum 12)])])])
       else None),
     de_time = (\<lambda>_. Some (Some 1)), de_key = (\<lambda>s. s)\<rparr>"

definition demo_world :: "note_status \<Rightarrow> edge_world" where
  "demo_world s = \<lparr>ew_cus = demo_edge CusSubmitted no_ref, ew_cdn = demo_notes s demo_ref, ew_pending = []\<rparr>"

theorem refused_delivery_keeps_tables_witness:
  "\<exists>w'. HandleWebhook True (demo_delivery []) ''ack'' (demo_world NoteIntegrated) = (202, w') \<and>
     same_tables (demo_world NoteIntegrated) w' \<and> held (demo_delivery []) ''ack'' w'"
proof -
  let ?h = "HandleWebhook True (demo_delivery []) ''ack'' (demo_world NoteIntegrated)"
  let ?k = "handleCDNAcknowledgment True (demo_delivery []) ''ack'' (demo_world NoteIntegrated)"
  have "length ''ack'' \<le> maxBody" by (simp add: maxBody_def)
  moreover have "event_type_of (demo_delivery []) ''ack'' = Some ''CDN_ACKNOWLEDGED''" by code_simp
  ultimately have "?h = ?k" by (auto simp: HandleWebhook_def event_type_of_def Let_def split: option.splits)
  moreover have "fst ?k = 202" by code_simp
  moreover have "ew_pending (snd ?k) \<noteq> []" by code_simp
  ultimately have h: "?h = (202, snd ?h)" "ew_pending (snd ?h) \<noteq> ew_pending (demo_world NoteIntegrated)"
    by (simp_all add: demo_world_def pair_of_fst)
  from refused_delivery_keeps_tables [of True "demo_delivery []" "''ack''" "demo_world NoteIntegrated"] h show ?thesis by auto
qed

theorem retry_applies_like_handler_witness:
  "\<exists>w1. HandleWebhook False (demo_delivery []) ''ack'' (demo_world NoteIntegrated) = (503, w1) \<and>
     applyCallback (demo_delivery []) ''CDN_ACKNOWLEDGED'' ''ack'' (demo_world NoteIntegrated) = (Inl (CdnErr ErrWaitNotParked), w1)"
proof -
  let ?h = "HandleWebhook False (demo_delivery []) ''ack'' (demo_world NoteIntegrated)"
  let ?a = "applyCallback (demo_delivery []) ''CDN_ACKNOWLEDGED'' ''ack'' (demo_world NoteIntegrated)"
  have l: "length ''ack'' \<le> maxBody" by (simp add: maxBody_def)
  have e: "event_type_of (demo_delivery []) ''ack'' = Some ''CDN_ACKNOWLEDGED''" by code_simp
  have k: "known_event ''CDN_ACKNOWLEDGED''" by (simp add: known_event_def)
  let ?k = "handleCDNAcknowledgment False (demo_delivery []) ''ack'' (demo_world NoteIntegrated)"
  have "?h = ?k" using l e by (auto simp: HandleWebhook_def event_type_of_def Let_def split: option.splits)
  moreover have "fst ?k = 503" by code_simp
  ultimately have "fst ?h = 503" by simp
  then have h: "?h = (503, snd ?h)" by (rule pair_of_fst)
  have "fst ?a = Inl (CdnErr ErrWaitNotParked)" by code_simp
  then have a: "?a = (Inl (CdnErr ErrWaitNotParked), snd ?a)" by (rule pair_of_fst)
  from retry_applies_like_handler [OF l e k h a] have "snd ?a = snd ?h" by blast
  with h a show ?thesis by metis
qed

theorem retries_end_witness:
  "\<exists>e w'. run_retries 149 defaultCallbackRetryTiming (\<lambda>_. demo_delivery []) (\<lambda>_ w. w) (total_wait defaultCallbackRetryTiming) ''key''
     \<lparr>cb_event_type = ''CDN_ACKNOWLEDGED'', cb_body = ''ack''\<rparr> 0 (demo_world NoteIntegrated) = Some (e, w') \<and> attempts e \<le> 149"
proof -
  have clock: "0 + total_wait defaultCallbackRetryTiming n \<le> total_wait defaultCallbackRetryTiming n" for n by simp
  show ?thesis using retries_end [of 0 "total_wait defaultCallbackRetryTiming", OF clock] by blast
qed

end
