(* ===== verification/Payload_Form.thy ===== *)
theory Payload_Form
  imports Go_Json
begin

text \<open>
  \<open>internal/tasks/extensions/payloadschema\<close>, what the read-only check knows about a form:
  \<open>readonly.go\<close> and \<open>listswitches.go\<close>. A compiled schema is the library's; its fields the check
  reads are the record \<open>schema\<close>, and its pointers are indices into the list of the form's
  schemas, so that a schema may refer to itself. Go's random map order is the order of the
  association lists. A regular expression is the predicate it matches by.
\<close>

subsection \<open>Schemas\<close>

datatype schema_items = NoItems | ItemsSchema nat | ItemsTuple "nat list"

record schema =
  sc_location :: string
  sc_ref :: "nat option"
  sc_read_only :: bool
  sc_default :: "json option"
  sc_all_of :: "nat list"
  sc_properties :: "(string \<times> nat) list"
  sc_patterns :: "((string \<Rightarrow> bool) \<times> nat) list"
  sc_additional :: "nat option"
  sc_items :: schema_items
  sc_items2020 :: "nat option"
  sc_single :: "(string \<times> nat option) list"
  sc_one_of :: "nat list"
  sc_any_of :: "nat list"
  sc_dependencies :: "nat list"
  sc_dependent_schemas :: "nat list"
  sc_additional_items :: "nat option"
  sc_prefix_items :: "nat list"
  sc_dynamic_ref :: "nat option"

type_synonym schemas = "schema list"

definition opt_list :: "'a option \<Rightarrow> 'a list" where
  "opt_list x = (case x of None \<Rightarrow> [] | Some y \<Rightarrow> [y])"

lemma set_opt_list [simp]: "set (opt_list x) = set_option x"
  by (cases x) (simp_all add: opt_list_def)

definition items_schema :: "schema \<Rightarrow> nat list" where
  "items_schema s = (case sc_items s of ItemsSchema i \<Rightarrow> [i] | _ \<Rightarrow> [])"

subsection \<open>Depth-first search\<close>

text \<open>
  The searches of \<open>sameValue\<close>, \<open>reachesReadOnly\<close> and \<open>refusedReadOnly\<close>: each node once, in
  the order first reached, its successors before what waits. \<open>nodes\<close> is the nodes there are.
\<close>

function reach :: "'a list \<Rightarrow> ('a \<Rightarrow> 'a list) \<Rightarrow> 'a list \<Rightarrow> 'a list \<Rightarrow> 'a list" where
  "reach nodes kids [] seen = seen"
| "reach nodes kids (s # ws) seen =
     (if s \<in> set seen \<or> s \<notin> set nodes then reach nodes kids ws seen
      else reach nodes kids (kids s @ ws) (seen @ [s]))"
  by pat_completeness auto
termination
proof (relation "measures [\<lambda>(nodes, kids, ws, seen). card (set nodes - set seen), \<lambda>(nodes, kids, ws, seen). length ws]", goal_cases)
  case (3 nodes kids s ws seen)
  then have "set nodes - set (seen @ [s]) \<subset> set nodes - set seen" by auto
  then have "card (set nodes - set (seen @ [s])) < card (set nodes - set seen)" by (intro psubset_card_mono) simp_all
  then show ?case by simp
qed auto

text \<open>One step to a successor inside \<open>nodes\<close>.\<close>

abbreviation step_in :: "'a list \<Rightarrow> ('a \<Rightarrow> 'a list) \<Rightarrow> 'a \<Rightarrow> 'a \<Rightarrow> bool" where
  "step_in nodes kids x y \<equiv> y \<in> set (kids x) \<and> y \<in> set nodes"

lemma reach_mono: "set seen \<subseteq> set (reach nodes kids ws seen)"
  by (induction nodes kids ws seen rule: reach.induct) (auto split: if_splits)

lemma reach_starts: "s \<in> set ws \<Longrightarrow> s \<in> set nodes \<Longrightarrow> s \<in> set (reach nodes kids ws seen)"
proof (induction nodes kids ws seen rule: reach.induct)
  case (2 nodes kids x ws seen)
  then show ?case using reach_mono [of seen nodes kids ws] reach_mono [of "seen @ [x]" nodes kids "kids x @ ws"]
    by (auto split: if_splits)
qed simp

lemma reach_closed:
  assumes "\<forall>x \<in> set seen. \<forall>y \<in> set (kids x). y \<in> set nodes \<longrightarrow> y \<in> set seen \<or> y \<in> set ws"
    and "x \<in> set (reach nodes kids ws seen)" and "step_in nodes kids x y"
  shows "y \<in> set (reach nodes kids ws seen)"
  using assms
proof (induction nodes kids ws seen rule: reach.induct)
  case (1 nodes kids seen)
  then show ?case by auto
next
  case (2 nodes kids s ws seen)
  show ?case
  proof (cases "s \<in> set seen \<or> s \<notin> set nodes")
    case True
    have "y \<in> set (reach nodes kids ws seen)"
      by (rule "2.IH"(1) [OF True]) (use "2.prems" True in auto)
    then show ?thesis using True by simp
  next
    case False
    have "y \<in> set (reach nodes kids (kids s @ ws) (seen @ [s]))"
      by (rule "2.IH"(2) [OF False]) (use "2.prems" False in auto)
    then show ?thesis using False by simp
  qed
qed

lemma reach_sound:
  "x \<in> set (reach nodes kids ws seen) \<Longrightarrow>
   x \<in> set seen \<or> x \<in> set nodes \<and> (\<exists>s \<in> set ws. s \<in> set nodes \<and> (step_in nodes kids)\<^sup>*\<^sup>* s x)"
proof (induction nodes kids ws seen rule: reach.induct)
  case (2 nodes kids s ws seen)
  show ?case
  proof (cases "s \<in> set seen \<or> s \<notin> set nodes")
    case True
    then show ?thesis using 2 by auto
  next
    case False
    then have "x \<in> set (seen @ [s]) \<or> x \<in> set nodes \<and> (\<exists>t \<in> set (kids s @ ws). t \<in> set nodes \<and> (step_in nodes kids)\<^sup>*\<^sup>* t x)"
      using 2 by simp
    moreover have "(step_in nodes kids)\<^sup>*\<^sup>* s x" if "t \<in> set (kids s)" "t \<in> set nodes" "(step_in nodes kids)\<^sup>*\<^sup>* t x" for t
      by (rule converse_rtranclp_into_rtranclp [OF _ that(3)]) (use that in simp)
    ultimately show ?thesis using False by auto
  qed
qed simp

lemma reach_iff:
  "x \<in> set (reach nodes kids ws []) \<longleftrightarrow> x \<in> set nodes \<and> (\<exists>s \<in> set ws. s \<in> set nodes \<and> (step_in nodes kids)\<^sup>*\<^sup>* s x)"
proof
  assume "x \<in> set (reach nodes kids ws [])"
  from reach_sound [OF this] show "x \<in> set nodes \<and> (\<exists>s \<in> set ws. s \<in> set nodes \<and> (step_in nodes kids)\<^sup>*\<^sup>* s x)" by auto
next
  assume "x \<in> set nodes \<and> (\<exists>s \<in> set ws. s \<in> set nodes \<and> (step_in nodes kids)\<^sup>*\<^sup>* s x)"
  then obtain s where s: "s \<in> set ws" "s \<in> set nodes" "(step_in nodes kids)\<^sup>*\<^sup>* s x" by blast
  from s(3) show "x \<in> set (reach nodes kids ws [])"
  proof (induction rule: rtranclp_induct)
    case base
    then show ?case using s by (simp add: reach_starts)
  next
    case (step y z)
    then show ?case using reach_closed [of "[]" kids nodes ws y z] by simp
  qed
qed

declare reach.simps [simp del]

subsection \<open>What the check follows\<close>

definition ids :: "schemas \<Rightarrow> nat list" where
  "ids S = [0..<length S]"

lemma set_ids [simp]: "i \<in> set (ids S) \<longleftrightarrow> i < length S"
  by (auto simp: ids_def)

definition same_kids :: "schemas \<Rightarrow> nat \<Rightarrow> nat list" where
  "same_kids S i = opt_list (sc_ref (S ! i)) @ sc_all_of (S ! i)"

definition sameValue :: "schemas \<Rightarrow> nat list \<Rightarrow> nat list" where
  "sameValue S is = reach (ids S) (same_kids S) is []"

definition followed :: "schemas \<Rightarrow> nat \<Rightarrow> nat list" where
  "followed S i =
     (let s = S ! i in
      opt_list (sc_ref s) @ opt_list (sc_items2020 s) @ sc_all_of s @ map snd (sc_properties s) @ map snd (sc_patterns s) @
      opt_list (sc_additional s) @ items_schema s)"

definition reachesReadOnly :: "schemas \<Rightarrow> nat \<Rightarrow> bool" where
  "reachesReadOnly S i = list_ex (\<lambda>j. sc_read_only (S ! j)) (reach (ids S) (followed S) [i] [])"

text \<open>The parts of a schema the check does not follow; their keywords only name them in an error.\<close>

definition refused :: "schemas \<Rightarrow> nat \<Rightarrow> nat list" where
  "refused S i =
     (let s = S ! i in
      concat (map (\<lambda>(_, t). opt_list t) (sc_single s)) @ sc_one_of s @ sc_any_of s @ sc_dependencies s @ sc_dependent_schemas s @
      (case sc_items s of ItemsTuple ts \<Rightarrow> ts | _ \<Rightarrow> []) @ opt_list (sc_additional_items s) @ sc_prefix_items s @
      (if sc_prefix_items s \<noteq> [] then opt_list (sc_items2020 s) else []) @ opt_list (sc_dynamic_ref s))"

text \<open>\<open>True\<close> when a readOnly sits under a part that is not followed.\<close>

definition refusedReadOnly :: "schemas \<Rightarrow> nat \<Rightarrow> bool" where
  "refusedReadOnly S top_schema =
     list_ex (\<lambda>(i, under). sc_read_only (S ! i) \<and> under)
       (reach (List.product (ids S) [False, True])
          (\<lambda>(i, under). map (\<lambda>j. (j, under)) (followed S i) @ map (\<lambda>j. (j, True)) (refused S i)) [(top_schema, False)] [])"

fun holdsReadOnly :: "json \<Rightarrow> bool" where
  "holdsReadOnly (JObj kvs) = (obj_get kvs ''readOnly'' = Some (JBool True) \<or> list_ex (\<lambda>(_, v). holdsReadOnly v) kvs)"
| "holdsReadOnly (JArr vs) = list_ex holdsReadOnly vs"
| "holdsReadOnly _ = False"

fun sibling_free :: "json \<Rightarrow> bool" where
  "sibling_free (JObj kvs) =
     ((obj_get kvs ''$ref'' \<noteq> None \<longrightarrow>
        list_all (\<lambda>(k, sibling). \<not> (k = ''default'' \<or> k \<noteq> ''$ref'' \<and> k \<noteq> ''readOnly'' \<and> holdsReadOnly sibling)) kvs) \<and>
      list_all (\<lambda>(_, child). sibling_free child) kvs)"
| "sibling_free (JArr vs) = list_all sibling_free vs"
| "sibling_free _ = True"

definition refSiblings :: "json \<Rightarrow> bool" where
  "refSiblings doc = (\<not> holdsReadOnly doc \<or> sibling_free doc)"

fun escapeToken :: "string \<Rightarrow> string" where
  "escapeToken [] = []"
| "escapeToken (c # s) = (if c = CHR ''~'' then ''~0'' else if c = CHR ''/'' then ''~1'' else [c]) @ escapeToken s"

subsection \<open>List switches\<close>

record list_switch =
  sw_addable :: bool
  sw_removable :: bool

record generated_layout =
  gl_at :: string
  gl_objects :: bool

record list_switches =
  ls_controls :: "(string \<times> list_switch) list"
  ls_generated :: "generated_layout list"

definition no_switch :: list_switch where
  "no_switch = \<lparr>sw_addable = False, sw_removable = False\<rparr>"

definition switch_of :: "list_switches \<Rightarrow> string \<Rightarrow> list_switch" where
  "switch_of l path = (case map_of (ls_controls l) path of None \<Rightarrow> no_switch | Some sw \<Rightarrow> sw)"

fun scope_tokens :: "string \<Rightarrow> string list \<Rightarrow> string option" where
  "scope_tokens path [] = Some path"
| "scope_tokens path (t # ts) =
     (if t = ''properties'' then (case ts of [] \<Rightarrow> None | name # rest \<Rightarrow> scope_tokens (path @ ''/'' @ name) rest)
      else if t = ''items'' then scope_tokens (path @ ''/[]'') ts
      else None)"

definition scopePath :: "string \<Rightarrow> string \<Rightarrow> string option" where
  "scopePath base scope =
     (if scope = ''#'' then Some base
      else if \<not> has_prefix ''#/'' scope then None
      else scope_tokens base (split_on CHR ''/'' (drop 2 scope)))"

definition option_on :: "(string \<times> json) list \<Rightarrow> string \<Rightarrow> bool" where
  "option_on opts name = (case obj_get opts name of Some (JBool v) \<Rightarrow> v | _ \<Rightarrow> True)"

definition put_control :: "string \<Rightarrow> (string \<times> json) list \<Rightarrow> list_switches \<Rightarrow> list_switches" where
  "put_control path opts l =
     (let sw = switch_of l path in
      l\<lparr>ls_controls := (path, \<lparr>sw_addable = sw_addable sw \<or> option_on opts ''addable'',
          sw_removable = sw_removable sw \<or> option_on opts ''removable''\<rparr>) # ls_controls l\<rparr>)"

text \<open>
  \<open>walk\<close> and \<open>control\<close>; the third is \<open>walk\<close>'s loop over the elements.
\<close>

function (sequential) walk_ui :: "json \<Rightarrow> string \<Rightarrow> list_switches \<Rightarrow> list_switches"
  and control_ui :: "string \<Rightarrow> json option \<Rightarrow> list_switches \<Rightarrow> list_switches"
  and walk_elements :: "json list \<Rightarrow> string \<Rightarrow> list_switches \<Rightarrow> list_switches" where
  "walk_ui (JObj m) base l =
     (let l1 = (if obj_get m ''type'' = Some (JStr ''Control'') then
            (case obj_get m ''scope'' of
               Some (JStr scope) \<Rightarrow> (case scopePath base scope of None \<Rightarrow> l | Some path \<Rightarrow> control_ui path (obj_get m ''options'') l)
             | _ \<Rightarrow> l) else l)
      in case obj_get m ''elements'' of Some (JArr els) \<Rightarrow> walk_elements els base l1 | _ \<Rightarrow> l1)"
| "walk_ui _ base l = l"
| "control_ui path (Some (JObj opts)) l =
     (let l1 = put_control path opts l in
      case obj_get opts ''detail'' of
        None \<Rightarrow> l1\<lparr>ls_generated := ls_generated l1 @ [\<lparr>gl_at = path @ ''/[]'', gl_objects = False\<rparr>]\<rparr>
      | Some JNull \<Rightarrow> l1\<lparr>ls_generated := ls_generated l1 @ [\<lparr>gl_at = path @ ''/[]'', gl_objects = False\<rparr>]\<rparr>
      | Some (JObj d) \<Rightarrow> walk_ui (JObj d) (path @ ''/[]'') l1
      | _ \<Rightarrow> l1)"
| "control_ui path options l =
     (let l1 = put_control path [] l in
      l1\<lparr>ls_generated := ls_generated l1 @ [\<lparr>gl_at = path @ ''/[]'', gl_objects = False\<rparr>]\<rparr>)"
| "walk_elements [] base l = l"
| "walk_elements (e # es) base l = walk_elements es base (walk_ui e base l)"
  by pat_completeness auto
termination
  by (relation "measure (\<lambda>x. case x of Inl (v, _, _) \<Rightarrow> size v | Inr (Inl (_, v, _)) \<Rightarrow> (case v of None \<Rightarrow> 0 | Some w \<Rightarrow> size w)
        | Inr (Inr (vs, _, _)) \<Rightarrow> size_list size vs)")
    (auto dest!: obj_get_size split: option.splits)

definition parseListSwitches :: "json option \<Rightarrow> list_switches" where
  "parseListSwitches ui =
     (case ui of
        None \<Rightarrow> \<lparr>ls_controls = [], ls_generated = [\<lparr>gl_at = [], gl_objects = True\<rparr>]\<rparr>
      | Some JNull \<Rightarrow> \<lparr>ls_controls = [], ls_generated = [\<lparr>gl_at = [], gl_objects = True\<rparr>]\<rparr>
      | Some v \<Rightarrow> walk_ui v [] \<lparr>ls_controls = [], ls_generated = []\<rparr>)"

fun shows_tokens :: "bool \<Rightarrow> bool \<Rightarrow> string list \<Rightarrow> bool" where
  "shows_tokens laidOut objects [] = True"
| "shows_tokens laidOut objects (t # ts) =
     (if t = ''[]'' then shows_tokens True False ts
      else if \<not> laidOut then False
      else shows_tokens objects objects ts)"

definition shows_list :: "generated_layout \<Rightarrow> string \<Rightarrow> bool" where
  "shows_list g path =
     (if path = gl_at g then True
      else let prefix = gl_at g @ ''/'' in
        if \<not> has_prefix prefix path then False
        else shows_tokens True (gl_objects g) (split_on CHR ''/'' (drop (length prefix) path)))"

definition switches_at :: "list_switches \<Rightarrow> string \<Rightarrow> list_switch" where
  "switches_at l path =
     (if list_ex (\<lambda>g. shows_list g path) (ls_generated l) then \<lparr>sw_addable = True, sw_removable = True\<rparr>
      else switch_of l path)"

subsection \<open>Nodes\<close>

record form =
  fo_schemas :: schemas
  fo_lists :: list_switches

record ro_node =
  n_schemas :: "nat list"
  n_path :: string

definition node :: "form \<Rightarrow> nat list \<Rightarrow> string \<Rightarrow> ro_node option" where
  "node f is path = (if list_ex (reachesReadOnly (fo_schemas f)) is then Some \<lparr>n_schemas = is, n_path = path\<rparr> else None)"

definition node_readOnly :: "form \<Rightarrow> ro_node \<Rightarrow> bool" where
  "node_readOnly f n = list_ex (\<lambda>i. sc_read_only (fo_schemas f ! i)) (n_schemas n)"

definition defaultValue :: "form \<Rightarrow> ro_node \<Rightarrow> json option" where
  "defaultValue f n =
     (case List.find (\<lambda>i. sc_default (fo_schemas f ! i) \<noteq> None) (n_schemas n) of
        None \<Rightarrow> None | Some i \<Rightarrow> sc_default (fo_schemas f ! i))"

definition property_of :: "schema \<Rightarrow> string \<Rightarrow> nat list" where
  "property_of s key =
     (let named = opt_list (map_of (sc_properties s) key);
          matching = map snd (filter (\<lambda>(re, _). re key) (sc_patterns s))
      in named @ matching @ (if named = [] \<and> matching = [] then opt_list (sc_additional s) else []))"

definition property_schemas :: "form \<Rightarrow> nat list \<Rightarrow> string \<Rightarrow> nat list" where
  "property_schemas f is key = sameValue (fo_schemas f) (concat (map (\<lambda>i. property_of (fo_schemas f ! i) key) is))"

definition property :: "form \<Rightarrow> ro_node \<Rightarrow> string \<Rightarrow> ro_node option" where
  "property f n key = node f (property_schemas f (n_schemas n) key) (n_path n @ ''/'' @ escapeToken key)"

definition namedKeys :: "form \<Rightarrow> ro_node \<Rightarrow> string list" where
  "namedKeys f n = concat (map (\<lambda>i. map fst (sc_properties (fo_schemas f ! i))) (n_schemas n))"

definition row_schemas :: "form \<Rightarrow> nat list \<Rightarrow> nat list" where
  "row_schemas f is = sameValue (fo_schemas f)
     (concat (map (\<lambda>i. items_schema (fo_schemas f ! i) @ opt_list (sc_items2020 (fo_schemas f ! i))) is))"

definition row :: "form \<Rightarrow> ro_node \<Rightarrow> ro_node option" where
  "row f n = node f (row_schemas f (n_schemas n)) (n_path n @ ''/[]'')"

definition node_switches :: "form \<Rightarrow> ro_node \<Rightarrow> list_switch" where
  "node_switches f n = switches_at (fo_lists f) (n_path n)"

definition form_root :: "form \<Rightarrow> nat \<Rightarrow> ro_node option" where
  "form_root f top_schema = node f (sameValue (fo_schemas f) [top_schema]) []"

fun read_only_at :: "form \<Rightarrow> ro_node option \<Rightarrow> json \<Rightarrow> string list \<Rightarrow> bool" where
  "read_only_at f None v location = False"
| "read_only_at f (Some n) v [] = node_readOnly f n"
| "read_only_at f (Some n) v (token # ts) =
     (if node_readOnly f n then True
      else case v of
        JObj kvs \<Rightarrow> read_only_at f (property f n token) (case obj_get kvs token of None \<Rightarrow> JNull | Some w \<Rightarrow> w) ts
      | JArr vs \<Rightarrow>
          (case atoi token of
             None \<Rightarrow> False
           | Some i \<Rightarrow> if i < 0 \<or> i \<ge> int (length vs) then False else read_only_at f (row f n) (vs ! nat i) ts)
      | _ \<Rightarrow> False)"

text \<open>A form, its schema compiled and as written: an older draft is refused for siblings of a \<open>$ref\<close>.\<close>

datatype form_error = SiblingsOfRef | ReadOnlyNotFollowed

definition newReadOnlyForm :: "bool \<Rightarrow> schemas \<Rightarrow> nat \<Rightarrow> json \<Rightarrow> json option \<Rightarrow> form_error + form \<times> ro_node option" where
  "newReadOnlyForm before2019 S top_schema raw ui =
     (if before2019 \<and> \<not> refSiblings raw then Inl SiblingsOfRef
      else if refusedReadOnly S top_schema then Inl ReadOnlyNotFollowed
      else (let f = \<lparr>fo_schemas = S, fo_lists = parseListSwitches ui\<rparr> in Inr (f, form_root f top_schema)))"

end
