(* ===== verification/Payload_Readonly.thy ===== *)
theory Payload_Readonly
  imports Payload_Form "HOL-Library.Monad_Syntax"
begin

text \<open>
  \<open>internal/tasks/extensions/payloadschema/readonly_compare.go\<close>: a submission held to the
  values its form marks read-only. \<open>compare\<close> and \<open>serverPart\<close> walk a form whose schemas may
  refer to themselves, so they take fuel: \<open>None\<close> is a walk that has not ended. The properties
  say that a form whose schemas are not circular always ends, what an accepted submission
  keeps, and that a circular one never ends for a list row.
\<close>

subsection \<open>JSON values up to the order of members\<close>

text \<open>
  \<open>json.Marshal\<close> writes an object's members in the order of their names, so equal texts are
  equal values up to that order.
\<close>

primrec canon :: "json \<Rightarrow> json" where
  "canon JNull = JNull"
| "canon (JBool b) = JBool b"
| "canon (JNum r) = JNum r"
| "canon (JStr s) = JStr s"
| "canon (JArr vs) = JArr (map canon vs)"
| "canon (JObj kvs) = JObj (sort_key fst (map (map_prod id canon) kvs))"

definition equalJSON :: "json \<Rightarrow> json \<Rightarrow> bool" where
  "equalJSON a b = (canon a = canon b)"

lemma map_of_filter: "map_of xs k = (case filter (\<lambda>x. fst x = k) xs of [] \<Rightarrow> None | x # _ \<Rightarrow> Some (snd x))"
  by (induction xs) (auto split: list.splits)

lemma map_of_sort_key [simp]: "map_of (sort_key fst xs) k = map_of xs k"
  by (simp add: map_of_filter [of _ k] sort_key_stable)

lemma map_of_map_prod: "map_of (map (map_prod id h) xs) k = map_option h (map_of xs k)"
  by (induction xs) auto

lemma canon_obj_members: "canon (JObj kvs) = JObj ms \<Longrightarrow> map_of ms k = map_option canon (map_of kvs k)"
  using map_of_sort_key [of "map (map_prod id canon) kvs" k] map_of_map_prod [of canon kvs k] by auto

lemma equalJSON_refl [simp]: "equalJSON v v"
  by (simp add: equalJSON_def)

lemma equalJSON_obj: "equalJSON (JObj a) w \<Longrightarrow> \<exists>b. w = JObj b \<and> rel_option equalJSON (obj_get a k) (obj_get b k)"
proof -
  assume e: "equalJSON (JObj a) w"
  then obtain b where w: "w = JObj b" by (cases w) (auto simp: equalJSON_def)
  have "map_option canon (obj_get a k) = map_option canon (obj_get b k)"
    using e canon_obj_members [of a _ k] canon_obj_members [of b _ k] by (auto simp: w equalJSON_def obj_get_def)
  then show ?thesis using w by (cases "obj_get a k"; cases "obj_get b k") (auto simp: equalJSON_def)
qed

subsection \<open>Comparing\<close>

datatype violated = ReadOnlyChanged | ReadOnlyMissing | ReadOnlySet | RowUnknown | RowAdded | RowsRemoved

record violation =
  vi_path :: string
  vi_message :: violated

definition keysOf :: "string list \<Rightarrow> string list \<Rightarrow> string list" where
  "keysOf a b = sort (remdups (a @ b))"

lemma set_keysOf [simp]: "set (keysOf a b) = set a \<union> set b"
  by (simp add: keysOf_def)

fun members :: "json option \<Rightarrow> (string \<times> json) list" where
  "members (Some (JObj kvs)) = kvs"
| "members _ = []"

fun list_rows :: "json option \<Rightarrow> json list option" where
  "list_rows (Some (JArr vs)) = Some vs"
| "list_rows _ = None"

definition compareReadOnly :: "form \<Rightarrow> ro_node \<Rightarrow> json option \<Rightarrow> json option \<Rightarrow> violated option" where
  "compareReadOnly f n st sub =
     (case (st, sub) of
        (Some v, None) \<Rightarrow> Some ReadOnlyMissing
      | (Some v, Some w) \<Rightarrow> if \<not> equalJSON v w then Some ReadOnlyChanged else None
      | (None, Some w) \<Rightarrow>
          (case defaultValue f n of
             Some d \<Rightarrow> if equalJSON d w then None else Some ReadOnlySet
           | None \<Rightarrow> Some ReadOnlySet)
      | (None, None) \<Rightarrow> None)"

text \<open>The read-only values of a row, lists left aside; the inner \<open>None\<close> is nil.\<close>

fun serverPart :: "nat \<Rightarrow> form \<Rightarrow> ro_node \<Rightarrow> json option \<Rightarrow> json option option" where
  "serverPart 0 f n v = None"
| "serverPart (Suc fuel) f n v =
     (if node_readOnly f n then
        Some (case v of
                Some x \<Rightarrow> Some (JObj [([], x)])
              | None \<Rightarrow> (case defaultValue f n of Some d \<Rightarrow> Some (JObj [([], d)]) | None \<Rightarrow> None))
      else if row f n \<noteq> None \<and> (list_rows v \<noteq> None \<or> v = None) then Some None
      else do {
        parts \<leftarrow> those (map (\<lambda>key. case property f n key of
            None \<Rightarrow> Some []
          | Some child \<Rightarrow> map_option (\<lambda>p. case p of None \<Rightarrow> [] | Some x \<Rightarrow> [(key, x)]) (serverPart fuel f child (obj_get (members v) key)))
          (keysOf (map fst (members v)) (namedKeys f n)));
        Some (if concat parts = [] then None else Some (JObj (concat parts))) })"

definition partKey :: "json option \<Rightarrow> json" where
  "partKey part = canon (case part of None \<Rightarrow> JNull | Some p \<Rightarrow> p)"

text \<open>The first stored row not yet paired whose part is the same, from index \<open>j\<close>.\<close>

fun find_row :: "json \<Rightarrow> json list \<Rightarrow> bool list \<Rightarrow> nat option" where
  "find_row part (p # ps) (b # bs) = (if \<not> b \<and> p = part then Some 0 else map_option Suc (find_row part ps bs))"
| "find_row part _ _ = None"

text \<open>The loop over the submitted rows, from index \<open>i\<close>: the violations and which stored rows are paired.\<close>

fun rows_loop :: "(json option \<Rightarrow> json option \<Rightarrow> string \<Rightarrow> violation list option) \<Rightarrow> bool \<Rightarrow> json \<Rightarrow> json list \<Rightarrow> json list \<Rightarrow>
    (json \<times> json) list \<Rightarrow> nat \<Rightarrow> string \<Rightarrow> bool list \<Rightarrow> (violation list \<times> bool list) option" where
  "rows_loop cmp addable none stored stParts [] i path paired = Some ([], paired)"
| "rows_loop cmp addable none stored stParts ((sub, part) # subs) i path paired =
     (let rowAt = path @ ''/'' @ show_nat i in
      case find_row part stParts paired of
        Some j \<Rightarrow> do {
          vs \<leftarrow> cmp (Some (stored ! j)) (Some sub) rowAt;
          (ws, done_rows) \<leftarrow> rows_loop cmp addable none stored stParts subs (Suc i) path (paired[j := True]);
          Some (vs @ ws, done_rows) }
      | None \<Rightarrow>
          if part = none then
            if \<not> addable then do {
              (ws, done_rows) \<leftarrow> rows_loop cmp addable none stored stParts subs (Suc i) path paired;
              Some (\<lparr>vi_path = rowAt, vi_message = RowAdded\<rparr> # ws, done_rows) }
            else do {
              vs \<leftarrow> cmp None (Some sub) rowAt;
              (ws, done_rows) \<leftarrow> rows_loop cmp addable none stored stParts subs (Suc i) path paired;
              Some (vs @ ws, done_rows) }
          else do {
            (ws, done_rows) \<leftarrow> rows_loop cmp addable none stored stParts subs (Suc i) path paired;
            Some (\<lparr>vi_path = rowAt, vi_message = RowUnknown\<rparr> # ws, done_rows) })"

definition compareRows :: "(json option \<Rightarrow> json option \<Rightarrow> string \<Rightarrow> violation list option) \<Rightarrow> (json option \<Rightarrow> json option option) \<Rightarrow>
    list_switch \<Rightarrow> json list \<Rightarrow> json list \<Rightarrow> string \<Rightarrow> violation list option" where
  "compareRows cmp part sw stored submitted path = do {
     none \<leftarrow> map_option partKey (part None);
     stParts \<leftarrow> those (map (\<lambda>st. map_option partKey (part (Some st))) stored);
     subParts \<leftarrow> those (map (\<lambda>sub. map_option partKey (part (Some sub))) submitted);
     (vs, paired) \<leftarrow> rows_loop cmp (sw_addable sw) none stored stParts (zip submitted subParts) 0 path (replicate (length stored) False);
     Some (vs @ (if \<not> sw_removable sw \<and> False \<in> set paired then [\<lparr>vi_path = path, vi_message = RowsRemoved\<rparr>] else [])) }"

fun compare :: "nat \<Rightarrow> form \<Rightarrow> ro_node \<Rightarrow> json option \<Rightarrow> json option \<Rightarrow> string \<Rightarrow> violation list option" where
  "compare 0 f n st sub path = None"
| "compare (Suc fuel) f n st sub path =
     (if node_readOnly f n then
        Some (case compareReadOnly f n st sub of None \<Rightarrow> [] | Some m \<Rightarrow> [\<lparr>vi_path = path, vi_message = m\<rparr>])
      else case (if list_rows st \<noteq> None \<or> list_rows sub \<noteq> None then row f n else None) of
        Some r \<Rightarrow>
          compareRows (compare fuel f r) (serverPart fuel f r) (node_switches f n)
            (case list_rows st of None \<Rightarrow> [] | Some vs \<Rightarrow> vs) (case list_rows sub of None \<Rightarrow> [] | Some vs \<Rightarrow> vs) path
      | None \<Rightarrow>
          map_option concat (those (map (\<lambda>key. case property f n key of
              None \<Rightarrow> Some []
            | Some child \<Rightarrow> compare fuel f child (obj_get (members st) key) (obj_get (members sub) key) (path @ ''/'' @ escapeToken key))
            (keysOf (map fst (members st)) (map fst (members sub))))))"

definition readOnlyViolations :: "nat \<Rightarrow> form \<Rightarrow> ro_node option \<Rightarrow> json option \<Rightarrow> (string \<times> json) list \<Rightarrow> violation list option" where
  "readOnlyViolations fuel f top_node stored submitted =
     (case top_node of None \<Rightarrow> Some [] | Some n \<Rightarrow> compare fuel f n stored (Some (JObj submitted)) [])"

subsection \<open>Following schemas\<close>

definition follows :: "schemas \<Rightarrow> nat \<Rightarrow> nat \<Rightarrow> bool" where
  "follows S x y \<longleftrightarrow> y \<in> set (followed S x) \<and> y < length S"

lemma step_in_follows: "(\<lambda>x y. y \<in> set (followed S x) \<and> y < length S) = follows S"
  by (simp add: follows_def fun_eq_iff)

lemma reach_follows:
  "x \<in> set (reach (ids S) (followed S) ws []) \<longleftrightarrow> x < length S \<and> (\<exists>s \<in> set ws. s < length S \<and> (follows S)\<^sup>*\<^sup>* s x)"
  using reach_iff [of x "ids S" "followed S" ws] by (simp add: step_in_follows)

lemma same_follows: "step_in (ids S) (same_kids S) x y \<Longrightarrow> follows S x y"
  by (auto simp: same_kids_def followed_def follows_def Let_def)

lemma in_sameValue: "x \<in> set (sameValue S is) \<Longrightarrow> x < length S \<and> (\<exists>i \<in> set is. i < length S \<and> (follows S)\<^sup>*\<^sup>* i x)"
proof -
  assume "x \<in> set (sameValue S is)"
  then obtain i where i: "x < length S" "i \<in> set is" "i < length S" "(step_in (ids S) (same_kids S))\<^sup>*\<^sup>* i x"
    unfolding sameValue_def reach_iff by auto
  have "(follows S)\<^sup>*\<^sup>* i x"
    using mono_rtranclp [of "step_in (ids S) (same_kids S)" "follows S"] same_follows i(4) by blast
  with i show ?thesis by blast
qed

lemma property_followed: "y \<in> set (property_of (S ! i) key) \<Longrightarrow> y \<in> set (followed S i)"
  by (auto simp: property_of_def followed_def Let_def dest!: map_of_SomeD split: if_splits) force+

text \<open>A schema of a property or of a row lies strictly below one of the node's.\<close>

lemma in_property_schemas:
  "x \<in> set (property_schemas f is key) \<Longrightarrow>
   x < length (fo_schemas f) \<and> (\<exists>i \<in> set is. \<exists>y. follows (fo_schemas f) i y \<and> (follows (fo_schemas f))\<^sup>*\<^sup>* y x)"
  unfolding property_schemas_def by (drule in_sameValue) (auto simp: follows_def dest: property_followed)

lemma in_row_schemas:
  "x \<in> set (row_schemas f is) \<Longrightarrow>
   x < length (fo_schemas f) \<and> (\<exists>i \<in> set is. \<exists>y. follows (fo_schemas f) i y \<and> (follows (fo_schemas f))\<^sup>*\<^sup>* y x)"
  unfolding row_schemas_def by (drule in_sameValue) (auto simp: follows_def followed_def Let_def)

lemma reachesReadOnly_iff:
  "i < length S \<Longrightarrow> reachesReadOnly S i \<longleftrightarrow> (\<exists>j < length S. sc_read_only (S ! j) \<and> (follows S)\<^sup>*\<^sup>* i j)"
  by (auto simp: reachesReadOnly_def list_ex_iff Bex_def reach_follows)

subsection \<open>Paths to read-only values\<close>

definition schemas_readOnly :: "form \<Rightarrow> nat list \<Rightarrow> bool" where
  "schemas_readOnly f is = list_ex (\<lambda>i. sc_read_only (fo_schemas f ! i)) is"

text \<open>\<open>keys\<close> names the outermost read-only value on its way down from a value of schemas \<open>is\<close>.\<close>

fun read_only_path :: "form \<Rightarrow> nat list \<Rightarrow> string list \<Rightarrow> bool" where
  "read_only_path f is [] = schemas_readOnly f is"
| "read_only_path f is (k # ks) = (\<not> schemas_readOnly f is \<and> read_only_path f (property_schemas f is k) ks)"

fun schemas_at :: "form \<Rightarrow> nat list \<Rightarrow> string list \<Rightarrow> nat list" where
  "schemas_at f is [] = is"
| "schemas_at f is (k # ks) = schemas_at f (property_schemas f is k) ks"

fun value_at :: "json option \<Rightarrow> string list \<Rightarrow> json option" where
  "value_at v [] = v"
| "value_at v (k # ks) = value_at (obj_get (members v) k) ks"

text \<open>No list is passed on the way, in either of the two values.\<close>

fun plain_path :: "json option \<Rightarrow> json option \<Rightarrow> string list \<Rightarrow> bool" where
  "plain_path st sub [] = True"
| "plain_path st sub (k # ks) =
     (list_rows st = None \<and> list_rows sub = None \<and> plain_path (obj_get (members st) k) (obj_get (members sub) k) ks)"

lemma value_at_None [simp]: "value_at None keys = None"
  by (induction keys) (auto simp: obj_get_def)

lemma read_only_path_reaches:
  assumes "read_only_path f is keys" and "\<forall>i \<in> set is. i < length (fo_schemas f)"
  shows "list_ex (reachesReadOnly (fo_schemas f)) is"
proof -
  let ?S = "fo_schemas f"
  have "\<exists>i \<in> set is. \<exists>j < length ?S. sc_read_only (?S ! j) \<and> (follows ?S)\<^sup>*\<^sup>* i j"
    using assms
  proof (induction f "is" keys rule: read_only_path.induct)
    case (1 f "is")
    then show ?case by (auto simp: schemas_readOnly_def list_ex_iff)
  next
    case (2 f "is" k ks)
    have "\<forall>i \<in> set (property_schemas f is k). i < length (fo_schemas f)" using in_property_schemas by blast
    with 2 obtain x j where x: "x \<in> set (property_schemas f is k)" "j < length (fo_schemas f)" "sc_read_only (fo_schemas f ! j)"
      "(follows (fo_schemas f))\<^sup>*\<^sup>* x j" by auto
    from in_property_schemas [OF x(1)] obtain i y where i: "i \<in> set is" "follows (fo_schemas f) i y" "(follows (fo_schemas f))\<^sup>*\<^sup>* y x"
      by blast
    have "(follows (fo_schemas f))\<^sup>*\<^sup>* i j"
      using i(2) rtranclp_trans [OF i(3) x(4)] by (rule converse_rtranclp_into_rtranclp)
    with i x show ?case by blast
  qed
  then show ?thesis using assms(2) by (auto simp: list_ex_iff reachesReadOnly_iff)
qed

lemma those_None_iff [simp]: "those xs = None \<longleftrightarrow> None \<in> set xs"
  by (induction xs) (auto split: option.splits)

lemma those_Some_iff: "those xs = Some ys \<longleftrightarrow> xs = map Some ys"
  by (induction xs arbitrary: ys) (auto split: option.splits simp: Cons_eq_map_conv)

lemma map_concat_those_Nil:
  "map_option concat (those (map h xs)) = Some [] \<Longrightarrow> x \<in> set xs \<Longrightarrow> h x = Some []"
  by (auto simp: those_Some_iff map_eq_conv) (metis (no_types, lifting) in_set_conv_nth length_map nth_map nth_mem)

lemma obj_get_None_iff: "obj_get kvs k = None \<longleftrightarrow> k \<notin> set (map fst kvs)"
  by (simp add: obj_get_def map_of_eq_None_iff)

text \<open>An accepted comparison has applied the read-only rule at the end of every such path.\<close>

lemma compare_path:
  assumes "compare fuel f n st sub at_path = Some []" and "read_only_path f (n_schemas n) keys" and "plain_path st sub keys"
  shows "compareReadOnly f \<lparr>n_schemas = schemas_at f (n_schemas n) keys, n_path = p\<rparr> (value_at st keys) (value_at sub keys) = None"
  using assms
proof (induction keys arbitrary: fuel n st sub at_path)
  case Nil
  from Nil.prems(1) obtain m where "fuel = Suc m" by (cases fuel) simp_all
  with Nil.prems have "compareReadOnly f n st sub = None"
    by (auto simp: node_readOnly_def schemas_readOnly_def split: option.splits)
  then show ?case by (auto simp: compareReadOnly_def defaultValue_def split: option.splits if_splits)
next
  case (Cons k ks)
  from Cons.prems(1) obtain m where m: "fuel = Suc m" by (cases fuel) simp_all
  let ?v = "obj_get (members st) k" and ?w = "obj_get (members sub) k"
  show ?case
  proof (cases "?v = None \<and> ?w = None")
    case True
    then show ?thesis by (simp add: compareReadOnly_def)
  next
    case False
    then have k: "k \<in> set (keysOf (map fst (members st)) (map fst (members sub)))" by (auto simp: obj_get_None_iff)
    have "\<forall>i \<in> set (property_schemas f (n_schemas n) k). i < length (fo_schemas f)" using in_property_schemas by blast
    then have "list_ex (reachesReadOnly (fo_schemas f)) (property_schemas f (n_schemas n) k)"
      using Cons.prems(2) read_only_path_reaches by auto
    then obtain c where c: "property f n k = Some c" "n_schemas c = property_schemas f (n_schemas n) k"
      by (simp add: property_def node_def)
    have "map_option concat (those (map (\<lambda>key. case property f n key of
              None \<Rightarrow> Some []
            | Some child \<Rightarrow> compare m f child (obj_get (members st) key) (obj_get (members sub) key) (at_path @ ''/'' @ escapeToken key))
            (keysOf (map fst (members st)) (map fst (members sub))))) = Some []"
      using Cons.prems by (simp add: m node_readOnly_def schemas_readOnly_def)
    from map_concat_those_Nil [OF this k] have "compare m f c ?v ?w (at_path @ ''/'' @ escapeToken k) = Some []" by (simp add: c(1))
    from Cons.IH [OF this] Cons.prems c(2) show ?thesis by simp
  qed
qed

subsection \<open>Forms for the witnesses\<close>

definition plain_schema :: schema where
  "plain_schema = \<lparr>sc_location = [], sc_ref = None, sc_read_only = False, sc_default = None, sc_all_of = [], sc_properties = [],
     sc_patterns = [], sc_additional = None, sc_items = NoItems, sc_items2020 = None, sc_single = [], sc_one_of = [], sc_any_of = [],
     sc_dependencies = [], sc_dependent_schemas = [], sc_additional_items = None, sc_prefix_items = [], sc_dynamic_ref = None\<rparr>"

text \<open>An order with a read-only number and a list of lines, each with a read-only code.\<close>

definition order_form :: form where
  "order_form = \<lparr>fo_schemas =
      [plain_schema\<lparr>sc_properties := [(''no'', 1), (''lines'', 2)]\<rparr>,
       plain_schema\<lparr>sc_read_only := True\<rparr>,
       plain_schema\<lparr>sc_items := ItemsSchema 3\<rparr>,
       plain_schema\<lparr>sc_properties := [(''code'', 4), (''qty'', 5)]\<rparr>,
       plain_schema\<lparr>sc_read_only := True\<rparr>,
       plain_schema],
     fo_lists = parseListSwitches None\<rparr>"

text \<open>Lines that may hold a line of their own, as \<open>part\<close>.\<close>

definition nested_form :: form where
  "nested_form = order_form\<lparr>fo_schemas := (fo_schemas order_form)[3 := plain_schema\<lparr>sc_properties := [(''code'', 4), (''part'', 3)]\<rparr>]\<rparr>"

subsection \<open>Read-only values of an accepted submission\<close>

lemma form_schemas_bounded: "\<forall>i \<in> set (sameValue S [t]). i < length S"
  using in_sameValue by blast



subsection \<open>Rows\<close>

lemma find_row_Some:
  "find_row part ps bs = Some j \<Longrightarrow> j < length ps \<and> j < length bs \<and> \<not> bs ! j \<and> ps ! j = part"
  by (induction part ps bs arbitrary: j rule: find_row.induct) (auto split: if_splits)

text \<open>\<open>qs\<close> says for each submitted row the stored row it is paired with, if any.\<close>

definition row_accepted :: "(json option \<Rightarrow> json option \<Rightarrow> string \<Rightarrow> violation list option) \<Rightarrow> bool \<Rightarrow> json \<Rightarrow> json list \<Rightarrow> json list \<Rightarrow>
    json \<times> json \<Rightarrow> nat option \<Rightarrow> bool" where
  "row_accepted cmp addable none stored stParts s q =
     (case q of
        Some j \<Rightarrow> j < length stored \<and> stParts ! j = snd s \<and> (\<exists>p. cmp (Some (stored ! j)) (Some (fst s)) p = Some [])
      | None \<Rightarrow> addable \<and> snd s = none \<and> (\<exists>p. cmp None (Some (fst s)) p = Some []))"

lemma row_accepted_simps [simp]:
  "row_accepted cmp addable none stored stParts s (Some j) \<longleftrightarrow>
     j < length stored \<and> stParts ! j = snd s \<and> (\<exists>p. cmp (Some (stored ! j)) (Some (fst s)) p = Some [])"
  "row_accepted cmp addable none stored stParts s None \<longleftrightarrow> addable \<and> snd s = none \<and> (\<exists>p. cmp None (Some (fst s)) p = Some [])"
  by (simp_all add: row_accepted_def)

definition paired_rows :: "nat option list \<Rightarrow> nat list" where
  "paired_rows qs = concat (map opt_list qs)"

lemma set_paired_rows [simp]: "j \<in> set (paired_rows qs) \<longleftrightarrow> Some j \<in> set qs"
  by (auto simp: paired_rows_def)

lemma paired_rows_Cons [simp]: "paired_rows (q # qs) = opt_list q @ paired_rows qs"
  by (simp add: paired_rows_def)

lemma bind_Some_iff: "Option.bind x g = Some z \<longleftrightarrow> (\<exists>y. x = Some y \<and> g y = Some z)"
  by (cases x) auto

lemma rows_loop_accepted:
  assumes "rows_loop cmp addable none stored stParts subs i path paired = Some ([], paired')"
    and "length stParts = length stored" and "length paired = length stored"
  shows "\<exists>qs. list_all2 (row_accepted cmp addable none stored stParts) subs qs \<and> distinct (paired_rows qs) \<and>
     length paired' = length stored \<and>
     (\<forall>j \<in> set (paired_rows qs). \<not> paired ! j) \<and> (\<forall>j < length stored. paired' ! j \<longleftrightarrow> paired ! j \<or> j \<in> set (paired_rows qs))"
  using assms
proof (induction cmp addable none stored stParts subs i path paired arbitrary: paired' rule: rows_loop.induct)
  case (1 cmp addable none stored stParts i path paired)
  then show ?case by (intro exI [of _ "[]"]) (auto simp: paired_rows_def)
next
  case (2 cmp addable none stored stParts sub part subs i path paired)
  let ?at = "path @ ''/'' @ show_nat i"
  show ?case
  proof (cases "find_row part stParts paired")
    case (Some j)
    with "2.prems" have c: "cmp (Some (stored ! j)) (Some sub) ?at = Some []"
      and l: "rows_loop cmp addable none stored stParts subs (Suc i) path (paired[j := True]) = Some ([], paired')"
      by (auto simp: Let_def bind_Some_iff split: prod.splits)
    from "2.IH"(4) [OF refl Some c l] "2.prems" obtain qs where qs:
      "list_all2 (row_accepted cmp addable none stored stParts) subs qs" "distinct (paired_rows qs)" "length paired' = length stored"
      "\<forall>k \<in> set (paired_rows qs). \<not> paired[j := True] ! k"
      "\<forall>k < length stored. paired' ! k \<longleftrightarrow> paired[j := True] ! k \<or> k \<in> set (paired_rows qs)" by auto
    have j: "j < length stored" "\<not> paired ! j" "stParts ! j = part"
      using find_row_Some [OF Some] "2.prems" by auto
    have "j \<notin> set (paired_rows qs)" using qs(4) j(1) "2.prems"(3) by (metis nth_list_update_eq)
    moreover have "\<forall>k \<in> set (paired_rows qs). \<not> paired ! k" using qs(4) j "2.prems"(3) by (metis nth_list_update_neq nth_list_update_eq)
    moreover have "\<forall>k < length stored. paired' ! k \<longleftrightarrow> paired ! k \<or> k = j \<or> k \<in> set (paired_rows qs)"
      using qs(5) j "2.prems"(3) by (auto simp: nth_list_update)
    ultimately show ?thesis using qs c j
      by (intro exI [of _ "Some j # qs"]) (auto simp: opt_list_def)
  next
    case None
    with "2.prems" have n: "part = none" "addable"
      by (auto simp: Let_def bind_Some_iff split: prod.splits if_splits)
    with None "2.prems" have c: "cmp None (Some sub) ?at = Some []"
      and l: "rows_loop cmp addable none stored stParts subs (Suc i) path paired = Some ([], paired')"
      by (auto simp: Let_def bind_Some_iff split: prod.splits)
    from "2.IH"(2) [OF refl None n(1) _ c l] n c "2.prems" obtain qs where
      "list_all2 (row_accepted cmp addable none stored stParts) subs qs" "distinct (paired_rows qs)" "length paired' = length stored"
      "\<forall>j \<in> set (paired_rows qs). \<not> paired ! j" "\<forall>j < length stored. paired' ! j \<longleftrightarrow> paired ! j \<or> j \<in> set (paired_rows qs)"
      by auto
    with n c show ?thesis by (intro exI [of _ "None # qs"]) (auto simp: opt_list_def)
  qed
qed

text \<open>In a list the check accepts, every submitted row is paired with a stored row of its own that
  has the same server part and accepts the row, or it is a new row of no server part that the
  list's form lets be added and accepts; no stored row is paired twice, and where the form does
  not let rows be removed every stored row is paired.\<close>

theorem accepted_rows_paired:
  assumes "compare (Suc fuel) f n (Some (JArr stored)) (Some (JArr submitted)) path = Some []"
    and "\<not> node_readOnly f n" and "row f n = Some r"
  shows "\<exists>qs. length qs = length submitted \<and> distinct (paired_rows qs) \<and>
    (\<forall>i < length submitted. case qs ! i of
        Some j \<Rightarrow> j < length stored \<and>
          map_option partKey (serverPart fuel f r (Some (stored ! j))) = map_option partKey (serverPart fuel f r (Some (submitted ! i))) \<and>
          (\<exists>p. compare fuel f r (Some (stored ! j)) (Some (submitted ! i)) p = Some [])
      | None \<Rightarrow> sw_addable (node_switches f n) \<and>
          map_option partKey (serverPart fuel f r (Some (submitted ! i))) = map_option partKey (serverPart fuel f r None) \<and>
          (\<exists>p. compare fuel f r None (Some (submitted ! i)) p = Some [])) \<and>
    (sw_removable (node_switches f n) \<or> set (paired_rows qs) = {..<length stored})"
proof -
  let ?part = "\<lambda>v. map_option partKey (serverPart fuel f r v)"
  have "compareRows (compare fuel f r) (serverPart fuel f r) (node_switches f n) stored submitted path = Some []"
    using assms by simp
  then obtain none stParts subParts paired where
    none: "?part None = Some none" and st: "map (\<lambda>st. ?part (Some st)) stored = map Some stParts"
    and sub: "map (\<lambda>sub. ?part (Some sub)) submitted = map Some subParts"
    and l: "rows_loop (compare fuel f r) (sw_addable (node_switches f n)) none stored stParts (zip submitted subParts) 0 path
        (replicate (length stored) False) = Some ([], paired)"
    and all: "sw_removable (node_switches f n) \<or> False \<notin> set paired"
    by (auto simp: compareRows_def bind_Some_iff those_Some_iff split: prod.splits if_splits)
  have len: "length stParts = length stored" "length subParts = length submitted"
    using map_eq_imp_length_eq [OF st] map_eq_imp_length_eq [OF sub] by simp_all
  have parts: "\<And>j. j < length stored \<Longrightarrow> ?part (Some (stored ! j)) = Some (stParts ! j)"
    "\<And>i. i < length submitted \<Longrightarrow> ?part (Some (submitted ! i)) = Some (subParts ! i)"
    using st sub len by (metis (no_types, lifting) nth_map)+
  obtain qs where qs:
    "list_all2 (row_accepted (compare fuel f r) (sw_addable (node_switches f n)) none stored stParts) (zip submitted subParts) qs"
    "distinct (paired_rows qs)" "length paired = length stored" "\<forall>j < length stored. paired ! j \<longleftrightarrow> j \<in> set (paired_rows qs)"
    using rows_loop_accepted [OF l len(1)] by auto
  from qs(1) len have qlen: "length qs = length submitted" by (auto dest: list_all2_lengthD)
  have rows: "row_accepted (compare fuel f r) (sw_addable (node_switches f n)) none stored stParts (submitted ! i, subParts ! i) (qs ! i)"
    if "i < length submitted" for i
    using list_all2_nthD2 [OF qs(1), of i] that len qlen by simp
  have inside: "set (paired_rows qs) \<subseteq> {..<length stored}"
  proof
    fix j assume "j \<in> set (paired_rows qs)"
    then have "Some j \<in> set qs" by simp
    then obtain i where "i < length submitted" "qs ! i = Some j" using qlen by (auto simp: in_set_conv_nth)
    with rows [of i] show "j \<in> {..<length stored}" by simp
  qed
  have "sw_removable (node_switches f n) \<or> {..<length stored} \<subseteq> set (paired_rows qs)"
    using all qs(3,4) by (auto simp: in_set_conv_nth)
  with inside have "sw_removable (node_switches f n) \<or> set (paired_rows qs) = {..<length stored}" by blast
  moreover have "case qs ! i of
        Some j \<Rightarrow> j < length stored \<and> ?part (Some (stored ! j)) = ?part (Some (submitted ! i)) \<and>
          (\<exists>p. compare fuel f r (Some (stored ! j)) (Some (submitted ! i)) p = Some [])
      | None \<Rightarrow> sw_addable (node_switches f n) \<and> ?part (Some (submitted ! i)) = ?part None \<and>
          (\<exists>p. compare fuel f r None (Some (submitted ! i)) p = Some [])" if "i < length submitted" for i
    using rows [OF that] parts that none by (cases "qs ! i") (simp_all del: map_option_eq_Some)
  ultimately show ?thesis using qlen qs(2) by blast
qed

theorem accepted_rows_paired_witness:
  "\<exists>qs. length qs = 1 \<and> distinct (paired_rows qs) \<and>
     (sw_removable (node_switches order_form \<lparr>n_schemas = [2], n_path = ''/lines''\<rparr>) \<or> set (paired_rows qs) = {..<2})"
proof -
  have "compare (Suc 2) order_form \<lparr>n_schemas = [2], n_path = ''/lines''\<rparr>
      (Some (JArr [JObj [(''code'', JStr ''a'')], JObj [(''code'', JStr ''b''), (''qty'', JStr ''1'')]]))
      (Some (JArr [JObj [(''qty'', JStr ''2''), (''code'', JStr ''b'')]])) ''/lines'' = Some []"
    and "\<not> node_readOnly order_form \<lparr>n_schemas = [2], n_path = ''/lines''\<rparr>"
    and "row order_form \<lparr>n_schemas = [2], n_path = ''/lines''\<rparr> = Some \<lparr>n_schemas = [3], n_path = ''/lines/[]''\<rparr>"
    by code_simp+
  from accepted_rows_paired [OF this] show ?thesis by auto
qed

subsection \<open>Whether the walk ends\<close>

text \<open>How many schemas can be reached below one.\<close>

definition depth_below :: "schemas \<Rightarrow> nat \<Rightarrow> nat" where
  "depth_below S i = card {j. j < length S \<and> (follows S)\<^sup>+\<^sup>+ i j}"

lemma depth_below_bound: "depth_below S i \<le> length S"
proof -
  have "card {j. j < length S \<and> (follows S)\<^sup>+\<^sup>+ i j} \<le> card {..<length S}" by (intro card_mono) auto
  then show ?thesis by (simp add: depth_below_def)
qed

lemma depth_below_less:
  assumes "\<forall>i. \<not> (follows S)\<^sup>+\<^sup>+ i i" and "follows S i y" and "(follows S)\<^sup>*\<^sup>* y x" and "x < length S"
  shows "depth_below S x < depth_below S i"
proof -
  have ix: "(follows S)\<^sup>+\<^sup>+ i x" using assms(2,3) by (rule rtranclp_into_tranclp2)
  then have "{j. j < length S \<and> (follows S)\<^sup>+\<^sup>+ x j} \<subset> {j. j < length S \<and> (follows S)\<^sup>+\<^sup>+ i j}"
    using assms(1,4) tranclp_trans [OF ix] by blast
  then show ?thesis unfolding depth_below_def by (intro psubset_card_mono) auto
qed

definition shallow :: "nat \<Rightarrow> form \<Rightarrow> nat list \<Rightarrow> bool" where
  "shallow k f is = list_all (\<lambda>i. depth_below (fo_schemas f) i < k) is"

lemma shallow_below:
  assumes "\<forall>i. \<not> (follows (fo_schemas f))\<^sup>+\<^sup>+ i i" and "shallow (Suc k) f is"
    and "\<And>x. x \<in> set js \<Longrightarrow> x < length (fo_schemas f) \<and> (\<exists>i \<in> set is. \<exists>y. follows (fo_schemas f) i y \<and> (follows (fo_schemas f))\<^sup>*\<^sup>* y x)"
  shows "shallow k f js"
  unfolding shallow_def list_all_iff
proof
  fix x assume "x \<in> set js"
  from assms(3) [OF this] obtain i y where i: "i \<in> set is" "follows (fo_schemas f) i y" "(follows (fo_schemas f))\<^sup>*\<^sup>* y x"
    "x < length (fo_schemas f)" by blast
  have "depth_below (fo_schemas f) i < Suc k" using assms(2) i(1) by (simp add: shallow_def list_all_iff)
  with depth_below_less [OF assms(1) i(2-4)] show "depth_below (fo_schemas f) x < k" by simp
qed

lemma property_shallow:
  "\<forall>i. \<not> (follows (fo_schemas f))\<^sup>+\<^sup>+ i i \<Longrightarrow> shallow (Suc k) f (n_schemas n) \<Longrightarrow> property f n key = Some c \<Longrightarrow> shallow k f (n_schemas c)"
  by (rule shallow_below) (auto simp: property_def node_def dest: in_property_schemas split: if_splits)

lemma row_shallow:
  "\<forall>i. \<not> (follows (fo_schemas f))\<^sup>+\<^sup>+ i i \<Longrightarrow> shallow (Suc k) f (n_schemas n) \<Longrightarrow> row f n = Some c \<Longrightarrow> shallow k f (n_schemas c)"
  by (rule shallow_below) (auto simp: row_def node_def dest: in_row_schemas split: if_splits)

lemma node_schemas: "node f is p = Some n \<Longrightarrow> n_schemas n \<noteq> []"
  by (auto simp: node_def split: if_splits)

lemma not_shallow_0: "shallow 0 f is \<Longrightarrow> is = []"
  by (cases "is") (simp_all add: shallow_def)

definition ends :: "'a option \<Rightarrow> bool" where
  "ends x = (x \<noteq> None)"

lemma ends_simps [simp]:
  "ends (Some v)" "\<not> ends None" "ends (map_option h x) = ends x" "ends (those xs) = (\<forall>y \<in> set xs. ends y)"
  "ends (Option.bind x g) = (ends x \<and> (\<forall>y. x = Some y \<longrightarrow> ends (g y)))"
  by (simp_all add: ends_def del: not_None_eq) (metis, cases x, simp_all)

lemma serverPart_ends:
  "\<forall>i. \<not> (follows (fo_schemas f))\<^sup>+\<^sup>+ i i \<Longrightarrow> shallow fuel f (n_schemas n) \<Longrightarrow> n_schemas n \<noteq> [] \<Longrightarrow> ends (serverPart fuel f n v)"
proof (induction fuel arbitrary: n v)
  case 0
  then show ?case using not_shallow_0 by blast
next
  case (Suc fuel)
  have "ends (serverPart fuel f c w)" if "property f n key = Some c" for key c w
    by (rule Suc.IH) (use Suc.prems property_shallow that in \<open>auto simp: property_def dest: node_schemas\<close>)
  then show ?case by (auto simp del: not_None_eq split: option.splits)
qed

lemma rows_loop_ends:
  "(\<And>a b p. ends (cmp a b p)) \<Longrightarrow> ends (rows_loop cmp addable none stored stParts subs i path paired)"
  by (induction cmp addable none stored stParts subs i path paired rule: rows_loop.induct)
    (auto simp: Let_def split: option.splits prod.splits)

lemma compareRows_ends:
  "(\<And>a b p. ends (cmp a b p)) \<Longrightarrow> (\<And>v. ends (part v)) \<Longrightarrow> ends (compareRows cmp part sw stored submitted path)"
  by (simp add: compareRows_def rows_loop_ends split: prod.splits)

lemma compare_ends:
  "\<forall>i. \<not> (follows (fo_schemas f))\<^sup>+\<^sup>+ i i \<Longrightarrow> shallow fuel f (n_schemas n) \<Longrightarrow> n_schemas n \<noteq> [] \<Longrightarrow> ends (compare fuel f n st sub path)"
proof (induction fuel arbitrary: n st sub path)
  case 0
  then show ?case using not_shallow_0 by blast
next
  case (Suc fuel)
  have p: "ends (compare fuel f c st' sub' path')" if "property f n key = Some c" for key c st' sub' path'
    by (rule Suc.IH) (use Suc.prems property_shallow that in \<open>auto simp: property_def dest: node_schemas\<close>)
  have "ends (compareRows (compare fuel f c) (serverPart fuel f c) sw vs ws path)" if "row f n = Some c" for c sw vs ws
  proof (rule compareRows_ends)
    have "shallow fuel f (n_schemas c)" "n_schemas c \<noteq> []"
      using Suc.prems row_shallow that by (auto simp: row_def dest: node_schemas)
    then show "ends (compare fuel f c a b p)" "ends (serverPart fuel f c v)" for a b p v
      using Suc.IH serverPart_ends Suc.prems(1) by blast+
  qed
  with p show ?case by (auto simp del: not_None_eq split: option.splits)
qed

text \<open>C15: The read-only check ends on every submission when no schema of the form can be reached
  from itself: one level of the walk for each schema, and one more, are enough.\<close>

theorem read_only_check_ends:
  assumes "\<forall>i. \<not> (follows (fo_schemas f))\<^sup>+\<^sup>+ i i" and "length (fo_schemas f) < fuel"
  shows "\<exists>vs. readOnlyViolations fuel f (form_root f t) stored submitted = Some vs"
proof (cases "form_root f t")
  case None
  then show ?thesis by (simp add: readOnlyViolations_def)
next
  case (Some n)
  have "shallow fuel f is" for "is"
    using depth_below_bound [of "fo_schemas f"] assms(2) by (auto simp: shallow_def list_all_iff intro: le_less_trans)
  then show ?thesis
    using compare_ends [OF assms(1)] Some node_schemas by (fastforce simp: readOnlyViolations_def form_root_def ends_def)
qed

lemma follows_acyclic:
  assumes "\<And>x y. x < length S \<Longrightarrow> follows S x y \<Longrightarrow> x < y"
  shows "\<not> (follows S)\<^sup>+\<^sup>+ i i"
proof
  assume c: "(follows S)\<^sup>+\<^sup>+ i i"
  then have i: "i < length S" by cases (auto simp: follows_def)
  have "y < length S \<and> i < y" if "(follows S)\<^sup>+\<^sup>+ i y" for y
    using that
  proof induction
    case (step y z)
    then show ?case using assms [of y z] by (auto simp: follows_def)
  qed (use assms i in \<open>auto simp: follows_def\<close>)
  from this [OF c] show False by simp
qed

theorem read_only_check_ends_witness:
  "\<exists>vs. readOnlyViolations 7 order_form (form_root order_form 0) None [(''lines'', JArr [JObj []])] = Some vs"
proof (rule read_only_check_ends)
  have "list_all (\<lambda>x. list_all (\<lambda>y. x < y) (followed (fo_schemas order_form) x)) [0..<6]"
    by code_simp
  then show "\<forall>i. \<not> (follows (fo_schemas order_form))\<^sup>+\<^sup>+ i i"
    by (intro allI follows_acyclic) (auto simp: list_all_iff follows_def order_form_def)
qed (simp add: order_form_def)

lemma serverPart_circular:
  assumes "\<forall>c :: ro_node. n_schemas c = n_schemas r \<longrightarrow> \<not> node_readOnly f c \<and> row f c = None \<and> (\<exists>d. property f c key = Some d \<and> n_schemas d = n_schemas r)"
    and "key \<in> set (namedKeys f r)" and "n_schemas n = n_schemas r"
  shows "serverPart fuel f n None = None"
  using assms(3)
proof (induction fuel arbitrary: n)
  case (Suc fuel)
  from assms(1) Suc.prems obtain d where d: "property f n key = Some d" "n_schemas d = n_schemas r" by blast
  have key: "key \<in> set (namedKeys f n)" using assms(2) Suc.prems by (simp add: namedKeys_def)
  have "\<not> node_readOnly f n" "row f n = None" using assms(1) Suc.prems by blast+
  moreover have "None \<in> set (map (\<lambda>key. case property f n key of
            None \<Rightarrow> Some []
          | Some child \<Rightarrow> map_option (\<lambda>p. case p of None \<Rightarrow> [] | Some x \<Rightarrow> [(key, x)]) (serverPart fuel f child (obj_get (members None) key)))
          (keysOf (map fst (members None)) (namedKeys f n)))"
    using Suc.IH [OF d(2)] d(1) key by (force simp: image_iff obj_get_def)
  ultimately show ?case by (simp add: Option.bind_eq_None_conv del: those_None_iff) (simp add: those_None_iff)
qed simp

text \<open>C16: A list whose rows are objects of a schema that holds a property of that same schema has a
  check that never ends, whatever the two values: the server part of the empty row is asked for
  along the property without end.\<close>

theorem circular_row_never_ends:
  assumes "row f n = Some r" and "\<not> node_readOnly f n" and "\<not> node_readOnly f r" and "row f r = None"
    and "key \<in> set (namedKeys f r)" and "property_schemas f (n_schemas r) key = n_schemas r"
  shows "compare fuel f n (Some (JArr stored)) sub path = None"
proof (cases fuel)
  case (Suc k)
  have nodes: "node f (n_schemas r) p = Some \<lparr>n_schemas = n_schemas r, n_path = p\<rparr>" for p
    using assms(1) by (auto simp: row_def node_def split: if_splits)
  have "serverPart k f r None = None"
  proof (rule serverPart_circular [OF _ assms(5) refl], intro allI impI conjI)
    fix c :: ro_node assume c: "n_schemas c = n_schemas r"
    show "\<not> node_readOnly f c" using assms(3) c by (simp add: node_readOnly_def)
    show "row f c = None" using assms(4) c by (simp add: row_def node_def split: if_splits)
    show "\<exists>d. property f c key = Some d \<and> n_schemas d = n_schemas r" using c assms(6) nodes by (simp add: property_def)
  qed
  then show ?thesis using assms(1,2) Suc by (simp add: compareRows_def)
qed simp

theorem circular_row_never_ends_witness:
  "compare 1000 nested_form \<lparr>n_schemas = [2], n_path = ''/lines''\<rparr> (Some (JArr [])) None ''/lines'' = None"
proof -
  let ?r = "\<lparr>n_schemas = [3], n_path = ''/lines/[]''\<rparr>"
  have "row nested_form \<lparr>n_schemas = [2], n_path = ''/lines''\<rparr> = Some ?r"
    and "\<not> node_readOnly nested_form \<lparr>n_schemas = [2], n_path = ''/lines''\<rparr>" and "\<not> node_readOnly nested_form ?r"
    and "row nested_form ?r = None" and "''part'' \<in> set (namedKeys nested_form ?r)"
    and "property_schemas nested_form (n_schemas ?r) ''part'' = n_schemas ?r"
    by code_simp+
  then show ?thesis by (rule circular_row_never_ends)
qed

end
