(* ===== verification/Payload_Extension.thy ===== *)
theory Payload_Extension
  imports Payload_Readonly
begin

text \<open>
  \<open>internal/tasks/extensions/payloadschema\<close>, the extension itself: \<open>extension.go\<close>,
  \<open>errors.go\<close> and \<open>xfile.go\<close>. The schema library compiles a form and validates data with it;
  what it returns is the record \<open>compiled\<close>, its error trees are \<open>verror\<close>. Its messages, the
  quoting and number formatting of the Go library and \<open>strings.ToLower\<close> are parameters. The
  properties say what an accepted submission or draft has been held to.
\<close>

subsection \<open>Failures\<close>

datatype limit = AtLeast | AtMost | Above | Below | MultipleOf

text \<open>
  \<open>KindSafe\<close> is a rule whose library message \<open>ruleMessage\<close> keeps, with that message; a
  \<open>Const\<close> also carries its value as \<open>fmt.Sprint\<close> writes it. \<open>KindOneOf\<close> and \<open>KindAnyOf\<close> carry
  the library's message. Any other kind is its keyword path.
\<close>

datatype err_kind =
    KindRequired "string list"
  | KindOneOf string
  | KindAnyOf string
  | KindConst string string
  | KindSafe string
  | KindFormat string
  | KindPattern string
  | KindLimit limit rat
  | KindDateLimit string
  | KindXFile string string
  | KindOther "string list"

datatype verror = VError (ve_kind: err_kind) (ve_location: "string list") (ve_causes: "verror list")

record failure =
  fl_path :: string
  fl_message :: string

record text_env =
  te_quote :: "string \<Rightarrow> string"
  te_number :: "rat \<Rightarrow> string"
  te_lower :: "string \<Rightarrow> string"

definition pointer :: "string list \<Rightarrow> string" where
  "pointer location = concat (map (\<lambda>token. ''/'' @ escapeToken token) location)"

fun const_texts :: "verror list \<Rightarrow> string list option" where
  "const_texts [] = Some []"
| "const_texts (VError (KindConst want m) loc [] # es) = map_option ((#) want) (const_texts es)"
| "const_texts (e # es) = None"

definition alternativesMessage :: "text_env \<Rightarrow> string \<Rightarrow> verror list \<Rightarrow> string" where
  "alternativesMessage te localized causes =
     (case const_texts causes of
        None \<Rightarrow> localized
      | Some [] \<Rightarrow> localized
      | Some wants \<Rightarrow> ''value must be one of '' @ join_with '', '' (map (te_quote te) wants))"

fun ruleMessage :: "text_env \<Rightarrow> err_kind \<Rightarrow> string" where
  "ruleMessage te (KindSafe m) = m"
| "ruleMessage te (KindConst want m) = m"
| "ruleMessage te (KindFormat want) = ''not a valid '' @ want"
| "ruleMessage te (KindPattern want) = ''does not match pattern '' @ te_quote te want"
| "ruleMessage te (KindLimit AtLeast r) = ''must be >= '' @ te_number te r"
| "ruleMessage te (KindLimit AtMost r) = ''must be <= '' @ te_number te r"
| "ruleMessage te (KindLimit Above r) = ''must be > '' @ te_number te r"
| "ruleMessage te (KindLimit Below r) = ''must be < '' @ te_number te r"
| "ruleMessage te (KindLimit MultipleOf r) = ''must be a multiple of '' @ te_number te r"
| "ruleMessage te (KindDateLimit m) = m"
| "ruleMessage te (KindXFile keyword m) = m"
| "ruleMessage te (KindOther path) = CHR 0x27 # join_with ''/'' path @ CHR 0x27 # '' failed''"
| "ruleMessage te (KindRequired names) = CHR 0x27 # ''required'' @ CHR 0x27 # '' failed''"
| "ruleMessage te (KindOneOf m) = CHR 0x27 # ''oneOf'' @ CHR 0x27 # '' failed''"
| "ruleMessage te (KindAnyOf m) = CHR 0x27 # ''anyOf'' @ CHR 0x27 # '' failed''"

fun violations :: "text_env \<Rightarrow> verror \<Rightarrow> failure list" where
  "violations te (VError k loc causes) =
     (case k of
        KindRequired names \<Rightarrow> map (\<lambda>name. \<lparr>fl_path = pointer (loc @ [name]), fl_message = ''missing property''\<rparr>) names
      | KindOneOf m \<Rightarrow> [\<lparr>fl_path = pointer loc, fl_message = alternativesMessage te m causes\<rparr>]
      | KindAnyOf m \<Rightarrow> [\<lparr>fl_path = pointer loc, fl_message = alternativesMessage te m causes\<rparr>]
      | _ \<Rightarrow> if causes = [] then [\<lparr>fl_path = pointer loc, fl_message = ruleMessage te k\<rparr>]
             else concat (map (violations te) causes))"

subsection \<open>File rules\<close>

text \<open>A float64, as far as the rule reads one.\<close>

datatype go_float = Finite rat | PosInf | NegInf | NaN

record x_file =
  xf_accept :: "string option"
  xf_acceptsNone :: bool
  xf_maxFiles :: "nat option"

text \<open>\<open>json_float\<close> reads a JSON number, \<open>parse_float\<close> a text, as float64.\<close>

definition maxFilesOf :: "(rat \<Rightarrow> go_float option) \<Rightarrow> (string \<Rightarrow> go_float option) \<Rightarrow> json option \<Rightarrow> nat option" where
  "maxFilesOf json_float parse_float v =
     (case (case v of
          Some (JNum r) \<Rightarrow> json_float r
        | Some (JStr s) \<Rightarrow> (let t = trim_space s in if t \<noteq> [] then parse_float t else Some (Finite 0))
        | _ \<Rightarrow> None) of
        None \<Rightarrow> None
      | Some PosInf \<Rightarrow> None
      | Some NaN \<Rightarrow> None
      | Some NegInf \<Rightarrow> Some 0
      | Some (Finite r) \<Rightarrow> Some (nat \<lceil>r\<rceil>))"

definition is_file :: "(string \<times> json) list \<Rightarrow> bool" where
  "is_file s = (obj_get s ''type'' = Some (JStr ''string'') \<and> obj_get s ''format'' = Some (JStr ''file''))"

definition isFileField :: "(string \<times> json) list \<Rightarrow> bool" where
  "isFileField s =
     (is_file s \<or>
      obj_get s ''type'' = Some (JStr ''array'') \<and> (case obj_get s ''items'' of Some (JObj items) \<Rightarrow> is_file items | _ \<Rightarrow> False))"

definition compileXFile :: "(rat \<Rightarrow> go_float option) \<Rightarrow> (string \<Rightarrow> go_float option) \<Rightarrow> (string \<times> json) list \<Rightarrow> x_file option" where
  "compileXFile json_float parse_float obj =
     (case obj_get obj ''x-file'' of
        Some (JObj opts) \<Rightarrow>
          if \<not> isFileField obj then None
          else
            (let most = maxFilesOf json_float parse_float (obj_get opts ''maxFiles'') in
             case obj_get opts ''accept'' of
               None \<Rightarrow> Some \<lparr>xf_accept = None, xf_acceptsNone = False, xf_maxFiles = most\<rparr>
             | Some JNull \<Rightarrow> Some \<lparr>xf_accept = None, xf_acceptsNone = False, xf_maxFiles = most\<rparr>
             | Some (JStr accept) \<Rightarrow> Some \<lparr>xf_accept = Some accept, xf_acceptsNone = False, xf_maxFiles = most\<rparr>
             | Some _ \<Rightarrow> Some \<lparr>xf_accept = None, xf_acceptsNone = True, xf_maxFiles = most\<rparr>)
      | _ \<Rightarrow> None)"

definition accepts :: "text_env \<Rightarrow> string \<Rightarrow> string \<Rightarrow> bool" where
  "accepts te accept value =
     list_ex (\<lambda>e. let entry = trim_space e in
         entry = ''*'' \<or> entry = ''*/*'' \<or> has_prefix ''.'' entry \<and> has_suffix (te_lower te entry) (te_lower te value))
       (split_on CHR '','' accept)"

definition check_file :: "text_env \<Rightarrow> x_file \<Rightarrow> string \<Rightarrow> err_kind option" where
  "check_file te x value =
     (if value = [] then Some (KindXFile ''empty'' ''empty value instead of a file'')
      else if xf_acceptsNone x then Some (KindXFile ''accept'' ''file type not accepted (accept is not text)'')
      else case xf_accept x of
        Some accept \<Rightarrow>
          if \<not> accepts te accept value
          then Some (KindXFile ''accept'' (''file type not accepted (accept: '' @ te_quote te accept @ '')''))
          else None
      | None \<Rightarrow> None)"

definition file_failure :: "text_env \<Rightarrow> x_file \<Rightarrow> string list \<Rightarrow> string \<Rightarrow> verror list" where
  "file_failure te x loc value = (case check_file te x value of None \<Rightarrow> [] | Some k \<Rightarrow> [VError k loc []])"

text \<open>The failures added for the value \<open>v\<close> at \<open>loc\<close>.\<close>

fun Validate_file :: "text_env \<Rightarrow> x_file \<Rightarrow> string list \<Rightarrow> json \<Rightarrow> verror list" where
  "Validate_file te x loc (JStr s) = file_failure te x loc s"
| "Validate_file te x loc (JArr vs) =
     (case xf_maxFiles x of
        Some most \<Rightarrow>
          if length vs > most
          then [VError (KindXFile ''maxFiles'' (''more than '' @ show_nat most @ (if most = 1 then '' file'' else '' files''))) loc []]
          else []
      | None \<Rightarrow> []) @
     concat (map (\<lambda>(i, el). case el of JStr s \<Rightarrow> file_failure te x (loc @ [show_nat i]) s | _ \<Rightarrow> []) (enumerate 0 vs))"
| "Validate_file te x loc _ = []"

definition is_xfile :: "err_kind \<Rightarrow> bool" where
  "is_xfile k = (case k of KindXFile _ _ \<Rightarrow> True | _ \<Rightarrow> False)"

text \<open>What is left of a tree, if anything is.\<close>

fun dropReadOnlyFiles :: "(string list \<Rightarrow> bool) \<Rightarrow> verror \<Rightarrow> verror option" where
  "dropReadOnlyFiles readOnly (VError k loc causes) =
     (if causes = [] then (if \<not> is_xfile k \<or> \<not> readOnly loc then Some (VError k loc []) else None)
      else (let kept = concat (map (\<lambda>c. opt_list (dropReadOnlyFiles readOnly c)) causes) in
        if kept \<noteq> [] then Some (VError k loc kept) else None))"

subsection \<open>The extension\<close>

datatype validity = Valid | Invalid verror | NotValidated

record compiled =
  cp_schemas :: schemas
  cp_top :: nat
  cp_before2019 :: bool
  cp_validate :: "(string \<times> json) list \<Rightarrow> validity"

text \<open>The forms, namespaces and compiler, \<open>None\<close> for an error of each; \<open>pe_parse\<close> parses JSON text.\<close>

record payload_env =
  pe_form_of :: "string \<Rightarrow> string option"
  pe_namespace_of :: "string \<Rightarrow> string option"
  pe_parse :: "string \<Rightarrow> json option"
  pe_compile :: "json \<Rightarrow> compiled option"
  pe_text :: text_env

record step_record =
  sr_template :: string
  sr_data :: "(string \<times> json) list"

datatype payload_error = Misconfigured | InvalidPayload "failure list"

fun violated_text :: "violated \<Rightarrow> string" where
  "violated_text ReadOnlyChanged = ''read-only value changed''"
| "violated_text ReadOnlyMissing = ''read-only value missing''"
| "violated_text ReadOnlySet = ''read-only value set by the client''"
| "violated_text RowUnknown = ''row's read-only values don't match a row the server sent''"
| "violated_text RowAdded = ''rows can't be added to this list''"
| "violated_text RowsRemoved = ''rows the server sent can't be removed from this list''"

definition violation_failure :: "violation \<Rightarrow> failure" where
  "violation_failure v = \<lparr>fl_path = vi_path v, fl_message = violated_text (vi_message v)\<rparr>"

definition decode_text_field :: "(string \<times> json) list \<Rightarrow> string \<Rightarrow> string option" where
  "decode_text_field kvs k =
     (case field_get kvs k of None \<Rightarrow> Some [] | Some v \<Rightarrow> decode_string v)"

definition namedForm :: "payload_env \<Rightarrow> string \<Rightarrow> string option" where
  "namedForm pe props =
     (case (if props = [] then Some []
          else case pe_parse pe props of
            Some (JObj kvs) \<Rightarrow> decode_text_field kvs ''form''
          | Some JNull \<Rightarrow> Some []
          | _ \<Rightarrow> None) of
        Some formID \<Rightarrow> if formID = [] then None else Some formID
      | None \<Rightarrow> None)"

text \<open>The schema and the UI schema of a form as written.\<close>

definition formNamed :: "payload_env \<Rightarrow> string \<Rightarrow> (json \<times> json option) option" where
  "formNamed pe formID =
     (case pe_form_of pe formID of
        None \<Rightarrow> None
      | Some raw \<Rightarrow>
          (case pe_parse pe raw of
             Some (JObj kvs) \<Rightarrow>
               (case field_get kvs ''schema'' of
                  None \<Rightarrow> None
                | Some s \<Rightarrow> if s = JNull then None else Some (s, field_get kvs ''uiSchema''))
           | _ \<Rightarrow> None))"

definition formData :: "(string \<times> json) list \<Rightarrow> (string \<times> json) list" where
  "formData payload = filter (\<lambda>(k, _). \<not> has_prefix ''__'' k) payload"

definition stored_values :: "payload_env \<Rightarrow> step_record \<Rightarrow> json option option" where
  "stored_values pe rec =
     (case pe_namespace_of pe (sr_template rec) of
        None \<Rightarrow> None
      | Some namespace \<Rightarrow> if namespace = [] then None else Some (obj_get (sr_data rec) namespace))"

text \<open>The failures of the form's own rules, \<open>None\<close> when they could not be applied.\<close>

definition schema_failures :: "payload_env \<Rightarrow> bool \<Rightarrow> compiled \<Rightarrow> form \<Rightarrow> ro_node option \<Rightarrow> (string \<times> json) list \<Rightarrow> failure list option" where
  "schema_failures pe draft c f top_node data =
     (if draft then Some []
      else case cp_validate c data of
        Valid \<Rightarrow> Some []
      | NotValidated \<Rightarrow> None
      | Invalid err \<Rightarrow>
          (case dropReadOnlyFiles (read_only_at f top_node (JObj data)) err of
             None \<Rightarrow> Some []
           | Some left \<Rightarrow> Some (violations (pe_text pe) left)))"

text \<open>\<open>Execute\<close>; the outer \<open>None\<close> is a walk that does not end within the fuel.\<close>

definition Execute_payload ::
    "nat \<Rightarrow> payload_env \<Rightarrow> bool \<Rightarrow> step_record \<Rightarrow> (string \<times> json) list \<Rightarrow> string \<Rightarrow> (payload_error + unit) option" where
  "Execute_payload fuel pe draft rec payload props =
     (case namedForm pe props of
        None \<Rightarrow> Some (Inl Misconfigured)
      | Some formID \<Rightarrow>
     (case formNamed pe formID of
        None \<Rightarrow> Some (Inl Misconfigured)
      | Some (raw, ui) \<Rightarrow>
     (case pe_compile pe raw of
        None \<Rightarrow> Some (Inl Misconfigured)
      | Some c \<Rightarrow>
     (case newReadOnlyForm (cp_before2019 c) (cp_schemas c) (cp_top c) raw ui of
        Inl _ \<Rightarrow> Some (Inl Misconfigured)
      | Inr (f, top_node) \<Rightarrow>
     (case schema_failures pe draft c f top_node (formData payload) of
        None \<Rightarrow> Some (Inl Misconfigured)
      | Some found \<Rightarrow>
     (case (if top_node = None then Some (Inr [])
          else case stored_values pe rec of
            None \<Rightarrow> Some (Inl Misconfigured)
          | Some st \<Rightarrow> map_option (\<lambda>vs. Inr (map violation_failure vs)) (readOnlyViolations fuel f top_node st (formData payload))) of
        None \<Rightarrow> None
      | Some (Inl e) \<Rightarrow> Some (Inl e)
      | Some (Inr held) \<Rightarrow> if found @ held \<noteq> [] then Some (Inl (InvalidPayload (found @ held))) else Some (Inr ())))))))"

subsection \<open>What is left of a tree of failures\<close>

text \<open>The failures a tree comes down to.\<close>

fun leaves :: "verror \<Rightarrow> verror list" where
  "leaves (VError k loc causes) = (if causes = [] then [VError k loc []] else concat (map leaves causes))"

text \<open>A failure to name required properties names at least one.\<close>

fun names_missing :: "verror \<Rightarrow> bool" where
  "names_missing (VError k loc causes) = (k \<noteq> KindRequired [] \<and> list_all names_missing causes)"

lemma leaves_not_Nil [simp]: "leaves e \<noteq> []"
proof (induction e)
  case (VError k loc causes)
  then show ?case by (cases causes) auto
qed

lemma drop_None_iff:
  "dropReadOnlyFiles readOnly e = None \<longleftrightarrow> (\<forall>l \<in> set (leaves e). is_xfile (ve_kind l) \<and> readOnly (ve_location l))"
proof (induction e)
  case (VError k loc causes)
  have "concat (map (\<lambda>c. opt_list (dropReadOnlyFiles readOnly c)) causes) = [] \<longleftrightarrow> (\<forall>c \<in> set causes. dropReadOnlyFiles readOnly c = None)"
    by (auto simp: opt_list_def split: option.splits)
  with VError show ?case by auto
qed

lemma drop_names_missing: "names_missing e \<Longrightarrow> dropReadOnlyFiles readOnly e = Some e' \<Longrightarrow> names_missing e'"
proof (induction e arbitrary: e')
  case (VError k loc causes)
  then show ?case by (force simp: list_all_iff Let_def split: if_splits)
qed

lemma violations_not_Nil: "names_missing e \<Longrightarrow> violations te e \<noteq> []"
proof (induction e)
  case (VError k loc causes)
  then show ?case by (cases causes) (auto split: err_kind.splits)
qed

lemma schema_failures_Nil_iff:
  assumes "\<And>err. cp_validate c data = Invalid err \<Longrightarrow> names_missing err"
  shows "schema_failures pe draft c f top_node data = Some [] \<longleftrightarrow>
    draft \<or> (case cp_validate c data of
        Valid \<Rightarrow> True | NotValidated \<Rightarrow> False
      | Invalid err \<Rightarrow> \<forall>l \<in> set (leaves err). is_xfile (ve_kind l) \<and> read_only_at f top_node (JObj data) (ve_location l))"
proof (cases "cp_validate c data")
  case (Invalid err)
  show ?thesis
  proof (cases "dropReadOnlyFiles (read_only_at f top_node (JObj data)) err")
    case None
    then show ?thesis by (simp add: schema_failures_def Invalid drop_None_iff [symmetric])
  next
    case (Some left)
    have "violations (pe_text pe) left \<noteq> []"
      using violations_not_Nil drop_names_missing [OF assms [OF Invalid] Some] by blast
    moreover have "\<not> (\<forall>l \<in> set (leaves err). is_xfile (ve_kind l) \<and> read_only_at f top_node (JObj data) (ve_location l))"
      using drop_None_iff Some by (metis option.distinct(1))
    ultimately show ?thesis using Invalid Some by (simp add: schema_failures_def)
  qed
qed (simp_all add: schema_failures_def)

text \<open>C17: A submission or draft is let through exactly when its step names a form that is found,
  compiled and read-only only where the check follows it; the data, save in a draft, is valid but
  for file rules at values the form shows read-only; and, where the form has read-only values,
  the step's namespace is known and the data breaks no read-only rule against what it holds.
  Every failed lookup refuses it.\<close>

theorem submission_accepted_iff:
  assumes "\<And>raw c data err. pe_compile pe raw = Some c \<Longrightarrow> cp_validate c data = Invalid err \<Longrightarrow> names_missing err"
  shows "Execute_payload fuel pe draft rec payload props = Some (Inr ()) \<longleftrightarrow>
    (\<exists>formID raw ui c f top_node.
       namedForm pe props = Some formID \<and> formNamed pe formID = Some (raw, ui) \<and> pe_compile pe raw = Some c \<and>
       newReadOnlyForm (cp_before2019 c) (cp_schemas c) (cp_top c) raw ui = Inr (f, top_node) \<and>
       (draft \<or> (case cp_validate c (formData payload) of
            Valid \<Rightarrow> True | NotValidated \<Rightarrow> False
          | Invalid err \<Rightarrow> \<forall>l \<in> set (leaves err).
              is_xfile (ve_kind l) \<and> read_only_at f top_node (JObj (formData payload)) (ve_location l))) \<and>
       (top_node = None \<or> (\<exists>st. stored_values pe rec = Some st \<and> readOnlyViolations fuel f top_node st (formData payload) = Some [])))"
proof -
  have step: "Execute_payload fuel pe draft rec payload props = Some (Inr ()) \<longleftrightarrow>
    (\<exists>formID raw ui c f top_node.
       namedForm pe props = Some formID \<and> formNamed pe formID = Some (raw, ui) \<and> pe_compile pe raw = Some c \<and>
       newReadOnlyForm (cp_before2019 c) (cp_schemas c) (cp_top c) raw ui = Inr (f, top_node) \<and>
       schema_failures pe draft c f top_node (formData payload) = Some [] \<and>
       (top_node = None \<or> (\<exists>st. stored_values pe rec = Some st \<and> readOnlyViolations fuel f top_node st (formData payload) = Some [])))"
    by (auto simp: Execute_payload_def split: option.splits sum.splits prod.splits if_splits)
  show ?thesis unfolding step
    by (intro ex_cong1 conj_cong refl schema_failures_Nil_iff) (rule assms)
qed

text \<open>For the witness: the order form, whose validator finds its number to break a file rule.\<close>

definition order_compiled :: compiled where
  "order_compiled = \<lparr>cp_schemas = fo_schemas order_form, cp_top = 0, cp_before2019 = True,
     cp_validate = (\<lambda>_. Invalid (VError (KindXFile ''accept'' ''file type not accepted'') [''no''] []))\<rparr>"

definition order_env :: payload_env where
  "order_env = \<lparr>pe_form_of = (\<lambda>_. Some ''F''), pe_namespace_of = (\<lambda>_. Some ''order''),
     pe_parse = (\<lambda>s. Some (JObj (if s = ''F'' then [(''schema'', JObj [])] else [(''form'', JStr ''order'')]))),
     pe_compile = (\<lambda>_. Some order_compiled),
     pe_text = \<lparr>te_quote = id, te_number = (\<lambda>_. []), te_lower = id\<rparr>\<rparr>"

theorem submission_accepted_iff_witness:
  "Execute_payload 7 order_env False \<lparr>sr_template = ''enter'', sr_data = [(''order'', JObj [(''no'', JStr ''7'')])]\<rparr>
     [(''__command'', JStr ''submit''), (''no'', JStr ''7'')] ''P'' = Some (Inr ())"
proof -
  have names: "names_missing err" if "pe_compile order_env raw = Some c" "cp_validate c data = Invalid err" for raw c data err
    using that by (auto simp: order_env_def order_compiled_def)
  have form: "namedForm order_env ''P'' = Some ''order''" "formNamed order_env ''order'' = Some (JObj [], None)"
    by code_simp+
  have followed: "refSiblings (JObj [])" "\<not> refusedReadOnly (fo_schemas order_form) 0"
    by code_simp+
  have data: "formData [(''__command'', JStr ''submit''), (''no'', JStr ''7'')] = [(''no'', JStr ''7'')]" by code_simp
  have kept: "read_only_at order_form (form_root order_form 0) (JObj [(''no'', JStr ''7'')]) [''no'']"
    "readOnlyViolations 7 order_form (form_root order_form 0) (Some (JObj [(''no'', JStr ''7'')])) [(''no'', JStr ''7'')] = Some []"
    by code_simp+
  have "newReadOnlyForm True (fo_schemas order_form) 0 (JObj []) None = Inr (order_form, form_root order_form 0)"
    using followed by (simp add: newReadOnlyForm_def Let_def) (simp add: order_form_def)
  with names form data kept show ?thesis
    by (subst submission_accepted_iff) (auto simp: order_env_def order_compiled_def is_xfile_def stored_values_def obj_get_def)
qed

end
