(* ===== verification/Phyto_Input.thy ===== *)
theory Phyto_Input
  imports Edge_Forms
begin

text \<open>
  The content of a phytosanitary certificate: the input model of
  \<open>external-integration/ephyto/spscert/input.go\<close> and \<open>ephyto/build.go\<close>, which fills it in from the
  application. The clock is a parameter, as is the text of a float; a missing pointer is \<open>None\<close>.
\<close>

subsection \<open>The input model\<close>

record phyto_soap =
  so_operation :: string
  so_from :: string
  so_to :: string
  so_type :: int
  so_status :: int
  so_number :: string
  so_forwardings :: "string list"

record phyto_declarations =
  dd_additional :: "string list"
  dd_permit :: string
  dd_inspection :: string
  dd_official :: "string list"
  dd_marks :: "string list"
  dd_lang :: string

record phyto_replacement =
  pr_statement :: string
  pr_number :: string
  pr_reason :: string
  pr_issue_date :: string
  pr_lang :: string

record phyto_attachment =
  pa_relationship :: string
  pa_id :: string
  pa_filename :: string
  pa_mime :: string
  pa_key :: string
  pa_base64 :: string
  pa_information :: string
  pa_issue_date :: string
  pa_lang :: string

record phyto_party =
  pp_name :: string
  pp_lines :: "string list"
  pp_id_type :: string
  pp_id_value :: string

record phyto_measure =
  pm_value :: string
  pm_unit :: string

record phyto_package =
  pk_level :: string
  pk_type :: string
  pk_quantity :: string

record phyto_treatment =
  pt_start :: string
  pt_end :: string
  pt_level1 :: string
  pt_level2 :: string
  pt_chemical :: string
  pt_duration :: "phyto_measure option"
  pt_temperature :: "phyto_measure option"
  pt_concentration :: "phyto_measure option"
  pt_info :: string
  pt_full :: string
  pt_lang :: string

record phyto_reexport =
  rx_statement :: string
  rx_countries :: "string list"
  rx_refs :: "string list"
  rx_original :: bool
  rx_true_copy :: bool
  rx_packed :: bool
  rx_repacked :: bool
  rx_original_containers :: bool
  rx_new_containers :: bool
  rx_attached :: bool
  rx_inspection :: bool

record phyto_line =
  pl_sequence :: nat
  pl_description :: string
  pl_description_lang :: string
  pl_common :: "string list"
  pl_scientific :: string
  pl_origins :: "string list"
  pl_hs :: string
  pl_vegetable :: string
  pl_condition :: string
  pl_use :: string
  pl_packages :: "phyto_package list"
  pl_package_text :: string
  pl_net :: "phyto_measure option"
  pl_gross :: "phyto_measure option"
  pl_net_volume :: "phyto_measure option"
  pl_gross_volume :: "phyto_measure option"
  pl_other :: "phyto_measure option"
  pl_marks :: string
  pl_additional :: "string list"
  pl_permit :: string
  pl_inspection :: string
  pl_info :: "string list"
  pl_lang :: string
  pl_treatments :: "phyto_treatment list"
  pl_reexport :: "phyto_reexport option"

record phyto_conveyance =
  cv_id :: string
  cv_mode :: string
  cv_name :: string
  cv_lang :: string

record phyto_consignment =
  pc_export :: string
  pc_import :: string
  pc_transit :: "string list"
  pc_consignor :: phyto_party
  pc_consignee :: phyto_party
  pc_seal :: string
  pc_entry :: "(string \<times> string) option"
  pc_conveyances :: "phyto_conveyance list"
  pc_items :: "phyto_line list list"

record phyto_certificate =
  ct_type :: string
  ct_number :: string
  ct_nppo :: string
  ct_status :: string
  ct_issued :: string
  ct_officer :: string
  ct_place :: string
  ct_statements :: "string list"
  ct_liability :: string
  ct_declarations :: "phyto_declarations option"
  ct_replacement :: "phyto_replacement option"
  ct_attachments :: "phyto_attachment list"
  ct_consignment :: phyto_consignment

record phyto_input =
  pi_soap :: phyto_soap
  pi_certificate :: phyto_certificate

subsection \<open>Reading answers\<close>

type_synonym answers = "(string \<times> json) list"

definition asMap :: "json option \<Rightarrow> answers" where
  "asMap v = (case v of Some (JObj m) \<Rightarrow> m | _ \<Rightarrow> [])"

definition asSlice :: "json option \<Rightarrow> json list option" where
  "asSlice v = (case v of Some (JArr l) \<Rightarrow> Some l | _ \<Rightarrow> None)"

definition entries_of :: "json option \<Rightarrow> json list" where
  "entries_of v = (case asSlice v of Some l \<Rightarrow> l | None \<Rightarrow> [])"

definition asString :: "json option \<Rightarrow> string" where
  "asString v = (case v of Some (JStr s) \<Rightarrow> trim_space s | _ \<Rightarrow> [])"

definition asBool :: "json option \<Rightarrow> bool" where
  "asBool v = (v = Some (JBool True))"

definition answerCode :: "json option \<Rightarrow> string" where
  "answerCode v = (case v of Some (JObj m) \<Rightarrow> asString (obj_get m ''value'') | _ \<Rightarrow> asString v)"

definition answerLabel :: "json option \<Rightarrow> string" where
  "answerLabel v =
     (case v of
        Some (JObj m) \<Rightarrow> if asString (obj_get m ''label'') \<noteq> [] then asString (obj_get m ''label'') else asString (obj_get m ''value'')
      | _ \<Rightarrow> asString v)"

definition numStr :: "(rat \<Rightarrow> string) \<Rightarrow> json option \<Rightarrow> string" where
  "numStr float v = (case v of Some (JNum r) \<Rightarrow> float r | Some (JStr s) \<Rightarrow> trim_space s | _ \<Rightarrow> [])"

definition saidYes :: "json option \<Rightarrow> bool" where
  "saidYes v = (case v of Some (JBool b) \<Rightarrow> b | Some (JStr s) \<Rightarrow> fold_name (trim_space s) = ''true'' | _ \<Rightarrow> False)"

text \<open>
  \<open>strings.ToLower\<close> as far as it meets ASCII: the two letters outside it whose lower case is one
  are U+0130 and U+212A.
\<close>

fun to_lower :: "string \<Rightarrow> string" where
  "to_lower (a # b # c # s) =
     (if a = CHR 0xC4 \<and> b = CHR 0xB0 then CHR ''i'' # to_lower (c # s)
      else if a = CHR 0xE2 \<and> b = CHR 0x84 \<and> c = CHR 0xAA then CHR ''k'' # to_lower s
      else lower_ascii a # to_lower (b # c # s))"
| "to_lower [a, b] = (if a = CHR 0xC4 \<and> b = CHR 0xB0 then ''i'' else [lower_ascii a, lower_ascii b])"
| "to_lower [a] = [lower_ascii a]"
| "to_lower [] = []"

definition letter :: "char \<Rightarrow> bool" where
  "letter c = (CHR ''A'' \<le> c \<and> c \<le> CHR ''Z'' \<or> CHR ''a'' \<le> c \<and> c \<le> CHR ''z'')"

definition isAlpha :: "string \<Rightarrow> bool" where
  "isAlpha s = list_all letter s"

definition upper_letter :: "char \<Rightarrow> char" where
  "upper_letter c = (if CHR ''a'' \<le> c \<and> c \<le> CHR ''z'' then char_of (of_char c - 32 :: nat) else c)"

text \<open>What follows the last occurrence of a separator.\<close>

fun after_last :: "string \<Rightarrow> string \<Rightarrow> string option" where
  "after_last sep [] = None"
| "after_last sep (c # s) =
     (case after_last sep s of
        Some rest \<Rightarrow> Some rest
      | None \<Rightarrow> if has_prefix sep (c # s) then Some (drop (length sep) (c # s)) else None)"

definition two_letters :: "string \<Rightarrow> string" where
  "two_letters code = (if length code = 2 \<and> isAlpha code then map upper_letter code else [])"

definition countryCode :: "json option \<Rightarrow> string" where
  "countryCode v =
     (let code = trim_space (answerCode v) in
      two_letters (case after_last '' - '' code of Some rest \<Rightarrow> trim_space rest | None \<Rightarrow> code))"

definition countryNameToISO :: "(string \<times> string) list" where
  "countryNameToISO = [(''sri lanka'', ''LK''), (''india'', ''IN''), (''maldives'', ''MV'')]"

definition isoCode :: "string \<Rightarrow> string" where
  "isoCode s0 =
     (let s = trim_space s0;
          tail = (case after_last ''-'' s of Some rest \<Rightarrow> two_letters (trim_space rest) | None \<Rightarrow> [])
      in if s = [] then []
         else if tail \<noteq> [] then tail
         else if two_letters s \<noteq> [] then two_letters s
         else case map_of countryNameToISO (to_lower s) of Some code \<Rightarrow> code | None \<Rightarrow> [])"

definition exportNPPOCode :: string where "exportNPPOCode = ''LK''"

definition originISO :: "string \<Rightarrow> string" where
  "originISO s = (if isoCode s \<noteq> [] then isoCode s else exportNPPOCode)"

definition fields_of :: "char list \<Rightarrow> string \<Rightarrow> string list" where
  "fields_of seps s = filter (\<lambda>p. p \<noteq> []) (map trim_space (split_on CHR '','' (map (\<lambda>c. if c \<in> set seps then CHR '','' else c) s)))"

definition splitList :: "string \<Rightarrow> string list" where
  "splitList s = fields_of [CHR '','', CHR '';'', CHR 0x0A] s"

definition splitRefs :: "string \<Rightarrow> string list" where
  "splitRefs s = filter (\<lambda>p. p \<noteq> []) (map trim_space (split_on CHR '','' s))"

definition addressLines :: "string \<Rightarrow> string list" where
  "addressLines addr =
     (if blank addr then []
      else
        let sep = (if CHR 0x0A \<in> set addr then CHR 0x0A else CHR '','');
            ls = filter (\<lambda>p. p \<noteq> []) (map trim_space (split_on sep addr))
        in if length ls > 5 then take 4 ls @ [join_with '', '' (drop 4 ls)] else ls)"

definition officeName :: "string \<Rightarrow> string" where
  "officeName office =
     (case map_of [(''Office 1'', ''National Plant Quarantine Service - Katunayake''),
         (''Office 2'', ''National Plant Quarantine Service - Head Office (Colombo)''),
         (''Office 3'', ''National Plant Quarantine Service - Port of Colombo''),
         (''Office 4'', ''National Plant Quarantine Service - Hambantota Port''),
         (''Office 5'', ''National Plant Quarantine Service - Mattala Airport''),
         (''Office 6'', ''National Plant Quarantine Service - Jaffna Airport'')] office of
        Some name \<Rightarrow> name | None \<Rightarrow> office)"

definition modeCodeNotSpecified :: string where "modeCodeNotSpecified = ''10''"

definition transportModeCode :: "string \<Rightarrow> string" where
  "transportModeCode mode =
     (let m = to_lower (trim_space mode) in
      if m = [] then modeCodeNotSpecified
      else if m \<in> {''sea'', ''maritime''} then ''3''
      else if m = ''air'' then ''1''
      else trim_space mode)"

definition weightUnit :: "string \<Rightarrow> string" where
  "weightUnit unit = (if unit = [] then ''KGM'' else unit)"

subsection \<open>Documents\<close>

definition attachmentRelationship :: string where "attachmentRelationship = ''ZZZ''"

definition documentFilename :: "string \<Rightarrow> string" where
  "documentFilename ref =
     (let r = takeWhile (\<lambda>c. c \<noteq> CHR ''?'' \<and> c \<noteq> CHR ''#'') ref;
          r1 = (if has_suffix ''/'' r then butlast r else r)
      in case after_last ''/'' r1 of Some name \<Rightarrow> name | None \<Rightarrow> r1)"

text \<open>The upper case of a first byte: a byte outside ASCII is no letter on its own and is replaced.\<close>

definition upper_first :: "string \<Rightarrow> string" where
  "upper_first w =
     (case w of
        [] \<Rightarrow> []
      | c # rest \<Rightarrow> (if (of_char c :: nat) < 128 then [upper_letter c] else [CHR 0xEF, CHR 0xBF, CHR 0xBD]) @ rest)"

definition documentLabel :: "string \<Rightarrow> string" where
  "documentLabel name = join_with '' '' (map upper_first (split_on CHR ''_'' name))"

fun distinct_urls :: "string list \<Rightarrow> json list \<Rightarrow> string list" where
  "distinct_urls seen [] = []"
| "distinct_urls seen (v # vs) =
     (let url = asString (Some v) in
      if url = [] \<or> url \<in> set seen then distinct_urls seen vs else url # distinct_urls (url # seen) vs)"

definition documentURLs :: "json option \<Rightarrow> string list" where
  "documentURLs v = distinct_urls [] (case asSlice v of Some l \<Rightarrow> l | None \<Rightarrow> (case v of Some u \<Rightarrow> [u] | None \<Rightarrow> [JNull]))"

definition sent_document :: "string \<Rightarrow> string \<Rightarrow> string \<Rightarrow> phyto_attachment" where
  "sent_document id_text url info =
     \<lparr>pa_relationship = attachmentRelationship, pa_id = id_text, pa_filename = documentFilename url, pa_mime = [], pa_key = url, pa_base64 = [],
      pa_information = info, pa_issue_date = [], pa_lang = []\<rparr>"

definition application_document :: "json \<Rightarrow> phyto_attachment list" where
  "application_document raw =
     (let row = asMap (Some raw); url = asString (obj_get row ''attachment_file_url''); kind = asString (obj_get row ''file_type'') in
      if url = [] then []
      else [sent_document (if kind = [] then ''Supporting Document'' else kind) url (asString (obj_get row ''attachment_description''))])"

definition named_documents :: "answers \<Rightarrow> string \<Rightarrow> phyto_attachment list" where
  "named_documents documents name =
     (let doc = asMap (obj_get documents name) in
      if saidYes (obj_get doc ''send'') then map (\<lambda>url. sent_document (documentLabel name) url []) (documentURLs (obj_get doc ''url'')) else [])"

definition buildAttachments :: "answers \<Rightarrow> answers \<Rightarrow> phyto_attachment list" where
  "buildAttachments uf inputs =
     (let documents = asMap (obj_get inputs ''documents'') in
      (if saidYes (obj_get inputs ''send_application_documents'')
       then concat (map application_document (entries_of (obj_get uf ''attachments''))) else []) @
      concat (map (named_documents documents) (sort (remdups (map fst documents)))))"

subsection \<open>Declarations\<close>

definition isReExport :: "answers \<Rightarrow> bool" where
  "isReExport uf = (asString (obj_get uf ''certificate_type'') = ''re-export'')"

definition one_text :: "string \<Rightarrow> string list" where
  "one_text s = (if s = [] then [] else [s])"

definition buildDocDeclarations :: "answers \<Rightarrow> answers \<Rightarrow> phyto_declarations option" where
  "buildDocDeclarations uf inputs =
     (let dd = \<lparr>dd_additional = one_text (asString (obj_get uf ''additional_declaration'')), dd_permit = asString (obj_get uf ''import_permit_number''),
          dd_inspection = asString (obj_get inputs ''date_of_inspection''), dd_official = [],
          dd_marks = one_text (asString (obj_get uf ''distinguishing_marks'')), dd_lang = ''en''\<rparr>
      in if dd_additional dd = [] \<and> dd_permit dd = [] \<and> dd_inspection dd = [] \<and> dd_marks dd = [] then None else Some dd)"

definition w3DateTime :: "string \<Rightarrow> string" where
  "w3DateTime s =
     (case parse_date s of
        None \<Rightarrow> s
      | Some (y, m, d) \<Rightarrow> pad 4 y @ ''-'' @ pad 2 m @ ''-'' @ pad 2 d @ ''T00:00:00Z'')"

definition buildReplacement :: "answers \<Rightarrow> phyto_replacement option" where
  "buildReplacement inputs =
     (let r = asMap (obj_get inputs ''replacement''); replaced = asString (obj_get r ''replaced_number'') in
      if replaced = [] then None
      else Some \<lparr>pr_statement = ''4'', pr_number = replaced, pr_reason = asString (obj_get r ''reason''),
        pr_issue_date = w3DateTime (asString (obj_get r ''replaced_issue_date'')), pr_lang = ''en''\<rparr>)"

definition answered_one :: "answers \<Rightarrow> string \<Rightarrow> string \<Rightarrow> string \<Rightarrow> bool" where
  "answered_one re field one other = (asString (obj_get re field) = one \<or> asString (obj_get re field) = other)"

definition buildReExport :: "answers \<Rightarrow> phyto_reexport option" where
  "buildReExport uf =
     (let re = asMap (obj_get uf ''re_export''); answer = (\<lambda>field. asString (obj_get re field)) in
      if \<not> isReExport uf then None
      else if \<not> answered_one re ''original_certificate_form'' ''original'' ''certified_true_copy'' \<or>
        \<not> answered_one re ''packing'' ''packed'' ''repacked'' \<or> \<not> answered_one re ''containers'' ''original'' ''new'' then None
      else Some \<lparr>rx_statement = answer ''statement_code'', rx_countries = [], rx_refs = splitRefs (answer ''original_certificate_number''),
        rx_original = (answer ''original_certificate_form'' = ''original''), rx_true_copy = (answer ''original_certificate_form'' = ''certified_true_copy''),
        rx_packed = (answer ''packing'' = ''packed''), rx_repacked = (answer ''packing'' = ''repacked''),
        rx_original_containers = (answer ''containers'' = ''original''), rx_new_containers = (answer ''containers'' = ''new''),
        rx_attached = saidYes (obj_get re ''original_certificate_attached''), rx_inspection = saidYes (obj_get re ''additional_inspection'')\<rparr>)"

subsection \<open>The consignment\<close>

definition left_out :: "json \<Rightarrow> bool" where
  "left_out raw = (obj_get (asMap (Some raw)) ''include_in_certificate'' = Some (JBool False))"

definition excludedItemIDs :: "json option \<Rightarrow> string list" where
  "excludedItemIDs certificateItems =
     map (\<lambda>raw. asString (obj_get (asMap (Some raw)) ''id''))
       (filter (\<lambda>raw. asString (obj_get (asMap (Some raw)) ''id'') \<noteq> [] \<and> left_out raw) (entries_of certificateItems))"

definition anyItemIncluded :: "json option \<Rightarrow> bool" where
  "anyItemIncluded certificateItems = list_ex (\<lambda>raw. \<not> left_out raw) (entries_of certificateItems)"

definition package_row :: "(rat \<Rightarrow> string) \<Rightarrow> json \<Rightarrow> phyto_package list" where
  "package_row float row =
     (let m = asMap (Some row); count = numStr float (obj_get m ''count''); code = answerCode (obj_get m ''type'') in
      if count = [] then [] else [\<lparr>pk_level = ''1'', pk_type = (if code = [] then ''PK'' else code), pk_quantity = count\<rparr>])"

text \<open>The packages of a line and their description.\<close>

definition setTradeLinePackages :: "(rat \<Rightarrow> string) \<Rightarrow> answers \<Rightarrow> phyto_package list \<times> string" where
  "setTradeLinePackages float com =
     (let arrangement = asString (obj_get com ''package_arrangement''); freeText = asString (obj_get com ''packages_free_text'') in
      if (arrangement = ''free_text'' \<or> asBool (obj_get com ''packages_free_text_enabled'')) \<and> freeText \<noteq> [] then ([], freeText)
      else if arrangement = ''bulk'' \<or> asBool (obj_get com ''packages_in_bulk'') then ([], ''In bulk'')
      else (concat (map (package_row float) (entries_of (obj_get com ''packages''))), []))"

definition weight_of :: "(rat \<Rightarrow> string) \<Rightarrow> answers \<Rightarrow> string \<Rightarrow> phyto_measure option" where
  "weight_of float com field =
     (let v = numStr float (obj_get com field) in
      if v = [] then None else Some \<lparr>pm_value = v, pm_unit = weightUnit (answerCode (obj_get com (field @ ''_unit'')))\<rparr>)"

definition full_treatment :: "string \<Rightarrow> phyto_treatment" where
  "full_treatment t = \<lparr>pt_start = [], pt_end = [], pt_level1 = [], pt_level2 = [], pt_chemical = [], pt_duration = None, pt_temperature = None,
     pt_concentration = None, pt_info = [], pt_full = t, pt_lang = ''en''\<rparr>"

definition buildTradeLine_input :: "(rat \<Rightarrow> string) \<Rightarrow> answers \<Rightarrow> nat \<Rightarrow> string \<Rightarrow> phyto_reexport option \<Rightarrow> phyto_line" where
  "buildTradeLine_input float com seq treatment reExport =
     (let commonName = answerLabel (obj_get com ''commodity_common_name'');
          description = asString (obj_get com ''commodity_description'');
          origins = [originISO (answerCode (obj_get com ''origin_country''))];
          (packages, package_text) = setTradeLinePackages float com
      in \<lparr>pl_sequence = seq, pl_description = (if description = [] then commonName else description), pl_description_lang = ''en'',
          pl_common = one_text commonName, pl_scientific = asString (obj_get com ''commodity_botanical_name''), pl_origins = origins, pl_hs = [],
          pl_vegetable = answerCode (obj_get com ''commodity_plant_part''), pl_condition = answerCode (obj_get com ''commodity_condition''),
          pl_use = answerCode (obj_get com ''commodity_intended_use''), pl_packages = packages, pl_package_text = package_text,
          pl_net = weight_of float com ''quantity_net_weight'', pl_gross = weight_of float com ''quantity_gross_weight'',
          pl_net_volume = None, pl_gross_volume = None, pl_other = None, pl_marks = [], pl_additional = [], pl_permit = [], pl_inspection = [],
          pl_info = [], pl_lang = ''en'', pl_treatments = (if treatment = [] then [] else [full_treatment treatment]),
          pl_reexport = map_option (\<lambda>r. r\<lparr>rx_countries := origins\<rparr>) reExport\<rparr>)"

fun lines_from :: "(nat \<Rightarrow> answers \<Rightarrow> phyto_line) \<Rightarrow> nat \<Rightarrow> answers list \<Rightarrow> phyto_line list list" where
  "lines_from build seq [] = []"
| "lines_from build seq (com # coms) = [build seq com] # lines_from build (Suc seq) coms"

definition certified_commodities :: "answers \<Rightarrow> json option \<Rightarrow> answers list" where
  "certified_commodities uf certificateItems =
     filter (\<lambda>com. asString (obj_get com ''id'') \<notin> set (excludedItemIDs certificateItems))
       (map (\<lambda>raw. asMap (Some raw)) (entries_of (obj_get uf ''commodities'')))"

definition phyto_party_of :: "answers \<Rightarrow> string \<Rightarrow> string \<Rightarrow> phyto_party" where
  "phyto_party_of uf name address =
     \<lparr>pp_name = asString (obj_get uf name), pp_lines = addressLines (asString (obj_get uf address)), pp_id_type = [], pp_id_value = []\<rparr>"

definition buildConsignment :: "(rat \<Rightarrow> string) \<Rightarrow> answers \<Rightarrow> string \<Rightarrow> json option \<Rightarrow> phyto_consignment" where
  "buildConsignment float uf importISO certificateItems =
     \<lparr>pc_export = exportNPPOCode, pc_import = importISO,
      pc_transit = filter (\<lambda>code. code \<noteq> []) (map isoCode (splitList (asString (obj_get uf ''transit_countries'')))),
      pc_consignor = phyto_party_of uf ''exporter_name'' ''exporter_address'',
      pc_consignee = phyto_party_of uf ''consignee_name'' ''consignee_address'', pc_seal = asString (obj_get uf ''seal_number''),
      pc_entry = (let poe = asString (obj_get uf ''point_of_entry_port'') in if poe = [] then None else Some ([], poe)),
      pc_conveyances = [\<lparr>cv_id = [], cv_mode = transportModeCode (answerCode (obj_get uf ''transport_mode'')), cv_name = [], cv_lang = []\<rparr>],
      pc_items = lines_from (\<lambda>seq com. buildTradeLine_input float com seq (asString (obj_get uf ''disinfestation_treatment'')) (buildReExport uf))
        1 (certified_commodities uf certificateItems)\<rparr>"

subsection \<open>The certificate\<close>

definition certTypeCode :: "string \<Rightarrow> int" where
  "certTypeCode t = (if t = ''657'' then 657 else 851)"

definition certifyingStatementIDs :: "string \<Rightarrow> string list" where
  "certifyingStatementIDs t = (if t = ''657'' then [] else [''1'', ''2''])"

definition certStatusIssued :: int where "certStatusIssued = 70"
definition certStatusWithdrawn :: int where "certStatusWithdrawn = 40"

definition BuildInput :: "string \<Rightarrow> (rat \<Rightarrow> string) \<Rightarrow> answers \<Rightarrow> phyto_input" where
  "BuildInput now float inputs =
     (let uf = asMap (obj_get inputs ''userform''); certID = asString (obj_get inputs ''certificate_id'');
          certType = (if isReExport uf then ''657'' else ''851''); importISO = countryCode (obj_get uf ''importing_country'')
      in \<lparr>pi_soap = \<lparr>so_operation = ''ValidateAndDeliverEnvelope'', so_from = exportNPPOCode, so_to = importISO, so_type = certTypeCode certType,
            so_status = certStatusIssued, so_number = certID, so_forwardings = []\<rparr>,
          pi_certificate = \<lparr>ct_type = certType, ct_number = certID, ct_nppo = ''National Plant Quarantine Service of Sri Lanka'',
            ct_status = show_int certStatusIssued, ct_issued = now, ct_officer = asString (obj_get uf ''applicant_name''),
            ct_place = officeName (answerCode (obj_get uf ''nppo_office_location'')), ct_statements = certifyingStatementIDs certType,
            ct_liability = [], ct_declarations = buildDocDeclarations uf inputs, ct_replacement = buildReplacement inputs,
            ct_attachments = buildAttachments uf inputs,
            ct_consignment = buildConsignment float uf importISO (obj_get inputs ''certificate_items'')\<rparr>\<rparr>)"

definition withdrawn :: "phyto_input \<Rightarrow> phyto_input" where
  "withdrawn arg = arg\<lparr>pi_soap := (pi_soap arg)\<lparr>so_status := certStatusWithdrawn\<rparr>,
     pi_certificate := (pi_certificate arg)\<lparr>ct_status := show_int certStatusWithdrawn, ct_attachments := []\<rparr>\<rparr>"

end
