(* ===== verification/Phyto_Certificate.thy ===== *)
theory Phyto_Certificate
  imports Phyto_Input
begin

text \<open>
  The SPSCertificate document: its model \<open>external-integration/ephyto/spscert/certificate.go\<close> with
  the XML tree \<open>encoding/xml\<close> writes of it, and \<open>spscert/convert.go\<close>, which makes it of the input.
  A text with a language is a pair; an attribute or element marked \<open>omitempty\<close> is absent when empty.
\<close>

subsection \<open>The XML model\<close>

type_synonym lang_text = "string \<times> string"

record sps_note =
  sn_subject :: string
  sn_contents :: "lang_text list"

record binary_object =
  bo_mime :: string
  bo_filename :: string
  bo_value :: string

record ref_document =
  rf_issued :: string
  rf_relationship :: string
  rf_id :: string
  rf_attachment :: "binary_object option"
  rf_information :: "lang_text option"

record sps_document =
  xd_name :: string
  xd_id :: string
  xd_type :: string
  xd_status :: string
  xd_issued :: string
  xd_issuer :: string
  xd_notes :: "sps_note list"
  xd_attachments :: "ref_document list"
  xd_place :: string
  xd_officer :: string
  xd_clauses :: "(string \<times> string) list"

record sps_party =
  sp_name :: string
  sp_type :: "(string \<times> string) option"
  sp_address :: "string list"

record sps_characteristic =
  sc_descriptions :: "lang_text list"
  sc_measure :: "phyto_measure option"

record sps_process =
  ss_type :: string
  ss_period :: "(string \<times> string \<times> phyto_measure option) option"
  ss_characteristics :: "sps_characteristic list"

record sps_class =
  sl_system :: string
  sl_code :: string
  sl_name :: lang_text

record sps_line =
  tl_sequence :: string
  tl_descriptions :: "lang_text list"
  tl_common :: "lang_text list"
  tl_scientific :: string
  tl_uses :: "lang_text list"
  tl_net :: "phyto_measure option"
  tl_gross :: "phyto_measure option"
  tl_net_volume :: "phyto_measure option"
  tl_gross_volume :: "phyto_measure option"
  tl_packaging :: "sps_note list"
  tl_quantity :: "sps_note list"
  tl_declarations :: "sps_note list"
  tl_classes :: "sps_class list"
  tl_packages :: "phyto_package list"
  tl_origins :: "string list"
  tl_treatments :: "sps_process list"

record sps_consignment =
  sg_consignor :: sps_party
  sg_consignee :: sps_party
  sg_export :: string
  sg_import :: string
  sg_transit :: "string list"
  sg_entry :: "(string \<times> string) option"
  sg_conveyances :: "(string \<times> string \<times> lang_text option) list"
  sg_seal :: "string option"
  sg_items :: "sps_line list list"

record sps_certificate =
  sf_document :: sps_document
  sf_consignment :: sps_consignment

subsection \<open>The conversion\<close>

datatype certificate_error = NumberRequired | IssueDateRequired | ItemsRequired | DescriptionRequired | OriginRequired

definition boolStr :: "bool \<Rightarrow> string" where
  "boolStr b = (if b then ''True'' else ''False'')"

definition textNote :: "string \<Rightarrow> string \<Rightarrow> string \<Rightarrow> sps_note" where
  "textNote subject content lang = \<lparr>sn_subject = subject, sn_contents = [(lang, content)]\<rparr>"

definition filled_note :: "string \<Rightarrow> string \<Rightarrow> string \<Rightarrow> sps_note list" where
  "filled_note subject content lang = (if content = [] then [] else [textNote subject content lang])"

definition buildParty :: "phyto_party \<Rightarrow> sps_party" where
  "buildParty p = \<lparr>sp_name = pp_name p, sp_type = (if pp_id_value p = [] then None else Some (pp_id_type p, pp_id_value p)),
     sp_address = take 5 (pp_lines p)\<rparr>"

definition characteristic :: "string \<Rightarrow> lang_text list \<Rightarrow> phyto_measure option \<Rightarrow> sps_characteristic" where
  "characteristic kind descs m = \<lparr>sc_descriptions = ([], kind) # descs, sc_measure = m\<rparr>"

definition filled_characteristic :: "string \<Rightarrow> string \<Rightarrow> string \<Rightarrow> sps_characteristic list" where
  "filled_characteristic kind lang text = (if text = [] then [] else [characteristic kind [(lang, text)] None])"

definition measured_characteristic :: "string \<Rightarrow> phyto_measure option \<Rightarrow> sps_characteristic list" where
  "measured_characteristic kind m = (case m of None \<Rightarrow> [] | Some v \<Rightarrow> [characteristic kind [] (Some v)])"

definition buildTreatment :: "phyto_treatment \<Rightarrow> sps_process" where
  "buildTreatment tr =
     \<lparr>ss_type = ''ZZZ'',
      ss_period = (if pt_start tr \<noteq> [] \<or> pt_end tr \<noteq> [] \<or> pt_duration tr \<noteq> None then Some (pt_start tr, pt_end tr, pt_duration tr) else None),
      ss_characteristics = filled_characteristic ''TTL1'' [] (pt_level1 tr) @ filled_characteristic ''TTL2'' [] (pt_level2 tr) @
        filled_characteristic ''TTCH'' [] (pt_chemical tr) @ measured_characteristic ''TTTM'' (pt_temperature tr) @
        measured_characteristic ''TTCO'' (pt_concentration tr) @ filled_characteristic ''TTAI'' (pt_lang tr) (pt_info tr) @
        filled_characteristic ''TTFT'' (pt_lang tr) (pt_full tr)\<rparr>"

definition reexport_notes :: "phyto_reexport \<Rightarrow> sps_note list" where
  "reexport_notes r =
     filled_note ''RPCST'' (rx_statement r) [] @ map (\<lambda>co. textNote ''RPCCO'' co []) (rx_countries r) @
     map (\<lambda>ref. textNote ''RPCRF'' ref []) (rx_refs r) @
     map (\<lambda>(subject, b). textNote subject (boolStr b) [])
       [(''RPCOR'', rx_original r), (''RPCTC'', rx_true_copy r), (''RPCPK'', rx_packed r), (''RPCRP'', rx_repacked r),
        (''RPCOC'', rx_original_containers r), (''RPCNC'', rx_new_containers r), (''RPCPC'', rx_attached r), (''RPCAI'', rx_inspection r)]"

definition line_classes :: "phyto_line \<Rightarrow> sps_class list" where
  "line_classes l =
     (if pl_hs l = [] then [] else [\<lparr>sl_system = ''HS'', sl_code = pl_hs l, sl_name = ([], [])\<rparr>]) @
     (if pl_vegetable l = [] then [] else [\<lparr>sl_system = ''IPPCPCVP'', sl_code = [], sl_name = (pl_lang l, pl_vegetable l)\<rparr>]) @
     (if pl_condition l = [] then [] else [\<lparr>sl_system = ''IPPCPCC'', sl_code = [], sl_name = (pl_lang l, pl_condition l)\<rparr>])"

definition buildTradeLine :: "phyto_line \<Rightarrow> certificate_error + sps_line" where
  "buildTradeLine l =
     (if blank (pl_description l) then Inl DescriptionRequired
      else if pl_origins l = [] then Inl OriginRequired
      else Inr \<lparr>tl_sequence = show_nat (pl_sequence l), tl_descriptions = [(pl_description_lang l, pl_description l)],
        tl_common = map (\<lambda>cn. (pl_lang l, cn)) (pl_common l), tl_scientific = pl_scientific l,
        tl_uses = (if pl_use l = [] then [] else [(pl_lang l, pl_use l)]), tl_net = pl_net l, tl_gross = pl_gross l,
        tl_net_volume = pl_net_volume l, tl_gross_volume = pl_gross_volume l,
        tl_packaging = (if pl_packages l \<noteq> [] then [] else filled_note ''OPTND'' (pl_package_text l) []) @
          (case pl_reexport l of None \<Rightarrow> [] | Some r \<Rightarrow> reexport_notes r),
        tl_quantity = (case pl_other l of None \<Rightarrow> [] | Some q \<Rightarrow> [textNote ''OQV'' (pm_value q) [], textNote ''OQU'' (pm_unit q) []]),
        tl_declarations = filled_note ''DMTLIL'' (pl_marks l) [] @ map (\<lambda>t. textNote ''ADTLIL'' t (pl_lang l)) (pl_additional l) @
          filled_note ''ADIPTLIL'' (pl_permit l) [] @ filled_note ''ADDITLIL'' (pl_inspection l) [] @
          map (\<lambda>t. textNote ''ADAOTLIL'' t (pl_lang l)) (pl_info l),
        tl_classes = line_classes l, tl_packages = pl_packages l, tl_origins = pl_origins l, tl_treatments = map buildTreatment (pl_treatments l)\<rparr>)"

fun build_all :: "('a \<Rightarrow> 'error + 'b) \<Rightarrow> 'a list \<Rightarrow> 'error + 'b list" where
  "build_all f [] = Inr []"
| "build_all f (x # xs) =
     (case (f x, build_all f xs) of (Inl e, _) \<Rightarrow> Inl e | (Inr _, Inl e) \<Rightarrow> Inl e | (Inr y, Inr rest) \<Rightarrow> Inr (y # rest))"

definition declaration_notes :: "phyto_declarations \<Rightarrow> sps_note list" where
  "declaration_notes d =
     map (\<lambda>t. textNote ''ADEDL'' t (dd_lang d)) (dd_additional d) @ filled_note ''ADIPEDL'' (dd_permit d) [] @
     filled_note ''ADDIEDL'' (dd_inspection d) [] @ map (\<lambda>t. textNote ''ADAOEDL'' t (dd_lang d)) (dd_official d) @
     map (\<lambda>t. textNote ''DMCL'' t []) (dd_marks d)"

definition replacement_notes :: "phyto_replacement \<Rightarrow> sps_note list" where
  "replacement_notes r =
     filled_note ''ADRP'' (pr_statement r) [] @ filled_note ''ADRPN'' (pr_number r) [] @ filled_note ''ADRPR'' (pr_reason r) (pr_lang r) @
     filled_note ''ADRD'' (pr_issue_date r) []"

definition ref_document_of :: "phyto_attachment \<Rightarrow> ref_document" where
  "ref_document_of a =
     \<lparr>rf_issued = pa_issue_date a, rf_relationship = (if pa_relationship a = [] then ''ZZZ'' else pa_relationship a), rf_id = pa_id a,
      rf_attachment = (if pa_base64 a \<noteq> [] \<or> pa_filename a \<noteq> [] then Some \<lparr>bo_mime = pa_mime a, bo_filename = pa_filename a, bo_value = pa_base64 a\<rparr> else None),
      rf_information = (if pa_information a = [] then None else Some (pa_lang a, pa_information a))\<rparr>"

definition document_of :: "phyto_certificate \<Rightarrow> sps_document" where
  "document_of c =
     \<lparr>xd_name = [], xd_id = ct_number c, xd_type = ct_type c, xd_status = ct_status c, xd_issued = ct_issued c, xd_issuer = ct_nppo c,
      xd_notes = filled_note ''SPSFL'' (ct_liability c) [] @ (case ct_declarations c of None \<Rightarrow> [] | Some d \<Rightarrow> declaration_notes d) @
        (case ct_replacement c of None \<Rightarrow> [] | Some r \<Rightarrow> replacement_notes r),
      xd_attachments = map ref_document_of (ct_attachments c), xd_place = ct_place c, xd_officer = ct_officer c,
      xd_clauses = (if ct_statements c = [] then [([], [])] else map (\<lambda>i. (i, [])) (ct_statements c))\<rparr>"

definition consignment_of :: "phyto_consignment \<Rightarrow> sps_line list list \<Rightarrow> sps_consignment" where
  "consignment_of c items =
     \<lparr>sg_consignor = buildParty (pc_consignor c), sg_consignee = buildParty (pc_consignee c), sg_export = pc_export c, sg_import = pc_import c,
      sg_transit = pc_transit c, sg_entry = pc_entry c,
      sg_conveyances = map (\<lambda>m. (cv_id m, cv_mode m, if cv_name m = [] then None else Some (cv_lang m, cv_name m))) (pc_conveyances c),
      sg_seal = (if pc_seal c = [] then None else Some (pc_seal c)), sg_items = items\<rparr>"

definition BuildCertificate :: "phyto_input \<Rightarrow> certificate_error + sps_certificate" where
  "BuildCertificate arg =
     (let c = pi_certificate arg in
      if blank (ct_number c) then Inl NumberRequired
      else if blank (ct_issued c) then Inl IssueDateRequired
      else if pc_items (ct_consignment c) = [] then Inl ItemsRequired
      else case build_all (build_all buildTradeLine) (pc_items (ct_consignment c)) of
        Inl e \<Rightarrow> Inl e
      | Inr items \<Rightarrow> Inr \<lparr>sf_document = document_of c, sf_consignment = consignment_of (ct_consignment c) items\<rparr>)"

subsection \<open>The document as XML\<close>

definition dquoted :: "string \<Rightarrow> string" where
  "dquoted s = CHR 0x22 # s @ [CHR 0x22]"

text \<open>\<open>xml.Header\<close>.\<close>

definition xml_header :: string where
  "xml_header = concat [''<?xml version='', dquoted ''1.0'', '' encoding='', dquoted ''UTF-8'', ''?>'', newline]"

datatype xml = Element string "(string \<times> string) list" "xml list" | CharData string

definition tag :: "string \<Rightarrow> xml list \<Rightarrow> xml" where
  "tag name children = Element name [] children"

definition text_tag :: "string \<Rightarrow> string \<Rightarrow> xml" where
  "text_tag name s = Element name [] [CharData s]"

definition filled_tag :: "string \<Rightarrow> string \<Rightarrow> xml list" where
  "filled_tag name s = (if s = [] then [] else [text_tag name s])"

definition filled_attr :: "string \<Rightarrow> string \<Rightarrow> (string \<times> string) list" where
  "filled_attr name s = (if s = [] then [] else [(name, s)])"

definition opt_tag :: "('a \<Rightarrow> xml) \<Rightarrow> 'a option \<Rightarrow> xml list" where
  "opt_tag f v = (case v of None \<Rightarrow> [] | Some x \<Rightarrow> [f x])"

definition lang_tag :: "string \<Rightarrow> lang_text \<Rightarrow> xml" where
  "lang_tag name t = Element name (filled_attr ''languageID'' (fst t)) [CharData (snd t)]"

definition note_tag :: "string \<Rightarrow> sps_note \<Rightarrow> xml" where
  "note_tag name n = tag name (text_tag ''ram:Subject'' (sn_subject n) # map (lang_tag ''ram:Content'') (sn_contents n))"

definition measure_tag :: "string \<Rightarrow> phyto_measure \<Rightarrow> xml" where
  "measure_tag name m = Element name [(''unitCode'', pm_unit m)] [CharData (pm_value m)]"

definition date_tag :: "string \<Rightarrow> string \<Rightarrow> xml" where
  "date_tag name s = tag name [text_tag ''udt:DateTimeString'' s]"

definition named_tag :: "string \<Rightarrow> string \<Rightarrow> xml" where
  "named_tag name s = tag name [text_tag ''ram:Name'' s]"

definition country_tag :: "string \<Rightarrow> string \<Rightarrow> xml" where
  "country_tag name code = tag name [text_tag ''ram:ID'' code, text_tag ''ram:Name'' []]"

definition binary_tag :: "binary_object \<Rightarrow> xml" where
  "binary_tag b = Element ''ram:AttachmentBinaryObject'' (filled_attr ''mimeCode'' (bo_mime b) @ filled_attr ''filename'' (bo_filename b)) [CharData (bo_value b)]"

definition ref_document_tag :: "ref_document \<Rightarrow> xml" where
  "ref_document_tag r = tag ''ram:ReferenceSPSReferencedDocument''
     (filled_tag ''ram:IssueDateTime'' (rf_issued r) @ [text_tag ''ram:RelationshipTypeCode'' (rf_relationship r), text_tag ''ram:ID'' (rf_id r)] @
      opt_tag binary_tag (rf_attachment r) @ opt_tag (lang_tag ''ram:Information'') (rf_information r))"

definition signatory_tag :: "sps_document \<Rightarrow> xml" where
  "signatory_tag d = tag ''ram:SignatorySPSAuthentication''
     ([date_tag ''ram:ActualDateTime'' [], named_tag ''ram:IssueSPSLocation'' (xd_place d),
       tag ''ram:ProviderSPSParty'' [text_tag ''ram:Name'' [], named_tag ''ram:SpecifiedSPSPerson'' (xd_officer d)]] @
      map (\<lambda>(i, content). tag ''ram:IncludedSPSClause'' (filled_tag ''ram:ID'' i @ [text_tag ''ram:Content'' content])) (xd_clauses d))"

definition document_tag :: "sps_document \<Rightarrow> xml" where
  "document_tag d = tag ''rsm:SPSExchangedDocument''
     ([text_tag ''ram:Name'' (xd_name d), text_tag ''ram:ID'' (xd_id d), text_tag ''ram:TypeCode'' (xd_type d), text_tag ''ram:StatusCode'' (xd_status d),
       date_tag ''ram:IssueDateTime'' (xd_issued d), named_tag ''ram:IssuerSPSParty'' (xd_issuer d)] @
      map (note_tag ''ram:IncludedSPSNote'') (xd_notes d) @ map ref_document_tag (xd_attachments d) @ [signatory_tag d])"

definition address_tag :: "string list \<Rightarrow> xml list" where
  "address_tag ls =
     (if ls = [] then []
      else [tag ''ram:SpecifiedSPSAddress'' (text_tag ''ram:LineOne'' (hd ls) #
        concat (map2 filled_tag [''ram:LineTwo'', ''ram:LineThree'', ''ram:LineFour'', ''ram:LineFive''] (tl ls)))])"

definition party_tag :: "string \<Rightarrow> sps_party \<Rightarrow> xml" where
  "party_tag name p = tag name
     (text_tag ''ram:Name'' (sp_name p) # opt_tag (\<lambda>(l, v). Element ''ram:TypeCode'' (filled_attr ''listName'' l) [CharData v]) (sp_type p) @
      address_tag (sp_address p))"

definition class_tag :: "sps_class \<Rightarrow> xml" where
  "class_tag c = tag ''ram:ApplicableSPSClassification''
     (text_tag ''ram:SystemName'' (sl_system c) # filled_tag ''ram:ClassCode'' (sl_code c) @ [lang_tag ''ram:ClassName'' (sl_name c)])"

definition package_tag :: "phyto_package \<Rightarrow> xml" where
  "package_tag p = tag ''ram:PhysicalSPSPackage''
     [text_tag ''ram:LevelCode'' (pk_level p), text_tag ''ram:TypeCode'' (pk_type p), text_tag ''ram:ItemQuantity'' (pk_quantity p)]"

definition process_tag :: "sps_process \<Rightarrow> xml" where
  "process_tag p = tag ''ram:AppliedSPSProcess''
     (text_tag ''ram:TypeCode'' (ss_type p) #
      opt_tag (\<lambda>(a, b, m). tag ''ram:CompletionSPSPeriod''
        ((if a = [] then [] else [date_tag ''ram:StartDateTime'' a]) @ (if b = [] then [] else [date_tag ''ram:EndDateTime'' b]) @
         opt_tag (measure_tag ''ram:DurationMeasure'') m)) (ss_period p) @
      map (\<lambda>c. tag ''ram:ApplicableSPSProcessCharacteristic''
        (map (lang_tag ''ram:Description'') (sc_descriptions c) @ opt_tag (measure_tag ''ram:ValueMeasure'') (sc_measure c))) (ss_characteristics p))"

definition MarshalXML_line :: "sps_line \<Rightarrow> xml" where
  "MarshalXML_line l = tag ''ram:IncludedSPSTradeLineItem''
     (text_tag ''ram:SequenceNumeric'' (tl_sequence l) # map (lang_tag ''ram:Description'') (tl_descriptions l) @
      map (lang_tag ''ram:CommonName'') (tl_common l) @ filled_tag ''ram:ScientificName'' (tl_scientific l) @ map (lang_tag ''ram:IntendedUse'') (tl_uses l) @
      opt_tag (measure_tag ''ram:NetWeightMeasure'') (tl_net l) @ opt_tag (measure_tag ''ram:GrossWeightMeasure'') (tl_gross l) @
      opt_tag (measure_tag ''ram:NetVolumeMeasure'') (tl_net_volume l) @ opt_tag (measure_tag ''ram:GrossVolumeMeasure'') (tl_gross_volume l) @
      map (note_tag ''ram:AdditionalInformationSPSNote'') (tl_packaging l @ tl_quantity l @ tl_declarations l) @
      map class_tag (tl_classes l) @ map package_tag (tl_packages l) @ map (country_tag ''ram:OriginSPSCountry'') (tl_origins l) @
      map process_tag (tl_treatments l))"

definition consignment_tag :: "sps_consignment \<Rightarrow> xml" where
  "consignment_tag c = tag ''rsm:SPSConsignment''
     ([party_tag ''ram:ConsignorSPSParty'' (sg_consignor c), party_tag ''ram:ConsigneeSPSParty'' (sg_consignee c),
       country_tag ''ram:ExportSPSCountry'' (sg_export c), country_tag ''ram:ImportSPSCountry'' (sg_import c)] @
      map (country_tag ''ram:TransitSPSCountry'') (sg_transit c) @
      opt_tag (\<lambda>(i, n). tag ''ram:UnloadingBaseportSPSLocation'' (filled_tag ''ram:ID'' i @ [text_tag ''ram:Name'' n])) (sg_entry c) @
      [tag ''ram:ExaminationSPSEvent'' [named_tag ''ram:OccurrenceSPSLocation'' []]] @
      map (\<lambda>(i, mode, means). tag ''ram:MainCarriageSPSTransportMovement'' (filled_tag ''ram:ID'' i @ [text_tag ''ram:ModeCode'' mode] @
        opt_tag (\<lambda>t. tag ''ram:UsedSPSTransportMeans'' [lang_tag ''ram:Name'' t]) means)) (sg_conveyances c) @
      opt_tag (\<lambda>s. tag ''ram:UtilizedSPSTransportEquipment'' [text_tag ''ram:ID'' [], tag ''ram:AffixedSPSSeal'' [text_tag ''ram:ID'' s]]) (sg_seal c) @
      map (\<lambda>ls. tag ''ram:IncludedSPSConsignmentItem'' (map MarshalXML_line ls)) (sg_items c))"

definition certificate_xml :: "sps_certificate \<Rightarrow> xml" where
  "certificate_xml c = Element ''rsm:SPSCertificate''
     [(''xmlns:rsm'', ''urn:un:unece:uncefact:data:standard:SPSCertificate:17''),
      (''xmlns:ram'', ''urn:un:unece:uncefact:data:standard:ReusableAggregateBusinessInformationEntity:21''),
      (''xmlns:udt'', ''urn:un:unece:uncefact:data:standard:UnqualifiedDataType:21''),
      (''xmlns:qdt'', ''urn:un:unece:uncefact:data:standard:QualifiedDataType:21'')]
     [document_tag (sf_document c), consignment_tag (sf_consignment c)]"

end
