(* ===== verification/Phyto_Hub.thy ===== *)
theory Phyto_Hub
  imports Phyto_Certificate Govpay_Crypto
begin

text \<open>
  The exchange with the IPPC ePhyto Hub: the documents a certificate carries
  (\<open>external-integration/ephyto/attachments.go\<close>), the SOAP messages and answers (\<open>ephyto/hub\<close>), and
  the interpreter of the Hub's operations (\<open>ephyto/interpreter.go\<close>, the end of \<open>build.go\<close>). The
  reading of a body by \<open>encoding/xml\<close>, the text of an XML tree, storage and \<open>%q\<close> are parameters.
\<close>

subsection \<open>Documents\<close>

record hub_file =
  hf_bytes :: bytes
  hf_broken :: "string option"
  hf_type :: string

type_synonym hub_files = "string \<Rightarrow> string + hub_file"

definition maxAttachmentBytes_phyto :: nat where "maxAttachmentBytes_phyto = 3 * 1024 * 1024"
definition maxCertificateBytes :: nat where "maxCertificateBytes = 104 * 1024 * 1024"

text \<open>One decimal, a tie going to the even one.\<close>

definition tenths_of :: "nat \<Rightarrow> nat \<Rightarrow> nat" where
  "tenths_of n unit =
     (let q = n * 10 div unit; r = n * 10 mod unit in if 2 * r > unit \<or> 2 * r = unit \<and> odd q then q + 1 else q)"

definition humanSize :: "nat \<Rightarrow> string" where
  "humanSize n =
     (if n < 1024 then show_nat n @ '' bytes''
      else if n < 1024 * 1024 then show_nat ((n + 1023) div 1024) @ '' KB''
      else let t = tenths_of n (1024 * 1024) in show_nat (t div 10) @ ''.'' @ show_nat (t mod 10) @ '' MB'')"

definition hubMimes :: "(string \<times> string) list" where
  "hubMimes = [(''application/pdf'', ''application/pdf''), (''image/jpeg'', ''image/jpeg''), (''image/jpg'', ''image/jpeg''),
     (''image/png'', ''image/png''), (''image/gif'', ''image/gif'')]"

definition extensionMimes :: "(string \<times> string) list" where
  "extensionMimes = [(''.pdf'', ''application/pdf''), (''.jpg'', ''image/jpeg''), (''.jpeg'', ''image/jpeg''), (''.png'', ''image/png''),
     (''.gif'', ''image/gif'')]"

text \<open>\<open>filepath.Ext\<close>: from the last dot of the last element.\<close>

definition file_ext :: "string \<Rightarrow> string" where
  "file_ext name =
     (let element = (case after_last ''/'' name of Some rest \<Rightarrow> rest | None \<Rightarrow> name) in
      case after_last ''.'' element of Some rest \<Rightarrow> CHR ''.'' # rest | None \<Rightarrow> [])"

definition canonicalHubMime :: "string \<Rightarrow> string \<Rightarrow> string" where
  "canonicalHubMime filename contentType =
     (let lowered = to_lower (trim_space contentType);
          stored = (if CHR '';'' \<in> set lowered then trim_space (takeWhile (\<lambda>c. c \<noteq> CHR '';'') lowered) else lowered)
      in case map_of hubMimes stored of
        Some mime \<Rightarrow> mime
      | None \<Rightarrow> (case map_of extensionMimes (to_lower (file_ext filename)) of Some mime \<Rightarrow> mime | None \<Rightarrow> []))"

definition readFile :: "hub_files \<Rightarrow> string \<Rightarrow> string + bytes \<times> string" where
  "readFile files key =
     (case files key of
        Inl e \<Rightarrow> Inl (''could not be read from storage: '' @ e)
      | Inr f \<Rightarrow> (case hf_broken f of
          Some e \<Rightarrow> if length (hf_bytes f) \<le> maxAttachmentBytes_phyto then Inl (''could not be read from storage: '' @ e)
            else Inr (take (maxAttachmentBytes_phyto + 1) (hf_bytes f), trim_space (hf_type f))
        | None \<Rightarrow> Inr (take (maxAttachmentBytes_phyto + 1) (hf_bytes f), trim_space (hf_type f))))"

definition document_name :: "phyto_attachment \<Rightarrow> string" where
  "document_name a = pa_id a @ '' ('' @ pa_filename a @ '')''"

text \<open>The content of one document, read when it is not there yet.\<close>

definition fill_content :: "hub_files option \<Rightarrow> phyto_attachment \<Rightarrow> string + phyto_attachment" where
  "fill_content files a =
     (if pa_key a \<noteq> [] \<and> pa_base64 a = [] then
        (case files of
           None \<Rightarrow> Inl (pa_id a @ '': this deployment has no document storage configured, so it cannot be attached'')
         | Some fs \<Rightarrow> (case readFile fs (pa_key a) of
             Inl e \<Rightarrow> Inl (document_name a @ '': '' @ e)
           | Inr (content, contentType) \<Rightarrow>
               if length content > maxAttachmentBytes_phyto
               then Inl (document_name a @ '' is '' @ humanSize (length content) @ ''; the limit for a document sent with the certificate is '' @
                 humanSize maxAttachmentBytes_phyto)
               else Inr (a\<lparr>pa_base64 := EncodeToString content, pa_mime := (if pa_mime a = [] then contentType else pa_mime a), pa_key := []\<rparr>)))
      else Inr (a\<lparr>pa_key := []\<rparr>))"

definition type_content :: "phyto_attachment \<Rightarrow> string + phyto_attachment" where
  "type_content a =
     (if pa_base64 a = [] then Inr a
      else let mime = canonicalHubMime (pa_filename a) (pa_mime a) in
        if mime = [] then Inl (document_name a @ '' is not a JPG, GIF, PNG or PDF, which is all the Hub accepts with a certificate'')
        else Inr (a\<lparr>pa_mime := mime\<rparr>))"

fun resolve_from :: "hub_files option \<Rightarrow> nat \<Rightarrow> phyto_attachment list \<Rightarrow> string + phyto_attachment list" where
  "resolve_from files encoded [] = Inr []"
| "resolve_from files encoded (a # as) =
     (case fill_content files a of
        Inl e \<Rightarrow> Inl e
      | Inr b \<Rightarrow> (case type_content b of
          Inl e \<Rightarrow> Inl e
        | Inr c \<Rightarrow>
            let encoded' = encoded + length (pa_base64 c) in
            if encoded' > maxCertificateBytes
            then Inl (''the documents selected come to '' @ humanSize encoded' @ '' once encoded into the certificate, over the '' @
              humanSize maxCertificateBytes @ '' a certificate may be; send fewer of them'')
            else (case resolve_from files encoded' as of Inl e \<Rightarrow> Inl e | Inr cs \<Rightarrow> Inr (c # cs))))"

definition resolveAttachments :: "hub_files option \<Rightarrow> phyto_input \<Rightarrow> string + phyto_input" where
  "resolveAttachments files arg =
     (case resolve_from files 0 (ct_attachments (pi_certificate arg)) of
        Inl e \<Rightarrow> Inl e
      | Inr as \<Rightarrow> Inr (arg\<lparr>pi_certificate := (pi_certificate arg)\<lparr>ct_attachments := as\<rparr>\<rparr>))"

subsection \<open>Messages\<close>

text \<open>\<open>xml.EscapeText\<close> of valid UTF-8: a character outside the XML range becomes U+FFFD.\<close>

definition esc_byte :: "char \<Rightarrow> string" where
  "esc_byte c =
     (if c = CHR 0x22 then ''&#34;'' else if c = CHR 0x27 then ''&#39;'' else if c = CHR ''&'' then ''&amp;''
      else if c = CHR ''<'' then ''&lt;'' else if c = CHR ''>'' then ''&gt;'' else if c = CHR 0x09 then ''&#x9;''
      else if c = CHR 0x0A then ''&#xA;'' else if c = CHR 0x0D then ''&#xD;''
      else if (of_char c :: nat) < 32 then [CHR 0xEF, CHR 0xBF, CHR 0xBD] else [c])"

fun esc :: "string \<Rightarrow> string" where
  "esc (a # b # c # s) =
     (if a = CHR 0xEF \<and> b = CHR 0xBF \<and> (c = CHR 0xBE \<or> c = CHR 0xBF) then [CHR 0xEF, CHR 0xBF, CHR 0xBD] @ esc s
      else esc_byte a @ esc (b # c # s))"
| "esc [a, b] = esc_byte a @ esc_byte b"
| "esc [a] = esc_byte a"
| "esc [] = []"

definition line_of :: "string \<Rightarrow> string" where
  "line_of s = s @ newline"

definition soap_open :: "string \<Rightarrow> string \<Rightarrow> string" where
  "soap_open spaces op =
     line_of (''<soapenv:Envelope xmlns:soapenv='' @ [CHR 0x22] @ ''http://schemas.xmlsoap.org/soap/envelope/'' @ [CHR 0x22] @ '' xmlns:eph='' @ [CHR 0x22] @
       ''http://ephyto.ippc.int/'' @ [CHR 0x22] @ spaces @ ''>'') @
     line_of ''  <soapenv:Header/>'' @ line_of ''  <soapenv:Body>'' @ line_of (''    <eph:'' @ op @ ''>'')"

definition soap_close :: "string \<Rightarrow> string" where
  "soap_close op = line_of (''    </eph:'' @ op @ ''>'') @ line_of ''  </soapenv:Body>'' @ line_of ''</soapenv:Envelope>''"

definition forwarding_lines :: "string \<Rightarrow> string" where
  "forwarding_lines code = line_of ''          <hub:EnvelopeForwarding>'' @ line_of (''            <hub:Code>'' @ esc code @ ''</hub:Code>'') @
     line_of ''          </hub:EnvelopeForwarding>''"

definition BuildDeliverSOAP :: "phyto_soap \<Rightarrow> string \<Rightarrow> string" where
  "BuildDeliverSOAP env certXML =
     (let op = (if so_operation env = [] then ''ValidateAndDeliverEnvelope'' else so_operation env) in
      soap_open ('' xmlns:hub='' @ [CHR 0x22] @ ''http://ephyto.ippc.int/HUB.Entities'' @ [CHR 0x22]) op @
      line_of ''      <eph:envelope>'' @
      line_of (''        <hub:From>'' @ esc (so_from env) @ ''</hub:From>'') @
      line_of (''        <hub:To>'' @ esc (so_to env) @ ''</hub:To>'') @
      line_of (''        <hub:CertificateType>'' @ show_int (so_type env) @ ''</hub:CertificateType>'') @
      line_of (''        <hub:CertificateStatus>'' @ show_int (so_status env) @ ''</hub:CertificateStatus>'') @
      line_of (''        <hub:NPPOCertificateNumber>'' @ esc (so_number env) @ ''</hub:NPPOCertificateNumber>'') @
      (if so_forwardings env = [] then []
       else line_of ''        <hub:Forwardings>'' @ concat (map forwarding_lines (so_forwardings env)) @ line_of ''        </hub:Forwardings>'') @
      line_of (''        <hub:Content><![CDATA['' @ certXML @ '']]></hub:Content>'') @
      line_of ''      </eph:envelope>'' @ soap_close op)"

definition buildSimpleSOAP :: "string \<Rightarrow> string \<Rightarrow> string \<Rightarrow> string" where
  "buildSimpleSOAP op paramName paramValue =
     soap_open [] op @ line_of (''      <eph:'' @ paramName @ ''>'' @ esc paramValue @ ''</eph:'' @ paramName @ ''>'') @ soap_close op"

definition BuildGetTrackingSOAP :: "string \<Rightarrow> string" where
  "BuildGetTrackingSOAP trackingNumber = buildSimpleSOAP ''GetEnvelopeTrackingInfo'' ''hubTrackingNumber'' trackingNumber"

subsection \<open>Answers\<close>

record validation_result =
  vl_area :: string
  vl_field :: string
  vl_level :: string
  vl_msg :: string

record hub_response =
  hr_number :: string
  hr_tracking :: string
  hr_error :: string
  hr_validations :: "validation_result list"
  hr_status :: nat

definition hub_delivered :: "hub_response \<Rightarrow> bool" where
  "hub_delivered r = (hr_number r \<noteq> [] \<and> hr_tracking r \<noteq> ''FailedDelivery'')"

text \<open>What \<open>encoding/xml\<close> reads of a body: the text of a fault, or the elements it meets up to the end or an error.\<close>

datatype hub_element = DeliveryNumber string | TrackingInfo string | DeliveryError string | Validation validation_result

record xml_reader =
  xr_fault :: "string \<Rightarrow> string"
  xr_elements :: "string \<Rightarrow> hub_element list \<times> string option"

fun read_element :: "hub_element \<Rightarrow> hub_response \<Rightarrow> hub_response" where
  "read_element (DeliveryNumber s) r = r\<lparr>hr_number := s\<rparr>"
| "read_element (TrackingInfo s) r = r\<lparr>hr_tracking := s\<rparr>"
| "read_element (DeliveryError s) r = r\<lparr>hr_error := s\<rparr>"
| "read_element (Validation v) r = r\<lparr>hr_validations := hr_validations r @ [v]\<rparr>"

definition parseBody :: "xml_reader \<Rightarrow> string \<Rightarrow> hub_response \<Rightarrow> string option \<times> hub_response" where
  "parseBody X body r =
     (if xr_fault X body \<noteq> [] then (Some (''SOAP fault: '' @ xr_fault X body), r\<lparr>hr_error := xr_fault X body\<rparr>)
      else case xr_elements X body of (elements, e) \<Rightarrow> (e, fold read_element elements r))"

definition ParseResponse :: "xml_reader \<Rightarrow> nat \<Rightarrow> string \<Rightarrow> hub_response \<times> string option" where
  "ParseResponse X status body =
     (let (parseErr, r) = parseBody X body \<lparr>hr_number = [], hr_tracking = [], hr_error = [], hr_validations = [], hr_status = status\<rparr> in
      (r, if status < 200 \<or> status \<ge> 300 then
            Some (if hr_error r \<noteq> [] then ''SOAP fault (HTTP '' @ show_nat status @ ''): '' @ hr_error r
                  else case parseErr of
                    Some e \<Rightarrow> ''HTTP error '' @ show_nat status @ '': '' @ e
                  | None \<Rightarrow> ''unexpected HTTP status '' @ show_nat status)
          else parseErr))"

fun contains :: "string \<Rightarrow> string \<Rightarrow> bool" where
  "contains p [] = (p = [])"
| "contains p (c # s) = (has_prefix p (c # s) \<or> contains p s)"

definition IsDelivered :: "string \<Rightarrow> bool" where
  "IsDelivered trackingInfo = contains ''delivered'' (to_lower (trim_space trackingInfo))"

definition trim_dots :: "string \<Rightarrow> string" where
  "trim_dots s = rev (dropWhile (\<lambda>c. c = CHR ''.'') (rev (dropWhile (\<lambda>c. c = CHR ''.'') s)))"

definition validation_bullet :: "validation_result \<Rightarrow> string list" where
  "validation_bullet v =
     (let leveled = (if vl_level v \<noteq> [] then ''**'' @ vl_level v @ ''** '' @ [CHR 0xE2, CHR 0x80, CHR 0x94] @ '' '' @ vl_msg v else vl_msg v);
          loc = trim_dots (join_with ''.'' (filter (\<lambda>s. \<not> blank s) [vl_area v, vl_field v]))
      in if vl_msg v = [] then [] else [''- '' @ (if loc \<noteq> [] then leveled @ '' _('' @ loc @ '')_'' else leveled)])"

definition DescribeFailure :: "string \<Rightarrow> string option \<Rightarrow> hub_response option \<Rightarrow> string" where
  "DescribeFailure intro callErr resp =
     (let bullets = (case resp of None \<Rightarrow> [] | Some r \<Rightarrow> concat (map validation_bullet (hr_validations r)));
          message = (case resp of None \<Rightarrow> [] | Some r \<Rightarrow> hr_error r)
      in if bullets \<noteq> [] then intro @ newline @ newline @ join_with newline bullets
         else if message \<noteq> [] then intro @ newline @ newline @ ''- '' @ message
         else if callErr \<noteq> None then intro @ newline @ newline @ ''- We could not reach the IPPC ePhyto Hub. Please try again.''
         else intro)"

subsection \<open>The interpreter\<close>

datatype hub_failure = NotBuilt string | NotCalled string

fun failure_message :: "hub_failure \<Rightarrow> string" where
  "failure_message (NotBuilt m) = m"
| "failure_message (NotCalled m) = m"

record hub_env =
  he_now :: string
  he_float :: "rat \<Rightarrow> string"
  he_files :: "hub_files option"
  he_xml :: "xml \<Rightarrow> string + string"
  he_quote :: "string \<Rightarrow> string"
  he_reader :: xml_reader

fun certificate_error_text :: "certificate_error \<Rightarrow> string" where
  "certificate_error_text NumberRequired = ''certificate.certificateNumber is required''"
| "certificate_error_text IssueDateRequired = ''certificate.issueDateTime is required (W3 datetime)''"
| "certificate_error_text ItemsRequired = ''certificate.consignment.items must have at least one item''"
| "certificate_error_text DescriptionRequired = ''each tradeLine.description is mandatory (UN/CEFACT)''"
| "certificate_error_text OriginRequired = ''each tradeLine needs at least one originCountries entry''"

definition BuildCertXML :: "hub_env \<Rightarrow> phyto_input \<Rightarrow> string + string" where
  "BuildCertXML H arg =
     (case BuildCertificate arg of
        Inl e \<Rightarrow> Inl (certificate_error_text e)
      | Inr cert \<Rightarrow> (case he_xml H (certificate_xml cert) of
          Inl e \<Rightarrow> Inl (''marshalling certificate: '' @ e)
        | Inr body \<Rightarrow> Inr (xml_header @ body)))"

definition deliver :: "hub_env \<Rightarrow> phyto_input \<Rightarrow> string + string" where
  "deliver H arg = (case BuildCertXML H arg of Inl e \<Rightarrow> Inl e | Inr certXML \<Rightarrow> Inr (BuildDeliverSOAP (pi_soap arg) certXML))"

text \<open>\<open>Inl\<close> is the message of a \<open>buildError\<close>.\<close>

definition BuildEnvelope :: "hub_env \<Rightarrow> string \<Rightarrow> answers \<Rightarrow> string + string" where
  "BuildEnvelope H operation inputs =
     (let arg = BuildInput (he_now H) (he_float H) inputs in
      if operation = ''submit'' then
        (if \<not> anyItemIncluded (obj_get inputs ''certificate_items'') then Inl ''Please select which items to include on this certificate before submitting.''
         else if so_to (pi_soap arg) = [] then Inl ''The application names no importing country, so the certificate cannot be sent to the IPPC Hub.''
         else case resolveAttachments (he_files H) arg of
           Inl e \<Rightarrow> Inl (''A document selected to accompany the certificate could not be attached: '' @ e)
         | Inr arg' \<Rightarrow> deliver H arg')
      else if operation = ''withdraw'' then
        (if \<not> anyItemIncluded (obj_get inputs ''certificate_items'')
         then Inl ''The certificate to withdraw names no items: it must be sent with the items it was issued with.''
         else if so_to (pi_soap arg) = [] then Inl ''The application names no importing country, so the certificate cannot be withdrawn on the IPPC Hub.''
         else deliver H (withdrawn arg))
      else if operation = ''poll'' then
        (case obj_get inputs ''tracking_number'' of
           Some (JStr t) \<Rightarrow> if t = [] then Inl ''No IPPC Hub tracking number is available to poll.'' else Inr (BuildGetTrackingSOAP t)
         | _ \<Rightarrow> Inl ''No IPPC Hub tracking number is available to poll.'')
      else Inl (''Unknown ePhyto Hub operation '' @ he_quote H operation @ '' (want '' @ he_quote H ''submit'' @ '', '' @ he_quote H ''poll'' @ '' or '' @
        he_quote H ''withdraw'' @ '').''))"

definition parseHubResponse :: "hub_env \<Rightarrow> string option \<Rightarrow> (nat \<times> string) option \<Rightarrow> hub_response option \<times> string option" where
  "parseHubResponse H callErr resp =
     (case resp of
        None \<Rightarrow> (None, callErr)
      | Some (status, body) \<Rightarrow> (case ParseResponse (he_reader H) status body of
          (r, parseErr) \<Rightarrow> (Some r, if callErr = None then parseErr else callErr)))"

definition tracked :: "hub_response option \<Rightarrow> answers \<Rightarrow> answers" where
  "tracked resp out =
     (case resp of
        None \<Rightarrow> out
      | Some r \<Rightarrow>
          let out1 = (if hr_number r \<noteq> [] then obj_put ''tracking_number'' (JStr (hr_number r)) out else out) in
          if hr_tracking r \<noteq> [] then obj_put ''tracking_info'' (JStr (hr_tracking r)) out1 else out1)"

definition submitIntro :: string where
  "submitIntro = ''The phytosanitary certificate could not be submitted to the IPPC ePhyto Hub:''"

definition withdrawIntro :: string where
  "withdrawIntro = ''The phytosanitary certificate could not be withdrawn on the IPPC ePhyto Hub:''"

definition other_failure :: "hub_failure option \<Rightarrow> string option" where
  "other_failure callErr = map_option failure_message callErr"

definition interpretSubmit :: "hub_env \<Rightarrow> hub_failure option \<Rightarrow> (nat \<times> string) option \<Rightarrow> string \<times> answers" where
  "interpretSubmit H callErr resp =
     (case callErr of
        Some (NotBuilt m) \<Rightarrow> ([], [(''submitted'', JBool False), (''retryable'', JBool False), (''error'', JStr (submitIntro @ newline @ newline @ ''- '' @ m))])
      | _ \<Rightarrow>
          let (r, e) = parseHubResponse H (other_failure callErr) resp;
              submitted = (e = None \<and> (case r of None \<Rightarrow> False | Some x \<Rightarrow> hub_delivered x))
          in (''EPHYTO_SUBMITTED'', tracked r
                [(''submitted'', JBool submitted), (''retryable'', JBool (\<not> submitted \<and> r = None \<and> e \<noteq> None)),
                 (''error'', JStr (if submitted then [] else DescribeFailure submitIntro e r))]))"

definition interpretWithdraw :: "hub_env \<Rightarrow> hub_failure option \<Rightarrow> (nat \<times> string) option \<Rightarrow> string \<times> answers" where
  "interpretWithdraw H callErr resp =
     (case callErr of
        Some (NotBuilt m) \<Rightarrow> ([], [(''withdrawn'', JBool False), (''error'', JStr (withdrawIntro @ newline @ newline @ ''- '' @ m))])
      | _ \<Rightarrow>
          let (r, e) = parseHubResponse H (other_failure callErr) resp;
              accepted = (e = None \<and> (case r of None \<Rightarrow> False | Some x \<Rightarrow> hub_delivered x))
          in (''EPHYTO_WITHDRAWAL_SUBMITTED'', tracked r
                [(''withdrawn'', JBool accepted), (''error'', JStr (if accepted then [] else DescribeFailure withdrawIntro e r))]))"

definition interpretPoll :: "hub_env \<Rightarrow> hub_failure option \<Rightarrow> (nat \<times> string) option \<Rightarrow> string \<times> answers" where
  "interpretPoll H callErr resp =
     (case callErr of
        Some (NotBuilt m) \<Rightarrow> ([], [(''delivered'', JBool False), (''error'', JStr m)])
      | _ \<Rightarrow>
          let (r, e) = parseHubResponse H (other_failure callErr) resp;
              info = (case r of None \<Rightarrow> [] | Some x \<Rightarrow> hr_tracking x)
          in (''EPHYTO_POLLING'',
              [(''delivered'', JBool (e = None \<and> r \<noteq> None \<and> IsDelivered info)),
               (''error'', JStr (if e = None then [] else ''Could not fetch the delivery status from the IPPC ePhyto Hub. The next automatic check will retry.''))] @
              (if info = [] then [] else [(''tracking_info'', JStr info)])))"

definition hub_Interpret :: "hub_env \<Rightarrow> string \<Rightarrow> hub_failure option \<Rightarrow> (nat \<times> string) option \<Rightarrow> string \<times> answers" where
  "hub_Interpret H operation =
     (if operation = ''poll'' then interpretPoll H else if operation = ''withdraw'' then interpretWithdraw H else interpretSubmit H)"

subsection \<open>What travels with a certificate\<close>

definition hub_type :: "string \<Rightarrow> bool" where
  "hub_type m = (m \<in> set (map snd hubMimes))"

lemma canonical_accepted:
  assumes "canonicalHubMime filename kind \<noteq> []"
  shows "hub_type (canonicalHubMime filename kind)"
proof -
  have e: "map_of extensionMimes x = Some y \<Longrightarrow> hub_type y" for x y by (drule map_of_SomeD) (auto simp: extensionMimes_def hubMimes_def hub_type_def)
  have h: "map_of hubMimes x = Some y \<Longrightarrow> hub_type y" for x y by (drule map_of_SomeD) (force simp: hub_type_def)
  have c: "hub_type (case x of Some mime \<Rightarrow> mime | None \<Rightarrow> (case y of Some mime \<Rightarrow> mime | None \<Rightarrow> []))"
    if "(case x of Some mime \<Rightarrow> mime | None \<Rightarrow> (case y of Some mime \<Rightarrow> mime | None \<Rightarrow> [])) \<noteq> []"
      "\<And>m. x = Some m \<Longrightarrow> hub_type m" "\<And>m. y = Some m \<Longrightarrow> hub_type m" for x y
    using that by (cases x; cases y) simp_all
  show ?thesis using assms unfolding canonicalHubMime_def Let_def by (rule c) (rule h, assumption, rule e, assumption)
qed

lemma resolved_one:
  assumes "fill_content files a = Inr b" "type_content b = Inr c"
  shows "pa_key c = [] \<and> (pa_base64 c = [] \<or> hub_type (pa_mime c)) \<and> pa_information c = pa_information a"
proof -
  have "pa_key b = [] \<and> pa_information b = pa_information a"
    using assms(1) unfolding fill_content_def by (cases files) (auto split: if_splits sum.splits prod.splits)
  moreover have "(pa_base64 b = [] \<and> c = b) \<or> (canonicalHubMime (pa_filename b) (pa_mime b) \<noteq> [] \<and>
      c = b\<lparr>pa_mime := canonicalHubMime (pa_filename b) (pa_mime b)\<rparr>)"
    using assms(2) unfolding type_content_def Let_def by (simp split: if_splits)
  ultimately show ?thesis using canonical_accepted [of "pa_filename b" "pa_mime b"] by auto
qed

lemma resolve_step:
  assumes "resolve_from files n (a # as) = Inr cs"
  obtains b c cs' where "cs = c # cs'" "fill_content files a = Inr b" "type_content b = Inr c" "resolve_from files (n + length (pa_base64 c)) as = Inr cs'"
    "n + length (pa_base64 c) \<le> maxCertificateBytes"
  using assms by (auto simp: Let_def split: sum.splits if_splits)

lemma resolve_bounds:
  "resolve_from files n as = Inr cs \<Longrightarrow> n \<le> maxCertificateBytes \<Longrightarrow> n + sum_list (map (\<lambda>a. length (pa_base64 a)) cs) \<le> maxCertificateBytes"
proof (induction as arbitrary: n cs)
  case (Cons a as)
  from Cons.prems(1) obtain b c cs' where "cs = c # cs'" "resolve_from files (n + length (pa_base64 c)) as = Inr cs'"
    "n + length (pa_base64 c) \<le> maxCertificateBytes"
    by (rule resolve_step)
  then show ?case using Cons.IH [of "n + length (pa_base64 c)" cs'] by (simp add: add.assoc)
qed simp

lemma resolve_each:
  "resolve_from files n as = Inr cs \<Longrightarrow> map pa_information cs = map pa_information as \<and> list_all (\<lambda>a. pa_key a = [] \<and> (pa_base64 a = [] \<or> hub_type (pa_mime a))) cs"
proof (induction as arbitrary: n cs)
  case (Cons a as)
  from Cons.prems obtain b c cs' where
    "cs = c # cs'" "fill_content files a = Inr b" "type_content b = Inr c" "resolve_from files (n + length (pa_base64 c)) as = Inr cs'"
    by (rule resolve_step)
  then show ?case using Cons.IH resolved_one [of files a b c] by simp
qed simp

subsection \<open>What a certificate says\<close>

lemma build_all_iff: "build_all f xs = Inr ys \<longleftrightarrow> list_all2 (\<lambda>x y. f x = Inr y) xs ys"
proof (induction xs arbitrary: ys)
  case (Cons x xs)
  show ?case
  proof (cases ys)
    case (Cons y zs)
    then show ?thesis using Cons.IH by (cases "f x"; cases "build_all f xs") auto
  qed (cases "f x"; cases "build_all f xs"; simp)
qed auto

lemma built_lines:
  assumes "BuildCertificate arg = Inr cert"
  shows "list_all2 (\<lambda>x y. buildTradeLine x = Inr y) (concat (pc_items (ct_consignment (pi_certificate arg)))) (concat (sg_items (sf_consignment cert)))"
    and "sf_document cert = document_of (pi_certificate arg)"
    and "pc_items (ct_consignment (pi_certificate arg)) \<noteq> []"
proof -
  from assms obtain items where i: "build_all (build_all buildTradeLine) (pc_items (ct_consignment (pi_certificate arg))) = Inr items"
    "cert = \<lparr>sf_document = document_of (pi_certificate arg), sf_consignment = consignment_of (ct_consignment (pi_certificate arg)) items\<rparr>"
    "pc_items (ct_consignment (pi_certificate arg)) \<noteq> []"
    by (auto simp: BuildCertificate_def Let_def split: if_splits sum.splits)
  have "list_all2 (list_all2 (\<lambda>x y. buildTradeLine x = Inr y)) (pc_items (ct_consignment (pi_certificate arg))) items"
    using i(1) by (simp add: build_all_iff)
  then have "list_all2 (\<lambda>x y. buildTradeLine x = Inr y) (concat (pc_items (ct_consignment (pi_certificate arg)))) (concat items)"
    by (induction rule: list_all2_induct) (auto intro: list_all2_appendI)
  with i show "list_all2 (\<lambda>x y. buildTradeLine x = Inr y) (concat (pc_items (ct_consignment (pi_certificate arg)))) (concat (sg_items (sf_consignment cert)))"
    "sf_document cert = document_of (pi_certificate arg)" "pc_items (ct_consignment (pi_certificate arg)) \<noteq> []"
    by (simp_all add: consignment_of_def)
qed

lemma map_of_all2: "list_all2 R xs ys \<Longrightarrow> (\<And>x y. R x y \<Longrightarrow> f y = g x) \<Longrightarrow> map f ys = map g xs"
  by (induction rule: list_all2_induct) auto

lemma lines_from_concat: "concat (lines_from build seq coms) = map2 build [seq..<seq + length coms] coms"
  by (induction coms arbitrary: seq) (simp_all add: upt_conv_Cons del: upt_Suc)

lemma lines_from_Nil [simp]: "lines_from build seq coms = [] \<longleftrightarrow> coms = []"
  by (cases coms) simp_all

lemma line_input_sel:
  "pl_sequence (buildTradeLine_input float com seq t r) = seq"
  "pl_scientific (buildTradeLine_input float com seq t r) = asString (obj_get com ''commodity_botanical_name'')"
  "pl_origins (buildTradeLine_input float com seq t r) = [originISO (answerCode (obj_get com ''origin_country''))]"
  "pl_reexport (buildTradeLine_input float com seq t r) =
     map_option (\<lambda>x. x\<lparr>rx_countries := [originISO (answerCode (obj_get com ''origin_country''))]\<rparr>) r"
  by (simp_all add: buildTradeLine_input_def Let_def split: prod.split)

lemma input_items:
  "concat (pc_items (ct_consignment (pi_certificate (BuildInput now float inputs)))) =
     map2 (\<lambda>seq com. buildTradeLine_input float com seq (asString (obj_get (asMap (obj_get inputs ''userform'')) ''disinfestation_treatment''))
        (buildReExport (asMap (obj_get inputs ''userform''))))
       [1..<Suc (length (certified_commodities (asMap (obj_get inputs ''userform'')) (obj_get inputs ''certificate_items'')))]
       (certified_commodities (asMap (obj_get inputs ''userform'')) (obj_get inputs ''certificate_items''))"
  by (simp add: BuildInput_def buildConsignment_def lines_from_concat Let_def del: upt_Suc)

text \<open>Two capital letters.\<close>

definition capital_code :: "string \<Rightarrow> bool" where
  "capital_code c = (length c = 2 \<and> list_all (\<lambda>x. CHR ''A'' \<le> x \<and> x \<le> CHR ''Z'') c)"

lemma upper_capital: "letter c \<Longrightarrow> CHR ''A'' \<le> upper_letter c \<and> upper_letter c \<le> CHR ''Z''"
  by (auto simp: letter_def upper_letter_def less_eq_char_def)

lemma two_letters_capital: "two_letters s \<noteq> [] \<Longrightarrow> capital_code (two_letters s)"
  by (auto simp: two_letters_def capital_code_def isAlpha_def list_all_iff upper_capital split: if_splits)

lemma isoCode_capital: "isoCode s \<noteq> [] \<Longrightarrow> capital_code (isoCode s)"
proof -
  have names: "list_all (\<lambda>(n, code). capital_code code) countryNameToISO" by code_simp
  have "map_of countryNameToISO n = Some code \<Longrightarrow> capital_code code" for n code
    using names map_of_SomeD [of countryNameToISO n code] unfolding list_all_iff by fastforce
  then show "isoCode s \<noteq> [] \<Longrightarrow> capital_code (isoCode s)"
    by (auto simp: isoCode_def Let_def two_letters_capital split: if_splits option.splits)
qed

lemma originISO_capital: "capital_code (originISO s)"
proof -
  have "capital_code exportNPPOCode" by code_simp
  then show ?thesis by (simp add: originISO_def isoCode_capital)
qed

text \<open>The notes of a declaration, for a pair of statements.\<close>

definition statements_of :: "sps_line \<Rightarrow> string \<times> string \<Rightarrow> sps_note list" where
  "statements_of l p = filter (\<lambda>n. sn_subject n \<in> {fst p, snd p}) (tl_packaging l)"

definition statement_pairs :: "(string \<times> string) list" where
  "statement_pairs = [(''RPCOR'', ''RPCTC''), (''RPCPK'', ''RPCRP''), (''RPCOC'', ''RPCNC'')]"

lemma one_of_two: "a = x \<or> a = y \<Longrightarrow> x \<noteq> y \<Longrightarrow> (a = y) = (\<not> a = x)"
  by auto

lemma reexport_pairs:
  assumes "buildReExport uf = Some r"
  shows "rx_true_copy r = (\<not> rx_original r)" and "rx_repacked r = (\<not> rx_packed r)" and "rx_new_containers r = (\<not> rx_original_containers r)"
proof -
  define re where "re = asMap (obj_get uf ''re_export'')"
  note d = assms [unfolded buildReExport_def Let_def re_def [symmetric]]
  have a: "answered_one re ''original_certificate_form'' ''original'' ''certified_true_copy''" "answered_one re ''packing'' ''packed'' ''repacked''"
    "answered_one re ''containers'' ''original'' ''new''" using d by (auto simp only: split: if_splits)
  have r: "rx_original r = (asString (obj_get re ''original_certificate_form'') = ''original'')"
    "rx_true_copy r = (asString (obj_get re ''original_certificate_form'') = ''certified_true_copy'')"
    "rx_packed r = (asString (obj_get re ''packing'') = ''packed'')" "rx_repacked r = (asString (obj_get re ''packing'') = ''repacked'')"
    "rx_original_containers r = (asString (obj_get re ''containers'') = ''original'')" "rx_new_containers r = (asString (obj_get re ''containers'') = ''new'')"
    using d a by (auto split: if_splits)
  have ne: "''original'' \<noteq> ''certified_true_copy''" "''packed'' \<noteq> ''repacked''" "''original'' \<noteq> ''new''" by simp_all
  show "rx_true_copy r = (\<not> rx_original r)" unfolding r(1,2) by (rule one_of_two [OF a(1) [unfolded answered_one_def] ne(1)])
  show "rx_repacked r = (\<not> rx_packed r)" unfolding r(3,4) by (rule one_of_two [OF a(2) [unfolded answered_one_def] ne(2)])
  show "rx_new_containers r = (\<not> rx_original_containers r)" unfolding r(5,6) by (rule one_of_two [OF a(3) [unfolded answered_one_def] ne(3)])
qed

lemma filter_subject: "filter (\<lambda>n. sn_subject n \<in> S) (map (\<lambda>x. textNote k (f x) l) xs) = (if k \<in> S then map (\<lambda>x. textNote k (f x) l) xs else [])"
  by (induction xs) (auto simp: textNote_def)

lemma filter_filled: "filter (\<lambda>n. sn_subject n \<in> S) (filled_note k c l) = (if k \<in> S then filled_note k c l else [])"
  by (simp add: filled_note_def textNote_def)

lemma subject_textNote [simp]: "sn_subject (textNote k c l) = k"
  by (simp add: textNote_def)

lemma reexport_statements:
  "filter (\<lambda>n. sn_subject n \<in> {''RPCOR'', ''RPCTC''}) (reexport_notes r) = [textNote ''RPCOR'' (boolStr (rx_original r)) [], textNote ''RPCTC'' (boolStr (rx_true_copy r)) []]"
  "filter (\<lambda>n. sn_subject n \<in> {''RPCPK'', ''RPCRP''}) (reexport_notes r) = [textNote ''RPCPK'' (boolStr (rx_packed r)) [], textNote ''RPCRP'' (boolStr (rx_repacked r)) []]"
  "filter (\<lambda>n. sn_subject n \<in> {''RPCOC'', ''RPCNC''}) (reexport_notes r) =
     [textNote ''RPCOC'' (boolStr (rx_original_containers r)) [], textNote ''RPCNC'' (boolStr (rx_new_containers r)) []]"
  unfolding reexport_notes_def filter_append filter_subject filter_filled by simp_all

text \<open>An application for a re-export certificate of two commodities, one deselected.\<close>

definition demo_phyto :: "answers" where
  "demo_phyto = [(''certificate_id'', JStr ''PC-1''), (''send_application_documents'', JBool True),
     (''userform'', JObj [(''certificate_type'', JStr ''re-export''), (''importing_country'', JStr ''Maldives - MV''),
        (''re_export'', JObj [(''original_certificate_form'', JStr ''original''), (''packing'', JStr ''repacked''), (''containers'', JStr ''new'')]),
        (''attachments'', JArr [JObj [(''attachment_file_url'', JStr ''files/a.pdf'')]]),
        (''commodities'', JArr [JObj [(''id'', JStr ''1''), (''commodity_description'', JStr ''Cut ferns'')],
           JObj [(''id'', JStr ''2''), (''commodity_description'', JStr ''Cut orchids'')]])]),
     (''certificate_items'', JArr [JObj [(''id'', JStr ''1'')], JObj [(''id'', JStr ''2''), (''include_in_certificate'', JBool False)]])]"

lemma demo_phyto_builds: "\<exists>cert. BuildCertificate (BuildInput ''2025-01-02T00:00:00Z'' (\<lambda>_. ''1'') demo_phyto) = Inr cert"
proof -
  have "\<not> isl (BuildCertificate (BuildInput ''2025-01-02T00:00:00Z'' (\<lambda>_. ''1'') demo_phyto))" by code_simp
  then show ?thesis by (cases "BuildCertificate (BuildInput ''2025-01-02T00:00:00Z'' (\<lambda>_. ''1'') demo_phyto)") simp_all
qed

subsection \<open>Properties\<close>

text \<open>C34: A certificate lists what was selected: one numbered line, in order, for each commodity of the
  application, except exactly those the officer deselected by their ID.\<close>

theorem certificate_lists_selected:
  assumes "BuildCertificate (BuildInput now float inputs) = Inr cert"
    and "coms = certified_commodities (asMap (obj_get inputs ''userform'')) (obj_get inputs ''certificate_items'')"
  shows "map (\<lambda>l. (tl_sequence l, tl_scientific l)) (concat (sg_items (sf_consignment cert))) =
      map2 (\<lambda>n com. (show_nat n, asString (obj_get com ''commodity_botanical_name''))) [1..<Suc (length coms)] coms \<and> coms \<noteq> [] \<and>
    set coms = {com. (\<exists>raw \<in> set (entries_of (obj_get (asMap (obj_get inputs ''userform'')) ''commodities'')). com = asMap (Some raw)) \<and>
      \<not> (\<exists>raw \<in> set (entries_of (obj_get inputs ''certificate_items'')). left_out raw \<and> asString (obj_get com ''id'') \<noteq> [] \<and>
         asString (obj_get (asMap (Some raw)) ''id'') = asString (obj_get com ''id''))}"
proof (intro conjI)
  have l: "buildTradeLine x = Inr y \<Longrightarrow> (tl_sequence y, tl_scientific y) = (show_nat (pl_sequence x), pl_scientific x)" for x y
    by (auto simp: buildTradeLine_def split: if_splits)
  have "map (\<lambda>l. (tl_sequence l, tl_scientific l)) (concat (sg_items (sf_consignment cert))) =
      map (\<lambda>l. (show_nat (pl_sequence l), pl_scientific l)) (concat (pc_items (ct_consignment (pi_certificate (BuildInput now float inputs)))))"
    by (rule map_of_all2 [OF built_lines(1) [OF assms(1)]]) (rule l)
  also have "\<dots> = map2 (\<lambda>n com. (show_nat n, asString (obj_get com ''commodity_botanical_name''))) [1..<Suc (length coms)] coms"
    unfolding input_items assms(2) [symmetric] map_map by (simp add: line_input_sel case_prod_unfold comp_def del: upt_Suc)
  finally show "map (\<lambda>l. (tl_sequence l, tl_scientific l)) (concat (sg_items (sf_consignment cert))) =
      map2 (\<lambda>n com. (show_nat n, asString (obj_get com ''commodity_botanical_name''))) [1..<Suc (length coms)] coms" .
  show "coms \<noteq> []" using built_lines(3) [OF assms(1)] by (simp add: BuildInput_def buildConsignment_def assms(2) Let_def)
  show "set coms = {com. (\<exists>raw \<in> set (entries_of (obj_get (asMap (obj_get inputs ''userform'')) ''commodities'')). com = asMap (Some raw)) \<and>
      \<not> (\<exists>raw \<in> set (entries_of (obj_get inputs ''certificate_items'')). left_out raw \<and> asString (obj_get com ''id'') \<noteq> [] \<and>
         asString (obj_get (asMap (Some raw)) ''id'') = asString (obj_get com ''id''))}"
    by (auto simp: assms(2) certified_commodities_def excludedItemIDs_def image_iff)
qed

theorem certificate_lists_selected_witness:
  "\<exists>cert. BuildCertificate (BuildInput ''2025-01-02T00:00:00Z'' (\<lambda>_. ''1'') demo_phyto) = Inr cert \<and>
    certified_commodities (asMap (obj_get demo_phyto ''userform'')) (obj_get demo_phyto ''certificate_items'') \<noteq> []"
  using demo_phyto_builds certificate_lists_selected [OF _ refl, of "''2025-01-02T00:00:00Z''" "\<lambda>_. ''1''" demo_phyto] by blast

text \<open>C35: A withdrawal tells the importing country about the certificate it had: the document sent again differs
  from the issued one in its status, in carrying no documents and in its time of issue, and its
  envelope in the status alone.\<close>

theorem withdrawal_states_the_same:
  assumes "BuildCertificate (BuildInput now float inputs) = Inr cert" and "\<not> blank later"
  shows "BuildCertificate (withdrawn (BuildInput later float inputs)) =
      Inr (cert\<lparr>sf_document := (sf_document cert)\<lparr>xd_status := ''40'', xd_attachments := [], xd_issued := later\<rparr>\<rparr>) \<and>
    pi_soap (withdrawn (BuildInput later float inputs)) = (pi_soap (BuildInput now float inputs))\<lparr>so_status := 40\<rparr>"
proof -
  have st: "show_int certStatusWithdrawn = ''40''" "certStatusWithdrawn = 40" by code_simp+
  have same: "ct_consignment (pi_certificate (BuildInput later float inputs)) = ct_consignment (pi_certificate (BuildInput now float inputs))"
    "ct_number (pi_certificate (BuildInput later float inputs)) = ct_number (pi_certificate (BuildInput now float inputs))"
    "ct_issued (pi_certificate (BuildInput later float inputs)) = later"
    "pi_soap (BuildInput later float inputs) = pi_soap (BuildInput now float inputs)"
    by (simp_all add: BuildInput_def Let_def)
  have doc: "document_of (pi_certificate (withdrawn (BuildInput later float inputs))) =
      (document_of (pi_certificate (BuildInput now float inputs)))\<lparr>xd_status := ''40'', xd_attachments := [], xd_issued := later\<rparr>"
    by (simp add: document_of_def withdrawn_def BuildInput_def st(1) Let_def)
  have w: "ct_consignment (pi_certificate (withdrawn x)) = ct_consignment (pi_certificate x)" "ct_number (pi_certificate (withdrawn x)) = ct_number (pi_certificate x)"
    "ct_issued (pi_certificate (withdrawn x)) = ct_issued (pi_certificate x)" "pi_soap (withdrawn x) = (pi_soap x)\<lparr>so_status := 40\<rparr>" for x
    by (simp_all add: withdrawn_def st(2))
  from assms(1) obtain items where
    "build_all (build_all buildTradeLine) (pc_items (ct_consignment (pi_certificate (BuildInput now float inputs)))) = Inr items"
    "cert = \<lparr>sf_document = document_of (pi_certificate (BuildInput now float inputs)),
       sf_consignment = consignment_of (ct_consignment (pi_certificate (BuildInput now float inputs))) items\<rparr>"
    "\<not> blank (ct_number (pi_certificate (BuildInput now float inputs)))" "pc_items (ct_consignment (pi_certificate (BuildInput now float inputs))) \<noteq> []"
    by (auto simp: BuildCertificate_def Let_def split: if_splits sum.splits)
  with assms(2) show ?thesis by (simp add: BuildCertificate_def w same doc Let_def)
qed

theorem withdrawal_states_the_same_witness:
  "\<exists>cert. BuildCertificate (BuildInput ''2025-01-02T00:00:00Z'' (\<lambda>_. ''1'') demo_phyto) = Inr cert \<and>
    BuildCertificate (withdrawn (BuildInput ''2025-03-04T00:00:00Z'' (\<lambda>_. ''1'') demo_phyto)) =
      Inr (cert\<lparr>sf_document := (sf_document cert)\<lparr>xd_status := ''40'', xd_attachments := [], xd_issued := ''2025-03-04T00:00:00Z''\<rparr>\<rparr>)"
proof -
  have "\<not> blank ''2025-03-04T00:00:00Z''" by code_simp
  then show ?thesis using demo_phyto_builds withdrawal_states_the_same by blast
qed

text \<open>C36: A re-export certificate never contradicts itself: of the original and the copy, of packed and
  repacked, of the original and new containers, each line states exactly one, or none of the six.\<close>

theorem reexport_statements_consistent:
  assumes "BuildCertificate (BuildInput now float inputs) = Inr cert"
  shows "list_all (\<lambda>l. list_all (\<lambda>p. statements_of l p = []) statement_pairs \<or>
      list_all (\<lambda>p. statements_of l p = [textNote (fst p) ''True'' [], textNote (snd p) ''False'' []] \<or>
        statements_of l p = [textNote (fst p) ''False'' [], textNote (snd p) ''True'' []]) statement_pairs)
    (concat (sg_items (sf_consignment cert)))"
proof -
  have line: "list_all (\<lambda>p. statements_of y p = []) statement_pairs \<or>
      list_all (\<lambda>p. statements_of y p = [textNote (fst p) ''True'' [], textNote (snd p) ''False'' []] \<or>
        statements_of y p = [textNote (fst p) ''False'' [], textNote (snd p) ''True'' []]) statement_pairs"
    if "buildTradeLine x = Inr y" "pl_reexport x = map_option (\<lambda>r. r\<lparr>rx_countries := cs\<rparr>) (buildReExport uf)" for x y uf cs
  proof -
    have t: "tl_packaging y = (if pl_packages x \<noteq> [] then [] else filled_note ''OPTND'' (pl_package_text x) []) @
          (case pl_reexport x of None \<Rightarrow> [] | Some r \<Rightarrow> reexport_notes r)"
      using that(1) by (auto simp: buildTradeLine_def split: if_splits)
    have none: "filter (\<lambda>n. sn_subject n \<in> {a, b}) (if pl_packages x \<noteq> [] then [] else filled_note ''OPTND'' (pl_package_text x) []) = []"
      if "''OPTND'' \<notin> {a, b}" for a b using that by (simp add: filled_note_def)
    show ?thesis
    proof (cases "buildReExport uf")
      case None
      have "statements_of y p = []" if "''OPTND'' \<notin> {fst p, snd p}" for p
        unfolding statements_of_def t \<open>pl_reexport x = _\<close> None option.map(1) option.case(1) append_Nil2 by (rule none [OF that])
      then show ?thesis by (simp add: statement_pairs_def)
    next
      case (Some r)
      have "statements_of y (''RPCOR'', ''RPCTC'') = [textNote ''RPCOR'' (boolStr (rx_original r)) [], textNote ''RPCTC'' (boolStr (rx_true_copy r)) []]"
        "statements_of y (''RPCPK'', ''RPCRP'') = [textNote ''RPCPK'' (boolStr (rx_packed r)) [], textNote ''RPCRP'' (boolStr (rx_repacked r)) []]"
        "statements_of y (''RPCOC'', ''RPCNC'') = [textNote ''RPCOC'' (boolStr (rx_original_containers r)) [], textNote ''RPCNC'' (boolStr (rx_new_containers r)) []]"
        unfolding statements_of_def fst_conv snd_conv t that(2) Some option.map(2) option.case(2) filter_append reexport_statements
        by (subst none; simp)+
      then show ?thesis using reexport_pairs [OF Some] by (simp add: statement_pairs_def boolStr_def)
    qed
  qed
  have "list_all (\<lambda>x. pl_reexport x = map_option (\<lambda>r. r\<lparr>rx_countries := pl_origins x\<rparr>) (buildReExport (asMap (obj_get inputs ''userform''))))
      (concat (pc_items (ct_consignment (pi_certificate (BuildInput now float inputs)))))"
    unfolding input_items by (auto simp: list_all_iff line_input_sel)
  with built_lines(1) [OF assms] show ?thesis
    by (induction rule: list_all2_induct) (use line in \<open>auto simp only: list.pred_inject\<close>)
qed

theorem reexport_statements_consistent_witness:
  "\<exists>cert. BuildCertificate (BuildInput ''2025-01-02T00:00:00Z'' (\<lambda>_. ''1'') demo_phyto) = Inr cert \<and>
    list_all (\<lambda>l. list_all (\<lambda>p. statements_of l p = []) statement_pairs \<or>
      list_all (\<lambda>p. statements_of l p = [textNote (fst p) ''True'' [], textNote (snd p) ''False'' []] \<or>
        statements_of l p = [textNote (fst p) ''False'' [], textNote (snd p) ''True'' []]) statement_pairs)
    (concat (sg_items (sf_consignment cert)))"
  using demo_phyto_builds reexport_statements_consistent by blast

text \<open>C37: Only documents the trader agreed to send travel with a certificate: every document listed is an
  attachment of the application, when the trader sends those, or one of a document's files, when the
  trader sends that document.\<close>

theorem only_consented_documents:
  assumes "a \<in> set (ct_attachments (pi_certificate (BuildInput now float inputs)))"
  shows "saidYes (obj_get inputs ''send_application_documents'') \<and>
      (\<exists>raw \<in> set (entries_of (obj_get (asMap (obj_get inputs ''userform'')) ''attachments'')).
        pa_key a = asString (obj_get (asMap (Some raw)) ''attachment_file_url'')) \<or>
    (\<exists>doc. saidYes (obj_get doc ''send'') \<and> pa_key a \<in> set (documentURLs (obj_get doc ''url'')) \<and>
      (\<exists>name. asMap (obj_get (asMap (obj_get inputs ''documents'')) name) = doc))"
proof -
  have "a \<in> set (buildAttachments (asMap (obj_get inputs ''userform'')) inputs)" using assms by (simp add: BuildInput_def Let_def)
  then show ?thesis
    by (auto simp: buildAttachments_def application_document_def named_documents_def sent_document_def Let_def split: if_splits)
qed

theorem only_consented_documents_witness:
  "\<exists>a. a \<in> set (ct_attachments (pi_certificate (BuildInput [] (\<lambda>_. ''1'') demo_phyto))) \<and>
    (saidYes (obj_get demo_phyto ''send_application_documents'') \<or> (\<exists>doc. saidYes (obj_get doc ''send'')))"
proof -
  have "ct_attachments (pi_certificate (BuildInput [] (\<lambda>_. ''1'') demo_phyto)) = [sent_document ''Supporting Document'' ''files/a.pdf'' []]" by code_simp
  then have "sent_document ''Supporting Document'' ''files/a.pdf'' [] \<in> set (ct_attachments (pi_certificate (BuildInput [] (\<lambda>_. ''1'') demo_phyto)))" by simp
  from only_consented_documents [OF this] this show ?thesis by blast
qed

text \<open>C39: Every country on a certificate is two capital letters: the transit countries, the origins of its lines
  and, where there is one, the country the certificate goes to.\<close>

theorem country_codes_capital:
  "(let c = ct_consignment (pi_certificate (BuildInput now float inputs)) in
     so_to (pi_soap (BuildInput now float inputs)) \<in> insert [] (Collect capital_code) \<and> pc_import c = so_to (pi_soap (BuildInput now float inputs)) \<and>
     list_all capital_code (pc_transit c) \<and> list_all (\<lambda>l. list_all capital_code (pl_origins l)) (concat (pc_items c)))"
proof -
  have "countryCode v = [] \<or> capital_code (countryCode v)" for v unfolding countryCode_def Let_def using two_letters_capital by blast
  moreover have "list_all (\<lambda>l. list_all capital_code (pl_origins l)) (concat (pc_items (ct_consignment (pi_certificate (BuildInput now float inputs)))))"
    unfolding input_items by (auto simp: list_all_iff line_input_sel originISO_capital)
  ultimately show ?thesis by (auto simp: BuildInput_def buildConsignment_def list_all_iff isoCode_capital Let_def)
qed

text \<open>C38: A submission is tried again by itself only when the Hub never answered: an answer, whatever it says,
  ends in accepted or refused, and no outcome is both accepted and to be tried again.\<close>

theorem answered_submission_not_retried:
  "(case hub_Interpret H ''submit'' callErr resp of (state, out) \<Rightarrow>
     obj_get out ''retryable'' = Some (JBool (resp = None \<and> (case callErr of Some (NotCalled _) \<Rightarrow> True | _ \<Rightarrow> False))) \<and>
     (obj_get out ''submitted'' = Some (JBool True)) = (callErr = None \<and> (case resp of None \<Rightarrow> False | Some (status, body) \<Rightarrow>
        200 \<le> status \<and> status < 300 \<and> (case ParseResponse (he_reader H) status body of (r, e) \<Rightarrow> e = None \<and> hub_delivered r))) \<and>
     (state = []) = (case callErr of Some (NotBuilt _) \<Rightarrow> True | _ \<Rightarrow> False))"
proof -
  have t: "obj_get (tracked r out) k = obj_get out k" if "k \<noteq> ''tracking_number''" "k \<noteq> ''tracking_info''" for r out k
    using that by (simp add: tracked_def obj_get_put Let_def split: option.split)
  have s: "ParseResponse X status body = (r, None) \<Longrightarrow> 200 \<le> status \<and> status < 300" for X status body r
    by (auto simp: ParseResponse_def Let_def split: prod.splits if_splits)
  have g: "obj_get [(''submitted'', x), (''retryable'', y), z] ''submitted'' = Some x" "obj_get [(''submitted'', x), (''retryable'', y), z] ''retryable'' = Some y"
    for x y z by (simp_all add: obj_get_def)
  consider (built) m where "callErr = Some (NotBuilt m)" | (silent) "\<forall>m. callErr \<noteq> Some (NotBuilt m)" "resp = None"
    | (answered) status body r e where "\<forall>m. callErr \<noteq> Some (NotBuilt m)" "resp = Some (status, body)" "ParseResponse (he_reader H) status body = (r, e)"
    by (metis not_None_eq surj_pair)
  then show ?thesis
  proof cases
    case built
    then show ?thesis by (auto simp: hub_Interpret_def interpretSubmit_def obj_get_def)
  next
    case silent
    then show ?thesis
      by (auto simp: hub_Interpret_def interpretSubmit_def parseHubResponse_def other_failure_def t g Let_def split: option.split hub_failure.split)
  next
    case answered
    then show ?thesis using s [of "he_reader H" status body r]
      by (auto simp: hub_Interpret_def interpretSubmit_def parseHubResponse_def other_failure_def t g Let_def split: option.split hub_failure.split)
  qed
qed



end
