(* ===== verification/Spec2Isabelle.thy ===== *)
theory Spec2Isabelle
  imports Boat_Notes Edge_Verification External_Review Govpay_Gateway Payment_Steps Task_Http Trade_Steps Workflow_Admin Edge_Webhook Payload_Extension Phyto_Hub
begin

text \<open>
  Verification of the NSW Sri Lanka application (OpenNSW/nsw-srilanka), the Go service traders
  and agencies use for export and import cases. The service runs workflows on a core library
  (its engine, task runtime and HTTP authentication are not part of this repository) and adds
  to it who may act on a task, the cases and their flows, the files of task data, and the
  exchanges with external systems. This development models those additions.

  \<^bold>\<open>Parts and how they interact.\<close> A request is authenticated by the core library and becomes
  a principal (\<open>internal/authn\<close>). Reading or executing a task goes through the gate
  (\<open>internal/tasks/authzgate\<close>), which works out the roles the caller owns the case in from the
  case's parties (\<open>internal/caseparty\<close>) and asks the read policy (\<open>internal/tasks/readauthz\<close>)
  or the write policy (\<open>internal/tasks/extensions/authz\<close>). Files named in task data leave as
  sealed references and come back through them (\<open>internal/tasks/filefields\<close>,
  \<open>internal/tasks/file_binding.go\<close>, \<open>internal/storage\<close>). A flow is started on a case by
  \<open>internal/caseflow\<close>, which records it before the engine hears of it. Customs
  (\<open>external-integration/customs/asycuda\<close>) answers submissions through one webhook, whose
  callbacks move the declaration and dispatch note tables and release the tasks the engine
  has parked.

  \<^bold>\<open>Theories, in the order they build on each other.\<close>

  \<^item> \<open>NSW_Prelude\<close>: Go strings as byte lists with the library functions the source uses
    (trimming, splitting, joining, \<open>strconv.Atoi\<close>), results as sums, shared list lemmas.
  \<^item> \<open>Go_Json\<close>: decoded JSON and the typed decoding of \<open>encoding/json\<close>.
  \<^item> \<open>Principals\<close>: \<open>internal/authn/principal.go\<close> and the principal \<open>manager.go\<close> builds.
  \<^item> \<open>Case_Parties\<close>: \<open>internal/caseparty/caseparty.go\<close>, the table \<open>case_parties\<close>.
  \<^item> \<open>Task_Authz\<close>: \<open>taskauthz\<close>, \<open>readauthz\<close> and the authz extension; its lemmas say which
    callers a read admits, in which role, and exactly which commands the write policy lets
    through.
  \<^item> \<open>Task_Gate\<close>: \<open>authzgate/middleware.go\<close>, joined with the parties.
  \<^item> \<open>Case_Store\<close>: \<open>caseflow/repository.go\<close>; the rows of \<open>cases\<close>, \<open>case_flows\<close> and
    \<open>case_parties\<close>, every transaction an atomic step that a database fault leaves undone. The
    locale \<open>flow_book\<close> is what the service relies on, interpreted on the repository as \<open>repo\<close>.
    Its properties are invariants over any history of repository calls.
  \<^item> \<open>Case_Flows\<close>: \<open>caseflow/service.go\<close> over the repository and the engine, with the trace of
    engine calls; safety and progress of starting, retrying and completing flows.
  \<^item> \<open>Flow_Config\<close>: \<open>caseflow/config.go\<close> and \<open>internal/catalog\<close>; validation and lookups.
  \<^item> \<open>Client_Flows\<close>: \<open>caseflow/client_handler.go\<close>, the route machine clients start flows by.
  \<^item> \<open>File_Fields\<close>: \<open>filefields.go\<close>, the paths of declared files and the in-place walk.
  \<^item> \<open>File_Access\<close>: \<open>storage/filetoken\<close> and \<open>storage/fileaccess\<close>; the JWE library is a
    parameter whose seal-then-open law is a named hypothesis.
  \<^item> \<open>File_Binding\<close>: \<open>tasks/file_binding.go\<close>, views of task data and their way back.
  \<^item> \<open>Edge_Documents\<close>: registered references, the two document tables (one polymorphic model,
    the locale \<open>document_table\<close> interpreted as \<open>doc\<close>), how rows move over a history, and the
    search for parked tasks.
  \<^item> \<open>Edge_Text\<close>: texts and payload parts the callbacks write.
  \<^item> \<open>Cusdec_Service\<close>, \<open>Cdn_Service\<close>: the callback services of declarations and dispatch notes.
    A call reads a row, may complete one parked step, may open one flow and may write the row;
    the state holds the table and the traces of completed steps and opened flows.
  \<^item> \<open>Edge_Requests\<close>: the decoding of the callbacks' bodies.
  \<^item> \<open>Edge_Webhook\<close>: \<open>handler.go\<close> and \<open>retry.go\<close>; statuses, held callbacks and their retries.

  \<^bold>\<open>Parameters.\<close> What is not in the repository is an argument: the workflow engine and the task
  store (records of functions answering with an error or a value), database faults (a schedule
  or a field of the environment of a call), the JWE and JSON parsers, SHA-256, and three
  formatting functions of the Go library. Hypotheses about them are stated in the theorems that
  need them, and witnesses instantiate them.

  \<^bold>\<open>Fuel.\<close> The only loop with fuel is the retry loop of \<open>Edge_Webhook\<close>, which in the source
  ends by the clock: with the default timing (first after 5 seconds, doubling up to 10 minutes,
  for 24 hours) 149 attempts are enough, because the waits before a 150th add up to more than a
  day. All other recursion is structural or has a measure.

  \<^bold>\<open>Not modelled.\<close> Wiring (\<open>cmd\<close>, \<open>internal/bootstrap\<close>, configuration loading, database and
  telemetry set-up), plain delegation to the database or to the core library, response bodies,
  logging and tracing. Also not yet modelled, in the order planned: the claim and task routes
  (\<open>internal/tasks/claim_handler.go\<close>, \<open>http_handler.go\<close>), consignments, the payload schema
  extension, reference-number and payment plugins, the replay engine and workflow
  administration, the submissions to ASYCUDA, and the ephyto, SLPA and GovPay integrations.
\<close>

end
